(* ===== verification/Prelude.thy ===== *)
theory Prelude
  imports Main "HOL-Library.Word"
begin

unbundle bit_operations_syntax

text \<open>
  The shared base of the development: types, collections of facts, and models of the few pieces of
  the C and C++ standard library that the sources call. \<open>std::string\<close> is a HOL \<open>string\<close> (a list of
  bytes); \<open>find\<close>, \<open>substr\<close>, \<open>erase\<close>, \<open>atoi\<close>, \<open>strstr\<close>, \<open>getline\<close> and \<open>isspace\<close> are written out as the
  standard describes them. \<open>None\<close> as the result of a search is \<open>std::string::npos\<close>. A C \<open>int\<close> is an
  \<open>int\<close> reduced by \<open>int32\<close> wherever an operation of the source can leave its range.
\<close>

section \<open>Types and collections\<close>

type_synonym byte = "8 word"

text \<open>An object address. Address 0 is the null pointer.\<close>

type_synonym addr = nat

abbreviation (input) nullptr :: addr where
  "nullptr \<equiv> 0"

named_theorems inv_defs \<open>definitions of the invariants\<close>
named_theorems codec_simps \<open>byte and word facts used by the frame codec\<close>

section \<open>Machine integers\<close>

text \<open>A value stored in a 32-bit \<open>int\<close> (two's complement wrap-around).\<close>

definition int32 :: "int \<Rightarrow> int" where
  "int32 x = (x + 2147483648) mod 4294967296 - 2147483648"

text \<open>A value stored in a 64-bit \<open>size_t\<close>.\<close>

definition sizet :: "int \<Rightarrow> nat" where
  "sizet x = nat (x mod 18446744073709551616)"

text \<open>\<open>std::string::npos\<close> is the largest \<open>size_t\<close>.\<close>

definition npos :: nat where
  "npos = 18446744073709551615"

lemma int32_id [simp]: "- 2147483648 \<le> x \<Longrightarrow> x < 2147483648 \<Longrightarrow> int32 x = x"
  by (simp add: int32_def)

lemma int32_range: "- 2147483648 \<le> int32 x \<and> int32 x < 2147483648"
proof -
  have "0 \<le> (x + 2147483648) mod 4294967296" "(x + 2147483648) mod 4294967296 < 4294967296"
    by simp_all
  then show ?thesis unfolding int32_def by linarith
qed

lemma sizet_id [simp]: "n < 18446744073709551616 \<Longrightarrow> sizet (int n) = n"
  by (simp add: sizet_def)

section \<open>Characters and C strings\<close>

text \<open>\<open>isspace\<close> in the C locale: space, \t, \n, \v, \f, \r.\<close>

definition is_space :: "char \<Rightarrow> bool" where
  "is_space c \<longleftrightarrow> of_char c = (32 :: nat) \<or> (9 \<le> (of_char c :: nat) \<and> of_char c \<le> (13 :: nat))"

definition is_digit :: "char \<Rightarrow> bool" where
  "is_digit c \<longleftrightarrow> 48 \<le> (of_char c :: nat) \<and> of_char c \<le> (57 :: nat)"

definition digit_val :: "char \<Rightarrow> int" where
  "digit_val c = int (of_char c) - 48"

text \<open>A C string as \<open>strlen\<close>, \<open>std::string(const char *)\<close> or \<open>strstr\<close> read it: up to the first NUL.\<close>

definition c_str :: "string \<Rightarrow> string" where
  "c_str s = takeWhile (\<lambda>c. of_char c \<noteq> (0 :: nat)) s"

fun digits_prefix :: "int \<Rightarrow> string \<Rightarrow> int" where
  "digits_prefix acc [] = acc"
| "digits_prefix acc (c # cs) = (if is_digit c then digits_prefix (acc * 10 + digit_val c) cs else acc)"

text \<open>\<open>atoi\<close>: skip white space, read an optional sign and the longest run of digits.\<close>

definition atoi :: "string \<Rightarrow> int" where
  "atoi s =
     (case dropWhile is_space (c_str s) of
        [] \<Rightarrow> 0
      | c # cs \<Rightarrow>
          int32 (if c = CHR ''-'' then - digits_prefix 0 cs
                 else if c = CHR ''+'' then digits_prefix 0 cs
                 else digits_prefix 0 (c # cs)))"

section \<open>\<open>std::string\<close>\<close>

text \<open>\<open>s.find(key, from)\<close>: the least position at or after \<open>from\<close> where \<open>key\<close> occurs.\<close>

fun is_prefix :: "'a list \<Rightarrow> 'a list \<Rightarrow> bool" where
  "is_prefix [] ys = True"
| "is_prefix (x # xs) [] = False"
| "is_prefix (x # xs) (y # ys) = (x = y \<and> is_prefix xs ys)"

fun find_at :: "'a list \<Rightarrow> 'a list \<Rightarrow> nat \<Rightarrow> nat option" where
  "find_at key [] pos = (if key = [] then Some pos else None)"
| "find_at key (c # cs) pos =
     (if is_prefix key (c # cs) then Some pos else find_at key cs (Suc pos))"

definition str_find :: "'a list \<Rightarrow> 'a list \<Rightarrow> nat \<Rightarrow> nat option" where
  "str_find s key from = (if from \<le> length s then find_at key (drop from s) from else None)"

text \<open>\<open>s.substr(pos, len)\<close>, for \<open>pos \<le> size()\<close>.\<close>

definition substr :: "'a list \<Rightarrow> nat \<Rightarrow> nat \<Rightarrow> 'a list" where
  "substr s pos len = take len (drop pos s)"

definition strstr :: "string \<Rightarrow> string \<Rightarrow> bool" where
  "strstr s key \<longleftrightarrow> str_find (c_str s) key 0 \<noteq> None"

lemma is_prefix_iff: "is_prefix xs ys \<longleftrightarrow> (\<exists>zs. ys = xs @ zs)"
  by (induction xs ys rule: is_prefix.induct) auto

lemma is_prefix_take: "is_prefix xs ys \<longleftrightarrow> take (length xs) ys = xs"
  by (induction xs ys rule: is_prefix.induct) auto

lemma find_at_Some:
  assumes "find_at key s p = Some q"
  shows "p \<le> q \<and> q + length key \<le> p + length s \<and> take (length key) (drop (q - p) s) = key"
  using assms
proof (induction key s p rule: find_at.induct)
  case (1 key pos)
  then show ?case by (auto split: if_splits)
next
  case (2 key c cs pos)
  show ?case
  proof (cases "is_prefix key (c # cs)")
    case True
    with "2.prems" have "q = pos" by simp
    with True show ?thesis by (auto simp: is_prefix_take dest: arg_cong [where f = length])
  next
    case False
    with "2.prems" have "find_at key cs (Suc pos) = Some q" by simp
    with "2.IH" [OF False] have
      *: "Suc pos \<le> q" "q + length key \<le> Suc pos + length cs"
         "take (length key) (drop (q - Suc pos) cs) = key" by auto
    then have "q - pos = Suc (q - Suc pos)" by simp
    with * show ?thesis by simp
  qed
qed

lemma find_at_first:
  assumes "find_at key s p = Some q" and "p \<le> i" and "i < q"
  shows "\<not> is_prefix key (drop (i - p) s)"
  using assms
proof (induction key s p arbitrary: i rule: find_at.induct)
  case (1 key pos)
  then show ?case by (auto split: if_splits)
next
  case (2 key c cs pos)
  show ?case
  proof (cases "is_prefix key (c # cs)")
    case True
    with "2.prems" show ?thesis by simp
  next
    case False
    show ?thesis
    proof (cases "i = pos")
      case True
      with False show ?thesis by simp
    next
      case neq: False
      with "2.prems" have "i - pos = Suc (i - Suc pos)" by simp
      moreover from "2.prems" False neq have "\<not> is_prefix key (drop (i - Suc pos) cs)"
        by (intro "2.IH") auto
      ultimately show ?thesis by simp
    qed
  qed
qed

lemma find_at_None:
  assumes "find_at key s p = None"
  shows "\<not> is_prefix key (drop i s)"
  using assms
proof (induction key s p arbitrary: i rule: find_at.induct)
  case (1 key pos)
  then show ?case by (cases key) (auto split: if_splits)
next
  case (2 key c cs pos)
  then show ?case by (cases i) (auto split: if_splits)
qed

lemma str_find_Some:
  assumes "str_find s key from = Some q"
  shows "from \<le> q \<and> q + length key \<le> length s \<and> substr s q (length key) = key"
proof -
  from assms have le: "from \<le> length s" and f: "find_at key (drop from s) from = Some q"
    by (auto simp: str_find_def split: if_splits)
  from find_at_Some [OF f] le show ?thesis by (auto simp: substr_def)
qed

lemma str_find_first:
  assumes "str_find s key from = Some q" and "from \<le> i" and "i < q"
  shows "substr s i (length key) \<noteq> key"
proof -
  from assms have f: "find_at key (drop from s) from = Some q"
    by (auto simp: str_find_def split: if_splits)
  from find_at_first [OF f assms(2,3)] assms(2) show ?thesis
    by (simp add: is_prefix_take substr_def)
qed

lemma str_find_None:
  assumes "str_find s key from = None" and "from \<le> i" and "i \<le> length s"
  shows "substr s i (length key) \<noteq> key"
proof -
  from assms have f: "find_at key (drop from s) from = None"
    by (auto simp: str_find_def split: if_splits)
  from find_at_None [OF f, of "i - from"] assms(2) show ?thesis
    by (simp add: is_prefix_take substr_def)
qed

text \<open>\<open>std::getline\<close> over a whole stream: the pieces between delimiters, without a last empty piece.\<close>

fun getlines :: "char \<Rightarrow> string \<Rightarrow> string \<Rightarrow> string list" where
  "getlines d acc [] = (if acc = [] then [] else [rev acc])"
| "getlines d acc (c # cs) = (if c = d then rev acc # getlines d [] cs else getlines d (c # acc) cs)"

section \<open>Decimal numbers\<close>

text \<open>\<open>%d\<close> of \<open>printf\<close> for a non-negative number, and for an \<open>int\<close>.\<close>

fun dec :: "nat \<Rightarrow> string" where
  "dec n = (if n < 10 then [char_of (48 + n)] else dec (n div 10) @ [char_of (48 + n mod 10)])"

declare dec.simps [simp del]

definition dec_int :: "int \<Rightarrow> string" where
  "dec_int i = (if i < 0 then ''-'' @ dec (nat (- i)) else dec (nat i))"

lemma is_digit_char_of [simp]: "(n :: nat) < 10 \<Longrightarrow> is_digit (char_of (48 + n))"
  by (simp add: is_digit_def)

lemma digit_val_char_of [simp]: "n < 10 \<Longrightarrow> digit_val (char_of (48 + n)) = int n"
  by (simp add: digit_val_def)

lemma dec_neq_Nil [simp]: "dec n \<noteq> []"
  by (subst dec.simps) simp

lemma digits_prefix_append:
  "list_all is_digit ds \<Longrightarrow> digits_prefix acc (ds @ rest) = digits_prefix (digits_prefix acc ds) rest"
  by (induction acc ds rule: digits_prefix.induct) auto

lemma dec_digits: "list_all is_digit (dec n)"
proof (induction n rule: dec.induct)
  case (1 n)
  show ?case by (cases "n < 10") (use 1 in \<open>simp_all add: dec.simps [of n]\<close>)
qed

lemma digits_prefix_dec: "digits_prefix 0 (dec n) = int n"
proof (induction n rule: dec.induct)
  case (1 n)
  show ?case
  proof (cases "n < 10")
    case True
    then show ?thesis by (simp add: dec.simps [of n])
  next
    case False
    then have "dec n = dec (n div 10) @ [char_of (48 + n mod 10)]" by (simp add: dec.simps [of n])
    moreover have "int (n div 10) * 10 + int (n mod 10) = int n" by presburger
    ultimately show ?thesis
      using 1 [OF False] digits_prefix_append [OF dec_digits, of 0 "n div 10" "[char_of (48 + n mod 10)]"]
      by simp
  qed
qed

text \<open>Reading back a printed number that is followed by no digit.\<close>

lemma digits_prefix_dec_append:
  assumes "rest = [] \<or> \<not> is_digit (hd rest)"
  shows "digits_prefix 0 (dec n @ rest) = int n"
  using assms digits_prefix_append [OF dec_digits, of 0 n rest]
  by (cases rest) (simp_all add: digits_prefix_dec)

lemma digit_not_space: "is_digit c \<Longrightarrow> \<not> is_space c"
  by (auto simp: is_digit_def is_space_def)

lemma digit_not_sign: "is_digit c \<Longrightarrow> c \<noteq> CHR ''-'' \<and> c \<noteq> CHR ''+''"
  by (auto simp: is_digit_def)

lemma dec_Cons: "\<exists>c cs. dec n = c # cs \<and> is_digit c \<and> list_all is_digit cs"
  using dec_digits [of n] dec_neq_Nil [of n] by (cases "dec n") auto

lemma c_str_id: "list_all (\<lambda>c. of_char c \<noteq> (0 :: nat)) s \<Longrightarrow> c_str s = s"
  by (auto simp: c_str_def takeWhile_eq_all_conv list_all_iff)

lemma digit_not_nul: "is_digit c \<Longrightarrow> of_char c \<noteq> (0 :: nat)"
  by (simp add: is_digit_def)

lemma c_str_append:
  "list_all (\<lambda>c. of_char c \<noteq> (0 :: nat)) s \<Longrightarrow> c_str (s @ t) = s @ c_str t"
  by (auto simp: c_str_def list_all_iff takeWhile_append2)

lemma atoi_dec:
  assumes "rest = [] \<or> \<not> is_digit (hd rest)" and "n < 2147483648"
  shows "atoi (dec n @ rest) = int n"
proof -
  have nul: "list_all (\<lambda>c. of_char c \<noteq> (0 :: nat)) (dec n)"
    using dec_digits [of n] by (auto simp: list_all_iff is_digit_def)
  have r: "c_str rest = [] \<or> \<not> is_digit (hd (c_str rest))"
    using assms(1) by (cases rest) (auto simp: c_str_def)
  obtain c cs where d: "dec n = c # cs" "is_digit c" using dec_Cons by blast
  then have "dropWhile is_space (dec n @ c_str rest) = dec n @ c_str rest"
    by (simp add: digit_not_space)
  then show ?thesis
    unfolding atoi_def c_str_append [OF nul]
    using digits_prefix_dec_append [OF r, of n] d digit_not_sign [OF d(2)] assms(2) by simp
qed

lemma dec_length: "n < 10 ^ k \<Longrightarrow> 0 < k \<Longrightarrow> length (dec n) \<le> k"
proof (induction k arbitrary: n)
  case (Suc k)
  show ?case
  proof (cases "n < 10")
    case False
    then have "0 < k" "n div 10 < 10 ^ k"
      using Suc.prems by (cases k; simp add: less_mult_imp_div_less mult.commute)+
    with Suc.IH [of "n div 10"] False show ?thesis by (simp add: dec.simps [of n])
  qed (simp add: dec.simps [of n])
qed simp

section \<open>Sequences of steps\<close>

text \<open>Runs the steps of a list in order, each on the state the one before left; \<open>None\<close> stops the run.\<close>

fun run_opt :: "('a \<Rightarrow> 's \<Rightarrow> 's option) \<Rightarrow> 'a list \<Rightarrow> 's \<Rightarrow> 's option" where
  "run_opt step [] s = Some s"
| "run_opt step (x # xs) s = (case step x s of None \<Rightarrow> None | Some s' \<Rightarrow> run_opt step xs s')"

text \<open>An invariant that every step keeps, and under which no step stops, holds of the whole run.\<close>

lemma run_opt_inv:
  assumes "I s" and "list_all ok xs"
    and "\<And>x s. ok x \<Longrightarrow> I s \<Longrightarrow> \<exists>s'. step x s = Some s' \<and> I s'"
  shows "\<exists>s'. run_opt step xs s = Some s' \<and> I s'"
  using assms(1,2)
proof (induction xs arbitrary: s)
  case (Cons x xs)
  with assms(3) [of x s] show ?case by auto
qed simp

text \<open>
  A contract that several components share: once \<open>dead\<close> holds, no step changes the \<open>view\<close>. Runs then do not
  change it either, whatever steps come and in whatever order.
\<close>

locale absorbing =
  fixes step :: "'op \<Rightarrow> 's \<Rightarrow> 's option" and dead :: "'s \<Rightarrow> bool" and view :: "'s \<Rightarrow> 'v"
  assumes step_dead: "dead s \<Longrightarrow> step op s = Some s' \<Longrightarrow> dead s' \<and> view s' = view s"
begin

lemma run_dead:
  assumes "dead s" and "run_opt step ops s = Some s'"
  shows "dead s' \<and> view s' = view s"
  using assms
proof (induction ops arbitrary: s)
  case (Cons op ops)
  then obtain s1 where "step op s = Some s1" "run_opt step ops s1 = Some s'" by (auto split: option.splits)
  with Cons step_dead [OF Cons.prems(1)] show ?case by metis
qed simp

lemma run_dead_append:
  assumes "run_opt step (xs @ ys) s = Some s'" and "run_opt step xs s = Some s1" and "dead s1"
  shows "view s' = view s1"
proof -
  have "run_opt step ys s1 = Some s'"
    using assms(1,2) by (induction xs arbitrary: s) (auto split: option.splits)
  with assms(3) show ?thesis using run_dead by blast
qed

end

section \<open>Text and bytes\<close>

definition bytes_of :: "string \<Rightarrow> byte list" where
  "bytes_of s = map (\<lambda>c. of_nat (of_char c)) s"

definition string_of :: "byte list \<Rightarrow> string" where
  "string_of bs = map (\<lambda>b. char_of (unat b)) bs"

lemma length_bytes_of [simp]: "length (bytes_of s) = length s"
  by (simp add: bytes_of_def)

lemma length_string_of [simp]: "length (string_of bs) = length bs"
  by (simp add: string_of_def)

lemma string_of_bytes_of [simp]: "string_of (bytes_of s) = s"
  by (simp add: string_of_def bytes_of_def unat_of_nat map_idI)

end
