(* ===== verification/NlsGlobal.thy ===== *)
theory NlsGlobal
  imports Prelude
begin

text \<open>
  The return codes and error codes of the SDK (\<open>framework/common/nlsGlobal.h\<close>). A C++ enumerator is
  an integer constant, so each is an abbreviation of its value; \<open>NlsRetCode\<close> and \<open>NlsErrorCode\<close> are the
  two enumerations as tables. Functions of the SDK return \<open>-(Code)\<close> on failure, written \<open>- Code\<close> here,
  and callers compare a result with \<open>-(Code)\<close>: that comparison identifies the failure because the
  values of the enumerators are distinct and positive.
\<close>

section \<open>Return codes\<close>

abbreviation (input) Success :: int where "Success \<equiv> 0"
abbreviation (input) DefaultError :: int where "DefaultError \<equiv> 10"
abbreviation (input) JsonParseFailed :: int where "JsonParseFailed \<equiv> 11"
abbreviation (input) JsonObjectError :: int where "JsonObjectError \<equiv> 12"
abbreviation (input) MallocFailed :: int where "MallocFailed \<equiv> 13"
abbreviation (input) ReallocFailed :: int where "ReallocFailed \<equiv> 14"
abbreviation (input) InvalidInputParam :: int where "InvalidInputParam \<equiv> 15"
abbreviation (input) InvalidLogLevel :: int where "InvalidLogLevel \<equiv> 50"
abbreviation (input) InvalidLogFileSize :: int where "InvalidLogFileSize \<equiv> 51"
abbreviation (input) InvalidLogFileNum :: int where "InvalidLogFileNum \<equiv> 52"
abbreviation (input) EncoderExistent :: int where "EncoderExistent \<equiv> 100"
abbreviation (input) EncoderInexistent :: int where "EncoderInexistent \<equiv> 101"
abbreviation (input) OpusEncoderCreateFailed :: int where "OpusEncoderCreateFailed \<equiv> 102"
abbreviation (input) OggOpusEncoderCreateFailed :: int where "OggOpusEncoderCreateFailed \<equiv> 103"
abbreviation (input) InvalidEncoderType :: int where "InvalidEncoderType \<equiv> 104"
abbreviation (input) OggOpusInvalidState :: int where "OggOpusInvalidState \<equiv> 110"
abbreviation (input) OggOpusCreateFailed :: int where "OggOpusCreateFailed \<equiv> 111"
abbreviation (input) OggOpusStartFailed :: int where "OggOpusStartFailed \<equiv> 112"
abbreviation (input) OggOpusEncodeFailed :: int where "OggOpusEncodeFailed \<equiv> 113"
abbreviation (input) OggOpusDecodeFailed :: int where "OggOpusDecodeFailed \<equiv> 114"
abbreviation (input) OggOpusStopFailed :: int where "OggOpusStopFailed \<equiv> 115"
abbreviation (input) EventClientEmpty :: int where "EventClientEmpty \<equiv> 150"
abbreviation (input) SelectThreadFailed :: int where "SelectThreadFailed \<equiv> 151"
abbreviation (input) StartCommandFailed :: int where "StartCommandFailed \<equiv> 160"
abbreviation (input) InvokeStartFailed :: int where "InvokeStartFailed \<equiv> 161"
abbreviation (input) InvokeSendAudioFailed :: int where "InvokeSendAudioFailed \<equiv> 162"
abbreviation (input) InvalidOpusFrameSize :: int where "InvalidOpusFrameSize \<equiv> 163"
abbreviation (input) InvokeStopFailed :: int where "InvokeStopFailed \<equiv> 164"
abbreviation (input) InvokeCancelFailed :: int where "InvokeCancelFailed \<equiv> 165"
abbreviation (input) InvokeStControlFailed :: int where "InvokeStControlFailed \<equiv> 166"
abbreviation (input) InvokeSendTextFailed :: int where "InvokeSendTextFailed \<equiv> 167"
abbreviation (input) InvokeTimeout :: int where "InvokeTimeout \<equiv> 168"
abbreviation (input) InvalidStatusWhenReleasing :: int where "InvalidStatusWhenReleasing \<equiv> 169"
abbreviation (input) NlsEventEmpty :: int where "NlsEventEmpty \<equiv> 200"
abbreviation (input) NewNlsEventFailed :: int where "NewNlsEventFailed \<equiv> 201"
abbreviation (input) NlsEventMsgEmpty :: int where "NlsEventMsgEmpty \<equiv> 202"
abbreviation (input) InvalidNlsEventMsgType :: int where "InvalidNlsEventMsgType \<equiv> 203"
abbreviation (input) InvalidNlsEventMsgStatusCode :: int where "InvalidNlsEventMsgStatusCode \<equiv> 204"
abbreviation (input) InvalidNlsEventMsgHeader :: int where "InvalidNlsEventMsgHeader \<equiv> 205"
abbreviation (input) CancelledExitStatus :: int where "CancelledExitStatus \<equiv> 250"
abbreviation (input) InvalidWorkStatus :: int where "InvalidWorkStatus \<equiv> 251"
abbreviation (input) InvalidNodeQueue :: int where "InvalidNodeQueue \<equiv> 252"
abbreviation (input) InvalidRequestParams :: int where "InvalidRequestParams \<equiv> 300"
abbreviation (input) RequestEmpty :: int where "RequestEmpty \<equiv> 301"
abbreviation (input) InvalidRequest :: int where "InvalidRequest \<equiv> 302"
abbreviation (input) SetParamsEmpty :: int where "SetParamsEmpty \<equiv> 303"
abbreviation (input) GetHttpHeaderFailed :: int where "GetHttpHeaderFailed \<equiv> 350"
abbreviation (input) HttpGotBadStatus :: int where "HttpGotBadStatus \<equiv> 351"
abbreviation (input) WsResponsePackageFailed :: int where "WsResponsePackageFailed \<equiv> 352"
abbreviation (input) WsResponsePackageEmpty :: int where "WsResponsePackageEmpty \<equiv> 353"
abbreviation (input) WsRequestPackageEmpty :: int where "WsRequestPackageEmpty \<equiv> 354"
abbreviation (input) UnknownWsFrameHeadType :: int where "UnknownWsFrameHeadType \<equiv> 355"
abbreviation (input) InvalidWsFrameHeaderSize :: int where "InvalidWsFrameHeaderSize \<equiv> 356"
abbreviation (input) InvalidWsFrameHeaderBody :: int where "InvalidWsFrameHeaderBody \<equiv> 357"
abbreviation (input) InvalidWsFrameBody :: int where "InvalidWsFrameBody \<equiv> 358"
abbreviation (input) WsFrameBodyEmpty :: int where "WsFrameBodyEmpty \<equiv> 359"
abbreviation (input) InvalidWsFrameCloseCode :: int where "InvalidWsFrameCloseCode \<equiv> 360"
abbreviation (input) NodeEmpty :: int where "NodeEmpty \<equiv> 400"
abbreviation (input) InvaildNodeStatus :: int where "InvaildNodeStatus \<equiv> 401"
abbreviation (input) GetAddrinfoFailed :: int where "GetAddrinfoFailed \<equiv> 402"
abbreviation (input) ConnectFailed :: int where "ConnectFailed \<equiv> 403"
abbreviation (input) InvalidDnsSource :: int where "InvalidDnsSource \<equiv> 404"
abbreviation (input) ParseUrlFailed :: int where "ParseUrlFailed \<equiv> 405"
abbreviation (input) SslHandshakeFailed :: int where "SslHandshakeFailed \<equiv> 406"
abbreviation (input) SslCtxEmpty :: int where "SslCtxEmpty \<equiv> 407"
abbreviation (input) SslNewFailed :: int where "SslNewFailed \<equiv> 408"
abbreviation (input) SslSetFailed :: int where "SslSetFailed \<equiv> 409"
abbreviation (input) SslConnectFailed :: int where "SslConnectFailed \<equiv> 410"
abbreviation (input) SslWriteFailed :: int where "SslWriteFailed \<equiv> 411"
abbreviation (input) SslReadSysError :: int where "SslReadSysError \<equiv> 412"
abbreviation (input) SslReadFailed :: int where "SslReadFailed \<equiv> 413"
abbreviation (input) SocketFailed :: int where "SocketFailed \<equiv> 414"
abbreviation (input) SetSocketoptFailed :: int where "SetSocketoptFailed \<equiv> 415"
abbreviation (input) SocketConnectFailed :: int where "SocketConnectFailed \<equiv> 416"
abbreviation (input) SocketWriteFailed :: int where "SocketWriteFailed \<equiv> 417"
abbreviation (input) SocketReadFailed :: int where "SocketReadFailed \<equiv> 418"
abbreviation (input) NlsReceiveFailed :: int where "NlsReceiveFailed \<equiv> 430"
abbreviation (input) NlsReceiveEmpty :: int where "NlsReceiveEmpty \<equiv> 431"
abbreviation (input) ReadFailed :: int where "ReadFailed \<equiv> 432"
abbreviation (input) NlsSendFailed :: int where "NlsSendFailed \<equiv> 433"
abbreviation (input) NewOutputBufferFailed :: int where "NewOutputBufferFailed \<equiv> 434"
abbreviation (input) NlsEncodingFailed :: int where "NlsEncodingFailed \<equiv> 435"
abbreviation (input) EventEmpty :: int where "EventEmpty \<equiv> 436"
abbreviation (input) EvbufferTooMuch :: int where "EvbufferTooMuch \<equiv> 437"
abbreviation (input) EvutilSocketFalied :: int where "EvutilSocketFalied \<equiv> 438"
abbreviation (input) InvalidExitStatus :: int where "InvalidExitStatus \<equiv> 439"
abbreviation (input) InvalidAkId :: int where "InvalidAkId \<equiv> 450"
abbreviation (input) InvalidAkSecret :: int where "InvalidAkSecret \<equiv> 451"
abbreviation (input) InvalidAppKey :: int where "InvalidAppKey \<equiv> 452"
abbreviation (input) InvalidDomain :: int where "InvalidDomain \<equiv> 453"
abbreviation (input) InvalidAction :: int where "InvalidAction \<equiv> 454"
abbreviation (input) InvalidServerVersion :: int where "InvalidServerVersion \<equiv> 455"
abbreviation (input) InvalidServerResource :: int where "InvalidServerResource \<equiv> 456"
abbreviation (input) InvalidRegionId :: int where "InvalidRegionId \<equiv> 457"
abbreviation (input) InvalidFileLink :: int where "InvalidFileLink \<equiv> 500"
abbreviation (input) ErrorStatusCode :: int where "ErrorStatusCode \<equiv> 501"
abbreviation (input) IconvOpenFailed :: int where "IconvOpenFailed \<equiv> 502"
abbreviation (input) IconvFailed :: int where "IconvFailed \<equiv> 503"
abbreviation (input) ClientRequestFaild :: int where "ClientRequestFaild \<equiv> 504"
abbreviation (input) VipClientInitFailed :: int where "VipClientInitFailed \<equiv> 550"
abbreviation (input) VipClientMergeHostFailed :: int where "VipClientMergeHostFailed \<equiv> 551"
abbreviation (input) VipClientQueryIpFailed :: int where "VipClientQueryIpFailed \<equiv> 552"
abbreviation (input) NlsMaxErrorCode :: int where "NlsMaxErrorCode \<equiv> 999"

definition NlsRetCode :: "(string \<times> int) list" where
  "NlsRetCode =
    [(''Success'', Success), (''DefaultError'', DefaultError),
     (''JsonParseFailed'', JsonParseFailed), (''JsonObjectError'', JsonObjectError),
     (''MallocFailed'', MallocFailed), (''ReallocFailed'', ReallocFailed),
     (''InvalidInputParam'', InvalidInputParam), (''InvalidLogLevel'', InvalidLogLevel),
     (''InvalidLogFileSize'', InvalidLogFileSize), (''InvalidLogFileNum'', InvalidLogFileNum),
     (''EncoderExistent'', EncoderExistent), (''EncoderInexistent'', EncoderInexistent),
     (''OpusEncoderCreateFailed'', OpusEncoderCreateFailed),
     (''OggOpusEncoderCreateFailed'', OggOpusEncoderCreateFailed),
     (''InvalidEncoderType'', InvalidEncoderType),
     (''OggOpusInvalidState'', OggOpusInvalidState),
     (''OggOpusCreateFailed'', OggOpusCreateFailed),
     (''OggOpusStartFailed'', OggOpusStartFailed),
     (''OggOpusEncodeFailed'', OggOpusEncodeFailed),
     (''OggOpusDecodeFailed'', OggOpusDecodeFailed), (''OggOpusStopFailed'', OggOpusStopFailed),
     (''EventClientEmpty'', EventClientEmpty), (''SelectThreadFailed'', SelectThreadFailed),
     (''StartCommandFailed'', StartCommandFailed), (''InvokeStartFailed'', InvokeStartFailed),
     (''InvokeSendAudioFailed'', InvokeSendAudioFailed),
     (''InvalidOpusFrameSize'', InvalidOpusFrameSize), (''InvokeStopFailed'', InvokeStopFailed),
     (''InvokeCancelFailed'', InvokeCancelFailed),
     (''InvokeStControlFailed'', InvokeStControlFailed),
     (''InvokeSendTextFailed'', InvokeSendTextFailed), (''InvokeTimeout'', InvokeTimeout),
     (''InvalidStatusWhenReleasing'', InvalidStatusWhenReleasing),
     (''NlsEventEmpty'', NlsEventEmpty), (''NewNlsEventFailed'', NewNlsEventFailed),
     (''NlsEventMsgEmpty'', NlsEventMsgEmpty),
     (''InvalidNlsEventMsgType'', InvalidNlsEventMsgType),
     (''InvalidNlsEventMsgStatusCode'', InvalidNlsEventMsgStatusCode),
     (''InvalidNlsEventMsgHeader'', InvalidNlsEventMsgHeader),
     (''CancelledExitStatus'', CancelledExitStatus), (''InvalidWorkStatus'', InvalidWorkStatus),
     (''InvalidNodeQueue'', InvalidNodeQueue), (''InvalidRequestParams'', InvalidRequestParams),
     (''RequestEmpty'', RequestEmpty), (''InvalidRequest'', InvalidRequest),
     (''SetParamsEmpty'', SetParamsEmpty), (''GetHttpHeaderFailed'', GetHttpHeaderFailed),
     (''HttpGotBadStatus'', HttpGotBadStatus),
     (''WsResponsePackageFailed'', WsResponsePackageFailed),
     (''WsResponsePackageEmpty'', WsResponsePackageEmpty),
     (''WsRequestPackageEmpty'', WsRequestPackageEmpty),
     (''UnknownWsFrameHeadType'', UnknownWsFrameHeadType),
     (''InvalidWsFrameHeaderSize'', InvalidWsFrameHeaderSize),
     (''InvalidWsFrameHeaderBody'', InvalidWsFrameHeaderBody),
     (''InvalidWsFrameBody'', InvalidWsFrameBody), (''WsFrameBodyEmpty'', WsFrameBodyEmpty),
     (''InvalidWsFrameCloseCode'', InvalidWsFrameCloseCode), (''NodeEmpty'', NodeEmpty),
     (''InvaildNodeStatus'', InvaildNodeStatus), (''GetAddrinfoFailed'', GetAddrinfoFailed),
     (''ConnectFailed'', ConnectFailed), (''InvalidDnsSource'', InvalidDnsSource),
     (''ParseUrlFailed'', ParseUrlFailed), (''SslHandshakeFailed'', SslHandshakeFailed),
     (''SslCtxEmpty'', SslCtxEmpty), (''SslNewFailed'', SslNewFailed),
     (''SslSetFailed'', SslSetFailed), (''SslConnectFailed'', SslConnectFailed),
     (''SslWriteFailed'', SslWriteFailed), (''SslReadSysError'', SslReadSysError),
     (''SslReadFailed'', SslReadFailed), (''SocketFailed'', SocketFailed),
     (''SetSocketoptFailed'', SetSocketoptFailed),
     (''SocketConnectFailed'', SocketConnectFailed), (''SocketWriteFailed'', SocketWriteFailed),
     (''SocketReadFailed'', SocketReadFailed), (''NlsReceiveFailed'', NlsReceiveFailed),
     (''NlsReceiveEmpty'', NlsReceiveEmpty), (''ReadFailed'', ReadFailed),
     (''NlsSendFailed'', NlsSendFailed), (''NewOutputBufferFailed'', NewOutputBufferFailed),
     (''NlsEncodingFailed'', NlsEncodingFailed), (''EventEmpty'', EventEmpty),
     (''EvbufferTooMuch'', EvbufferTooMuch), (''EvutilSocketFalied'', EvutilSocketFalied),
     (''InvalidExitStatus'', InvalidExitStatus), (''InvalidAkId'', InvalidAkId),
     (''InvalidAkSecret'', InvalidAkSecret), (''InvalidAppKey'', InvalidAppKey),
     (''InvalidDomain'', InvalidDomain), (''InvalidAction'', InvalidAction),
     (''InvalidServerVersion'', InvalidServerVersion),
     (''InvalidServerResource'', InvalidServerResource), (''InvalidRegionId'', InvalidRegionId),
     (''InvalidFileLink'', InvalidFileLink), (''ErrorStatusCode'', ErrorStatusCode),
     (''IconvOpenFailed'', IconvOpenFailed), (''IconvFailed'', IconvFailed),
     (''ClientRequestFaild'', ClientRequestFaild),
     (''VipClientInitFailed'', VipClientInitFailed),
     (''VipClientMergeHostFailed'', VipClientMergeHostFailed),
     (''VipClientQueryIpFailed'', VipClientQueryIpFailed), (''NlsMaxErrorCode'', NlsMaxErrorCode)]"

section \<open>Error codes carried by events\<close>

abbreviation (input) NewSslCtxFailed :: int where "NewSslCtxFailed \<equiv> 10000001"
abbreviation (input) DefaultErrorCode :: int where "DefaultErrorCode \<equiv> 10000002"
abbreviation (input) SysErrorCode :: int where "SysErrorCode \<equiv> 10000003"
abbreviation (input) EmptyUrl :: int where "EmptyUrl \<equiv> 10000004"
abbreviation (input) InvalidWsUrl :: int where "InvalidWsUrl \<equiv> 10000005"
abbreviation (input) JsonStringParseFailed :: int where "JsonStringParseFailed \<equiv> 10000007"
abbreviation (input) UnknownWsHeadType :: int where "UnknownWsHeadType \<equiv> 10000008"
abbreviation (input) HttpConnectFailed :: int where "HttpConnectFailed \<equiv> 10000009"
abbreviation (input) MemNotEnough :: int where "MemNotEnough \<equiv> 10000010"
abbreviation (input) SysConnectFailed :: int where "SysConnectFailed \<equiv> 10000015"
abbreviation (input) HttpGotBadStatusWith403 :: int where "HttpGotBadStatusWith403 \<equiv> 10000100"
abbreviation (input) EvSendTimeout :: int where "EvSendTimeout \<equiv> 10000101"
abbreviation (input) EvRecvTimeout :: int where "EvRecvTimeout \<equiv> 10000102"
abbreviation (input) EvUnknownEvent :: int where "EvUnknownEvent \<equiv> 10000103"
abbreviation (input) OpNowInProgress :: int where "OpNowInProgress \<equiv> 10000104"
abbreviation (input) BrokenPipe :: int where "BrokenPipe \<equiv> 10000105"
abbreviation (input) TokenHasExpired :: int where "TokenHasExpired \<equiv> 10000110"
abbreviation (input) TokenIsInvalid :: int where "TokenIsInvalid \<equiv> 10000111"
abbreviation (input) NoPrivilegeToVoice :: int where "NoPrivilegeToVoice \<equiv> 10000112"
abbreviation (input) MissAuthHeader :: int where "MissAuthHeader \<equiv> 10000113"
abbreviation (input) Utf8ConvertError :: int where "Utf8ConvertError \<equiv> 10000120"
abbreviation (input) SuccessStatusCode :: int where "SuccessStatusCode \<equiv> 20000000"
abbreviation (input) CloseCode :: int where "CloseCode \<equiv> 20000000"
abbreviation (input) ClientError :: int where "ClientError \<equiv> 40000000"
abbreviation (input) AccessDenied :: int where "AccessDenied \<equiv> 40000001"
abbreviation (input) MessageInvalid :: int where "MessageInvalid \<equiv> 40000002"
abbreviation (input) ParameterInvalid :: int where "ParameterInvalid \<equiv> 40000003"
abbreviation (input) SessionIdleTooLongTime :: int where "SessionIdleTooLongTime \<equiv> 40000004"
abbreviation (input) TooManyRequests :: int where "TooManyRequests \<equiv> 40000005"
abbreviation (input) TooManyOpusPackets :: int where "TooManyOpusPackets \<equiv> 40000009"
abbreviation (input) FreeTrialExpired :: int where "FreeTrialExpired \<equiv> 40000010"
abbreviation (input) NamespaceNotFound :: int where "NamespaceNotFound \<equiv> 40010001"
abbreviation (input) DirectiveInvalid :: int where "DirectiveInvalid \<equiv> 40010003"
abbreviation (input) TaskStateError :: int where "TaskStateError \<equiv> 40010005"
abbreviation (input) AppkeyNotExist :: int where "AppkeyNotExist \<equiv> 40020105"
abbreviation (input) AppkeyUidMismatch :: int where "AppkeyUidMismatch \<equiv> 40020106"
abbreviation (input) SilentSpeech :: int where "SilentSpeech \<equiv> 40270002"
abbreviation (input) UnsupportedFormat :: int where "UnsupportedFormat \<equiv> 41010100"
abbreviation (input) TooLongSpeech :: int where "TooLongSpeech \<equiv> 41010104"
abbreviation (input) TtsClientError :: int where "TtsClientError \<equiv> 41020001"
abbreviation (input) FileDownloadFailed :: int where "FileDownloadFailed \<equiv> 41050002"
abbreviation (input) ConcurrencyExceed :: int where "ConcurrencyExceed \<equiv> 43040001"
abbreviation (input) ServerError :: int where "ServerError \<equiv> 50000000"
abbreviation (input) GrpcError :: int where "GrpcError \<equiv> 50000001"
abbreviation (input) RouteGroupNotFound :: int where "RouteGroupNotFound \<equiv> 50020003"
abbreviation (input) TtsServerError :: int where "TtsServerError \<equiv> 51020001"

definition NlsErrorCode :: "(string \<times> int) list" where
  "NlsErrorCode =
    [(''NewSslCtxFailed'', NewSslCtxFailed), (''DefaultErrorCode'', DefaultErrorCode),
     (''SysErrorCode'', SysErrorCode), (''EmptyUrl'', EmptyUrl),
     (''InvalidWsUrl'', InvalidWsUrl), (''JsonStringParseFailed'', JsonStringParseFailed),
     (''UnknownWsHeadType'', UnknownWsHeadType), (''HttpConnectFailed'', HttpConnectFailed),
     (''MemNotEnough'', MemNotEnough), (''SysConnectFailed'', SysConnectFailed),
     (''HttpGotBadStatusWith403'', HttpGotBadStatusWith403), (''EvSendTimeout'', EvSendTimeout),
     (''EvRecvTimeout'', EvRecvTimeout), (''EvUnknownEvent'', EvUnknownEvent),
     (''OpNowInProgress'', OpNowInProgress), (''BrokenPipe'', BrokenPipe),
     (''TokenHasExpired'', TokenHasExpired), (''TokenIsInvalid'', TokenIsInvalid),
     (''NoPrivilegeToVoice'', NoPrivilegeToVoice), (''MissAuthHeader'', MissAuthHeader),
     (''Utf8ConvertError'', Utf8ConvertError), (''SuccessStatusCode'', SuccessStatusCode),
     (''CloseCode'', CloseCode), (''ClientError'', ClientError),
     (''AccessDenied'', AccessDenied), (''MessageInvalid'', MessageInvalid),
     (''ParameterInvalid'', ParameterInvalid),
     (''SessionIdleTooLongTime'', SessionIdleTooLongTime),
     (''TooManyRequests'', TooManyRequests), (''TooManyOpusPackets'', TooManyOpusPackets),
     (''FreeTrialExpired'', FreeTrialExpired), (''NamespaceNotFound'', NamespaceNotFound),
     (''DirectiveInvalid'', DirectiveInvalid), (''TaskStateError'', TaskStateError),
     (''AppkeyNotExist'', AppkeyNotExist), (''AppkeyUidMismatch'', AppkeyUidMismatch),
     (''SilentSpeech'', SilentSpeech), (''UnsupportedFormat'', UnsupportedFormat),
     (''TooLongSpeech'', TooLongSpeech), (''TtsClientError'', TtsClientError),
     (''FileDownloadFailed'', FileDownloadFailed), (''ConcurrencyExceed'', ConcurrencyExceed),
     (''ServerError'', ServerError), (''GrpcError'', GrpcError),
     (''RouteGroupNotFound'', RouteGroupNotFound), (''TtsServerError'', TtsServerError)]"

section \<open>Encoder kinds\<close>

datatype ENCODER_TYPE = ENCODER_NONE | ENCODER_OPUS | ENCODER_OPU

section \<open>Facts\<close>

lemma ret_codes_nonneg: "\<forall>(n, c) \<in> set NlsRetCode. 0 \<le> c"
  by (simp add: NlsRetCode_def)

end
