(* ===== verification/WsFrame.thy ===== *)
theory WsFrame
  imports NlsGlobal
begin

text \<open>
  The WebSocket frame codec of \<open>transport/webSocketTcp.cpp\<close>: \<open>framePackage\<close> builds the masked frames
  the client sends; \<open>receiveFullWebSocketFrame\<close> and the three \<open>decode...\<close> steps it falls through
  parse what the server sent. A buffer is the list of its bytes; a pointer into it is an offset, and
  \<open>NULL\<close> is \<open>None\<close>. \<open>None\<close> as the result of a parser means the code touches memory outside the
  buffer. \<open>uint64_t N\<close> is a \<open>64 word\<close>: the bounds test of the code adds to it and wraps around.
  The reference codec at the end (\<open>rfc_encode\<close>, \<open>rfc_decode\<close>) follows RFC 6455, section 5.2, and is
  independent of the code.
\<close>

section \<open>Data\<close>

text \<open>\<open>OpCodeType\<close> is any value of the low four bits of the first byte; these are its enumerators.\<close>

abbreviation (input) CONTINUATION :: byte where "CONTINUATION \<equiv> 0x0"
abbreviation (input) TEXT_FRAME :: byte where "TEXT_FRAME \<equiv> 0x1"
abbreviation (input) BINARY_FRAME :: byte where "BINARY_FRAME \<equiv> 0x2"
abbreviation (input) CLOSE :: byte where "CLOSE \<equiv> 8"
abbreviation (input) PING :: byte where "PING \<equiv> 9"
abbreviation (input) PONG :: byte where "PONG \<equiv> 0xa"

datatype WebSocketReceiveStatus = WsHeadSize | WsHeadBody | WsContentBody | WsWsFailed

record WebSocketHeaderType =
  ws_headerSize :: nat
  ws_fin :: bool
  ws_mask :: bool
  ws_opCode :: byte
  ws_N0 :: nat
  ws_N :: "64 word"
  ws_masKingKey :: "byte list"

record WebSocketFrame =
  wf_type :: byte
  wf_data :: "nat option"
  wf_length :: "64 word"
  wf_closeCode :: int

text \<open>\<open>memset(&wsFrame, 0, sizeof(struct WebSocketFrame))\<close>, as the receive loop does before each frame.\<close>

definition wf_zero :: WebSocketFrame where
  "wf_zero = \<lparr>wf_type = 0, wf_data = None, wf_length = 0, wf_closeCode = 0\<rparr>"

section \<open>Parsing a received frame\<close>

definition decodeHeaderSizeWebSocketFrame ::
  "byte list \<Rightarrow> nat \<Rightarrow> WebSocketHeaderType \<Rightarrow> int \<times> WebSocketHeaderType" where
  "decodeHeaderSizeWebSocketFrame buffer len ws =
     (if len < 2 then (- InvalidWsFrameHeaderSize, ws)
      else
        let n0 = unat (buffer ! 1 AND 0x7f); m = ((buffer ! 1 AND 0x80) = 0x80) in
        (Success,
         ws\<lparr>ws_fin := ((buffer ! 0 AND 0x80) = 0x80),
            ws_opCode := buffer ! 0 AND 0x0f,
            ws_mask := m,
            ws_N0 := n0,
            ws_headerSize := 2 + (if n0 = 126 then 2 else 0) + (if n0 = 127 then 8 else 0)
                               + (if m then 4 else 0)\<rparr>))"

text \<open>\<open>(uint64_t)*(buffer + i) << k\<close>\<close>

definition byte_shl :: "byte list \<Rightarrow> nat \<Rightarrow> nat \<Rightarrow> 64 word" where
  "byte_shl buffer i k = push_bit k (ucast (buffer ! i))"

definition decodeHeaderBodyWebSocketFrame ::
  "byte list \<Rightarrow> nat \<Rightarrow> WebSocketHeaderType \<Rightarrow> int \<times> WebSocketHeaderType" where
  "decodeHeaderBodyWebSocketFrame buffer len ws =
     (if len \<le> ws_headerSize ws then (- InvalidWsFrameHeaderBody, ws)
      else
        let ws1 =
          (if ws_N0 ws < 126 then ws\<lparr>ws_N := of_nat (ws_N0 ws)\<rparr>
           else if ws_N0 ws = 126 then
             ws\<lparr>ws_N := 0 OR byte_shl buffer 2 8 OR byte_shl buffer 3 0\<rparr>
           else if ws_N0 ws = 127 then
             ws\<lparr>ws_N := 0 OR byte_shl buffer 2 56 OR byte_shl buffer 3 48 OR byte_shl buffer 4 40
                          OR byte_shl buffer 5 32 OR byte_shl buffer 6 24 OR byte_shl buffer 7 16
                          OR byte_shl buffer 8 8 OR byte_shl buffer 9 0\<rparr>
           else ws) in
        (Success,
         if ws_mask ws1
         then ws1\<lparr>ws_masKingKey := [buffer ! 0, buffer ! 1, buffer ! 2, buffer ! 3]\<rparr>
         else ws1\<lparr>ws_masKingKey := [0, 0, 0, 0]\<rparr>))"

text \<open>The loop \<open>for (i = 0; i != N; ++i) data[i] ^= key[i & 0x3]\<close>, from index \<open>i\<close>.\<close>

fun xor_loop :: "byte list \<Rightarrow> nat \<Rightarrow> byte list \<Rightarrow> byte list" where
  "xor_loop key i [] = []"
| "xor_loop key i (b # bs) = (b XOR key ! (i mod 4)) # xor_loop key (Suc i) bs"

definition decodeFrameBodyWebSocketFrame ::
  "byte list \<Rightarrow> nat \<Rightarrow> WebSocketHeaderType \<Rightarrow> WebSocketFrame \<Rightarrow>
     (int \<times> byte list \<times> WebSocketFrame) option" where
  "decodeFrameBodyWebSocketFrame buffer len ws rd =
     (if ws_opCode ws = PONG then Some (Success, buffer, rd)
      else if (of_nat len :: 64 word) < ws_N ws + of_nat (ws_headerSize ws) then
        Some (- InvalidWsFrameBody, buffer, rd)
      else if ws_opCode ws = TEXT_FRAME \<or> ws_opCode ws = BINARY_FRAME \<or> ws_opCode ws = CONTINUATION then
        (if ws_mask ws \<and> length buffer < ws_headerSize ws + unat (ws_N ws) then None
         else
           let h = ws_headerSize ws; n = unat (ws_N ws);
               buffer' = (if ws_mask ws
                 then take h buffer @ xor_loop (ws_masKingKey ws) 0 (take n (drop h buffer))
                        @ drop (h + n) buffer
                 else buffer);
               rd1 = (if wf_data rd = None then rd\<lparr>wf_type := ws_opCode ws\<rparr> else rd) in
           Some (Success, buffer', rd1\<lparr>wf_data := Some h, wf_length := ws_N ws\<rparr>))
      else if ws_opCode ws = PING then Some (- InvalidWsFrameBody, buffer, rd)
      else if ws_opCode ws = CLOSE then
        (if length buffer < 4 then None
         else
           let recode = 256 * uint (buffer ! 2) + uint (buffer ! 3);
               rd1 = (if wf_data rd = None
                      then rd\<lparr>wf_type := ws_opCode ws, wf_closeCode := recode\<rparr> else rd) in
           Some (Success, buffer, rd1\<lparr>wf_data := Some (ws_headerSize ws + 2), wf_length := ws_N ws\<rparr>))
      else Some (Success, buffer, rd))"

text \<open>
  \<open>receiveFullWebSocketFrame\<close> switches on \<open>_rStatus\<close> and falls through: each case is a function that
  calls the next one. The result is the return value, \<open>_rStatus\<close>, the header, the buffer (unmasked in
  place) and the frame.
\<close>

type_synonym recv_result = "int \<times> WebSocketReceiveStatus \<times> WebSocketHeaderType \<times> byte list \<times> WebSocketFrame"

definition recv_ContentBody ::
  "byte list \<Rightarrow> nat \<Rightarrow> WebSocketHeaderType \<Rightarrow> WebSocketFrame \<Rightarrow> recv_result option" where
  "recv_ContentBody frame frameSize ws rd =
     (case decodeFrameBodyWebSocketFrame frame frameSize ws rd of
        None \<Rightarrow> None
      | Some (retCode, frame', rd') \<Rightarrow>
          if retCode < 0 then Some (retCode, WsContentBody, ws, frame', rd')
          else Some (Success, WsHeadSize, ws, frame', rd'))"

definition recv_HeadBody ::
  "byte list \<Rightarrow> nat \<Rightarrow> WebSocketHeaderType \<Rightarrow> WebSocketFrame \<Rightarrow> recv_result option" where
  "recv_HeadBody frame frameSize ws rd =
     (case decodeHeaderBodyWebSocketFrame frame frameSize ws of
        (retCode, ws') \<Rightarrow>
          if retCode < 0 \<and> ws_opCode ws' \<noteq> PONG then Some (retCode, WsHeadBody, ws', frame, rd)
          else recv_ContentBody frame frameSize ws' rd)"

definition recv_HeadSize ::
  "byte list \<Rightarrow> nat \<Rightarrow> WebSocketHeaderType \<Rightarrow> WebSocketFrame \<Rightarrow> recv_result option" where
  "recv_HeadSize frame frameSize ws rd =
     (case decodeHeaderSizeWebSocketFrame frame frameSize ws of
        (retCode, ws') \<Rightarrow>
          if retCode < 0 then Some (retCode, WsHeadSize, ws', frame, rd)
          else recv_HeadBody frame frameSize ws' rd)"

fun receiveFullWebSocketFrame ::
  "WebSocketReceiveStatus \<Rightarrow> byte list \<Rightarrow> nat \<Rightarrow> WebSocketHeaderType \<Rightarrow> WebSocketFrame \<Rightarrow> recv_result option" where
  "receiveFullWebSocketFrame WsHeadSize frame frameSize ws rd = recv_HeadSize frame frameSize ws rd"
| "receiveFullWebSocketFrame WsHeadBody frame frameSize ws rd = recv_HeadBody frame frameSize ws rd"
| "receiveFullWebSocketFrame WsContentBody frame frameSize ws rd = recv_ContentBody frame frameSize ws rd"
| "receiveFullWebSocketFrame WsWsFailed frame frameSize ws rd = Some (Success, WsWsFailed, ws, frame, rd)"

section \<open>Building a frame to send\<close>

definition masKingKey :: "byte list" where
  "masKingKey = [0x12, 0x34, 0x56, 0x78]"

text \<open>\<open>((uint64_t)length >> k) & 0xff\<close> stored in a \<open>uint8_t\<close>\<close>

definition byte_at :: "64 word \<Rightarrow> nat \<Rightarrow> byte" where
  "byte_at w k = ucast (drop_bit k w AND 0xff)"

definition frame_headlen :: "nat \<Rightarrow> nat" where
  "frame_headlen len = 2 + (if 126 \<le> len then 2 else 0) + (if 65536 \<le> len then 6 else 0) + 4"

definition frame_header :: "byte \<Rightarrow> nat \<Rightarrow> byte list" where
  "frame_header codeType len =
     (let w = of_nat len :: 64 word in
      (0x80 OR codeType) #
      (if len < 126 then (ucast (w AND 0xff) OR 0x80) # masKingKey
       else if len < 65536 then (126 OR 0x80) # byte_at w 8 # byte_at w 0 # masKingKey
       else (127 OR 0x80) # byte_at w 56 # byte_at w 48 # byte_at w 40 # byte_at w 32
              # byte_at w 24 # byte_at w 16 # byte_at w 8 # byte_at w 0 # masKingKey))"

text \<open>
  \<open>calloc_ok n\<close> says whether \<open>calloc\<close> of \<open>n\<close> bytes succeeds. The result is the return value and the
  frame (\<open>*frame\<close>, \<open>*frameSize\<close>), \<open>None\<close> where \<open>*frame\<close> is left \<open>NULL\<close>.
\<close>

definition framePackage :: "(nat \<Rightarrow> bool) \<Rightarrow> byte \<Rightarrow> byte list \<Rightarrow> int \<times> byte list option" where
  "framePackage calloc_ok codeType buffer =
     (let len = length buffer; headlen = frame_headlen len in
      if \<not> calloc_ok headlen then (- MallocFailed, None)
      else if \<not> calloc_ok (headlen + len) then (- MallocFailed, None)
      else (Success, Some (frame_header codeType len @ xor_loop masKingKey 0 buffer)))"

definition binaryFrame :: "(nat \<Rightarrow> bool) \<Rightarrow> byte list \<Rightarrow> int \<times> byte list option" where
  "binaryFrame calloc_ok buffer = framePackage calloc_ok BINARY_FRAME buffer"

definition textFrame :: "(nat \<Rightarrow> bool) \<Rightarrow> byte list \<Rightarrow> int \<times> byte list option" where
  "textFrame calloc_ok buffer = framePackage calloc_ok TEXT_FRAME buffer"

definition pingFrame :: "(nat \<Rightarrow> bool) \<Rightarrow> int \<times> byte list option" where
  "pingFrame calloc_ok = framePackage calloc_ok PING []"

section \<open>Reference codec (RFC 6455, section 5.2)\<close>

fun be_bytes :: "nat \<Rightarrow> nat \<Rightarrow> byte list" where
  "be_bytes 0 n = []"
| "be_bytes (Suc k) n = be_bytes k (n div 256) @ [of_nat (n mod 256)]"

fun be_val :: "nat \<Rightarrow> byte list \<Rightarrow> nat" where
  "be_val acc [] = acc"
| "be_val acc (b # bs) = be_val (256 * acc + unat b) bs"

text \<open>A frame with the FIN bit set, opcode \<open>opc\<close>, an optional masking key and the payload.\<close>

definition rfc_len_field :: "nat \<Rightarrow> nat \<times> byte list" where
  "rfc_len_field n =
     (if n < 126 then (n, []) else if n < 2 ^ 16 then (126, be_bytes 2 n) else (127, be_bytes 8 n))"

definition rfc_encode :: "byte \<Rightarrow> byte list option \<Rightarrow> byte list \<Rightarrow> byte list" where
  "rfc_encode opc key payload =
     (case rfc_len_field (length payload) of
        (l7, ext) \<Rightarrow>
          [of_nat (128 + unat opc), of_nat (l7 + (if key = None then 0 else 128))] @ ext
          @ (case key of None \<Rightarrow> payload
             | Some k \<Rightarrow> k @ map (\<lambda>i. payload ! i XOR k ! (i mod 4)) [0..<length payload]))"

text \<open>The inverse: FIN, opcode, unmasked payload and the bytes after the frame.\<close>

definition rfc_decode :: "byte list \<Rightarrow> (bool \<times> byte \<times> byte list \<times> byte list) option" where
  "rfc_decode bs =
     (case bs of
        b0 # b1 # r0 \<Rightarrow>
          (let l7 = unat b1 mod 128; masked = (128 \<le> unat b1);
               ext = (if l7 = 126 then 2 else if l7 = 127 then 8 else 0);
               n = (if l7 < 126 then l7 else be_val 0 (take ext r0));
               r1 = drop ext r0; key = take 4 r1;
               r2 = (if masked then drop 4 r1 else r1); p = take n r2 in
           if length r0 < ext \<or> (masked \<and> length r1 < 4) \<or> length r2 < n then None
           else Some (128 \<le> unat b0, of_nat (unat b0 mod 16),
                      if masked then map (\<lambda>i. p ! i XOR key ! (i mod 4)) [0..<n] else p,
                      drop n r2))
      | _ \<Rightarrow> None)"

section \<open>Bytes and words\<close>

lemma length_be_bytes [simp]: "length (be_bytes k n) = k"
  by (induction k arbitrary: n) simp_all

lemma be_val_append [simp]: "be_val a (xs @ ys) = be_val (be_val a xs) ys"
  by (induction a xs rule: be_val.induct) simp_all

lemma be_val_be_bytes: "n < 256 ^ k \<Longrightarrow> be_val 0 (be_bytes k n) = n"
proof (induction k arbitrary: n)
  case 0
  then show ?case by simp
next
  case (Suc k)
  then have "n div 256 < 256 ^ k" by (simp add: less_mult_imp_div_less mult.commute)
  with Suc.IH have "be_val 0 (be_bytes k (n div 256)) = n div 256" by blast
  then show ?case by (simp add: unat_of_nat)
qed

lemma unat_shifted_byte:
  "unat (ucast (drop_bit k (w :: 64 word) AND 0xff) :: byte) = (unat w div 2 ^ k) mod 256"
proof -
  have "drop_bit k w AND 0xff = take_bit 8 (drop_bit k w)"
    by (simp add: take_bit_eq_mask mask_eq_exp_minus_1)
  then have "unat (ucast (drop_bit k w AND 0xff) :: byte) = take_bit 8 (drop_bit k (unat w))"
    by (simp add: unsigned_ucast_eq unsigned_take_bit_eq unat_drop_bit_eq)
  then show ?thesis
    by (simp add: take_bit_eq_mod drop_bit_eq_div)
qed

lemma byte_at_eq:
  assumes "n < 2 ^ 64"
  shows "byte_at (of_nat n) k = of_nat ((n div 2 ^ k) mod 256)"
proof -
  have "unat (byte_at (of_nat n :: 64 word) k) = (n div 2 ^ k) mod 256"
    unfolding byte_at_def unat_shifted_byte using assms by (simp add: unat_of_nat)
  then show ?thesis by (simp add: word_unat_eq_iff unat_of_nat)
qed

lemma length_xor_loop [simp]: "length (xor_loop key i bs) = length bs"
  by (induction key i bs rule: xor_loop.induct) simp_all

lemma nth_xor_loop: "j < length bs \<Longrightarrow> xor_loop key i bs ! j = bs ! j XOR key ! ((i + j) mod 4)"
proof (induction key i bs arbitrary: j rule: xor_loop.induct)
  case (2 key i b bs)
  then show ?case by (cases j) simp_all
qed simp

lemma xor_loop_map: "xor_loop key 0 bs = map (\<lambda>j. bs ! j XOR key ! (j mod 4)) [0..<length bs]"
  by (rule nth_equalityI) (simp_all add: nth_xor_loop)

lemma xor_loop_twice: "xor_loop key i (xor_loop key i bs) = bs"
  by (induction key i bs rule: xor_loop.induct) (simp_all add: xor.assoc)

text \<open>\<open>be_bytes\<close> with its two lengths written out.\<close>

lemma be_bytes_2: "be_bytes 2 n = [of_nat (n div 256 mod 256), of_nat (n mod 256)]"
proof -
  have "be_bytes (Suc (Suc 0)) n = [of_nat (n div 256 mod 256), of_nat (n mod 256)]" by simp
  then show ?thesis by (simp only: numeral_2_eq_2)
qed

lemma be_bytes_8:
  "be_bytes 8 n =
     [of_nat (n div 2 ^ 56 mod 256), of_nat (n div 2 ^ 48 mod 256), of_nat (n div 2 ^ 40 mod 256),
      of_nat (n div 2 ^ 32 mod 256), of_nat (n div 2 ^ 24 mod 256), of_nat (n div 2 ^ 16 mod 256),
      of_nat (n div 2 ^ 8 mod 256), of_nat (n mod 256)]"
proof -
  have eight: "(8 :: nat) = Suc (Suc (Suc (Suc (Suc (Suc (Suc (Suc 0)))))))" by simp
  have "be_bytes (Suc (Suc (Suc (Suc (Suc (Suc (Suc (Suc 0)))))))) n =
     [of_nat (n div 2 ^ 56 mod 256), of_nat (n div 2 ^ 48 mod 256), of_nat (n div 2 ^ 40 mod 256),
      of_nat (n div 2 ^ 32 mod 256), of_nat (n div 2 ^ 24 mod 256), of_nat (n div 2 ^ 16 mod 256),
      of_nat (n div 2 ^ 8 mod 256), of_nat (n mod 256)]"
    by (simp add: div_mult2_eq [symmetric])
  then show ?thesis by (simp only: eight)
qed

lemma be_bytes_code:
  assumes "n < 2 ^ 64"
  shows be_bytes_2_code: "be_bytes 2 n = [byte_at (of_nat n) 8, byte_at (of_nat n) 0]"
    and be_bytes_8_code: "be_bytes 8 n =
      [byte_at (of_nat n) 56, byte_at (of_nat n) 48, byte_at (of_nat n) 40, byte_at (of_nat n) 32,
       byte_at (of_nat n) 24, byte_at (of_nat n) 16, byte_at (of_nat n) 8, byte_at (of_nat n) 0]"
  by (simp_all add: be_bytes_2 be_bytes_8 byte_at_eq [OF assms])

lemma or_0x80:
  assumes "n < 128"
  shows "(of_nat n :: byte) OR 0x80 = of_nat (n + 128)"
proof -
  have "(of_nat n :: byte) = take_bit 7 (of_nat n)"
    unfolding word_unat_eq_iff unsigned_take_bit_eq using assms
    by (simp add: unat_of_nat take_bit_eq_mod)
  then have "(of_nat n :: byte) AND push_bit 7 1 = take_bit 7 (of_nat n) AND push_bit 7 1"
    by simp
  also have "\<dots> = 0"
    by (rule bit_word_eqI) (auto simp only: bit_and_iff bit_take_bit_iff bit_push_bit_iff bit_0_eq)
  finally have "(of_nat n :: byte) AND 0x80 = 0"
    by (simp add: push_bit_eq_mult)
  then show ?thesis by (simp add: disjunctive_add_eq_or [symmetric])
qed

lemma low_byte_small: "n < 126 \<Longrightarrow> (ucast ((of_nat n :: 64 word) AND 0xff) :: byte) = of_nat n"
  using unat_shifted_byte [of 0 "of_nat n"]
  by (simp add: word_unat_eq_iff unat_of_nat)

section \<open>The frames the client sends\<close>

lemma frame_header_rfc:
  assumes "n < 2 ^ 64" and "unat opc < 16" and "length p = n"
  shows "frame_header opc n @ xor_loop masKingKey 0 p = rfc_encode opc (Some masKingKey) p"
proof -
  have "0x80 OR opc = of_nat (128 + unat opc)"
    using or_0x80 [of "unat opc"] assms(2) by (simp add: or.commute add.commute)
  moreover have "(126 OR 0x80 :: byte) = 254" "(127 OR 0x80 :: byte) = 255" by simp_all
  ultimately show ?thesis
    using assms or_0x80 [of n]
    by (simp add: frame_header_def rfc_encode_def rfc_len_field_def Let_def be_bytes_code
        xor_loop_map low_byte_small)
qed

lemma rfc_len_field_cases:
  assumes "n < 2 ^ 64" and "rfc_len_field n = (l7, ext)"
  shows "l7 < 128 \<and> length ext = (if l7 = 126 then 2 else if l7 = 127 then 8 else 0)
    \<and> (if l7 < 126 then l7 else be_val 0 ext) = n"
  using assms be_val_be_bytes [of n 2] be_val_be_bytes [of n 8]
    length_be_bytes [of 2 n] length_be_bytes [of 8 n]
  by (auto simp: rfc_len_field_def simp del: length_be_bytes split: if_splits)

text \<open>The reference decoder inverts the reference encoder and leaves the following bytes.\<close>

lemma rfc_roundtrip:
  assumes "length p < 2 ^ 64" and "unat opc < 16" and "case key of None \<Rightarrow> True | Some k \<Rightarrow> length k = 4"
  shows "rfc_decode (rfc_encode opc key p @ rest) = Some (True, opc, p, rest)"
proof -
  obtain l7 ext where lf: "rfc_len_field (length p) = (l7, ext)" by fastforce
  note L = rfc_len_field_cases [OF assms(1) lf]
  have b0: "unat (of_nat (128 + unat opc) :: byte) = 128 + unat opc"
    using assms(2) by (simp only: unat_of_nat) simp
  have b1: "unat (of_nat (l7 + m) :: byte) = l7 + m" if "m = 0 \<or> m = 128" for m
    using L that by (simp only: unat_of_nat) auto
  have opc: "(of_nat ((128 + unat opc) mod 16) :: byte) = opc"
    using assms(2) by (simp add: mod_add_eq [symmetric])
  have x: "map (\<lambda>i. map (\<lambda>i. p ! i XOR k ! (i mod 4)) [0..<length p] ! i XOR k ! (i mod 4)) [0..<length p] = p"
    for k by (rule nth_equalityI) (simp_all add: xor.assoc)
  show ?thesis
  proof (cases key)
    case None
    show ?thesis
      unfolding rfc_encode_def rfc_decode_def lf
      using L b0 b1 [of 0] opc by (auto simp: None Let_def)
  next
    case (Some k)
    with assms(3) have k: "length k = 4" by simp
    show ?thesis
      unfolding rfc_encode_def rfc_decode_def lf
      using L b0 b1 [of 128] opc k x [of k] by (auto simp: Some Let_def)
  qed
qed

lemma framePackage_ok:
  assumes "calloc_ok (frame_headlen (length p))" and "calloc_ok (frame_headlen (length p) + length p)"
  shows "framePackage calloc_ok opc p =
    (Success, Some (frame_header opc (length p) @ xor_loop masKingKey 0 p))"
  using assms by (simp add: framePackage_def Let_def)

lemma framed_payload:
  assumes "length payload < 2 ^ 64" and "unat opc < 16"
    and "framePackage calloc_ok opc payload = (Success, Some frame)"
  shows "rfc_decode (frame @ rest) = Some (True, opc, payload, rest)"
proof -
  from assms(3) have "frame = frame_header opc (length payload) @ xor_loop masKingKey 0 payload"
    by (simp add: framePackage_def Let_def split: if_splits)
  then have "frame = rfc_encode opc (Some masKingKey) payload"
    using frame_header_rfc assms(1,2) by blast
  then show ?thesis
    using rfc_roundtrip [of payload opc "Some masKingKey" rest] assms(1,2)
    by (simp add: masKingKey_def)
qed

text \<open>C32. A frame the client builds is a well-formed RFC 6455 frame: a conforming server decodes it to
  exactly the opcode and payload the client packed, and is left at the first byte after the frame. This
  covers the three length encodings and the masking.\<close>

theorem framePackage_decodes:
  assumes "length payload < 2 ^ 64" and "unat opc < 16"
    and "framePackage calloc_ok opc payload = (Success, Some frame)"
  shows "rfc_decode (frame @ rest) = Some (True, opc, payload, rest)"
  using assms by (rule framed_payload)

lemma framePackage_decodes_witness:
  "rfc_decode ([0x81, 0x82, 0x12, 0x34, 0x56, 0x78, 0x7a, 0x5d] @ [7]) =
     Some (True, TEXT_FRAME, [0x68, 0x69], [7])"
proof (rule framePackage_decodes)
  show "framePackage (\<lambda>n. True) TEXT_FRAME [0x68, 0x69] =
      (Success, Some [0x81, 0x82, 0x12, 0x34, 0x56, 0x78, 0x7a, 0x5d])"
    by (simp add: framePackage_def Let_def frame_header_def masKingKey_def)
qed simp_all

lemma framePackage_size:
  assumes "framePackage calloc_ok opc payload = (Success, Some frame)"
  shows "length frame = frame_headlen (length payload) + length payload"
  using assms
  by (auto simp: framePackage_def Let_def frame_header_def frame_headlen_def masKingKey_def
      split: if_splits)

section \<open>The frames the server sends\<close>

text \<open>Reassembling the extended length from its bytes.\<close>

lemma bit_byte_at: "bit (byte_at w k) n \<longleftrightarrow> n < 8 \<and> bit w (k + n)"
proof -
  have "byte_at w k = ucast (take_bit 8 (drop_bit k w))"
    by (simp add: byte_at_def take_bit_eq_mask mask_eq_exp_minus_1)
  then show ?thesis by (auto simp: bit_ucast_iff bit_take_bit_iff bit_drop_bit_eq)
qed

lemma bit_shifted_byte_at:
  "bit (push_bit k (ucast (byte_at w k)) :: 64 word) n \<longleftrightarrow> k \<le> n \<and> n < k + 8 \<and> bit w n"
  by (auto simp: bit_push_bit_iff bit_ucast_iff bit_byte_at dest: bit_imp_le_length)

lemma N_of_2_bytes:
  fixes w :: "64 word"
  assumes "unat w < 65536"
  shows "push_bit 8 (ucast (byte_at w 8)) OR push_bit 0 (ucast (byte_at w 0)) = w" (is "?lhs = w")
proof (rule bit_word_eqI)
  have "w = take_bit 16 w"
    unfolding word_unat_eq_iff unsigned_take_bit_eq using assms by (simp add: take_bit_eq_mod)
  then have *: "bit w n \<Longrightarrow> n < 16" for n
    by (metis bit_take_bit_iff)
  fix n
  show "bit ?lhs n = bit w n"
    unfolding bit_or_iff bit_shifted_byte_at using * [of n] by auto
qed

lemma N_of_8_bytes:
  fixes w :: "64 word"
  shows "push_bit 56 (ucast (byte_at w 56)) OR push_bit 48 (ucast (byte_at w 48))
    OR push_bit 40 (ucast (byte_at w 40)) OR push_bit 32 (ucast (byte_at w 32))
    OR push_bit 24 (ucast (byte_at w 24)) OR push_bit 16 (ucast (byte_at w 16))
    OR push_bit 8 (ucast (byte_at w 8)) OR push_bit 0 (ucast (byte_at w 0)) = w" (is "?lhs = w")
proof (rule bit_word_eqI)
  fix n :: nat
  assume "n < LENGTH(64)"
  then show "bit ?lhs n = bit w n"
    unfolding bit_or_iff bit_shifted_byte_at by auto
qed

text \<open>The header size the decoder computes for an unmasked frame of the reference encoder.\<close>

definition server_headlen :: "nat \<Rightarrow> nat" where
  "server_headlen n = 2 + (if n < 126 then 0 else if n < 2 ^ 16 then 2 else 8)"

lemma rfc_encode_unmasked:
  assumes "n = length p" and "n < 2 ^ 64" and "unat opc < 16"
  shows "rfc_encode opc None p =
    (0x80 OR opc) #
    (if n < 126 then [of_nat n]
     else if n < 2 ^ 16 then [126, byte_at (of_nat n) 8, byte_at (of_nat n) 0]
     else [127, byte_at (of_nat n) 56, byte_at (of_nat n) 48, byte_at (of_nat n) 40, byte_at (of_nat n) 32,
           byte_at (of_nat n) 24, byte_at (of_nat n) 16, byte_at (of_nat n) 8, byte_at (of_nat n) 0]) @ p"
proof -
  have "0x80 OR opc = of_nat (128 + unat opc)"
    using or_0x80 [of "unat opc"] assms(3) by (simp add: or.commute add.commute)
  then show ?thesis
    using assms by (simp add: rfc_encode_def rfc_len_field_def be_bytes_code)
qed

lemma first_byte_fields:
  assumes "unat (opc :: byte) < 16"
  shows "(0x80 OR opc) AND 0x80 = 0x80" and "(0x80 OR opc) AND 0x0f = opc"
proof -
  have "opc = take_bit 4 opc"
    unfolding word_unat_eq_iff unsigned_take_bit_eq using assms by (simp add: take_bit_eq_mod)
  moreover have "take_bit 4 opc = opc AND 0x0f" by (simp add: take_bit_eq_mask mask_eq_exp_minus_1)
  ultimately have o: "opc AND 0x0f = opc" by simp
  show "(0x80 OR opc) AND 0x0f = opc" by (simp add: bit.conj_disj_distrib2 o)
  show "(0x80 OR opc) AND 0x80 = 0x80" by (simp add: bit.conj_disj_distrib2)
qed

lemma second_byte_fields:
  assumes "n < 128"
  shows "(of_nat n :: byte) AND 0x80 = 0" and "unat ((of_nat n :: byte) AND 0x7f) = n"
proof -
  have t: "(of_nat n :: byte) = take_bit 7 (of_nat n)"
    unfolding word_unat_eq_iff unsigned_take_bit_eq using assms
    by (simp add: unat_of_nat take_bit_eq_mod)
  also have "\<dots> = of_nat n AND 0x7f" by (simp add: take_bit_eq_mask mask_eq_exp_minus_1)
  finally have e: "(of_nat n :: byte) AND 0x7f = of_nat n" by simp
  then show "unat ((of_nat n :: byte) AND 0x7f) = n" using assms by (simp add: unat_of_nat)
  have "(of_nat n :: byte) AND 0x80 = (of_nat n AND 0x7f) AND 0x80" by (simp only: e)
  also have "\<dots> = of_nat n AND (0x7f AND 0x80)" by (simp only: and.assoc)
  finally show "(of_nat n :: byte) AND 0x80 = 0" by simp
qed

text \<open>What the two header steps leave, for each of the three length encodings.\<close>

definition server_header :: "WebSocketHeaderType \<Rightarrow> byte \<Rightarrow> nat \<Rightarrow> WebSocketHeaderType" where
  "server_header ws opc n =
     ws\<lparr>ws_fin := True, ws_opCode := opc, ws_mask := False,
        ws_N0 := (if n < 126 then n else if n < 2 ^ 16 then 126 else 127),
        ws_headerSize := server_headlen n, ws_N := of_nat n, ws_masKingKey := [0, 0, 0, 0]\<rparr>"

lemma decode_server_header:
  assumes "n = length p" and "n < 2 ^ 64" and "unat opc < 16" and "0 < length (p @ rest)"
    and "buf = rfc_encode opc None p @ rest"
  shows "\<exists>ws1. decodeHeaderSizeWebSocketFrame buf (length buf) ws = (Success, ws1)
    \<and> decodeHeaderBodyWebSocketFrame buf (length buf) ws1 = (Success, server_header ws opc n)"
proof -
  note enc = rfc_encode_unmasked [OF assms(1-3)]
  consider "n < 126" | "\<not> n < 126" "n < 2 ^ 16" | "\<not> n < 126" "\<not> n < 2 ^ 16" by blast
  then show ?thesis
  proof cases
    case 1
    then show ?thesis
      using assms enc first_byte_fields [OF assms(3)] second_byte_fields [of n]
      by (auto simp: decodeHeaderSizeWebSocketFrame_def decodeHeaderBodyWebSocketFrame_def Let_def
          server_header_def server_headlen_def)
  next
    case 2
    then have "unat (of_nat n :: 64 word) < 65536" using assms(2) by (simp add: unat_of_nat)
    note N = N_of_2_bytes [OF this]
    from 2 show ?thesis
      using assms enc first_byte_fields [OF assms(3)] N
      by (auto simp: decodeHeaderSizeWebSocketFrame_def decodeHeaderBodyWebSocketFrame_def Let_def
          server_header_def server_headlen_def byte_shl_def)
  next
    case 3
    with assms(1) show ?thesis
      using assms enc first_byte_fields [OF assms(3)] N_of_8_bytes [of "of_nat n"]
      by (auto simp: decodeHeaderSizeWebSocketFrame_def decodeHeaderBodyWebSocketFrame_def Let_def
          server_header_def server_headlen_def byte_shl_def or.assoc)
  qed
qed

lemma length_rfc_encode_unmasked:
  assumes "length p < 2 ^ 64" and "unat opc < 16"
  shows "rfc_encode opc None p = take (server_headlen (length p)) (rfc_encode opc None p) @ p"
    and "length (rfc_encode opc None p) = server_headlen (length p) + length p"
  using rfc_encode_unmasked [OF refl assms] by (auto simp: server_headlen_def)

text \<open>The 64-bit bounds test of the body step.\<close>

lemma no_wrap:
  assumes "a + b \<le> c" "c < 2 ^ 64"
  shows "\<not> (of_nat c :: 64 word) < of_nat a + of_nat b"
proof -
  have "unat (of_nat c :: 64 word) = c" "unat (of_nat (a + b) :: 64 word) = a + b"
    using assms by (simp_all only: unat_of_nat) simp_all
  then show ?thesis using assms by (simp only: word_less_nat_alt flip: of_nat_add)
qed

lemma no_wrapD:
  assumes "\<not> (of_nat c :: 64 word) < w + of_nat h" "c < 2 ^ 64" "unat w + h < 2 ^ 64"
  shows "h + unat w \<le> c"
proof -
  have "w + of_nat h = of_nat (unat w + h)" by simp
  then have "unat (w + of_nat h) = unat w + h" 
    using assms(3) by (simp only: unat_of_nat) simp
  moreover have "unat (of_nat c :: 64 word) = c"
    using assms(2) by (simp add: unat_of_nat)
  ultimately show ?thesis using assms(1) by (simp only: word_less_nat_alt) 
qed

lemma receive_server_data:
  assumes "length buf < 2 ^ 64" and "opc \<in> {TEXT_FRAME, BINARY_FRAME, CONTINUATION}"
    and "0 < length (payload @ rest)" and "buf = rfc_encode opc None payload @ rest"
  shows "receiveFullWebSocketFrame WsHeadSize buf (length buf) ws wf_zero =
      Some (Success, WsHeadSize, server_header ws opc (length payload), buf,
            \<lparr>wf_type = opc, wf_data = Some (server_headlen (length payload)), wf_length = of_nat (length payload),
             wf_closeCode = 0\<rparr>)"
    and "drop (server_headlen (length payload)) buf = payload @ rest"
proof -
  let ?n = "length payload" and ?h = "server_headlen (length payload)"
  have opc: "unat opc < 16" using assms(2) by auto
  have n: "?n < 2 ^ 64"
    using assms(1,4) by (simp add: rfc_encode_def split: prod.splits)
  note L = length_rfc_encode_unmasked [OF n opc]
  obtain ws1 where hs: "decodeHeaderSizeWebSocketFrame buf (length buf) ws = (Success, ws1)"
    and hb: "decodeHeaderBodyWebSocketFrame buf (length buf) ws1 = (Success, server_header ws opc ?n)"
    using decode_server_header [OF refl n opc assms(3,4)] by blast
  have nw: "\<not> (of_nat (length buf) :: 64 word) < of_nat ?n + of_nat ?h"
    by (rule no_wrap) (use assms(1,4) L(2) in simp_all)
  have "buf = take ?h (rfc_encode opc None payload) @ payload @ rest"
    using L(1) assms(4) by (metis append.assoc)
  moreover have "length (take ?h (rfc_encode opc None payload)) = ?h" using L(2) by simp
  ultimately show "drop ?h buf = payload @ rest" by (metis append_eq_conv_conj)
  show "receiveFullWebSocketFrame WsHeadSize buf (length buf) ws wf_zero =
      Some (Success, WsHeadSize, server_header ws opc ?n, buf,
            \<lparr>wf_type = opc, wf_data = Some ?h, wf_length = of_nat ?n, wf_closeCode = 0\<rparr>)"
    using assms(2) nw
    by (auto simp: recv_HeadSize_def hs recv_HeadBody_def hb recv_ContentBody_def
        decodeFrameBodyWebSocketFrame_def server_header_def wf_zero_def)
qed

text \<open>C34. A data frame the server sends without masking is read back exactly: on a buffer that starts
  with such a frame, followed by anything, the parser returns \<open>Success\<close>, leaves the buffer as it is, is
  ready for the next frame, and reports the opcode and the span of the payload. It needs one byte after
  the header (an empty last frame is waited for).\<close>

theorem receive_server_frame:
  assumes "length buf < 2 ^ 64" and "opc \<in> {TEXT_FRAME, BINARY_FRAME, CONTINUATION}"
    and "0 < length (payload @ rest)" and "buf = rfc_encode opc None payload @ rest"
  shows "\<exists>ws' h. receiveFullWebSocketFrame WsHeadSize buf (length buf) ws wf_zero =
      Some (Success, WsHeadSize, ws', buf,
            \<lparr>wf_type = opc, wf_data = Some h, wf_length = of_nat (length payload), wf_closeCode = 0\<rparr>)
    \<and> substr buf h (length payload) = payload \<and> drop (h + length payload) buf = rest"
proof -
  note r = receive_server_data [OF assms]
  from r(2) have "substr buf (server_headlen (length payload)) (length payload) = payload"
    "drop (server_headlen (length payload) + length payload) buf = rest"
    by (simp_all add: substr_def add.commute flip: drop_drop)
  with r(1) show ?thesis by blast
qed

definition ws_header_zero :: WebSocketHeaderType where
  "ws_header_zero = \<lparr>ws_headerSize = 0, ws_fin = False, ws_mask = False, ws_opCode = 0,
     ws_N0 = 0, ws_N = 0, ws_masKingKey = [0, 0, 0, 0]\<rparr>"

lemma receive_server_frame_witness:
  "\<exists>ws' h. receiveFullWebSocketFrame WsHeadSize [0x81, 2, 0x68, 0x69, 0x81]
        (length [0x81, 2, 0x68, 0x69, 0x81 :: byte]) ws_header_zero wf_zero =
      Some (Success, WsHeadSize, ws', [0x81, 2, 0x68, 0x69, 0x81],
            \<lparr>wf_type = TEXT_FRAME, wf_data = Some h, wf_length = of_nat (length [0x68, 0x69 :: byte]), wf_closeCode = 0\<rparr>)
    \<and> substr [0x81, 2, 0x68, 0x69, 0x81] h (length [0x68, 0x69 :: byte]) = [0x68, 0x69 :: byte]
    \<and> drop (h + length [0x68, 0x69 :: byte]) [0x81, 2, 0x68, 0x69, 0x81] = [0x81 :: byte]"
  by (rule receive_server_frame)
    (simp_all add: rfc_encode_def rfc_len_field_def)

section \<open>A frame that arrives in pieces\<close>

lemma decodeHeaderSize_prefix:
  "2 \<le> length pre \<Longrightarrow>
    decodeHeaderSizeWebSocketFrame (pre @ post) (length (pre @ post)) ws =
    decodeHeaderSizeWebSocketFrame pre (length pre) ws"
  by (cases pre; cases "tl pre") (auto simp: decodeHeaderSizeWebSocketFrame_def Let_def)

lemma decodeHeaderSize_cases:
  "decodeHeaderSizeWebSocketFrame pre (length pre) ws = (rc, ws1) \<Longrightarrow>
    (length pre < 2 \<and> rc < 0 \<and> ws1 = ws) \<or>
    (2 \<le> length pre \<and> rc = Success \<and> ws_headerSize ws1 =
       2 + (if ws_N0 ws1 = 126 then 2 else 0) + (if ws_N0 ws1 = 127 then 8 else 0) + (if ws_mask ws1 then 4 else 0))"
  by (auto simp: decodeHeaderSizeWebSocketFrame_def Let_def split: if_splits)

lemma shl_prefix: "i < length pre \<Longrightarrow> byte_shl (pre @ post) i k = byte_shl pre i k"
  by (simp add: byte_shl_def nth_append)
lemma decodeHeaderBody_prefix:
  assumes "ws_headerSize ws < length pre"
    and "ws_headerSize ws =
       2 + (if ws_N0 ws = 126 then 2 else 0) + (if ws_N0 ws = 127 then 8 else 0) + (if ws_mask ws then 4 else 0)"
  shows "decodeHeaderBodyWebSocketFrame (pre @ post) (length (pre @ post)) ws =
    decodeHeaderBodyWebSocketFrame pre (length pre) ws"
proof -
  let ?b = "pre @ post"
  have a: "\<not> length ?b \<le> ws_headerSize ws" "\<not> length pre \<le> ws_headerSize ws" using assms(1) by auto
  have m: "ws_mask ws \<Longrightarrow> i < 4 \<Longrightarrow> ?b ! i = pre ! i" for i using assms by (auto simp: nth_append)
  have n6: "ws_N0 ws = 126 \<Longrightarrow> i < 4 \<Longrightarrow> byte_shl ?b i k = byte_shl pre i k" for i k
    using assms by (intro shl_prefix) auto
  have n7: "ws_N0 ws = 127 \<Longrightarrow> i < 10 \<Longrightarrow> byte_shl ?b i k = byte_shl pre i k" for i k
    using assms by (intro shl_prefix) auto
  show ?thesis
    unfolding decodeHeaderBodyWebSocketFrame_def if_not_P [OF a(1)] if_not_P [OF a(2)] Let_def
    by (cases "ws_N0 ws < 126"; cases "ws_N0 ws = 126"; cases "ws_N0 ws = 127"; cases "ws_mask ws";
        simp add: m n6 n7 del: length_append)
qed

lemma decodeHeaderBody_cases:
  "decodeHeaderBodyWebSocketFrame pre (length pre) ws = (rc, ws1) \<Longrightarrow>
    (length pre \<le> ws_headerSize ws \<and> rc < 0 \<and> ws1 = ws) \<or> (ws_headerSize ws < length pre \<and> rc = Success)"
  by (auto simp: decodeHeaderBodyWebSocketFrame_def Let_def split: if_splits)

lemma decodeFrameBody_error:
  "decodeFrameBodyWebSocketFrame buf n ws rd = Some (rc, buf', rd') \<Longrightarrow> rc < 0 \<Longrightarrow> buf' = buf \<and> rd' = rd"
  by (auto simp: decodeFrameBodyWebSocketFrame_def Let_def split: if_splits)

lemma decodeFrameBody_rc:
  "decodeFrameBodyWebSocketFrame buf n ws rd = Some (rc, buf', rd') \<Longrightarrow> rc = Success \<or> rc < 0"
  by (auto simp: decodeFrameBodyWebSocketFrame_def Let_def split: if_splits)

text \<open>C39. Parsing is incremental: when only a prefix of the data has arrived and the parser asks for more
  (a negative result), then resuming it in the state it left, on the prefix with more bytes appended,
  gives the same return value, parser state, header, buffer and frame as one pass over all the bytes.\<close>

theorem receive_resumes:
  assumes "receiveFullWebSocketFrame WsHeadSize pre (length pre) ws rd = Some (rc, st1, ws1, pre1, rd1)"
    and "rc < 0"
  shows "pre1 = pre \<and> rd1 = rd \<and>
    receiveFullWebSocketFrame st1 (pre @ post) (length (pre @ post)) ws1 rd =
    receiveFullWebSocketFrame WsHeadSize (pre @ post) (length (pre @ post)) ws rd"
proof -
  obtain rh wh where hs: "decodeHeaderSizeWebSocketFrame pre (length pre) ws = (rh, wh)" by fastforce
  obtain rb wb where hb: "decodeHeaderBodyWebSocketFrame pre (length pre) wh = (rb, wb)" by fastforce
  from decodeHeaderSize_cases [OF hs] consider
    (short) "rh < 0" "wh = ws" | (ok) "2 \<le> length pre" "rh = Success"
      "ws_headerSize wh = 2 + (if ws_N0 wh = 126 then 2 else 0) + (if ws_N0 wh = 127 then 8 else 0)
        + (if ws_mask wh then 4 else 0)" by blast
  then show ?thesis
  proof cases
    case short
    with assms(1) show ?thesis by (simp add: recv_HeadSize_def hs)
  next
    case ok
    have full: "recv_HeadSize (pre @ post) (length (pre @ post)) ws rd =
        recv_HeadBody (pre @ post) (length (pre @ post)) wh rd"
      using ok(1,2) by (simp only: recv_HeadSize_def decodeHeaderSize_prefix hs) simp
    have a: "recv_HeadBody pre (length pre) wh rd = Some (rc, st1, ws1, pre1, rd1)"
      using assms(1) ok(2) by (simp add: recv_HeadSize_def hs)
    from decodeHeaderBody_cases [OF hb] consider
      (hbshort) "rb < 0" "wb = wh" | (hbok) "ws_headerSize wh < length pre" "rb = Success" by blast
    then show ?thesis
    proof cases
      case hbshort
      with a assms(2) full show ?thesis
        by (auto simp: recv_HeadBody_def hb recv_ContentBody_def decodeFrameBodyWebSocketFrame_def
            split: if_splits)
    next
      case hbok
      have full': "recv_HeadBody (pre @ post) (length (pre @ post)) wh rd =
          recv_ContentBody (pre @ post) (length (pre @ post)) wb rd"
        using hbok(2) by (simp only: recv_HeadBody_def decodeHeaderBody_prefix [OF hbok(1) ok(3)] hb) simp
      from a hbok(2) have "recv_ContentBody pre (length pre) wb rd = Some (rc, st1, ws1, pre1, rd1)"
        by (simp add: recv_HeadBody_def hb)
      with assms(2) have "st1 = WsContentBody" "ws1 = wb" "pre1 = pre" "rd1 = rd"
        by (auto simp: recv_ContentBody_def split: option.splits if_splits prod.splits
            dest: decodeFrameBody_error)
      with full full' show ?thesis by simp
    qed
  qed
qed

lemma receive_resumes_witness:
  "[0x81 :: byte, 2] = [0x81, 2] \<and> wf_zero = wf_zero \<and>
    receiveFullWebSocketFrame WsHeadBody ([0x81, 2] @ [0x68, 0x69]) (length ([0x81 :: byte, 2] @ [0x68, 0x69]))
      (ws_header_zero\<lparr>ws_fin := True, ws_opCode := 1, ws_N0 := 2, ws_headerSize := 2\<rparr>) wf_zero =
    receiveFullWebSocketFrame WsHeadSize ([0x81, 2] @ [0x68, 0x69]) (length ([0x81 :: byte, 2] @ [0x68, 0x69]))
      ws_header_zero wf_zero"
  by (rule receive_resumes [of _ _ _ "- InvalidWsFrameHeaderBody"])
    (simp_all add: recv_HeadSize_def recv_HeadBody_def decodeHeaderSizeWebSocketFrame_def
      decodeHeaderBodyWebSocketFrame_def ws_header_zero_def)

section \<open>Bounds\<close>

text \<open>When the 64-bit sum of the length field and the header size does not wrap around, a data frame the
  parser accepts lies inside the received bytes.\<close>

theorem accepted_frame_in_bounds:
  assumes "receiveFullWebSocketFrame WsHeadSize buf (length buf) ws wf_zero =
      Some (Success, WsHeadSize, ws', buf', rd')"
    and "wf_type rd' \<in> {TEXT_FRAME, BINARY_FRAME, CONTINUATION}" and "wf_data rd' = Some h"
    and "length buf < 2 ^ 64" and "unat (wf_length rd') + h < 2 ^ 64"
  shows "h + unat (wf_length rd') \<le> length buf"
proof -
  obtain rh wh where hs: "decodeHeaderSizeWebSocketFrame buf (length buf) ws = (rh, wh)" by fastforce
  obtain rb wb where hb: "decodeHeaderBodyWebSocketFrame buf (length buf) wh = (rb, wb)" by fastforce
  have d: "decodeFrameBodyWebSocketFrame buf (length buf) wb wf_zero = Some (Success, buf', rd')"
    using assms(1)
    by (auto simp: recv_HeadSize_def hs recv_HeadBody_def hb recv_ContentBody_def
        dest: decodeFrameBody_rc split: option.splits prod.splits if_splits)
  with assms(2,3) have "\<not> (of_nat (length buf) :: 64 word) < wf_length rd' + of_nat h"
    by (auto simp: decodeFrameBodyWebSocketFrame_def wf_zero_def Let_def split: if_splits)
  then show ?thesis
    by (rule no_wrapD [OF _ assms(4,5)])
qed

lemma accepted_frame_in_bounds_witness:
  "2 + unat (wf_length \<lparr>wf_type = 1, wf_data = Some 2, wf_length = 2, wf_closeCode = 0\<rparr>)
    \<le> length [0x81 :: byte, 2, 0x68, 0x69]"
  by (rule accepted_frame_in_bounds [where ws = ws_header_zero])
    (simp_all add: recv_HeadSize_def recv_HeadBody_def decodeHeaderSizeWebSocketFrame_def
      decodeHeaderBodyWebSocketFrame_def recv_ContentBody_def decodeFrameBodyWebSocketFrame_def
      ws_header_zero_def wf_zero_def)

text \<open>Without that condition the bounds test does not protect the caller: a frame of 11 bytes whose
  length field is \<open>2 ^ 64 - 1\<close> passes it, because the 64-bit sum wraps around to 9, and is reported as a
  payload of \<open>2 ^ 64 - 1\<close> bytes.\<close>

theorem huge_length_accepted:
  "receiveFullWebSocketFrame WsHeadSize [0x81, 127, 255, 255, 255, 255, 255, 255, 255, 255, b] 11 ws wf_zero =
    Some (Success, WsHeadSize,
      ws\<lparr>ws_fin := True, ws_opCode := TEXT_FRAME, ws_mask := False, ws_N0 := 127, ws_headerSize := 10,
         ws_N := 2 ^ 64 - 1, ws_masKingKey := [0, 0, 0, 0]\<rparr>,
      [0x81, 127, 255, 255, 255, 255, 255, 255, 255, 255, b],
      \<lparr>wf_type = TEXT_FRAME, wf_data = Some 10, wf_length = 2 ^ 64 - 1, wf_closeCode = 0\<rparr>)"
  by (simp add: recv_HeadSize_def recv_HeadBody_def decodeHeaderSizeWebSocketFrame_def byte_shl_def
      decodeHeaderBodyWebSocketFrame_def recv_ContentBody_def decodeFrameBodyWebSocketFrame_def
      wf_zero_def Let_def)

end
