(* ===== verification/NodeManager.thy ===== *)
theory NodeManager
  imports NlsGlobal
begin

text \<open>
  \<open>transport/nodeManager.cpp\<close>: the registry of live requests and their connection nodes that every
  public call and every event callback asks before it follows a pointer. Addresses are numbers, 0 is
  \<open>NULL\<close>; the objects behind them are a \<open>heap\<close>, the registry's two \<open>std::map\<close>s are partial maps. An
  operation that follows a pointer to no object has no result (\<open>None\<close>): that it never happens is one of
  the theorems. Each operation holds the manager's mutex throughout, so it is one atomic step, except
  for the waiting loop of \<open>removeRequestFromInfo\<close>, which releases it: what the other threads do meanwhile
  is the argument \<open>env\<close>.
\<close>

section \<open>State\<close>

abbreviation (input) NodeStatusInvalid :: int where "NodeStatusInvalid \<equiv> 0"
abbreviation (input) NodeStatusCreated :: int where "NodeStatusCreated \<equiv> 1"
abbreviation (input) NodeStatusInvoking :: int where "NodeStatusInvoking \<equiv> 2"
abbreviation (input) NodeStatusInvoked :: int where "NodeStatusInvoked \<equiv> 3"
abbreviation (input) NodeStatusConnecting :: int where "NodeStatusConnecting \<equiv> 4"
abbreviation (input) NodeStatusConnected :: int where "NodeStatusConnected \<equiv> 5"
abbreviation (input) NodeStatusHandshaking :: int where "NodeStatusHandshaking \<equiv> 6"
abbreviation (input) NodeStatusHandshaked :: int where "NodeStatusHandshaked \<equiv> 7"
abbreviation (input) NodeStatusRunning :: int where "NodeStatusRunning \<equiv> 8"
abbreviation (input) NodeStatusCancelling :: int where "NodeStatusCancelling \<equiv> 9"
abbreviation (input) NodeStatusClosing :: int where "NodeStatusClosing \<equiv> 10"
abbreviation (input) NodeStatusClosed :: int where "NodeStatusClosed \<equiv> 11"
abbreviation (input) NodeStatusReleasing :: int where "NodeStatusReleasing \<equiv> 12"
abbreviation (input) NodeStatusReleased :: int where "NodeStatusReleased \<equiv> 13"

record NodeInfo =
  ni_request :: addr
  ni_node :: addr
  ni_instance :: addr
  ni_uuid :: string
  ni_status :: int

text \<open>\<open>INlsRequest::getConnectNode\<close>, \<open>ConnectNode::getNodeUUID\<close> and \<open>ConnectNode::getRequest\<close> of the
  objects that exist.\<close>

record heap =
  connectNode_of :: "addr \<rightharpoonup> addr"
  uuid_of :: "addr \<rightharpoonup> string"
  request_of :: "addr \<rightharpoonup> addr"

record node_manager =
  requestListByNode :: "addr \<rightharpoonup> addr"
  infoByRequest :: "addr \<rightharpoonup> NodeInfo"
  timeout_ms :: int

definition nm_init :: node_manager where
  "nm_init = \<lparr>requestListByNode = Map.empty, infoByRequest = Map.empty, timeout_ms = 2000\<rparr>"

section \<open>Operations\<close>

definition addRequestIntoInfoWithInstance ::
  "heap \<Rightarrow> node_manager \<Rightarrow> addr \<Rightarrow> addr \<Rightarrow> (int \<times> node_manager) option" where
  "addRequestIntoInfoWithInstance h m request inst =
     (if inst = nullptr then Some (- EventClientEmpty, m)
      else if request = nullptr then Some (- RequestEmpty, m)
      else
        (case connectNode_of h request of
           None \<Rightarrow> None
         | Some node \<Rightarrow>
             if node = nullptr then Some (- NodeEmpty, m)
             else
               (case infoByRequest m request of
                  Some info \<Rightarrow>
                    if NodeStatusCreated < ni_status info \<and> ni_status info < NodeStatusReleased
                    then Some (- InvalidRequest, m)
                    else if ni_instance info \<noteq> inst then Some (- InvalidRequest, m)
                    else
                      (case uuid_of h node of
                         None \<Rightarrow> None
                       | Some u \<Rightarrow>
                           Some (Success, m\<lparr>
                             infoByRequest := (infoByRequest m)(request \<mapsto>
                               info\<lparr>ni_request := request, ni_node := node, ni_instance := inst,
                                    ni_uuid := u, ni_status := NodeStatusCreated\<rparr>),
                             requestListByNode := (requestListByNode m)(node \<mapsto> request)\<rparr>))
                | None \<Rightarrow>
                    (case uuid_of h node of
                       None \<Rightarrow> None
                     | Some u \<Rightarrow>
                         Some (Success, m\<lparr>
                           infoByRequest := (infoByRequest m)(request \<mapsto>
                             \<lparr>ni_request = request, ni_node = node, ni_instance = inst,
                              ni_uuid = u, ni_status = NodeStatusCreated\<rparr>),
                           requestListByNode :=
                             (if requestListByNode m node = None
                              then (requestListByNode m)(node \<mapsto> request)
                              else requestListByNode m)\<rparr>)))))"

text \<open>The part shared by the checks of a known request: its node must be registered, with the same
  identifier.\<close>

definition check_node_of_request :: "heap \<Rightarrow> node_manager \<Rightarrow> addr \<Rightarrow> NodeInfo \<Rightarrow> int option" where
  "check_node_of_request h m request info =
     (case connectNode_of h request of
        None \<Rightarrow> None
      | Some node \<Rightarrow>
          if requestListByNode m node = None then Some (- InvalidRequest)
          else
            (case uuid_of h node of
               None \<Rightarrow> None
             | Some uuid \<Rightarrow> if ni_uuid info \<noteq> uuid then Some (- InvalidRequest) else Some Success))"

definition checkRequestWithInstance :: "heap \<Rightarrow> node_manager \<Rightarrow> addr \<Rightarrow> addr \<Rightarrow> int option" where
  "checkRequestWithInstance h m request inst =
     (if inst = nullptr then Some (- EventClientEmpty)
      else if request = nullptr then Some (- RequestEmpty)
      else
        (case infoByRequest m request of
           None \<Rightarrow> Some (- InvalidRequest)
         | Some info \<Rightarrow>
             if ni_instance info \<noteq> inst then Some (- InvalidRequest)
             else check_node_of_request h m request info))"

text \<open>The result of the two \<open>check...Exist\<close> is the return value and what is written to \<open>*status\<close>.\<close>

definition checkRequestExist :: "heap \<Rightarrow> node_manager \<Rightarrow> addr \<Rightarrow> (int \<times> int option) option" where
  "checkRequestExist h m request =
     (if request = nullptr then Some (- RequestEmpty, None)
      else
        (case infoByRequest m request of
           None \<Rightarrow> Some (- RequestEmpty, None)
         | Some info \<Rightarrow>
             if ni_request info \<noteq> request then Some (- InvalidRequest, None)
             else
               (case check_node_of_request h m request info of
                  None \<Rightarrow> None
                | Some ret \<Rightarrow> if ret = Success then Some (Success, Some (ni_status info)) else Some (ret, None))))"

definition checkNodeExist :: "heap \<Rightarrow> node_manager \<Rightarrow> addr \<Rightarrow> (int \<times> int option) option" where
  "checkNodeExist h m node =
     (if node = nullptr then Some (- NodeEmpty, None)
      else if requestListByNode m node = None then Some (- NodeEmpty, None)
      else
        (case request_of h node of
           None \<Rightarrow> None
         | Some request \<Rightarrow>
             if request = nullptr then Some (- RequestEmpty, None)
             else
               (case infoByRequest m request of
                  None \<Rightarrow> Some (- RequestEmpty, None)
                | Some info \<Rightarrow>
                    if ni_request info \<noteq> request then Some (- InvalidRequest, None)
                    else
                      (case uuid_of h node of
                         None \<Rightarrow> None
                       | Some uuid \<Rightarrow>
                           if ni_uuid info \<noteq> uuid then Some (- InvalidRequest, None)
                           else Some (Success, Some (ni_status info))))))"

definition updateNodeStatus :: "heap \<Rightarrow> node_manager \<Rightarrow> addr \<Rightarrow> int \<Rightarrow> (int \<times> node_manager) option" where
  "updateNodeStatus h m node status =
     (if node = nullptr then Some (- NodeEmpty, m)
      else if requestListByNode m node = None then Some (- NodeEmpty, m)
      else
        (case request_of h node of
           None \<Rightarrow> None
         | Some request \<Rightarrow>
             (case infoByRequest m request of
                None \<Rightarrow> Some (- InvaildNodeStatus, m)
              | Some info \<Rightarrow>
                  (case uuid_of h node of
                     None \<Rightarrow> None
                   | Some uuid \<Rightarrow>
                       if ni_uuid info \<noteq> uuid then Some (- InvalidRequest, m)
                       else Some (Success, m\<lparr>infoByRequest :=
                              (infoByRequest m)(request \<mapsto> info\<lparr>ni_status := status\<rparr>)\<rparr>)))))"

text \<open>
  The waiting loop of \<open>removeRequestFromInfo\<close>: it sleeps \<open>StepSleepMs\<close> with the mutex released, and
  \<open>env k m\<close> is the manager the \<open>k\<close>-th sleep comes back to. The result is that manager and the time slept.
\<close>

abbreviation (input) StepSleepMs :: int where "StepSleepMs \<equiv> 500"

function wait_loop ::
  "(nat \<Rightarrow> node_manager \<Rightarrow> node_manager) \<Rightarrow> int \<Rightarrow> addr \<Rightarrow> nat \<Rightarrow> int \<Rightarrow> node_manager \<Rightarrow> node_manager \<times> int" where
  "wait_loop env limit request k timeout m =
     (case infoByRequest m request of
        None \<Rightarrow> (m, timeout)
      | Some info \<Rightarrow>
          if ni_status info \<noteq> NodeStatusCreated \<and> ni_status info < NodeStatusClosed then
            (if limit \<le> timeout then (m, timeout)
             else wait_loop env limit request (Suc k) (timeout + StepSleepMs) (env k m))
          else (m, timeout))"
  by pat_completeness auto
termination
  by (relation "measure (\<lambda>(env, limit, request, k, timeout, m). nat (limit - timeout))") auto

declare wait_loop.simps [simp del]

definition erase_request :: "node_manager \<Rightarrow> addr \<Rightarrow> int \<times> node_manager" where
  "erase_request m request =
     (case infoByRequest m request of
        None \<Rightarrow> (- InvalidRequest, m)
      | Some info \<Rightarrow>
          (Success, m\<lparr>requestListByNode := (requestListByNode m)(ni_node info := None),
                      infoByRequest := (infoByRequest m)(request := None)\<rparr>))"

definition removeRequestFromInfo ::
  "(nat \<Rightarrow> node_manager \<Rightarrow> node_manager) \<Rightarrow> node_manager \<Rightarrow> addr \<Rightarrow> bool \<Rightarrow> int \<times> node_manager" where
  "removeRequestFromInfo env m request wait =
     (if request = nullptr then (- RequestEmpty, m)
      else erase_request (if wait then fst (wait_loop env (timeout_ms m) request 0 0 m) else m) request)"

definition removeInstanceFromInfo :: "addr \<Rightarrow> int" where
  "removeInstanceFromInfo inst = Success"

definition getNodeStatusString :: "int \<Rightarrow> string" where
  "getNodeStatusString status =
     (if status = NodeStatusInvalid then ''NodeStatusInvalid''
      else if status = NodeStatusCreated then ''NodeStatusCreated''
      else if status = NodeStatusInvoking then ''NodeStatusInvoking''
      else if status = NodeStatusInvoked then ''NodeStatusInvoked''
      else if status = NodeStatusConnecting then ''NodeStatusConnecting''
      else if status = NodeStatusConnected then ''NodeStatusConnected''
      else if status = NodeStatusHandshaking then ''NodeStatusHandshaking''
      else if status = NodeStatusHandshaked then ''NodeStatusHandshaked''
      else if status = NodeStatusRunning then ''NodeStatusRunning''
      else if status = NodeStatusCancelling then ''NodeStatusCancelling''
      else if status = NodeStatusClosing then ''NodeStatusClosing''
      else if status = NodeStatusClosed then ''NodeStatusClosed''
      else if status = NodeStatusReleased then ''NodeStatusReleased''
      else ''Unknown'')"

section \<open>The invariant\<close>

text \<open>The two maps are inverse to each other, and agree with the pointers and identifiers in the objects.\<close>

definition info_ok :: "heap \<Rightarrow> node_manager \<Rightarrow> addr \<Rightarrow> NodeInfo \<Rightarrow> bool" where
  "info_ok h m r i \<longleftrightarrow>
     r \<noteq> nullptr \<and> ni_node i \<noteq> nullptr \<and> ni_request i = r
     \<and> connectNode_of h r = Some (ni_node i) \<and> request_of h (ni_node i) = Some r
     \<and> uuid_of h (ni_node i) = Some (ni_uuid i) \<and> requestListByNode m (ni_node i) = Some r"

definition nm_ok :: "heap \<Rightarrow> node_manager \<Rightarrow> bool" where
  "nm_ok h m \<longleftrightarrow>
     (\<forall>r i. infoByRequest m r = Some i \<longrightarrow> info_ok h m r i)
     \<and> (\<forall>n r. requestListByNode m n = Some r \<longrightarrow> (\<exists>i. infoByRequest m r = Some i \<and> ni_node i = n))"

text \<open>A request object and its node point at each other.\<close>

definition linked :: "heap \<Rightarrow> addr \<Rightarrow> bool" where
  "linked h r \<longleftrightarrow> (\<exists>n u. connectNode_of h r = Some n
     \<and> (n \<noteq> nullptr \<longrightarrow> request_of h n = Some r \<and> uuid_of h n = Some u))"

lemma nm_okI:
  assumes "\<And>r i. infoByRequest m r = Some i \<Longrightarrow> info_ok h m r i"
    and "\<And>n r. requestListByNode m n = Some r \<Longrightarrow> \<exists>i. infoByRequest m r = Some i \<and> ni_node i = n"
  shows "nm_ok h m"
  using assms unfolding nm_ok_def by blast

lemma nm_ok_info: "nm_ok h m \<Longrightarrow> infoByRequest m r = Some i \<Longrightarrow> info_ok h m r i"
  by (simp add: nm_ok_def)

lemma nm_ok_node:
  "nm_ok h m \<Longrightarrow> requestListByNode m n = Some r \<Longrightarrow> \<exists>i. infoByRequest m r = Some i \<and> ni_node i = n \<and> info_ok h m r i"
  unfolding nm_ok_def by blast

lemma nm_ok_init: "nm_ok h nm_init"
  by (simp add: nm_ok_def nm_init_def)

text \<open>Registering one request with the node it points to.\<close>

lemma nm_ok_register:
  assumes "nm_ok h m" and "r \<noteq> nullptr" and "n \<noteq> nullptr"
    and "connectNode_of h r = Some n" and "request_of h n = Some r" and "uuid_of h n = Some (ni_uuid i)"
    and "ni_request i = r" and "ni_node i = n"
  shows "nm_ok h (m\<lparr>infoByRequest := (infoByRequest m)(r \<mapsto> i),
                    requestListByNode := (requestListByNode m)(n \<mapsto> r)\<rparr>)"
proof (rule nm_okI)
  fix r' i'
  assume a: "infoByRequest (m\<lparr>infoByRequest := (infoByRequest m)(r \<mapsto> i),
      requestListByNode := (requestListByNode m)(n \<mapsto> r)\<rparr>) r' = Some i'"
  show "info_ok h (m\<lparr>infoByRequest := (infoByRequest m)(r \<mapsto> i),
      requestListByNode := (requestListByNode m)(n \<mapsto> r)\<rparr>) r' i'"
  proof (cases "r' = r")
    case True
    with a assms show ?thesis by (simp add: info_ok_def)
  next
    case False
    with a have "info_ok h m r' i'" using nm_ok_info [OF assms(1)] by simp
    with False assms(5) show ?thesis by (auto simp: info_ok_def)
  qed
next
  fix n' r'
  assume a: "requestListByNode (m\<lparr>infoByRequest := (infoByRequest m)(r \<mapsto> i),
      requestListByNode := (requestListByNode m)(n \<mapsto> r)\<rparr>) n' = Some r'"
  show "\<exists>j. infoByRequest (m\<lparr>infoByRequest := (infoByRequest m)(r \<mapsto> i),
      requestListByNode := (requestListByNode m)(n \<mapsto> r)\<rparr>) r' = Some j \<and> ni_node j = n'"
  proof (cases "n' = n")
    case True
    with a assms show ?thesis by simp
  next
    case False
    with a have "requestListByNode m n' = Some r'" by simp
    from nm_ok_node [OF assms(1) this] obtain j where
      "infoByRequest m r' = Some j" "ni_node j = n'" "info_ok h m r' j" by blast
    with False assms(4) show ?thesis by (auto simp: info_ok_def)
  qed
qed

text \<open>No other request can hold the node of a linked request.\<close>

lemma nm_ok_node_owner:
  assumes "nm_ok h m" and "request_of h n = Some r" and "requestListByNode m n \<noteq> None"
  shows "requestListByNode m n = Some r"
  using assms by (auto simp: info_ok_def dest!: nm_ok_node)

lemma add_ok:
  assumes "nm_ok h m" and "request = nullptr \<or> inst = nullptr \<or> linked h request"
  shows "\<exists>ret m'. addRequestIntoInfoWithInstance h m request inst = Some (ret, m') \<and> nm_ok h m'"
proof (cases "request = nullptr \<or> inst = nullptr")
  case True
  with assms(1) show ?thesis by (auto simp: addRequestIntoInfoWithInstance_def)
next
  case False
  with assms(2) obtain n u where l: "connectNode_of h request = Some n"
    "n \<noteq> nullptr \<Longrightarrow> request_of h n = Some request" "n \<noteq> nullptr \<Longrightarrow> uuid_of h n = Some u"
    by (auto simp: linked_def)
  show ?thesis
  proof (cases "n = nullptr")
    case True
    with l False assms(1) show ?thesis by (simp add: addRequestIntoInfoWithInstance_def)
  next
    case n: False
    have fresh: "requestListByNode m n = None" if "infoByRequest m request = None"
      using nm_ok_node_owner [OF assms(1) l(2) [OF n]] nm_ok_node [OF assms(1), of n request] that
      by (cases "requestListByNode m n") auto
    note reg = nm_ok_register [OF assms(1) _ n l(1) l(2) [OF n]]
    show ?thesis
      using False n l assms(1)
      by (auto simp: addRequestIntoInfoWithInstance_def fresh intro: reg split: option.splits)
  qed
qed

lemma update_ok:
  assumes "nm_ok h m"
  shows "\<exists>ret m'. updateNodeStatus h m node status = Some (ret, m') \<and> nm_ok h m'"
proof (cases "requestListByNode m node")
  case None
  with assms show ?thesis by (simp add: updateNodeStatus_def)
next
  case (Some r)
  from nm_ok_node [OF assms this] obtain i where
    i: "infoByRequest m r = Some i" "ni_node i = node" "info_ok h m r i" by blast
  then have "nm_ok h (m\<lparr>infoByRequest := (infoByRequest m)(r \<mapsto> i\<lparr>ni_status := status\<rparr>),
      requestListByNode := (requestListByNode m)(node \<mapsto> r)\<rparr>)"
    by (intro nm_ok_register [OF assms]) (auto simp: info_ok_def)
  moreover have "(requestListByNode m)(node \<mapsto> r) = requestListByNode m" using Some by auto
  ultimately show ?thesis
    using i Some assms by (auto simp: updateNodeStatus_def info_ok_def)
qed

lemma erase_ok:
  assumes "nm_ok h m"
  shows "nm_ok h (snd (erase_request m request))"
proof (cases "infoByRequest m request")
  case None
  with assms show ?thesis by (simp add: erase_request_def)
next
  case (Some i)
  note i = nm_ok_info [OF assms Some]
  show ?thesis
  proof (rule nm_okI)
    fix r j
    assume "infoByRequest (snd (erase_request m request)) r = Some j"
    then have "r \<noteq> request" "infoByRequest m r = Some j"
      using Some by (auto simp: erase_request_def split: if_splits)
    with nm_ok_info [OF assms this(2)] i show "info_ok h (snd (erase_request m request)) r j"
      using Some by (auto simp: erase_request_def info_ok_def)
  next
    fix n r
    assume "requestListByNode (snd (erase_request m request)) n = Some r"
    then have "n \<noteq> ni_node i" "requestListByNode m n = Some r"
      using Some by (auto simp: erase_request_def split: if_splits)
    with nm_ok_node [OF assms this(2)] Some
    show "\<exists>j. infoByRequest (snd (erase_request m request)) r = Some j \<and> ni_node j = n"
      by (auto simp: erase_request_def)
  qed
qed

lemma wait_loop_ok:
  assumes "\<And>k m. nm_ok h m \<Longrightarrow> nm_ok h (env k m)"
  shows "nm_ok h m \<Longrightarrow> nm_ok h (fst (wait_loop env limit request k timeout m))"
  using assms
proof (induction env limit request k timeout m rule: wait_loop.induct)
  case (1 env limit request k timeout m)
  then show ?case by (subst wait_loop.simps) (auto split: option.splits)
qed

lemma remove_ok:
  assumes "nm_ok h m" and "\<And>k m. nm_ok h m \<Longrightarrow> nm_ok h (env k m)"
  shows "nm_ok h (snd (removeRequestFromInfo env m request wait))"
  using assms erase_ok [OF wait_loop_ok] erase_ok
  by (auto simp: removeRequestFromInfo_def)

lemma check_node_of_request_ok:
  "nm_ok h m \<Longrightarrow> infoByRequest m r = Some i \<Longrightarrow> check_node_of_request h m r i = Some Success"
  by (auto simp: check_node_of_request_def info_ok_def dest: nm_ok_info)

lemma checkNodeExist_registered:
  assumes "nm_ok h m" and "requestListByNode m node = Some r" and "infoByRequest m r = Some i"
  shows "checkNodeExist h m node = Some (Success, Some (ni_status i))"
  using nm_ok_node [OF assms(1,2)] assms by (auto simp: checkNodeExist_def info_ok_def)

lemma checkRequestExist_registered:
  "nm_ok h m \<Longrightarrow> infoByRequest m r = Some i \<Longrightarrow> checkRequestExist h m r = Some (Success, Some (ni_status i))"
  using nm_ok_info by (auto simp: checkRequestExist_def info_ok_def check_node_of_request_ok)

lemma checks_no_fault:
  assumes "nm_ok h m"
  shows "checkRequestWithInstance h m request inst \<noteq> None" and "checkRequestExist h m request \<noteq> None"
    and "checkNodeExist h m node \<noteq> None"
proof -
  show "checkRequestWithInstance h m request inst \<noteq> None"
    using check_node_of_request_ok [OF assms]
    by (auto simp: checkRequestWithInstance_def split: option.splits)
  show "checkRequestExist h m request \<noteq> None"
    using checkRequestExist_registered [OF assms]
    by (cases "infoByRequest m request") (auto simp: checkRequestExist_def)
  show "checkNodeExist h m node \<noteq> None"
  proof (cases "requestListByNode m node")
    case None
    then show ?thesis by (simp add: checkNodeExist_def)
  next
    case (Some r)
    with nm_ok_node [OF assms Some] checkNodeExist_registered [OF assms Some] show ?thesis by auto
  qed
qed

section \<open>Sequences of operations\<close>

datatype nm_op =
    Add addr addr
  | CheckInstance addr addr
  | CheckRequest addr
  | CheckNode addr
  | Update addr int
  | Remove addr bool

definition nm_step :: "(nat \<Rightarrow> node_manager \<Rightarrow> node_manager) \<Rightarrow> heap \<Rightarrow> nm_op \<Rightarrow> node_manager \<Rightarrow> node_manager option" where
  "nm_step env h op m =
     (case op of
        Add r i \<Rightarrow> map_option snd (addRequestIntoInfoWithInstance h m r i)
      | CheckInstance r i \<Rightarrow> map_option (\<lambda>_. m) (checkRequestWithInstance h m r i)
      | CheckRequest r \<Rightarrow> map_option (\<lambda>_. m) (checkRequestExist h m r)
      | CheckNode n \<Rightarrow> map_option (\<lambda>_. m) (checkNodeExist h m n)
      | Update n st \<Rightarrow> map_option snd (updateNodeStatus h m n st)
      | Remove r w \<Rightarrow> Some (snd (removeRequestFromInfo env m r w)))"

definition nm_run :: "(nat \<Rightarrow> node_manager \<Rightarrow> node_manager) \<Rightarrow> heap \<Rightarrow> nm_op list \<Rightarrow> node_manager \<Rightarrow> node_manager option" where
  "nm_run env h ops m = run_opt (nm_step env h) ops m"

definition op_ok :: "heap \<Rightarrow> nm_op \<Rightarrow> bool" where
  "op_ok h op \<longleftrightarrow> (case op of Add r i \<Rightarrow> r = nullptr \<or> i = nullptr \<or> linked h r | _ \<Rightarrow> True)"

lemma nm_step_ok:
  assumes "nm_ok h m" and "op_ok h op" and "\<And>k m. nm_ok h m \<Longrightarrow> nm_ok h (env k m)"
  shows "\<exists>m'. nm_step env h op m = Some m' \<and> nm_ok h m'"
proof (cases op)
  case (Add r i)
  with assms(2) add_ok [OF assms(1), of r i] show ?thesis by (auto simp: nm_step_def op_ok_def)
next
  case (Update n st)
  with update_ok [OF assms(1), of n st] show ?thesis by (auto simp: nm_step_def)
next
  case (Remove r w)
  with remove_ok [OF assms(1,3)] show ?thesis by (simp add: nm_step_def)
qed (use checks_no_fault [OF assms(1)] assms(1) in \<open>auto simp: nm_step_def\<close>)

text \<open>C4. The registry never follows a dangling pointer and never loses its invariant: from the empty
  registry, any sequence of operations on any addresses, in which only existing request objects are
  added and the other threads do the same while a removal waits, runs to its end, in a state where the
  two maps are inverse and agree with the objects.\<close>

theorem registry_safe:
  assumes "list_all (op_ok h) ops" and "\<And>k m. nm_ok h m \<Longrightarrow> nm_ok h (env k m)"
  shows "\<exists>m. nm_run env h ops nm_init = Some m \<and> nm_ok h m"
  unfolding nm_run_def
  by (rule run_opt_inv [where I = "nm_ok h" and ok = "op_ok h"])
    (use assms nm_ok_init in \<open>auto intro: nm_step_ok\<close>)

text \<open>Request 1 with node 2 and request 3 with node 4, used by the witnesses.\<close>

definition heap_example :: heap where
  "heap_example = \<lparr>connectNode_of = [1 \<mapsto> 2, 3 \<mapsto> 4], uuid_of = [2 \<mapsto> ''a'', 4 \<mapsto> ''b''],
     request_of = [2 \<mapsto> 1, 4 \<mapsto> 3]\<rparr>"

lemma registry_safe_witness:
  "\<exists>m. nm_run (\<lambda>k m. m) heap_example
        [Add 1 9, Add 3 9, CheckNode 2, Update 4 NodeStatusRunning, Remove 3 True, CheckRequest 3, Add 3 8, CheckNode 77]
        nm_init = Some m \<and> nm_ok heap_example m"
  by (rule registry_safe) (auto simp: op_ok_def linked_def heap_example_def)

section \<open>What the operations promise\<close>

text \<open>A newly added request is found, as created and under its own instance only, through the request
  and through its node.\<close>

theorem added_request_found:
  assumes "nm_ok h m" and "linked h request" and "infoByRequest m request = None"
    and "addRequestIntoInfoWithInstance h m request inst = Some (Success, m')"
    and "connectNode_of h request = Some node"
  shows "checkRequestExist h m' request = Some (Success, Some NodeStatusCreated)
    \<and> checkNodeExist h m' node = Some (Success, Some NodeStatusCreated)
    \<and> checkRequestWithInstance h m' request inst = Some Success
    \<and> (other \<noteq> inst \<longrightarrow> other \<noteq> nullptr \<longrightarrow> checkRequestWithInstance h m' request other = Some (- InvalidRequest))"
proof -
  from assms(4) have nz: "request \<noteq> nullptr" "inst \<noteq> nullptr" "node \<noteq> nullptr"
    using assms(5) by (auto simp: addRequestIntoInfoWithInstance_def split: if_splits)
  have ok: "nm_ok h m'" using add_ok [OF assms(1), of request inst] assms(2,4) by simp
  from assms nz obtain u where i: "infoByRequest m' request =
      Some \<lparr>ni_request = request, ni_node = node, ni_instance = inst, ni_uuid = u, ni_status = NodeStatusCreated\<rparr>"
    by (auto simp: addRequestIntoInfoWithInstance_def split: option.splits if_splits)
  then have n: "requestListByNode m' node = Some request"
    using nm_ok_info [OF ok i] by (simp add: info_ok_def)
  show ?thesis
    using checkRequestExist_registered [OF ok i] checkNodeExist_registered [OF ok n i]
      check_node_of_request_ok [OF ok i] i nz
    by (simp add: checkRequestWithInstance_def)
qed

lemma added_request_found_witness:
  "checkRequestExist heap_example
      (nm_init\<lparr>infoByRequest := [1 \<mapsto> \<lparr>ni_request = 1, ni_node = 2, ni_instance = 9, ni_uuid = ''a'', ni_status = 1\<rparr>],
               requestListByNode := [2 \<mapsto> 1]\<rparr>) 1 = Some (Success, Some NodeStatusCreated)
    \<and> checkNodeExist heap_example
      (nm_init\<lparr>infoByRequest := [1 \<mapsto> \<lparr>ni_request = 1, ni_node = 2, ni_instance = 9, ni_uuid = ''a'', ni_status = 1\<rparr>],
               requestListByNode := [2 \<mapsto> 1]\<rparr>) 2 = Some (Success, Some NodeStatusCreated)
    \<and> checkRequestWithInstance heap_example
      (nm_init\<lparr>infoByRequest := [1 \<mapsto> \<lparr>ni_request = 1, ni_node = 2, ni_instance = 9, ni_uuid = ''a'', ni_status = 1\<rparr>],
               requestListByNode := [2 \<mapsto> 1]\<rparr>) 1 9 = Some Success
    \<and> checkRequestWithInstance heap_example
      (nm_init\<lparr>infoByRequest := [1 \<mapsto> \<lparr>ni_request = 1, ni_node = 2, ni_instance = 9, ni_uuid = ''a'', ni_status = 1\<rparr>],
               requestListByNode := [2 \<mapsto> 1]\<rparr>) 1 8 = Some (- InvalidRequest)"
  by (rule added_request_found [OF nm_ok_init, where other = 8 and inst = 9, simplified])
    (simp_all add: nm_init_def heap_example_def linked_def addRequestIntoInfoWithInstance_def)

subsection \<open>The interface the event handlers use\<close>

text \<open>
  The network thread and the connection nodes use the registry as a store of one status per node: they
  ask whether a node is known and set its status.
\<close>

lemma update_reads_back:
  assumes "nm_ok h m" and "updateNodeStatus h m node status = Some (Success, m')"
  shows "checkNodeExist h m' node = Some (Success, Some status)
    \<and> (n \<noteq> node \<longrightarrow> checkNodeExist h m' n = checkNodeExist h m n)"
proof -
  from assms(2) obtain r0 where r0: "requestListByNode m node = Some r0"
    by (auto simp: updateNodeStatus_def split: if_splits)
  from nm_ok_node [OF assms(1) this] obtain i where
    i: "infoByRequest m r0 = Some i" "ni_node i = node" "info_ok h m r0 i" by blast
  with assms(2) r0 have m': "m' = m\<lparr>infoByRequest := (infoByRequest m)(r0 \<mapsto> i\<lparr>ni_status := status\<rparr>)\<rparr>"
    by (auto simp: updateNodeStatus_def info_ok_def)
  have ok: "nm_ok h m'" using update_ok [OF assms(1), of node status] assms(2) by simp
  have "checkNodeExist h m' node = Some (Success, Some status)"
    using checkNodeExist_registered [OF ok, of node r0 "i\<lparr>ni_status := status\<rparr>"] r0 m' by simp
  moreover have "checkNodeExist h m' n = checkNodeExist h m n" if "n \<noteq> node"
  proof (cases "requestListByNode m n")
    case None
    then show ?thesis by (simp add: checkNodeExist_def m')
  next
    case (Some r)
    from nm_ok_node [OF assms(1) this] obtain j where
      j: "infoByRequest m r = Some j" "ni_node j = n" by blast
    with that i have "r \<noteq> r0" by auto
    with j Some checkNodeExist_registered [OF assms(1) Some j(1)]
      checkNodeExist_registered [OF ok, of n r j] m' show ?thesis by simp
  qed
  ultimately show ?thesis by blast
qed

locale node_status_store =
  fixes ok :: "'m \<Rightarrow> bool"
    and get :: "'m \<Rightarrow> addr \<Rightarrow> (int \<times> int option) option"
    and put :: "'m \<Rightarrow> addr \<Rightarrow> int \<Rightarrow> (int \<times> 'm) option"
  assumes put_ok: "ok m \<Longrightarrow> \<exists>ret m'. put m n s = Some (ret, m') \<and> ok m'"
    and put_known: "ok m \<Longrightarrow> get m n = Some (Success, Some s0) \<Longrightarrow> \<exists>m'. put m n s = Some (Success, m')"
    and put_refused: "put m n s = Some (ret, m') \<Longrightarrow> ret \<noteq> Success \<Longrightarrow> m' = m"
    and get_put: "ok m \<Longrightarrow> put m n s = Some (Success, m') \<Longrightarrow> get m' n = Some (Success, Some s)"
    and get_put_other: "ok m \<Longrightarrow> put m n s = Some (Success, m') \<Longrightarrow> n' \<noteq> n \<Longrightarrow> get m' n' = get m n'"
begin

lemma put_one:
  assumes "ok m" and "get m n = Some (Success, Some s0)"
  shows "\<exists>m'. map_option snd (put m k s) = Some m' \<and> ok m'
    \<and> get m' n = Some (Success, Some (if k = n then s else s0))"
proof -
  from put_ok [OF assms(1), of k s] obtain ret m' where p: "put m k s = Some (ret, m')" "ok m'" by blast
  show ?thesis
  proof (cases "ret = Success")
    case True
    with p get_put [OF assms(1), of k s m'] get_put_other [OF assms(1), of k s m' n] assms(2)
    show ?thesis by auto
  next
    case False
    with p put_refused have "m' = m" by blast
    moreover from False p put_known [OF assms, of s] have "k \<noteq> n" by auto
    ultimately show ?thesis using p assms by simp
  qed
qed

lemma last_put_wins:
  assumes "ok m" and "get m n = Some (Success, Some s0)"
  shows "\<exists>m'. run_opt (\<lambda>(k, s) m. map_option snd (put m k s)) us m = Some m' \<and> ok m'
    \<and> get m' n = Some (Success, Some (last (s0 # map snd (filter (\<lambda>u. fst u = n) us))))"
  using assms
proof (induction us arbitrary: m s0)
  case (Cons u us)
  obtain k s where u: "u = (k, s)" by fastforce
  from put_one [OF Cons.prems, of k s] obtain m1 where
    "map_option snd (put m k s) = Some m1" "ok m1" "get m1 n = Some (Success, Some (if k = n then s else s0))"
    by blast
  with Cons.IH [OF this(2,3)] u show ?case by (auto split: if_splits)
qed simp

end

lemma update_known:
  assumes "nm_ok h m" and "checkNodeExist h m n = Some (Success, Some s0)"
  shows "\<exists>m'. updateNodeStatus h m n s = Some (Success, m')"
proof -
  from assms(2) obtain r where r: "requestListByNode m n = Some r"
    by (auto simp: checkNodeExist_def split: if_splits)
  with nm_ok_node [OF assms(1) r] show ?thesis by (auto simp: updateNodeStatus_def info_ok_def)
qed

interpretation registry: node_status_store "nm_ok h" "checkNodeExist h" "updateNodeStatus h" for h
proof
  show "updateNodeStatus h m n s = Some (ret, m') \<Longrightarrow> ret \<noteq> Success \<Longrightarrow> m' = m" for m n s ret m'
    by (auto simp: updateNodeStatus_def split: if_splits option.splits)
qed (use update_ok update_known update_reads_back in blast)+

text \<open>A node reports the last status it was given: after any sequence of status updates, on known and
  unknown nodes, a node that was known still is, and its status is the last one written for it.\<close>

theorem last_update_wins:
  assumes "nm_ok h m" and "checkNodeExist h m n = Some (Success, Some s0)"
  shows "\<exists>m'. run_opt (\<lambda>(k, s) m. map_option snd (updateNodeStatus h m k s)) us m = Some m'
    \<and> checkNodeExist h m' n = Some (Success, Some (last (s0 # map snd (filter (\<lambda>u. fst u = n) us))))"
  using registry.last_put_wins [OF assms] by blast

lemma last_update_wins_witness:
  "\<exists>m'. run_opt (\<lambda>(k, s) m. map_option snd (updateNodeStatus heap_example m k s))
      [(2, NodeStatusInvoking), (7, NodeStatusClosed), (2, NodeStatusRunning)]
      (nm_init\<lparr>infoByRequest := [1 \<mapsto> \<lparr>ni_request = 1, ni_node = 2, ni_instance = 9, ni_uuid = ''a'', ni_status = 1\<rparr>],
               requestListByNode := [2 \<mapsto> 1]\<rparr>) = Some m'
    \<and> checkNodeExist heap_example m' 2 = Some (Success, Some (last (NodeStatusCreated # map snd (filter (\<lambda>u. fst u = (2 :: nat))
      [(2, NodeStatusInvoking), (7, NodeStatusClosed), (2, NodeStatusRunning)]))))"
  by (rule last_update_wins)
    (simp_all add: nm_ok_def info_ok_def nm_init_def heap_example_def checkNodeExist_def)

text \<open>Once removed, a request and its node are unknown to every check, so nothing follows a pointer to
  them any more.\<close>

theorem removed_request_unknown:
  assumes "nm_ok h m" and "infoByRequest m request = Some info"
    and "removeRequestFromInfo env m request False = (Success, m')"
  shows "checkRequestExist h m' request = Some (- RequestEmpty, None)
    \<and> checkNodeExist h m' (ni_node info) = Some (- NodeEmpty, None)
    \<and> updateNodeStatus h m' (ni_node info) status = Some (- NodeEmpty, m')
    \<and> (inst \<noteq> nullptr \<longrightarrow> checkRequestWithInstance h m' request inst = Some (- InvalidRequest))"
  using assms nm_ok_info [OF assms(1,2)]
  by (auto simp: removeRequestFromInfo_def erase_request_def checkRequestExist_def checkNodeExist_def
      updateNodeStatus_def checkRequestWithInstance_def info_ok_def)

lemma removed_request_unknown_witness:
  "checkRequestExist heap_example nm_init 1 = Some (- RequestEmpty, None)
    \<and> checkNodeExist heap_example nm_init
        (ni_node \<lparr>ni_request = 1, ni_node = 2, ni_instance = 9, ni_uuid = ''a'', ni_status = 1\<rparr>) = Some (- NodeEmpty, None)
    \<and> updateNodeStatus heap_example nm_init
        (ni_node \<lparr>ni_request = 1, ni_node = 2, ni_instance = 9, ni_uuid = ''a'', ni_status = 1\<rparr>) 5 = Some (- NodeEmpty, nm_init)
    \<and> checkRequestWithInstance heap_example nm_init 1 9 = Some (- InvalidRequest)"
proof (rule removed_request_unknown [where env = "\<lambda>k m. m" and inst = 9, simplified])
  show "nm_ok heap_example
      (nm_init\<lparr>infoByRequest := [1 \<mapsto> \<lparr>ni_request = 1, ni_node = 2, ni_instance = 9, ni_uuid = ''a'', ni_status = 1\<rparr>],
               requestListByNode := [2 \<mapsto> 1]\<rparr>)"
    by (simp add: nm_ok_def info_ok_def nm_init_def heap_example_def)
qed (simp_all add: nm_init_def removeRequestFromInfo_def erase_request_def)

text \<open>A removal waits a bounded time: the loop stops at the latest one sleep after the limit, whatever
  the other threads do, and it stops early exactly when the request is gone, only created, or closed.\<close>

theorem wait_bounded:
  assumes "0 \<le> limit" and "wait_loop env limit request 0 0 m = (m', slept)"
  shows "0 \<le> slept \<and> slept < limit + StepSleepMs \<and> slept mod StepSleepMs = 0
    \<and> (slept < limit \<longrightarrow> (\<forall>info. infoByRequest m' request = Some info \<longrightarrow>
         ni_status info = NodeStatusCreated \<or> NodeStatusClosed \<le> ni_status info))"
proof -
  have "wait_loop env limit request k t m = (m', slept) \<Longrightarrow> t < limit + StepSleepMs \<Longrightarrow> t mod StepSleepMs = 0 \<Longrightarrow>
      t \<le> slept \<and> slept < limit + StepSleepMs \<and> slept mod StepSleepMs = 0
      \<and> (slept < limit \<longrightarrow> (\<forall>info. infoByRequest m' request = Some info \<longrightarrow>
         ni_status info = NodeStatusCreated \<or> NodeStatusClosed \<le> ni_status info))" for k t m
  proof (induction env limit request k t m rule: wait_loop.induct)
    case (1 env limit request k t m)
    show ?case
    proof (cases "\<exists>info. infoByRequest m request = Some info \<and> ni_status info \<noteq> NodeStatusCreated
        \<and> ni_status info < NodeStatusClosed \<and> \<not> limit \<le> t")
      case True
      then obtain info where i: "infoByRequest m request = Some info" "ni_status info \<noteq> NodeStatusCreated"
        "ni_status info < NodeStatusClosed" "\<not> limit \<le> t" by blast
      with "1.prems"(1) have "wait_loop env limit request (Suc k) (t + 500) (env k m) = (m', slept)"
        by (subst (asm) wait_loop.simps) simp
      from "1.IH" [OF i(1) _ i(4) this] i "1.prems" show ?thesis by simp
    next
      case False
      with "1.prems" show ?thesis
        by (subst (asm) wait_loop.simps) (auto split: option.splits if_splits)
    qed
  qed
  from this [of 0 0 m] assms show ?thesis by simp
qed

lemma wait_bounded_witness:
  "0 \<le> (0 :: int) \<and> 0 < 1000 + (500 :: int) \<and> (0 :: int) mod 500 = 0
    \<and> (11 = NodeStatusCreated \<or> NodeStatusClosed \<le> (11 :: int))"
proof -
  let ?m = "nm_init\<lparr>infoByRequest := [1 \<mapsto> \<lparr>ni_request = 1, ni_node = 2, ni_instance = 9, ni_uuid = [], ni_status = 11\<rparr>]\<rparr>"
  have "wait_loop (\<lambda>k m. m) 1000 1 0 0 ?m = (?m, 0)" by (simp add: wait_loop.simps)
  from wait_bounded [OF _ this] show ?thesis by simp
qed

end
