(* ===== verification/NlsEvent.thy ===== *)
theory NlsEvent
  imports NlsGlobal
begin

text \<open>
  \<open>framework/common/nlsEvent.cpp\<close>: the event handed to the user's callbacks and the parser that fills it
  from a server message. jsoncpp is a record of functions; \<open>jl_get\<close> is \<open>operator[]\<close>, which throws on a
  value that is not an object (\<open>None\<close>). A C \<open>double\<close> is its 64-bit pattern. A parser step leaves the
  event as it was filled so far: \<open>Inl\<close> an early return (or the return of the \<open>catch\<close> block) and \<open>Inr\<close> to
  go on.
\<close>

section \<open>jsoncpp\<close>

record 'j jsonlib =
  jl_parse :: "string \<Rightarrow> 'j option"
  jl_get :: "'j \<Rightarrow> string \<Rightarrow> 'j option"
  jl_isNull :: "'j \<Rightarrow> bool"
  jl_isObject :: "'j \<Rightarrow> bool"
  jl_isArray :: "'j \<Rightarrow> bool"
  jl_isString :: "'j \<Rightarrow> bool"
  jl_isInt :: "'j \<Rightarrow> bool"
  jl_isDouble :: "'j \<Rightarrow> bool"
  jl_isBool :: "'j \<Rightarrow> bool"
  jl_asCString :: "'j \<Rightarrow> string"
  jl_asInt :: "'j \<Rightarrow> int"
  jl_asDouble :: "'j \<Rightarrow> 64 word"
  jl_asBool :: "'j \<Rightarrow> bool"
  jl_elements :: "'j \<Rightarrow> 'j list"
  jl_isMember :: "'j \<Rightarrow> string \<Rightarrow> bool option"

section \<open>Events\<close>

datatype EventType =
    TaskFailed | RecognitionStarted | RecognitionCompleted | RecognitionResultChanged
  | WakeWordVerificationCompleted | TranscriptionStarted | SentenceBegin | TranscriptionResultChanged
  | SentenceEnd | SentenceSemantics | TranscriptionCompleted | SynthesisStarted | SynthesisCompleted
  | Binary | MetaInfo | DialogResultGenerated | Close | Message | SentenceSynthesis

record WordInfomation =
  wi_text :: string
  wi_startTime :: int
  wi_endTime :: int

record NlsEvent =
  ev_statusCode :: int
  ev_msg :: string
  ev_msgType :: EventType
  ev_taskId :: string
  ev_result :: string
  ev_displayText :: string
  ev_spokenText :: string
  ev_sentenceTimeOutStatus :: int
  ev_sentenceIndex :: int
  ev_sentenceTime :: int
  ev_sentenceBeginTime :: int
  ev_sentenceConfidence :: "64 word"
  ev_sentenceWordsList :: "WordInfomation list"
  ev_wakeWordAccepted :: bool
  ev_wakeWordKnown :: bool
  ev_wakeWordUserId :: string
  ev_wakeWordGender :: int
  ev_binaryData :: "byte list"
  ev_stashResultSentenceId :: int
  ev_stashResultBeginTime :: int
  ev_stashResultText :: string
  ev_stashResultCurrentTime :: int

text \<open>The four constructors.\<close>

definition NlsEvent_new :: NlsEvent where
  "NlsEvent_new = \<lparr>ev_statusCode = 0, ev_msg = [], ev_msgType = TaskFailed, ev_taskId = [], ev_result = [],
     ev_displayText = [], ev_spokenText = [], ev_sentenceTimeOutStatus = 0, ev_sentenceIndex = 0,
     ev_sentenceTime = 0, ev_sentenceBeginTime = 0, ev_sentenceConfidence = 0, ev_sentenceWordsList = [],
     ev_wakeWordAccepted = False, ev_wakeWordKnown = False, ev_wakeWordUserId = [], ev_wakeWordGender = 0,
     ev_binaryData = [], ev_stashResultSentenceId = 0, ev_stashResultBeginTime = 0,
     ev_stashResultText = [], ev_stashResultCurrentTime = 0\<rparr>"

definition NlsEvent_msg_code :: "string \<Rightarrow> int \<Rightarrow> EventType \<Rightarrow> string \<Rightarrow> NlsEvent" where
  "NlsEvent_msg_code msg code type taskId =
     NlsEvent_new\<lparr>ev_statusCode := code, ev_msg := msg, ev_msgType := type, ev_taskId := taskId\<rparr>"

definition NlsEvent_msg :: "string \<Rightarrow> NlsEvent" where
  "NlsEvent_msg msg = NlsEvent_new\<lparr>ev_msg := msg, ev_statusCode := Success, ev_msgType := Message\<rparr>"

definition NlsEvent_binary :: "byte list \<Rightarrow> int \<Rightarrow> EventType \<Rightarrow> string \<Rightarrow> NlsEvent" where
  "NlsEvent_binary data code type taskId =
     NlsEvent_new\<lparr>ev_statusCode := code, ev_msgType := type, ev_taskId := taskId, ev_binaryData := data\<rparr>"

text \<open>The copy constructor leaves the texts and the wake-word user out.\<close>

definition NlsEvent_copy :: "NlsEvent \<Rightarrow> NlsEvent" where
  "NlsEvent_copy ne = ne\<lparr>ev_displayText := [], ev_spokenText := [], ev_wakeWordUserId := [],
     ev_wakeWordAccepted := False, ev_wakeWordKnown := False, ev_wakeWordGender := 0\<rparr>"

section \<open>Parsing\<close>

definition parseMsgType :: "string \<Rightarrow> NlsEvent \<Rightarrow> int \<times> NlsEvent" where
  "parseMsgType name e =
     (if name = ''TaskFailed'' then (Success, e\<lparr>ev_msgType := TaskFailed\<rparr>)
      else if name = ''RecognitionStarted'' then (Success, e\<lparr>ev_msgType := RecognitionStarted\<rparr>)
      else if name = ''RecognitionCompleted'' then (Success, e\<lparr>ev_msgType := RecognitionCompleted\<rparr>)
      else if name = ''RecognitionResultChanged'' then (Success, e\<lparr>ev_msgType := RecognitionResultChanged\<rparr>)
      else if name = ''TranscriptionStarted'' then (Success, e\<lparr>ev_msgType := TranscriptionStarted\<rparr>)
      else if name = ''SentenceBegin'' then (Success, e\<lparr>ev_msgType := SentenceBegin\<rparr>)
      else if name = ''TranscriptionResultChanged'' then (Success, e\<lparr>ev_msgType := TranscriptionResultChanged\<rparr>)
      else if name = ''SentenceEnd'' then (Success, e\<lparr>ev_msgType := SentenceEnd\<rparr>)
      else if name = ''TranscriptionCompleted'' then (Success, e\<lparr>ev_msgType := TranscriptionCompleted\<rparr>)
      else if name = ''SynthesisStarted'' then (Success, e\<lparr>ev_msgType := SynthesisStarted\<rparr>)
      else if name = ''SynthesisCompleted'' then (Success, e\<lparr>ev_msgType := SynthesisCompleted\<rparr>)
      else if name = ''DialogResultGenerated'' then (Success, e\<lparr>ev_msgType := DialogResultGenerated\<rparr>)
      else if name = ''WakeWordVerificationCompleted''
        then (Success, e\<lparr>ev_msgType := WakeWordVerificationCompleted\<rparr>)
      else if name = ''SentenceSemantics'' then (Success, e\<lparr>ev_msgType := SentenceSemantics\<rparr>)
      else if name = ''MetaInfo'' then (Success, e\<lparr>ev_msgType := MetaInfo\<rparr>)
      else if name = ''SentenceSynthesis'' then (Success, e\<lparr>ev_msgType := SentenceSynthesis\<rparr>)
      else (- InvalidNlsEventMsgType, e))"

definition getMsgTypeString :: "EventType \<Rightarrow> string" where
  "getMsgTypeString t =
     (case t of
        TaskFailed \<Rightarrow> ''TaskFailed''
      | RecognitionStarted \<Rightarrow> ''RecognitionStarted''
      | RecognitionCompleted \<Rightarrow> ''RecognitionCompleted''
      | RecognitionResultChanged \<Rightarrow> ''RecognitionResultChanged''
      | WakeWordVerificationCompleted \<Rightarrow> ''WakeWordVerificationCompleted''
      | TranscriptionStarted \<Rightarrow> ''TranscriptionStarted''
      | SentenceBegin \<Rightarrow> ''SentenceBegin''
      | TranscriptionResultChanged \<Rightarrow> ''TranscriptionResultChanged''
      | SentenceEnd \<Rightarrow> ''SentenceEnd''
      | SentenceSemantics \<Rightarrow> ''SentenceSemantics''
      | TranscriptionCompleted \<Rightarrow> ''TranscriptionCompleted''
      | SynthesisStarted \<Rightarrow> ''SynthesisStarted''
      | SynthesisCompleted \<Rightarrow> ''SynthesisCompleted''
      | Binary \<Rightarrow> ''Binary''
      | MetaInfo \<Rightarrow> ''MetaInfo''
      | DialogResultGenerated \<Rightarrow> ''DialogResultGenerated''
      | Close \<Rightarrow> ''Close''
      | Message \<Rightarrow> ''Message''
      | SentenceSynthesis \<Rightarrow> ''SentenceSynthesis'')"

type_synonym 'e step = "'e \<Rightarrow> (int \<times> 'e) + 'e"

fun steps :: "'e step list \<Rightarrow> 'e step" where
  "steps [] e = Inr e"
| "steps (f # fs) e = (case f e of Inl r \<Rightarrow> Inl r | Inr e' \<Rightarrow> steps fs e')"

text \<open>\<open>if (!obj[key].isNull() && obj[key].isT()) field = obj[key].asT();\<close>\<close>

definition with_field ::
  "'j jsonlib \<Rightarrow> 'j \<Rightarrow> string \<Rightarrow> ('j \<Rightarrow> bool) \<Rightarrow> ('j \<Rightarrow> 'e step) \<Rightarrow> 'e step \<Rightarrow> 'e step" where
  "with_field J obj key isT body otherwise e =
     (case jl_get J obj key of
        None \<Rightarrow> Inl (- JsonParseFailed, e)
      | Some v \<Rightarrow> if \<not> jl_isNull J v \<and> isT v then body v e else otherwise e)"

abbreviation (input) set_field ::
  "'j jsonlib \<Rightarrow> 'j \<Rightarrow> string \<Rightarrow> ('j \<Rightarrow> bool) \<Rightarrow> ('j \<Rightarrow> 'e \<Rightarrow> 'e) \<Rightarrow> 'e step" where
  "set_field J obj key isT upd \<equiv> with_field J obj key isT (\<lambda>v e. Inr (upd v e)) Inr"

abbreviation (input) str_of :: "'j jsonlib \<Rightarrow> 'j \<Rightarrow> string" where
  "str_of J v \<equiv> c_str (jl_asCString J v)"

text \<open>One element of \<open>words\<close>: \<open>wordInfo\<close> is declared outside the loop, so a missing member keeps the value
  of the element before. \<open>isMember\<close> throws on an element that is no object.\<close>

definition word_member ::
  "'j jsonlib \<Rightarrow> 'j \<Rightarrow> string \<Rightarrow> ('j \<Rightarrow> bool) \<Rightarrow> ('j \<Rightarrow> WordInfomation \<Rightarrow> WordInfomation) \<Rightarrow>
     WordInfomation \<Rightarrow> WordInfomation option" where
  "word_member J w key isT upd wi =
     (case jl_isMember J w key of
        None \<Rightarrow> None
      | Some False \<Rightarrow> Some wi
      | Some True \<Rightarrow> (case jl_get J w key of None \<Rightarrow> None | Some v \<Rightarrow> Some (if isT v then upd v wi else wi)))"

definition parse_word :: "'j jsonlib \<Rightarrow> 'j \<Rightarrow> WordInfomation \<Rightarrow> WordInfomation option" where
  "parse_word J w wi =
     (case word_member J w ''text'' (jl_isString J) (\<lambda>v. wi_text_update (\<lambda>_. str_of J v)) wi of
        None \<Rightarrow> None
      | Some wi1 \<Rightarrow>
          (case word_member J w ''startTime'' (jl_isInt J) (\<lambda>v. wi_startTime_update (\<lambda>_. jl_asInt J v)) wi1 of
             None \<Rightarrow> None
           | Some wi2 \<Rightarrow>
               word_member J w ''endTime'' (jl_isInt J) (\<lambda>v. wi_endTime_update (\<lambda>_. jl_asInt J v)) wi2))"

text \<open>\<open>WordInfomation\<close> has no constructor: the initial \<open>wi\<close> is what its integers happen to hold.\<close>

fun parse_words :: "'j jsonlib \<Rightarrow> WordInfomation \<Rightarrow> 'j list \<Rightarrow> NlsEvent step" where
  "parse_words J wi [] e = Inr e"
| "parse_words J wi (w # ws) e =
     (case parse_word J w wi of
        None \<Rightarrow> Inl (- JsonParseFailed, e)
      | Some wi' \<Rightarrow> parse_words J wi' ws (e\<lparr>ev_sentenceWordsList := ev_sentenceWordsList e @ [wi']\<rparr>))"

definition parse_wakeword :: "'j jsonlib \<Rightarrow> 'j \<Rightarrow> NlsEvent step" where
  "parse_wakeword J payload =
     steps
       [set_field J payload ''accepted'' (jl_isBool J) (\<lambda>v. ev_wakeWordAccepted_update (\<lambda>_. jl_asBool J v)),
        set_field J payload ''known'' (jl_isBool J) (\<lambda>v. ev_wakeWordKnown_update (\<lambda>_. jl_asBool J v)),
        set_field J payload ''user_id'' (jl_isString J) (\<lambda>v. ev_wakeWordUserId_update (\<lambda>_. str_of J v)),
        set_field J payload ''gender'' (jl_isInt J) (\<lambda>v. ev_wakeWordGender_update (\<lambda>_. jl_asInt J v))]"

definition parse_stash :: "'j jsonlib \<Rightarrow> 'j \<Rightarrow> NlsEvent step" where
  "parse_stash J payload =
     with_field J payload ''stash_result'' (jl_isObject J)
       (\<lambda>s. steps
         [set_field J s ''sentenceId'' (jl_isInt J) (\<lambda>v. ev_stashResultSentenceId_update (\<lambda>_. jl_asInt J v)),
          set_field J s ''beginTime'' (jl_isInt J) (\<lambda>v. ev_stashResultBeginTime_update (\<lambda>_. jl_asInt J v)),
          set_field J s ''currentTime'' (jl_isInt J) (\<lambda>v. ev_stashResultCurrentTime_update (\<lambda>_. jl_asInt J v)),
          set_field J s ''text'' (jl_isString J) (\<lambda>v. ev_stashResultText_update (\<lambda>_. str_of J v))])
       Inr"

definition parse_payload :: "'j jsonlib \<Rightarrow> WordInfomation \<Rightarrow> 'j \<Rightarrow> NlsEvent step" where
  "parse_payload J wi0 payload =
     steps
       [set_field J payload ''result'' (jl_isString J) (\<lambda>v. ev_result_update (\<lambda>_. str_of J v)),
        set_field J payload ''index'' (jl_isInt J) (\<lambda>v. ev_sentenceIndex_update (\<lambda>_. jl_asInt J v)),
        set_field J payload ''time'' (jl_isInt J) (\<lambda>v. ev_sentenceTime_update (\<lambda>_. jl_asInt J v)),
        set_field J payload ''begin_time'' (jl_isInt J) (\<lambda>v. ev_sentenceBeginTime_update (\<lambda>_. jl_asInt J v)),
        set_field J payload ''confidence'' (jl_isDouble J) (\<lambda>v. ev_sentenceConfidence_update (\<lambda>_. jl_asDouble J v)),
        set_field J payload ''display_text'' (jl_isString J) (\<lambda>v. ev_displayText_update (\<lambda>_. str_of J v)),
        set_field J payload ''spoken_text'' (jl_isString J) (\<lambda>v. ev_spokenText_update (\<lambda>_. str_of J v)),
        set_field J payload ''status'' (jl_isInt J) (\<lambda>v. ev_sentenceTimeOutStatus_update (\<lambda>_. jl_asInt J v)),
        with_field J payload ''words'' (jl_isArray J) (\<lambda>v. parse_words J wi0 (jl_elements J v)) Inr,
        (\<lambda>e. if ev_msgType e = WakeWordVerificationCompleted then parse_wakeword J payload e else Inr e),
        (\<lambda>e. if ev_msgType e = SentenceEnd then parse_stash J payload e else Inr e)]"

definition parse_header :: "'j jsonlib \<Rightarrow> bool \<Rightarrow> 'j \<Rightarrow> NlsEvent step" where
  "parse_header J ignore head =
     steps
       [with_field J head ''name'' (jl_isString J)
          (\<lambda>v e. case parseMsgType (str_of J v) e of
             (retCode, e') \<Rightarrow>
               if retCode < 0 \<and> \<not> ignore \<and> retCode = - InvalidNlsEventMsgType then Inl (retCode, e') else Inr e')
          Inr,
        with_field J head ''status'' (jl_isInt J)
          (\<lambda>v e. Inr (e\<lparr>ev_statusCode := jl_asInt J v\<rparr>))
          (\<lambda>e. if ignore then Inr e else Inl (- InvalidNlsEventMsgStatusCode, e)),
        set_field J head ''task_id'' (jl_isString J) (\<lambda>v. ev_taskId_update (\<lambda>_. str_of J v))]"

definition no_header :: "'j jsonlib \<Rightarrow> bool \<Rightarrow> 'j \<Rightarrow> NlsEvent step" where
  "no_header J ignore root =
     with_field J root ''channelClosed'' (\<lambda>_. True)
       (\<lambda>_ e. Inr (e\<lparr>ev_msgType := Close\<rparr>))
       (with_field J root ''TaskFailed'' (\<lambda>_. True)
          (\<lambda>_ e. Inr (e\<lparr>ev_msgType := TaskFailed\<rparr>))
          (\<lambda>e. if ignore then Inr e else Inl (- InvalidNlsEventMsgHeader, e)))"

definition parse_root :: "'j jsonlib \<Rightarrow> WordInfomation \<Rightarrow> bool \<Rightarrow> 'j \<Rightarrow> NlsEvent step" where
  "parse_root J wi0 ignore root =
     steps
       [with_field J root ''header'' (jl_isObject J) (parse_header J ignore) (no_header J ignore root),
        (\<lambda>e. if ev_msgType e \<noteq> SynthesisCompleted \<and> ev_msgType e \<noteq> MetaInfo
             then with_field J root ''payload'' (jl_isObject J) (parse_payload J wi0) Inr e
             else Inr e)]"

definition parseJsonMsg :: "'j jsonlib \<Rightarrow> WordInfomation \<Rightarrow> bool \<Rightarrow> NlsEvent \<Rightarrow> int \<times> NlsEvent" where
  "parseJsonMsg J wi0 ignore e =
     (if ev_msg e = [] then (- NlsEventMsgEmpty, e)
      else
        (case jl_parse J (ev_msg e) of
           None \<Rightarrow> (- JsonParseFailed, e)
         | Some root \<Rightarrow>
             (case parse_root J wi0 ignore root e of
                Inl r \<Rightarrow> r
              | Inr e' \<Rightarrow> (Success, e'))))"

section \<open>Getters\<close>

definition getErrorMessage :: "NlsEvent \<Rightarrow> string" where
  "getErrorMessage e = (if ev_msgType e \<noteq> TaskFailed then [] else ev_msg e)"

definition getResult :: "NlsEvent \<Rightarrow> string option" where
  "getResult e =
     (if ev_msgType e \<noteq> RecognitionResultChanged \<and> ev_msgType e \<noteq> RecognitionCompleted
         \<and> ev_msgType e \<noteq> TranscriptionResultChanged \<and> ev_msgType e \<noteq> SentenceEnd
      then None else Some (ev_result e))"

definition in_sentence :: "NlsEvent \<Rightarrow> bool" where
  "in_sentence e \<longleftrightarrow> \<not> (ev_msgType e \<noteq> SentenceBegin \<and> ev_msgType e \<noteq> SentenceEnd
     \<and> ev_msgType e \<noteq> TranscriptionResultChanged)"

definition getSentenceIndex :: "NlsEvent \<Rightarrow> int" where
  "getSentenceIndex e = (if \<not> in_sentence e then - InvalidNlsEventMsgType else ev_sentenceIndex e)"

definition getSentenceTime :: "NlsEvent \<Rightarrow> int" where
  "getSentenceTime e = (if \<not> in_sentence e then - InvalidNlsEventMsgType else ev_sentenceTime e)"

definition getSentenceBeginTime :: "NlsEvent \<Rightarrow> int" where
  "getSentenceBeginTime e =
     (if ev_msgType e \<noteq> SentenceEnd then - InvalidNlsEventMsgType else ev_sentenceBeginTime e)"

definition getSentenceConfidence :: "NlsEvent \<Rightarrow> int + 64 word" where
  "getSentenceConfidence e =
     (if ev_msgType e \<noteq> SentenceEnd then Inl (- InvalidNlsEventMsgType) else Inr (ev_sentenceConfidence e))"

definition getSentenceTimeOutStatus :: "NlsEvent \<Rightarrow> int" where
  "getSentenceTimeOutStatus e =
     (if ev_msgType e \<noteq> SentenceEnd then - InvalidNlsEventMsgType else ev_sentenceTimeOutStatus e)"

definition getSentenceWordsList :: "NlsEvent \<Rightarrow> WordInfomation list" where
  "getSentenceWordsList e = (if ev_msgType e \<noteq> SentenceEnd then [] else ev_sentenceWordsList e)"

definition getBinaryDataInChar :: "NlsEvent \<Rightarrow> byte list option" where
  "getBinaryDataInChar e = (if ev_msgType e = Binary then Some (ev_binaryData e) else None)"

definition getBinaryDataSize :: "NlsEvent \<Rightarrow> nat" where
  "getBinaryDataSize e = (if ev_msgType e = Binary then length (ev_binaryData e) else 0)"

definition getWakeWordAccepted :: "NlsEvent \<Rightarrow> bool" where
  "getWakeWordAccepted e = (if ev_msgType e \<noteq> WakeWordVerificationCompleted then False else ev_wakeWordAccepted e)"

definition getStashResultSentenceId :: "NlsEvent \<Rightarrow> int" where
  "getStashResultSentenceId e =
     (if ev_msgType e \<noteq> SentenceEnd then - InvalidNlsEventMsgType else ev_stashResultSentenceId e)"

definition getStashResultBeginTime :: "NlsEvent \<Rightarrow> int" where
  "getStashResultBeginTime e =
     (if ev_msgType e \<noteq> SentenceEnd then - InvalidNlsEventMsgType else ev_stashResultBeginTime e)"

definition getStashResultCurrentTime :: "NlsEvent \<Rightarrow> int" where
  "getStashResultCurrentTime e =
     (if ev_msgType e \<noteq> SentenceEnd then - InvalidNlsEventMsgType else ev_stashResultCurrentTime e)"

definition getStashResultText :: "NlsEvent \<Rightarrow> string option" where
  "getStashResultText e = (if ev_msgType e \<noteq> SentenceEnd then None else Some (ev_stashResultText e))"

section \<open>An instance of the JSON interface\<close>

text \<open>Values as jsoncpp documents them, for the witnesses. \<open>operator[]\<close> of a null value gives null.\<close>

datatype json_value =
    JNull | JBool bool | JInt int | JDouble "64 word" | JString string
  | JArray "json_value list" | JObject "(string \<times> json_value) list"

definition json_example :: "json_value option \<Rightarrow> json_value jsonlib" where
  "json_example parsed =
     \<lparr>jl_parse = (\<lambda>_. parsed),
      jl_get = (\<lambda>v k. case v of JObject fs \<Rightarrow> Some (case map_of fs k of None \<Rightarrow> JNull | Some w \<Rightarrow> w)
                         | JNull \<Rightarrow> Some JNull | _ \<Rightarrow> None),
      jl_isNull = (\<lambda>v. v = JNull),
      jl_isObject = (\<lambda>v. case v of JObject _ \<Rightarrow> True | JNull \<Rightarrow> True | _ \<Rightarrow> False),
      jl_isArray = (\<lambda>v. case v of JArray _ \<Rightarrow> True | JNull \<Rightarrow> True | _ \<Rightarrow> False),
      jl_isString = (\<lambda>v. case v of JString _ \<Rightarrow> True | _ \<Rightarrow> False),
      jl_isInt = (\<lambda>v. case v of JInt _ \<Rightarrow> True | _ \<Rightarrow> False),
      jl_isDouble = (\<lambda>v. case v of JDouble _ \<Rightarrow> True | JInt _ \<Rightarrow> True | _ \<Rightarrow> False),
      jl_isBool = (\<lambda>v. case v of JBool _ \<Rightarrow> True | _ \<Rightarrow> False),
      jl_asCString = (\<lambda>v. case v of JString s \<Rightarrow> s | _ \<Rightarrow> []),
      jl_asInt = (\<lambda>v. case v of JInt i \<Rightarrow> i | _ \<Rightarrow> 0),
      jl_asDouble = (\<lambda>v. case v of JDouble d \<Rightarrow> d | _ \<Rightarrow> 0),
      jl_asBool = (\<lambda>v. case v of JBool b \<Rightarrow> b | _ \<Rightarrow> False),
      jl_elements = (\<lambda>v. case v of JArray vs \<Rightarrow> vs | _ \<Rightarrow> []),
      jl_isMember = (\<lambda>v k. case v of JObject fs \<Rightarrow> Some (map_of fs k \<noteq> None) | JNull \<Rightarrow> Some False | _ \<Rightarrow> None)\<rparr>"

section \<open>What the parser changes\<close>

text \<open>A step that keeps an observation of the event, whether it goes on or returns.\<close>

definition keeps :: "('e \<Rightarrow> 'a) \<Rightarrow> 'e step \<Rightarrow> bool" where
  "keeps f g \<longleftrightarrow> (\<forall>e. case g e of Inl (_, e') \<Rightarrow> f e' = f e | Inr e' \<Rightarrow> f e' = f e)"

text \<open>A step whose early returns are all among the given codes.\<close>

definition codes_in :: "int set \<Rightarrow> 'e step \<Rightarrow> bool" where
  "codes_in C g \<longleftrightarrow> (\<forall>e. case g e of Inl (rc, _) \<Rightarrow> rc \<in> C | Inr _ \<Rightarrow> True)"

named_theorems step_intros \<open>rules for \<open>keeps\<close> and \<open>codes_in\<close>\<close>

lemma keepsD: "keeps f g \<Longrightarrow> case g e of Inl (_, e') \<Rightarrow> f e' = f e | Inr e' \<Rightarrow> f e' = f e"
  by (simp add: keeps_def)

lemma codes_inD: "codes_in C g \<Longrightarrow> case g e of Inl (rc, _) \<Rightarrow> rc \<in> C | Inr _ \<Rightarrow> True"
  by (simp add: codes_in_def)

lemma keeps_steps [step_intros]: "list_all (keeps f) gs \<Longrightarrow> keeps f (steps gs)"
proof (induction gs)
  case (Cons g gs)
  then have g: "keeps f g" and gs: "keeps f (steps gs)" by simp_all
  show ?case
    unfolding keeps_def
  proof
    fix e
    show "case steps (g # gs) e of Inl (_, e') \<Rightarrow> f e' = f e | Inr e' \<Rightarrow> f e' = f e"
    proof (cases "g e")
      case (Inr e1)
      with keepsD [OF g, of e] have "f e1 = f e" by simp
      with keepsD [OF gs, of e1] Inr show ?thesis by (auto split: sum.splits prod.splits)
    qed (use keepsD [OF g, of e] in simp)
  qed
qed (simp add: keeps_def)

lemma codes_steps [step_intros]: "list_all (codes_in C) gs \<Longrightarrow> codes_in C (steps gs)"
proof (induction gs)
  case (Cons g gs)
  then have g: "codes_in C g" and gs: "codes_in C (steps gs)" by simp_all
  show ?case
    unfolding codes_in_def
  proof
    fix e
    show "case steps (g # gs) e of Inl (rc, _) \<Rightarrow> rc \<in> C | Inr _ \<Rightarrow> True"
      using codes_inD [OF g, of e] codes_inD [OF gs] by (cases "g e") force+
  qed
qed (simp add: codes_in_def)

lemma keeps_with_field [step_intros]:
  "(\<And>v. keeps f (body v)) \<Longrightarrow> keeps f otherwise \<Longrightarrow> keeps f (with_field J obj key isT body otherwise)"
  by (simp add: keeps_def with_field_def split: option.splits)

lemma codes_with_field [step_intros]:
  "(\<And>v. codes_in C (body v)) \<Longrightarrow> codes_in C otherwise \<Longrightarrow> - JsonParseFailed \<in> C \<Longrightarrow>
    codes_in C (with_field J obj key isT body otherwise)"
  by (simp add: codes_in_def with_field_def split: option.splits)

lemma keeps_Inr [step_intros]: "(\<And>e. f (upd e) = f e) \<Longrightarrow> keeps f (\<lambda>e. Inr (upd e))"
  by (simp add: keeps_def)

lemma keeps_Inr_id [step_intros]: "keeps f Inr"
  by (simp add: keeps_def)

lemma codes_Inr [step_intros]: "codes_in C (\<lambda>e. Inr (upd e))"
  by (simp add: codes_in_def)

lemma keeps_if [step_intros]: "keeps f g \<Longrightarrow> keeps f h \<Longrightarrow> keeps f (\<lambda>e. if P e then g e else h e)"
  by (simp add: keeps_def)

lemma codes_if [step_intros]: "codes_in C g \<Longrightarrow> codes_in C h \<Longrightarrow> codes_in C (\<lambda>e. if P e then g e else h e)"
  by (simp add: codes_in_def)

lemma keeps_words:
  assumes "\<And>e ws. f (e\<lparr>ev_sentenceWordsList := ws\<rparr>) = f e"
  shows "keeps f (parse_words J wi ws)"
proof (induction ws arbitrary: wi)
  case (Cons w ws)
  show ?case
  proof (cases "parse_word J w wi")
    case None
    then show ?thesis by (simp add: keeps_def)
  next
    case (Some wi')
    with Cons.IH [of wi'] assms show ?thesis by (auto simp: keeps_def split: sum.splits)
  qed
qed (simp add: keeps_def)

lemma codes_words: "codes_in {- JsonParseFailed} (parse_words J wi ws)"
proof (induction ws arbitrary: wi)
  case (Cons w ws)
  then show ?case by (cases "parse_word J w wi") (simp_all add: codes_in_def)
qed (simp add: codes_in_def)

lemma keeps_payload:
  "keeps ev_msgType (parse_payload J wi0 payload)" "keeps ev_statusCode (parse_payload J wi0 payload)"
  unfolding parse_payload_def parse_wakeword_def parse_stash_def
  by (auto intro!: step_intros keeps_words)

lemma codes_payload: "codes_in {- JsonParseFailed} (parse_payload J wi0 payload)"
  unfolding parse_payload_def parse_wakeword_def parse_stash_def
  by (auto intro!: step_intros codes_words)

section \<open>What the parser promises\<close>

text \<open>The event names are a bijection between the types a server message can have and the strings the
  log uses: parsing a type's name gives the type back, and the three types the SDK itself generates have
  no name a message could use.\<close>

theorem msg_type_roundtrip:
  "parseMsgType (getMsgTypeString t) e =
    (if t \<in> {Binary, Close, Message} then (- InvalidNlsEventMsgType, e) else (Success, e\<lparr>ev_msgType := t\<rparr>))"
  by (cases t) (simp_all add: parseMsgType_def getMsgTypeString_def)

lemma parseMsgType_cases:
  "parseMsgType name e = (rc, e') \<Longrightarrow>
    (rc = Success \<and> getMsgTypeString (ev_msgType e') = name) \<or> (rc = - InvalidNlsEventMsgType \<and> e' = e)"
  by (auto simp: parseMsgType_def getMsgTypeString_def split: if_splits)

lemma steps_Inr:
  "steps (g # gs) e = Inr e' \<longleftrightarrow> (\<exists>e1. g e = Inr e1 \<and> steps gs e1 = Inr e')"
  by (auto split: sum.splits)

lemma header_Inr:
  assumes "parse_header J False head e = Inr e'"
  shows "\<exists>s. jl_get J head ''status'' = Some s \<and> jl_isInt J s \<and> ev_statusCode e' = jl_asInt J s
    \<and> (\<forall>n. jl_get J head ''name'' = Some n \<longrightarrow> \<not> jl_isNull J n \<longrightarrow> jl_isString J n \<longrightarrow>
         getMsgTypeString (ev_msgType e') = str_of J n)"
  using assms
  by (auto simp: parse_header_def with_field_def split: sum.splits option.splits if_splits prod.splits
      dest!: parseMsgType_cases)

text \<open>No early return of the parser is \<open>Success\<close>.\<close>

lemma codes_header:
  "codes_in {- JsonParseFailed, - InvalidNlsEventMsgType, - InvalidNlsEventMsgStatusCode} (parse_header J ignore head)"
  unfolding parse_header_def
  by (rule codes_steps) (auto simp: codes_in_def with_field_def split: option.splits prod.splits)

lemma codes_no_header: "codes_in {- JsonParseFailed, - InvalidNlsEventMsgHeader} (no_header J ignore root)"
  by (auto simp: no_header_def codes_in_def with_field_def split: option.splits)

lemma codes_in_mono: "codes_in C g \<Longrightarrow> C \<subseteq> D \<Longrightarrow> codes_in D g"
  by (fastforce simp: codes_in_def split: sum.splits)

lemma codes_root:
  "codes_in {- JsonParseFailed, - InvalidNlsEventMsgType, - InvalidNlsEventMsgStatusCode, - InvalidNlsEventMsgHeader}
     (parse_root J wi0 ignore root)"
  unfolding parse_root_def
  by (auto intro!: step_intros codes_in_mono [OF codes_header] codes_in_mono [OF codes_no_header]
      codes_in_mono [OF codes_payload])

lemma parseJsonMsg_Success:
  assumes "parseJsonMsg J wi0 ignore e = (Success, e')"
  shows "\<exists>root. jl_parse J (ev_msg e) = Some root \<and> parse_root J wi0 ignore root e = Inr e'"
  using assms codes_inD [OF codes_root, of J wi0 ignore _ e]
  by (force simp: parseJsonMsg_def split: if_splits option.splits sum.splits)

text \<open>A message the parser accepts under full checks and that has a header is reported as what it says:
  the event carries the integer \<open>status\<close> of the header, and the type that has the name in the header.\<close>

theorem parsed_event_header:
  assumes "parseJsonMsg J wi0 False e = (Success, e')" and "jl_parse J (ev_msg e) = Some root"
    and "jl_get J root ''header'' = Some head" and "\<not> jl_isNull J head" and "jl_isObject J head"
  shows "\<exists>s. jl_get J head ''status'' = Some s \<and> jl_isInt J s \<and> ev_statusCode e' = jl_asInt J s
    \<and> (\<forall>n. jl_get J head ''name'' = Some n \<longrightarrow> \<not> jl_isNull J n \<longrightarrow> jl_isString J n \<longrightarrow>
         getMsgTypeString (ev_msgType e') = str_of J n)"
proof -
  from parseJsonMsg_Success [OF assms(1)] assms(2) have "parse_root J wi0 False root e = Inr e'" by simp
  with assms(3-5) obtain e1 where h: "parse_header J False head e = Inr e1"
    and p: "(if ev_msgType e1 \<noteq> SynthesisCompleted \<and> ev_msgType e1 \<noteq> MetaInfo
        then with_field J root ''payload'' (jl_isObject J) (parse_payload J wi0) Inr e1 else Inr e1) = Inr e'"
    by (auto simp: parse_root_def with_field_def [of J root "''header''"] split: sum.splits)
  have "keeps ev_msgType (with_field J root ''payload'' (jl_isObject J) (parse_payload J wi0) Inr)"
    "keeps ev_statusCode (with_field J root ''payload'' (jl_isObject J) (parse_payload J wi0) Inr)"
    by (auto intro!: step_intros keeps_payload)
  from keepsD [OF this(1), of e1] keepsD [OF this(2), of e1] p
  have "ev_msgType e' = ev_msgType e1 \<and> ev_statusCode e' = ev_statusCode e1" by (auto split: if_splits)
  with header_Inr [OF h] show ?thesis by simp
qed

definition message_example :: json_value where
  "message_example = JObject
     [(''header'', JObject [(''name'', JString ''SentenceEnd''), (''status'', JInt 20000000)]),
      (''payload'', JObject [(''index'', JInt 3), (''result'', JString ''ok''),
         (''words'', JArray [JObject [(''text'', JString ''o''), (''startTime'', JInt 5), (''endTime'', JInt 9)],
                             JObject [(''startTime'', JInt 10), (''endTime'', JInt 12)]])])]"

definition word_zero :: WordInfomation where
  "word_zero = \<lparr>wi_text = [], wi_startTime = 0, wi_endTime = 0\<rparr>"

lemma parsed_event_header_witness:
  "\<exists>s. jl_get (json_example (Some message_example)) (JObject [(''name'', JString ''SentenceEnd''), (''status'', JInt 20000000)])
        ''status'' = Some s \<and> jl_isInt (json_example (Some message_example)) s
    \<and> ev_statusCode (snd (parseJsonMsg (json_example (Some message_example)) word_zero False (NlsEvent_msg ''m''))) =
      jl_asInt (json_example (Some message_example)) s
    \<and> (\<forall>n. jl_get (json_example (Some message_example)) (JObject [(''name'', JString ''SentenceEnd''), (''status'', JInt 20000000)])
          ''name'' = Some n \<longrightarrow> \<not> jl_isNull (json_example (Some message_example)) n \<longrightarrow>
         jl_isString (json_example (Some message_example)) n \<longrightarrow>
         getMsgTypeString (ev_msgType (snd (parseJsonMsg (json_example (Some message_example)) word_zero False (NlsEvent_msg ''m'')))) =
         str_of (json_example (Some message_example)) n)"
proof (rule parsed_event_header)
  show "parseJsonMsg (json_example (Some message_example)) word_zero False (NlsEvent_msg ''m'') =
      (Success, snd (parseJsonMsg (json_example (Some message_example)) word_zero False (NlsEvent_msg ''m'')))"
    by code_simp
  show "jl_parse (json_example (Some message_example)) (ev_msg (NlsEvent_msg ''m'')) = Some message_example"
    by (simp add: json_example_def)
qed (simp_all add: json_example_def message_example_def)

text \<open>The parser returns one of six codes, and with the checks switched off (\<open>EnableOnMessage\<close>) only a
  text that is no JSON, or whose JSON has the wrong shape, is refused.\<close>

theorem parse_result_codes:
  "fst (parseJsonMsg J wi0 ignore e) \<in> {Success, - NlsEventMsgEmpty, - JsonParseFailed, - InvalidNlsEventMsgType,
     - InvalidNlsEventMsgStatusCode, - InvalidNlsEventMsgHeader}
    \<and> (ignore \<longrightarrow> fst (parseJsonMsg J wi0 ignore e) \<in> {Success, - NlsEventMsgEmpty, - JsonParseFailed})"
proof -
  have "codes_in {- JsonParseFailed} (parse_header J True head)" for head
    unfolding parse_header_def
    by (rule codes_steps) (auto simp: codes_in_def with_field_def split: option.splits prod.splits)
  moreover have "codes_in {- JsonParseFailed} (no_header J True root)" for root
    by (auto simp: no_header_def codes_in_def with_field_def split: option.splits)
  ultimately have t: "codes_in {- JsonParseFailed} (parse_root J wi0 True root)" for root
    unfolding parse_root_def by (auto intro!: step_intros codes_payload)
  show ?thesis
  proof (cases "jl_parse J (ev_msg e)")
    case (Some root)
    show ?thesis
    proof (cases "parse_root J wi0 ignore root e")
      case (Inl r)
      then show ?thesis
        using Some codes_inD [OF codes_root, of J wi0 ignore root e] codes_inD [OF t, of root e]
        by (cases r) (auto simp: parseJsonMsg_def)
    qed (auto simp: Some parseJsonMsg_def)
  qed (simp add: parseJsonMsg_def)
qed

lemma parse_result_codes_witness:
  "fst (parseJsonMsg (json_example None) word_zero True (NlsEvent_msg ''x'')) \<in> {Success, - NlsEventMsgEmpty,
      - JsonParseFailed, - InvalidNlsEventMsgType, - InvalidNlsEventMsgStatusCode, - InvalidNlsEventMsgHeader}
    \<and> fst (parseJsonMsg (json_example None) word_zero True (NlsEvent_msg ''x'')) \<in>
      {Success, - NlsEventMsgEmpty, - JsonParseFailed}"
  by (rule parse_result_codes [where ignore = True, simplified simp_thms])

text \<open>The entries of \<open>words\<close> are appended in order, one for each element.\<close>

lemma parse_words_length:
  "parse_words J wi ws e = Inr e' \<Longrightarrow>
    length (ev_sentenceWordsList e') = length (ev_sentenceWordsList e) + length ws"
proof (induction ws arbitrary: wi e)
  case (Cons w ws)
  then show ?case by (auto split: option.splits)
qed simp

text \<open>A word without its own text is reported with the text of the word before it: the loop keeps one
  \<open>WordInfomation\<close> for all elements. Here the second of two words has no \<open>text\<close> member.\<close>

theorem word_inherits_text:
  assumes "jl_isMember J w ''text'' = Some False"
    and "parse_words J wi [w] e = Inr e'"
  shows "wi_text (last (ev_sentenceWordsList e')) = wi_text wi"
  using assms
  by (auto simp: parse_word_def word_member_def split: option.splits bool.splits)

lemma word_inherits_text_witness:
  "wi_text (last (ev_sentenceWordsList (NlsEvent_new\<lparr>ev_sentenceWordsList :=
      [\<lparr>wi_text = ''before'', wi_startTime = 0, wi_endTime = 4\<rparr>]\<rparr>))) =
    wi_text \<lparr>wi_text = ''before'', wi_startTime = 0, wi_endTime = 0\<rparr>"
  by (rule word_inherits_text [where J = "json_example None" and w = "JObject [(''endTime'', JInt 4)]" and e = NlsEvent_new])
    (simp_all add: json_example_def parse_word_def word_member_def NlsEvent_new_def)

end
