(* ===== verification/WsHttp.thy ===== *)
theory WsHttp
  imports NlsGlobal
begin

text \<open>
  The HTTP side of \<open>transport/webSocketTcp.cpp\<close>: parsing the service address, writing the upgrade
  request and reading the answer. A C string is the list of its characters before the NUL; the
  \<open>sscanf\<close> patterns are sequences of the scanners below, which assign the fields they reach, as
  \<open>sscanf\<close> does, even when a later directive fails. The HTTP code and length are \<open>size_t\<close>.
\<close>

section \<open>\<open>sscanf\<close>\<close>

text \<open>\<open>%n[^...]\<close>: the longest run of at most \<open>n\<close> characters of the set. It fails on an empty run.\<close>

definition scan_set :: "nat \<Rightarrow> (char \<Rightarrow> bool) \<Rightarrow> string \<Rightarrow> (string \<times> string) option" where
  "scan_set n P s =
     (let t = takeWhile P (take n s) in if t = [] then None else Some (t, drop (length t) s))"

definition scan_lit :: "string \<Rightarrow> string \<Rightarrow> string option" where
  "scan_lit l s = (if is_prefix l s then Some (drop (length l) s) else None)"

text \<open>\<open>%d\<close>: white space, a sign, at least one digit.\<close>

definition scan_d :: "string \<Rightarrow> (int \<times> string) option" where
  "scan_d s =
     (let s1 = dropWhile is_space s;
          (neg, s2) = (case s1 of c # cs \<Rightarrow>
             if c = CHR ''-'' then (True, cs) else if c = CHR ''+'' then (False, cs) else (False, s1)
           | [] \<Rightarrow> (False, s1));
          ds = takeWhile is_digit s2 in
      if ds = [] then None
      else Some (int32 (if neg then - digits_prefix 0 ds else digits_prefix 0 ds), drop (length ds) s2))"

text \<open>\<open>%ns\<close>: white space, then at most \<open>n\<close> other characters.\<close>

definition scan_s :: "nat \<Rightarrow> string \<Rightarrow> (string \<times> string) option" where
  "scan_s n s = scan_set n (\<lambda>c. \<not> is_space c) (dropWhile is_space s)"

section \<open>The service address\<close>

record urlAddress =
  u_host :: string
  u_port :: int
  u_type :: string
  u_path :: string
  u_token :: string
  u_isSsl :: bool
  u_address :: string
  u_directIp :: bool
  u_enableSysGetAddr :: bool

definition not_colon_slash :: "char \<Rightarrow> bool" where
  "not_colon_slash c \<longleftrightarrow> c \<noteq> CHR '':'' \<and> c \<noteq> CHR ''/''"

text \<open>\<open>%10[^:/]://%256[^:/]\<close>, the start of all four patterns: the number of fields assigned, the
  address record, and the rest of the input.\<close>

definition scan_type_host :: "urlAddress \<Rightarrow> string \<Rightarrow> nat \<times> urlAddress \<times> string" where
  "scan_type_host url s =
     (case scan_set 10 not_colon_slash s of
        None \<Rightarrow> (0, url, s)
      | Some (t, s1) \<Rightarrow>
          (let url1 = url\<lparr>u_type := t\<rparr> in
           case scan_lit ''://'' s1 of
             None \<Rightarrow> (1, url1, s1)
           | Some s2 \<Rightarrow>
               (case scan_set 256 not_colon_slash s2 of
                  None \<Rightarrow> (1, url1, s2)
                | Some (h, s3) \<Rightarrow> (2, url1\<lparr>u_host := h\<rparr>, s3))))"

text \<open>The patterns continued: \<open>:%d\<close>, \<open>:%d/%255s\<close> and \<open>/%255s\<close>.\<close>

definition scan_port :: "nat \<times> urlAddress \<times> string \<Rightarrow> nat \<times> urlAddress \<times> string" where
  "scan_port r =
     (case r of (n, url, s) \<Rightarrow>
        if n < 2 then r
        else (case scan_lit '':'' s of
            None \<Rightarrow> r
          | Some s1 \<Rightarrow>
              (case scan_d s1 of None \<Rightarrow> r | Some (p, s2) \<Rightarrow> (n + 1, url\<lparr>u_port := p\<rparr>, s2))))"

definition scan_path :: "nat \<Rightarrow> nat \<times> urlAddress \<times> string \<Rightarrow> nat \<times> urlAddress \<times> string" where
  "scan_path k r =
     (case r of (n, url, s) \<Rightarrow>
        if n < k then r
        else (case scan_lit ''/'' s of
            None \<Rightarrow> r
          | Some s1 \<Rightarrow>
              (case scan_s 255 s1 of None \<Rightarrow> r | Some (p, s2) \<Rightarrow> (n + 1, url\<lparr>u_path := p\<rparr>, s2))))"

definition is_ssl_type :: "string \<Rightarrow> bool" where
  "is_ssl_type t \<longleftrightarrow> t = ''wss'' \<or> t = ''https''"

definition set_default_port :: "urlAddress \<Rightarrow> urlAddress" where
  "set_default_port url =
     (if is_ssl_type (u_type url) then url\<lparr>u_port := 443, u_isSsl := True\<rparr> else url\<lparr>u_port := 80\<rparr>)"

definition parseUrlAddress :: "urlAddress \<Rightarrow> string \<Rightarrow> int \<times> urlAddress" where
  "parseUrlAddress url address =
     (let (n1, url1, _) = scan_path 3 (scan_port (scan_type_host url address)) in
      if n1 = 4 then
        (Success, if is_ssl_type (u_type url1) then url1\<lparr>u_isSsl := True\<rparr> else url1)
      else
      let (n2, url2, _) = scan_path 2 (scan_type_host url1 address) in
      if n2 = 3 then (Success, set_default_port url2)
      else
      let (n3, url3, _) = scan_port (scan_type_host url2 address) in
      if n3 = 3 then (Success, url3\<lparr>u_path := []\<rparr>)
      else
      let (n4, url4, _) = scan_type_host url3 address in
      if n4 = 2 then (Success, (set_default_port url4)\<lparr>u_path := []\<rparr>)
      else (- ParseUrlFailed, url4))"

definition urlWithAccess :: "urlAddress \<Rightarrow> string \<Rightarrow> bool" where
  "urlWithAccess url address =
     (case parseUrlAddress url address of
        (ret, url') \<Rightarrow> ret = Success \<and> list_ex (\<lambda>c. c = CHR ''?'') (u_path url'))"

section \<open>The upgrade request\<close>

abbreviation (input) HttpPort :: int where "HttpPort \<equiv> 80"
abbreviation (input) BufferSize :: nat where "BufferSize \<equiv> 2048"
abbreviation (input) TypeSize :: nat where "TypeSize \<equiv> 10"
abbreviation (input) HostSize :: nat where "HostSize \<equiv> 256"

definition crlf :: string where
  "crlf = [CHR 0x0D, CHR 0x0A]"

text \<open>\<open>snprintf\<close>: what the array of \<open>n\<close> bytes holds, and the length before truncation it returns.\<close>

definition snprintf :: "nat \<Rightarrow> string \<Rightarrow> string \<times> int" where
  "snprintf n out = (take (n - 1) out, int (length out))"

definition getSecWsKey :: string where
  "getSecWsKey =
     (let key_array = ''xDH3LMJ1bJ'';
          tmp = map (\<lambda>i. key_array ! (i * 7 mod 10)) [0..<10] in
      fst (snprintf 128 (''Sec'' @ ''-'' @ ''WebSocket'' @ ''-'' @ ''Key'' @ '': '' @ tmp @ ''EzLkh9G'' @ ''BhXDw=='')))"

definition hostBuff :: "urlAddress \<Rightarrow> string" where
  "hostBuff url =
     fst (snprintf 256
       (if u_port url = HttpPort then ''Host: '' @ u_host url @ crlf
        else ''Host: '' @ u_host url @ '':'' @ dec_int (u_port url) @ crlf))"

definition requestPackage :: "urlAddress \<Rightarrow> string \<Rightarrow> string \<times> int" where
  "requestPackage url httpHeader =
     (let common = ''GET /'' @ u_path url @ '' HTTP/1.1'' @ crlf @ hostBuff url
            @ ''Upgrade: websocket'' @ crlf @ ''Connection: Upgrade'' @ crlf @ getSecWsKey @ crlf
            @ ''Sec-WebSocket-Version: '' @ ''13'' @ crlf @ ''X-NLS-Token'' @ '': '' @ u_token url @ crlf;
          (buffer, contentSize) = snprintf BufferSize
            (if httpHeader = [] then common @ crlf else common @ httpHeader @ crlf) in
      if contentSize \<le> 0 then (buffer, - WsRequestPackageEmpty) else (buffer, contentSize))"

section \<open>The answer\<close>

record http_state =
  h_httpCode :: nat
  h_httpLength :: nat
  h_errorMsg :: string

definition http_init :: http_state where
  "http_init = \<lparr>h_httpCode = 0, h_httpLength = 0, h_errorMsg = []\<rparr>"

text \<open>
  \<open>find\<close> may return \<open>npos\<close> and the code adds to it in \<open>size_t\<close>. \<open>sub\<close> is the start of the text that is
  converted; its length argument is \<open>position - strlen(begin)\<close>.
\<close>

definition getTargetLen :: "string \<Rightarrow> string \<Rightarrow> string \<Rightarrow> int" where
  "getTargetLen line beg fin =
     (let seek = (case str_find line beg 0 of Some p \<Rightarrow> int p | None \<Rightarrow> int npos);
          sub = sizet (seek + int (length beg)) in
      case str_find line fin sub of
        None \<Rightarrow> 0
      | Some position \<Rightarrow> atoi (substr line sub (sizet (int position - int (length beg)))))"

definition HTTP_STATUS_CODE :: string where "HTTP_STATUS_CODE = ''HTTP/1.1 ''"
definition HTTP_HEADER_END_STRING :: string where "HTTP_HEADER_END_STRING = crlf @ crlf"
definition HTTP_CONTENT_LENGTH :: string where "HTTP_CONTENT_LENGTH = ''Content-Length: ''"

text \<open>\<open>content\<close> is the C string, \<open>len\<close> the number of bytes read.\<close>

definition responsePackage :: "http_state \<Rightarrow> string \<Rightarrow> nat \<Rightarrow> int \<times> http_state" where
  "responsePackage st content len =
     (if \<not> strstr content HTTP_HEADER_END_STRING then (int32 (int len), st)
      else
        let code = (if h_httpCode st = 0 then sizet (getTargetLen content HTTP_STATUS_CODE '' '')
                    else h_httpCode st);
            st1 = st\<lparr>h_httpCode := code\<rparr> in
        if code = 0 then (- HttpGotBadStatus, st1)
        else if code = 101 then (0, st1)
        else
          let hlen = (if h_httpLength st1 = 0 then sizet (getTargetLen content HTTP_CONTENT_LENGTH crlf)
                      else h_httpLength st1);
              st2 = st1\<lparr>h_httpLength := hlen\<rparr>;
              endLen = length HTTP_HEADER_END_STRING in
          case str_find content HTTP_HEADER_END_STRING 0 of
            None \<Rightarrow> (- WsResponsePackageFailed, st2)
          | Some position \<Rightarrow>
              if hlen = 0 then (- WsResponsePackageFailed, st2\<lparr>h_errorMsg := content\<rparr>)
              else if hlen = sizet (int len - int (position + endLen))
              then (- WsResponsePackageFailed, st2\<lparr>h_errorMsg := drop (position + endLen) content\<rparr>)
              else (- WsResponsePackageFailed, st2))"

section \<open>Addresses\<close>

lemma scan_set_run:
  assumes "t \<noteq> []" and "length t \<le> n" and "list_all P t" and "rest = [] \<or> \<not> P (hd rest)"
  shows "scan_set n P (t @ rest) = Some (t, rest)"
proof -
  have "takeWhile P (take n (t @ rest)) = t"
    using assms(2,3,4) by (cases "take (n - length t) rest"; cases rest)
      (auto simp: list_all_iff take_Cons' split: if_splits)
  with assms(1) show ?thesis by (simp add: scan_set_def)
qed

lemma scan_type_host_ok:
  assumes "t \<noteq> []" "length t \<le> 10" "list_all not_colon_slash t"
    and "h \<noteq> []" "length h \<le> 256" "list_all not_colon_slash h"
    and "rest = [] \<or> \<not> not_colon_slash (hd rest)"
  shows "scan_type_host url (t @ ''://'' @ h @ rest) = (2, url\<lparr>u_type := t, u_host := h\<rparr>, rest)"
proof -
  have "scan_set 10 not_colon_slash (t @ ''://'' @ h @ rest) = Some (t, ''://'' @ h @ rest)"
    by (rule scan_set_run) (use assms in \<open>simp_all add: not_colon_slash_def\<close>)
  moreover have "scan_set 256 not_colon_slash (h @ rest) = Some (h, rest)"
    by (rule scan_set_run) (use assms in simp_all)
  ultimately show ?thesis
    by (simp add: scan_type_host_def scan_lit_def is_prefix_take)
qed

lemma scan_d_dec:
  assumes "n < 2147483648" and "rest = [] \<or> \<not> is_digit (hd rest)"
  shows "scan_d (dec n @ rest) = Some (int n, rest)"
proof -
  obtain c cs where d: "dec n = c # cs" "is_digit c" "list_all is_digit cs" using dec_Cons by blast
  have t: "takeWhile is_digit (dec n @ rest) = dec n"
    using dec_digits [of n] assms(2) by (cases rest) (auto simp: list_all_iff)
  from d have "dropWhile is_space (dec n @ rest) = dec n @ rest" by (simp add: digit_not_space)
  then show ?thesis
    using t d digit_not_sign [OF d(2)] digits_prefix_dec [of n] assms(1)
    by (simp add: scan_d_def Let_def)
qed

lemma scan_s_all:
  assumes "p \<noteq> []" "length p \<le> n" "list_all (\<lambda>c. \<not> is_space c) p"
  shows "scan_s n p = Some (p, [])"
  using assms scan_set_run [of p n "\<lambda>c. \<not> is_space c" "[]"] by (cases p) (auto simp: scan_s_def)

definition url_zero :: urlAddress where
  "url_zero = \<lparr>u_host = [], u_port = 0, u_type = [], u_path = [], u_token = [], u_isSsl = False,
     u_address = [], u_directIp = False, u_enableSysGetAddr = False\<rparr>"

text \<open>The fields that may appear in an address.\<close>

definition ok_field :: "nat \<Rightarrow> string \<Rightarrow> bool" where
  "ok_field n s \<longleftrightarrow> s \<noteq> [] \<and> length s \<le> n \<and> list_all not_colon_slash s"

definition ok_path :: "string \<Rightarrow> bool" where
  "ok_path p \<longleftrightarrow> p \<noteq> [] \<and> length p \<le> 255 \<and> list_all (\<lambda>c. \<not> is_space c) p"

text \<open>A complete address is parsed into exactly its parts, and the connection is marked as TLS when
  the scheme is \<open>wss\<close> or \<open>https\<close>.\<close>

theorem parse_full_address:
  assumes "ok_field 10 t" and "ok_field 256 h" and "port < 2147483648" and "ok_path path"
  shows "parseUrlAddress url (t @ ''://'' @ h @ '':'' @ dec port @ ''/'' @ path) =
    (Success, url\<lparr>u_type := t, u_host := h, u_port := int port, u_path := path,
       u_isSsl := (is_ssl_type t \<or> u_isSsl url)\<rparr>)"
proof -
  let ?s = "t @ ''://'' @ h @ '':'' @ dec port @ ''/'' @ path"
  have "scan_type_host url ?s = (2, url\<lparr>u_type := t, u_host := h\<rparr>, '':'' @ dec port @ ''/'' @ path)"
    by (rule scan_type_host_ok) (use assms in \<open>simp_all add: ok_field_def not_colon_slash_def\<close>)
  moreover have "scan_d (dec port @ ''/'' @ path) = Some (int port, ''/'' @ path)"
    by (rule scan_d_dec) (use assms in \<open>simp_all add: is_digit_def\<close>)
  moreover have "scan_s 255 path = Some (path, [])"
    using assms(4) scan_s_all by (simp add: ok_path_def)
  ultimately show ?thesis
    by (simp add: parseUrlAddress_def scan_port_def scan_path_def scan_lit_def)
qed

lemma parse_full_address_witness:
  "parseUrlAddress url_zero
      (''wss'' @ ''://'' @ ''h.com'' @ '':'' @ dec 443 @ ''/'' @ ''ws/v1'') =
    (Success, url_zero\<lparr>u_type := ''wss'', u_host := ''h.com'', u_port := int 443, u_path := ''ws/v1'',
       u_isSsl := (is_ssl_type ''wss'' \<or> u_isSsl url_zero)\<rparr>)"
  by (rule parse_full_address)
    (simp_all add: ok_field_def ok_path_def not_colon_slash_def is_space_def)

text \<open>Without a port the default one is taken from the scheme, with or without a path.\<close>

theorem parse_default_port:
  assumes "ok_field 10 t" and "ok_field 256 h" and "ok_path path"
  shows "parseUrlAddress url (t @ ''://'' @ h @ ''/'' @ path) =
      (Success, set_default_port (url\<lparr>u_type := t, u_host := h, u_path := path\<rparr>))
    \<and> parseUrlAddress url (t @ ''://'' @ h) =
      (Success, (set_default_port (url\<lparr>u_type := t, u_host := h\<rparr>))\<lparr>u_path := []\<rparr>)"
proof -
  have "scan_type_host u (t @ ''://'' @ h @ ''/'' @ path) = (2, u\<lparr>u_type := t, u_host := h\<rparr>, ''/'' @ path)" for u
    by (rule scan_type_host_ok) (use assms in \<open>simp_all add: ok_field_def not_colon_slash_def\<close>)
  moreover have "scan_type_host u (t @ ''://'' @ h @ []) = (2, u\<lparr>u_type := t, u_host := h\<rparr>, [])" for u
    by (rule scan_type_host_ok) (use assms in \<open>simp_all add: ok_field_def\<close>)
  moreover have "scan_s 255 path = Some (path, [])"
    using assms(3) scan_s_all by (simp add: ok_path_def)
  ultimately show ?thesis
    by (simp add: parseUrlAddress_def scan_port_def scan_path_def scan_lit_def set_default_port_def)
qed

lemma parse_default_port_witness:
  "parseUrlAddress url_zero (''https'' @ ''://'' @ ''h'' @ ''/'' @ ''p'') =
      (Success, set_default_port (url_zero\<lparr>u_type := ''https'', u_host := ''h'', u_path := ''p''\<rparr>))
    \<and> parseUrlAddress url_zero (''https'' @ ''://'' @ ''h'') =
      (Success, (set_default_port (url_zero\<lparr>u_type := ''https'', u_host := ''h''\<rparr>))\<lparr>u_path := []\<rparr>)"
  by (rule parse_default_port) (simp_all add: ok_field_def ok_path_def not_colon_slash_def is_space_def)

text \<open>With a port and no path the address is accepted, but the TLS flag is left as it was, whatever
  the scheme: \<open>wss://host:443\<close> is then connected without TLS.\<close>

theorem port_without_path_keeps_ssl:
  assumes "ok_field 10 t" and "ok_field 256 h" and "port < 2147483648"
  shows "parseUrlAddress url (t @ ''://'' @ h @ '':'' @ dec port) =
    (Success, url\<lparr>u_type := t, u_host := h, u_port := int port, u_path := []\<rparr>)"
proof -
  have "scan_type_host u (t @ ''://'' @ h @ '':'' @ dec port) =
      (2, u\<lparr>u_type := t, u_host := h\<rparr>, '':'' @ dec port)" for u
    by (rule scan_type_host_ok) (use assms in \<open>simp_all add: ok_field_def not_colon_slash_def\<close>)
  moreover have "scan_d (dec port) = Some (int port, [])"
    using scan_d_dec [OF assms(3), of "[]"] by simp
  ultimately show ?thesis
    by (simp add: parseUrlAddress_def scan_port_def scan_path_def scan_lit_def)
qed

lemma port_without_path_keeps_ssl_witness:
  "parseUrlAddress url_zero (''wss'' @ ''://'' @ ''h'' @ '':'' @ dec 443) =
    (Success, url_zero\<lparr>u_type := ''wss'', u_host := ''h'', u_port := int 443, u_path := []\<rparr>)"
  by (rule port_without_path_keeps_ssl)
    (simp_all add: ok_field_def not_colon_slash_def)

section \<open>Requests\<close>

text \<open>A header block is a sequence of lines, none empty and none with a carriage return, and an empty
  line. \<open>CR LF CR LF\<close> then occurs at its end only.\<close>

definition header_lines :: "string list \<Rightarrow> string" where
  "header_lines ls = concat (map (\<lambda>l. l @ crlf) ls)"

definition line_ok :: "string \<Rightarrow> bool" where
  "line_ok l \<longleftrightarrow> l \<noteq> [] \<and> CHR 0x0D \<notin> set l"

lemma find_past_line:
  assumes "CHR 0x0D \<notin> set l" and "rest \<noteq> []" and "hd rest \<noteq> CHR 0x0D"
  shows "find_at HTTP_HEADER_END_STRING (l @ crlf @ rest) p =
    find_at HTTP_HEADER_END_STRING rest (p + length l + 2)"
  using assms
  by (induction l arbitrary: p) (auto simp: HTTP_HEADER_END_STRING_def crlf_def neq_Nil_conv)

lemma find_last_line:
  assumes "CHR 0x0D \<notin> set l"
  shows "find_at HTTP_HEADER_END_STRING (l @ crlf @ crlf @ rest) p = Some (p + length l)"
  using assms by (induction l arbitrary: p) (auto simp: HTTP_HEADER_END_STRING_def crlf_def)

lemma find_header_end:
  assumes "list_all line_ok (l # ls)"
  shows "find_at HTTP_HEADER_END_STRING (header_lines (l # ls) @ crlf @ rest) p =
    Some (p + length (header_lines (l # ls)) - 2)"
  using assms
proof (induction ls arbitrary: l p)
  case Nil
  then show ?case
    using find_last_line [of l rest p] by (simp add: header_lines_def line_ok_def crlf_def)
next
  case (Cons l' ls)
  let ?r = "header_lines (l' # ls) @ crlf @ rest"
  from Cons.prems have l: "CHR 0x0D \<notin> set l" and l': "l' \<noteq> []" "CHR 0x0D \<notin> set l'"
    by (auto simp: line_ok_def)
  have "?r \<noteq> []" "hd ?r \<noteq> CHR 0x0D"
    using l' by (auto simp: header_lines_def hd_append dest: hd_in_set)
  then have "find_at HTTP_HEADER_END_STRING (l @ crlf @ ?r) p =
      find_at HTTP_HEADER_END_STRING ?r (p + length l + 2)"
    by (rule find_past_line [OF l])
  also have "\<dots> = Some (p + length l + 2 + length (header_lines (l' # ls)) - 2)"
    using Cons.IH Cons.prems by simp
  finally show ?case by (simp add: header_lines_def crlf_def)
qed

definition request_lines :: "urlAddress \<Rightarrow> string list" where
  "request_lines url =
     [''GET /'' @ u_path url @ '' HTTP/1.1'',
      ''Host: '' @ u_host url @ (if u_port url = HttpPort then [] else '':'' @ dec_int (u_port url)),
      ''Upgrade: websocket'', ''Connection: Upgrade'', getSecWsKey, ''Sec-WebSocket-Version: 13'',
      ''X-NLS-Token: '' @ u_token url]"

lemma getSecWsKey_eq: "getSecWsKey = ''Sec-WebSocket-Key: x1LDbMHJJ3EzLkh9GBhXDw==''"
  by code_simp

lemma dec_no_cr: "CHR 0x0D \<notin> set (dec n)"
  using dec_digits [of n] by (auto simp: list_all_iff is_digit_def)

lemma request_lines_ok:
  assumes "CHR 0x0D \<notin> set (u_path url)" "CHR 0x0D \<notin> set (u_host url)" "CHR 0x0D \<notin> set (u_token url)"
  shows "list_all line_ok (request_lines url)"
  using assms by (simp add: request_lines_def line_ok_def getSecWsKey_eq dec_int_def dec_no_cr)

text \<open>The upgrade request of an address whose fields hold no carriage return is one well-formed header
  block: when it fits the 2047 characters of the buffer it is the request line and its header fields, the
  extra header in front of the blank line; the code returns its length, and without an extra header the
  end of the header block is the end of the request and occurs nowhere before it.\<close>

theorem request_is_header_block:
  assumes "CHR 0x0D \<notin> set (u_path url)" "CHR 0x0D \<notin> set (u_host url)" "CHR 0x0D \<notin> set (u_token url)"
    and "length (u_host url) < 200" and "0 \<le> u_port url" and "u_port url < 65536"
    and "length (header_lines (request_lines url) @ hdr @ crlf) < 2048"
  shows "requestPackage url hdr =
      (header_lines (request_lines url) @ hdr @ crlf, int (length (header_lines (request_lines url) @ hdr @ crlf)))
    \<and> (hdr = [] \<longrightarrow> str_find (fst (requestPackage url hdr)) HTTP_HEADER_END_STRING 0 =
         Some (nat (snd (requestPackage url hdr)) - 4))"
proof -
  have "nat (u_port url) < 10 ^ 5" using assms(5,6) by simp
  then have "length (dec (nat (u_port url))) \<le> 5" by (rule dec_length) simp
  then have "hostBuff url = ''Host: '' @ u_host url @ (if u_port url = HttpPort then [] else '':'' @ dec_int (u_port url)) @ crlf"
    using assms(4-6)
    by (simp add: hostBuff_def snprintf_def dec_int_def crlf_def)
  then have *: "requestPackage url hdr =
      (header_lines (request_lines url) @ hdr @ crlf, int (length (header_lines (request_lines url) @ hdr @ crlf)))"
    using assms(7)
    by (simp add: requestPackage_def header_lines_def request_lines_def snprintf_def Let_def crlf_def)
  moreover have "str_find (header_lines (request_lines url) @ crlf) HTTP_HEADER_END_STRING 0 =
      Some (length (header_lines (request_lines url) @ crlf) - 4)"
    using find_header_end [of _ _ "[]" 0] request_lines_ok [OF assms(1-3)]
    by (simp add: str_find_def request_lines_def crlf_def)
  ultimately show ?thesis by (cases hdr) simp_all
qed

lemma request_is_header_block_witness:
  "requestPackage (url_zero\<lparr>u_host := ''h'', u_port := 443\<rparr>) [] =
      (header_lines (request_lines (url_zero\<lparr>u_host := ''h'', u_port := 443\<rparr>)) @ [] @ crlf,
       int (length (header_lines (request_lines (url_zero\<lparr>u_host := ''h'', u_port := 443\<rparr>)) @ [] @ crlf)))
    \<and> str_find (fst (requestPackage (url_zero\<lparr>u_host := ''h'', u_port := 443\<rparr>) []))
           HTTP_HEADER_END_STRING 0 =
         Some (nat (snd (requestPackage (url_zero\<lparr>u_host := ''h'', u_port := 443\<rparr>) [])) - 4)"
  by (rule request_is_header_block [where hdr = "[]" and url = "url_zero\<lparr>u_host := ''h'', u_port := 443\<rparr>", simplified simp_thms])
    (simp_all add: url_zero_def request_lines_def header_lines_def getSecWsKey_eq crlf_def
      dec_int_def dec.simps)

section \<open>Answers\<close>

text \<open>What \<open>getTargetLen\<close> reads when the mark is present: the number after it.\<close>

lemma find_at_skip:
  assumes "list_all (\<lambda>c. c \<noteq> x) t"
  shows "find_at (x # xs) (t @ x # xs @ rest) p = Some (p + length t)"
  using assms by (induction t arbitrary: p) (auto simp: is_prefix_iff)

lemma getTargetLen_ok:
  assumes "str_find line beg 0 = Some k" and "drop (k + length beg) line = dec n @ (x # xs) @ rest"
    and "\<not> is_digit x" and "length line < 18446744073709551616" and "n < 2147483648"
  shows "getTargetLen line beg (x # xs) = int n"
proof -
  have le: "k + length beg \<le> length line" using str_find_Some [OF assms(1)] by simp
  then have sub: "sizet (int k + int (length beg)) = k + length beg"
    using assms(4) sizet_id [of "k + length beg"] by simp
  have "list_all (\<lambda>c. c \<noteq> x) (dec n)"
    using dec_digits [of n] assms(3) by (auto simp: list_all_iff)
  then have "find_at (x # xs) (dec n @ x # xs @ rest) (k + length beg) = Some (k + length beg + length (dec n))"
    by (rule find_at_skip)
  then have f: "str_find line (x # xs) (k + length beg) = Some (k + length beg + length (dec n))"
    using assms(2) le by (simp add: str_find_def)
  have "length line - (k + length beg) = length (dec n) + Suc (length xs + length rest)"
    using arg_cong [OF assms(2), of length] by simp
  then have "k + length (dec n) < 18446744073709551616" using assms(4) le by linarith
  then have l: "sizet (int k + int (length (dec n))) = k + length (dec n)"
    using sizet_id [of "k + length (dec n)"] by simp
  have "substr line (k + length beg) (k + length (dec n)) = dec n @ take k (x # xs @ rest)"
    using assms(2) by (simp add: substr_def add.commute)
  moreover have "atoi (dec n @ take k (x # xs @ rest)) = int n"
    by (rule atoi_dec) (use assms(3,5) in \<open>cases k; simp\<close>)+
  ultimately show ?thesis
    using assms(1) f by (simp add: getTargetLen_def sub l)
qed

definition status_line :: "nat \<Rightarrow> string \<Rightarrow> string" where
  "status_line c rest = HTTP_STATUS_CODE @ dec c @ '' '' @ rest"

lemma status_code_read:
  assumes "c < 2147483648" and "length (status_line c rest) < 18446744073709551616"
  shows "getTargetLen (status_line c rest) HTTP_STATUS_CODE '' '' = int c"
proof (rule getTargetLen_ok)
  show "str_find (status_line c rest) HTTP_STATUS_CODE 0 = Some 0"
    by (simp add: str_find_def status_line_def HTTP_STATUS_CODE_def)
  show "drop (0 + length HTTP_STATUS_CODE) (status_line c rest) = dec c @ [CHR '' ''] @ rest"
    by (simp add: status_line_def)
qed (use assms in \<open>simp_all add: is_digit_def\<close>)

text \<open>The upgrade succeeds exactly when the status code of the first answer line is 101: on a complete
  header block with a positive status code the code records that code and returns 0 for 101 and
  \<open>-WsResponsePackageFailed\<close> for every other one.\<close>

theorem response_status:
  assumes "strstr (status_line c rest) HTTP_HEADER_END_STRING" and "0 < c" and "c < 2147483648"
    and "h_httpCode st = 0" and "length (status_line c rest) < 18446744073709551616"
  shows "h_httpCode (snd (responsePackage st (status_line c rest) len)) = c
    \<and> fst (responsePackage st (status_line c rest) len) = (if c = 101 then 0 else - WsResponsePackageFailed)"
proof -
  have "sizet (getTargetLen (status_line c rest) HTTP_STATUS_CODE '' '') = c"
    unfolding status_code_read [OF assms(3,5)] using assms(3) by (intro sizet_id) simp
  then show ?thesis
    using assms by (simp add: responsePackage_def Let_def split: option.splits)
qed

lemma response_status_witness:
  "h_httpCode (snd (responsePackage http_init (status_line 403 (''Forbidden'' @ crlf @ crlf)) 40)) = 403
    \<and> fst (responsePackage http_init (status_line 403 (''Forbidden'' @ crlf @ crlf)) 40) =
      (if (403 :: nat) = 101 then 0 else - WsResponsePackageFailed)"
  by (rule response_status)
    (simp_all add: http_init_def status_line_def HTTP_STATUS_CODE_def crlf_def dec.simps
      HTTP_HEADER_END_STRING_def strstr_def c_str_def str_find_def)

text \<open>The body of an error answer becomes the error message: when the whole answer has arrived and its
  \<open>Content-Length\<close> is the length of what follows the blank line, that text, and nothing else, is what
  \<open>getFailedMsg\<close> returns.\<close>

theorem response_error_body:
  assumes "content = header_lines (l # ls) @ crlf @ body" and "list_all line_ok (l # ls)"
    and "list_all (\<lambda>c. of_char c \<noteq> (0 :: nat)) content" and "length content < 2147483648"
    and "l = status_line c reason" and "0 < c" and "c < 2147483648" and "c \<noteq> 101" and "body \<noteq> []"
    and "str_find content HTTP_CONTENT_LENGTH 0 = Some k"
    and "drop (k + length HTTP_CONTENT_LENGTH) content = dec (length body) @ crlf @ post"
  shows "responsePackage http_init content (length content) =
    (- WsResponsePackageFailed,
     \<lparr>h_httpCode = c, h_httpLength = length body, h_errorMsg = body\<rparr>)"
proof -
  obtain q where q: "length (header_lines (l # ls)) = q + 2"
    by (rule that [of "length (header_lines (l # ls)) - 2"]) (simp add: header_lines_def crlf_def)
  have pos: "str_find content HTTP_HEADER_END_STRING 0 = Some q"
    using find_header_end [OF assms(2), of body 0] assms(1) q by (simp add: str_find_def)
  have "content = status_line c (reason @ crlf @ header_lines ls @ crlf @ body)"
    using assms(1,5) by (simp add: header_lines_def status_line_def)
  then have "getTargetLen content HTTP_STATUS_CODE '' '' = int c"
    using status_code_read [OF assms(7)] assms(4) by simp
  then have code: "sizet (getTargetLen content HTTP_STATUS_CODE '' '') = c"
    using assms(7) sizet_id [of c] by simp
  have "length body < 2147483648" using assms(1,4) by simp
  then have "getTargetLen content HTTP_CONTENT_LENGTH crlf = int (length body)"
    unfolding crlf_def using assms(4,10,11)
    by (intro getTargetLen_ok [where k = k and rest = post]) (simp_all add: crlf_def is_digit_def)
  then have clen: "sizet (getTargetLen content HTTP_CONTENT_LENGTH crlf) = length body"
    using \<open>length body < 2147483648\<close> sizet_id [of "length body"] by simp
  have e: "length HTTP_HEADER_END_STRING = 4" by (simp add: HTTP_HEADER_END_STRING_def crlf_def)
  have "int (length content) - int (q + length HTTP_HEADER_END_STRING) = int (length body)"
    using assms(1) q e by (simp add: crlf_def)
  then have rest: "sizet (int (length content) - int (q + length HTTP_HEADER_END_STRING)) = length body"
    using \<open>length body < 2147483648\<close> by (simp only: sizet_id)
  have body: "drop (q + length HTTP_HEADER_END_STRING) content = body"
    using assms(1) q e by (simp add: crlf_def)
  have "strstr content HTTP_HEADER_END_STRING"
    using pos assms(3) by (simp add: strstr_def c_str_id)
  then show ?thesis
    unfolding responsePackage_def Let_def
    using pos code clen rest body assms(6,8,9) by (simp add: http_init_def)
qed

lemma response_error_body_witness:
  "responsePackage http_init
      (header_lines [status_line 403 ''F'', ''Content-Length: 2''] @ crlf @ ''no'')
      (length (header_lines [status_line 403 ''F'', ''Content-Length: 2''] @ crlf @ ''no'')) =
    (- WsResponsePackageFailed, \<lparr>h_httpCode = 403, h_httpLength = length ''no'', h_errorMsg = ''no''\<rparr>)"
  by (rule response_error_body [where l = "status_line 403 ''F''" and ls = "[''Content-Length: 2'']"
        and reason = "''F''" and k = 16 and post = "crlf @ ''no''"])
    (simp_all add: line_ok_def header_lines_def status_line_def HTTP_STATUS_CODE_def crlf_def dec.simps
      HTTP_CONTENT_LENGTH_def str_find_def char_of_def bit_0)

end
