(* ===== verification/IpCache.thy ===== *)
theory IpCache
  imports WsHttp
begin

text \<open>
  The DNS cache of an event thread (\<open>WorkThread::getIpFromCache\<close>, \<open>setIpCache\<close> in
  \<open>event/workThread.cpp\<close>): for each address the distinct IPs seen, and how often in a row the last
  resolutions gave a known one. \<open>rand\<close> is the value of \<open>rand()\<close>; \<open>same_ip_count\<close> is a \<open>uint32_t\<close>.
\<close>

record DnsIpCache =
  ip_list :: "string list"
  same_ip_count :: "32 word"

type_synonym ip_cache = "string \<rightharpoonup> DnsIpCache"

abbreviation (input) WorkThreshold :: "32 word" where "WorkThreshold \<equiv> 20"

text \<open>The local \<open>urlAddress\<close> of \<open>urlWithAccess\<close> is not initialised: \<open>url\<close> is what it happens to hold.\<close>

definition getIpFromCache :: "urlAddress \<Rightarrow> nat \<Rightarrow> ip_cache \<Rightarrow> string \<Rightarrow> string" where
  "getIpFromCache url rand c host =
     (if urlWithAccess url host then []
      else
        (case c host of
           None \<Rightarrow> []
         | Some ips \<Rightarrow>
             if same_ip_count ips < WorkThreshold then []
             else if 0 < length (ip_list ips) then ip_list ips ! (rand mod length (ip_list ips))
             else []))"

definition setIpCache :: "string option \<Rightarrow> string option \<Rightarrow> ip_cache \<Rightarrow> ip_cache" where
  "setIpCache host ip c =
     (case (host, ip) of
        (Some h, Some i) \<Rightarrow>
          (case c h of
             Some ips \<Rightarrow>
               if 0 < length (ip_list ips) then
                 (if i \<notin> set (ip_list ips)
                  then c(h \<mapsto> ips\<lparr>ip_list := ip_list ips @ [i], same_ip_count := 0\<rparr>)
                  else c(h \<mapsto> ips\<lparr>same_ip_count := same_ip_count ips + 1\<rparr>))
               else c
           | None \<Rightarrow> c(h \<mapsto> \<lparr>ip_list = [i], same_ip_count = 0\<rparr>))
      | _ \<Rightarrow> Map.empty)"

section \<open>Invariant and meaning\<close>

text \<open>A run of the cache is the sequence of \<open>setIpCache\<close> calls; \<open>seen\<close> are the IPs given for a host since the
  last clear.\<close>

fun ip_run :: "(string option \<times> string option) list \<Rightarrow> ip_cache \<Rightarrow> ip_cache" where
  "ip_run [] c = c"
| "ip_run ((h, i) # ops) c = ip_run ops (setIpCache h i c)"

fun seen :: "string \<Rightarrow> (string option \<times> string option) list \<Rightarrow> string list \<Rightarrow> string list" where
  "seen host [] acc = acc"
| "seen host ((h, i) # ops) acc =
     seen host ops (case (h, i) of
        (Some h', Some i') \<Rightarrow> if h' = host then acc @ [i'] else acc
      | _ \<Rightarrow> [])"

text \<open>The cached list of a host is what was seen, each IP once, in the order of the first sight.\<close>

definition cache_ok :: "string \<Rightarrow> string list \<Rightarrow> ip_cache \<Rightarrow> bool" where
  "cache_ok host ss c \<longleftrightarrow>
     (case c host of
        None \<Rightarrow> ss = []
      | Some ips \<Rightarrow> ip_list ips \<noteq> [] \<and> distinct (ip_list ips) \<and> set (ip_list ips) = set ss)"

lemma cache_ok_set:
  assumes "cache_ok host ss c"
  shows "cache_ok host
    (case (h, i) of (Some h', Some i') \<Rightarrow> if h' = host then ss @ [i'] else ss | _ \<Rightarrow> []) (setIpCache h i c)"
  using assms
  by (auto simp: cache_ok_def setIpCache_def split: option.splits)

lemma cache_ok_run: "cache_ok host ss c \<Longrightarrow> cache_ok host (seen host ops ss) (ip_run ops c)"
proof (induction ops arbitrary: ss c)
  case (Cons op ops)
  obtain h i where "op = (h, i)" by fastforce
  with Cons.IH [OF cache_ok_set [OF Cons.prems, of h i]] show ?case by simp
qed simp

text \<open>The cache only ever hands out an IP that was stored for the same host after the last clear; and for
  an address with access parameters in its path (a \<open>?\<close>) it hands out nothing.\<close>

theorem cached_ip_was_stored:
  assumes "getIpFromCache url rand (ip_run ops Map.empty) host = ip" and "ip \<noteq> []"
  shows "ip \<in> set (seen host ops []) \<and> \<not> urlWithAccess url host"
proof -
  have ok: "cache_ok host (seen host ops []) (ip_run ops Map.empty)"
    by (rule cache_ok_run) (simp add: cache_ok_def)
  obtain ips where ips: "\<not> urlWithAccess url host" "ip_run ops Map.empty host = Some ips"
    "0 < length (ip_list ips)" "ip = ip_list ips ! (rand mod length (ip_list ips))"
    using assms unfolding getIpFromCache_def by (simp split: if_splits option.splits)
  from ips(3) have "rand mod length (ip_list ips) < length (ip_list ips)" by (rule mod_less_divisor)
  then have "ip \<in> set (ip_list ips)" using ips(4) nth_mem by metis
  moreover have "set (ip_list ips) = set (seen host ops [])" using ok ips(2) by (simp add: cache_ok_def)
  ultimately show ?thesis using ips(1) by simp
qed

lemma same_ip_run:
  "ip_run (replicate n (Some h, Some i)) [h \<mapsto> \<lparr>ip_list = [i], same_ip_count = k\<rparr>] =
    [h \<mapsto> \<lparr>ip_list = [i], same_ip_count = k + of_nat n\<rparr>]"
  by (induction n arbitrary: k) (simp_all add: setIpCache_def algebra_simps)

lemma cached_ip_was_stored_witness:
  "''1.2.3.4'' \<in> set (seen ''h'' (replicate (Suc 20) (Some ''h'', Some ''1.2.3.4'')) []) \<and> \<not> urlWithAccess url_zero ''h''"
proof (rule cached_ip_was_stored [where rand = 5])
  have "ip_run (replicate (Suc 20) (Some ''h'', Some ''1.2.3.4'')) Map.empty =
      [''h'' \<mapsto> \<lparr>ip_list = [''1.2.3.4''], same_ip_count = 20\<rparr>]"
    unfolding replicate_Suc using same_ip_run [of 20 "''h''" "''1.2.3.4''" 0] by (simp add: setIpCache_def)
  then show "getIpFromCache url_zero 5 (ip_run (replicate (Suc 20) (Some ''h'', Some ''1.2.3.4'')) Map.empty) ''h'' = ''1.2.3.4''"
    by (simp add: getIpFromCache_def urlWithAccess_def parseUrlAddress_def scan_type_host_def
        scan_set_def scan_lit_def scan_path_def scan_port_def not_colon_slash_def)
qed simp

end
