(* ===== verification/ConnectTypes.thy ===== *)
theory ConnectTypes
  imports WsFrame NodeManager NlsEvent IpCache
begin

text \<open>
  The state of a connection node (\<open>transport/connectNode.h\<close>), its status names, and the operations of
  \<open>connectNode.cpp\<close> that only set or tear it down. A node is a record with the data members of
  \<open>class ConnectNode\<close>. An \<open>evbuffer\<close> is its contents, the bytes added and not yet drained; a \<open>struct event\<close>
  pointer is whether it is set. \<open>cn_callbacks\<close> records the events handed to the user's listener, in order,
  and \<open>cn_clock\<close>, \<open>cn_io\<close> count the calls to the clock and to the operating system, whose answers are
  functions of that count in the environment \<open>env\<close>. Mutexes only order the operations, each of which is
  one step here; \<open>MUTEX_TRY_LOCK\<close> of 2 s can fail, and its outcome is an argument. \<open>cn_ipCache\<close> is the cache of
  the node's event thread.
\<close>

section \<open>Enumerations\<close>

datatype CmdType =
    CmdStart | CmdStop | CmdStControl | CmdTextDialog | CmdExecuteDialog | CmdWarkWord | CmdCancel
  | CmdSendText | CmdSendPing | CmdSendFlush

datatype ExitStatus = ExitInvalid | ExitStopping | ExitCancel

datatype ConnectStatus =
    NodeInvalid | NodeCreated | NodeInvoking | NodeInvoked | NodeConnecting | NodeConnected
  | NodeHandshaking | NodeHandshaked | NodeStarting | NodeStarted | NodeWakeWording | NodeFailed
  | NodeCompleted | NodeClosed | NodeReleased | NodeStop | NodeCancel | NodeSendAudio
  | NodeSendControl | NodePlayAudio | NodeSendText

datatype ReconnectionState = NoReconnection | WillReconnect | TriggerReconnection | NewReconnectionStarting

datatype NlsRequestType =
    SpeechNormal | SpeechExecuteDialog | SpeechWakeWordDialog | SpeechTextDialog | SpeechSynthesizer
  | FlowingSynthesizer

datatype NlsType = TypeAsr | TypeRealTime | TypeTts | TypeStreamInputTts | TypeDialog | TypeNone

definition getConnectNodeStatusString :: "ConnectStatus \<Rightarrow> string" where
  "getConnectNodeStatusString status =
     (case status of
        NodeInvalid \<Rightarrow> ''NodeInvalid''
      | NodeCreated \<Rightarrow> ''NodeCreated''
      | NodeInvoking \<Rightarrow> ''NodeInvoking''
      | NodeInvoked \<Rightarrow> ''NodeInvoked''
      | NodeConnecting \<Rightarrow> ''NodeConnecting''
      | NodeConnected \<Rightarrow> ''NodeConnected''
      | NodeHandshaking \<Rightarrow> ''NodeHandshaking''
      | NodeHandshaked \<Rightarrow> ''NodeHandshaked''
      | NodeStarting \<Rightarrow> ''NodeStarting''
      | NodeStarted \<Rightarrow> ''NodeStarted''
      | NodeWakeWording \<Rightarrow> ''NodeWakeWording''
      | NodeFailed \<Rightarrow> ''NodeFailed''
      | NodeCompleted \<Rightarrow> ''NodeCompleted''
      | NodeClosed \<Rightarrow> ''NodeClosed''
      | NodeReleased \<Rightarrow> ''NodeReleased''
      | NodeStop \<Rightarrow> ''NodeStop''
      | NodeCancel \<Rightarrow> ''NodeCancel''
      | NodeSendAudio \<Rightarrow> ''NodeSendAudio''
      | NodeSendControl \<Rightarrow> ''NodeSendControl''
      | NodePlayAudio \<Rightarrow> ''NodePlayAudio''
      | NodeSendText \<Rightarrow> ''NodeSendText'')"

definition getExitStatusString :: "ExitStatus \<Rightarrow> string" where
  "getExitStatusString s =
     (case s of ExitInvalid \<Rightarrow> ''ExitInvalid'' | ExitStopping \<Rightarrow> ''ExitStopping'' | ExitCancel \<Rightarrow> ''ExitCancel'')"

definition getCmdTypeString :: "CmdType \<Rightarrow> string" where
  "getCmdTypeString type =
     (case type of
        CmdStart \<Rightarrow> ''CmdStart''
      | CmdStop \<Rightarrow> ''CmdStop''
      | CmdStControl \<Rightarrow> ''CmdStControl''
      | CmdTextDialog \<Rightarrow> ''CmdTextDialog''
      | CmdExecuteDialog \<Rightarrow> ''CmdExecuteDialog''
      | CmdWarkWord \<Rightarrow> ''CmdWarkWord''
      | CmdCancel \<Rightarrow> ''CmdCancel''
      | CmdSendText \<Rightarrow> ''CmdSendText''
      | CmdSendPing \<Rightarrow> ''CmdSendPing''
      | CmdSendFlush \<Rightarrow> ''CmdSendFlush'')"

text \<open>The code compares status values as the integers of the enumeration.\<close>

definition status_num :: "ConnectStatus \<Rightarrow> nat" where
  "status_num s =
     (case s of
        NodeInvalid \<Rightarrow> 0 | NodeCreated \<Rightarrow> 1 | NodeInvoking \<Rightarrow> 2 | NodeInvoked \<Rightarrow> 3 | NodeConnecting \<Rightarrow> 4
      | NodeConnected \<Rightarrow> 5 | NodeHandshaking \<Rightarrow> 6 | NodeHandshaked \<Rightarrow> 7 | NodeStarting \<Rightarrow> 8 | NodeStarted \<Rightarrow> 9
      | NodeWakeWording \<Rightarrow> 10 | NodeFailed \<Rightarrow> 11 | NodeCompleted \<Rightarrow> 12 | NodeClosed \<Rightarrow> 13 | NodeReleased \<Rightarrow> 14
      | NodeStop \<Rightarrow> 15 | NodeCancel \<Rightarrow> 16 | NodeSendAudio \<Rightarrow> 17 | NodeSendControl \<Rightarrow> 18 | NodePlayAudio \<Rightarrow> 19
      | NodeSendText \<Rightarrow> 20)"

lemma status_num_inj: "status_num a = status_num b \<Longrightarrow> a = b"
  by (cases a; cases b) (simp_all add: status_num_def)

instantiation ConnectStatus :: linorder
begin

definition less_eq_ConnectStatus :: "ConnectStatus \<Rightarrow> ConnectStatus \<Rightarrow> bool" where
  "less_eq_ConnectStatus a b \<longleftrightarrow> status_num a \<le> status_num b"

definition less_ConnectStatus :: "ConnectStatus \<Rightarrow> ConnectStatus \<Rightarrow> bool" where
  "less_ConnectStatus a b \<longleftrightarrow> status_num a < status_num b"

instance
  by standard (auto simp: less_eq_ConnectStatus_def less_ConnectStatus_def intro: status_num_inj)

end

lemmas status_order = less_eq_ConnectStatus_def less_ConnectStatus_def status_num_def

section \<open>State\<close>

text \<open>The request's parameters the node reads. The command texts are what the getters of the request
  return; \<open>rp_startCommand\<close> takes the two offsets a reconnection adds to the payload.\<close>

record request_param =
  rp_url :: string
  rp_token :: string
  rp_taskId :: string
  rp_outputFormat :: string
  rp_format :: string
  rp_httpHeader :: string
  rp_requestType :: NlsRequestType
  rp_mode :: NlsType
  rp_sampleRate :: int
  rp_enableWakeWord :: bool
  rp_enableRecvTimeout :: bool
  rp_enableOnMessage :: bool
  rp_enableReconnect :: bool
  rp_startCommand :: "(64 word \<times> 64 word) option \<Rightarrow> string option"
  rp_controlCommand :: "string \<Rightarrow> string option"
  rp_stopCommand :: "string option"
  rp_executeDialog :: "string option"
  rp_stopWakeWordCommand :: "string option"
  rp_runFlowingCommand :: "string \<Rightarrow> string option"
  rp_flushFlowingCommand :: "string option"

record NodeReconnection =
  rc_state :: ReconnectionState
  rc_reconnected_count :: nat
  rc_tw_index_offset :: "64 word"
  rc_interruption_timestamp_ms :: "64 word"
  rc_first_audio_timestamp_ms :: "64 word"

definition rc_init :: NodeReconnection where
  "rc_init = \<lparr>rc_state = NoReconnection, rc_reconnected_count = 0, rc_tw_index_offset = 0,
     rc_interruption_timestamp_ms = 0, rc_first_audio_timestamp_ms = 0\<rparr>"

text \<open>\<open>_audioFrame\<close> with \<open>_audioFrameSize\<close> is the filled part of the slicing buffer (\<open>None\<close>: not allocated).\<close>

record audio_state =
  au_hasEncoder :: bool
  au_encoderType :: ENCODER_TYPE
  au_audioFrame :: "byte list option"
  au_maxFrameSize :: int
  au_isFirstAudioFrame :: bool

record conn_node =
  cn_addr :: addr
  cn_request :: "request_param option"
  cn_instance :: bool
  cn_handler :: bool
  cn_isLongConnection :: bool
  cn_workStatus :: ConnectStatus
  cn_exitStatus :: ExitStatus
  cn_isStop :: bool
  cn_isFirstBinaryFrame :: bool
  cn_isWakeStop :: bool
  cn_isDestroy :: bool
  cn_isConnected :: bool
  cn_releasingFlag :: bool
  cn_nodeErrMsg :: string
  cn_nodeErrCode :: int
  cn_limitSize :: nat
  cn_readEvBuffer :: "byte list"
  cn_binaryEvBuffer :: "byte list"
  cn_cmdEvBuffer :: "byte list"
  cn_wwvEvBuffer :: "byte list"
  cn_launchEvent :: bool
  cn_connectEvent :: bool
  cn_readEvent :: bool
  cn_writeEvent :: bool
  cn_dnsEvent :: bool
  cn_connectTimerEvent :: bool
  cn_connectTimerFlag :: bool
  cn_url :: urlAddress
  cn_socketFd :: "nat option"
  cn_aiFamily :: int
  cn_rStatus :: WebSocketReceiveStatus
  cn_http :: http_state
  cn_wsType :: WebSocketHeaderType
  cn_retryConnectCount :: nat
  cn_enableRecvTv :: bool
  cn_enableOnMessage :: bool
  cn_syncCallTimeoutMs :: nat
  cn_audio :: audio_state
  cn_reconnection :: NodeReconnection
  cn_ipCache :: ip_cache
  cn_callbacks :: "NlsEvent list"
  cn_signals :: nat
  cn_sslCloses :: nat
  cn_sent :: "byte list"
  cn_clock :: nat
  cn_io :: nat

section \<open>Small operations\<close>

definition initAllStatus :: "conn_node \<Rightarrow> conn_node" where
  "initAllStatus n = n\<lparr>cn_isFirstBinaryFrame := True, cn_isStop := False, cn_isDestroy := False,
     cn_isWakeStop := False, cn_workStatus := NodeCreated, cn_exitStatus := ExitInvalid\<rparr>"

definition setConnectNodeStatus :: "ConnectStatus \<Rightarrow> conn_node \<Rightarrow> conn_node" where
  "setConnectNodeStatus s n = n\<lparr>cn_workStatus := s\<rparr>"

text \<open>\<open>updateDestroyStatus\<close> tells whether the node was already being destroyed.\<close>

definition updateDestroyStatus :: "conn_node \<Rightarrow> bool \<times> conn_node" where
  "updateDestroyStatus n = (if \<not> cn_isDestroy n then (False, n\<lparr>cn_isDestroy := True\<rparr>) else (True, n))"

abbreviation (input) RetryConnectCount :: nat where "RetryConnectCount \<equiv> 4"

definition checkConnectCount :: "conn_node \<Rightarrow> bool \<times> conn_node" where
  "checkConnectCount n =
     (if cn_retryConnectCount n < RetryConnectCount
      then (True, n\<lparr>cn_retryConnectCount := cn_retryConnectCount n + 1\<rparr>)
      else (False, n\<lparr>cn_retryConnectCount := 0\<rparr>))"

text \<open>\<open>memcpy(_url._token, token, tokenSize)\<close> writes past \<open>_token[512]\<close> for a longer token: \<open>None\<close>.\<close>

abbreviation (input) TokenSize :: nat where "TokenSize \<equiv> 512"

definition parse_direct_ip :: "urlAddress \<Rightarrow> string \<Rightarrow> bool \<times> urlAddress" where
  "parse_direct_ip url directIp =
     (let (n1, url1) =
        (case scan_set 256 not_colon_slash directIp of
           None \<Rightarrow> (0 :: nat, url)
         | Some (a, s1) \<Rightarrow>
             (case scan_lit '':'' s1 of
                None \<Rightarrow> (1, url\<lparr>u_address := a\<rparr>)
              | Some s2 \<Rightarrow>
                  (case scan_d s2 of
                     None \<Rightarrow> (1, url\<lparr>u_address := a\<rparr>)
                   | Some (p, _) \<Rightarrow> (2, url\<lparr>u_address := a, u_port := p\<rparr>)))) in
      if n1 = 2 then (True, url1\<lparr>u_directIp := True\<rparr>)
      else (case scan_s 255 directIp of
              None \<Rightarrow> (False, url1)
            | Some (a, _) \<Rightarrow> (True, url1\<lparr>u_address := a, u_directIp := True\<rparr>)))"

definition parseUrlInformation :: "string \<Rightarrow> conn_node \<Rightarrow> (bool \<times> conn_node) option" where
  "parseUrlInformation directIp n =
     (case cn_request n of
        None \<Rightarrow> Some (False, n)
      | Some rp \<Rightarrow>
          (let (ip_ok, url1) = (if directIp \<noteq> [] then parse_direct_ip url_zero directIp else (True, url_zero)) in
           if \<not> ip_ok then Some (False, n\<lparr>cn_url := url1\<rparr>)
           else
             (let (ret, url2) = parseUrlAddress url1 (rp_url rp) in
              if ret \<noteq> Success then Some (False, n\<lparr>cn_url := url2\<rparr>)
              else if TokenSize < length (rp_token rp) then None
              else Some (True, n\<lparr>cn_url := url2\<lparr>u_token := rp_token rp\<rparr>\<rparr>))))"

section \<open>Closing\<close>

definition reset_audio_frame :: "conn_node \<Rightarrow> conn_node" where
  "reset_audio_frame n = n\<lparr>cn_audio := (cn_audio n)\<lparr>au_audioFrame := None, au_maxFrameSize := 0,
     au_isFirstAudioFrame := True\<rparr>\<rparr>"

definition close_socket :: "conn_node \<Rightarrow> conn_node" where
  "close_socket n =
     (if cn_socketFd n \<noteq> None
      then n\<lparr>cn_sslCloses := cn_sslCloses n + (if u_isSsl (cn_url n) then 1 else 0), cn_socketFd := None\<rparr>
      else n)"

text \<open>\<open>lock_ret\<close> is the outcome of \<open>MUTEX_TRY_LOCK\<close>.\<close>

definition disconnectProcess :: "bool \<Rightarrow> conn_node \<Rightarrow> conn_node" where
  "disconnectProcess lock_ret n =
     (if \<not> lock_ret \<and> (cn_releasingFlag n \<or> cn_exitStatus n = ExitCancel) then n\<lparr>cn_isConnected := False\<rparr>
      else
        let n1 = close_socket n;
            n2 = (if cn_socketFd n \<noteq> None \<and> u_enableSysGetAddr (cn_url n) \<and> cn_dnsEvent n
                  then n1\<lparr>cn_dnsEvent := False\<rparr> else n1) in
        n2\<lparr>cn_isConnected := False\<rparr>)"

definition closeStatusConnectNode :: "conn_node \<Rightarrow> conn_node" where
  "closeStatusConnectNode n = reset_audio_frame n"

definition closeConnectNode :: "bool \<Rightarrow> conn_node \<Rightarrow> conn_node" where
  "closeConnectNode lock_ret n =
     (if \<not> lock_ret \<and> (cn_releasingFlag n \<or> cn_exitStatus n = ExitCancel)
      then reset_audio_frame (n\<lparr>cn_isConnected := False\<rparr>)
      else
        reset_audio_frame
          ((close_socket n)\<lparr>cn_isConnected := False,
             cn_dnsEvent := (cn_dnsEvent n \<and> \<not> u_enableSysGetAddr (cn_url n)),
             cn_readEvent := False, cn_writeEvent := False, cn_connectEvent := False, cn_launchEvent := False,
             cn_connectTimerFlag := (cn_connectTimerFlag n \<and> \<not> cn_connectTimerEvent n),
             cn_connectTimerEvent := False\<rparr>))"

text \<open>\<open>delAllEvents\<close> once its waiting loops are over.\<close>

definition delAllEvents :: "conn_node \<Rightarrow> conn_node" where
  "delAllEvents n = n\<lparr>cn_dnsEvent := False, cn_readEvent := False, cn_writeEvent := False,
     cn_connectEvent := False, cn_connectTimerFlag := (cn_connectTimerFlag n \<and> \<not> cn_connectTimerEvent n),
     cn_connectTimerEvent := False\<rparr>"

section \<open>Parameters\<close>

definition updateParameters :: "conn_node \<Rightarrow> conn_node" where
  "updateParameters n =
     (case cn_request n of
        None \<Rightarrow> n
      | Some rp \<Rightarrow> n\<lparr>cn_limitSize := (if rp_sampleRate rp = 16000 then 32000 else 16000),
          cn_enableRecvTv := rp_enableRecvTimeout rp, cn_enableOnMessage := rp_enableOnMessage rp\<rparr>)"

text \<open>\<open>create_ok\<close>: whether \<open>createNlsEncoder\<close> succeeds. The encoder type stays set when it fails.\<close>

definition initNlsEncoder :: "(ENCODER_TYPE \<Rightarrow> int \<Rightarrow> bool) \<Rightarrow> conn_node \<Rightarrow> conn_node" where
  "initNlsEncoder create_ok n =
     (if au_hasEncoder (cn_audio n) then n
      else
        (case cn_request n of
           None \<Rightarrow> n
         | Some rp \<Rightarrow>
             let t = (if rp_format rp = ''opu'' then ENCODER_OPU
                      else if rp_format rp = ''opus'' then ENCODER_OPUS
                      else au_encoderType (cn_audio n)) in
             if t = ENCODER_NONE then n
             else n\<lparr>cn_audio := (cn_audio n)\<lparr>au_encoderType := t, au_hasEncoder := create_ok t (rp_sampleRate rp)\<rparr>\<rparr>))"

section \<open>A sample node\<close>

definition request_example :: request_param where
  "request_example = \<lparr>rp_url = ''wss://h/p'', rp_token = ''t'', rp_taskId = ''id'', rp_outputFormat = ''UTF-8'',
     rp_format = ''pcm'', rp_httpHeader = [], rp_requestType = SpeechNormal, rp_mode = TypeAsr,
     rp_sampleRate = 16000, rp_enableWakeWord = False, rp_enableRecvTimeout = False,
     rp_enableOnMessage = False, rp_enableReconnect = False, rp_startCommand = (\<lambda>_. Some ''start''),
     rp_controlCommand = Some, rp_stopCommand = Some ''stop'', rp_executeDialog = None,
     rp_stopWakeWordCommand = None, rp_runFlowingCommand = Some, rp_flushFlowingCommand = None\<rparr>"

definition audio_example :: audio_state where
  "audio_example = \<lparr>au_hasEncoder = False, au_encoderType = ENCODER_NONE, au_audioFrame = None,
     au_maxFrameSize = 0, au_isFirstAudioFrame = True\<rparr>"

definition node_example :: conn_node where
  "node_example = \<lparr>cn_addr = 2, cn_request = Some request_example, cn_instance = True, cn_handler = True,
     cn_isLongConnection = False, cn_workStatus = NodeStarted, cn_exitStatus = ExitInvalid, cn_isStop = False,
     cn_isFirstBinaryFrame = True, cn_isWakeStop = False, cn_isDestroy = False, cn_isConnected = True,
     cn_releasingFlag = False, cn_nodeErrMsg = [], cn_nodeErrCode = 0, cn_limitSize = 16000,
     cn_readEvBuffer = [], cn_binaryEvBuffer = [], cn_cmdEvBuffer = [], cn_wwvEvBuffer = [],
     cn_launchEvent = True, cn_connectEvent = True, cn_readEvent = True, cn_writeEvent = True,
     cn_dnsEvent = False, cn_connectTimerEvent = True, cn_connectTimerFlag = True, cn_url = url_zero,
     cn_socketFd = Some 5, cn_aiFamily = 2, cn_rStatus = WsHeadSize, cn_http = http_init,
     cn_wsType = ws_header_zero, cn_retryConnectCount = 0, cn_enableRecvTv = False,
     cn_enableOnMessage = False, cn_syncCallTimeoutMs = 0, cn_audio = audio_example,
     cn_reconnection = rc_init, cn_ipCache = Map.empty, cn_callbacks = [], cn_signals = 0,
     cn_sslCloses = 0, cn_sent = [], cn_clock = 0, cn_io = 0\<rparr>"

end
