(* ===== verification/ConnectEvents.thy ===== *)
theory ConnectEvents
  imports ConnectTypes
begin

text \<open>
  How a connection node delivers events (\<open>connectNode.cpp\<close>: \<open>handlerFrame\<close>, \<open>handlerEvent\<close>,
  \<open>handlerMessage\<close>, \<open>handlerTaskFailedEvent\<close>, \<open>getErrorCodeFromMsg\<close>) and how it decides to reconnect
  (\<open>ignoreCallbackWhenReconnecting\<close>, \<open>nodeReconnecting\<close>, \<open>updateTwIndexOffset\<close>). The user's listener is
  the list \<open>cn_callbacks\<close>; its own calls back into the SDK are separate steps.
\<close>

section \<open>Environment\<close>

text \<open>
  What the code asks its surroundings for: jsoncpp; the text of a message with the recorded process data
  added (\<open>replenishNodeProcess\<close> after the parse) and of the close message (\<open>Json::FastWriter\<close>), both as
  functions; the clock in milliseconds, by the number of the call; the result of \<open>event_add\<close>, of the
  \<open>pthread\<close> try-lock and of the operating system's I/O calls, by the number of the call.
\<close>

record 'j env =
  e_json :: "'j jsonlib"
  e_annotate :: "nat \<Rightarrow> 'j \<Rightarrow> string"
  e_closeMsg :: "string \<Rightarrow> string"
  e_now :: "nat \<Rightarrow> 64 word"
  e_event_add :: "nat \<Rightarrow> int"
  e_lock :: "nat \<Rightarrow> bool"
  e_send :: "nat \<Rightarrow> byte list \<Rightarrow> int \<times> int"
  e_recv :: "nat \<Rightarrow> nat \<Rightarrow> byte list \<times> int \<times> int"
  e_sslWrite :: "nat \<Rightarrow> byte list \<Rightarrow> int"
  e_sslRead :: "nat \<Rightarrow> nat \<Rightarrow> byte list \<times> int"
  e_sslError :: "nat \<Rightarrow> string"
  e_sockError :: "nat \<Rightarrow> string"
  e_calloc :: "nat \<Rightarrow> bool"
  e_encode :: "nat \<Rightarrow> byte list \<Rightarrow> byte list option"
  e_frameBytes :: int
  e_utf8ToGbk :: "string \<Rightarrow> string"
  e_heap :: heap
  e_word :: WordInfomation

definition now :: "'j env \<Rightarrow> conn_node \<Rightarrow> 64 word \<times> conn_node" where
  "now E n = (e_now E (cn_clock n), n\<lparr>cn_clock := cn_clock n + 1\<rparr>)"

text \<open>\<open>closeConnectNode\<close> and \<open>disconnectProcess\<close> with the outcome of their lock.\<close>

definition do_close :: "'j env \<Rightarrow> conn_node \<Rightarrow> conn_node" where
  "do_close E n = closeConnectNode (e_lock E (cn_io n)) (n\<lparr>cn_io := cn_io n + 1\<rparr>)"

definition do_disconnect :: "'j env \<Rightarrow> conn_node \<Rightarrow> conn_node" where
  "do_disconnect E n = disconnectProcess (e_lock E (cn_io n)) (n\<lparr>cn_io := cn_io n + 1\<rparr>)"

section \<open>Reconnection\<close>

abbreviation (input) max_try_count :: nat where "max_try_count \<equiv> 4"

definition updateTwIndexOffset :: "NlsEvent \<Rightarrow> conn_node \<Rightarrow> conn_node" where
  "updateTwIndexOffset e n =
     (if ev_msgType e = SentenceBegin
      then n\<lparr>cn_reconnection := (cn_reconnection n)\<lparr>rc_tw_index_offset := of_int (getSentenceIndex e)\<rparr>\<rparr>
      else n)"

definition reconnect_code :: "int \<Rightarrow> bool" where
  "reconnect_code code \<longleftrightarrow>
     (50000000 \<le> code \<and> code < 60000000) \<or> code = DefaultErrorCode \<or> code = SysErrorCode
     \<or> code = UnknownWsHeadType \<or> code = HttpConnectFailed \<or> code = SysConnectFailed
     \<or> code = ClientError \<or> code = ConcurrencyExceed"

text \<open>An interruption that can be repaired starts a reconnection.\<close>

definition begin_reconnection :: "'j env \<Rightarrow> EventType \<Rightarrow> int \<Rightarrow> conn_node \<Rightarrow> conn_node" where
  "begin_reconnection E eventType code n =
     (if eventType = TaskFailed \<and> reconnect_code code
         \<and> (rc_state (cn_reconnection n) = NoReconnection \<or> rc_state (cn_reconnection n) = NewReconnectionStarting)
      then
        (let (t, n1) = now E n in
         n1\<lparr>cn_reconnection := (cn_reconnection n1)\<lparr>
              rc_interruption_timestamp_ms := t,
              rc_reconnected_count := (rc_reconnected_count (cn_reconnection n1) + 1) mod 2 ^ 32,
              rc_state := WillReconnect\<rparr>\<rparr>)
      else n)"

definition ignoreCallbackWhenReconnecting ::
  "'j env \<Rightarrow> EventType \<Rightarrow> int \<Rightarrow> conn_node \<Rightarrow> bool \<times> conn_node" where
  "ignoreCallbackWhenReconnecting E eventType code n =
     (case cn_request n of
        None \<Rightarrow> (False, n)
      | Some rp \<Rightarrow>
          if \<not> rp_enableReconnect rp then (False, n)
          else
            (let n1 = begin_reconnection E eventType code n; rc = cn_reconnection n1 in
             if (rc_state rc = WillReconnect \<or> rc_state rc = TriggerReconnection)
                \<and> (eventType = TaskFailed \<or> eventType = Close) then
               (if rc_reconnected_count rc \<le> max_try_count then (True, n1)
                else (False, n1\<lparr>cn_reconnection := rc\<lparr>rc_state := NoReconnection\<rparr>\<rparr>))
             else (False, n1)))"

definition nodeReconnecting :: "'j env \<Rightarrow> conn_node \<Rightarrow> bool \<times> conn_node" where
  "nodeReconnecting E n =
     (if rc_state (cn_reconnection n) = WillReconnect then
        (let ret = e_event_add E (cn_io n); n1 = n\<lparr>cn_io := cn_io n + 1\<rparr> in
         (True, if ret = Success
                then n1\<lparr>cn_reconnection := (cn_reconnection n1)\<lparr>rc_state := TriggerReconnection\<rparr>\<rparr>
                else n1))
      else (False, n))"

section \<open>Callbacks\<close>

definition sendFinishCondSignal :: "EventType \<Rightarrow> conn_node \<Rightarrow> conn_node" where
  "sendFinishCondSignal t n =
     (if 0 < cn_syncCallTimeoutMs n \<and>
         (t = Close \<or> t = RecognitionStarted \<or> t = TranscriptionStarted \<or> t = SynthesisStarted)
      then n\<lparr>cn_signals := cn_signals n + 1\<rparr> else n)"

definition callback :: "NlsEvent \<Rightarrow> conn_node \<Rightarrow> conn_node" where
  "callback e n = n\<lparr>cn_callbacks := cn_callbacks n @ [e]\<rparr>"

definition task_id :: "conn_node \<Rightarrow> string" where
  "task_id n = (case cn_request n of None \<Rightarrow> [] | Some rp \<Rightarrow> rp_taskId rp)"

definition handlerMessage :: "string \<Rightarrow> EventType \<Rightarrow> conn_node \<Rightarrow> conn_node" where
  "handlerMessage response t n =
     (if cn_workStatus n = NodeInvalid then n
      else callback (NlsEvent_msg_code response Success t (task_id n)) n)"

definition handlerFrame :: "'j env \<Rightarrow> NlsEvent \<Rightarrow> conn_node \<Rightarrow> int \<times> conn_node" where
  "handlerFrame E e n =
     (if cn_workStatus n = NodeInvalid then (- InvaildNodeStatus, n)
      else if \<not> cn_handler n then (- NlsEventEmpty, n)
      else
        (let n1 = updateTwIndexOffset e n;
             (ignore_flag, n2) = ignoreCallbackWhenReconnecting E (ev_msgType e) (ev_statusCode e) n1;
             n3 = (if cn_enableOnMessage n2
               then let m = sendFinishCondSignal Message n2 in
                    if \<not> ignore_flag then handlerMessage (c_str (ev_msg e)) Message m else m
               else let m = sendFinishCondSignal (ev_msgType e) n2 in
                    if \<not> ignore_flag then callback e m else m) in
         if ev_msgType e = Close then
           (let n4 = snd (nodeReconnecting E n3);
                n5 = (if \<not> ignore_flag
                      then n4\<lparr>cn_reconnection := (cn_reconnection n4)\<lparr>rc_reconnected_count := 0\<rparr>\<rparr> else n4) in
            (Success, n5\<lparr>cn_retryConnectCount := 0\<rparr>))
         else (Success, n3)))"

text \<open>\<open>replenishNodeProcess\<close>: a message that is no JSON becomes the empty string.\<close>

definition replenishNodeProcess :: "'j env \<Rightarrow> conn_node \<Rightarrow> string \<Rightarrow> string" where
  "replenishNodeProcess E n error =
     (case jl_parse (e_json E) error of None \<Rightarrow> [] | Some root \<Rightarrow> e_annotate E (cn_clock n) root)"

definition handlerEvent :: "'j env \<Rightarrow> string \<Rightarrow> int \<Rightarrow> EventType \<Rightarrow> conn_node \<Rightarrow> conn_node" where
  "handlerEvent E errorMsg errorCode eventType n =
     (if cn_exitStatus n = ExitCancel then n
      else if cn_request n = None then n
      else
        (let n1 = (if errorCode \<noteq> CloseCode then n\<lparr>cn_nodeErrCode := errorCode\<rparr> else n);
             error_str = (if eventType = Close \<or> eventType = TaskFailed
               then replenishNodeProcess E n1 errorMsg else errorMsg);
             useEvent = NlsEvent_msg_code (c_str error_str) errorCode eventType (task_id n1) in
         if \<not> cn_handler n1 then n1
         else if cn_workStatus n1 = NodeClosed then n1
         else
           (let n2 = snd (handlerFrame E useEvent n1) in
            if eventType = Close then n2\<lparr>cn_workStatus := NodeClosed\<rparr> else n2)))"

definition CLOSE_JSON_STRING :: string where
  "CLOSE_JSON_STRING = ''{'' @ [CHR 0x22] @ ''channelClosed'' @ [CHR 0x22] @ '': '' @ [CHR 0x22]
     @ ''nls request finished.'' @ [CHR 0x22] @ ''}''"

definition genCloseMsg :: "'j env \<Rightarrow> conn_node \<Rightarrow> string" where
  "genCloseMsg E n =
     (let buf = c_str (e_closeMsg E (task_id n)) in if buf = [] then CLOSE_JSON_STRING else buf)"

definition close_event :: "'j env \<Rightarrow> conn_node \<Rightarrow> conn_node" where
  "close_event E n = handlerEvent E (genCloseMsg E n) CloseCode Close n"

section \<open>Errors\<close>

definition text_error_code :: "string \<Rightarrow> int" where
  "text_error_code msg =
     (if strstr msg ''return of SSL_read:'' then DefaultErrorCode
      else if strstr msg ''ACCESS_DENIED'' then
        (if strstr msg ''The token'' then
           (if strstr msg ''has expired'' then TokenHasExpired
            else if strstr msg ''is invalid'' then TokenIsInvalid else DefaultErrorCode)
         else if strstr msg ''No privilege to this voice'' then NoPrivilegeToVoice
         else if strstr msg ''Missing authorization header'' then MissAuthHeader
         else DefaultErrorCode)
      else if strstr msg ''Got bad status'' then
        (if strstr msg ''403 Forbidden'' then HttpGotBadStatusWith403 else DefaultErrorCode)
      else if strstr msg ''Operation now in progress'' then OpNowInProgress
      else if strstr msg ''Broken pipe'' then BrokenPipe
      else if strstr msg ''connect failed'' then SysConnectFailed
      else DefaultErrorCode)"

definition getErrorCodeFromMsg :: "'j jsonlib \<Rightarrow> string \<Rightarrow> int" where
  "getErrorCodeFromMsg J msg =
     (case jl_parse J msg of
        None \<Rightarrow> text_error_code msg
      | Some root \<Rightarrow>
          (case jl_get J root ''header'' of
             None \<Rightarrow> DefaultErrorCode
           | Some head \<Rightarrow>
               if \<not> jl_isNull J head \<and> jl_isObject J head then
                 (case jl_get J head ''status'' of
                    None \<Rightarrow> DefaultErrorCode
                  | Some s \<Rightarrow> if \<not> jl_isNull J s \<and> jl_isInt J s then jl_asInt J s else DefaultErrorCode)
               else DefaultErrorCode))"

definition task_failed_json :: "string \<Rightarrow> string" where
  "task_failed_json s = ''{'' @ [CHR 0x22] @ ''TaskFailed'' @ [CHR 0x22] @ '':'' @ [CHR 0x22] @ s @ [CHR 0x22] @ ''}''"

definition handlerTaskFailedEvent :: "'j env \<Rightarrow> string \<Rightarrow> int \<Rightarrow> conn_node \<Rightarrow> conn_node" where
  "handlerTaskFailedEvent E failedInfo code n =
     (let (tmp_msg, code') =
        (if failedInfo = [] then (task_failed_json ''Unknown failed.'', DefaultErrorCode)
         else (fst (snprintf 1023 (task_failed_json (c_str failedInfo))),
               if code = DefaultErrorCode then getErrorCodeFromMsg (e_json E) (c_str failedInfo) else code));
          n1 = n\<lparr>cn_ipCache := setIpCache None None (cn_ipCache n)\<rparr>;
          n2 = handlerEvent E tmp_msg code' TaskFailed n1 in
      close_event E n2)"

section \<open>What event delivery leaves alone\<close>

text \<open>The part of a node that no event delivery and no closing touches.\<close>

definition core where
  "core n = (cn_exitStatus n, cn_request n, cn_handler n, cn_isLongConnection n, cn_isStop n, cn_isWakeStop n,
     cn_releasingFlag n, cn_instance n, cn_addr n, cn_limitSize n, cn_enableOnMessage n, cn_syncCallTimeoutMs n,
     cn_readEvBuffer n, cn_binaryEvBuffer n, cn_cmdEvBuffer n, cn_wwvEvBuffer n, cn_sent n, cn_url n,
     au_hasEncoder (cn_audio n), au_encoderType (cn_audio n))"

named_theorems core_simps \<open>operations that keep the \<open>core\<close> of a node\<close>

lemma core_now [core_simps]: "core (snd (now E n)) = core n"
  by (simp add: core_def now_def)

lemma core_updateTwIndexOffset [core_simps]: "core (updateTwIndexOffset e n) = core n"
  by (simp add: core_def updateTwIndexOffset_def)

lemma core_begin_reconnection [core_simps]: "core (begin_reconnection E t code n) = core n"
  by (simp add: core_def begin_reconnection_def now_def)

lemma core_ignoreCallback [core_simps]: "core (snd (ignoreCallbackWhenReconnecting E t code n)) = core n"
proof (cases "cn_request n")
  case (Some rp)
  have "core (begin_reconnection E t code n\<lparr>cn_reconnection := rc\<rparr>) = core n" for rc
    using core_begin_reconnection [of E t code n] by (simp add: core_def)
  with Some show ?thesis
    by (simp add: ignoreCallbackWhenReconnecting_def core_begin_reconnection Let_def)
qed (simp add: ignoreCallbackWhenReconnecting_def)

lemma core_nodeReconnecting [core_simps]: "core (snd (nodeReconnecting E n)) = core n"
  by (simp add: core_def nodeReconnecting_def Let_def)

lemma core_sendFinishCondSignal [core_simps]: "core (sendFinishCondSignal t n) = core n"
  by (simp add: core_def sendFinishCondSignal_def)

lemma core_callback [core_simps]: "core (callback e n) = core n"
  by (simp add: core_def callback_def)

lemma core_handlerMessage [core_simps]: "core (handlerMessage r t n) = core n"
  by (simp add: handlerMessage_def core_simps)

lemma core_updates [core_simps]:
  "core (n\<lparr>cn_reconnection := rc\<rparr>) = core n" "core (n\<lparr>cn_retryConnectCount := k\<rparr>) = core n"
  "core (n\<lparr>cn_workStatus := ws\<rparr>) = core n" "core (n\<lparr>cn_nodeErrCode := c\<rparr>) = core n"
  "core (n\<lparr>cn_nodeErrMsg := m\<rparr>) = core n" "core (n\<lparr>cn_ipCache := ic\<rparr>) = core n"
  "core (n\<lparr>cn_io := io\<rparr>) = core n" "core (n\<lparr>cn_isFirstBinaryFrame := b\<rparr>) = core n"
  "core (n\<lparr>cn_isConnected := b\<rparr>) = core n"
  by (simp_all add: core_def)

lemma core_handlerFrame [core_simps]: "core (snd (handlerFrame E e n)) = core n"
proof -
  let ?n1 = "updateTwIndexOffset e n"
  obtain ig n2 where ig: "ignoreCallbackWhenReconnecting E (ev_msgType e) (ev_statusCode e) ?n1 = (ig, n2)"
    by fastforce
  then have "core n2 = core n"
    using core_ignoreCallback [of E "ev_msgType e" "ev_statusCode e" ?n1] by (simp add: core_simps)
  then show ?thesis
    by (simp add: handlerFrame_def ig Let_def core_simps)
qed

lemma core_handlerEvent [core_simps]: "core (handlerEvent E m c t n) = core n"
  by (simp add: handlerEvent_def Let_def core_simps)

lemma core_close_event [core_simps]: "core (close_event E n) = core n"
  by (simp add: close_event_def core_simps)

lemma core_handlerTaskFailedEvent [core_simps]: "core (handlerTaskFailedEvent E info code n) = core n"
  by (simp add: handlerTaskFailedEvent_def Let_def core_simps split: prod.splits)

lemma core_do_close [core_simps]: "core (do_close E n) = core n"
  by (simp add: do_close_def closeConnectNode_def reset_audio_frame_def close_socket_def core_def)

lemma core_do_disconnect [core_simps]: "core (do_disconnect E n) = core n"
  by (simp add: do_disconnect_def disconnectProcess_def close_socket_def core_def Let_def)

lemma core_closeStatus [core_simps]: "core (closeStatusConnectNode n) = core n"
  by (simp add: closeStatusConnectNode_def reset_audio_frame_def core_def)

lemma coreD:
  assumes "core n' = core n"
  shows "cn_exitStatus n' = cn_exitStatus n" "cn_request n' = cn_request n" "cn_handler n' = cn_handler n"
    "cn_isLongConnection n' = cn_isLongConnection n" "cn_enableOnMessage n' = cn_enableOnMessage n"
    "cn_readEvBuffer n' = cn_readEvBuffer n" "cn_releasingFlag n' = cn_releasingFlag n"
    "cn_isStop n' = cn_isStop n" "cn_sent n' = cn_sent n" "cn_limitSize n' = cn_limitSize n"
    "cn_instance n' = cn_instance n" "cn_addr n' = cn_addr n" "cn_url n' = cn_url n"
  using assms by (simp_all add: core_def)

section \<open>Delivery to the user\<close>

text \<open>What one \<open>handlerFrame\<close> adds to the listener's events: nothing, the event, or a message with its text.\<close>

lemma callbacks_small [simp]:
  "cn_callbacks (updateTwIndexOffset e n) = cn_callbacks n"
  "cn_callbacks (sendFinishCondSignal t n) = cn_callbacks n"
  "cn_callbacks (snd (nodeReconnecting E n)) = cn_callbacks n"
  "cn_callbacks (begin_reconnection E t code n) = cn_callbacks n"
  "cn_callbacks (do_close E n) = cn_callbacks n"
  "cn_callbacks (do_disconnect E n) = cn_callbacks n"
  by (simp_all add: updateTwIndexOffset_def sendFinishCondSignal_def nodeReconnecting_def Let_def
      begin_reconnection_def now_def do_close_def closeConnectNode_def reset_audio_frame_def close_socket_def
      do_disconnect_def disconnectProcess_def)

lemma workStatus_small [simp]:
  "cn_workStatus (updateTwIndexOffset e n) = cn_workStatus n"
  "cn_workStatus (sendFinishCondSignal t n) = cn_workStatus n"
  "cn_workStatus (snd (nodeReconnecting E n)) = cn_workStatus n"
  "cn_workStatus (begin_reconnection E t code n) = cn_workStatus n"
  "cn_workStatus (do_close E n) = cn_workStatus n"
  "cn_workStatus (do_disconnect E n) = cn_workStatus n"
  "cn_workStatus (callback e n) = cn_workStatus n"
  "cn_workStatus (handlerMessage r t n) = cn_workStatus n"
  by (simp_all add: updateTwIndexOffset_def sendFinishCondSignal_def nodeReconnecting_def Let_def
      begin_reconnection_def now_def do_close_def closeConnectNode_def reset_audio_frame_def close_socket_def
      do_disconnect_def disconnectProcess_def callback_def handlerMessage_def)

lemma ignore_callbacks [simp]:
  "cn_callbacks (snd (ignoreCallbackWhenReconnecting E t code n)) = cn_callbacks n"
  "cn_workStatus (snd (ignoreCallbackWhenReconnecting E t code n)) = cn_workStatus n"
  by (simp_all add: ignoreCallbackWhenReconnecting_def Let_def split: option.splits)

lemma handlerFrame_workStatus [simp]: "cn_workStatus (snd (handlerFrame E e n)) = cn_workStatus n"
proof -
  obtain ig n2 where ig: "ignoreCallbackWhenReconnecting E (ev_msgType e) (ev_statusCode e) (updateTwIndexOffset e n) = (ig, n2)"
    by fastforce
  then have "cn_workStatus n2 = cn_workStatus n"
    using ignore_callbacks(2) [of E "ev_msgType e" "ev_statusCode e" "updateTwIndexOffset e n"] by simp
  then show ?thesis by (simp add: handlerFrame_def ig Let_def)
qed

lemma handlerFrame_callbacks:
  "\<exists>es. cn_callbacks (snd (handlerFrame E e n)) = cn_callbacks n @ es \<and> length es \<le> 1
    \<and> (\<not> cn_enableOnMessage n \<longrightarrow> es = [] \<or> es = [e])"
proof -
  let ?n1 = "updateTwIndexOffset e n"
  obtain ig n2 where ig: "ignoreCallbackWhenReconnecting E (ev_msgType e) (ev_statusCode e) ?n1 = (ig, n2)"
    by fastforce
  then have n2: "cn_callbacks n2 = cn_callbacks n" "cn_enableOnMessage n2 = cn_enableOnMessage n"
    using ignore_callbacks(1) [of E "ev_msgType e" "ev_statusCode e" ?n1]
      coreD(5) [OF core_ignoreCallback, of E "ev_msgType e" "ev_statusCode e" ?n1]
      coreD(5) [OF core_updateTwIndexOffset, of e n] by simp_all
  then show ?thesis
    by (simp add: handlerFrame_def ig Let_def handlerMessage_def callback_def)
qed

lemma handlerEvent_closed: "cn_workStatus n = NodeClosed \<Longrightarrow>
    cn_callbacks (handlerEvent E m c t n) = cn_callbacks n \<and> cn_workStatus (handlerEvent E m c t n) = NodeClosed"
  by (simp add: handlerEvent_def Let_def)

lemma handlerEvent_cases:
  assumes "\<not> cn_enableOnMessage n"
  shows "\<exists>es. cn_callbacks (handlerEvent E m c t n) = cn_callbacks n @ es
    \<and> (es = [] \<or> (\<exists>e. es = [e] \<and> ev_msgType e = t \<and> (t = Close \<longrightarrow> cn_workStatus (handlerEvent E m c t n) = NodeClosed)))"
proof -
  define n1 where "n1 = (if c \<noteq> CloseCode then n\<lparr>cn_nodeErrCode := c\<rparr> else n)"
  define u where "u = NlsEvent_msg_code (c_str (if t = Close \<or> t = TaskFailed then replenishNodeProcess E n1 m else m)) c t (task_id n1)"
  have u: "ev_msgType u = t" by (simp add: u_def NlsEvent_msg_code_def)
  have n1: "cn_callbacks n1 = cn_callbacks n" "cn_enableOnMessage n1 = cn_enableOnMessage n"
    by (simp_all add: n1_def)
  obtain es where es: "cn_callbacks (snd (handlerFrame E u n1)) = cn_callbacks n1 @ es"
    "es = [] \<or> es = [u]"
    using handlerFrame_callbacks [of E u n1] assms n1 by auto
  show ?thesis
    using es u n1 unfolding handlerEvent_def Let_def n1_def [symmetric] u_def [symmetric] by auto
qed

definition run_events :: "'j env \<Rightarrow> (string \<times> int \<times> EventType) list \<Rightarrow> conn_node \<Rightarrow> conn_node" where
  "run_events E evs n = fold (\<lambda>(m, c, t). handlerEvent E m c t) evs n"


definition env_example :: "json_value option \<Rightarrow> json_value env" where
  "env_example parsed = \<lparr>e_json = json_example parsed, e_annotate = (\<lambda>_ _. ''annotated''),
     e_closeMsg = (\<lambda>_. ''close''), e_now = of_nat, e_event_add = (\<lambda>_. 0), e_lock = (\<lambda>_. True),
     e_send = (\<lambda>_ bs. (int (min 3 (length bs)), 0)), e_recv = (\<lambda>_ _. ([], - 1, 11)),
     e_sslWrite = (\<lambda>_ bs. int (length bs)), e_sslRead = (\<lambda>_ _. ([], 0)), e_sslError = (\<lambda>_. ''ssl''),
     e_sockError = (\<lambda>_. ''Broken pipe''), e_calloc = (\<lambda>_. True), e_encode = (\<lambda>_ bs. Some bs),
     e_frameBytes = 4, e_utf8ToGbk = (\<lambda>s. s), e_heap = heap_example, e_word = word_zero\<rparr>"


section \<open>One event on a node that may deliver it\<close>

definition open_node :: "request_param \<Rightarrow> conn_node \<Rightarrow> bool" where
  "open_node rp n \<longleftrightarrow> cn_request n = Some rp \<and> cn_exitStatus n \<noteq> ExitCancel \<and> cn_handler n
     \<and> \<not> cn_enableOnMessage n \<and> cn_workStatus n \<noteq> NodeInvalid \<and> cn_workStatus n \<noteq> NodeClosed"

definition set_rc_state :: "ReconnectionState \<Rightarrow> conn_node \<Rightarrow> conn_node" where
  "set_rc_state s n = n\<lparr>cn_reconnection := (cn_reconnection n)\<lparr>rc_state := s\<rparr>\<rparr>"

definition set_rc_count :: "nat \<Rightarrow> conn_node \<Rightarrow> conn_node" where
  "set_rc_count k n = n\<lparr>cn_reconnection := (cn_reconnection n)\<lparr>rc_reconnected_count := k\<rparr>\<rparr>"

lemmas delivery_defs = handlerEvent_def handlerFrame_def ignoreCallbackWhenReconnecting_def
  updateTwIndexOffset_def NlsEvent_msg_code_def nodeReconnecting_def task_id_def Let_def
  set_rc_state_def set_rc_count_def

lemma sendFinishCondSignal_TaskFailed [simp]: "sendFinishCondSignal TaskFailed n = n"
  by (simp add: sendFinishCondSignal_def)

definition with_code :: "int \<Rightarrow> conn_node \<Rightarrow> conn_node" where
  "with_code c n = (if c \<noteq> CloseCode then n\<lparr>cn_nodeErrCode := c\<rparr> else n)"

lemma TaskFailed_delivered:
  assumes "open_node rp n" and "\<not> rp_enableReconnect rp"
  shows "handlerEvent E m c TaskFailed n =
    callback (NlsEvent_msg_code (c_str (replenishNodeProcess E (with_code c n) m)) c TaskFailed (rp_taskId rp))
      (with_code c n)"
  using assms by (simp add: delivery_defs open_node_def with_code_def)

lemma TaskFailed_reconnect:
  assumes "open_node rp n" and "c \<noteq> CloseCode" and "rp_enableReconnect rp" and "reconnect_code c"
    and "rc_state (cn_reconnection n) \<in> {NoReconnection, NewReconnectionStarting}"
    and "rc_reconnected_count (cn_reconnection n) < 2 ^ 32 - 1"
  shows "\<exists>n2 e. cn_callbacks n2 = cn_callbacks n \<and> open_node rp n2 \<and> cn_io n2 = cn_io n \<and> ev_msgType e = TaskFailed
    \<and> ev_statusCode e = c
    \<and> rc_reconnected_count (cn_reconnection n2) = rc_reconnected_count (cn_reconnection n) + 1
    \<and> handlerEvent E m c TaskFailed n =
       (if rc_reconnected_count (cn_reconnection n) < 4 then set_rc_state WillReconnect n2
        else callback e (set_rc_state NoReconnection n2))"
proof -
  let ?k = "rc_reconnected_count (cn_reconnection n)"
  define n2 where "n2 = n\<lparr>cn_nodeErrCode := c, cn_clock := cn_clock n + 1, cn_reconnection := (cn_reconnection n)
      \<lparr>rc_interruption_timestamp_ms := e_now E (cn_clock n), rc_reconnected_count := ?k + 1\<rparr>\<rparr>"
  define e where "e = NlsEvent_msg_code (c_str (replenishNodeProcess E (n\<lparr>cn_nodeErrCode := c\<rparr>) m)) c TaskFailed (rp_taskId rp)"
  have e: "ev_msgType e = TaskFailed" "ev_statusCode e = c" by (simp_all add: e_def NlsEvent_msg_code_def)
  have k: "(?k + 1) mod 2 ^ 32 = ?k + 1" by (rule mod_less) (use assms(6) in linarith)
  have started: "begin_reconnection E TaskFailed c (n\<lparr>cn_nodeErrCode := c\<rparr>) = set_rc_state WillReconnect n2"
    using assms(4,5) k by (auto simp: begin_reconnection_def now_def set_rc_state_def n2_def)
  have ig: "ignoreCallbackWhenReconnecting E TaskFailed c (n\<lparr>cn_nodeErrCode := c\<rparr>) =
      (if ?k < 4 then (True, set_rc_state WillReconnect n2) else (False, set_rc_state NoReconnection n2))"
    using assms(1,3) unfolding ignoreCallbackWhenReconnecting_def started
    by (auto simp: open_node_def set_rc_state_def n2_def)
  have "handlerFrame E e (n\<lparr>cn_nodeErrCode := c\<rparr>) = (Success, if ?k < 4 then set_rc_state WillReconnect n2
      else callback e (set_rc_state NoReconnection n2))"
    using assms(1) ig e
    by (auto simp: handlerFrame_def updateTwIndexOffset_def open_node_def set_rc_state_def n2_def Let_def)
  then have "handlerEvent E m c TaskFailed n =
       (if ?k < 4 then set_rc_state WillReconnect n2 else callback e (set_rc_state NoReconnection n2))"
    using assms(1,2) by (auto simp: handlerEvent_def open_node_def task_id_def Let_def e_def)
  moreover have "open_node rp n2" using assms(1) by (simp add: n2_def open_node_def)
  ultimately show ?thesis using e
    by (intro exI [of _ n2] exI [of _ e]) (simp add: n2_def)
qed

lemma begin_reconnection_Close [simp]: "begin_reconnection E Close c n = n"
  by (simp add: begin_reconnection_def)

lemma ignore_Close:
  assumes "cn_request n = Some rp"
  shows "ignoreCallbackWhenReconnecting E Close c n =
    (if rp_enableReconnect rp \<and> rc_state (cn_reconnection n) \<in> {WillReconnect, TriggerReconnection} then
       (if rc_reconnected_count (cn_reconnection n) \<le> 4 then (True, n) else (False, set_rc_state NoReconnection n))
     else (False, n))"
  using assms by (auto simp: ignoreCallbackWhenReconnecting_def Let_def set_rc_state_def)

lemma Close_delivered:
  assumes "open_node rp n"
    and "\<not> rp_enableReconnect rp \<or> rc_state (cn_reconnection n) \<in> {NoReconnection, NewReconnectionStarting}"
    and "rc_state (cn_reconnection n) \<noteq> WillReconnect"
  shows "\<exists>e. ev_msgType e = Close \<and> handlerEvent E m CloseCode Close n =
    (set_rc_count 0 (callback e (sendFinishCondSignal Close n)))\<lparr>cn_retryConnectCount := 0, cn_workStatus := NodeClosed\<rparr>"
proof -
  define e where "e = NlsEvent_msg_code (c_str (replenishNodeProcess E n m)) CloseCode Close (rp_taskId rp)"
  have e: "ev_msgType e = Close" "ev_statusCode e = CloseCode" by (simp_all add: e_def NlsEvent_msg_code_def)
  have ig: "ignoreCallbackWhenReconnecting E Close CloseCode n = (False, n)"
    using assms by (auto simp: ignore_Close open_node_def)
  have "snd (handlerFrame E e n) = (set_rc_count 0 (callback e (sendFinishCondSignal Close n)))\<lparr>cn_retryConnectCount := 0\<rparr>"
    using assms(1,3) ig e by (simp add: handlerFrame_def updateTwIndexOffset_def open_node_def Let_def
        nodeReconnecting_def set_rc_count_def callback_def sendFinishCondSignal_def)
  then have "handlerEvent E m CloseCode Close n =
      (set_rc_count 0 (callback e (sendFinishCondSignal Close n)))\<lparr>cn_retryConnectCount := 0, cn_workStatus := NodeClosed\<rparr>"
    using assms(1) by (simp add: handlerEvent_def open_node_def task_id_def Let_def e_def)
  with e show ?thesis by blast
qed

lemma Close_hidden:
  assumes "open_node rp n" and "rp_enableReconnect rp" and "rc_state (cn_reconnection n) = WillReconnect"
    and "rc_reconnected_count (cn_reconnection n) \<le> 4" and "e_event_add E (cn_io n) = Success"
  shows "handlerEvent E m CloseCode Close n =
    (set_rc_state TriggerReconnection (sendFinishCondSignal Close n))
      \<lparr>cn_io := cn_io n + 1, cn_retryConnectCount := 0, cn_workStatus := NodeClosed\<rparr>"
proof -
  define e where "e = NlsEvent_msg_code (c_str (replenishNodeProcess E n m)) CloseCode Close (rp_taskId rp)"
  have e: "ev_msgType e = Close" "ev_statusCode e = CloseCode" by (simp_all add: e_def NlsEvent_msg_code_def)
  have ig: "ignoreCallbackWhenReconnecting E Close CloseCode n = (True, n)"
    using assms by (auto simp: ignore_Close open_node_def)
  have "snd (handlerFrame E e n) = (set_rc_state TriggerReconnection (sendFinishCondSignal Close n))
      \<lparr>cn_io := cn_io n + 1, cn_retryConnectCount := 0\<rparr>"
    using assms(1,3,5) ig e by (simp add: handlerFrame_def updateTwIndexOffset_def open_node_def Let_def
        nodeReconnecting_def set_rc_state_def sendFinishCondSignal_def)
  then show ?thesis
    using assms(1) by (simp add: handlerEvent_def open_node_def task_id_def Let_def e_def)
qed

lemma handlerTaskFailedEvent_info:
  assumes "info \<noteq> []"
  shows "handlerTaskFailedEvent E info code n =
    close_event E (handlerEvent E (fst (snprintf 1023 (task_failed_json (c_str info))))
      (if code = DefaultErrorCode then getErrorCodeFromMsg (e_json E) (c_str info) else code) TaskFailed
      (n\<lparr>cn_ipCache := setIpCache None None (cn_ipCache n)\<rparr>))"
  using assms by (simp add: handlerTaskFailedEvent_def Let_def split: prod.split)

text \<open>A failure that no reconnection repairs: the listener gets \<open>TaskFailed\<close> and \<open>Close\<close>.\<close>

lemma failed_and_closed:
  assumes "open_node rp n" and "\<not> rp_enableReconnect rp" and "rc_state (cn_reconnection n) \<noteq> WillReconnect"
    and "info \<noteq> []"
    and "c = (if code = DefaultErrorCode then getErrorCodeFromMsg (e_json E) (c_str info) else code)"
    and "n' = handlerTaskFailedEvent E info code n"
  shows "\<exists>e1 e2 m. cn_callbacks n' = cn_callbacks n @ [e1, e2] \<and> ev_msgType e1 = TaskFailed \<and> ev_statusCode e1 = c
    \<and> ev_msg e1 = c_str (replenishNodeProcess E m (fst (snprintf 1023 (task_failed_json (c_str info)))))
    \<and> ev_msgType e2 = Close \<and> cn_workStatus n' = NodeClosed \<and> cn_retryConnectCount n' = 0"
proof -
  let ?n = "n\<lparr>cn_ipCache := setIpCache None None (cn_ipCache n)\<rparr>"
  let ?s = "fst (snprintf 1023 (task_failed_json (c_str info)))"
  define e where "e = NlsEvent_msg_code (c_str (replenishNodeProcess E (with_code c ?n) ?s)) c TaskFailed (rp_taskId rp)"
  have e: "ev_msgType e = TaskFailed" "ev_statusCode e = c" "ev_msg e = c_str (replenishNodeProcess E (with_code c ?n) ?s)"
    by (simp_all add: e_def NlsEvent_msg_code_def)
  have on: "open_node rp ?n" using assms(1) by (simp add: open_node_def)
  let ?m = "callback e (with_code c ?n)"
  have 1: "handlerEvent E ?s c TaskFailed ?n = ?m"
    unfolding e_def by (rule TaskFailed_delivered [OF on assms(2)])
  have "open_node rp ?m" "rc_state (cn_reconnection ?m) \<noteq> WillReconnect" "cn_callbacks ?m = cn_callbacks n @ [e]"
    using on assms(3) by (simp_all add: open_node_def callback_def with_code_def)
  with Close_delivered [of rp ?m E "genCloseMsg E ?m"] assms(2)
  obtain e2 where e2: "ev_msgType e2 = Close" "cn_callbacks (close_event E ?m) = cn_callbacks n @ [e, e2]"
    "cn_workStatus (close_event E ?m) = NodeClosed" "cn_retryConnectCount (close_event E ?m) = 0"
    by (auto simp: close_event_def callback_def sendFinishCondSignal_def set_rc_count_def)
  have "n' = close_event E ?m"
    using 1 assms(5,6) handlerTaskFailedEvent_info [OF assms(4), of E code n] by simp
  with e e2 show ?thesis by blast
qed

text \<open>The text of a failure is lost when it cannot be quoted: \<open>handlerTaskFailedEvent\<close> puts it unescaped between
  quotes, and a result the JSON parser refuses is delivered as an empty message.\<close>

theorem failed_text_lost:
  assumes "open_node rp n" and "\<not> rp_enableReconnect rp" and "rc_state (cn_reconnection n) \<noteq> WillReconnect"
    and "info \<noteq> []" and "jl_parse (e_json E) (fst (snprintf 1023 (task_failed_json (c_str info)))) = None"
  shows "\<exists>e1 e2. cn_callbacks (handlerTaskFailedEvent E info code n) = cn_callbacks n @ [e1, e2]
    \<and> ev_msgType e1 = TaskFailed \<and> ev_msg e1 = [] \<and> ev_msgType e2 = Close"
  using failed_and_closed [OF assms(1-4) refl refl, of E code] assms(5)
  by (auto simp: replenishNodeProcess_def c_str_def)

lemma failed_text_lost_witness:
  "\<exists>e1 e2. cn_callbacks (handlerTaskFailedEvent (env_example None) ''he said x'' SysConnectFailed node_example) =
      cn_callbacks node_example @ [e1, e2]
    \<and> ev_msgType e1 = TaskFailed \<and> ev_msg e1 = [] \<and> ev_msgType e2 = Close"
  by (rule failed_text_lost [where rp = request_example])
    (simp_all add: open_node_def node_example_def request_example_def rc_init_def env_example_def json_example_def)

text \<open>The code of a failure is the one given, or read from its text.\<close>

lemma repairable_code:
  assumes "open_node rp n" and "rp_enableReconnect rp" and "info \<noteq> []" 
    and "c = (if code = DefaultErrorCode then getErrorCodeFromMsg (e_json E) (c_str info) else code)"
    and "reconnect_code c" and "rc_state (cn_reconnection n) \<in> {NoReconnection, NewReconnectionStarting}"
    and "rc_reconnected_count (cn_reconnection n) \<le> 4" and "\<forall>i. e_event_add E i = Success"
  shows "let n' = handlerTaskFailedEvent E info code n; rc = cn_reconnection n; rc' = cn_reconnection n' in
    cn_workStatus n' = NodeClosed \<and>
    (if rc_reconnected_count rc < 4
     then cn_callbacks n' = cn_callbacks n \<and> rc_state rc' = TriggerReconnection
       \<and> rc_reconnected_count rc' = rc_reconnected_count rc + 1
     else (\<exists>e1 e2. cn_callbacks n' = cn_callbacks n @ [e1, e2] \<and> ev_msgType e1 = TaskFailed
         \<and> ev_statusCode e1 = c \<and> ev_msgType e2 = Close)
       \<and> rc_state rc' = NoReconnection \<and> rc_reconnected_count rc' = 0)"
proof -
  let ?n = "n\<lparr>cn_ipCache := setIpCache None None (cn_ipCache n)\<rparr>"
  let ?s = "fst (snprintf 1023 (task_failed_json (c_str info)))"
  let ?k = "rc_reconnected_count (cn_reconnection n)"
  have on: "open_node rp ?n" using assms(1) by (simp add: open_node_def)
  have code: "c \<noteq> CloseCode" using assms(5) by (auto simp: reconnect_code_def)
  have ev: "handlerTaskFailedEvent E info code n = close_event E (handlerEvent E ?s c TaskFailed ?n)"
    using assms(3,4) by (simp add: handlerTaskFailedEvent_info)
  obtain n2 e where n2: "cn_callbacks n2 = cn_callbacks n" "open_node rp n2" "ev_msgType e = TaskFailed"
    "ev_statusCode e = c" "rc_reconnected_count (cn_reconnection n2) = ?k + 1"
    and ev2: "handlerEvent E ?s c TaskFailed ?n =
      (if ?k < 4 then set_rc_state WillReconnect n2 else callback e (set_rc_state NoReconnection n2))"
    using TaskFailed_reconnect [OF on code assms(2,5), of E ?s] assms(6,7) by auto
  show ?thesis
  proof (cases "?k < 4")
    case True
    let ?m = "set_rc_state WillReconnect n2"
    have "open_node rp ?m" "rc_state (cn_reconnection ?m) = WillReconnect" "rc_reconnected_count (cn_reconnection ?m) \<le> 4"
      using n2 True by (simp_all add: open_node_def set_rc_state_def)
    from Close_hidden [OF this(1) assms(2) this(2,3), of E] assms(8) n2 True
    show ?thesis by (simp add: ev ev2 close_event_def Let_def set_rc_state_def sendFinishCondSignal_def)
  next
    case False
    let ?m = "callback e (set_rc_state NoReconnection n2)"
    have "open_node rp ?m" "rc_state (cn_reconnection ?m) = NoReconnection"
      using n2 by (simp_all add: open_node_def set_rc_state_def callback_def)
    with Close_delivered [of rp ?m E "genCloseMsg E ?m"] obtain e2 where
      "ev_msgType e2 = Close" "close_event E ?m =
        (set_rc_count 0 (callback e2 (sendFinishCondSignal Close ?m)))\<lparr>cn_retryConnectCount := 0, cn_workStatus := NodeClosed\<rparr>"
      by (auto simp: close_event_def)
    with n2 False show ?thesis
      by (auto simp: ev ev2 Let_def set_rc_state_def set_rc_count_def callback_def sendFinishCondSignal_def)
  qed
qed

lemma repairable_failure:
  assumes "open_node rp n" and "rp_enableReconnect rp" and "info \<noteq> []" and "code \<noteq> DefaultErrorCode"
    and "reconnect_code code" and "rc_state (cn_reconnection n) \<in> {NoReconnection, NewReconnectionStarting}"
    and "rc_reconnected_count (cn_reconnection n) \<le> 4" and "\<forall>i. e_event_add E i = Success"
  shows "let n' = handlerTaskFailedEvent E info code n; rc = cn_reconnection n; rc' = cn_reconnection n' in
    cn_workStatus n' = NodeClosed \<and>
    (if rc_reconnected_count rc < 4
     then cn_callbacks n' = cn_callbacks n \<and> rc_state rc' = TriggerReconnection
       \<and> rc_reconnected_count rc' = rc_reconnected_count rc + 1
     else (\<exists>e1 e2. cn_callbacks n' = cn_callbacks n @ [e1, e2] \<and> ev_msgType e1 = TaskFailed
         \<and> ev_statusCode e1 = code \<and> ev_msgType e2 = Close)
       \<and> rc_state rc' = NoReconnection \<and> rc_reconnected_count rc' = 0)"
  using assms by (intro repairable_code [of rp n info code code E]) simp_all

text \<open>C22. Reconnection is bounded: with reconnection enabled, a failure the node can repair is hidden from the user
  together with its close event and a new attempt is triggered, but only four times in a row; the fifth
  failure is delivered with its close event, and the count starts again.\<close>

theorem reconnection_bounded:
  assumes "open_node rp n" and "rp_enableReconnect rp" and "info \<noteq> []" and "code \<noteq> DefaultErrorCode"
    and "reconnect_code code" and "rc_state (cn_reconnection n) \<in> {NoReconnection, NewReconnectionStarting}"
    and "rc_reconnected_count (cn_reconnection n) \<le> 4" and "\<forall>i. e_event_add E i = Success"
  shows "let n' = handlerTaskFailedEvent E info code n; rc = cn_reconnection n; rc' = cn_reconnection n' in
    cn_workStatus n' = NodeClosed \<and>
    (if rc_reconnected_count rc < 4
     then cn_callbacks n' = cn_callbacks n \<and> rc_state rc' = TriggerReconnection
       \<and> rc_reconnected_count rc' = rc_reconnected_count rc + 1
     else (\<exists>e1 e2. cn_callbacks n' = cn_callbacks n @ [e1, e2] \<and> ev_msgType e1 = TaskFailed
         \<and> ev_statusCode e1 = code \<and> ev_msgType e2 = Close)
       \<and> rc_state rc' = NoReconnection \<and> rc_reconnected_count rc' = 0)"
  using assms by (rule repairable_failure)

lemma reconnection_bounded_witness:
  "let n' = handlerTaskFailedEvent (env_example None) ''connect failed'' SysConnectFailed
       (node_example\<lparr>cn_request := Some (request_example\<lparr>rp_enableReconnect := True\<rparr>)\<rparr>);
     rc = cn_reconnection (node_example\<lparr>cn_request := Some (request_example\<lparr>rp_enableReconnect := True\<rparr>)\<rparr>);
     rc' = cn_reconnection n' in
    cn_workStatus n' = NodeClosed \<and>
    (if rc_reconnected_count rc < 4
     then cn_callbacks n' =
         cn_callbacks (node_example\<lparr>cn_request := Some (request_example\<lparr>rp_enableReconnect := True\<rparr>)\<rparr>)
       \<and> rc_state rc' = TriggerReconnection \<and> rc_reconnected_count rc' = rc_reconnected_count rc + 1
     else (\<exists>e1 e2. cn_callbacks n' =
           cn_callbacks (node_example\<lparr>cn_request := Some (request_example\<lparr>rp_enableReconnect := True\<rparr>)\<rparr>) @ [e1, e2]
         \<and> ev_msgType e1 = TaskFailed \<and> ev_statusCode e1 = SysConnectFailed \<and> ev_msgType e2 = Close)
       \<and> rc_state rc' = NoReconnection \<and> rc_reconnected_count rc' = 0)"
  by (rule reconnection_bounded [where rp = "request_example\<lparr>rp_enableReconnect := True\<rparr>"])
    (simp_all add: open_node_def node_example_def request_example_def rc_init_def env_example_def reconnect_code_def)

end
