(* ===== verification/ConnectSend.thy ===== *)
theory ConnectSend
  imports ConnectEvents
begin

text \<open>
  The sending half of \<open>connectNode.cpp\<close>: the three output buffers (audio, commands, wake word), slicing
  and encoding of audio, WebSocket packing, commands, and the write path down to the socket.
  \<open>cn_sent\<close> is the stream of bytes the operating system or the SSL layer has taken, in order.
\<close>

section \<open>The write path\<close>

text \<open>\<open>NLS_ERR_RW_RETRIABLE\<close>: \<open>EINTR\<close> and \<open>EAGAIN\<close>.\<close>

definition rw_retriable :: "int \<Rightarrow> bool" where
  "rw_retriable e \<longleftrightarrow> e = 4 \<or> e = 11"

definition socketWrite :: "'j env \<Rightarrow> byte list \<Rightarrow> conn_node \<Rightarrow> int \<times> conn_node" where
  "socketWrite E buffer n =
     (let (wLen, errorCode) = e_send E (cn_io n) buffer; n1 = n\<lparr>cn_io := cn_io n + 1\<rparr> in
      if wLen < 0 then (if rw_retriable errorCode then Success else - SocketWriteFailed, n1)
      else (wLen, n1\<lparr>cn_sent := cn_sent n1 @ take (nat wLen) buffer\<rparr>))"

definition sslWrite :: "'j env \<Rightarrow> byte list \<Rightarrow> conn_node \<Rightarrow> int \<times> conn_node" where
  "sslWrite E buffer n =
     (let r = e_sslWrite E (cn_io n) buffer; n1 = n\<lparr>cn_io := cn_io n + 1\<rparr> in
      (r, if r < 0 then n1 else n1\<lparr>cn_sent := cn_sent n1 @ take (nat r) buffer\<rparr>))"

definition nlsSend :: "'j env \<Rightarrow> byte list \<Rightarrow> conn_node \<Rightarrow> int \<times> conn_node" where
  "nlsSend E frame n =
     (if frame = [] then (0, n)
      else
        (let (sLen, n1) = (if u_isSsl (cn_url n) then sslWrite E frame n else socketWrite E frame n) in
         if sLen < 0
         then (sLen, n1\<lparr>cn_nodeErrMsg :=
                 (if u_isSsl (cn_url n1) then e_sslError E (cn_io n1) else e_sockError E (cn_io n1))\<rparr>)
         else (sLen, n1)))"

datatype evbuf = BinaryBuf | CmdBuf | WwvBuf

definition get_buf :: "evbuf \<Rightarrow> conn_node \<Rightarrow> byte list" where
  "get_buf b n = (case b of BinaryBuf \<Rightarrow> cn_binaryEvBuffer n | CmdBuf \<Rightarrow> cn_cmdEvBuffer n | WwvBuf \<Rightarrow> cn_wwvEvBuffer n)"

definition set_buf :: "evbuf \<Rightarrow> byte list \<Rightarrow> conn_node \<Rightarrow> conn_node" where
  "set_buf b bs n =
     (case b of
        BinaryBuf \<Rightarrow> n\<lparr>cn_binaryEvBuffer := bs\<rparr>
      | CmdBuf \<Rightarrow> n\<lparr>cn_cmdEvBuffer := bs\<rparr>
      | WwvBuf \<Rightarrow> n\<lparr>cn_wwvEvBuffer := bs\<rparr>)"

abbreviation (input) NodeFrameSize :: nat where "NodeFrameSize \<equiv> 2048"

text \<open>The first successful write records when the audio began.\<close>

definition mark_first :: "'j env \<Rightarrow> bool \<Rightarrow> conn_node \<Rightarrow> conn_node" where
  "mark_first E audio_frame n =
     (if audio_frame \<and> cn_isFirstBinaryFrame n then
        (let (t, n1) = now E (n\<lparr>cn_isFirstBinaryFrame := False\<rparr>) in
         n1\<lparr>cn_reconnection := (cn_reconnection n1)\<lparr>rc_first_audio_timestamp_ms := t\<rparr>\<rparr>)
      else n)"

definition nlsSendFrame :: "'j env \<Rightarrow> evbuf \<Rightarrow> bool \<Rightarrow> conn_node \<Rightarrow> int \<times> conn_node" where
  "nlsSendFrame E b audio_frame n =
     (let len = length (get_buf b n) in
      if len = 0 then (0, n)
      else
        (let buffer = take NodeFrameSize (get_buf b n); (sLen, n1) = nlsSend E buffer n in
         if sLen < 0 then (- NlsSendFailed, n1)
         else
           (let n2 = mark_first E audio_frame n1;
                n3 = set_buf b (drop (nat sLen) (get_buf b n2)) n2;
                len' = length (get_buf b n3) in
            if 0 < len' then
              (if \<not> cn_writeEvent n3 then (- EventEmpty, n3) else (int len', n3))
            else (int len', n3))))"

section \<open>Commands\<close>

text \<open>The text of a command, and the reconnection state it leaves. \<open>msg\<close> is the argument of the two
  commands that have one.\<close>

definition command_text :: "CmdType \<Rightarrow> string \<Rightarrow> request_param \<Rightarrow> NodeReconnection \<Rightarrow> string option" where
  "command_text type msg rp rc =
     (case type of
        CmdStart \<Rightarrow>
          rp_startCommand rp
            (if rc_state rc = TriggerReconnection
             then Some (rc_interruption_timestamp_ms rc - rc_first_audio_timestamp_ms rc, rc_tw_index_offset rc)
             else None)
      | CmdStControl \<Rightarrow> rp_controlCommand rp msg
      | CmdStop \<Rightarrow> rp_stopCommand rp
      | CmdTextDialog \<Rightarrow> rp_executeDialog rp
      | CmdWarkWord \<Rightarrow> rp_stopWakeWordCommand rp
      | CmdSendText \<Rightarrow> rp_runFlowingCommand rp msg
      | CmdSendPing \<Rightarrow> Some ''{ping}''
      | CmdSendFlush \<Rightarrow> rp_flushFlowingCommand rp
      | CmdCancel \<Rightarrow> None
      | CmdExecuteDialog \<Rightarrow> None)"

text \<open>A frame that could not be allocated adds nothing: \<open>frame\<close> stays \<open>NULL\<close>.\<close>

definition frame_bytes :: "int \<times> byte list option \<Rightarrow> byte list" where
  "frame_bytes r = (case snd r of None \<Rightarrow> [] | Some f \<Rightarrow> f)"

definition addCmdDataBuffer :: "'j env \<Rightarrow> CmdType \<Rightarrow> string \<Rightarrow> conn_node \<Rightarrow> conn_node" where
  "addCmdDataBuffer E type msg n =
     (case cn_request n of
        None \<Rightarrow> n
      | Some rp \<Rightarrow>
          (let cmd = command_text type msg rp (cn_reconnection n);
               n1 = (if type = CmdStart
                 then n\<lparr>cn_reconnection := (cn_reconnection n)\<lparr>rc_state := NewReconnectionStarting\<rparr>\<rparr> else n) in
           case cmd of
             None \<Rightarrow> n1
           | Some c \<Rightarrow>
               (let frame = frame_bytes (if type = CmdSendPing then pingFrame (e_calloc E)
                      else textFrame (e_calloc E) (bytes_of (c_str c))) in
                n1\<lparr>cn_cmdEvBuffer := cn_cmdEvBuffer n1 @ frame\<rparr>)))"

definition sendControlDirective :: "'j env \<Rightarrow> conn_node \<Rightarrow> int \<times> conn_node" where
  "sendControlDirective E n =
     (if cn_workStatus n = NodeStarted \<and> cn_exitStatus n = ExitInvalid then
        (if length (cn_cmdEvBuffer n) \<noteq> 0 then nlsSendFrame E CmdBuf True n else (0, n))
      else if cn_exitStatus n = ExitStopping \<and> cn_isStop n = False then
        (let (ret, n1) = nlsSendFrame E CmdBuf True (addCmdDataBuffer E CmdStop [] n) in
         (ret, n1\<lparr>cn_isStop := True\<rparr>))
      else (0, n))"

text \<open>What follows a failed send.\<close>

definition send_failed :: "'j env \<Rightarrow> conn_node \<Rightarrow> conn_node" where
  "send_failed E n =
     (let n1 = do_disconnect E n in handlerTaskFailedEvent E (c_str (cn_nodeErrMsg n1)) DefaultErrorCode n1)"

section \<open>Audio\<close>

text \<open>\<open>e_encode\<close> is \<open>nlsEncoding\<close> (\<open>None\<close>: a negative size).\<close>

definition pack_audio :: "'j env \<Rightarrow> byte list \<Rightarrow> conn_node \<Rightarrow> byte list option" where
  "pack_audio E frame n =
     (if au_hasEncoder (cn_audio n) \<and> au_encoderType (cn_audio n) \<noteq> ENCODER_NONE then
        (case e_encode E (cn_io n) frame of
           None \<Rightarrow> None
         | Some out \<Rightarrow> Some (frame_bytes (binaryFrame (e_calloc E) out)))
      else Some (frame_bytes (binaryFrame (e_calloc E) frame)))"

definition audio_buf :: "conn_node \<Rightarrow> evbuf" where
  "audio_buf n =
     (case cn_request n of
        Some rp \<Rightarrow> if rp_enableWakeWord rp \<and> \<not> cn_isWakeStop n then WwvBuf else BinaryBuf
      | None \<Rightarrow> BinaryBuf)"

definition send_if :: "'j env \<Rightarrow> bool \<Rightarrow> evbuf \<Rightarrow> int \<times> conn_node \<Rightarrow> int \<times> conn_node" where
  "send_if E go b r = (if go \<and> \<not> cn_isStop (snd r) then nlsSendFrame E b True (snd r) else r)"

definition addAudioDataBuffer :: "'j env \<Rightarrow> byte list \<Rightarrow> conn_node \<Rightarrow> int \<times> conn_node" where
  "addAudioDataBuffer E frame n =
     (if cn_request n = None then (- RequestEmpty, n)
      else if frame = [] then (- NlsEncodingFailed, n)
      else
        (case pack_audio E frame n of
           None \<Rightarrow> (- NlsEncodingFailed, n\<lparr>cn_io := cn_io n + 1\<rparr>)
         | Some tmp \<Rightarrow>
             (let n0 = n\<lparr>cn_io := cn_io n + 1\<rparr>; b = audio_buf n0; len = length (get_buf b n0) in
              if cn_limitSize n0 \<le> len then (- EvbufferTooMuch, n0)
              else
                (let n1 = set_buf b (get_buf b n0 @ tmp) n0;
                     (ret2, n2) = send_if E (len = 0 \<and> cn_workStatus n1 = NodeStarted) b (0, n1);
                     (ret3, n3) = send_if E (len = 0 \<and> cn_workStatus n2 = NodeWakeWording) b (ret2, n2);
                     (ret4, n4) = (if ret3 = 0 then sendControlDirective E n3 else (ret3, n3)) in
                 if ret4 < 0 then (ret4, send_failed E n4)
                 else (int (length frame), n4\<lparr>cn_audio := (cn_audio n4)\<lparr>au_isFirstAudioFrame := False\<rparr>\<rparr>)))))"

definition addRemainAudioData :: "'j env \<Rightarrow> conn_node \<Rightarrow> int \<times> conn_node" where
  "addRemainAudioData E n =
     (case au_audioFrame (cn_audio n) of
        None \<Rightarrow> (0, n)
      | Some buf \<Rightarrow>
          if 0 < length buf then
            (let (ret, n1) = addAudioDataBuffer E buf n in
             (ret, n1\<lparr>cn_audio := (cn_audio n1)\<lparr>au_audioFrame :=
                map_option (\<lambda>_. []) (au_audioFrame (cn_audio n1))\<rparr>\<rparr>))
          else (0, n))"

text \<open>
  The slicing loop of \<open>addSlicedAudioDataBuffer\<close>. \<open>buf\<close> is the filled part of \<open>_audioFrame\<close>, \<open>rest\<close> the part
  of the input not yet copied. Whatever a failing \<open>addAudioDataBuffer\<close> does to the node, the loop writes
  its own frame size afterwards, as the code does with its data members.
\<close>

definition set_audio_buf :: "byte list \<Rightarrow> conn_node \<Rightarrow> conn_node" where
  "set_audio_buf buf n = n\<lparr>cn_audio := (cn_audio n)\<lparr>au_audioFrame := Some buf\<rparr>\<rparr>"

function slice_loop :: "'j env \<Rightarrow> nat \<Rightarrow> byte list \<Rightarrow> byte list \<Rightarrow> int \<Rightarrow> conn_node \<Rightarrow> int \<times> conn_node" where
  "slice_loop E maxSize buf rest filling n =
     (let space = maxSize - length buf;
          buf1 = buf @ take space rest; rest1 = drop space rest in
      if maxSize \<le> length buf1 then
        (let (ret, n1) = addAudioDataBuffer E buf1 (set_audio_buf buf1 n);
             n2 = set_audio_buf [] n1 in
         if ret < 0 then (ret, n2)
         else if rest1 = [] \<or> maxSize = 0 then (filling + int maxSize, n2)
         else slice_loop E maxSize [] rest1 (filling + int maxSize) n2)
      else if \<not> au_isFirstAudioFrame (cn_audio n) \<and> au_encoderType (cn_audio n) \<noteq> ENCODER_OPU then
        (let (ret, n1) = addAudioDataBuffer E buf1 (set_audio_buf buf1 n);
             n2 = set_audio_buf [] n1 in
         if ret < 0 then (ret, n2) else (filling + int (length buf1), n2))
      else (filling, set_audio_buf buf1 n))"
  by pat_completeness auto
termination
  by (relation "measure (\<lambda>(E, maxSize, buf, rest, filling, n). (if maxSize \<le> length buf then 1 else 0) + 2 * length rest)")
    auto

declare slice_loop.simps [simp del]

definition addSlicedAudioDataBuffer :: "'j env \<Rightarrow> byte list \<Rightarrow> conn_node \<Rightarrow> int \<times> conn_node" where
  "addSlicedAudioDataBuffer E frame n =
     (if au_hasEncoder (cn_audio n) \<and> au_encoderType (cn_audio n) \<noteq> ENCODER_NONE then
        (let n1 = n\<lparr>cn_audio := (cn_audio n)\<lparr>au_maxFrameSize := e_frameBytes E\<rparr>\<rparr> in
         if e_frameBytes E \<le> 0 then (e_frameBytes E, n1)
         else
           (case au_audioFrame (cn_audio n1) of
              None \<Rightarrow>
                if \<not> e_calloc E (8 * nat (e_frameBytes E)) then (- MallocFailed, n1)
                else slice_loop E (nat (e_frameBytes E)) [] frame 0 n1
            | Some buf \<Rightarrow> slice_loop E (nat (e_frameBytes E)) buf frame 0 n1))
      else addAudioDataBuffer E frame n)"

section \<open>Command notification\<close>

definition cmdNotify :: "'j env \<Rightarrow> CmdType \<Rightarrow> string \<Rightarrow> conn_node \<Rightarrow> int \<times> conn_node" where
  "cmdNotify E type message n =
     (let (ret, n') =
        (case type of
           CmdStop \<Rightarrow>
             (let n1 = (snd (addRemainAudioData E n))\<lparr>cn_exitStatus := ExitStopping\<rparr> in
              if cn_workStatus n1 = NodeStarted \<and> length (cn_binaryEvBuffer n1) = 0
              then sendControlDirective E n1 else (Success, n1))
         | CmdCancel \<Rightarrow> (Success, n\<lparr>cn_exitStatus := ExitCancel\<rparr>)
         | CmdStControl \<Rightarrow>
             (let n1 = addCmdDataBuffer E CmdStControl message n in
              if cn_workStatus n1 = NodeStarted \<and> length (cn_binaryEvBuffer n1) = 0
              then nlsSendFrame E CmdBuf True n1 else (Success, n1))
         | CmdWarkWord \<Rightarrow>
             (let n1 = n\<lparr>cn_isWakeStop := True\<rparr> in
              if length (cn_wwvEvBuffer n1) = 0
              then nlsSendFrame E CmdBuf True (addCmdDataBuffer E CmdWarkWord [] n1) else (Success, n1))
         | CmdSendText \<Rightarrow>
             (let n1 = addCmdDataBuffer E CmdSendText message n in
              if cn_workStatus n1 = NodeStarted then nlsSendFrame E CmdBuf True n1 else (Success, n1))
         | CmdSendPing \<Rightarrow> nlsSendFrame E CmdBuf True (addCmdDataBuffer E CmdSendPing [] n)
         | CmdSendFlush \<Rightarrow> nlsSendFrame E CmdBuf True (addCmdDataBuffer E CmdSendFlush [] n)
         | _ \<Rightarrow> (Success, n)) in
      if ret < 0 then (ret, send_failed E n') else (ret, n'))"

section \<open>The gateway request\<close>

text \<open>\<open>evbuffer_add(_cmdEvBuffer, tmp, tmpLen)\<close> reads \<open>tmpLen\<close> bytes of \<open>char tmp[NodeFrameSize]\<close>; \<open>tmpLen\<close>
  is the length before truncation: \<open>None\<close> where that is beyond the array.\<close>

definition gatewayRequest :: "'j env \<Rightarrow> conn_node \<Rightarrow> (int \<times> conn_node) option" where
  "gatewayRequest E n =
     (case cn_request n of
        None \<Rightarrow> Some (- RequestEmpty, n)
      | Some rp \<Rightarrow>
          if \<not> cn_readEvent n then Some (- EventEmpty, n)
          else
            (let n1 = n\<lparr>cn_io := cn_io n + 1\<rparr>;
                 (buffer, tmpLen) = requestPackage (cn_url n1) (rp_httpHeader rp);
                 tmp = bytes_of buffer @ replicate (NodeFrameSize - length buffer) 0 in
             if tmpLen < 0 then Some (- GetHttpHeaderFailed, n1)
             else if int NodeFrameSize < tmpLen then None
             else Some (Success, n1\<lparr>cn_cmdEvBuffer := cn_cmdEvBuffer n1 @ take (nat tmpLen) tmp\<rparr>)))"

section \<open>Nothing is lost or duplicated on the way out\<close>

text \<open>The operating system and the SSL layer take at most what they are given.\<close>

definition os_ok :: "'j env \<Rightarrow> bool" where
  "os_ok E \<longleftrightarrow> (\<forall>i bs. fst (e_send E i bs) \<le> int (length bs)) \<and> (\<forall>i bs. e_sslWrite E i bs \<le> int (length bs))"

lemma get_set_buf [simp]:
  "get_buf b (set_buf b bs n) = bs" "b \<noteq> c \<Longrightarrow> get_buf c (set_buf b bs n) = get_buf c n"
  "cn_sent (set_buf b bs n) = cn_sent n" "cn_writeEvent (set_buf b bs n) = cn_writeEvent n"
  by (auto simp: get_buf_def set_buf_def split: evbuf.splits)

lemma get_buf_other [simp]:
  "get_buf b (n\<lparr>cn_io := io\<rparr>) = get_buf b n" "get_buf b (n\<lparr>cn_sent := s\<rparr>) = get_buf b n"
  "get_buf b (n\<lparr>cn_nodeErrMsg := m\<rparr>) = get_buf b n" "get_buf b (n\<lparr>cn_isStop := st\<rparr>) = get_buf b n"
  "get_buf b (n\<lparr>cn_audio := a\<rparr>) = get_buf b n" "get_buf b (n\<lparr>cn_reconnection := r\<rparr>) = get_buf b n"
  by (simp_all add: get_buf_def split: evbuf.split)

lemma mark_first_keeps [simp]:
  "get_buf b (mark_first E a n) = get_buf b n" "cn_sent (mark_first E a n) = cn_sent n"
  "cn_workStatus (mark_first E a n) = cn_workStatus n" "cn_writeEvent (mark_first E a n) = cn_writeEvent n"
  by (simp_all add: mark_first_def now_def get_buf_def split: evbuf.split)

text \<open>One write: the bytes taken are a prefix of what was offered, and are all that was sent.\<close>

lemma nlsSend_sent:
  assumes "os_ok E" and "nlsSend E frame n = (r, n1)"
  shows "cn_sent n1 = cn_sent n @ take (nat r) frame \<and> r \<le> int (length frame)
    \<and> get_buf b n1 = get_buf b n \<and> cn_writeEvent n1 = cn_writeEvent n"
proof -
  have "fst (e_send E i bs) \<le> int (length bs)" "e_sslWrite E i bs \<le> int (length bs)" for i bs
    using assms(1) by (simp_all add: os_ok_def)
  note bound = this
  have b: "e_send E i bs = (k, c) \<Longrightarrow> k \<le> int (length bs)" for i bs k c
    using bound(1) [of i bs] by simp
  show ?thesis
    using assms(2) bound(2) [of "cn_io n" frame] b
    by (auto simp: nlsSend_def socketWrite_def sslWrite_def Let_def split: if_splits prod.splits)
qed

text \<open>What one frame send does to the buffers and the stream.\<close>

definition moved :: "evbuf \<Rightarrow> conn_node \<Rightarrow> nat \<Rightarrow> conn_node \<Rightarrow> bool" where
  "moved b n k n' \<longleftrightarrow> cn_sent n' = cn_sent n @ take k (get_buf b n) \<and> get_buf b n' = drop k (get_buf b n)
     \<and> (\<forall>c. c \<noteq> b \<longrightarrow> get_buf c n' = get_buf c n)"

lemma nlsSendFrame_moved:
  assumes "os_ok E" and "nlsSendFrame E b a n = (r, n')"
  shows "\<exists>k \<le> 2048. moved b n k n' \<and> (0 \<le> r \<longrightarrow> r = int (length (get_buf b n')))"
proof -
  obtain sLen n1 where send: "nlsSend E (take 2048 (get_buf b n)) n = (sLen, n1)" by fastforce
  note s = nlsSend_sent [OF assms(1) this]
  have le: "sLen \<le> 2048" using s [of b] by (auto simp: min_def split: if_splits)
  have eq: "take (nat sLen) (take 2048 (get_buf b n)) = take (nat sLen) (get_buf b n)"
    using le by (simp add: min_absorb1)
  consider (empty) "get_buf b n = []" | (failed) "get_buf b n \<noteq> []" "sLen < 0" | (sent) "get_buf b n \<noteq> []" "0 \<le> sLen"
    by linarith
  then show ?thesis
  proof cases
    case empty
    then have "nlsSendFrame E b a n = (0, n)" by (simp add: nlsSendFrame_def)
    with assms(2) empty show ?thesis by (auto simp: moved_def)
  next
    case failed
    then have "nlsSendFrame E b a n = (- NlsSendFailed, n1)" by (simp add: nlsSendFrame_def Let_def send)
    with assms(2) failed(2) s show ?thesis by (intro exI [of _ 0]) (simp add: moved_def)
  next
    case sent
    let ?n3 = "set_buf b (drop (nat sLen) (get_buf b n)) (mark_first E a n1)"
    from sent s have "nlsSendFrame E b a n = (if 0 < length (get_buf b ?n3) \<and> \<not> cn_writeEvent n1 then - EventEmpty
        else int (length (get_buf b ?n3)), ?n3)"
      by (simp add: nlsSendFrame_def Let_def send)
    with assms(2) have "n' = ?n3" "0 \<le> r \<longrightarrow> r = int (length (get_buf b ?n3))" by (auto split: if_splits)
    with s eq le sent(2) show ?thesis
      by (intro exI [of _ "nat sLen"]) (simp add: moved_def)
  qed
qed

definition send_frames :: "'j env \<Rightarrow> evbuf \<Rightarrow> nat \<Rightarrow> conn_node \<Rightarrow> conn_node" where
  "send_frames E b k = ((\<lambda>n. snd (nlsSendFrame E b True n)) ^^ k)"

text \<open>The peer's window is never shut: every write offered some bytes takes at least one.\<close>

definition progress :: "'j env \<Rightarrow> bool" where
  "progress E \<longleftrightarrow> (\<forall>i bs. bs \<noteq> [] \<longrightarrow> 0 < fst (e_send E i bs) \<and> 0 < e_sslWrite E i bs)"

lemma nlsSend_progress:
  assumes "progress E" and "frame \<noteq> []"
  shows "0 < fst (nlsSend E frame n)"
  using assms unfolding progress_def nlsSend_def socketWrite_def sslWrite_def Let_def
  by (fastforce split: prod.splits dest: spec [where x = "cn_io n"])

lemma nlsSendFrame_progress:
  assumes "os_ok E" and "progress E" and "get_buf b n \<noteq> []"
  shows "length (get_buf b (snd (nlsSendFrame E b True n))) < length (get_buf b n)"
proof -
  obtain sLen n1 where send: "nlsSend E (take 2048 (get_buf b n)) n = (sLen, n1)" by fastforce
  with nlsSend_progress [OF assms(2), of "take 2048 (get_buf b n)" n] assms(3) have "0 < sLen" by simp
  with nlsSend_sent [OF assms(1) send] send assms(3) show ?thesis
    by (auto simp: nlsSendFrame_def Let_def)
qed

text \<open>C15. The output path neither loses, duplicates nor reorders a byte: after any number of sends the bytes handed
  to the network followed by the bytes still buffered are what there was before, no other buffer changes, and
  a network that always takes something empties the buffer in at most as many sends as it held bytes.\<close>

theorem sends_conserve_bytes:
  assumes "os_ok E"
  shows "cn_sent (send_frames E b k n) @ get_buf b (send_frames E b k n) = cn_sent n @ get_buf b n
    \<and> (\<forall>c. c \<noteq> b \<longrightarrow> get_buf c (send_frames E b k n) = get_buf c n)
    \<and> (progress E \<and> length (get_buf b n) \<le> k \<longrightarrow> cn_sent (send_frames E b k n) = cn_sent n @ get_buf b n)"
proof -
  have one: "cn_sent (snd (nlsSendFrame E b True n)) @ get_buf b (snd (nlsSendFrame E b True n)) = cn_sent n @ get_buf b n
    \<and> (\<forall>c. c \<noteq> b \<longrightarrow> get_buf c (snd (nlsSendFrame E b True n)) = get_buf c n)" for n
    using nlsSendFrame_moved [OF assms, of b True n] by (cases "nlsSendFrame E b True n") (auto simp: moved_def)
  have all: "cn_sent (send_frames E b k n) @ get_buf b (send_frames E b k n) = cn_sent n @ get_buf b n
    \<and> (\<forall>c. c \<noteq> b \<longrightarrow> get_buf c (send_frames E b k n) = get_buf c n)" for k
    by (induction k) (simp_all add: send_frames_def one)
  have shrink: "get_buf b (send_frames E b k n) = [] \<or>
      length (get_buf b (send_frames E b k n)) + k \<le> length (get_buf b n)" if "progress E" for k
  proof (induction k)
    case (Suc k)
    have "nlsSendFrame E b True m = (0, m)" if "get_buf b m = []" for m
      using that by (simp add: nlsSendFrame_def)
    with Suc nlsSendFrame_progress [OF assms that, of b "send_frames E b k n"] show ?case
      by (cases "get_buf b (send_frames E b k n) = []") (auto simp: send_frames_def)
  qed (simp add: send_frames_def)
  have "get_buf b (send_frames E b k n) = []" if "progress E" "length (get_buf b n) \<le> k"
    using shrink [OF that(1), of k] that(2) by (metis add_le_same_cancel2 le_trans le_zero_eq length_0_conv)
  with all [of k] show ?thesis by auto
qed

lemma sends_conserve_bytes_witness:
  "cn_sent (send_frames (env_example None) CmdBuf 9 (node_example\<lparr>cn_cmdEvBuffer := [1, 2, 3, 4, 5]\<rparr>)) = [1, 2, 3, 4, 5]
    \<and> get_buf CmdBuf (send_frames (env_example None) CmdBuf 9 (node_example\<lparr>cn_cmdEvBuffer := [1, 2, 3, 4, 5]\<rparr>)) = []
    \<and> get_buf BinaryBuf (send_frames (env_example None) CmdBuf 9 (node_example\<lparr>cn_cmdEvBuffer := [1, 2, 3, 4, 5]\<rparr>)) = []"
proof -
  let ?n = "node_example\<lparr>cn_cmdEvBuffer := [1, 2, 3, 4, 5]\<rparr>"
  have "os_ok (env_example None)" "progress (env_example None)" by (simp_all add: os_ok_def progress_def env_example_def)
  moreover have "get_buf CmdBuf ?n = [1, 2, 3, 4, 5]" "get_buf BinaryBuf ?n = []" "cn_sent ?n = []"
    by (simp_all add: get_buf_def node_example_def)
  ultimately show ?thesis using sends_conserve_bytes [of "env_example None" CmdBuf 9 ?n] by auto
qed

section \<open>Audio in the output buffers\<close>

text \<open>Delivering events, closing and disconnecting leave the output buffers and the stream alone.\<close>

lemma core_bufs:
  assumes "core n' = core n"
  shows "get_buf b n' = get_buf b n" "cn_sent n' = cn_sent n" "audio_buf n' = audio_buf n"
    "cn_limitSize n' = cn_limitSize n"
  using assms by (auto simp: core_def get_buf_def audio_buf_def split: evbuf.split option.split)

lemma core_send_failed [core_simps]: "core (send_failed E n) = core n"
  by (simp add: send_failed_def Let_def core_simps)

lemma frame_send_bounded:
  assumes "os_ok E"
  shows "length (get_buf c (snd (nlsSendFrame E b a n))) \<le> length (get_buf c n)"
  using nlsSendFrame_moved [OF assms, of b a n]
  by (cases "nlsSendFrame E b a n"; cases "c = b") (auto simp: moved_def)

text \<open>What a whole operation leaves unchanged while it sends.\<close>

definition sending where
  "sending n = (cn_request n, cn_isWakeStop n, cn_limitSize n, cn_exitStatus n, cn_workStatus n)"

lemma sending_nlsSend [simp]: "sending (snd (nlsSend E f n)) = sending n"
  by (simp add: nlsSend_def socketWrite_def sslWrite_def sending_def Let_def split: prod.split)

lemma sending_updates [simp]:
  "sending (mark_first E a n) = sending n" "sending (set_buf b bs n) = sending n"
  "sending (n\<lparr>cn_io := io\<rparr>) = sending n" "sending (n\<lparr>cn_isStop := st\<rparr>) = sending n"
  "sending (n\<lparr>cn_cmdEvBuffer := bs\<rparr>) = sending n" "sending (n\<lparr>cn_audio := a'\<rparr>) = sending n"
  "sending (n\<lparr>cn_reconnection := rc\<rparr>) = sending n"
  by (simp_all add: sending_def mark_first_def now_def set_buf_def Let_def split: evbuf.split)

lemma sending_nlsSendFrame [simp]: "sending (snd (nlsSendFrame E b a n)) = sending n"
proof -
  obtain r n1 where s: "nlsSend E (take 2048 (get_buf b n)) n = (r, n1)" by fastforce
  with sending_nlsSend [of E "take 2048 (get_buf b n)" n] have "sending n1 = sending n" by simp
  then show ?thesis by (simp add: nlsSendFrame_def Let_def s)
qed

lemma sending_send_if [simp]: "sending (snd (send_if E go b r)) = sending (snd r)"
  by (simp add: send_if_def)

lemma sending_addCmdDataBuffer [simp]: "sending (addCmdDataBuffer E t m n) = sending n"
  by (simp add: addCmdDataBuffer_def Let_def split: option.split)

lemma sending_sendControlDirective [simp]: "sending (snd (sendControlDirective E n)) = sending n"
  by (simp add: sendControlDirective_def case_prod_beta)

lemma sendingD:
  assumes "sending n' = sending n"
  shows "cn_request n' = cn_request n" "cn_limitSize n' = cn_limitSize n" "audio_buf n' = audio_buf n"
    "cn_exitStatus n' = cn_exitStatus n" "cn_workStatus n' = cn_workStatus n"
  using assms by (auto simp: sending_def audio_buf_def split: option.split)

lemma addCmd_keeps_audio [simp]: "b \<noteq> CmdBuf \<Longrightarrow> get_buf b (addCmdDataBuffer E t m n) = get_buf b n"
  by (auto simp: addCmdDataBuffer_def get_buf_def Let_def split: option.split evbuf.split)

lemma sendControlDirective_bounded:
  assumes "os_ok E" and "b \<noteq> CmdBuf"
  shows "length (get_buf b (snd (sendControlDirective E n))) \<le> length (get_buf b n)"
  using frame_send_bounded [OF assms(1), of b CmdBuf True n]
    frame_send_bounded [OF assms(1), of b CmdBuf True "addCmdDataBuffer E CmdStop [] n"] assms(2)
  by (simp add: sendControlDirective_def case_prod_beta)

lemma send_if_bounded:
  assumes "os_ok E"
  shows "length (get_buf c (snd (send_if E go b r))) \<le> length (get_buf c (snd r))"
  using frame_send_bounded [OF assms] by (simp add: send_if_def)

text \<open>Packing without an encoder adds at most the 14 bytes of a header.\<close>

lemma pack_audio_size:
  assumes "\<not> au_hasEncoder (cn_audio n)" and "pack_audio E frame n = Some tmp"
  shows "length tmp \<le> length frame + 14"
proof -
  have head: "frame_headlen k \<le> 14" for k by (simp add: frame_headlen_def)
  have "length (frame_bytes (binaryFrame c f)) \<le> length f + 14" for c f
  proof (cases "binaryFrame c f")
    case (Pair r x)
    show ?thesis
    proof (cases x)
      case None
      with Pair show ?thesis by (simp add: frame_bytes_def)
    next
      case (Some fr)
      with Pair have "framePackage c 2 f = (Success, Some fr)"
        by (auto simp: binaryFrame_def framePackage_def Let_def split: if_splits)
      from framePackage_size [OF this] head [of "length f"] Pair Some show ?thesis
        by (simp add: frame_bytes_def)
    qed
  qed
  with assms show ?thesis unfolding pack_audio_def by force
qed

text \<open>The parts of \<open>addAudioDataBuffer\<close> after the packet is queued.\<close>

definition audio_sends :: "'j env \<Rightarrow> nat \<Rightarrow> evbuf \<Rightarrow> conn_node \<Rightarrow> int \<times> conn_node" where
  "audio_sends E len b n1 =
     (let (ret2, n2) = send_if E (len = 0 \<and> cn_workStatus n1 = NodeStarted) b (0, n1);
          (ret3, n3) = send_if E (len = 0 \<and> cn_workStatus n2 = NodeWakeWording) b (ret2, n2) in
      if ret3 = 0 then sendControlDirective E n3 else (ret3, n3))"

lemma addAudioDataBuffer_alt:
  "addAudioDataBuffer E frame n =
     (if cn_request n = None then (- RequestEmpty, n)
      else if frame = [] then (- NlsEncodingFailed, n)
      else
        (case pack_audio E frame n of
           None \<Rightarrow> (- NlsEncodingFailed, n\<lparr>cn_io := cn_io n + 1\<rparr>)
         | Some tmp \<Rightarrow>
             (let n0 = n\<lparr>cn_io := cn_io n + 1\<rparr>; b = audio_buf n0; len = length (get_buf b n0) in
              if cn_limitSize n0 \<le> len then (- EvbufferTooMuch, n0)
              else
                (let (ret4, n4) = audio_sends E len b (set_buf b (get_buf b n0 @ tmp) n0) in
                 if ret4 < 0 then (ret4, send_failed E n4)
                 else (int (length frame), n4\<lparr>cn_audio := (cn_audio n4)\<lparr>au_isFirstAudioFrame := False\<rparr>\<rparr>)))))"
  by (simp add: addAudioDataBuffer_def audio_sends_def Let_def case_prod_beta split: option.split)

lemma audio_sends_bounded:
  assumes "os_ok E" and "c \<noteq> CmdBuf"
  shows "length (get_buf c (snd (audio_sends E len b n))) \<le> length (get_buf c n)"
proof -
  obtain r2 n2 where 2: "send_if E (len = 0 \<and> cn_workStatus n = NodeStarted) b (0, n) = (r2, n2)" by fastforce
  obtain r3 n3 where 3: "send_if E (len = 0 \<and> cn_workStatus n2 = NodeWakeWording) b (r2, n2) = (r3, n3)" by fastforce
  have "length (get_buf c n2) \<le> length (get_buf c n)" "length (get_buf c n3) \<le> length (get_buf c n2)"
    "length (get_buf c (snd (sendControlDirective E n3))) \<le> length (get_buf c n3)"
    using 2 3 sendControlDirective_bounded [OF assms]
      send_if_bounded [OF assms(1), of c "len = 0 \<and> cn_workStatus n = NodeStarted" b "(0, n)"]
      send_if_bounded [OF assms(1), of c "len = 0 \<and> cn_workStatus n2 = NodeWakeWording" b "(r2, n2)"] by auto
  with 2 3 show ?thesis by (simp add: audio_sends_def Let_def)
qed

lemma sending_audio_sends [simp]: "sending (snd (audio_sends E len b n)) = sending n"
  by (simp add: audio_sends_def Let_def case_prod_beta)

definition audio_bound :: "nat \<Rightarrow> conn_node \<Rightarrow> bool" where
  "audio_bound m n \<longleftrightarrow> length (cn_binaryEvBuffer n) < cn_limitSize n + m \<and> length (cn_wwvEvBuffer n) < cn_limitSize n + m
     \<and> \<not> au_hasEncoder (cn_audio n)"

lemma audio_boundI:
  assumes "audio_bound m n" and "length (cn_binaryEvBuffer n') \<le> length (cn_binaryEvBuffer n)"
    and "length (cn_wwvEvBuffer n') \<le> length (cn_wwvEvBuffer n)" and "cn_limitSize n' = cn_limitSize n"
    and "au_hasEncoder (cn_audio n') = au_hasEncoder (cn_audio n)"
  shows "audio_bound m n'"
  using assms by (simp add: audio_bound_def)

lemma encoder_kept [simp]:
  "au_hasEncoder (cn_audio (snd (nlsSendFrame E b a n))) = au_hasEncoder (cn_audio n)"
proof -
  obtain r n1 where s: "nlsSend E (take 2048 (get_buf b n)) n = (r, n1)" by fastforce
  then have "cn_audio n1 = cn_audio n"
    by (auto simp: nlsSend_def socketWrite_def sslWrite_def Let_def split: if_splits prod.splits)
  moreover have "cn_audio (set_buf b bs n) = cn_audio n" "cn_audio (mark_first E a n) = cn_audio n" for b bs a n
    by (simp_all add: set_buf_def mark_first_def now_def split: evbuf.split)
  ultimately show ?thesis by (simp add: nlsSendFrame_def Let_def s)
qed

lemma encoder_kept_sends [simp]:
  "au_hasEncoder (cn_audio (addCmdDataBuffer E t m n)) = au_hasEncoder (cn_audio n)"
  "au_hasEncoder (cn_audio (snd (sendControlDirective E n))) = au_hasEncoder (cn_audio n)"
  "au_hasEncoder (cn_audio (snd (audio_sends E len b n))) = au_hasEncoder (cn_audio n)"
  "au_hasEncoder (cn_audio (set_buf b bs n)) = au_hasEncoder (cn_audio n)"
proof -
  show 1: "au_hasEncoder (cn_audio (addCmdDataBuffer E t m n)) = au_hasEncoder (cn_audio n)" for n t m
    by (simp add: addCmdDataBuffer_def Let_def split: option.split)
  show 2: "au_hasEncoder (cn_audio (snd (sendControlDirective E n))) = au_hasEncoder (cn_audio n)" for n
    by (simp add: sendControlDirective_def case_prod_beta 1)
  show "au_hasEncoder (cn_audio (snd (audio_sends E len b n))) = au_hasEncoder (cn_audio n)"
    by (simp add: audio_sends_def Let_def case_prod_beta 2 send_if_def)
  show "au_hasEncoder (cn_audio (set_buf b bs n)) = au_hasEncoder (cn_audio n)"
    by (simp add: set_buf_def split: evbuf.split)
qed

lemma audio_bound_core: "core n' = core n \<Longrightarrow> audio_bound m n \<Longrightarrow> audio_bound m n'"
  by (simp add: audio_bound_def core_def)

lemma bound_bufs:
  "audio_bound m n \<longleftrightarrow> (\<forall>c. c \<noteq> CmdBuf \<longrightarrow> length (get_buf c n) < cn_limitSize n + m) \<and> \<not> au_hasEncoder (cn_audio n)"
proof
  assume "audio_bound m n"
  then show "(\<forall>c. c \<noteq> CmdBuf \<longrightarrow> length (get_buf c n) < cn_limitSize n + m) \<and> \<not> au_hasEncoder (cn_audio n)"
    by (auto simp: audio_bound_def get_buf_def split: evbuf.split)
next
  assume a: "(\<forall>c. c \<noteq> CmdBuf \<longrightarrow> length (get_buf c n) < cn_limitSize n + m) \<and> \<not> au_hasEncoder (cn_audio n)"
  then have "length (get_buf BinaryBuf n) < cn_limitSize n + m" "length (get_buf WwvBuf n) < cn_limitSize n + m"
    by blast+
  with a show "audio_bound m n" by (simp add: audio_bound_def get_buf_def)
qed

lemma audio_buf_io [simp]: "audio_buf (n\<lparr>cn_io := io\<rparr>) = audio_buf n"
  by (simp add: audio_buf_def split: option.split)

lemma audio_buf_not_cmd: "audio_buf n \<noteq> CmdBuf"
  by (simp add: audio_buf_def split: option.split)

lemma addAudioDataBuffer_bounded:
  assumes "os_ok E" and "audio_bound m n" and "length frame + 14 \<le> m"
  shows "audio_bound m (snd (addAudioDataBuffer E frame n))"
proof (cases "cn_request n = None \<or> frame = [] \<or> pack_audio E frame n = None")
  case True
  with assms(2) show ?thesis
    by (auto simp: addAudioDataBuffer_alt audio_bound_def split: option.split)
next
  case False
  then obtain tmp where tmp: "pack_audio E frame n = Some tmp" by auto
  have enc: "\<not> au_hasEncoder (cn_audio n)" using assms(2) by (simp add: audio_bound_def)
  let ?n0 = "n\<lparr>cn_io := cn_io n + 1\<rparr>" let ?b = "audio_buf n" let ?len = "length (get_buf ?b n)"
  have b0: "audio_bound m ?n0" using assms(2) by (simp add: audio_bound_def)
  show ?thesis
  proof (cases "cn_limitSize n \<le> ?len")
    case True
    with False tmp b0 show ?thesis by (auto simp: addAudioDataBuffer_alt)
  next
    case lim: False
    let ?n1 = "set_buf ?b (get_buf ?b n @ tmp) ?n0"
    obtain r4 n4 where s: "audio_sends E ?len ?b ?n1 = (r4, n4)" by fastforce
    have "length (get_buf c ?n1) < cn_limitSize n + m" if "c \<noteq> CmdBuf" for c
      using that lim assms(2,3) pack_audio_size [OF enc tmp] b0 by (cases "c = ?b") (auto simp: bound_bufs)
    moreover have "length (get_buf c n4) \<le> length (get_buf c ?n1)" if "c \<noteq> CmdBuf" for c
      using audio_sends_bounded [OF assms(1) that, of ?len ?b ?n1] s by simp
    moreover have "cn_limitSize n4 = cn_limitSize n" "au_hasEncoder (cn_audio n4) = au_hasEncoder (cn_audio n)"
      using s sendingD(2) [of n4 ?n1] sending_audio_sends [of E ?len ?b ?n1] encoder_kept_sends(3) [of E ?len ?b ?n1]
      by (simp_all add: set_buf_def split: evbuf.splits)
    ultimately have b4: "audio_bound m n4" using enc by (fastforce simp: bound_bufs)
    then have "audio_bound m (send_failed E n4)" by (rule audio_bound_core [OF core_send_failed])
    moreover have "audio_bound m (n4\<lparr>cn_audio := (cn_audio n4)\<lparr>au_isFirstAudioFrame := False\<rparr>\<rparr>)"
      using b4 by (simp add: audio_bound_def)
    ultimately show ?thesis
      using False tmp lim s by (auto simp: addAudioDataBuffer_alt Let_def)
  qed
qed

datatype audio_op = SendAudio "byte list" | Writable evbuf

definition audio_step :: "'j env \<Rightarrow> audio_op \<Rightarrow> conn_node \<Rightarrow> conn_node" where
  "audio_step E op n =
     (case op of SendAudio frame \<Rightarrow> snd (addAudioDataBuffer E frame n)
      | Writable b \<Rightarrow> snd (nlsSendFrame E b True n))"



section \<open>Slicing\<close>

text \<open>What the slicing loop feeds to \<open>addAudioDataBuffer\<close>, packet by packet.\<close>

fun feed :: "'j env \<Rightarrow> byte list list \<Rightarrow> conn_node \<Rightarrow> int \<times> conn_node" where
  "feed E [] n = (0, n)"
| "feed E (f # fs) n =
     (let (ret, n1) = addAudioDataBuffer E f (set_audio_buf f n); n2 = set_audio_buf [] n1 in
      if ret < 0 then (ret, n2) else (let (r, n3) = feed E fs n2 in (if r < 0 then r else int (length f) + r, n3)))"

lemma feed_nonneg: "0 \<le> fst (feed E fs n) \<Longrightarrow> fst (feed E fs n) = int (length (concat fs))"
  by (induction fs arbitrary: n) (auto simp: Let_def case_prod_beta split: if_splits)

definition sliced :: "nat \<Rightarrow> byte list \<Rightarrow> byte list list \<Rightarrow> byte list \<Rightarrow> bool" where
  "sliced m input fs left \<longleftrightarrow> concat fs @ left = input \<and> (\<forall>f \<in> set (butlast fs). length f = m)
     \<and> (\<forall>f \<in> set fs. length f \<le> m) \<and> length left < m"

lemma sliced_Cons: "length f = m \<Longrightarrow> sliced m input fs left \<Longrightarrow> sliced m (f @ input) (f # fs) left"
  by (cases fs) (auto simp: sliced_def)

lemma slice_loop_step:
  assumes "buf1 = buf @ take (m - length buf) rest" and "rest1 = drop (m - length buf) rest"
    and "addAudioDataBuffer E buf1 (set_audio_buf buf1 n) = (ret, n1)" and "0 < m"
  shows "slice_loop E m buf rest filling n =
    (if m \<le> length buf1 then
       (if ret < 0 then (ret, set_audio_buf [] n1) else if rest1 = [] then (filling + int m, set_audio_buf [] n1)
        else slice_loop E m [] rest1 (filling + int m) (set_audio_buf [] n1))
     else if \<not> au_isFirstAudioFrame (cn_audio n) \<and> au_encoderType (cn_audio n) \<noteq> ENCODER_OPU then
       (if ret < 0 then (ret, set_audio_buf [] n1) else (filling + int (length buf1), set_audio_buf [] n1))
     else (filling, set_audio_buf buf1 n))"
  unfolding slice_loop.simps [of E m buf rest] Let_def assms(1,2) [symmetric]
  using assms(3,4) by simp

lemma slice_loop_feeds:
  assumes "0 < m" and "length buf < m" and "0 \<le> fst (slice_loop E m buf rest filling n)"
  shows "\<exists>fs left. sliced m (buf @ rest) fs left
    \<and> slice_loop E m buf rest filling n = (filling + fst (feed E fs n), set_audio_buf left (snd (feed E fs n)))
    \<and> 0 \<le> fst (feed E fs n)"
  using assms
proof (induction E m buf rest filling n rule: slice_loop.induct)
  case (1 E m buf rest filling n)
  define buf1 where "buf1 = buf @ take (m - length buf) rest"
  define rest1 where "rest1 = drop (m - length buf) rest"
  obtain ret n1 where a: "addAudioDataBuffer E buf1 (set_audio_buf buf1 n) = (ret, n1)" by fastforce
  let ?n2 = "set_audio_buf [] n1"
  note step = slice_loop_step [OF buf1_def rest1_def a "1.prems"(1), of filling]
  have input: "buf1 @ rest1 = buf @ rest" by (simp add: buf1_def rest1_def)
  show ?case
  proof (cases "m \<le> length buf1")
    case full: True
    then have len: "length buf1 = m" using "1.prems"(2) by (simp add: buf1_def)
    with step have unf: "slice_loop E m buf rest filling n =
        (if ret < 0 then (ret, ?n2) else if rest1 = [] then (filling + int m, ?n2)
         else slice_loop E m [] rest1 (filling + int m) ?n2)" by simp
    with "1.prems"(3) have ret: "0 \<le> ret" by (auto split: if_splits)
    show ?thesis
    proof (cases "rest1 = []")
      case True
      have "sliced m (buf @ rest) [buf1] []" using input len "1.prems"(1) True by (simp add: sliced_def)
      then show ?thesis
        using unf ret True a len
        by (intro exI [of _ "[buf1]"] exI [of _ "[]"]) (simp add: set_audio_buf_def)
    next
      case False
      have "0 \<le> fst (slice_loop E m [] rest1 (filling + int m) ?n2)" using unf ret False "1.prems"(3) by simp
      with "1.IH" [OF refl buf1_def rest1_def full a [symmetric] refl refl] ret False "1.prems"(1) obtain fs left where
        fs: "sliced m rest1 fs left"
        "slice_loop E m [] rest1 (filling + int m) ?n2 =
           (filling + int m + fst (feed E fs ?n2), set_audio_buf left (snd (feed E fs ?n2)))"
        "0 \<le> fst (feed E fs ?n2)" by fastforce
      have "sliced m (buf @ rest) (buf1 # fs) left" using sliced_Cons [OF len fs(1)] input by simp
      moreover have "feed E (buf1 # fs) n = (int m + fst (feed E fs ?n2), snd (feed E fs ?n2))"
        using a ret len fs(3) by (simp add: Let_def case_prod_beta)
      ultimately show ?thesis
        using unf ret False fs(2,3) by (intro exI [of _ "buf1 # fs"] exI [of _ left]) simp
    qed
  next
    case short: False
    then have rest: "rest1 = []" "buf1 = buf @ rest" by (auto simp: buf1_def rest1_def)
    show ?thesis
    proof (cases "\<not> au_isFirstAudioFrame (cn_audio n) \<and> au_encoderType (cn_audio n) \<noteq> ENCODER_OPU")
      case True
      with step short have unf: "slice_loop E m buf rest filling n = (if ret < 0 then (ret, ?n2) else (filling + int (length buf1), ?n2))"
        by simp
      with "1.prems"(3) have ret: "0 \<le> ret" by (auto split: if_splits)
      have "sliced m (buf @ rest) [buf1] []" using short rest "1.prems"(1) by (auto simp: sliced_def)
      then show ?thesis using unf ret a
        by (intro exI [of _ "[buf1]"] exI [of _ "[]"]) (simp add: set_audio_buf_def)
    next
      case False
      with step short have unf: "slice_loop E m buf rest filling n = (filling, set_audio_buf buf1 n)" by auto
      have "sliced m (buf @ rest) [] buf1" using short rest by (auto simp: sliced_def)
      then show ?thesis using unf by (intro exI [of _ "[]"] exI [of _ buf1]) simp
    qed
  qed
qed


definition encoder_node :: conn_node where
  "encoder_node = node_example\<lparr>cn_binaryEvBuffer := [7],
     cn_audio := audio_example\<lparr>au_hasEncoder := True, au_encoderType := ENCODER_OPU\<rparr>\<rparr>"


section \<open>Commands between the parts of an audio frame\<close>

text \<open>A queued command is written into the middle of an audio frame: while the socket has taken only the first
  \<open>j\<close> bytes of a frame, the next \<open>sendAudio\<close> skips the write of the audio buffer, because it is not empty, and goes
  on to \<open>sendControlDirective\<close>, which writes the command. The peer reads the command's bytes as audio.\<close>

theorem command_splits_audio_frame:
  assumes "os_ok E" and "progress E" and "cn_request n = Some rp" and "cn_workStatus n = NodeStarted"
    and "cn_exitStatus n = ExitInvalid" and "audio_buf n = BinaryBuf"
    and "cn_sent n = s @ take j fr" and "cn_binaryEvBuffer n = drop j fr" and "j < length fr"
    and "length fr \<le> cn_limitSize n" and "0 < j" and "cn_cmdEvBuffer n \<noteq> []"
    and "frame \<noteq> []" and "pack_audio E frame n = Some tmp"
  shows "\<exists>k > 0. cn_sent (snd (addAudioDataBuffer E frame n)) = s @ take j fr @ take k (cn_cmdEvBuffer n)
    \<and> cn_binaryEvBuffer (snd (addAudioDataBuffer E frame n)) = drop j fr @ tmp"
proof -
  let ?n1 = "n\<lparr>cn_io := cn_io n + 1, cn_binaryEvBuffer := drop j fr @ tmp\<rparr>"
  obtain r n4 where send: "nlsSendFrame E CmdBuf True ?n1 = (r, n4)" by fastforce
  from nlsSendFrame_moved [OF assms(1) this] obtain k where k: "moved CmdBuf ?n1 k n4" by blast
  have "length (get_buf CmdBuf n4) < length (get_buf CmdBuf ?n1)"
    using nlsSendFrame_progress [OF assms(1,2), of CmdBuf ?n1] send assms(12) by (simp add: get_buf_def)
  with k have "0 < k" by (cases k) (auto simp: moved_def)
  have n4: "cn_sent n4 = s @ take j fr @ take k (cn_cmdEvBuffer n)" "cn_binaryEvBuffer n4 = drop j fr @ tmp"
    using k assms(7) by (auto simp: moved_def get_buf_def dest: spec [where x = BinaryBuf])
  have len: "length (get_buf BinaryBuf n) \<noteq> 0" "length (get_buf BinaryBuf n) < cn_limitSize n"
    using assms(8-11) by (auto simp: get_buf_def)
  have sends: "audio_sends E (length (get_buf BinaryBuf n)) BinaryBuf ?n1 = (r, n4)"
    using len(1) assms(4,5,12) send by (simp add: audio_sends_def send_if_def sendControlDirective_def Let_def)
  have set: "set_buf BinaryBuf (get_buf BinaryBuf n @ tmp) (n\<lparr>cn_io := cn_io n + 1\<rparr>) = ?n1"
    by (simp add: set_buf_def get_buf_def assms(8))
  have "snd (addAudioDataBuffer E frame n) =
      (if r < 0 then send_failed E n4 else n4\<lparr>cn_audio := (cn_audio n4)\<lparr>au_isFirstAudioFrame := False\<rparr>\<rparr>)"
    using assms(3,6,13,14) len(2) sends set by (simp add: addAudioDataBuffer_alt Let_def)
  moreover have "get_buf BinaryBuf (send_failed E n4) = get_buf BinaryBuf n4" "cn_sent (send_failed E n4) = cn_sent n4"
    using core_bufs [OF core_send_failed] by blast+
  ultimately show ?thesis using n4 \<open>0 < k\<close> by (intro exI [of _ k]) (simp add: get_buf_def)
qed

definition split_node :: conn_node where
  "split_node = node_example\<lparr>cn_sent := [1] @ take 1 [9, 8], cn_binaryEvBuffer := drop 1 [9, 8], cn_cmdEvBuffer := [5, 6, 7]\<rparr>"

lemma command_splits_audio_frame_witness:
  "\<exists>k > 0. cn_sent (snd (addAudioDataBuffer (env_example None) [4] split_node)) =
      [1] @ take 1 [9, 8] @ take k (cn_cmdEvBuffer split_node)
    \<and> cn_binaryEvBuffer (snd (addAudioDataBuffer (env_example None) [4] split_node)) =
      drop 1 [9, 8] @ frame_bytes (binaryFrame (\<lambda>_. True) [4])"
  by (rule command_splits_audio_frame [where rp = request_example])
    (simp_all add: os_ok_def progress_def env_example_def split_node_def node_example_def audio_buf_def
      request_example_def pack_audio_def audio_example_def)

end
