(* ===== verification/ConnectRecv.thy ===== *)
theory ConnectRecv
  imports ConnectSend
begin

text \<open>
  The receiving half of \<open>connectNode.cpp\<close>: reading into the read buffer, the answer to the upgrade
  request, the loop that takes WebSocket frames off the read buffer, and what each frame does to the
  node. \<open>None\<close> marks an access outside the memory the code allocated. A frame's data is given by its
  offset in the copy of the read buffer the parser works on.
\<close>

section \<open>Reading\<close>

definition socketRead :: "'j env \<Rightarrow> nat \<Rightarrow> conn_node \<Rightarrow> int \<times> byte list \<times> conn_node" where
  "socketRead E len n =
     (let (data, rLen, errorCode) = e_recv E (cn_io n) len; n1 = n\<lparr>cn_io := cn_io n + 1\<rparr> in
      if rLen \<le> 0 then (if rw_retriable errorCode then Success else - SocketReadFailed, [], n1)
      else (rLen, take (nat rLen) data, n1))"

definition sslRead :: "'j env \<Rightarrow> nat \<Rightarrow> conn_node \<Rightarrow> int \<times> byte list \<times> conn_node" where
  "sslRead E len n =
     (let (data, rLen) = e_sslRead E (cn_io n) len; n1 = n\<lparr>cn_io := cn_io n + 1\<rparr> in
      (rLen, take (nat rLen) data, n1))"

definition nlsReceive :: "'j env \<Rightarrow> nat \<Rightarrow> conn_node \<Rightarrow> int \<times> conn_node" where
  "nlsReceive E max_size n =
     (let (rLen, data, n1) = (if u_isSsl (cn_url n) then sslRead E max_size n else socketRead E max_size n) in
      if rLen < 0 then
        (- ReadFailed, n1\<lparr>cn_nodeErrMsg :=
           (if u_isSsl (cn_url n1) then e_sslError E (cn_io n1) else e_sockError E (cn_io n1))\<rparr>)
      else (rLen, n1\<lparr>cn_readEvBuffer := cn_readEvBuffer n1 @ data\<rparr>))"

abbreviation (input) ReadBufferSize :: nat where "ReadBufferSize \<equiv> 20480"

text \<open>
  The code works on a copy of the read buffer in memory it allocates zeroed and, for more than
  \<open>ReadBufferSize\<close> bytes, grows by \<open>realloc\<close> to one byte more than the data. \<open>mem\<close> is the initialised part
  of that memory. Reading a C string that does not end inside it is an access outside: \<open>None\<close>.
\<close>

definition c_string_at :: "byte list \<Rightarrow> nat \<Rightarrow> string option" where
  "c_string_at mem pos = (if 0 \<notin> set (drop pos mem) then None else Some (c_str (string_of (drop pos mem))))"

definition fresh_mem :: "byte list" where
  "fresh_mem = replicate ReadBufferSize 0"

text \<open>\<open>evbuffer_copyout\<close> after a possible \<open>realloc\<close>.\<close>

definition copyout :: "byte list \<Rightarrow> byte list \<Rightarrow> byte list" where
  "copyout buf mem =
     (let mem1 = (if ReadBufferSize < length buf then take (length buf + 1) mem else mem) in
      buf @ drop (length buf) mem1)"

definition gatewayResponse :: "'j env \<Rightarrow> conn_node \<Rightarrow> (int \<times> conn_node) option" where
  "gatewayResponse E n =
     (if \<not> e_calloc E ReadBufferSize then Some (- MallocFailed, n)
      else
        (let (read_len, n1) = nlsReceive E ReadBufferSize n in
         if read_len < 0 then Some (- NlsReceiveFailed, n1)
         else if read_len = 0 then Some (- NlsReceiveEmpty, n1)
         else
           (let frame = cn_readEvBuffer n1 in
            if ReadBufferSize < length frame \<and> \<not> e_calloc E (length frame + 1) then Some (- ReallocFailed, n1)
            else
              (case c_string_at (copyout frame fresh_mem) 0 of
                 None \<Rightarrow> None
               | Some content \<Rightarrow>
                   (let (ret, st) = responsePackage (cn_http n1) content (length frame);
                        n2 = n1\<lparr>cn_http := st\<rparr> in
                    Some (ret,
                      if ret = 0 then n2\<lparr>cn_readEvBuffer := []\<rparr>
                      else if 0 < ret then n2
                      else n2\<lparr>cn_nodeErrMsg := c_str (h_errorMsg st)\<rparr>))))))"

section \<open>From a frame to an event\<close>

definition TASKFAILED_PARSE_JSON_STRING :: string where
  "TASKFAILED_PARSE_JSON_STRING = ''{'' @ [CHR 0x22] @ ''TaskFailed'' @ [CHR 0x22] @ '': '' @ [CHR 0x22]
     @ ''JSON: Json parse failed.'' @ [CHR 0x22] @ ''}''"

definition TASKFAILED_UTF8_JSON_STRING :: string where
  "TASKFAILED_UTF8_JSON_STRING = ''{'' @ [CHR 0x22] @ ''TaskFailed'' @ [CHR 0x22] @ '': '' @ [CHR 0x22]
     @ ''utf8ToGbk failed.'' @ [CHR 0x22] @ ''}''"

definition TASKFAILED_WS_JSON_STRING :: string where
  "TASKFAILED_WS_JSON_STRING = ''{'' @ [CHR 0x22] @ ''TaskFailed'' @ [CHR 0x22] @ '': '' @ [CHR 0x22]
     @ ''WEBSOCKET: unkown head type.'' @ [CHR 0x22] @ ''}''"

text \<open>The bytes \<open>wsFrame->data[0..length)\<close>.\<close>

definition frame_data :: "byte list \<Rightarrow> WebSocketFrame \<Rightarrow> byte list option" where
  "frame_data mem fr =
     (case wf_data fr of
        None \<Rightarrow> if wf_length fr = 0 then Some [] else None
      | Some h \<Rightarrow> if h + unat (wf_length fr) \<le> length mem
                  then Some (substr mem h (unat (wf_length fr))) else None)"

definition convertResult ::
  "'j env \<Rightarrow> byte list \<Rightarrow> WebSocketFrame \<Rightarrow> conn_node \<Rightarrow> (int \<times> NlsEvent option \<times> conn_node) option" where
  "convertResult E mem fr n =
     (case cn_request n of
        None \<Rightarrow> Some (- RequestEmpty, None, n)
      | Some rp \<Rightarrow>
          if wf_type fr = BINARY_FRAME then
            (if 0 < wf_length fr then
               (case frame_data mem fr of
                  None \<Rightarrow> None
                | Some data \<Rightarrow> Some (Success, Some (NlsEvent_binary data Success Binary (rp_taskId rp)), n))
             else Some (- WsFrameBodyEmpty, None, n))
          else if wf_type fr = TEXT_FRAME then
            (case frame_data mem fr of
               None \<Rightarrow> None
             | Some data \<Rightarrow>
                 (let result = (if rp_outputFormat rp = ''GBK'' then e_utf8ToGbk E (string_of data)
                                else string_of data) in
                  if result = [] then
                    Some (- WsResponsePackageEmpty, None,
                      handlerEvent E TASKFAILED_UTF8_JSON_STRING Utf8ConvertError TaskFailed n)
                  else
                    (let (ret, e) = parseJsonMsg (e_json E) (e_word E) (cn_enableOnMessage n) (NlsEvent_msg result) in
                     if ret < 0 then
                       Some (ret, None, handlerEvent E TASKFAILED_PARSE_JSON_STRING JsonStringParseFailed TaskFailed n)
                     else Some (ret, Some e, n))))
          else Some (- UnknownWsFrameHeadType, None,
                 handlerEvent E TASKFAILED_WS_JSON_STRING UnknownWsHeadType TaskFailed n))"

text \<open>What a delivered event does to the node's status, and whether it ends the interaction.\<close>

definition apply_event :: "request_param \<Rightarrow> EventType \<Rightarrow> conn_node \<Rightarrow> bool \<times> conn_node" where
  "apply_event rp t n =
     (if t = RecognitionStarted \<or> t = TranscriptionStarted \<or> t = SynthesisStarted then
        (False, n\<lparr>cn_workStatus := (if rp_requestType rp \<noteq> SpeechWakeWordDialog then NodeStarted else NodeWakeWording),
                  cn_reconnection := (cn_reconnection n)\<lparr>rc_state := NoReconnection\<rparr>\<rparr>)
      else if t = Close \<or> t = RecognitionCompleted then
        (rp_mode rp \<noteq> TypeDialog, n\<lparr>cn_workStatus := NodeCompleted\<rparr>)
      else if t = TaskFailed then (True, n\<lparr>cn_workStatus := NodeFailed\<rparr>)
      else if t = TranscriptionCompleted then (True, n\<lparr>cn_workStatus := NodeCompleted\<rparr>)
      else if t = SynthesisCompleted then (True, n\<lparr>cn_workStatus := NodeCompleted\<rparr>)
      else if t = DialogResultGenerated then (True, n)
      else if t = WakeWordVerificationCompleted then (False, n\<lparr>cn_workStatus := NodeStarted\<rparr>)
      else if t = Binary then
        (False, if cn_isFirstBinaryFrame n then n\<lparr>cn_isFirstBinaryFrame := False, cn_workStatus := NodeStarted\<rparr> else n)
      else (False, n))"

definition end_interaction :: "'j env \<Rightarrow> conn_node \<Rightarrow> conn_node" where
  "end_interaction E n =
     close_event E (if \<not> cn_isLongConnection n \<or> cn_workStatus n = NodeFailed then do_close E n
                    else closeStatusConnectNode n)"

definition deliver :: "'j env \<Rightarrow> request_param \<Rightarrow> NlsEvent \<Rightarrow> conn_node \<Rightarrow> int \<times> conn_node" where
  "deliver E rp e n =
     (if cn_exitStatus n = ExitCancel then (- InvalidExitStatus, n)
      else
        (let (result, n1) = handlerFrame E e n in
         if result \<noteq> 0 then (result, n1)
         else
           (let (closeFlag, n2) = apply_event rp (ev_msgType e) n1 in
            (Success, if closeFlag then end_interaction E n2 else n2))))"

definition parseFrame :: "'j env \<Rightarrow> byte list \<Rightarrow> WebSocketFrame \<Rightarrow> conn_node \<Rightarrow> (int \<times> conn_node) option" where
  "parseFrame E mem fr n =
     (case cn_request n of
        None \<Rightarrow> Some (- RequestEmpty, n)
      | Some rp \<Rightarrow>
          if wf_type fr = PONG then Some (Success, n)
          else
            (case
               (if wf_type fr = CLOSE then
                  (if cn_workStatus n \<noteq> NodeClosed then
                     (case wf_data fr of
                        None \<Rightarrow> None
                      | Some h \<Rightarrow>
                          (case c_string_at mem h of
                             None \<Rightarrow> None
                           | Some msg \<Rightarrow>
                               Some (Success,
                                 Some (NlsEvent_msg_code (fst (snprintf 2047 (task_failed_json msg)))
                                         (wf_closeCode fr) TaskFailed (rp_taskId rp)), n)))
                   else Some (Success, None, n))
                else convertResult E mem fr n) of
               None \<Rightarrow> None
             | Some (result, None, n1) \<Rightarrow>
                 if result = - WsFrameBodyEmpty then Some (Success, n1)
                 else
                   (let n2 = do_close E n1 in
                    Some (- NlsEventEmpty, if result \<noteq> Success then close_event E n2 else n2))
             | Some (result, Some e, n1) \<Rightarrow> Some (deliver E rp e n1)))"

definition genSynthesisStarted :: "string \<Rightarrow> request_param \<Rightarrow> NlsEvent" where
  "genSynthesisStarted msg rp = NlsEvent_msg_code msg Success SynthesisStarted (rp_taskId rp)"

text \<open>\<open>msg\<close> is the JSON text \<open>genSynthesisStartedMsg\<close> builds.\<close>

definition sendFakeSynthesisStarted :: "'j env \<Rightarrow> string \<Rightarrow> conn_node \<Rightarrow> conn_node" where
  "sendFakeSynthesisStarted E msg n =
     (case cn_request n of
        None \<Rightarrow> n
      | Some rp \<Rightarrow>
          if rp_requestType rp = SpeechSynthesizer then snd (handlerFrame E (genSynthesisStarted msg rp) n) else n)"

section \<open>The receive loop\<close>

text \<open>\<open>checkNodeExist(this)\<close> on the registry \<open>R\<close> of the node's instance. Under the registry's invariant it
  always has a result (theory \<open>NodeManager\<close>).\<close>

definition registry_check :: "'j env \<Rightarrow> node_manager \<Rightarrow> conn_node \<Rightarrow> int" where
  "registry_check E R n =
     (case checkNodeExist (e_heap E) R (cn_addr n) of None \<Rightarrow> - NodeEmpty | Some (ret, _) \<Rightarrow> ret)"

text \<open>One round of the loop: the return value so far, whether the loop goes on, the memory and the node.\<close>

definition ws_round :: "'j env \<Rightarrow> node_manager \<Rightarrow> byte list \<Rightarrow> conn_node \<Rightarrow> (int \<times> bool \<times> byte list \<times> conn_node) option" where
  "ws_round E R mem n =
     (let frameSize = length (cn_readEvBuffer n) in
      if frameSize = 0 then Some (0, False, mem, n)
      else if ReadBufferSize < frameSize \<and> \<not> e_calloc E (frameSize + 1) then Some (- ReallocFailed, False, mem, n)
      else
        (let mem1 = copyout (cn_readEvBuffer n) mem in
         case receiveFullWebSocketFrame (cn_rStatus n) (cn_readEvBuffer n) frameSize (cn_wsType n) wf_zero of
           None \<Rightarrow> None
         | Some (rc, st, ws, frame, fr) \<Rightarrow>
             (let n1 = n\<lparr>cn_rStatus := st, cn_wsType := ws\<rparr>; mem2 = frame @ drop frameSize mem1 in
              if rc \<noteq> Success then Some (0, False, mem2, n1)
              else if cn_releasingFlag n1 then Some (- InvalidStatusWhenReleasing, False, mem2, n1)
              else
                (let fr1 = (if ws_opCode ws = PONG then fr\<lparr>wf_type := ws_opCode ws\<rparr> else fr) in
                 case parseFrame E mem2 fr1 n1 of
                   None \<Rightarrow> None
                 | Some (result, n2) \<Rightarrow>
                     if result \<noteq> 0 then Some (result, False, mem2, n2)
                     else
                       (if \<not> cn_instance n2 then Some (- EventClientEmpty, False, mem2, n2)
                        else if registry_check E R n2 \<noteq> Success then Some (registry_check E R n2, False, mem2, n2)
                        else
                          (let drained = unat (wf_length fr1 + of_nat (ws_headerSize ws));
                               n3 = n2\<lparr>cn_readEvBuffer := drop drained (cn_readEvBuffer n2)\<rparr>;
                               ret = int32 (int drained);
                               cur = (int frameSize - int drained) mod 2 ^ 64 in
                           Some (ret, 0 < ret \<and> 0 < cur, mem2, n3)))))))"

text \<open>\<open>do ... while (eLoop)\<close>, with as many rounds as the fuel allows.\<close>

fun ws_loop :: "nat \<Rightarrow> 'j env \<Rightarrow> node_manager \<Rightarrow> byte list \<Rightarrow> conn_node \<Rightarrow> (int \<times> conn_node) option" where
  "ws_loop 0 E R mem n = None"
| "ws_loop (Suc k) E R mem n =
     (case ws_round E R mem n of
        None \<Rightarrow> None
      | Some (ret, eLoop, mem', n') \<Rightarrow> if eLoop then ws_loop k E R mem' n' else Some (ret, n'))"

definition webSocketResponse :: "'j env \<Rightarrow> node_manager \<Rightarrow> conn_node \<Rightarrow> (int \<times> conn_node) option" where
  "webSocketResponse E R n =
     (if cn_releasingFlag n then Some (- InvalidStatusWhenReleasing, n)
      else if \<not> e_calloc E ReadBufferSize then Some (0, n)
      else
        (let (read_len, n1) = nlsReceive E ReadBufferSize n in
         if read_len < 0 then Some (- NlsReceiveFailed, n1)
         else if read_len = 0 then Some (0, n1)
         else ws_loop (length (cn_readEvBuffer n1) + 1) E R fresh_mem n1))"

section \<open>The loop ends\<close>

lemma core_apply_event [core_simps]: "core (snd (apply_event rp t n)) = core n"
  by (simp add: apply_event_def core_simps)

lemma core_end_interaction [core_simps]: "core (end_interaction E n) = core n"
  by (simp add: end_interaction_def core_simps)

lemma core_deliver [core_simps]: "core (snd (deliver E rp e n)) = core n"
  by (simp add: deliver_def Let_def core_simps case_prod_beta)

lemma core_convertResult: "convertResult E mem fr n = Some (r, x, n') \<Longrightarrow> core n' = core n"
  by (auto simp: convertResult_def Let_def core_simps split: option.splits if_splits prod.splits)

lemma core_parseFrame:
  assumes "parseFrame E mem fr n = Some (r, n')"
  shows "core n' = core n"
proof (cases "cn_request n")
  case None
  with assms show ?thesis by (simp add: parseFrame_def)
next
  case (Some rp)
  have d: "deliver E rp e m = (r, n') \<Longrightarrow> core n' = core m" for e m
    using core_deliver [of E rp e m] by simp
  note cr = core_convertResult [of E mem fr n]
  show ?thesis
    using assms Some cr
    by (auto simp: parseFrame_def Let_def core_simps dest!: d split: if_splits option.splits prod.splits)
qed

lemma ws_round_shrinks:
  assumes "ws_round E R mem n = Some (ret, True, mem', n')"
  shows "length (cn_readEvBuffer n') < length (cn_readEvBuffer n)"
proof -
  let ?k = "length (cn_readEvBuffer n)"
  from assms have nz: "?k \<noteq> 0" by (auto simp: ws_round_def)
  from assms nz obtain st ws frame fr where
    rf: "receiveFullWebSocketFrame (cn_rStatus n) (cn_readEvBuffer n) ?k (cn_wsType n) wf_zero = Some (Success, st, ws, frame, fr)"
    by (auto simp: ws_round_def Let_def split: if_splits option.splits)
  let ?fr1 = "if ws_opCode ws = PONG then fr\<lparr>wf_type := ws_opCode ws\<rparr> else fr"
  let ?n1 = "n\<lparr>cn_rStatus := st, cn_wsType := ws\<rparr>"
  from assms nz rf obtain n2 where
    pf: "parseFrame E (frame @ drop ?k (copyout (cn_readEvBuffer n) mem)) ?fr1 ?n1 = Some (0, n2)"
    and ret: "0 < int32 (int (unat (wf_length ?fr1 + of_nat (ws_headerSize ws))))"
    and n': "n' = n2\<lparr>cn_readEvBuffer := drop (unat (wf_length ?fr1 + of_nat (ws_headerSize ws))) (cn_readEvBuffer n2)\<rparr>"
    by (simp add: ws_round_def Let_def split: if_splits option.splits prod.splits)
  have "cn_readEvBuffer n2 = cn_readEvBuffer n"
    using coreD(6) [OF core_parseFrame [OF pf]] by simp
  moreover have "0 < unat (wf_length ?fr1 + of_nat (ws_headerSize ws))"
    using ret by (cases "unat (wf_length ?fr1 + of_nat (ws_headerSize ws)) = 0") (simp_all add: int32_def)
  ultimately show ?thesis using n' nz by simp
qed



section \<open>Synthesised audio reaches the user as it was sent\<close>

definition listening :: "request_param \<Rightarrow> conn_node \<Rightarrow> bool" where
  "listening rp n \<longleftrightarrow> cn_request n = Some rp \<and> cn_exitStatus n \<noteq> ExitCancel \<and> cn_handler n
     \<and> \<not> cn_enableOnMessage n \<and> cn_workStatus n \<noteq> NodeInvalid \<and> cn_instance n \<and> \<not> cn_releasingFlag n"

definition audio_event :: "request_param \<Rightarrow> byte list \<Rightarrow> NlsEvent" where
  "audio_event rp p = NlsEvent_binary p Success Binary (rp_taskId rp)"

lemma audio_event_type [simp]: "ev_msgType (audio_event rp p) = Binary" "ev_statusCode (audio_event rp p) = Success"
  by (simp_all add: audio_event_def NlsEvent_binary_def)

lemma ignore_Binary [simp]:
  "fst (ignoreCallbackWhenReconnecting E Binary c n) = False" "snd (ignoreCallbackWhenReconnecting E Binary c n) = n"
  by (simp_all add: ignoreCallbackWhenReconnecting_def begin_reconnection_def Let_def split: option.split)

lemma deliver_audio:
  assumes "listening rp n"
  shows "\<exists>n'. deliver E rp (audio_event rp p) n = (Success, n') \<and> listening rp n' \<and> core n' = core n
    \<and> cn_callbacks n' = cn_callbacks n @ [audio_event rp p] \<and> cn_rStatus n' = cn_rStatus n"
proof -
  let ?e = "audio_event rp p" and ?n1 = "callback (audio_event rp p) n"
  have "updateTwIndexOffset ?e n = n" "sendFinishCondSignal Binary n = n"
    by (simp_all add: updateTwIndexOffset_def sendFinishCondSignal_def)
  moreover have "ignoreCallbackWhenReconnecting E Binary Success n = (False, n)"
    using ignore_Binary [of E Success n] by (simp add: prod_eq_iff)
  ultimately have "handlerFrame E ?e n = (Success, ?n1)"
    using assms by (simp add: handlerFrame_def listening_def Let_def)
  then have "deliver E rp ?e n = (Success, snd (apply_event rp Binary ?n1))"
    using assms by (simp add: deliver_def listening_def apply_event_def)
  with assms show ?thesis
    by (simp add: apply_event_def callback_def listening_def core_def)
qed

lemma parse_audio:
  assumes "listening rp n" and "frame_data mem fr = Some p" and "wf_type fr = BINARY_FRAME" and "0 < wf_length fr"
  shows "\<exists>n'. parseFrame E mem fr n = Some (Success, n') \<and> listening rp n' \<and> core n' = core n
    \<and> cn_callbacks n' = cn_callbacks n @ [audio_event rp p] \<and> cn_rStatus n' = cn_rStatus n"
  using deliver_audio [OF assms(1), of E p] assms
  by (auto simp: parseFrame_def convertResult_def listening_def audio_event_def)

definition server_stream :: "byte list list \<Rightarrow> byte list" where
  "server_stream ps = concat (map (rfc_encode BINARY_FRAME None) ps)"

text \<open>One round takes one frame off the buffer and delivers its bytes.\<close>

lemma rfc_encode_length: "length p < 2 ^ 64 \<Longrightarrow> length (rfc_encode BINARY_FRAME None p) = server_headlen (length p) + length p"
  by (rule length_rfc_encode_unmasked(2)) simp_all

lemma audio_round:
  assumes "listening rp n" and "cn_rStatus n = WsHeadSize" and "p \<noteq> []"
    and "cn_readEvBuffer n = rfc_encode BINARY_FRAME None p @ rest" and "length (cn_readEvBuffer n) < 2 ^ 31"
    and "registry_check E R n = Success" and "\<forall>k. e_calloc E k"
  shows "\<exists>mem' n'. ws_round E R mem n = Some (int (length (rfc_encode BINARY_FRAME None p)), rest \<noteq> [], mem', n')
    \<and> listening rp n' \<and> cn_rStatus n' = WsHeadSize \<and> cn_readEvBuffer n' = rest \<and> cn_addr n' = cn_addr n
    \<and> cn_callbacks n' = cn_callbacks n @ [audio_event rp p]"
proof -
  let ?buf = "cn_readEvBuffer n" let ?m1 = "copyout ?buf mem"
  have p64: "length p < 2 ^ 64" and len64: "length ?buf < 2 ^ 64"
    using assms(4,5) by (simp_all add: rfc_encode_def split: prod.splits)
  have L: "length (rfc_encode BINARY_FRAME None p) = server_headlen (length p) + length p"
    by (rule rfc_encode_length [OF p64])
  have head: "server_headlen (length p) \<le> 10" "0 < server_headlen (length p)" by (simp_all add: server_headlen_def)
  let ?ws = "server_header (cn_wsType n) BINARY_FRAME (length p)"
  let ?fr = "\<lparr>wf_type = BINARY_FRAME, wf_data = Some (server_headlen (length p)), wf_length = of_nat (length p), wf_closeCode = 0\<rparr>"
  have recv: "receiveFullWebSocketFrame WsHeadSize ?buf (length ?buf) (cn_wsType n) wf_zero = Some (Success, WsHeadSize, ?ws, ?buf, ?fr)"
    and data: "drop (server_headlen (length p)) ?buf = p @ rest"
    using receive_server_data(1) [OF len64 _ _ assms(4), of "cn_wsType n"]
      receive_server_data(2) [OF len64 _ _ assms(4)] assms(3) by simp_all
  let ?mem2 = "?buf @ drop (length ?buf) ?m1" and ?n1 = "n\<lparr>cn_rStatus := WsHeadSize, cn_wsType := ?ws\<rparr>"
  have plen: "unat (of_nat (length p) :: 64 word) = length p" using p64 by (simp add: unat_of_nat)
  have bl: "length ?buf = server_headlen (length p) + length p + length rest" using L assms(4) by simp
  have fd: "frame_data ?mem2 ?fr = Some p"
    using data bl by (simp add: frame_data_def substr_def plen)
  have "0 < (of_nat (length p) :: 64 word)" using plen assms(3) by (simp add: word_less_nat_alt)
  then obtain n2 where n2: "parseFrame E ?mem2 ?fr ?n1 = Some (Success, n2)" "listening rp n2" "core n2 = core ?n1"
    "cn_callbacks n2 = cn_callbacks n @ [audio_event rp p]" "cn_rStatus n2 = WsHeadSize"
    using parse_audio [of rp ?n1 ?mem2 ?fr p E] fd assms(1) by (auto simp: listening_def)
  let ?w = "of_nat (length p) + of_nat (server_headlen (length p)) :: 64 word"
  have w: "unat ?w = server_headlen (length p) + length p"
    using bl len64 by (simp add: unat_of_nat flip: of_nat_add)
  have cur: "(int (length ?buf) - int (unat ?w)) mod 2 ^ 64 = int (length rest)"
    using bl len64 w by simp
  have ret: "int32 (int (unat ?w)) = int (length (rfc_encode BINARY_FRAME None p))"
    using w L bl assms(5) by simp
  have n2': "cn_readEvBuffer n2 = ?buf" "cn_addr n2 = cn_addr n"
    using coreD(6,12) [OF n2(3)] by simp_all
  have ne: "rfc_encode BINARY_FRAME None p \<noteq> []" using L head by auto
  let ?n3 = "n2\<lparr>cn_readEvBuffer := drop (unat ?w) (cn_readEvBuffer n2)\<rparr>"
  have "cn_readEvBuffer ?n3 = rest" using n2'(1) assms(4) L w by simp
  moreover have "ws_round E R mem n = Some (int (length (rfc_encode BINARY_FRAME None p)), rest \<noteq> [], ?mem2, ?n3)"
    using assms(1,2,6,7) recv n2 n2' cur ret bl head ne
    by (simp add: ws_round_def Let_def listening_def registry_check_def server_header_def)
  moreover have "listening rp ?n3" using n2(2) by (simp add: listening_def)
  ultimately show ?thesis using n2 n2' by auto
qed

lemma audio_rounds:
  assumes "listening rp n" and "cn_rStatus n = WsHeadSize" and "ps \<noteq> []" and "\<forall>p \<in> set ps. p \<noteq> []"
    and "cn_readEvBuffer n = server_stream ps" and "length (server_stream ps) < 2 ^ 31"
    and "registry_check E R n = Success" and "\<forall>k. e_calloc E k" and "length ps \<le> k"
  shows "\<exists>n'. ws_loop k E R mem n = Some (int (length (rfc_encode BINARY_FRAME None (last ps))), n')
    \<and> cn_readEvBuffer n' = [] \<and> cn_rStatus n' = WsHeadSize
    \<and> cn_callbacks n' = cn_callbacks n @ map (audio_event rp) ps"
  using assms
proof (induction ps arbitrary: n k mem)
  case (Cons p ps)
  from Cons.prems(9) obtain i where k: "k = Suc i" by (cases k) auto
  have buf: "cn_readEvBuffer n = rfc_encode BINARY_FRAME None p @ server_stream ps"
    using Cons.prems(5) by (simp add: server_stream_def)
  obtain mem' n' where r: "ws_round E R mem n =
      Some (int (length (rfc_encode BINARY_FRAME None p)), server_stream ps \<noteq> [], mem', n')"
    "listening rp n'" "cn_rStatus n' = WsHeadSize" "cn_readEvBuffer n' = server_stream ps" "cn_addr n' = cn_addr n"
    "cn_callbacks n' = cn_callbacks n @ [audio_event rp p]"
    using audio_round [OF Cons.prems(1,2) _ buf _ Cons.prems(7,8), of mem] Cons.prems(4-6) buf by auto
  have reg: "registry_check E R n' = Success" using Cons.prems(7) r(5) by (simp add: registry_check_def)
  show ?case
  proof (cases ps)
    case Nil
    then show ?thesis using r k by (simp add: server_stream_def)
  next
    case (Cons q qs)
    have "rfc_encode BINARY_FRAME None q \<noteq> []" by (auto simp: rfc_encode_def split: prod.splits)
    then have "server_stream ps \<noteq> []" by (simp add: Cons server_stream_def)
    moreover have "length (server_stream ps) < 2 ^ 31" using Cons.prems(6) by (simp add: server_stream_def)
    ultimately show ?thesis
      using Cons.IH [OF r(2,3) _ _ r(4) _ reg Cons.prems(8), of i mem'] Cons.prems(4,9) r(1,6) k Cons by auto
  qed
qed simp

lemma short_stream: "\<forall>p \<in> set ps. p \<noteq> [] \<Longrightarrow> length ps \<le> length (server_stream ps)"
proof (induction ps)
  case (Cons p ps)
  have "rfc_encode BINARY_FRAME None p \<noteq> []" by (auto simp: rfc_encode_def split: prod.splits)
  then have "1 \<le> length (rfc_encode BINARY_FRAME None p)" by (cases "rfc_encode BINARY_FRAME None p") auto
  with Cons show ?case by (simp add: server_stream_def)
qed simp

text \<open>C16. Synthesised audio reaches the user byte for byte, in order and once: when the read buffer holds the frames
  of a sequence of non-empty packets, one call of \<open>webSocketResponse\<close> delivers exactly one \<open>Binary\<close> event for
  each with its bytes, empties the buffer and leaves the parser ready for the next frame.\<close>

theorem audio_delivered_in_order:
  assumes "listening rp n1" and "cn_rStatus n1 = WsHeadSize" and "ps \<noteq> []" and "\<forall>p \<in> set ps. p \<noteq> []"
    and "cn_readEvBuffer n1 = server_stream ps" and "length (server_stream ps) < 2 ^ 31"
    and "registry_check E R n1 = Success" and "\<forall>k. e_calloc E k"
    and "\<not> cn_releasingFlag n" and "nlsReceive E ReadBufferSize n = (len, n1)" and "0 < len"
  shows "\<exists>n'. webSocketResponse E R n = Some (int (length (rfc_encode BINARY_FRAME None (last ps))), n')
    \<and> cn_readEvBuffer n' = [] \<and> cn_rStatus n' = WsHeadSize
    \<and> cn_callbacks n' = cn_callbacks n1 @ map (\<lambda>p. NlsEvent_binary p Success Binary (rp_taskId rp)) ps"
proof -
  have "length ps \<le> length (cn_readEvBuffer n1) + 1" using short_stream [OF assms(4)] assms(5) by simp
  from audio_rounds [OF assms(1-8) this, of fresh_mem] assms(8-11) show ?thesis
    by (simp add: webSocketResponse_def audio_event_def [abs_def])
qed

definition registry_example :: node_manager where
  "registry_example = \<lparr>requestListByNode = [2 \<mapsto> 1],
     infoByRequest = [1 \<mapsto> \<lparr>ni_request = 1, ni_node = 2, ni_instance = 9, ni_uuid = ''a'', ni_status = NodeStatusCreated\<rparr>],
     timeout_ms = 2000\<rparr>"

definition env_receiving :: "byte list \<Rightarrow> json_value env" where
  "env_receiving bs = (env_example None)\<lparr>e_recv := \<lambda>_ _. (bs, int (length bs), 0)\<rparr>"

lemma audio_delivered_in_order_witness:
  "\<exists>n'. webSocketResponse (env_receiving [0x82, 2, 1, 2, 0x82, 1, 3]) registry_example node_example =
      Some (int (length (rfc_encode BINARY_FRAME None (last [[1, 2], [3]]))), n')
    \<and> cn_readEvBuffer n' = [] \<and> cn_rStatus n' = WsHeadSize
    \<and> cn_callbacks n' = cn_callbacks (snd (nlsReceive (env_receiving [0x82, 2, 1, 2, 0x82, 1, 3]) ReadBufferSize node_example))
        @ map (\<lambda>p. NlsEvent_binary p Success Binary (rp_taskId request_example)) [[1, 2], [3]]"
  by (rule audio_delivered_in_order [where len = 7])
    (simp_all add: env_receiving_def env_example_def node_example_def registry_example_def registry_check_def
      checkNodeExist_def check_node_of_request_def heap_example_def nlsReceive_def socketRead_def url_zero_def listening_def
      server_stream_def rfc_encode_def rfc_len_field_def request_example_def)

section \<open>A PING of the server is never taken off the buffer\<close>

definition ping_stuck :: "conn_node \<Rightarrow> bool" where
  "ping_stuck n \<longleftrightarrow> cn_rStatus n = WsContentBody \<and> ws_opCode (cn_wsType n) = PING"

lemma stuck_receive:
  "ws_opCode ws = PING \<Longrightarrow> receiveFullWebSocketFrame WsContentBody buf k ws rd =
     Some (- InvalidWsFrameBody, WsContentBody, ws, buf, rd)"
  by (simp add: recv_ContentBody_def decodeFrameBodyWebSocketFrame_def)

lemma nlsReceive_keeps:
  "cn_callbacks (snd (nlsReceive E k n)) = cn_callbacks n" "cn_rStatus (snd (nlsReceive E k n)) = cn_rStatus n"
  "cn_wsType (snd (nlsReceive E k n)) = cn_wsType n"
  by (simp_all add: nlsReceive_def sslRead_def socketRead_def Let_def split: prod.split)

lemma ping_stuck_round:
  assumes "ping_stuck n"
  shows "\<exists>r mem' m. ws_round E R mem n = Some (r, False, mem', m) \<and> ping_stuck m \<and> cn_callbacks m = cn_callbacks n"
  using assms stuck_receive [of "cn_wsType n" "cn_readEvBuffer n" "length (cn_readEvBuffer n)" wf_zero]
  by (simp add: ws_round_def ping_stuck_def Let_def)

lemma ping_stuck_loop:
  assumes "ping_stuck n" and "ws_loop k E R mem n = Some (r, n')"
  shows "ping_stuck n' \<and> cn_callbacks n' = cn_callbacks n"
  using assms ping_stuck_round [OF assms(1), of E R mem] by (cases k) auto

lemma ping_stuck_response:
  assumes "ping_stuck n" and "webSocketResponse E R n = Some (r, n')"
  shows "ping_stuck n' \<and> cn_callbacks n' = cn_callbacks n"
proof -
  obtain len n1 where n1: "nlsReceive E ReadBufferSize n = (len, n1)" by fastforce
  with nlsReceive_keeps [of E ReadBufferSize n] assms(1) have "ping_stuck n1" "cn_callbacks n1 = cn_callbacks n"
    by (simp_all add: ping_stuck_def)
  with assms n1 ping_stuck_loop [of n1 _ E R fresh_mem r n'] show ?thesis
    by (auto simp: webSocketResponse_def simp del: ws_loop.simps split: if_splits)
qed

text \<open>The socket becomes readable: one step on the node, with the network and registry of that moment.\<close>

definition response_step :: "'j env \<times> node_manager \<Rightarrow> conn_node \<Rightarrow> conn_node option" where
  "response_step = (\<lambda>(E, R) n. map_option snd (webSocketResponse E R n))"

interpretation ping: absorbing response_step ping_stuck cn_callbacks
  by unfold_locales (use ping_stuck_response in \<open>fastforce simp: response_step_def\<close>)

text \<open>A PING of the server stops all delivery: the parser answers a complete PING frame with an error, so the
  frame stays at the head of the read buffer and no PONG is sent; whatever arrives later, however often the
  socket becomes readable, no further event is delivered.\<close>

theorem server_ping_blocks:
  assumes "\<not> cn_releasingFlag n" and "\<forall>k. e_calloc E k" and "nlsReceive E ReadBufferSize n = (len, n1)" and "0 < len"
    and "cn_rStatus n1 = WsHeadSize" and "cn_readEvBuffer n1 = rfc_encode PING None p @ rest"
    and "length p < 126" and "0 < length (p @ rest)" and "run_opt response_step ((E, R) # later) n = Some n'"
  shows "cn_callbacks n' = cn_callbacks n \<and> ping_stuck n'"
proof -
  let ?buf = "cn_readEvBuffer n1"
  have nz: "?buf \<noteq> []" by (auto simp: assms(6) rfc_encode_def split: prod.splits)
  obtain ws1 where hs: "decodeHeaderSizeWebSocketFrame ?buf (length ?buf) (cn_wsType n1) = (Success, ws1)"
    and hb: "decodeHeaderBodyWebSocketFrame ?buf (length ?buf) ws1 = (Success, server_header (cn_wsType n1) PING (length p))"
    using decode_server_header [OF refl _ _ assms(8,6), of "cn_wsType n1"] assms(7) by auto
  have "receiveFullWebSocketFrame WsHeadSize ?buf (length ?buf) (cn_wsType n1) wf_zero =
      Some (- InvalidWsFrameBody, WsContentBody, server_header (cn_wsType n1) PING (length p), ?buf, wf_zero)"
    by (simp add: recv_HeadSize_def hs recv_HeadBody_def hb recv_ContentBody_def decodeFrameBodyWebSocketFrame_def server_header_def)
  then have "\<exists>n2. webSocketResponse E R n = Some (0, n2) \<and> ping_stuck n2 \<and> cn_callbacks n2 = cn_callbacks n1"
    using assms(1-5) nz by (simp add: webSocketResponse_def ws_round_def Let_def ping_stuck_def server_header_def)
  then obtain n2 where "webSocketResponse E R n = Some (0, n2)" "ping_stuck n2" "cn_callbacks n2 = cn_callbacks n1" by blast
  with assms(9) ping.run_dead [of n2 later n'] nlsReceive_keeps(1) [of E ReadBufferSize n] assms(3)
  show ?thesis by (simp add: response_step_def)
qed

definition ping_node :: conn_node where
  "ping_node = node_example\<lparr>cn_rStatus := WsContentBody, cn_io := 1, cn_readEvBuffer := [0x89, 0, 0x82],
     cn_wsType := server_header ws_header_zero PING 0\<rparr>"

lemma server_ping_blocks_witness:
  "cn_callbacks ping_node = cn_callbacks node_example \<and> ping_stuck ping_node"
proof (rule server_ping_blocks [where rest = "[0x82]" and p = "[]"])
  show "run_opt response_step [(env_receiving [0x89, 0, 0x82], registry_example)] node_example = Some ping_node"
    by (simp add: response_step_def webSocketResponse_def nlsReceive_def socketRead_def env_receiving_def env_example_def node_example_def
        url_zero_def ws_round_def recv_HeadSize_def recv_HeadBody_def recv_ContentBody_def decodeHeaderSizeWebSocketFrame_def
        decodeHeaderBodyWebSocketFrame_def decodeFrameBodyWebSocketFrame_def ping_node_def ws_header_zero_def
        server_header_def server_headlen_def)
  show "nlsReceive (env_receiving [0x89, 0, 0x82]) ReadBufferSize node_example =
      (3, snd (nlsReceive (env_receiving [0x89, 0, 0x82]) ReadBufferSize node_example))"
    by (simp add: nlsReceive_def socketRead_def env_receiving_def node_example_def url_zero_def)
qed (simp_all add: nlsReceive_def socketRead_def env_receiving_def env_example_def node_example_def url_zero_def
    rfc_encode_def rfc_len_field_def)

end
