(* ===== verification/WorkThread.thy ===== *)
theory WorkThread
  imports ConnectRecv "HOL-Library.Monad_Syntax"
begin

text \<open>
  The event thread (\<open>event/workThread.cpp\<close>) and the connecting half of \<open>connectNode.cpp\<close> it drives: DNS,
  \<open>connect\<close>, TLS handshake, the upgrade request, and the libevent callbacks. The state is the node a callback
  is about, the registry of its instance, the thread's list of requests and its settings. \<open>None\<close> marks
  an access to freed memory or through a null pointer. Every callback is one step; libevent decides the order.
\<close>

section \<open>State and environment\<close>

record work_thread =
  wt_node :: conn_node
  wt_registry :: node_manager
  wt_nodeList :: "addr list"
  wt_addrInFamily :: int
  wt_directIp :: string
  wt_enableSysGetAddr :: bool
  wt_dnsBase :: bool

text \<open>
  The operating system, libevent and OpenSSL, by the number of the call. \<open>n_connect\<close> gives \<open>connect\<close>'s result and
  \<open>errno\<close>, \<open>n_sslHandshake\<close> the result of \<open>SSLconnect::sslHandshake\<close>; \<open>n_urlBuf\<close> is the uninitialised
  \<open>urlAddress\<close> of \<open>urlWithAccess\<close>, \<open>n_fakeMsg\<close> the JSON text of \<open>genSynthesisStartedMsg\<close> for a task id.
\<close>

record 'j net_env =
  n_env :: "'j env"
  n_socket :: "nat \<Rightarrow> int \<Rightarrow> int"
  n_setsockopt :: "nat \<Rightarrow> int"
  n_nonblocking :: "nat \<Rightarrow> int"
  n_event_new :: "nat \<Rightarrow> bool"
  n_inet_pton :: "nat \<Rightarrow> string \<Rightarrow> int"
  n_connect :: "nat \<Rightarrow> int \<times> int"
  n_sslHandshake :: "nat \<Rightarrow> int"
  n_rand :: "nat \<Rightarrow> nat"
  n_urlBuf :: urlAddress
  n_getaddrinfo :: "nat \<Rightarrow> bool"
  n_native_getaddrinfo :: "nat \<Rightarrow> int"
  n_fakeMsg :: "string \<Rightarrow> string"

definition on_node :: "(conn_node \<Rightarrow> conn_node) \<Rightarrow> work_thread \<Rightarrow> work_thread" where
  "on_node f W = W\<lparr>wt_node := f (wt_node W)\<rparr>"

definition tick :: "conn_node \<Rightarrow> conn_node" where
  "tick n = n\<lparr>cn_io := cn_io n + 1\<rparr>"

definition check_node :: "'j net_env \<Rightarrow> work_thread \<Rightarrow> int option" where
  "check_node N W = map_option fst (checkNodeExist (e_heap (n_env N)) (wt_registry W) (cn_addr (wt_node W)))"

definition update_status :: "'j net_env \<Rightarrow> int \<Rightarrow> work_thread \<Rightarrow> work_thread option" where
  "update_status N st W =
     map_option (\<lambda>r. W\<lparr>wt_registry := snd r\<rparr>)
       (updateNodeStatus (e_heap (n_env N)) (wt_registry W) (cn_addr (wt_node W)) st)"

section \<open>The thread's requests\<close>

definition insertListNode :: "addr \<Rightarrow> work_thread \<Rightarrow> work_thread" where
  "insertListNode request W =
     (if request = nullptr then W
      else if request \<in> set (wt_nodeList W) then W
      else W\<lparr>wt_nodeList := wt_nodeList W @ [request]\<rparr>)"

definition freeListNode :: "addr \<Rightarrow> work_thread \<Rightarrow> bool \<times> work_thread" where
  "freeListNode request W =
     (if request = nullptr then (False, W) else (True, W\<lparr>wt_nodeList := removeAll request (wt_nodeList W)\<rparr>))"

text \<open>The request of the node, \<open>NULL\<close> once it was reset.\<close>

definition node_request :: "'j net_env \<Rightarrow> conn_node \<Rightarrow> addr" where
  "node_request N n =
     (if cn_request n = None then nullptr
      else (case request_of (e_heap (n_env N)) (cn_addr n) of None \<Rightarrow> nullptr | Some r \<Rightarrow> r))"

text \<open>
  \<open>delete request\<close> deletes the node with the request (the destructors in \<open>framework/feature\<close>), and the
  statement after it writes to the node: \<open>None\<close>.
\<close>

definition destroyConnectNode :: "'j net_env \<Rightarrow> work_thread \<Rightarrow> work_thread option" where
  "destroyConnectNode N W =
     (let request = node_request N (wt_node W); (success, W1) = freeListNode request W in
      if \<not> success then Some W1
      else
        (let (destroyed, n) = updateDestroyStatus (wt_node W1); W2 = W1\<lparr>wt_node := n\<rparr> in
         if \<not> destroyed then Some W2
         else
           do {
             ret \<leftarrow> map_option fst (checkRequestExist (e_heap (n_env N)) (wt_registry W2) request);
             let W3 = (if ret \<noteq> - RequestEmpty
               then W2\<lparr>wt_registry := snd (removeRequestFromInfo (\<lambda>_ m. m) (wt_registry W2) request False)\<rparr> else W2);
             if ret = Success then None else Some (W3\<lparr>wt_node := n\<lparr>cn_request := None\<rparr>\<rparr>)
           }))"

section \<open>Requests and responses of the gateway\<close>

definition failed_info :: "string \<Rightarrow> int \<Rightarrow> conn_node \<Rightarrow> string" where
  "failed_info what ret n =
     (let msg = c_str (cn_nodeErrMsg n) in
      if msg = []
      then fst (snprintf 511 (''workThread workStatus('' @ getConnectNodeStatusString (cn_workStatus n) @ '') ''
             @ what @ '' failed. error_code('' @ dec_int ret @ '')''))
      else msg)"

definition request_send :: "'j net_env \<Rightarrow> conn_node \<Rightarrow> (int \<times> conn_node) option" where
  "request_send N n =
     (let E = n_env N in
      case cn_workStatus n of
        NodeHandshaking \<Rightarrow>
          do {
            (_, n1) \<leftarrow> gatewayRequest E n;
            let (ret, n2) = nlsSendFrame E CmdBuf True n1;
            Some (ret, setConnectNodeStatus NodeHandshaked n2)
          }
      | NodeHandshaked \<Rightarrow> Some (nlsSendFrame E CmdBuf True n)
      | NodeStarting \<Rightarrow> Some (nlsSendFrame E CmdBuf True n)
      | NodeWakeWording \<Rightarrow>
          (let (ret, n1) = nlsSendFrame E WwvBuf True n in
           Some (if ret = 0 \<and> cn_isWakeStop n1
                 then nlsSendFrame E CmdBuf True (addCmdDataBuffer E CmdWarkWord [] n1) else (ret, n1)))
      | NodeStarted \<Rightarrow>
          (let (ret, n1) = nlsSendFrame E BinaryBuf True n in
           Some (if ret = 0 then sendControlDirective E n1 else (ret, n1)))
      | _ \<Rightarrow> Some (- InvalidWorkStatus, n))"

definition nodeRequestProcess :: "'j net_env \<Rightarrow> work_thread \<Rightarrow> (int \<times> work_thread) option" where
  "nodeRequestProcess N W =
     do {
       result \<leftarrow> check_node N W;
       if result \<noteq> Success then Some (result, W)
       else do {
         (ret, n) \<leftarrow> request_send N (wt_node W);
         Some (if ret < 0
               then (ret, W\<lparr>wt_node := do_close (n_env N)
                      (handlerTaskFailedEvent (n_env N) (failed_info ''Send'' ret n) DefaultErrorCode n)\<rparr>)
               else (Success, W\<lparr>wt_node := n\<rparr>))
       }
     }"

definition start_command :: "'j net_env \<Rightarrow> conn_node \<Rightarrow> conn_node option" where
  "start_command N n =
     map_option (\<lambda>rp. addCmdDataBuffer (n_env N)
       (if rp_requestType rp = SpeechTextDialog then CmdTextDialog else CmdStart) [] n) (cn_request n)"

text \<open>The result, and whether the function returns \<open>Success\<close> at once (an empty receive).\<close>

definition response_receive :: "'j net_env \<Rightarrow> node_manager \<Rightarrow> conn_node \<Rightarrow> (int \<times> bool \<times> conn_node) option" where
  "response_receive N R n =
     (let E = n_env N; ws = map_option (\<lambda>(ret, n'). (ret, False, n')) (webSocketResponse E R n) in
      if cn_workStatus n = NodeHandshaking \<or> cn_workStatus n = NodeHandshaked then
        do {
          (ret, n1) \<leftarrow> gatewayResponse E n;
          if ret = 0 then do {
            n2 \<leftarrow> start_command N (setConnectNodeStatus NodeStarting n1);
            let (ret', n3) = nlsSendFrame E CmdBuf True n2;
            Some (ret', False, if 0 \<le> ret' then sendFakeSynthesisStarted E (n_fakeMsg N (task_id n3)) n3 else n3)
          }
          else Some (ret, ret = - NlsReceiveEmpty, n1)
        }
      else if cn_workStatus n = NodeStarting \<or> cn_workStatus n = NodeWakeWording then
        do {
          (ret, n1) \<leftarrow> webSocketResponse E R n;
          let (ret', n2) =
            (if cn_workStatus n1 = NodeStarted then
               (let (r, m) = nlsSendFrame E BinaryBuf True n1 in
                if r = 0 then sendControlDirective E m else (r, m))
             else if cn_workStatus n1 = NodeWakeWording then nlsSendFrame E WwvBuf True n1
             else (ret, n1));
          Some (ret', False, n2)
        }
      else if cn_workStatus n = NodeStarted then ws
      else if cn_workStatus n = NodeConnecting then
        (if cn_isLongConnection n then ws else Some (- InvalidWorkStatus, False, n))
      else if cn_workStatus n = NodeInvalid then Some (- InvalidRequest, False, n)
      else Some (- InvalidWorkStatus, False, n))"

definition nodeResponseProcess :: "'j net_env \<Rightarrow> work_thread \<Rightarrow> (int \<times> work_thread) option" where
  "nodeResponseProcess N W =
     do {
       result \<leftarrow> check_node N W;
       if result \<noteq> Success then Some (result, W)
       else if cn_releasingFlag (wt_node W) then Some (- InvalidStatusWhenReleasing, W)
       else do {
         (ret, now_done, n) \<leftarrow> response_receive N (wt_registry W) (wt_node W);
         let W1 = W\<lparr>wt_node := n\<rparr>;
         Some (if now_done then (Success, W1)
               else if 0 \<le> ret \<or> ret = - EventClientEmpty \<or> ret = - InvalidStatusWhenReleasing then (ret, W1)
               else if cn_workStatus n = NodeClosed then (Success, W1)
               else if ret = - InvalidRequest then (ret, W1)
               else (ret, W\<lparr>wt_node := handlerTaskFailedEvent (n_env N) (failed_info ''Response'' ret n) DefaultErrorCode
                             (do_close (n_env N) n)\<rparr>))
       }
     }"

section \<open>Connecting\<close>

abbreviation (input) AF_UNSPEC :: int where "AF_UNSPEC \<equiv> 0"
abbreviation (input) AF_INET :: int where "AF_INET \<equiv> 2"
abbreviation (input) AF_INET6 :: int where "AF_INET6 \<equiv> 10"

text \<open>\<open>NLS_ERR_CONNECT_RETRIABLE\<close>: \<open>EINTR\<close> and \<open>EINPROGRESS\<close>.\<close>

definition connect_retriable :: "int \<Rightarrow> bool" where
  "connect_retriable e \<longleftrightarrow> e = 4 \<or> e = 115"

definition clear_ip_cache :: "conn_node \<Rightarrow> conn_node" where
  "clear_ip_cache n = n\<lparr>cn_ipCache := setIpCache None None (cn_ipCache n)\<rparr>"

definition request_url :: "conn_node \<Rightarrow> string" where
  "request_url n = (case cn_request n of None \<Rightarrow> [] | Some rp \<Rightarrow> c_str (rp_url rp))"

definition cached_ip :: "'j net_env \<Rightarrow> conn_node \<Rightarrow> string" where
  "cached_ip N n = getIpFromCache (n_urlBuf N) (n_rand N (cn_io n)) (cn_ipCache n) (request_url n)"

definition socketConnect :: "'j net_env \<Rightarrow> work_thread \<Rightarrow> (int \<times> work_thread) option" where
  "socketConnect N W =
     do {
       ret \<leftarrow> check_node N W;
       let n = wt_node W;
       if ret \<noteq> Success then Some (ret, W)
       else if cn_exitStatus n = ExitCancel then Some (- InvalidExitStatus, W)
       else
         (let (retCode, connectErrCode) = n_connect N (cn_io n); n1 = tick n in
          if retCode = - 1 then
            (if connect_retriable connectErrCode then
               Some (if \<not> cn_connectEvent n1 then - EventEmpty else 1, W\<lparr>wt_node := n1\<rparr>)
             else
               Some (- SocketConnectFailed, W\<lparr>wt_node := (if cached_ip N n1 = [] then clear_ip_cache n1 else n1)\<rparr>))
          else
            do {
              W1 \<leftarrow> update_status N NodeStatusConnected (W\<lparr>wt_node := setConnectNodeStatus NodeConnected n1\<rparr>);
              Some (Success, on_node (\<lambda>n. n\<lparr>cn_isConnected := True\<rparr>) W1)
            })
     }"

text \<open>The node's events, each made when it does not exist yet; \<open>False\<close> when \<open>event_new\<close> fails.\<close>

fun make_events ::
  "'j net_env \<Rightarrow> ((conn_node \<Rightarrow> bool) \<times> (conn_node \<Rightarrow> conn_node)) list \<Rightarrow> conn_node \<Rightarrow> bool \<times> conn_node" where
  "make_events N [] n = (True, n)"
| "make_events N ((has, mk) # es) n =
     (if has n then make_events N es n
      else if n_event_new N (cn_io n) then make_events N es (mk (tick n))
      else (False, tick n))"

definition node_events :: "((conn_node \<Rightarrow> bool) \<times> (conn_node \<Rightarrow> conn_node)) list" where
  "node_events =
     [(cn_connectEvent, \<lambda>n. n\<lparr>cn_connectEvent := True\<rparr>),
      (cn_connectTimerEvent, \<lambda>n. n\<lparr>cn_connectTimerEvent := True\<rparr>),
      (cn_readEvent, \<lambda>n. n\<lparr>cn_readEvent := True\<rparr>),
      (cn_writeEvent, \<lambda>n. n\<lparr>cn_writeEvent := True\<rparr>)]"

definition connectProcess :: "'j net_env \<Rightarrow> string \<Rightarrow> int \<Rightarrow> work_thread \<Rightarrow> (int \<times> work_thread) option" where
  "connectProcess N ip aiFamily W =
     (let n = wt_node W in
      if cn_exitStatus n = ExitCancel then Some (- InvalidExitStatus, W)
      else
        (let sockFd = n_socket N (cn_io n) aiFamily; n1 = tick n; W1 = W\<lparr>wt_node := n1\<rparr> in
         if sockFd < 0 then Some (- SocketFailed, W1)
         else if n_setsockopt N (cn_io n1) < 0 then Some (- SetSocketoptFailed, W1)
         else if n_nonblocking N (cn_io n1) < 0 then Some (- EvutilSocketFalied, W1)
         else
           (let (made, n2) = make_events N node_events n1; n3 = n2\<lparr>cn_aiFamily := aiFamily\<rparr> in
                 if \<not> made then Some (- EventEmpty, W\<lparr>wt_node := n2\<rparr>)
                 else if (aiFamily = AF_INET \<or> aiFamily = AF_INET6) \<and> n_inet_pton N (cn_io n3) ip \<le> 0
                 then Some (- SetSocketoptFailed, W\<lparr>wt_node := n3\<rparr>)
                 else socketConnect N (W\<lparr>wt_node := n3\<lparr>cn_socketFd := Some (nat sockFd)\<rparr>\<rparr>))))"

abbreviation (input) SSL_ERROR_WANT_READ :: int where "SSL_ERROR_WANT_READ \<equiv> 2"
abbreviation (input) SSL_ERROR_WANT_WRITE :: int where "SSL_ERROR_WANT_WRITE \<equiv> 3"

definition handshaking :: "'j net_env \<Rightarrow> work_thread \<Rightarrow> (int \<times> work_thread) option" where
  "handshaking N W =
     map_option (Pair 0) (update_status N NodeStatusHandshaking (on_node (setConnectNodeStatus NodeHandshaking) W))"

definition sslProcess :: "'j net_env \<Rightarrow> work_thread \<Rightarrow> (int \<times> work_thread) option" where
  "sslProcess N W =
     (if cn_exitStatus (wt_node W) = ExitCancel then Some (- InvalidExitStatus, W)
      else do {
        ret \<leftarrow> check_node N W;
        let n = wt_node W;
        if ret \<noteq> Success then Some (ret, W)
        else if u_isSsl (cn_url n) then
          (let r = n_sslHandshake N (cn_io n); n1 = tick n in
           if r = SSL_ERROR_WANT_READ \<or> r = SSL_ERROR_WANT_WRITE then
             (if \<not> cn_connectTimerFlag n1 then
                (if \<not> cn_connectTimerEvent n1 then Some (- EventEmpty, W\<lparr>wt_node := n1\<rparr>)
                 else Some (1, W\<lparr>wt_node := n1\<lparr>cn_connectTimerFlag := True\<rparr>\<rparr>))
              else
                (if \<not> cn_connectEvent n1 then Some (- EventEmpty, W\<lparr>wt_node := n1\<rparr>)
                 else Some (1, W\<lparr>wt_node := n1\<lparr>cn_connectTimerFlag := False\<rparr>\<rparr>)))
           else if r < 0 then
             Some (- SslHandshakeFailed, W\<lparr>wt_node := n1\<lparr>cn_nodeErrMsg := e_sslError (n_env N) (cn_io n1)\<rparr>\<rparr>)
           else handshaking N (W\<lparr>wt_node := n1\<rparr>))
        else handshaking N W
      })"

text \<open>A connection that succeeded, or waits, or failed: \<open>dns\<close> is \<open>dnsProcess\<close>.\<close>

definition request_or_destroy :: "'j net_env \<Rightarrow> work_thread \<Rightarrow> work_thread option" where
  "request_or_destroy N W =
     do {
       (ret, W1) \<leftarrow> nodeRequestProcess N W;
       if ret < 0 then destroyConnectNode N W1 else Some W1
     }"

definition connect_and_ssl :: "'j net_env \<Rightarrow> string \<Rightarrow> int \<Rightarrow> work_thread \<Rightarrow> (int \<times> work_thread) option" where
  "connect_and_ssl N ip family W =
     do {
       (ret, W1) \<leftarrow> connectProcess N ip family W;
       if ret = 0 then sslProcess N W1 else Some (ret, W1)
     }"

definition retry_dns :: "'j net_env \<Rightarrow> (string \<Rightarrow> work_thread \<Rightarrow> (int \<times> work_thread) option) \<Rightarrow>
    string \<Rightarrow> work_thread \<Rightarrow> work_thread option" where
  "retry_dns N dns directIp W =
     do {
       (ret, W1) \<leftarrow> dns directIp (on_node (\<lambda>n. setConnectNodeStatus NodeConnecting (do_disconnect (n_env N) n)) W);
       if ret < 0 then destroyConnectNode N W1 else Some W1
     }"

definition directConnect :: "'j net_env \<Rightarrow> (string \<Rightarrow> work_thread \<Rightarrow> (int \<times> work_thread) option) \<Rightarrow>
    string \<Rightarrow> work_thread \<Rightarrow> work_thread option" where
  "directConnect N dns ip W =
     do {
       (ret, W1) \<leftarrow> connect_and_ssl N ip AF_INET W;
       if ret = Success then request_or_destroy N W1
       else if ret = 1 then Some W1
       else retry_dns N dns ip (on_node clear_ip_cache W1)
     }"

text \<open>
  \<open>dnsProcess\<close> and \<open>directConnect\<close> call each other; each call of \<open>dnsProcess\<close> that goes on to connect counts
  one attempt, so five calls are enough (lemma below). The fuel is the number of calls.
\<close>

definition dns_body :: "'j net_env \<Rightarrow> (string \<Rightarrow> work_thread \<Rightarrow> (int \<times> work_thread) option) \<Rightarrow>
    string \<Rightarrow> work_thread \<Rightarrow> (int \<times> work_thread) option" where
  "dns_body N dns directIp W =
     do {
       W1 \<leftarrow> update_status N NodeStatusConnecting (on_node (setConnectNodeStatus NodeConnecting) W);
       (ok, n) \<leftarrow> parseUrlInformation directIp (wt_node W1);
       if \<not> ok then Some (- ParseUrlFailed, W1\<lparr>wt_node := n\<rparr>)
       else
         (let n1 = n\<lparr>cn_url := (cn_url n)\<lparr>u_enableSysGetAddr := wt_enableSysGetAddr W1\<rparr>\<rparr>; W2 = W1\<lparr>wt_node := n1\<rparr>;
              ip = cached_ip N n1 in
          if u_directIp (cn_url n1) then map_option (Pair Success) (directConnect N dns (u_address (cn_url n1)) W2)
          else if 0 < length ip then map_option (Pair Success) (directConnect N dns ip W2)
          else if wt_enableSysGetAddr W1 then
            Some (if n_native_getaddrinfo N (cn_io n1) \<noteq> Success then - GetAddrinfoFailed else Success, on_node tick W2)
          else if \<not> wt_dnsBase W2 then Some (- InvalidDnsSource, W2)
          else Some (if n_getaddrinfo N (cn_io n1) then Success else - InvalidDnsSource, on_node tick W2))
     }"

definition restart_interaction :: "'j net_env \<Rightarrow> work_thread \<Rightarrow> (int \<times> work_thread) option" where
  "restart_interaction N W =
     do {
       W1 \<leftarrow> update_status N NodeStatusRunning (on_node (setConnectNodeStatus NodeStarting) W);
       n \<leftarrow> start_command N (wt_node W1);
       let (result, n1) = nlsSendFrame (n_env N) CmdBuf True n;
       Some (if result < 0
             then (result, W1\<lparr>wt_node := do_close (n_env N)
                    (handlerTaskFailedEvent (n_env N) (c_str (cn_nodeErrMsg n1)) DefaultErrorCode n1)\<rparr>)
             else (Success, W1\<lparr>wt_node := n1\<rparr>))
     }"

fun dnsProcess :: "nat \<Rightarrow> 'j net_env \<Rightarrow> string \<Rightarrow> work_thread \<Rightarrow> (int \<times> work_thread) option" where
  "dnsProcess 0 N directIp W = None"
| "dnsProcess (Suc k) N directIp W =
     (if cn_exitStatus (wt_node W) = ExitCancel then Some (- InvalidExitStatus, W)
      else do {
        result \<leftarrow> check_node N W;
        if result \<noteq> Success then Some (result, W)
        else if cn_isLongConnection (wt_node W) \<and> cn_isConnected (wt_node W) then restart_interaction N W
        else
          (let (go, n) = checkConnectCount (wt_node W) in
           if \<not> go then
             Some (- ConnectFailed, W\<lparr>wt_node := handlerTaskFailedEvent (n_env N) ''connect failed.'' SysConnectFailed n\<rparr>)
           else dns_body N (dnsProcess k N) directIp (W\<lparr>wt_node := n\<rparr>))
      })"

abbreviation (input) dns_calls :: nat where "dns_calls \<equiv> 5"

definition do_dns :: "'j net_env \<Rightarrow> work_thread \<Rightarrow> (int \<times> work_thread) option" where
  "do_dns N W = dnsProcess dns_calls N (wt_directIp W) W"

section \<open>Callbacks\<close>

definition dns_or_destroy :: "'j net_env \<Rightarrow> work_thread \<Rightarrow> work_thread option" where
  "dns_or_destroy N W =
     do { (ret, W1) \<leftarrow> do_dns N W; if ret < 0 then destroyConnectNode N W1 else Some W1 }"

definition launchEventCallback :: "'j net_env \<Rightarrow> work_thread \<Rightarrow> work_thread option" where
  "launchEventCallback N W =
     do {
       result \<leftarrow> check_node N W;
       if result \<noteq> Success then Some W
       else if cn_exitStatus (wt_node W) = ExitCancel \<or> cn_exitStatus (wt_node W) = ExitStopping then
         Some (on_node (setConnectNodeStatus NodeInvoked) W)
       else dns_or_destroy N
         (on_node (\<lambda>n. updateParameters (setConnectNodeStatus NodeInvoked n)) (insertListNode (node_request N (wt_node W)) W))
     }"

datatype net_event = EV_TIMEOUT | EV_CLOSED | EV_READ | EV_WRITE | EV_OTHER nat

text \<open>After a failed connection or handshake.\<close>

definition reconnect_dns :: "'j net_env \<Rightarrow> work_thread \<Rightarrow> work_thread option" where
  "reconnect_dns N W =
     dns_or_destroy N (on_node (\<lambda>n. setConnectNodeStatus NodeConnecting (do_disconnect (n_env N) n)) W)"

text \<open>\<open>so_error\<close> is the error \<open>getsockopt\<close> reports. The inner result tells whether to go on to the failure label.\<close>

definition connect_check :: "'j net_env \<Rightarrow> int \<Rightarrow> work_thread \<Rightarrow> (bool \<times> work_thread) option" where
  "connect_check N so_error W =
     do {
       (failed, W1) \<leftarrow>
         (if cn_workStatus (wt_node W) = NodeConnecting then
            (if so_error = 0 then
               Some (False, on_node (\<lambda>n. (setConnectNodeStatus NodeConnected n)\<lparr>cn_isConnected := True\<rparr>) W)
             else map_option (\<lambda>(r, W'). (r < 0, W')) (socketConnect N W))
          else Some (False, W));
       if failed then Some (True, W1)
       else if cn_workStatus (wt_node W1) = NodeConnected then
         do {
           (ret, W2) \<leftarrow> sslProcess N W1;
           if ret = 0 then map_option (Pair False) (request_or_destroy N W2) else Some (ret \<noteq> 1, W2)
         }
       else Some (False, W1)
     }"

definition connectEventCallback :: "'j net_env \<Rightarrow> net_event \<Rightarrow> int \<Rightarrow> work_thread \<Rightarrow> work_thread option" where
  "connectEventCallback N event so_error W =
     do {
       (failed, W1) \<leftarrow> (if event = EV_TIMEOUT \<or> event = EV_CLOSED then Some (True, W) else connect_check N so_error W);
       if failed then reconnect_dns N (on_node clear_ip_cache W1) else Some W1
     }"

definition connectTimerEventCallback :: "'j net_env \<Rightarrow> net_event \<Rightarrow> int \<Rightarrow> work_thread \<Rightarrow> work_thread option" where
  "connectTimerEventCallback N event so_error W =
     do {
       (failed, W1) \<leftarrow> (if event = EV_CLOSED then Some (True, W) else connect_check N so_error W);
       if failed then reconnect_dns N W1 else Some W1
     }"

definition ev_code :: "net_event \<Rightarrow> nat" where
  "ev_code ev = (case ev of EV_TIMEOUT \<Rightarrow> 1 | EV_READ \<Rightarrow> 2 | EV_WRITE \<Rightarrow> 4 | EV_CLOSED \<Rightarrow> 128 | EV_OTHER k \<Rightarrow> k)"

definition hex2 :: "nat \<Rightarrow> string" where
  "hex2 k = (let d = (\<lambda>i. ''0123456789abcdef'' ! (i mod 16)) in [d (k div 16), d k])"

definition event_failed :: "'j net_env \<Rightarrow> string \<Rightarrow> int \<Rightarrow> work_thread \<Rightarrow> work_thread" where
  "event_failed N msg code W =
     on_node (\<lambda>n. handlerTaskFailedEvent (n_env N) (fst (snprintf 511 msg)) code (do_close (n_env N) n)) W"

definition sock_error :: "'j net_env \<Rightarrow> work_thread \<Rightarrow> string" where
  "sock_error N W = e_sockError (n_env N) (cn_io (wt_node W))"

definition unknown_event :: "'j net_env \<Rightarrow> net_event \<Rightarrow> work_thread \<Rightarrow> work_thread" where
  "unknown_event N what W =
     event_failed N (''Unknown event:'' @ hex2 (ev_code what) @ ''. '' @ sock_error N W) EvUnknownEvent W"

definition readEventCallBack :: "'j net_env \<Rightarrow> net_event \<Rightarrow> work_thread \<Rightarrow> work_thread option" where
  "readEventCallBack N what W =
     do {
       result \<leftarrow> check_node N W;
       if result \<noteq> Success then Some W
       else if cn_exitStatus (wt_node W) = ExitCancel then Some (on_node (do_close (n_env N)) W)
       else if what = EV_READ then
         do {
           (ret, W1) \<leftarrow> nodeResponseProcess N W;
           Some (if ret = - InvalidRequest then on_node (do_close (n_env N)) W1 else W1)
         }
       else if what = EV_TIMEOUT then
         Some (event_failed N (''Recv timeout. socket error:'' @ sock_error N W @ ''.'') EvRecvTimeout W)
       else Some (unknown_event N what W)
     }"

definition writeEventCallBack :: "'j net_env \<Rightarrow> net_event \<Rightarrow> work_thread \<Rightarrow> work_thread option" where
  "writeEventCallBack N what W =
     do {
       result \<leftarrow> check_node N W;
       if result \<noteq> Success then Some W
       else if cn_exitStatus (wt_node W) = ExitCancel then Some (on_node (do_close (n_env N)) W)
       else do {
         W1 \<leftarrow>
           (if what = EV_WRITE then map_option snd (nodeRequestProcess N W)
            else if what = EV_TIMEOUT then
              Some (event_failed N (''Send timeout. socket error:'' @ sock_error N W) EvSendTimeout W)
            else Some (unknown_event N what W));
         if cn_workStatus (wt_node W1) = NodeInvalid then destroyConnectNode N W1 else Some W1
       }
     }"

text \<open>The addresses a resolution gave, each with its family and its text, \<open>None\<close> when \<open>evutil_inet_ntop\<close> fails.
  The first address of a known family decides.\<close>

fun dns_addresses :: "'j net_env \<Rightarrow> (int \<times> string option) list \<Rightarrow> work_thread \<Rightarrow> work_thread option" where
  "dns_addresses N [] W = Some W"
| "dns_addresses N ((family, text) # adrs) W =
     (case text of
        None \<Rightarrow> dns_addresses N adrs W
      | Some ip \<Rightarrow>
          if family = AF_INET \<or> family = AF_INET6 then
            do {
              (ret, W1) \<leftarrow> connect_and_ssl N ip family
                (on_node (\<lambda>n. n\<lparr>cn_ipCache := setIpCache (Some (request_url n)) (Some ip) (cn_ipCache n)\<rparr>) W);
              if ret = 0 then request_or_destroy N W1
              else if ret = 1 then Some W1
              else reconnect_dns N W1
            }
          else dns_addresses N adrs W)"

definition dnsEventCallback :: "'j net_env \<Rightarrow> int \<Rightarrow> (int \<times> string option) list \<Rightarrow> work_thread \<Rightarrow> work_thread option" where
  "dnsEventCallback N errorCode address W =
     do {
       (ret, status) \<leftarrow> checkNodeExist (e_heap (n_env N)) (wt_registry W) (cn_addr (wt_node W));
       if ret \<noteq> Success then Some W
       else if (case status of None \<Rightarrow> False | Some s \<Rightarrow> NodeStatusCancelling \<le> s) then destroyConnectNode N W
       else if errorCode \<noteq> 0 then dns_or_destroy N (on_node (setConnectNodeStatus NodeConnecting) W)
       else dns_addresses N address W
     }"

section \<open>Connection attempts are bounded\<close>

text \<open>What connecting never changes: the count of attempts, which only \<open>dnsProcess\<close> and a \<open>Close\<close> event set.\<close>

definition tries :: "work_thread \<Rightarrow> nat" where
  "tries W = cn_retryConnectCount (wt_node W)"

lemma tries_simps [simp]:
  "tries (on_node tick W) = tries W" "tries (on_node clear_ip_cache W) = tries W"
  "tries (on_node (setConnectNodeStatus s) W) = tries W"
  "tries (on_node (\<lambda>n. setConnectNodeStatus s (do_disconnect E n)) W) = tries W"
  by (simp_all add: tries_def on_node_def tick_def clear_ip_cache_def setConnectNodeStatus_def do_disconnect_def
      disconnectProcess_def close_socket_def Let_def)

lemma tries_update_status: "update_status N st W = Some W' \<Longrightarrow> tries W' = tries W"
  by (auto simp: update_status_def tries_def)

lemma tries_handshaking: "handshaking N W = Some (r, W') \<Longrightarrow> tries W' = tries W"
  by (auto simp: handshaking_def dest!: tries_update_status)

lemma tries_socketConnect: "socketConnect N W = Some (r, W') \<Longrightarrow> tries W' = tries W"
  by (auto simp: socketConnect_def bind_eq_Some_conv Let_def tick_def clear_ip_cache_def setConnectNodeStatus_def
      tries_def on_node_def update_status_def split: if_splits prod.splits)

lemma tries_make_events: "\<forall>(has, mk) \<in> set es. \<forall>n. cn_retryConnectCount (mk n) = cn_retryConnectCount n \<Longrightarrow>
    cn_retryConnectCount (snd (make_events N es n)) = cn_retryConnectCount n"
  by (induction N es n rule: make_events.induct) (auto simp: tick_def)

lemma tries_node_events [simp]: "cn_retryConnectCount (snd (make_events N node_events n)) = cn_retryConnectCount n"
  by (rule tries_make_events) (simp add: node_events_def)

lemma tries_connectProcess: "connectProcess N ip f W = Some (r, W') \<Longrightarrow> tries W' = tries W"
proof -
  assume a: "connectProcess N ip f W = Some (r, W')"
  obtain ok n2 where m: "make_events N node_events (tick (wt_node W)) = (ok, n2)" by fastforce
  then have "cn_retryConnectCount n2 = cn_retryConnectCount (wt_node W)"
    using tries_node_events [of N "tick (wt_node W)"] by (simp add: tick_def)
  then show ?thesis
    using a m by (auto simp: connectProcess_def Let_def tries_def tick_def dest!: tries_socketConnect split: if_splits)
qed

lemma tries_sslProcess: "sslProcess N W = Some (r, W') \<Longrightarrow> tries W' = tries W"
  by (auto simp: sslProcess_def bind_eq_Some_conv Let_def tick_def dest!: tries_handshaking split: if_splits)
    (auto simp: tries_def)

lemma tries_connect_and_ssl: "connect_and_ssl N ip f W = Some (r, W') \<Longrightarrow> tries W' = tries W"
  by (auto simp: connect_and_ssl_def bind_eq_Some_conv dest!: tries_connectProcess tries_sslProcess split: if_splits)

lemma directConnect_cong:
  assumes "\<And>d W'. tries W' = tries W \<Longrightarrow> f d W' = g d W'"
  shows "directConnect N f ip W = directConnect N g ip W"
proof (cases "connect_and_ssl N ip AF_INET W")
  case (Some a)
  obtain r W1 where a: "a = (r, W1)" by fastforce
  with Some have "tries W1 = tries W" using tries_connect_and_ssl by blast
  with Some a assms show ?thesis by (simp add: directConnect_def retry_dns_def)
qed (simp add: directConnect_def)

lemma dns_body_cong:
  assumes "\<And>d W'. tries W' = tries W \<Longrightarrow> f d W' = g d W'"
  shows "dns_body N f d W = dns_body N g d W"
proof -
  have parse: "parseUrlInformation d n = Some (b, n') \<Longrightarrow> cn_retryConnectCount n' = cn_retryConnectCount n" for n b n'
    by (auto simp: parseUrlInformation_def Let_def split: option.splits if_splits prod.splits)
  show ?thesis
  proof (cases "update_status N NodeStatusConnecting (on_node (setConnectNodeStatus NodeConnecting) W)")
    case (Some W1)
    then have 1: "tries W1 = tries W" using tries_update_status by fastforce
    show ?thesis
    proof (cases "parseUrlInformation d (wt_node W1)")
      case (Some a)
      obtain b n' where a: "a = (b, n')" by fastforce
      have "tries (W1\<lparr>wt_node := n'\<lparr>cn_url := u\<rparr>\<rparr>) = tries W" for u
        using 1 parse [of "wt_node W1" b n'] Some a by (simp add: tries_def)
      then have "directConnect N f ip (W1\<lparr>wt_node := n'\<lparr>cn_url := u\<rparr>\<rparr>) = directConnect N g ip (W1\<lparr>wt_node := n'\<lparr>cn_url := u\<rparr>\<rparr>)"
        for ip u using assms by (intro directConnect_cong) simp
      with Some a \<open>update_status _ _ _ = Some W1\<close> show ?thesis by (simp add: dns_body_def Let_def)
    qed (simp add: dns_body_def Some)
  qed (simp add: dns_body_def)
qed

text \<open>Connecting ends: \<open>dnsProcess\<close> and \<open>directConnect\<close>, which call each other after every failed connection or
  handshake, make at most four attempts; five nested calls are always enough, and more give the same result.\<close>

theorem connect_attempts_bounded:
  assumes "5 \<le> k"
  shows "dnsProcess k N ip W = dnsProcess 5 N ip W"
proof -
  have any: "dnsProcess k N ip W = dnsProcess j N ip W" if "4 - tries W < k" "4 - tries W < j" for k j ip W
    using that
  proof (induction k arbitrary: j ip W)
    case (Suc k)
    from Suc.prems(2) obtain i where j: "j = Suc i" by (cases j) auto
    have "dns_body N (dnsProcess k N) ip (W\<lparr>wt_node := n\<rparr>) = dns_body N (dnsProcess i N) ip (W\<lparr>wt_node := n\<rparr>)"
      if "checkConnectCount (wt_node W) = (True, n)" for n
    proof -
      from that have "tries (W\<lparr>wt_node := n\<rparr>) = tries W + 1" "tries W < 4"
        by (auto simp: checkConnectCount_def tries_def split: if_splits)
      with Suc.prems j show ?thesis by (intro dns_body_cong Suc.IH) auto
    qed
    then show ?case
      by (cases "checkConnectCount (wt_node W)"; cases "check_node N W") (auto simp: j Let_def)
  qed simp
  show ?thesis by (rule any) (use assms in auto)
qed

section \<open>A cancelled node is silent\<close>

definition cancelled :: "work_thread \<Rightarrow> bool" where
  "cancelled W \<longleftrightarrow> cn_exitStatus (wt_node W) = ExitCancel"

definition seen :: "work_thread \<Rightarrow> NlsEvent list" where
  "seen W = cn_callbacks (wt_node W)"

text \<open>No event is added, the exit status and the mode stay, and the request is at most reset.\<close>

definition hushed :: "conn_node \<Rightarrow> conn_node \<Rightarrow> bool" where
  "hushed n n' \<longleftrightarrow> cn_exitStatus n' = cn_exitStatus n \<and> cn_callbacks n' = cn_callbacks n
     \<and> cn_isLongConnection n' = cn_isLongConnection n \<and> (cn_request n' = cn_request n \<or> cn_request n' = None)"

named_theorems hush \<open>operations that add no event and leave the exit status alone\<close>

lemma hushed_refl [simp]: "hushed n n" by (simp add: hushed_def)

lemma hushed_trans [trans]: "hushed a b \<Longrightarrow> hushed b c \<Longrightarrow> hushed a c" by (auto simp: hushed_def)

lemma hushed_simple [hush]:
  "hushed n (tick n)" "hushed n (setConnectNodeStatus s n)" "hushed n (clear_ip_cache n)"
  "hushed n (n\<lparr>cn_io := io\<rparr>)" "hushed n (n\<lparr>cn_isStop := b\<rparr>)" "hushed n (n\<lparr>cn_cmdEvBuffer := bs\<rparr>)"
  "hushed n (n\<lparr>cn_isConnected := b\<rparr>)" "hushed n (n\<lparr>cn_request := None\<rparr>)" "hushed n (n\<lparr>cn_readEvBuffer := bs\<rparr>)"
  "hushed n (snd (updateDestroyStatus n))" "hushed n (updateParameters n)" "hushed n (addCmdDataBuffer E t m n)"
  "hushed n (mark_first E a n)" "hushed n (set_buf b' bs n)" "hushed n (n\<lparr>cn_ipCache := ic\<rparr>)"
  by (auto simp: hushed_def tick_def setConnectNodeStatus_def clear_ip_cache_def updateDestroyStatus_def updateParameters_def
      addCmdDataBuffer_def mark_first_def now_def set_buf_def Let_def split: option.split evbuf.split)

lemma hushed_close [hush]: "hushed n (do_close E n)" "hushed n (do_disconnect E n)"
  using coreD(1,2,4) [OF core_do_close, of E n] coreD(1,2,4) [OF core_do_disconnect, of E n] by (simp_all add: hushed_def)

lemma hushed_nlsSend [hush]: "hushed n (snd (nlsSend E f n))"
  by (simp add: hushed_def nlsSend_def socketWrite_def sslWrite_def Let_def split: prod.split)

lemma hushed_nlsReceive [hush]: "hushed n (snd (nlsReceive E k n))"
  by (simp add: hushed_def nlsReceive_def socketRead_def sslRead_def Let_def split: prod.split)

lemma hushed_nlsSendFrame [hush]: "hushed n (snd (nlsSendFrame E b a n))"
proof -
  obtain r n1 where s: "nlsSend E (take 2048 (get_buf b n)) n = (r, n1)" by fastforce
  then have "hushed n n1" using hushed_nlsSend [of n E "take 2048 (get_buf b n)"] by simp
  moreover have "hushed n1 (set_buf b bs (mark_first E a n1))" for bs
    by (rule hushed_trans; rule hush)
  ultimately show ?thesis using hushed_trans by (auto simp: nlsSendFrame_def Let_def s)
qed

lemma hushed_sendControlDirective [hush]: "hushed n (snd (sendControlDirective E n))"
proof -
  have "hushed n ((snd (nlsSendFrame E CmdBuf True (addCmdDataBuffer E CmdStop [] n)))\<lparr>cn_isStop := True\<rparr>)"
    by (rule hushed_trans [OF hushed_trans]; rule hush)
  then show ?thesis by (simp add: sendControlDirective_def case_prod_beta hush)
qed

lemma handlerEvent_cancelled [simp]: "cn_exitStatus n = ExitCancel \<Longrightarrow> handlerEvent E m c t n = n"
  by (simp add: handlerEvent_def)

lemma failed_cancelled: "cn_exitStatus n = ExitCancel \<Longrightarrow> hushed n (handlerTaskFailedEvent E info code n)"
  by (simp add: handlerTaskFailedEvent_def close_event_def hushed_def split: prod.split)

lemma hushed_gatewayRequest: "gatewayRequest E n = Some (r, n') \<Longrightarrow> hushed n n'"
  by (auto simp: gatewayRequest_def hushed_def Let_def split: option.splits if_splits prod.splits)

lemma hushed_gatewayResponse: "gatewayResponse E n = Some (r, n') \<Longrightarrow> hushed n n'"
proof -
  assume a: "gatewayResponse E n = Some (r, n')"
  obtain len n1 where r: "nlsReceive E ReadBufferSize n = (len, n1)" by fastforce
  then have "hushed n n1" using hushed_nlsReceive [of n E ReadBufferSize] by simp
  with a r show ?thesis
    by (auto simp: gatewayResponse_def hushed_def Let_def split: option.splits if_splits prod.splits)
qed

lemma parseFrame_cancelled:
  assumes "cn_exitStatus n = ExitCancel" and "parseFrame E mem fr n = Some (r, n')"
  shows "hushed n n'"
proof (cases "cn_request n")
  case None
  with assms show ?thesis by (simp add: parseFrame_def)
next
  case (Some rp)
  have conv: "convertResult E mem fr n = Some (r, x, m) \<Longrightarrow> m = n" for r x m
    using assms(1) by (auto simp: convertResult_def Let_def split: option.splits if_splits prod.splits)
  have dl: "deliver E rp e n = (- InvalidExitStatus, n)" for e using assms(1) by (simp add: deliver_def)
  have close: "hushed n (close_event E (do_close E n))"
    using assms(1) hushed_close(1) [of n E] by (simp add: close_event_def hushed_def)
  show ?thesis
    using assms Some close hushed_close(1) [of n E]
    by (auto simp: parseFrame_def Let_def dl dest!: conv split: if_splits option.splits prod.splits)
qed

lemma ws_round_cancelled:
  assumes "cn_exitStatus n = ExitCancel" and "ws_round E R mem n = Some (r, go, mem', n')"
  shows "hushed n n'"
proof -
  let ?k = "length (cn_readEvBuffer n)"
  show ?thesis
  proof (cases "?k = 0 \<or> ReadBufferSize < ?k \<and> \<not> e_calloc E (?k + 1)")
    case True
    then have "\<exists>r. ws_round E R mem n = Some (r, False, mem, n)"
      by (cases "?k = 0") (simp_all add: ws_round_def)
    with assms(2) show ?thesis by auto
  next
    case run: False
    with assms(2) obtain rc st ws frame fr where
      rf: "receiveFullWebSocketFrame (cn_rStatus n) (cn_readEvBuffer n) ?k (cn_wsType n) wf_zero = Some (rc, st, ws, frame, fr)"
      by (auto simp: ws_round_def Let_def split: option.splits)
    let ?n1 = "n\<lparr>cn_rStatus := st, cn_wsType := ws\<rparr>"
    let ?fr = "if ws_opCode ws = PONG then fr\<lparr>wf_type := ws_opCode ws\<rparr> else fr"
    let ?mem = "frame @ drop ?k (copyout (cn_readEvBuffer n) mem)"
    show ?thesis
    proof (cases "rc \<noteq> Success \<or> cn_releasingFlag n")
      case True
      with run rf have "\<exists>r. ws_round E R mem n = Some (r, False, ?mem, ?n1)"
        by (cases "rc = Success") (auto simp: ws_round_def Let_def)
      with assms(2) show ?thesis by (auto simp: hushed_def)
    next
      case False
      with run rf assms(2) obtain x n2 where pf: "parseFrame E ?mem ?fr ?n1 = Some (x, n2)"
        by (auto simp: ws_round_def Let_def split: option.splits)
      with assms(1) have "hushed n n2"
        using parseFrame_cancelled [of ?n1 E ?mem ?fr x n2] by (simp add: hushed_def)
      moreover have "n' = n2 \<or> n' = n2\<lparr>cn_readEvBuffer := drop (unat (wf_length ?fr + of_nat (ws_headerSize ws))) (cn_readEvBuffer n2)\<rparr>"
        using False run rf pf assms(2) by (simp add: ws_round_def Let_def split: if_splits)
      ultimately show ?thesis by (auto simp: hushed_def)
    qed
  qed
qed

lemma ws_loop_cancelled:
  "cn_exitStatus n = ExitCancel \<Longrightarrow> ws_loop k E R mem n = Some (r, n') \<Longrightarrow> hushed n n'"
proof (induction k arbitrary: mem n)
  case (Suc k)
  from Suc.prems(2) obtain r1 go mem1 n1 where 1: "ws_round E R mem n = Some (r1, go, mem1, n1)"
    by (auto split: option.splits)
  from ws_round_cancelled [OF Suc.prems(1) this] have h: "hushed n n1" .
  with Suc.prems(1) have "cn_exitStatus n1 = ExitCancel" by (simp add: hushed_def)
  with Suc 1 h hushed_trans [OF h] show ?case by (auto split: if_splits)
qed simp

lemma webSocketResponse_cancelled:
  assumes "cn_exitStatus n = ExitCancel" and "webSocketResponse E R n = Some (r, n')"
  shows "hushed n n'"
proof -
  obtain len n1 where 1: "nlsReceive E ReadBufferSize n = (len, n1)" by fastforce
  then have h: "hushed n n1" using hushed_nlsReceive [of n E ReadBufferSize] by simp
  then have "cn_exitStatus n1 = ExitCancel" using assms(1) by (simp add: hushed_def)
  with assms(2) 1 h hushed_trans [OF h ws_loop_cancelled] show ?thesis
    by (auto simp: webSocketResponse_def simp del: ws_loop.simps split: if_splits)
qed

definition silent :: "work_thread \<Rightarrow> work_thread \<Rightarrow> bool" where
  "silent W W' \<longleftrightarrow> hushed (wt_node W) (wt_node W')"

lemma silent_simps [simp]: "silent W W" "silent W (W\<lparr>wt_node := n\<rparr>) \<longleftrightarrow> hushed (wt_node W) n"
  "silent W (W1\<lparr>wt_node := n\<rparr>) \<longleftrightarrow> hushed (wt_node W) n"
  "silent W (W1\<lparr>wt_registry := R\<rparr>) \<longleftrightarrow> silent W W1" "silent W (W1\<lparr>wt_nodeList := l\<rparr>) \<longleftrightarrow> silent W W1"
  "silent W (on_node f W1) \<longleftrightarrow> hushed (wt_node W) (f (wt_node W1))"
  by (simp_all add: silent_def on_node_def)

lemma silent_trans [trans]: "silent a b \<Longrightarrow> silent b c \<Longrightarrow> silent a c"
  unfolding silent_def by (rule hushed_trans)

lemma silentD: "silent W W' \<Longrightarrow> cancelled W \<Longrightarrow> cancelled W' \<and> seen W' = seen W"
  by (simp add: silent_def hushed_def cancelled_def seen_def)

lemma destroyConnectNode_silent: "destroyConnectNode N W = Some W' \<Longrightarrow> silent W W'"
  using hushed_simple(10) [of "wt_node W"]
  by (auto simp: destroyConnectNode_def freeListNode_def Let_def bind_eq_Some_conv hushed_def updateDestroyStatus_def
      silent_def split: if_splits prod.splits)

lemma hush_into:
  assumes "hushed n m"
  shows "hushed n (snd (nlsSendFrame E b a m))" "hushed n (snd (sendControlDirective E m))"
    "hushed n (addCmdDataBuffer E t x m)" "hushed n (setConnectNodeStatus s m)" "hushed n (do_close E m)"
    "hushed n (do_disconnect E m)" "hushed n (tick m)" "hushed n (clear_ip_cache m)"
  by (rule hushed_trans [OF assms], rule hush)+

lemma request_send_hushed:
  assumes "request_send N n = Some (r, n')"
  shows "hushed n n'"
proof -
  note frame = hush_into(1) [OF hushed_refl] and frames = hush_into(1) [OF hush_into(3) [OF hush_into(1) [OF hushed_refl]]]
    and direct = hush_into(2) [OF hush_into(1) [OF hushed_refl]]
  show ?thesis
  proof (cases "cn_workStatus n = NodeHandshaking")
    case True
    with assms obtain x n1 where g: "gatewayRequest (n_env N) n = Some (x, n1)"
      and n': "n' = setConnectNodeStatus NodeHandshaked (snd (nlsSendFrame (n_env N) CmdBuf True n1))"
      by (auto simp: request_send_def Let_def bind_eq_Some_conv case_prod_beta)
    show ?thesis unfolding n' by (intro hush_into hushed_gatewayRequest [OF g])
  next
    case False
    then have "n' = n \<or> n' = snd (nlsSendFrame (n_env N) CmdBuf True n) \<or> n' = snd (nlsSendFrame (n_env N) WwvBuf True n)
        \<or> n' = snd (nlsSendFrame (n_env N) BinaryBuf True n)
        \<or> n' = snd (nlsSendFrame (n_env N) CmdBuf True (addCmdDataBuffer (n_env N) CmdWarkWord [] (snd (nlsSendFrame (n_env N) WwvBuf True n))))
        \<or> n' = snd (sendControlDirective (n_env N) (snd (nlsSendFrame (n_env N) BinaryBuf True n)))"
      using assms by (cases "cn_workStatus n") (auto simp: request_send_def Let_def case_prod_beta split: if_splits)
    then show ?thesis using frame frames direct by fastforce
  qed
qed

lemma nodeRequestProcess_silent:
  assumes "cancelled W" and "nodeRequestProcess N W = Some (r, W')"
  shows "silent W W'"
proof -
  have fin: "hushed (wt_node W) (do_close E (handlerTaskFailedEvent E i c n))" if "hushed (wt_node W) n"
    for E :: "'a env" and i c n
    using that assms(1) hushed_trans [OF hushed_trans [OF that failed_cancelled] hushed_close(1)]
    by (simp add: cancelled_def hushed_def)
  show ?thesis
    using assms(2)
    by (auto simp: nodeRequestProcess_def bind_eq_Some_conv split: if_splits dest!: request_send_hushed intro: fin)
qed

lemma connecting_cancelled:
  assumes "cancelled W"
  shows "connectProcess N ip f W = Some (- InvalidExitStatus, W)" "sslProcess N W = Some (- InvalidExitStatus, W)"
    "connect_and_ssl N ip f W = Some (- InvalidExitStatus, W)" "do_dns N W = Some (- InvalidExitStatus, W)"
  using assms
  by (simp_all add: connectProcess_def sslProcess_def connect_and_ssl_def do_dns_def cancelled_def eval_nat_numeral)

lemma socketConnect_cancelled: "cancelled W \<Longrightarrow> socketConnect N W = Some (r, W') \<Longrightarrow> W' = W"
  by (auto simp: socketConnect_def cancelled_def bind_eq_Some_conv Let_def split: if_splits)

lemma cancelled_on_node: "hushed (wt_node W) (f (wt_node W)) \<Longrightarrow> cancelled W \<Longrightarrow> cancelled (on_node f W)"
  by (simp add: cancelled_def on_node_def hushed_def)

lemma dns_or_destroy_cancelled: "cancelled W \<Longrightarrow> dns_or_destroy N W = Some W' \<Longrightarrow> silent W W'"
  by (auto simp: dns_or_destroy_def connecting_cancelled bind_eq_Some_conv dest: destroyConnectNode_silent)

lemma silent_on_nodeI: "hushed (wt_node W) (f (wt_node W)) \<Longrightarrow> silent (on_node f W) W' \<Longrightarrow> silent W W'"
  by (auto simp: silent_def on_node_def intro: hushed_trans)

lemma reconnect_dns_cancelled: "cancelled W \<Longrightarrow> reconnect_dns N W = Some W' \<Longrightarrow> silent W W'"
  unfolding reconnect_dns_def
  by (rule silent_on_nodeI [OF _ dns_or_destroy_cancelled [OF cancelled_on_node]])
    (auto intro: hush_into(4,6) hushed_refl)

lemma event_failed_cancelled: "cancelled W \<Longrightarrow> silent W (event_failed N msg code W)"
  using hushed_trans [OF hushed_close(1) failed_cancelled, of "n_env N" "wt_node W"] hushed_close(1) [of "wt_node W" "n_env N"]
  by (simp add: event_failed_def cancelled_def hushed_def)

lemma connect_check_cancelled:
  assumes "cancelled W" and "connect_check N e W = Some (failed, W')"
  shows "silent W W' \<and> cancelled W'"
proof -
  let ?W1 = "on_node (\<lambda>n. (setConnectNodeStatus NodeConnected n)\<lparr>cn_isConnected := True\<rparr>) W"
  have h: "hushed (wt_node W) ((setConnectNodeStatus NodeConnected (wt_node W))\<lparr>cn_isConnected := True\<rparr>)"
    by (rule hushed_trans; rule hush)
  have 1: "silent W ?W1" "cancelled ?W1" using h assms(1) by (simp_all add: silent_def cancelled_def on_node_def hushed_def)
  obtain f1 W1 where first: "(if cn_workStatus (wt_node W) = NodeConnecting then
      (if e = 0 then Some (False, ?W1) else map_option (\<lambda>(r, W'). (r < 0, W')) (socketConnect N W))
      else Some (False, W)) = Some (f1, W1)"
    using assms(2) by (auto simp: connect_check_def bind_eq_Some_conv)
  then have W1: "silent W W1" "cancelled W1"
    using 1 assms(1) by (auto dest!: socketConnect_cancelled [OF assms(1)] split: if_splits)
  with assms(2) first have "W' = W1"
    by (auto simp: connect_check_def connecting_cancelled split: if_splits)
  with W1 show ?thesis by simp
qed

lemma reconnect_cleared:
  assumes "cancelled V" and "reconnect_dns N (on_node clear_ip_cache V) = Some U"
  shows "silent V U"
proof -
  have "cancelled (on_node clear_ip_cache V)"
    using assms(1) by (simp add: cancelled_def on_node_def clear_ip_cache_def)
  from reconnect_dns_cancelled [OF this assms(2)] show ?thesis
    by (simp add: silent_def on_node_def hushed_def clear_ip_cache_def)
qed

lemma connectEventCallback_silent:
  assumes "cancelled W" and "connectEventCallback N ev e W = Some W'"
  shows "silent W W'"
proof -
  from assms(2) obtain f W1 where 1: "(if ev = EV_TIMEOUT \<or> ev = EV_CLOSED then Some (True, W) else connect_check N e W) = Some (f, W1)"
    "(if f then reconnect_dns N (on_node clear_ip_cache W1) else Some W1) = Some W'"
    by (auto simp: connectEventCallback_def bind_eq_Some_conv)
  have "silent W W1" "cancelled W1"
    using 1(1) assms(1) connect_check_cancelled [OF assms(1), of N e f W1] by (auto split: if_splits)
  with 1(2) reconnect_cleared [of W1 N W'] silent_trans show ?thesis by (auto split: if_splits)
qed

lemma connectTimerEventCallback_silent:
  assumes "cancelled W" and "connectTimerEventCallback N ev e W = Some W'"
  shows "silent W W'"
proof -
  from assms(2) obtain f W1 where 1: "(if ev = EV_CLOSED then Some (True, W) else connect_check N e W) = Some (f, W1)"
    "(if f then reconnect_dns N W1 else Some W1) = Some W'"
    by (auto simp: connectTimerEventCallback_def bind_eq_Some_conv)
  have "silent W W1" "cancelled W1"
    using 1(1) assms(1) connect_check_cancelled [OF assms(1), of N e f W1] by (auto split: if_splits)
  with 1(2) reconnect_dns_cancelled [of W1 N W'] silent_trans show ?thesis by (auto split: if_splits)
qed

lemma launchEventCallback_silent:
  assumes "cancelled W" and "launchEventCallback N W = Some W'"
  shows "silent W W'"
  using assms by (auto simp: launchEventCallback_def bind_eq_Some_conv cancelled_def hush split: if_splits)

lemma read_write_silent:
  assumes "cancelled W"
  shows "readEventCallBack N ev W = Some W' \<Longrightarrow> silent W W'" "writeEventCallBack N ev W = Some W' \<Longrightarrow> silent W W'"
  using assms
  by (auto simp: readEventCallBack_def writeEventCallBack_def bind_eq_Some_conv cancelled_def hush split: if_splits)

lemma dns_addresses_cancelled: "cancelled W \<Longrightarrow> dns_addresses N adrs W = Some W' \<Longrightarrow> silent W W'"
proof (induction N adrs W rule: dns_addresses.induct)
  case (2 N family ip_text adrs W)
  let ?cache = "\<lambda>ip n. n\<lparr>cn_ipCache := setIpCache (Some (request_url n)) (Some ip) (cn_ipCache n)\<rparr>"
  have c: "cancelled (on_node (?cache ip) W)" for ip using "2.prems"(1) by (simp add: cancelled_def on_node_def)
  have "reconnect_dns N (on_node (?cache ip) W) = Some W' \<Longrightarrow> silent W W'" for ip
    using reconnect_dns_cancelled [OF c, of N ip W'] by (simp add: silent_def on_node_def hushed_def)
  with 2 show ?case
    by (auto simp: connecting_cancelled [OF c] split: option.splits if_splits)
qed simp

lemma dnsEventCallback_silent:
  assumes "cancelled W" and "dnsEventCallback N code adrs W = Some W'"
  shows "silent W W'"
proof -
  have "dns_or_destroy N (on_node (setConnectNodeStatus NodeConnecting) W) = Some W' \<Longrightarrow> silent W W'"
    using dns_or_destroy_cancelled [of "on_node (setConnectNodeStatus NodeConnecting) W" N W'] assms(1)
    by (simp add: silent_def on_node_def hushed_def setConnectNodeStatus_def cancelled_def)
  with assms dns_addresses_cancelled [OF assms(1)] show ?thesis
    by (auto simp: dnsEventCallback_def bind_eq_Some_conv split: if_splits dest: destroyConnectNode_silent)
qed

text \<open>A response that was being processed when the cancel came: silent unless it is the first response of a speech
  synthesis, for which an event is made up.\<close>

lemma start_command_hushed: "start_command N n = Some n' \<Longrightarrow> hushed n n'"
  by (auto simp: start_command_def hush)

lemma not_fake: "(\<forall>rp. cn_request n = Some rp \<longrightarrow> rp_requestType rp \<noteq> SpeechSynthesizer) \<Longrightarrow> sendFakeSynthesisStarted E m n = n"
  by (auto simp: sendFakeSynthesisStarted_def split: option.split)

definition no_synthesis :: "conn_node \<Rightarrow> bool" where
  "no_synthesis n \<longleftrightarrow> (\<forall>rp. cn_request n = Some rp \<longrightarrow> rp_requestType rp \<noteq> SpeechSynthesizer)"

lemma request_kept:
  "cn_request (snd (nlsSendFrame E b a n)) = cn_request n" "cn_request (addCmdDataBuffer E t m n) = cn_request n"
  "cn_request (setConnectNodeStatus s n) = cn_request n"
  using sendingD(1) [OF sending_nlsSendFrame] sendingD(1) [OF sending_addCmdDataBuffer]
  by (blast, blast, simp add: setConnectNodeStatus_def)

lemma gatewayResponse_request: "gatewayResponse E n = Some (r, n') \<Longrightarrow> cn_request n' = cn_request n"
proof -
  assume a: "gatewayResponse E n = Some (r, n')"
  obtain len n1 where r: "nlsReceive E ReadBufferSize n = (len, n1)" by fastforce
  then have "cn_request n1 = cn_request n"
    by (auto simp: nlsReceive_def socketRead_def sslRead_def Let_def split: prod.splits if_splits)
  with a r show ?thesis by (auto simp: gatewayResponse_def Let_def split: option.splits if_splits prod.splits)
qed

lemma response_receive_cancelled:
  assumes "cn_exitStatus n = ExitCancel" and "no_synthesis n" and "response_receive N R n = Some (r, d, n')"
  shows "hushed n n'"
proof -
  note ws = webSocketResponse_cancelled [OF assms(1), of "n_env N" R]
  consider (hand) "cn_workStatus n = NodeHandshaking \<or> cn_workStatus n = NodeHandshaked"
    | (start) "cn_workStatus n = NodeStarting \<or> cn_workStatus n = NodeWakeWording"
    | (other) "cn_workStatus n \<notin> {NodeHandshaking, NodeHandshaked, NodeStarting, NodeWakeWording}" by auto
  then show ?thesis
  proof cases
    case hand
    with assms(3) obtain ret n1 where g: "gatewayResponse (n_env N) n = Some (ret, n1)"
      by (auto simp: response_receive_def Let_def bind_eq_Some_conv)
    note h1 = hushed_gatewayResponse [OF g]
    show ?thesis
    proof (cases "ret = 0")
      case False
      with hand g assms(3) h1 show ?thesis by (auto simp: response_receive_def Let_def)
    next
      case True
      with hand g assms(3) obtain n2 where sc: "start_command N (setConnectNodeStatus NodeStarting n1) = Some n2"
        by (auto simp: response_receive_def Let_def bind_eq_Some_conv)
      let ?n3 = "snd (nlsSendFrame (n_env N) CmdBuf True n2)"
      have "cn_request n2 = cn_request n1"
        using sc by (auto simp: start_command_def request_kept)
      then have "no_synthesis ?n3" using assms(2) gatewayResponse_request [OF g] by (simp add: no_synthesis_def request_kept)
      then have "n' = ?n3"
        using hand g True sc assms(3) not_fake [of ?n3]
        by (auto simp: response_receive_def Let_def case_prod_beta no_synthesis_def split: if_splits)
      moreover have "hushed n ?n3"
        by (rule hush_into(1) [OF hushed_trans [OF hush_into(4) [OF h1] start_command_hushed [OF sc]]])
      ultimately show ?thesis by simp
    qed
  next
    case start
    with assms(3) obtain ret n1 where w: "webSocketResponse (n_env N) R n = Some (ret, n1)"
      by (auto simp: response_receive_def Let_def bind_eq_Some_conv)
    with start assms(3) have "n' = n1 \<or> n' = snd (nlsSendFrame (n_env N) BinaryBuf True n1)
        \<or> n' = snd (nlsSendFrame (n_env N) WwvBuf True n1)
        \<or> n' = snd (sendControlDirective (n_env N) (snd (nlsSendFrame (n_env N) BinaryBuf True n1)))"
      by (auto simp: response_receive_def Let_def case_prod_beta split: if_splits)
    then show ?thesis
      using hush_into(1) [OF ws [OF w]] hush_into(2) [OF hush_into(1) [OF ws [OF w]]] ws [OF w] by fastforce
  next
    case other
    with assms(3) ws show ?thesis by (auto simp: response_receive_def Let_def split: if_splits)
  qed
qed

lemma nodeResponseProcess_silent:
  assumes "cancelled W" and "no_synthesis (wt_node W)" and "nodeResponseProcess N W = Some (r, W')"
  shows "silent W W'"
proof -
  have c: "cn_exitStatus (wt_node W) = ExitCancel" using assms(1) by (simp add: cancelled_def)
  have fin: "hushed (wt_node W) (handlerTaskFailedEvent E i code (do_close E n))" if "hushed (wt_node W) n"
    for E :: "'a env" and i code n
  proof -
    have d: "hushed (wt_node W) (do_close E n)" by (rule hush_into(5) [OF that])
    with c have "cn_exitStatus (do_close E n) = ExitCancel" by (simp add: hushed_def)
    then show ?thesis by (rule hushed_trans [OF d failed_cancelled])
  qed
  show ?thesis
  proof (cases "response_receive N (wt_registry W) (wt_node W)")
    case None
    with assms(3) show ?thesis by (auto simp: nodeResponseProcess_def bind_eq_Some_conv split: if_splits)
  next
    case (Some x)
    obtain ret d n where x: "x = (ret, d, n)" by (metis prod.exhaust)
    have h: "hushed (wt_node W) n" using response_receive_cancelled [OF c assms(2)] Some x by blast
    from assms(3) Some x have "W' = W \<or> W' = W\<lparr>wt_node := n\<rparr> \<or> W' = W\<lparr>wt_node :=
        handlerTaskFailedEvent (n_env N) (failed_info ''Response'' ret n) DefaultErrorCode (do_close (n_env N) n)\<rparr>"
      by (auto simp: nodeResponseProcess_def bind_eq_Some_conv Let_def split: if_splits)
    with h fin [OF h] show ?thesis by auto
  qed
qed

section \<open>Destroying a node\<close>

text \<open>Destroying is in two steps, and the second one uses freed memory: the first \<open>destroyConnectNode\<close> of a
  registered node only marks it, keeping the request and the registry; the next one deletes the request, and
  with it the node it goes on to write to. A node that reconnects and fails to connect twice gets there.\<close>

theorem second_destroy_uses_freed_node:
  assumes "node_request N (wt_node W) = rq" and "rq \<noteq> nullptr" and "\<not> cn_isDestroy (wt_node W)"
    and "checkRequestExist (e_heap (n_env N)) (wt_registry W) rq = Some (Success, st)"
  shows "\<exists>W1. destroyConnectNode N W = Some W1 \<and> wt_registry W1 = wt_registry W
    \<and> cn_request (wt_node W1) = cn_request (wt_node W) \<and> destroyConnectNode N W1 = None"
proof -
  let ?W1 = "W\<lparr>wt_nodeList := removeAll rq (wt_nodeList W), wt_node := (wt_node W)\<lparr>cn_isDestroy := True\<rparr>\<rparr>"
  have "destroyConnectNode N W = Some ?W1"
    using assms(1-3) by (simp add: destroyConnectNode_def freeListNode_def updateDestroyStatus_def)
  moreover have "node_request N (wt_node ?W1) = rq" using assms(1) by (auto simp: node_request_def)
  then have "destroyConnectNode N ?W1 = None"
    using assms(2,4) by (simp add: destroyConnectNode_def freeListNode_def updateDestroyStatus_def)
  ultimately show ?thesis by (intro exI [of _ ?W1]) simp
qed

definition net_example :: "json_value net_env" where
  "net_example = \<lparr>n_env = env_example None, n_socket = (\<lambda>_ _. 5), n_setsockopt = (\<lambda>_. 0), n_nonblocking = (\<lambda>_. 0),
     n_event_new = (\<lambda>_. True), n_inet_pton = (\<lambda>_ _. 1), n_connect = (\<lambda>_. (- 1, 115)), n_sslHandshake = (\<lambda>_. 0),
     n_rand = (\<lambda>_. 0), n_urlBuf = url_zero, n_getaddrinfo = (\<lambda>_. True), n_native_getaddrinfo = (\<lambda>_. 0),
     n_fakeMsg = (\<lambda>_. ''fake'')\<rparr>"

definition thread_example :: work_thread where
  "thread_example = \<lparr>wt_node = node_example, wt_registry = registry_example, wt_nodeList = [1], wt_addrInFamily = AF_INET,
     wt_directIp = [], wt_enableSysGetAddr = False, wt_dnsBase = True\<rparr>"

lemma second_destroy_uses_freed_node_witness:
  "\<exists>W1. destroyConnectNode net_example thread_example = Some W1 \<and> wt_registry W1 = wt_registry thread_example
    \<and> cn_request (wt_node W1) = cn_request (wt_node thread_example) \<and> destroyConnectNode net_example W1 = None"
  by (rule second_destroy_uses_freed_node [where rq = 1])
    (simp_all add: net_example_def thread_example_def env_example_def heap_example_def node_example_def node_request_def
      registry_example_def checkRequestExist_def check_node_of_request_def)



lemma connect_attempts_bounded_witness:
  "dnsProcess 9 net_example [] thread_example = dnsProcess 5 net_example [] thread_example"
  by (rule connect_attempts_bounded) simp

end
