(* ===== verification/EventNetWork.thy ===== *)
theory EventNetWork
  imports WorkThread
begin

text \<open>
  The public operations on a request (\<open>transport/nlsEventNetWork.cpp\<close>, behind \<open>framework/item/iNlsRequest.cpp\<close>):
  initialisation, choice of a work thread, and \<open>start\<close>, \<open>stop\<close>, \<open>cancel\<close>, \<open>sendAudio\<close> and the other commands,
  each under the network's mutex. While an operation sleeps the event thread runs: \<open>others k\<close> is what the
  node has become after the \<open>k\<close>-th sleep. With the callbacks of the event thread the operations are the steps of
  \<open>net_step\<close>: an interleaving of the user's threads with the event thread is a list of steps.
\<close>

section \<open>The network object\<close>

record event_network =
  en_client :: bool
  en_instance :: bool
  en_array :: bool
  en_workThreadsNumber :: nat
  en_currentCpuNumber :: nat
  en_addrInFamily :: int
  en_directIp :: string
  en_enableSysGetAddr :: bool
  en_syncCallTimeoutMs :: nat

definition en_zero :: event_network where
  "en_zero = \<lparr>en_client = True, en_instance = False, en_array = False, en_workThreadsNumber = 0, en_currentCpuNumber = 0,
     en_addrInFamily = 0, en_directIp = [], en_enableSysGetAddr = False, en_syncCallTimeoutMs = 0\<rparr>"

text \<open>\<open>strncpy\<close> into \<open>char _directIp[64]\<close>, read back with \<open>strnlen(_, 64)\<close>.\<close>

definition direct_ip :: "string option \<Rightarrow> string" where
  "direct_ip d = (case d of None \<Rightarrow> [] | Some s \<Rightarrow> take 64 s)"

definition initEventNetWork ::
  "int \<Rightarrow> int \<Rightarrow> string option \<Rightarrow> string option \<Rightarrow> bool \<Rightarrow> nat \<Rightarrow> event_network \<Rightarrow> event_network" where
  "initEventNetWork cpuNumber count aiFamily directIp sysGetAddr syncMs en =
     en\<lparr>en_instance := True, en_array := True,
        en_addrInFamily := (if aiFamily = Some ''AF_INET6'' then AF_INET6
                            else if aiFamily = Some ''AF_UNSPEC'' then AF_UNSPEC else AF_INET),
        en_directIp := direct_ip directIp, en_enableSysGetAddr := sysGetAddr, en_syncCallTimeoutMs := syncMs,
        en_workThreadsNumber := nat (if count \<le> 0 then cpuNumber else count)\<rparr>"

definition destroyEventNetWork :: "event_network \<Rightarrow> event_network" where
  "destroyEventNetWork en = en\<lparr>en_array := False, en_workThreadsNumber := 0, en_currentCpuNumber := 0\<rparr>"

definition selectThreadNumber :: "event_network \<Rightarrow> int \<times> event_network" where
  "selectThreadNumber en =
     (if en_array en then
        (int (en_currentCpuNumber en),
         en\<lparr>en_currentCpuNumber :=
              (if en_currentCpuNumber en + 1 = en_workThreadsNumber en then 0 else en_currentCpuNumber en + 1)\<rparr>)
      else (- 1, en))"

section \<open>Operations on a request\<close>

text \<open>The network, the thread of the request with its node, the request's thread number, and whether the
  request still has its node.\<close>

record api_state =
  as_net :: event_network
  as_work :: work_thread
  as_threadNumber :: int
  as_hasNode :: bool

definition as_node :: "api_state \<Rightarrow> conn_node" where
  "as_node A = wt_node (as_work A)"

definition map_node :: "(conn_node \<Rightarrow> conn_node) \<Rightarrow> api_state \<Rightarrow> api_state" where
  "map_node f A = A\<lparr>as_work := on_node f (as_work A)\<rparr>"

text \<open>\<open>while (try_count-- > 0 && node->getConnectNodeStatus() == s) usleep(1000)\<close>\<close>

fun poll :: "nat \<Rightarrow> (nat \<Rightarrow> conn_node \<Rightarrow> conn_node) \<Rightarrow> ConnectStatus \<Rightarrow> conn_node \<Rightarrow> conn_node" where
  "poll 0 others s n = n"
| "poll (Suc k) others s n = (if cn_workStatus n = s then poll k others s (others k n) else n)"

lemma poll_settled: "cn_workStatus n \<noteq> s \<Longrightarrow> poll k others s n = n"
  by (cases k) auto

text \<open>The two checks every operation starts with.\<close>

definition with_client :: "(api_state \<Rightarrow> int \<times> api_state) \<Rightarrow> api_state \<Rightarrow> int \<times> api_state" where
  "with_client f A =
     (if \<not> en_client (as_net A) then (- EventClientEmpty, A)
      else if \<not> as_hasNode A then (- NodeEmpty, A)
      else f A)"

definition node_op :: "(conn_node \<Rightarrow> int \<times> conn_node) \<Rightarrow> api_state \<Rightarrow> int \<times> api_state" where
  "node_op f A = (let (ret, n) = f (as_node A) in (ret, map_node (\<lambda>_. n) A))"

text \<open>\<open>waitInvokeFinish\<close> with a synchronous timeout: \<open>others 0\<close> is the node when the wait is over, its error code
  \<open>InvokeTimeout\<close> when it timed out.\<close>

definition wait_invoke :: "(nat \<Rightarrow> conn_node \<Rightarrow> conn_node) \<Rightarrow> int \<Rightarrow> api_state \<Rightarrow> int \<times> api_state" where
  "wait_invoke others ret A =
     (if 0 < cn_syncCallTimeoutMs (as_node A) then
        (let A1 = map_node (others 0) A; code = cn_nodeErrCode (as_node A1) in
         (if code \<noteq> Success then - code else ret, A1))
      else (ret, A))"

definition attach_thread :: "api_state \<Rightarrow> api_state" where
  "attach_thread A =
     (let en = as_net A; W = as_work A in
      A\<lparr>as_work := W\<lparr>wt_addrInFamily := en_addrInFamily en,
           wt_directIp := (if en_directIp en \<noteq> [] then en_directIp en else wt_directIp W),
           wt_enableSysGetAddr := en_enableSysGetAddr en,
           wt_node := (wt_node W)\<lparr>cn_instance := en_instance en, cn_syncCallTimeoutMs := en_syncCallTimeoutMs en,
             cn_launchEvent := True\<rparr>\<rparr>\<rparr>)"

definition launch :: "'j env \<Rightarrow> (ENCODER_TYPE \<Rightarrow> int \<Rightarrow> bool) \<Rightarrow> (nat \<Rightarrow> conn_node \<Rightarrow> conn_node) \<Rightarrow> api_state \<Rightarrow> int \<times> api_state" where
  "launch E create_ok others A =
     (let A1 = map_node (setConnectNodeStatus NodeInvoking) A;
          (num, en) = (if as_threadNumber A1 < 0 then selectThreadNumber (as_net A1) else (as_threadNumber A1, as_net A1));
          A2 = A1\<lparr>as_net := en\<rparr> in
      if num < 0 then (- SelectThreadFailed, map_node (setConnectNodeStatus NodeCreated) A2)
      else
        (let A3 = attach_thread (A2\<lparr>as_threadNumber := num\<rparr>); A4 = map_node tick A3 in
         if e_event_add E (cn_io (as_node A3)) \<noteq> Success then (- InvokeStartFailed, A4)
         else wait_invoke others Success (map_node (initNlsEncoder create_ok) A4)))"

definition settle_long :: "(nat \<Rightarrow> conn_node \<Rightarrow> conn_node) \<Rightarrow> conn_node \<Rightarrow> conn_node" where
  "settle_long others n =
     (if cn_isLongConnection n then
        (let n1 = poll 500 others NodeCompleted n in if cn_workStatus n1 = NodeClosed then initAllStatus n1 else n1)
      else n)"

definition start :: "'j env \<Rightarrow> (ENCODER_TYPE \<Rightarrow> int \<Rightarrow> bool) \<Rightarrow> (nat \<Rightarrow> conn_node \<Rightarrow> conn_node) \<Rightarrow> api_state \<Rightarrow> int \<times> api_state" where
  "start E create_ok others =
     with_client (\<lambda>A.
       let A1 = map_node (settle_long others) A; s = cn_workStatus (as_node A1); x = cn_exitStatus (as_node A1) in
       if s = NodeCreated \<and> x = ExitInvalid then launch E create_ok others A1
       else if x = ExitInvalid \<and> NodeCreated < s \<and> s < NodeFailed then (Success, A1)
       else (- InvokeStartFailed, map_node (setConnectNodeStatus NodeCreated) A1))"

definition running :: "conn_node \<Rightarrow> bool" where
  "running n \<longleftrightarrow> cn_workStatus n = NodeStarted \<and> cn_exitStatus n = ExitInvalid"

definition sendAudio :: "'j env \<Rightarrow> (nat \<Rightarrow> conn_node \<Rightarrow> conn_node) \<Rightarrow> byte list \<Rightarrow> ENCODER_TYPE \<Rightarrow> api_state \<Rightarrow> int \<times> api_state" where
  "sendAudio E others data type =
     with_client (node_op (\<lambda>n0.
       let n = poll 500 others NodeStarting n0 in
       if \<not> running n then (- InvokeSendAudioFailed, n)
       else if type \<noteq> ENCODER_NONE then addSlicedAudioDataBuffer E data n
       else addAudioDataBuffer E data n))"

definition stop :: "'j env \<Rightarrow> (nat \<Rightarrow> conn_node \<Rightarrow> conn_node) \<Rightarrow> api_state \<Rightarrow> int \<times> api_state" where
  "stop E others =
     with_client (\<lambda>A.
       let n = as_node A in
       if cn_exitStatus n = ExitStopping then (Success, A)
       else if cn_exitStatus n = ExitCancel then (Success, A)
       else if cn_workStatus n < NodeInvoking \<or> NodeFailed \<le> cn_workStatus n \<or> cn_exitStatus n \<noteq> ExitInvalid
       then (- InvokeStopFailed, A)
       else
         (let (ret, A1) = node_op (cmdNotify E CmdStop []) A in
          if ret = Success then wait_invoke others Success A1 else (ret, A1)))"

definition cancel :: "'j env \<Rightarrow> (nat \<Rightarrow> conn_node \<Rightarrow> conn_node) \<Rightarrow> api_state \<Rightarrow> int \<times> api_state" where
  "cancel E others =
     with_client (\<lambda>A.
       let n = as_node A in
       if cn_exitStatus n = ExitCancel then (Success, A)
       else if cn_workStatus n < NodeInvoking \<or> NodeClosed \<le> cn_workStatus n then (- InvokeCancelFailed, A)
       else
         (let (ret, A1) = node_op (cmdNotify E CmdCancel []) A in
          (ret, map_node (poll 100 others NodeConnecting) A1)))"

text \<open>The commands of a running request; \<open>stControl\<close> does not wait for the start.\<close>

definition command :: "'j env \<Rightarrow> (nat \<Rightarrow> conn_node \<Rightarrow> conn_node) \<Rightarrow> nat \<Rightarrow> CmdType \<Rightarrow> string \<Rightarrow> int \<Rightarrow> api_state \<Rightarrow> int \<times> api_state" where
  "command E others waits type message failed =
     with_client (node_op (\<lambda>n0.
       let n = poll waits others NodeStarting n0 in
       if \<not> running n then (- failed, n) else cmdNotify E type message n))"

definition stControl :: "'j env \<Rightarrow> (nat \<Rightarrow> conn_node \<Rightarrow> conn_node) \<Rightarrow> string \<Rightarrow> api_state \<Rightarrow> int \<times> api_state" where
  "stControl E others message = command E others 0 CmdStControl message InvokeStControlFailed"

definition sendText :: "'j env \<Rightarrow> (nat \<Rightarrow> conn_node \<Rightarrow> conn_node) \<Rightarrow> string \<Rightarrow> api_state \<Rightarrow> int \<times> api_state" where
  "sendText E others message = command E others 500 CmdSendText message InvokeSendTextFailed"

definition sendPing :: "'j env \<Rightarrow> (nat \<Rightarrow> conn_node \<Rightarrow> conn_node) \<Rightarrow> api_state \<Rightarrow> int \<times> api_state" where
  "sendPing E others = command E others 500 CmdSendPing [] InvokeSendTextFailed"

definition sendFlush :: "'j env \<Rightarrow> (nat \<Rightarrow> conn_node \<Rightarrow> conn_node) \<Rightarrow> api_state \<Rightarrow> int \<times> api_state" where
  "sendFlush E others = command E others 500 CmdSendFlush [] InvokeSendTextFailed"

text \<open>\<open>INlsRequest::sendAudio\<close>: a failure while the node is reconnecting is reported as success.\<close>

definition request_sendAudio :: "'j env \<Rightarrow> (nat \<Rightarrow> conn_node \<Rightarrow> conn_node) \<Rightarrow> byte list \<Rightarrow> ENCODER_TYPE \<Rightarrow> api_state \<Rightarrow> int \<times> api_state" where
  "request_sendAudio E others data type A =
     (if \<not> en_client (as_net A) then (- EventClientEmpty, A)
      else if data = [] then (- InvalidRequestParams, A)
      else
        (let (ret, A1) = sendAudio E others data type A in
         if as_hasNode A1 \<and> rc_state (cn_reconnection (as_node A1)) \<noteq> NoReconnection \<and> ret < 0
         then (int (length data), A1) else (ret, A1)))"

section \<open>The system as steps\<close>

text \<open>What the event thread of the node may do next: the callbacks of the node's events, and the rest of a callback that
  was past its first checks (\<open>Response\<close> is \<open>nodeResponseProcess\<close>, \<open>Request\<close> is \<open>nodeRequestProcess\<close>).\<close>

datatype thread_op =
    LaunchEvent
  | DnsResult int "(int \<times> string option) list"
  | ConnectEvent net_event int
  | ConnectTimer net_event int
  | ReadEvent net_event
  | WriteEvent net_event
  | Response
  | Request

definition thread_step :: "'j net_env \<Rightarrow> thread_op \<Rightarrow> work_thread \<Rightarrow> work_thread option" where
  "thread_step N op W =
     (case op of
        LaunchEvent \<Rightarrow> launchEventCallback N W
      | DnsResult code adrs \<Rightarrow> dnsEventCallback N code adrs W
      | ConnectEvent ev e \<Rightarrow> connectEventCallback N ev e W
      | ConnectTimer ev e \<Rightarrow> connectTimerEventCallback N ev e W
      | ReadEvent ev \<Rightarrow> readEventCallBack N ev W
      | WriteEvent ev \<Rightarrow> writeEventCallBack N ev W
      | Response \<Rightarrow> map_option snd (nodeResponseProcess N W)
      | Request \<Rightarrow> map_option snd (nodeRequestProcess N W))"

text \<open>A schedule says which steps the event thread takes during each sleep of an operation. Where a step has no
  result (an access to freed memory) nothing is said of what follows it: the node stays as it was.\<close>

type_synonym schedule = "nat \<Rightarrow> thread_op list"

definition during :: "'j net_env \<Rightarrow> work_thread \<Rightarrow> schedule \<Rightarrow> nat \<Rightarrow> conn_node \<Rightarrow> conn_node" where
  "during N W sched k n = (case run_opt (thread_step N) (sched k) (W\<lparr>wt_node := n\<rparr>) of None \<Rightarrow> n | Some W' \<Rightarrow> wt_node W')"

datatype request_op =
    Start "ENCODER_TYPE \<Rightarrow> int \<Rightarrow> bool"
  | Stop
  | Cancel
  | SendAudio "byte list" ENCODER_TYPE
  | StControl string
  | SendText string
  | SendPing
  | SendFlush

definition request_call :: "'j env \<Rightarrow> (nat \<Rightarrow> conn_node \<Rightarrow> conn_node) \<Rightarrow> request_op \<Rightarrow> api_state \<Rightarrow> int \<times> api_state" where
  "request_call E others op =
     (case op of
        Start create_ok \<Rightarrow> start E create_ok others
      | Stop \<Rightarrow> stop E others
      | Cancel \<Rightarrow> cancel E others
      | SendAudio data type \<Rightarrow> request_sendAudio E others data type
      | StControl message \<Rightarrow> stControl E others message
      | SendText message \<Rightarrow> sendText E others message
      | SendPing \<Rightarrow> sendPing E others
      | SendFlush \<Rightarrow> sendFlush E others)"

datatype net_op = Call schedule request_op | Thread thread_op

definition net_step :: "'j net_env \<Rightarrow> net_op \<Rightarrow> api_state \<Rightarrow> api_state option" where
  "net_step N op A =
     (case op of
        Call sched call \<Rightarrow> Some (snd (request_call (n_env N) (during N (as_work A) sched) call A))
      | Thread t \<Rightarrow> map_option (\<lambda>W. A\<lparr>as_work := W\<rparr>) (thread_step N t (as_work A)))"

section \<open>After a cancel\<close>

definition hushed_thread :: "work_thread \<Rightarrow> bool" where
  "hushed_thread W \<longleftrightarrow> cancelled W \<and> \<not> cn_isLongConnection (wt_node W) \<and> no_synthesis (wt_node W)"

lemma hushed_thread_silent: "silent W W' \<Longrightarrow> hushed_thread W \<Longrightarrow> hushed_thread W' \<and> seen W' = seen W"
  by (auto simp: hushed_thread_def silent_def hushed_def cancelled_def seen_def no_synthesis_def)

lemma thread_step_silent:
  assumes "hushed_thread W" and "thread_step N op W = Some W'"
  shows "silent W W'"
proof -
  have c: "cancelled W" "no_synthesis (wt_node W)" using assms(1) by (simp_all add: hushed_thread_def)
  show ?thesis
    using assms(2) c
    by (cases op) (auto simp: thread_step_def intro: launchEventCallback_silent dnsEventCallback_silent
        connectEventCallback_silent connectTimerEventCallback_silent read_write_silent nodeResponseProcess_silent
        nodeRequestProcess_silent)
qed

interpretation thread: absorbing "thread_step N" hushed_thread seen for N
  by unfold_locales (rule hushed_thread_silent [OF thread_step_silent])

lemma during_hushed:
  assumes "hushed_thread (W\<lparr>wt_node := n\<rparr>)"
  shows "hushed_thread (W\<lparr>wt_node := during N V sched k n\<rparr>) \<and> cn_callbacks (during N V sched k n) = cn_callbacks n"
proof -
  have h: "hushed_thread (V\<lparr>wt_node := n\<rparr>)" using assms by (simp add: hushed_thread_def cancelled_def)
  show ?thesis
  proof (cases "run_opt (thread_step N) (sched k) (V\<lparr>wt_node := n\<rparr>)")
    case None
    with assms show ?thesis by (simp add: during_def)
  next
    case (Some V')
    with thread.run_dead [OF h Some] show ?thesis
      by (simp add: during_def hushed_thread_def cancelled_def seen_def)
  qed
qed

lemma poll_hushed:
  assumes "hushed_thread (W\<lparr>wt_node := n\<rparr>)"
  shows "hushed_thread (W\<lparr>wt_node := poll k (during N V sched) s n\<rparr>)
    \<and> cn_callbacks (poll k (during N V sched) s n) = cn_callbacks n"
  using assms
proof (induction k arbitrary: n)
  case (Suc k)
  note d = during_hushed [OF Suc.prems, of N V sched k]
  from Suc.IH [OF conjunct1 [OF d]] d Suc.prems show ?case by auto
qed simp

definition hushed_api :: "api_state \<Rightarrow> bool" where
  "hushed_api A \<longleftrightarrow> hushed_thread (as_work A)"

definition shown :: "api_state \<Rightarrow> NlsEvent list" where
  "shown A = seen (as_work A)"

lemma hushed_map_node:
  "hushed_api (map_node (\<lambda>_. n) A) \<longleftrightarrow> hushed_thread ((as_work A)\<lparr>wt_node := n\<rparr>)"
  "shown (map_node (\<lambda>_. n) A) = cn_callbacks n"
  by (simp_all add: hushed_api_def shown_def map_node_def on_node_def seen_def)

lemma hushed_api_node:
  assumes "hushed_api A"
  shows "cn_exitStatus (as_node A) = ExitCancel" "\<not> cn_isLongConnection (as_node A)"
    "hushed_thread ((as_work A)\<lparr>wt_node := as_node A\<rparr>)" "shown A = cn_callbacks (as_node A)"
  using assms by (simp_all add: hushed_api_def hushed_thread_def cancelled_def as_node_def shown_def seen_def)

lemma polled_call_hushed:
  fixes N :: "'j net_env"
  assumes "hushed_api A"
    and "B = snd (with_client (node_op (\<lambda>n0. let n = poll k (during N V sched) s n0 in if \<not> running n then (x, n) else g n)) A)"
  shows "hushed_api B \<and> shown B = shown A"
proof -
  let ?n = "poll k (during N V sched) s (as_node A)"
  note h = hushed_api_node [OF assms(1)]
  note p = poll_hushed [OF h(3), of k N V sched s]
  then have "\<not> running ?n" by (simp add: hushed_thread_def cancelled_def running_def)
  with p h(4) assms show ?thesis by (auto simp: with_client_def node_op_def hushed_map_node Let_def)
qed

lemma request_call_hushed:
  assumes "hushed_api A"
  shows "hushed_api (snd (request_call E (during N V sched) op A)) \<and> shown (snd (request_call E (during N V sched) op A)) = shown A"
proof -
  note h = hushed_api_node [OF assms]
  note polled = polled_call_hushed [OF assms refl, where N = N and V = V and sched = sched]
  have audio: "hushed_api (snd (sendAudio E (during N V sched) data type A))
      \<and> shown (snd (sendAudio E (during N V sched) data type A)) = shown A" for data type
    unfolding sendAudio_def by (rule polled)
  show ?thesis
  proof (cases op)
    case (Start create_ok)
    have "hushed_api (map_node (setConnectNodeStatus NodeCreated) (map_node (settle_long (during N V sched)) A))
      \<and> shown (map_node (setConnectNodeStatus NodeCreated) (map_node (settle_long (during N V sched)) A)) = shown A"
      using assms
      by (auto simp: hushed_api_def hushed_thread_def shown_def seen_def map_node_def on_node_def settle_long_def
          setConnectNodeStatus_def cancelled_def no_synthesis_def)
    moreover have "cn_exitStatus (as_node (map_node (settle_long (during N V sched)) A)) = ExitCancel"
      using h(1,2) by (simp add: map_node_def on_node_def settle_long_def as_node_def)
    ultimately show ?thesis using assms by (simp add: Start request_call_def start_def with_client_def Let_def)
  next
    case (SendAudio data type)
    with audio [of data type] assms show ?thesis
      by (auto simp: request_call_def request_sendAudio_def Let_def case_prod_beta)
  next
    case (StControl message)
    show ?thesis unfolding StControl request_call_def stControl_def command_def request_op.case by (rule polled)
  next
    case (SendText message)
    show ?thesis unfolding SendText request_call_def sendText_def command_def request_op.case by (rule polled)
  next
    case SendPing
    show ?thesis unfolding SendPing request_call_def sendPing_def command_def request_op.case by (rule polled)
  next
    case SendFlush
    show ?thesis unfolding SendFlush request_call_def sendFlush_def command_def request_op.case by (rule polled)
  qed (use assms h(1) in \<open>simp_all add: request_call_def stop_def cancel_def with_client_def\<close>)
qed

interpretation network: absorbing "net_step N" hushed_api shown for N
proof
  show "hushed_api A' \<and> shown A' = shown A" if "hushed_api A" "net_step N op A = Some A'" for op A A'
  proof (cases op)
    case (Call sched call)
    with that request_call_hushed [OF that(1), of "n_env N" N "as_work A" sched call] show ?thesis
      by (auto simp: net_step_def)
  next
    case (Thread t)
    with that obtain W where "thread_step N t (as_work A) = Some W" "A' = A\<lparr>as_work := W\<rparr>" by (auto simp: net_step_def)
    with thread.step_dead [of "as_work A" N t W] that(1) show ?thesis by (simp add: hushed_api_def shown_def)
  qed
qed


definition api_example :: api_state where
  "api_example = \<lparr>as_net = initEventNetWork 4 2 None None False 0 en_zero, as_work = thread_example, as_threadNumber = - 1, as_hasNode = True\<rparr>"


section \<open>The event made up for a synthesis\<close>

text \<open>A speech synthesis is the exception: the \<open>SynthesisStarted\<close> event made up after the gateway's response is
  delivered without a look at the exit status, so the listener is called after a successful \<open>cancel\<close>.\<close>

theorem started_event_after_cancel:
  assumes "cn_request n = Some rp" and "rp_requestType rp = SpeechSynthesizer" and "cn_handler n"
    and "cn_workStatus n \<noteq> NodeInvalid" and "\<not> cn_enableOnMessage n"
  shows "let n1 = sendFakeSynthesisStarted E msg (snd (cmdNotify E CmdCancel [] n)) in
    cn_exitStatus n1 = ExitCancel \<and> cn_callbacks n1 = cn_callbacks n @ [genSynthesisStarted msg rp]"
  using assms
  by (simp add: cmdNotify_def sendFakeSynthesisStarted_def handlerFrame_def genSynthesisStarted_def Let_def
      ignoreCallbackWhenReconnecting_def begin_reconnection_def callback_def sendFinishCondSignal_def updateTwIndexOffset_def
      NlsEvent_msg_code_def split: prod.split)

lemma started_event_after_cancel_witness:
  "let n1 = sendFakeSynthesisStarted (env_example None) ''{}'' (snd (cmdNotify (env_example None) CmdCancel []
        (node_example\<lparr>cn_request := Some (request_example\<lparr>rp_requestType := SpeechSynthesizer\<rparr>)\<rparr>))) in
    cn_exitStatus n1 = ExitCancel \<and> cn_callbacks n1 =
      cn_callbacks (node_example\<lparr>cn_request := Some (request_example\<lparr>rp_requestType := SpeechSynthesizer\<rparr>)\<rparr>)
        @ [genSynthesisStarted ''{}'' (request_example\<lparr>rp_requestType := SpeechSynthesizer\<rparr>)]"
  by (rule started_event_after_cancel) (simp_all add: node_example_def)

section \<open>Choosing a work thread\<close>

fun selected :: "nat \<Rightarrow> event_network \<Rightarrow> event_network" where
  "selected 0 en = en"
| "selected (Suc k) en = snd (selectThreadNumber (selected k en))"

text \<open>Requests are spread round robin: from initialisation on, the \<open>k\<close>-th request gets thread \<open>k\<close> modulo the number of
  threads, so every index is inside the array of threads.\<close>

theorem threads_round_robin:
  assumes "0 < (if count \<le> 0 then cpuNumber else count)" and "en_currentCpuNumber en = 0"
  shows "fst (selectThreadNumber (selected k (initEventNetWork cpuNumber count aiFamily directIp sysGetAddr syncMs en))) =
    int k mod (if count \<le> 0 then cpuNumber else count)"
proof -
  let ?en = "initEventNetWork cpuNumber count aiFamily directIp sysGetAddr syncMs en"
  let ?c = "nat (if count \<le> 0 then cpuNumber else count)"
  have "en_array (selected k ?en) \<and> en_workThreadsNumber (selected k ?en) = ?c \<and> en_currentCpuNumber (selected k ?en) = k mod ?c"
  proof (induction k)
    case (Suc k)
    then show ?case by (auto simp: selectThreadNumber_def mod_Suc)
  qed (use assms(2) in \<open>simp add: initEventNetWork_def\<close>)
  with assms(1) show ?thesis by (auto simp: selectThreadNumber_def zmod_int split: if_splits)
qed

lemma threads_round_robin_witness:
  "fst (selectThreadNumber (selected 5 (initEventNetWork 8 3 None None False 0 en_zero))) = int 5 mod (if (3 :: int) \<le> 0 then 8 else 3)"
  by (rule threads_round_robin) (simp_all add: en_zero_def)

section \<open>Operations in the wrong state\<close>

definition while_running :: "request_op \<Rightarrow> bool" where
  "while_running op \<longleftrightarrow> (case op of Start _ \<Rightarrow> False | Stop \<Rightarrow> False | Cancel \<Rightarrow> False | _ \<Rightarrow> True)"

lemma map_node_same: "map_node (\<lambda>_. as_node A) A = A"
  by (simp add: map_node_def on_node_def as_node_def)

lemma sendAudio_refused:
  assumes "\<not> running (as_node A)" and "cn_workStatus (as_node A) \<noteq> NodeStarting"
  shows "snd (sendAudio E others data type A) = A \<and> fst (sendAudio E others data type A) < 0"
  using assms by (simp add: sendAudio_def with_client_def node_op_def poll_settled map_node_same Let_def)

lemma reconnecting_audio_dropped:
  assumes "\<not> running (as_node A)" and "cn_workStatus (as_node A) \<noteq> NodeStarting" and "en_client (as_net A)" and "as_hasNode A"
    and "rc_state (cn_reconnection (as_node A)) \<noteq> NoReconnection" and "data \<noteq> []"
  shows "request_sendAudio E others data type A = (int (length data), A)"
  using assms sendAudio_refused [OF assms(1,2), of E others data type]
  by (auto simp: request_sendAudio_def Let_def case_prod_beta)

text \<open>Audio, text and control commands are accepted only between the start and the stop: on any other node, one that is
  not about to start, each of them returns an error (or, while a reconnection is under way, pretends the audio
  was taken) and changes nothing, not a byte of a buffer.\<close>

theorem commands_need_a_running_node:
  assumes "while_running op" and "\<not> running (as_node A)" and "cn_workStatus (as_node A) \<noteq> NodeStarting"
  shows "snd (request_call E others op A) = A \<and> (fst (request_call E others op A) < 0
    \<or> rc_state (cn_reconnection (as_node A)) \<noteq> NoReconnection \<and> (\<exists>data type. op = SendAudio data type))"
proof -
  have cmd: "snd (command E others k type m x A) = A \<and> (0 < x \<longrightarrow> fst (command E others k type m x A) < 0)" for k type m x
    using assms(2,3) by (simp add: command_def with_client_def node_op_def poll_settled map_node_same Let_def)
  show ?thesis
    using assms(1) cmd sendAudio_refused [OF assms(2,3), of E others]
    by (cases op) (auto simp: while_running_def request_call_def stControl_def sendText_def sendPing_def sendFlush_def
        request_sendAudio_def Let_def case_prod_beta)
qed

definition ended_example :: api_state where
  "ended_example = map_node (setConnectNodeStatus NodeClosed) api_example"

lemma ended_example_simps [simp]:
  "as_node ended_example = node_example\<lparr>cn_workStatus := NodeClosed\<rparr>" "en_client (as_net ended_example)" "as_hasNode ended_example"
  by (simp_all add: ended_example_def api_example_def map_node_def on_node_def as_node_def setConnectNodeStatus_def
      thread_example_def initEventNetWork_def en_zero_def)

lemma commands_need_a_running_node_witness:
  "snd (request_call (env_example None) (\<lambda>_ n. n) (SendAudio [1, 2] ENCODER_NONE) ended_example) = ended_example
    \<and> (fst (request_call (env_example None) (\<lambda>_ n. n) (SendAudio [1, 2] ENCODER_NONE) ended_example) < 0
    \<or> rc_state (cn_reconnection (as_node ended_example)) \<noteq> NoReconnection
      \<and> (\<exists>data type. SendAudio [1, 2] ENCODER_NONE = SendAudio data type))"
  by (rule commands_need_a_running_node) (simp_all add: while_running_def running_def)

text \<open>A refused \<open>start\<close> destroys the session's state: called on a request whose session is over (a closed or failed
  node) it returns an error but puts the node back to \<open>NodeCreated\<close>; the very next call passes the check and
  launches the old node, with whatever the ended session left in its buffers and parser.\<close>

theorem refused_start_reopens:
  assumes "en_client (as_net A)" and "as_hasNode A" and "NodeFailed \<le> cn_workStatus (as_node A)"
    and "cn_exitStatus (as_node A) = ExitInvalid" and "\<not> cn_isLongConnection (as_node A)"
  shows "\<exists>A1. start E create_ok others A = (- InvokeStartFailed, A1)
    \<and> as_node A1 = (as_node A)\<lparr>cn_workStatus := NodeCreated\<rparr>
    \<and> start E create_ok others A1 = launch E create_ok others A1"
proof -
  let ?A1 = "map_node (setConnectNodeStatus NodeCreated) A"
  have "NodeCreated < NodeFailed" by (simp add: status_order)
  with assms(3) have s: "cn_workStatus (as_node A) \<noteq> NodeCreated" "\<not> cn_workStatus (as_node A) < NodeFailed" by auto
  have same: "map_node (settle_long others) B = B" if "\<not> cn_isLongConnection (as_node B)" for B
    using that map_node_same [of B] by (simp add: map_node_def on_node_def settle_long_def as_node_def)
  have n: "as_node ?A1 = (as_node A)\<lparr>cn_workStatus := NodeCreated\<rparr>"
    by (simp add: map_node_def on_node_def as_node_def setConnectNodeStatus_def)
  have "start E create_ok others A = (- InvokeStartFailed, ?A1)"
    using assms s by (simp add: start_def with_client_def same Let_def)
  moreover have "start E create_ok others ?A1 = launch E create_ok others ?A1"
    using assms same [of ?A1] n by (simp add: start_def with_client_def Let_def map_node_def)
  ultimately show ?thesis using n by blast
qed

lemma refused_start_reopens_witness:
  "\<exists>A1. start (env_example None) (\<lambda>_ _. True) (\<lambda>_ n. n) ended_example = (- InvokeStartFailed, A1)
    \<and> as_node A1 = (as_node ended_example)\<lparr>cn_workStatus := NodeCreated\<rparr>
    \<and> start (env_example None) (\<lambda>_ _. True) (\<lambda>_ n. n) A1 = launch (env_example None) (\<lambda>_ _. True) (\<lambda>_ n. n) A1"
  by (rule refused_start_reopens) (simp_all add: status_order node_example_def)

end
