(* ===== verification/Censor.thy ===== *)
theory Censor
  imports NlsEvent
begin

text \<open>
  The word list and the search for its words in a recognised sentence: \<open>censor/dictionary.cpp\<close>,
  \<open>utils/utils.cpp\<close> and \<open>Asr::hitDict\<close> of \<open>processor/asr.cpp\<close>. The \<open>unordered_map\<close> of the dictionary is the list of
  its keys, each once; the order in which a \<open>for\<close> visits them is unspecified and is an argument.
\<close>

section \<open>The dictionary\<close>

type_synonym Dictionary = "string list"

definition add_word :: "string \<Rightarrow> Dictionary \<Rightarrow> Dictionary" where
  "add_word line D = (if line \<in> set D then D else D @ [line])"

text \<open>\<open>None\<close> is a file that cannot be opened.\<close>

definition loadFromFile :: "string option \<Rightarrow> Dictionary \<Rightarrow> Dictionary" where
  "loadFromFile infile D = (case infile of None \<Rightarrow> D | Some s \<Rightarrow> fold add_word (getlines (char_of (10 :: nat)) [] s) D)"

definition dict_exists :: "string \<Rightarrow> Dictionary \<Rightarrow> bool" where
  "dict_exists key D \<longleftrightarrow> key \<in> set D"

definition removeSpaces :: "string \<Rightarrow> string" where
  "removeSpaces input = filter (\<lambda>c. \<not> is_space c) input"

section \<open>Where a word is spoken\<close>

record AudioSegement =
  m_start :: int
  m_end :: int
  m_text :: string

text \<open>The inner loop of \<open>hitDict\<close>: the times of the recognised words that cover the positions from \<open>pos\<close> up to
  \<open>end_pos\<close>. \<open>cnt\<close> is the position at which the word at hand begins.\<close>

fun word_span :: "WordInfomation list \<Rightarrow> nat \<Rightarrow> nat \<Rightarrow> int \<Rightarrow> int \<Rightarrow> nat \<Rightarrow> int \<times> int" where
  "word_span [] pos end_pos start prev_end cnt = (start, prev_end)"
| "word_span (item # items) pos end_pos start prev_end cnt =
     (if cnt \<le> pos then
        word_span items pos end_pos (wi_startTime item) (wi_endTime item) (cnt + length (wi_text item))
      else if end_pos \<le> cnt then (start, prev_end)
      else word_span items pos end_pos start (wi_endTime item) (cnt + length (wi_text item)))"

definition segment_at :: "string \<Rightarrow> WordInfomation list \<Rightarrow> nat \<Rightarrow> AudioSegement" where
  "segment_at bword word_list pos =
     (let (start, prev_end) = word_span word_list pos (pos + length bword) 0 0 0 in
      \<lparr>m_start = start, m_end = prev_end, m_text = bword\<rparr>)"

text \<open>The search for one word; \<open>None\<close> is a loop that never ends.\<close>

partial_function (option) hit_word ::
  "string \<Rightarrow> string \<Rightarrow> WordInfomation list \<Rightarrow> nat \<Rightarrow> AudioSegement list \<Rightarrow> AudioSegement list option" where
  "hit_word tmp bword word_list end_pos out =
     (case str_find tmp bword end_pos of
        None \<Rightarrow> Some out
      | Some pos \<Rightarrow> hit_word tmp bword word_list (pos + length bword) (out @ [segment_at bword word_list pos]))"

fun hit_words :: "string list \<Rightarrow> string \<Rightarrow> WordInfomation list \<Rightarrow> AudioSegement list \<Rightarrow> AudioSegement list option" where
  "hit_words [] tmp word_list out = Some out"
| "hit_words (bword # words) tmp word_list out =
     (case hit_word tmp bword word_list 0 out of None \<Rightarrow> None | Some out' \<Rightarrow> hit_words words tmp word_list out')"

definition hitDict ::
  "(Dictionary \<Rightarrow> string list) \<Rightarrow> Dictionary \<Rightarrow> string \<Rightarrow> WordInfomation list \<Rightarrow> AudioSegement list option" where
  "hitDict order D sentence word_list = hit_words (order D) (removeSpaces sentence) word_list []"

section \<open>The dictionary file\<close>

lemma set_fold_add_word: "set (fold add_word ls D) = set ls \<union> set D"
  by (induction ls arbitrary: D) (auto simp: add_word_def)

lemma distinct_fold_add_word: "distinct D \<Longrightarrow> distinct (fold add_word ls D)"
  by (induction ls arbitrary: D) (auto simp: add_word_def)

text \<open>What an input without line breaks in its lines gives back.\<close>

lemma getlines_line:
  "d \<notin> set l \<Longrightarrow> getlines d acc (l @ d # rest) = (rev acc @ l) # getlines d [] rest"
  by (induction l arbitrary: acc) auto

lemma getlines_concat:
  "\<forall>l \<in> set ls. d \<notin> set l \<Longrightarrow> getlines d [] (concat (map (\<lambda>l. l @ [d]) ls)) = ls"
  by (induction ls) (auto simp: getlines_line)

section \<open>Occurrences\<close>

text \<open>The reference: the positions a search from the left finds, each behind the one before.\<close>

function occurrences :: "string \<Rightarrow> string \<Rightarrow> nat \<Rightarrow> nat list" where
  "occurrences tmp w e =
     (if w = [] then [] else
      case str_find tmp w e of None \<Rightarrow> [] | Some p \<Rightarrow> p # occurrences tmp w (p + length w))"
  by auto
termination
proof (relation "measure (\<lambda>(tmp, w, e). Suc (length tmp) - e)")
  show "((tmp, w, p + length w), tmp :: string, w :: string, e) \<in> measure (\<lambda>(tmp, w, e). Suc (length tmp) - e)"
    if "w \<noteq> []" "str_find tmp w e = Some p" for tmp w e p
    using that str_find_Some [OF that(2)] by (cases w) auto
qed simp

declare occurrences.simps [simp del]

lemma hit_word_occurrences:
  assumes "w \<noteq> []"
  shows "hit_word tmp w ws e out = Some (out @ map (segment_at w ws) (occurrences tmp w e))"
  using assms
proof (induction tmp w e arbitrary: out rule: occurrences.induct)
  case (1 tmp w e)
  show ?case
  proof (cases "str_find tmp w e")
    case None
    then show ?thesis by (simp add: hit_word.simps [of tmp w] occurrences.simps [of tmp w])
  next
    case (Some p)
    with "1.prems" have "hit_word tmp w ws e out =
        hit_word tmp w ws (p + length w) (out @ [segment_at w ws p])"
      by (simp add: hit_word.simps [of tmp w ws e])
    with "1.IH" [OF "1.prems" Some "1.prems", of "out @ [segment_at w ws p]"] "1.prems" Some
    show ?thesis by (simp add: occurrences.simps [of tmp w e])
  qed
qed

lemma hit_words_occurrences:
  "[] \<notin> set words \<Longrightarrow> hit_words words tmp ws out =
    Some (out @ concat (map (\<lambda>w. map (segment_at w ws) (occurrences tmp w 0)) words))"
  by (induction words arbitrary: out) (auto simp: hit_word_occurrences)

lemma occurrence_real:
  "p \<in> set (occurrences tmp w e) \<Longrightarrow> e \<le> p \<and> p + length w \<le> length tmp \<and> substr tmp p (length w) = w"
proof (induction tmp w e rule: occurrences.induct)
  case (1 tmp w e)
  from "1.prems" obtain q where q: "w \<noteq> []" "str_find tmp w e = Some q" "p = q \<or> p \<in> set (occurrences tmp w (q + length w))"
    by (cases "str_find tmp w e") (auto simp: occurrences.simps [of tmp w e] split: if_splits)
  with "1.IH" [OF q(1,2)] str_find_Some [OF q(2)] show ?case by auto
qed

lemma every_occurrence_met:
  assumes "w \<noteq> []" and "substr tmp i (length w) = w" and "i \<le> length tmp" and "e \<le> i"
  shows "\<exists>p \<in> set (occurrences tmp w e). p \<le> i \<and> i < p + length w"
  using assms
proof (induction tmp w e rule: occurrences.induct)
  case (1 tmp w e)
  show ?case
  proof (cases "str_find tmp w e")
    case None
    from str_find_None [OF None "1.prems"(4,3)] "1.prems"(2) show ?thesis by simp
  next
    case (Some p)
    have le: "p \<le> i" using str_find_first [OF Some, of i] "1.prems"(2,4) by (meson not_le)
    show ?thesis
    proof (cases "i < p + length w")
      case True
      with le Some "1.prems"(1) show ?thesis by (subst occurrences.simps) auto
    next
      case False
      with "1.IH" [OF "1.prems"(1) Some] "1.prems" have
        "\<exists>q \<in> set (occurrences tmp w (p + length w)). q \<le> i \<and> i < q + length w" by simp
      with Some "1.prems"(1) show ?thesis by (subst occurrences.simps) auto
    qed
  qed
qed

section \<open>The words that cover an occurrence\<close>

text \<open>The reference: the recognised word that holds a position of the text the words make up.\<close>

fun word_at :: "WordInfomation list \<Rightarrow> nat \<Rightarrow> WordInfomation option" where
  "word_at [] i = None"
| "word_at (w # ws) i = (if i < length (wi_text w) then Some w else word_at ws (i - length (wi_text w)))"

definition words_text :: "WordInfomation list \<Rightarrow> string" where
  "words_text ws = concat (map wi_text ws)"

lemma words_text_simps [simp]: "words_text [] = []" "words_text (w # ws) = wi_text w @ words_text ws"
  by (simp_all add: words_text_def)

lemma word_at_Some: "i < length (words_text ws) \<Longrightarrow> \<exists>w. word_at ws i = Some w"
  by (induction ws i rule: word_at.induct) auto

lemma span_past:
  assumes "pos < cnt" and "pos < e" and "e \<le> cnt + length (words_text ws)"
  shows "word_span ws pos e s p cnt = (s, if e \<le> cnt then p else wi_endTime (the (word_at ws (e - 1 - cnt))))"
  using assms
proof (induction ws arbitrary: p cnt)
  case (Cons w ws)
  from Cons.IH [of "cnt + length (wi_text w)" "wi_endTime w"] Cons.prems show ?case by auto
qed simp

lemma span_exact:
  assumes "cnt \<le> pos" and "pos < e" and "e \<le> cnt + length (words_text ws)" and "\<forall>w \<in> set ws. wi_text w \<noteq> []"
  shows "word_span ws pos e s p cnt =
    (wi_startTime (the (word_at ws (pos - cnt))), wi_endTime (the (word_at ws (e - 1 - cnt))))"
  using assms
proof (induction ws arbitrary: s p cnt)
  case (Cons w ws)
  show ?case
  proof (cases "pos < cnt + length (wi_text w)")
    case True
    with span_past [of pos "cnt + length (wi_text w)" e ws "wi_startTime w" "wi_endTime w"] Cons.prems
    show ?thesis by auto
  next
    case False
    with Cons.IH [of "cnt + length (wi_text w)" "wi_startTime w" "wi_endTime w"] Cons.prems show ?thesis by auto
  qed
qed simp

lemma hitDict_spoken:
  assumes "removeSpaces sentence = words_text ws" and "\<forall>w \<in> set ws. wi_text w \<noteq> []" and "[] \<notin> set (order D)"
  shows "hitDict order D sentence ws = Some (concat (map (\<lambda>b. map (\<lambda>p.
        \<lparr>m_start = wi_startTime (the (word_at ws p)), m_end = wi_endTime (the (word_at ws (p + length b - 1))), m_text = b\<rparr>)
        (occurrences (words_text ws) b 0)) (order D)))
    \<and> (b \<in> set (order D) \<and> i \<le> length (words_text ws) \<and> substr (words_text ws) i (length b) = b \<longrightarrow>
       (\<exists>p. p \<in> set (occurrences (words_text ws) b 0) \<and> p \<le> i \<and> i < p + length b))"
proof -
  have seg: "segment_at b ws p = \<lparr>m_start = wi_startTime (the (word_at ws p)),
      m_end = wi_endTime (the (word_at ws (p + length b - 1))), m_text = b\<rparr>"
    if "b \<in> set (order D)" "p \<in> set (occurrences (words_text ws) b 0)" for b p
  proof -
    from that(1) assms(3) have "b \<noteq> []" by auto
    with occurrence_real [OF that(2)] span_exact [of 0 p "p + length b" ws 0 0] assms(2)
    show ?thesis by (simp add: segment_at_def)
  qed
  have "hitDict order D sentence ws =
      Some (concat (map (\<lambda>w. map (segment_at w ws) (occurrences (words_text ws) w 0)) (order D)))"
    using hit_words_occurrences [OF assms(3)] assms(1) by (simp add: hitDict_def)
  also have "map (\<lambda>w. map (segment_at w ws) (occurrences (words_text ws) w 0)) (order D) =
      map (\<lambda>b. map (\<lambda>p. \<lparr>m_start = wi_startTime (the (word_at ws p)),
        m_end = wi_endTime (the (word_at ws (p + length b - 1))), m_text = b\<rparr>)
        (occurrences (words_text ws) b 0)) (order D)"
    by (simp add: seg)
  finally show ?thesis using every_occurrence_met [of b "words_text ws" i 0] assms(3) by auto
qed

text \<open>C6. The times to mute are those of the words spoken: when the recognised words make up the sentence,
  \<open>hitDict\<close> returns, for every word of the list and every place a search from the left finds it, the interval from the start
  of the recognised word that holds the first character to the end of the one that holds the last; and every
  occurrence in the sentence begins inside one that was found.\<close>

theorem hits_are_the_spoken_words:
  assumes "removeSpaces sentence = words_text ws" and "\<forall>w \<in> set ws. wi_text w \<noteq> []" and "[] \<notin> set (order D)"
  shows "hitDict order D sentence ws = Some (concat (map (\<lambda>b. map (\<lambda>p.
        \<lparr>m_start = wi_startTime (the (word_at ws p)), m_end = wi_endTime (the (word_at ws (p + length b - 1))), m_text = b\<rparr>)
        (occurrences (words_text ws) b 0)) (order D)))
    \<and> (b \<in> set (order D) \<and> i \<le> length (words_text ws) \<and> substr (words_text ws) i (length b) = b \<longrightarrow>
       (\<exists>p. p \<in> set (occurrences (words_text ws) b 0) \<and> p \<le> i \<and> i < p + length b))"
  using assms by (rule hitDict_spoken)

section \<open>An empty line in the dictionary\<close>

lemma hit_word_empty:
  assumes "e \<le> length tmp"
  shows "hit_word tmp [] ws e out = None"
proof (rule ccontr)
  assume "hit_word tmp [] ws e out \<noteq> None"
  then obtain r where "hit_word tmp [] ws e out = Some r" by auto
  then have "[] = ([] :: string) \<longrightarrow> e \<le> length tmp \<longrightarrow> False"
  proof (rule hit_word.raw_induct [where P = "\<lambda>tmp w ws e out r. w = [] \<longrightarrow> e \<le> length tmp \<longrightarrow> False", rotated])
    fix hit tmp w ws e out r
    assume IH: "\<And>tmp w ws e out r. hit tmp w ws e out = Some r \<Longrightarrow> w = [] \<longrightarrow> e \<le> length tmp \<longrightarrow> False"
      and r: "(case str_find tmp w e of None \<Rightarrow> Some out
          | Some pos \<Rightarrow> hit tmp w ws (pos + length w) (out @ [segment_at w ws pos])) = Some r"
    have "str_find tmp [] e = Some e" if "e \<le> length tmp" for e
      using that by (cases "drop e tmp") (simp_all add: str_find_def)
    with IH r show "w = [] \<longrightarrow> e \<le> length tmp \<longrightarrow> False" by auto
  qed
  with assms show False by simp
qed

text \<open>A blank line in the dictionary file hangs the recogniser's callback: it is stored as the empty word, which is found
  again at the end of every match, so \<open>hitDict\<close> never returns, whatever was said.\<close>

theorem blank_line_hangs:
  assumes "set (order (loadFromFile (Some file) D)) = set (loadFromFile (Some file) D)"
    and "[] \<in> set (getlines (char_of (10 :: nat)) [] file)"
  shows "hitDict order (loadFromFile (Some file) D) sentence ws = None"
proof -
  have "[] \<in> set words \<Longrightarrow> hit_words words tmp ws out = None" for words tmp out
  proof (induction words arbitrary: out)
    case (Cons w words)
    then show ?case by (cases "w = []") (auto simp: hit_word_empty split: option.split)
  qed simp
  moreover have "[] \<in> set (order (loadFromFile (Some file) D))"
    using assms by (simp add: loadFromFile_def set_fold_add_word)
  ultimately show ?thesis by (simp add: hitDict_def)
qed

section \<open>Examples\<close>

definition words_example :: "WordInfomation list" where
  "words_example = [\<lparr>wi_text = ''ab'', wi_startTime = 100, wi_endTime = 300\<rparr>, \<lparr>wi_text = ''cd'', wi_startTime = 300, wi_endTime = 450\<rparr>,
     \<lparr>wi_text = ''a'', wi_startTime = 500, wi_endTime = 600\<rparr>]"

lemma hits_are_the_spoken_words_witness:
  "hitDict (\<lambda>D. D) [''bc'', ''a''] ''abc da'' words_example = Some (concat (map (\<lambda>b. map (\<lambda>p.
        \<lparr>m_start = wi_startTime (the (word_at words_example p)),
         m_end = wi_endTime (the (word_at words_example (p + length b - 1))), m_text = b\<rparr>)
        (occurrences (words_text words_example) b 0)) [''bc'', ''a'']))
    \<and> (\<exists>p. p \<in> set (occurrences (words_text words_example) ''a'' 0) \<and> p \<le> 4 \<and> 4 < p + length ''a'')"
proof -
  have "removeSpaces ''abc da'' = words_text words_example"
    by (simp add: removeSpaces_def is_space_def words_example_def)
  from hits_are_the_spoken_words [OF this, of "\<lambda>D. D" "[''bc'', ''a'']" "''a''" 4]
  show ?thesis by (simp add: words_example_def substr_def)
qed

lemma blank_line_hangs_witness:
  "hitDict (\<lambda>D. D) (loadFromFile (Some [CHR ''x'', char_of (10 :: nat), char_of (10 :: nat), CHR ''y'']) []) ''any'' [] = None"
  by (rule blank_line_hangs) simp_all

end
