(* ===== verification/Replacer.thy ===== *)
theory Replacer
  imports Prelude "HOL-Library.Monad_Syntax"
begin

text \<open>
  Muting one audio packet: \<open>processor/replacer.cpp\<close>. libavcodec is a record of functions on its own state \<open>'c\<close>,
  with the return codes its documentation gives; the loops of the source retry on \<open>EAGAIN\<close> without bound, so that
  the functions are partial: \<open>None\<close> is a loop that never ends, \<open>Undefined\<close> an access outside a plane.
\<close>

section \<open>Packets, frames and the codec\<close>

record AVPacket =
  pk_stream_index :: int
  pk_pts :: int
  pk_dts :: int
  pk_duration :: int
  pk_data :: "byte list"

record AVFrame =
  fr_nb_samples :: nat
  fr_planes :: "byte list list"

datatype 'a outcome = Returns 'a | Exits int | Undefined

text \<open>A computation that may not return, followed by another.\<close>

definition and_then :: "'a outcome option \<Rightarrow> ('a \<Rightarrow> 'b outcome option) \<Rightarrow> 'b outcome option" where
  "and_then r f = (case r of None \<Rightarrow> None | Some (Returns x) \<Rightarrow> f x | Some (Exits k) \<Rightarrow> Some (Exits k) | Some Undefined \<Rightarrow> Some Undefined)"

lemma and_then_Returns: "and_then r f = Some (Returns y) \<longleftrightarrow> (\<exists>x. r = Some (Returns x) \<and> f x = Some (Returns y))"
  by (auto simp: and_then_def split: option.splits outcome.splits)

lemma and_then_simps [simp]: "and_then (Some (Returns x)) f = f x" "and_then None f = None"
  by (simp_all add: and_then_def)

abbreviation (input) AVERROR_EAGAIN :: int where "AVERROR_EAGAIN \<equiv> - 11"
abbreviation (input) AVERROR_EOF :: int where "AVERROR_EOF \<equiv> - 541478725"

record 'c codec_lib =
  avcodec_send_packet :: "'c \<Rightarrow> AVPacket \<Rightarrow> int \<times> 'c"
  avcodec_receive_frame :: "'c \<Rightarrow> int \<times> AVFrame \<times> 'c"
  avcodec_send_frame :: "'c \<Rightarrow> AVFrame \<Rightarrow> int \<times> 'c"
  avcodec_receive_packet :: "'c \<Rightarrow> int \<times> AVPacket \<times> 'c"
  av_bytes_per_sample :: nat
  av_nb_channels :: nat

text \<open>The results of opening the codecs: the best audio stream, whether each allocation succeeds, what \<open>avcodec_open2\<close>
  returns and whether an encoder exists.\<close>

record codec_setup =
  cs_best_stream :: int
  cs_alloc_decoder :: bool
  cs_open_decoder :: int
  cs_find_encoder :: bool
  cs_alloc_encoder :: bool

text \<open>Also the first half of \<open>Asr::createAudioDecoder\<close>. The stream's index is stored in any case.\<close>

definition createAudioDecoder :: "codec_setup \<Rightarrow> int \<times> int" where
  "createAudioDecoder S =
     (if cs_best_stream S < 0 then - 1
      else if \<not> cs_alloc_decoder S then - 1
      else if cs_open_decoder S < 0 then - 1 else 0, cs_best_stream S)"

definition createAudioEncoder :: "codec_setup \<Rightarrow> int" where
  "createAudioEncoder S = (if \<not> cs_find_encoder S then - 1 else if \<not> cs_alloc_encoder S then - 1 else 0)"

definition replacer_init :: "codec_setup \<Rightarrow> int \<times> int" where
  "replacer_init S =
     (let (ret, index) = createAudioDecoder S in
      if ret < 0 then (ret, index)
      else (let ret2 = createAudioEncoder S in if ret2 < 0 then (ret2, index) else (0, index)))"

section \<open>The four loops\<close>

partial_function (option) send_packet_loop :: "'c codec_lib \<Rightarrow> AVPacket \<Rightarrow> 'c \<Rightarrow> (bool \<times> 'c) option" where
  "send_packet_loop L packet c =
     (let (ret, c1) = avcodec_send_packet L c packet in
      if 0 \<le> ret then Some (True, c1)
      else if ret = AVERROR_EAGAIN then send_packet_loop L packet c1
      else Some (False, c1))"

partial_function (option) receive_frame_loop :: "'c codec_lib \<Rightarrow> AVPacket \<Rightarrow> 'c \<Rightarrow> (AVFrame option \<times> 'c) option" where
  "receive_frame_loop L packet c =
     (let (ret, frame, c1) = avcodec_receive_frame L c in
      if 0 \<le> ret then Some (Some frame, c1)
      else if ret = AVERROR_EAGAIN then receive_frame_loop L packet (snd (avcodec_send_packet L c1 packet))
      else Some (None, c1))"

partial_function (option) send_frame_loop :: "'c codec_lib \<Rightarrow> AVFrame \<Rightarrow> 'c \<Rightarrow> (bool \<times> 'c) option" where
  "send_frame_loop L frame c =
     (let (ret, c1) = avcodec_send_frame L c frame in
      if 0 \<le> ret then Some (True, c1)
      else if ret = AVERROR_EAGAIN then send_frame_loop L frame c1
      else Some (False, c1))"

partial_function (option) receive_packet_loop :: "'c codec_lib \<Rightarrow> AVFrame \<Rightarrow> 'c \<Rightarrow> (AVPacket option \<times> 'c) option" where
  "receive_packet_loop L frame c =
     (let (ret, out_packet, c1) = avcodec_receive_packet L c in
      if 0 \<le> ret then Some (Some out_packet, c1)
      else if ret = AVERROR_EAGAIN then receive_packet_loop L frame (snd (avcodec_send_frame L c1 frame))
      else Some (None, c1))"

section \<open>Muting\<close>

text \<open>\<open>memset(frame->data[ch] + data_size * i, 0, data_size)\<close>, sample by sample and channel by channel; \<open>None\<close> where
  a plane is missing or too short.\<close>

definition zero_at :: "nat \<Rightarrow> nat \<Rightarrow> byte list \<Rightarrow> byte list option" where
  "zero_at from len plane =
     (if from + len \<le> length plane then Some (take from plane @ replicate len 0 @ drop (from + len) plane) else None)"

fun mute_channels :: "nat \<Rightarrow> nat \<Rightarrow> nat \<Rightarrow> byte list list \<Rightarrow> byte list list option" where
  "mute_channels 0 from len planes = Some planes"
| "mute_channels (Suc ch) from len planes =
     do {
       planes' \<leftarrow> mute_channels ch from len planes;
       if ch < length planes' then map_option (\<lambda>pl. planes'[ch := pl]) (zero_at from len (planes' ! ch)) else None
     }"

fun mute_samples :: "nat \<Rightarrow> nat \<Rightarrow> nat \<Rightarrow> byte list list \<Rightarrow> byte list list option" where
  "mute_samples 0 dsz chs planes = Some planes"
| "mute_samples (Suc i) dsz chs planes =
     do { planes' \<leftarrow> mute_samples i dsz chs planes; mute_channels chs (dsz * i) dsz planes' }"

definition mute_frame :: "'c codec_lib \<Rightarrow> AVFrame \<Rightarrow> AVFrame option" where
  "mute_frame L frame =
     map_option (\<lambda>planes. frame\<lparr>fr_planes := planes\<rparr>)
       (mute_samples (fr_nb_samples frame) (av_bytes_per_sample L) (av_nb_channels L) (fr_planes frame))"

definition encode_muted :: "'c codec_lib \<Rightarrow> int \<Rightarrow> AVPacket \<Rightarrow> AVFrame \<Rightarrow> 'c \<Rightarrow> (AVPacket \<times> 'c) option" where
  "encode_muted L index packet frame c =
     do {
       (sent, c1) \<leftarrow> send_frame_loop L frame c;
       if \<not> sent then Some (packet, c1)
       else do {
         (out, c2) \<leftarrow> receive_packet_loop L frame c1;
         Some (case out of
             None \<Rightarrow> (packet, c2)
           | Some out_packet \<Rightarrow>
               (out_packet\<lparr>pk_pts := pk_pts packet, pk_dts := pk_dts packet, pk_stream_index := index,
                  pk_duration := pk_duration packet\<rparr>, c2))
       }
     }"

definition replaceAudioToMute :: "'c codec_lib \<Rightarrow> int \<Rightarrow> AVPacket \<Rightarrow> 'c \<Rightarrow> (AVPacket \<times> 'c) outcome option" where
  "replaceAudioToMute L index packet c =
     do {
       (sent, c1) \<leftarrow> send_packet_loop L packet c;
       if \<not> sent then Some (Returns (packet, c1))
       else do {
         (received, c2) \<leftarrow> receive_frame_loop L packet c1;
         case received of
           None \<Rightarrow> Some (Returns (packet, c2))
         | Some frame \<Rightarrow>
             (case mute_frame L frame of
                None \<Rightarrow> Some Undefined
              | Some quiet \<Rightarrow> map_option Returns (encode_muted L index packet quiet c2))
       }
     }"

section \<open>What the loops over samples and channels do\<close>

lemma zero_at_length: "zero_at from len pl = Some pl' \<Longrightarrow> length pl' = length pl"
  by (auto simp: zero_at_def split: if_splits)

lemma zero_prefix:
  "zero_at k len (replicate k 0 @ drop k pl) = (if k + len \<le> length pl then Some (replicate (k + len) 0 @ drop (k + len) pl) else None)"
  if "k \<le> length pl"
  using that by (auto simp: zero_at_def replicate_add add.commute)

definition silenced :: "nat \<Rightarrow> nat \<Rightarrow> byte list list \<Rightarrow> byte list list" where
  "silenced chs k planes = map (\<lambda>pl. replicate k 0 @ drop k pl) (take chs planes) @ drop chs planes"

lemma length_silenced [simp]: "length (silenced chs k planes) = length planes"
  by (simp add: silenced_def)

lemma mute_channels_row:
  assumes "chs \<le> length planes" and "\<forall>pl \<in> set (take chs planes). k + len \<le> length pl" and "ch \<le> chs"
  shows "mute_channels ch k len (silenced chs k planes) =
    Some (map (\<lambda>pl. replicate (k + len) 0 @ drop (k + len) pl) (take ch planes) @ drop ch (silenced chs k planes))"
  using assms(3)
proof (induction ch)
  case (Suc ch)
  let ?q = "map (\<lambda>pl. replicate (k + len) (0 :: byte) @ drop (k + len) pl) (take ch planes) @ drop ch (silenced chs k planes)"
  have i: "ch < length planes" "ch < chs" using Suc.prems assms(1) by simp_all
  have "planes ! ch \<in> set (take chs planes)" using i assms(1) by (auto simp: in_set_conv_nth intro: exI [of _ ch])
  with assms(2) have "k + len \<le> length (planes ! ch)" by blast
  moreover have at: "?q ! ch = replicate k 0 @ drop k (planes ! ch)"
    using i by (simp add: nth_append silenced_def)
  ultimately have "zero_at k len (?q ! ch) = Some (replicate (k + len) 0 @ drop (k + len) (planes ! ch))"
    using zero_prefix [of k "planes ! ch" len] by simp
  moreover have "mute_channels ch k len (silenced chs k planes) = Some ?q" using Suc by simp
  moreover have "?q[ch := replicate (k + len) 0 @ drop (k + len) (planes ! ch)] =
      map (\<lambda>pl. replicate (k + len) 0 @ drop (k + len) pl) (take (Suc ch) planes) @ drop (Suc ch) (silenced chs k planes)"
    using i by (simp add: list_update_append take_Suc_conv_app_nth upd_conv_take_nth_drop)
  ultimately show ?case using i by simp
qed simp

lemma mute_samples_silenced:
  assumes "chs \<le> length planes" and "\<forall>pl \<in> set (take chs planes). n * dsz \<le> length pl"
  shows "mute_samples n dsz chs planes = Some (silenced chs (n * dsz) planes)"
  using assms(2)
proof (induction n)
  case (Suc n)
  have len: "\<forall>pl \<in> set (take chs planes). n * dsz + dsz \<le> length pl" using Suc.prems by (simp add: add.commute)
  then have "\<forall>pl \<in> set (take chs planes). n * dsz \<le> length pl" by auto
  with Suc.IH have "mute_samples (Suc n) dsz chs planes = mute_channels chs (n * dsz) dsz (silenced chs (n * dsz) planes)"
    by (simp add: mult.commute)
  also have "\<dots> = Some (map (\<lambda>pl. replicate (n * dsz + dsz) 0 @ drop (n * dsz + dsz) pl) (take chs planes)
      @ drop chs (silenced chs (n * dsz) planes))"
    using mute_channels_row [OF assms(1) len, of chs] by simp
  also have "drop chs (silenced chs (n * dsz) planes) = drop chs planes" using assms(1) by (simp add: silenced_def)
  finally show ?case by (simp add: silenced_def add.commute)
qed (simp add: silenced_def)

lemma replaced_by_silence:
  assumes "avcodec_send_packet L c packet = (0, c1)" and "avcodec_receive_frame L c1 = (0, frame, c2)"
    and "av_nb_channels L \<le> length (fr_planes frame)"
    and "\<forall>pl \<in> set (take (av_nb_channels L) (fr_planes frame)). length pl = fr_nb_samples frame * av_bytes_per_sample L"
    and "quiet = frame\<lparr>fr_planes := map (\<lambda>pl. replicate (length pl) 0) (take (av_nb_channels L) (fr_planes frame))
           @ drop (av_nb_channels L) (fr_planes frame)\<rparr>"
    and "avcodec_send_frame L c2 quiet = (0, c3)" and "avcodec_receive_packet L c3 = (0, out, c4)"
  shows "replaceAudioToMute L index packet c =
    Some (Returns (out\<lparr>pk_pts := pk_pts packet, pk_dts := pk_dts packet, pk_stream_index := index,
      pk_duration := pk_duration packet\<rparr>, c4))"
proof -
  let ?chs = "av_nb_channels L" and ?k = "fr_nb_samples frame * av_bytes_per_sample L"
  have "silenced ?chs ?k (fr_planes frame) =
      map (\<lambda>pl. replicate (length pl) 0) (take ?chs (fr_planes frame)) @ drop ?chs (fr_planes frame)"
    using assms(4) by (simp add: silenced_def)
  with mute_samples_silenced [of ?chs "fr_planes frame" "fr_nb_samples frame" "av_bytes_per_sample L"] assms(3-5)
  have "mute_frame L frame = Some quiet" by (simp add: mute_frame_def)
  with assms(1,2,6,7) show ?thesis
    by (simp add: replaceAudioToMute_def encode_muted_def send_packet_loop.simps [of L packet c]
        receive_frame_loop.simps [of L packet c1] send_frame_loop.simps [of L quiet c2] receive_packet_loop.simps [of L quiet c3])
qed

text \<open>C23. A muted packet is silent and keeps its place in the stream: with a codec that takes the packet and gives a frame
  with all its planes, the encoder is fed that frame with every sample of every channel zero, and what it returns
  carries the time stamps and the duration of the original packet.\<close>

theorem muted_packet:
  assumes "avcodec_send_packet L c packet = (0, c1)" and "avcodec_receive_frame L c1 = (0, frame, c2)"
    and "av_nb_channels L \<le> length (fr_planes frame)"
    and "\<forall>pl \<in> set (take (av_nb_channels L) (fr_planes frame)). length pl = fr_nb_samples frame * av_bytes_per_sample L"
    and "quiet = frame\<lparr>fr_planes := map (\<lambda>pl. replicate (length pl) 0) (take (av_nb_channels L) (fr_planes frame))
           @ drop (av_nb_channels L) (fr_planes frame)\<rparr>"
    and "avcodec_send_frame L c2 quiet = (0, c3)" and "avcodec_receive_packet L c3 = (0, out, c4)"
  shows "replaceAudioToMute L index packet c =
    Some (Returns (out\<lparr>pk_pts := pk_pts packet, pk_dts := pk_dts packet, pk_stream_index := index,
      pk_duration := pk_duration packet\<rparr>, c4))"
  using assms by (rule replaced_by_silence)

text \<open>A codec that takes every packet at once: what it is sent comes back as a frame, what it encodes as a packet. A packet
  is silent when its bytes are the encoding of a frame whose samples are all zero.\<close>

definition reliable :: "'c codec_lib \<Rightarrow> bool" where
  "reliable L \<longleftrightarrow> (\<forall>c p. \<exists>c1 frame c2. avcodec_send_packet L c p = (0, c1) \<and> avcodec_receive_frame L c1 = (0, frame, c2)
     \<and> av_nb_channels L \<le> length (fr_planes frame)
     \<and> (\<forall>pl \<in> set (take (av_nb_channels L) (fr_planes frame)). length pl = fr_nb_samples frame * av_bytes_per_sample L)
     \<and> (\<forall>quiet. \<exists>c3 out c4. avcodec_send_frame L c2 quiet = (0, c3) \<and> avcodec_receive_packet L c3 = (0, out, c4)))"

definition zero_frame :: "'c codec_lib \<Rightarrow> AVFrame \<Rightarrow> bool" where
  "zero_frame L f \<longleftrightarrow> (\<forall>pl \<in> set (take (av_nb_channels L) (fr_planes f)). list_all (\<lambda>b. b = 0) pl)"

definition silent_packet :: "'c codec_lib \<Rightarrow> AVPacket \<Rightarrow> bool" where
  "silent_packet L q \<longleftrightarrow> (\<exists>f c c1 out c2. zero_frame L f \<and> avcodec_send_frame L c f = (0, c1)
     \<and> avcodec_receive_packet L c1 = (0, out, c2) \<and> pk_data q = pk_data out)"

lemma replaced_is_silent:
  assumes "reliable L" and "replaceAudioToMute L index p c = Some (Returns (q, c'))"
  shows "silent_packet L q"
proof -
  from assms(1) obtain c1 frame c2 where 1: "avcodec_send_packet L c p = (0, c1)" "avcodec_receive_frame L c1 = (0, frame, c2)"
      "av_nb_channels L \<le> length (fr_planes frame)"
      "\<forall>pl \<in> set (take (av_nb_channels L) (fr_planes frame)). length pl = fr_nb_samples frame * av_bytes_per_sample L"
    and enc: "\<And>quiet. \<exists>c3 out c4. avcodec_send_frame L c2 quiet = (0, c3) \<and> avcodec_receive_packet L c3 = (0, out, c4)"
    unfolding reliable_def by meson
  let ?quiet = "frame\<lparr>fr_planes := map (\<lambda>pl. replicate (length pl) 0) (take (av_nb_channels L) (fr_planes frame))
      @ drop (av_nb_channels L) (fr_planes frame)\<rparr>"
  from enc [of ?quiet] obtain c3 out c4 where 2: "avcodec_send_frame L c2 ?quiet = (0, c3)" "avcodec_receive_packet L c3 = (0, out, c4)"
    by blast
  from replaced_by_silence [OF 1 refl 2, of index] assms(2) have "pk_data q = pk_data out" by auto
  moreover have "zero_frame L ?quiet" using 1(3) by (auto simp: zero_frame_def list_all_iff)
  ultimately show ?thesis using 2 unfolding silent_packet_def by blast
qed

text \<open>Whatever the codec does, a packet that comes back is the packet that went in or has its times.\<close>

lemma mute_keeps_times:
  assumes "replaceAudioToMute L index packet c = Some (Returns (out, c'))"
  shows "pk_pts out = pk_pts packet \<and> pk_dts out = pk_dts packet \<and> pk_duration out = pk_duration packet
    \<and> (pk_stream_index packet = index \<longrightarrow> pk_stream_index out = index)"
proof -
  have enc: "pk_pts out = pk_pts packet \<and> pk_dts out = pk_dts packet \<and> pk_duration out = pk_duration packet
      \<and> (pk_stream_index packet = index \<longrightarrow> pk_stream_index out = index)"
    if "encode_muted L index packet f d = Some (out, c')" for f d
  proof -
    from that obtain sent d1 where 1: "send_frame_loop L f d = Some (sent, d1)" by (auto simp: encode_muted_def bind_eq_Some_conv)
    show ?thesis
    proof (cases sent)
      case True
      with that 1 obtain o' d2 where "receive_packet_loop L f d1 = Some (o', d2)" by (auto simp: encode_muted_def bind_eq_Some_conv)
      with that 1 True show ?thesis by (cases o') (auto simp: encode_muted_def)
    qed (use that 1 in \<open>auto simp: encode_muted_def\<close>)
  qed
  from assms obtain sent c1 where 1: "send_packet_loop L packet c = Some (sent, c1)"
    by (auto simp: replaceAudioToMute_def bind_eq_Some_conv)
  show ?thesis
  proof (cases sent)
    case True
    with assms 1 obtain got c2 where 2: "receive_frame_loop L packet c1 = Some (got, c2)"
      by (auto simp: replaceAudioToMute_def bind_eq_Some_conv)
    with assms 1 True enc show ?thesis by (auto simp: replaceAudioToMute_def split: option.splits)
  qed (use assms 1 in \<open>auto simp: replaceAudioToMute_def\<close>)
qed

text \<open>Muting can hang: a decoder that cannot take input now keeps answering \<open>EAGAIN\<close> until its output is read, and the
  first loop never reads it; \<open>replaceAudioToMute\<close> then never returns.\<close>

theorem mute_never_returns:
  assumes "avcodec_send_packet L c packet = (AVERROR_EAGAIN, c)"
  shows "replaceAudioToMute L index packet c = None"
proof -
  have "send_packet_loop L packet c = None"
  proof (rule ccontr)
    assume "send_packet_loop L packet c \<noteq> None"
    then obtain r where r: "send_packet_loop L packet c = Some r" by blast
    have "avcodec_send_packet L c packet = (AVERROR_EAGAIN, c) \<longrightarrow> False"
    proof (rule send_packet_loop.raw_induct
        [where P = "\<lambda>L packet c r. avcodec_send_packet L c packet = (AVERROR_EAGAIN, c) \<longrightarrow> False", OF _ r])
      show "avcodec_send_packet L c packet = (AVERROR_EAGAIN, c) \<longrightarrow> False"
        if "\<And>L packet c r. loop L packet c = Some r \<Longrightarrow> avcodec_send_packet L c packet = (AVERROR_EAGAIN, c) \<longrightarrow> False"
          and "(let (ret, c1) = avcodec_send_packet L c packet in
             if 0 \<le> ret then Some (True, c1) else if ret = AVERROR_EAGAIN then loop L packet c1 else Some (False, c1)) = Some r"
        for loop :: "'a codec_lib \<Rightarrow> AVPacket \<Rightarrow> 'a \<Rightarrow> (bool \<times> 'a) option" and L packet c r
        using that(1) [of L packet c r] that(2) by auto
    qed
    with assms show False by simp
  qed
  then show ?thesis by (simp add: replaceAudioToMute_def)
qed

section \<open>Examples\<close>

text \<open>A codec that passes the bytes through, one plane to a packet.\<close>

definition codec_example :: "byte list codec_lib" where
  "codec_example = \<lparr>avcodec_send_packet = (\<lambda>c p. if c = [] then (0, pk_data p) else (- 11, c)),
     avcodec_receive_frame = (\<lambda>c. (0, \<lparr>fr_nb_samples = length c, fr_planes = [c]\<rparr>, [])),
     avcodec_send_frame = (\<lambda>c f. (0, hd (fr_planes f))),
     avcodec_receive_packet = (\<lambda>c. (0, \<lparr>pk_stream_index = 0, pk_pts = 0, pk_dts = 0, pk_duration = 0, pk_data = c\<rparr>, [])),
     av_bytes_per_sample = 1, av_nb_channels = 1\<rparr>"

definition packet_example :: AVPacket where
  "packet_example = \<lparr>pk_stream_index = 1, pk_pts = 40, pk_dts = 39, pk_duration = 23, pk_data = [7, 8]\<rparr>"

lemma muted_packet_witness:
  "replaceAudioToMute codec_example 1 packet_example [] =
    Some (Returns (\<lparr>pk_stream_index = 0, pk_pts = 0, pk_dts = 0, pk_duration = 0, pk_data = [0, 0]\<rparr>
      \<lparr>pk_pts := pk_pts packet_example, pk_dts := pk_dts packet_example, pk_stream_index := 1,
       pk_duration := pk_duration packet_example\<rparr>, []))"
  by (rule muted_packet [where frame = "\<lparr>fr_nb_samples = 2, fr_planes = [[7, 8]]\<rparr>" and ?c1.0 = "[7, 8]" and ?c2.0 = "[]"
        and ?c3.0 = "[0, 0]", OF _ _ _ _ refl]) (simp_all add: codec_example_def packet_example_def)

lemma mute_never_returns_witness: "replaceAudioToMute codec_example 1 packet_example [5] = None"
  by (rule mute_never_returns) (simp add: codec_example_def)

end
