(* ===== verification/Delayer.thy ===== *)
theory Delayer
  imports Replacer
begin

text \<open>
  The delay line of the relay: \<open>processor/delayer.cpp\<close>. Packets wait in a list until the durations behind them pass
  twice the delay (audio and video are counted together); while they wait, the audio of a time window can be muted.
  \<open>dl_written\<close> records the packets given to \<open>av_interleaved_write_frame\<close>. The mutex makes every operation one step.
\<close>

section \<open>State and operations\<close>

record delayer =
  dl_av_packet :: "AVPacket list"
  dl_deley_sec :: int
  dl_total_deley_ms :: int
  dl_handshake_done :: bool
  dl_written :: "AVPacket list"

definition delayer_new :: "int \<Rightarrow> delayer" where
  "delayer_new sec = \<lparr>dl_av_packet = [], dl_deley_sec = sec, dl_total_deley_ms = 0, dl_handshake_done = False, dl_written = []\<rparr>"

text \<open>What opening the output gives.\<close>

record output_env =
  oe_nofile :: bool
  oe_avio_open :: int
  oe_write_header :: int

definition handshake :: "output_env \<Rightarrow> delayer \<Rightarrow> delayer outcome" where
  "handshake out D =
     (if dl_handshake_done D then Returns D
      else if \<not> oe_nofile out \<and> oe_avio_open out < 0 then Exits (- 1)
      else if oe_write_header out < 0 then Exits (- 1)
      else Returns (D\<lparr>dl_handshake_done := True\<rparr>))"

text \<open>\<open>m_deley_sec * 1000 * 2\<close> in \<open>int\<close>, whose overflow is undefined.\<close>

definition delay_limit :: "int \<Rightarrow> int option" where
  "delay_limit sec = (if - 2147483648 \<le> sec * 1000 * 2 \<and> sec * 1000 * 2 < 2147483648 then Some (sec * 1000 * 2) else None)"

text \<open>The loop of \<open>flush\<close>; \<open>front()\<close> of an empty list is undefined.\<close>

fun flush_loop :: "output_env \<Rightarrow> int \<Rightarrow> AVPacket list \<Rightarrow> delayer \<Rightarrow> delayer outcome" where
  "flush_loop out limit [] D = Undefined"
| "flush_loop out limit (p # ps) D =
     (if dl_total_deley_ms D - pk_duration p > limit then
        (case handshake out D of
           Returns D1 \<Rightarrow> flush_loop out limit ps
             (D1\<lparr>dl_av_packet := ps, dl_total_deley_ms := int32 (dl_total_deley_ms D1 - pk_duration p),
                 dl_written := dl_written D1 @ [p]\<rparr>)
         | Exits k \<Rightarrow> Exits k
         | Undefined \<Rightarrow> Undefined)
      else Returns D)"

definition flush :: "output_env \<Rightarrow> delayer \<Rightarrow> delayer outcome" where
  "flush out D =
     (case delay_limit (dl_deley_sec D) of
        None \<Rightarrow> Undefined
      | Some limit \<Rightarrow> if dl_total_deley_ms D > limit then flush_loop out limit (dl_av_packet D) D else Returns D)"

definition pushVideoFrame :: "output_env \<Rightarrow> AVPacket \<Rightarrow> delayer \<Rightarrow> delayer outcome" where
  "pushVideoFrame out pkt D =
     flush out (D\<lparr>dl_av_packet := dl_av_packet D @ [pkt], dl_total_deley_ms := int32 (dl_total_deley_ms D + pk_duration pkt)\<rparr>)"

definition pushAudioFrame :: "output_env \<Rightarrow> AVPacket \<Rightarrow> delayer \<Rightarrow> delayer outcome" where
  "pushAudioFrame out pkt D =
     flush out (D\<lparr>dl_av_packet := dl_av_packet D @ [pkt], dl_total_deley_ms := int32 (dl_total_deley_ms D + pk_duration pkt)\<rparr>)"

type_synonym 'c muter = "AVPacket \<Rightarrow> 'c \<Rightarrow> (AVPacket \<times> 'c) outcome option"

definition in_window :: "int \<Rightarrow> int \<Rightarrow> int \<Rightarrow> AVPacket \<Rightarrow> bool" where
  "in_window index start stop p \<longleftrightarrow> pk_stream_index p = index \<and> start - 200 \<le> pk_pts p \<and> pk_pts p \<le> stop"

fun mute_packets :: "'c muter \<Rightarrow> int \<Rightarrow> int \<Rightarrow> int \<Rightarrow> AVPacket list \<Rightarrow> 'c \<Rightarrow> (AVPacket list \<times> 'c) outcome option" where
  "mute_packets mute index start stop [] c = Some (Returns ([], c))"
| "mute_packets mute index start stop (p # ps) c =
     and_then (if in_window index start stop p then mute p c else Some (Returns (p, c))) (\<lambda>(q, c1).
     and_then (mute_packets mute index start stop ps c1) (\<lambda>(qs, c2). Some (Returns (q # qs, c2))))"

definition replaceAudioPacket :: "'c muter \<Rightarrow> int \<Rightarrow> int \<Rightarrow> int \<Rightarrow> delayer \<Rightarrow> 'c \<Rightarrow> (delayer \<times> 'c) outcome option" where
  "replaceAudioPacket mute index start stop D c =
     and_then (mute_packets mute index start stop (dl_av_packet D) c)
       (\<lambda>(ps, c1). Some (Returns (D\<lparr>dl_av_packet := ps\<rparr>, c1)))"

section \<open>The invariant\<close>

definition durations :: "AVPacket list \<Rightarrow> int" where
  "durations ps = sum_list (map pk_duration ps)"

lemma durations_simps [simp]:
  "durations [] = 0" "durations (p # ps) = pk_duration p + durations ps" "durations (ps @ qs) = durations ps + durations qs"
  by (simp_all add: durations_def)

text \<open>The delay is sensible and no packet is longer than \<open>m\<close>: then no \<open>int\<close> overflows.\<close>

definition sane :: "int \<Rightarrow> int \<Rightarrow> bool" where
  "sane m sec \<longleftrightarrow> 0 \<le> m \<and> 0 \<le> sec \<and> sec * 2000 + 2 * m < 2147483648"

definition fits :: "int \<Rightarrow> AVPacket \<Rightarrow> bool" where
  "fits m p \<longleftrightarrow> 0 \<le> pk_duration p \<and> pk_duration p \<le> m"

text \<open>The counter is the sum of the durations in the list, at most one packet more than the limit; once anything was
  written, more than the limit is held back, and so it was behind each packet when it was written.\<close>

fun held_back :: "int \<Rightarrow> AVPacket list \<Rightarrow> AVPacket list \<Rightarrow> bool" where
  "held_back limit [] rest = True"
| "held_back limit (p # ps) rest = (limit < durations (ps @ rest) \<and> held_back limit ps rest)"

definition delayer_inv :: "int \<Rightarrow> delayer \<Rightarrow> bool" where
  "delayer_inv m D \<longleftrightarrow> sane m (dl_deley_sec D) \<and> list_all (fits m) (dl_written D) \<and> list_all (fits m) (dl_av_packet D)
     \<and> dl_total_deley_ms D = durations (dl_av_packet D)
     \<and> dl_total_deley_ms D \<le> dl_deley_sec D * 2000 + m
     \<and> held_back (dl_deley_sec D * 2000) (dl_written D) (dl_av_packet D)
     \<and> (dl_written D \<noteq> [] \<longrightarrow> dl_handshake_done D)"

declare delayer_inv_def [inv_defs] sane_def [inv_defs] fits_def [inv_defs]

lemma durations_nonneg: "list_all (fits m) ps \<Longrightarrow> 0 \<le> durations ps"
  by (induction ps) (auto simp: fits_def)

lemma held_back_mono:
  "held_back limit ps rest \<Longrightarrow> durations rest \<le> durations rest' \<Longrightarrow> held_back limit ps rest'"
  by (induction ps) auto

lemma held_back_snoc:
  "held_back limit (ps @ [p]) rest \<longleftrightarrow> held_back limit ps (p # rest) \<and> limit < durations rest"
  by (induction ps) auto

lemma held_back_at: "held_back limit (xs @ p # ys) rest \<Longrightarrow> limit < durations (ys @ rest)"
  by (induction xs) auto

text \<open>The loop, from any state in which the list may still be too long.\<close>

definition opens :: "output_env \<Rightarrow> bool" where
  "opens out \<longleftrightarrow> (oe_nofile out \<or> 0 \<le> oe_avio_open out) \<and> 0 \<le> oe_write_header out"

lemma handshake_cases:
  "handshake out D = Returns D' \<Longrightarrow> D' = D\<lparr>dl_handshake_done := True\<rparr>"
  "opens out \<Longrightarrow> handshake out D = Returns (D\<lparr>dl_handshake_done := True\<rparr>)"
  "handshake out D \<noteq> Undefined"
  by (auto simp: handshake_def opens_def split: if_splits)

definition flushing :: "int \<Rightarrow> delayer \<Rightarrow> bool" where
  "flushing m D \<longleftrightarrow> sane m (dl_deley_sec D) \<and> list_all (fits m) (dl_written D) \<and> list_all (fits m) (dl_av_packet D)
     \<and> dl_total_deley_ms D = durations (dl_av_packet D) \<and> dl_deley_sec D * 2000 < dl_total_deley_ms D
     \<and> dl_total_deley_ms D < 2147483648
     \<and> held_back (dl_deley_sec D * 2000) (dl_written D) (dl_av_packet D) \<and> (dl_written D \<noteq> [] \<longrightarrow> dl_handshake_done D)"

lemma flush_loop_inv:
  assumes "flushing m D"
  shows "flush_loop out (dl_deley_sec D * 2000) (dl_av_packet D) D \<noteq> Undefined
    \<and> (opens out \<longrightarrow> (\<exists>D'. flush_loop out (dl_deley_sec D * 2000) (dl_av_packet D) D = Returns D'))
    \<and> (\<forall>D'. flush_loop out (dl_deley_sec D * 2000) (dl_av_packet D) D = Returns D' \<longrightarrow>
        delayer_inv m D' \<and> dl_written D' @ dl_av_packet D' = dl_written D @ dl_av_packet D \<and> dl_deley_sec D' = dl_deley_sec D)"
  using assms
proof (induction "dl_av_packet D" arbitrary: D)
  case Nil
  then show ?case by (auto simp: flushing_def sane_def dest: sym)
next
  case (Cons p ps)
  let ?lim = "dl_deley_sec D * 2000"
  note q = Cons.hyps(2) [symmetric]
  show ?case
  proof (cases "dl_total_deley_ms D - pk_duration p > ?lim")
    case False
    with Cons.prems q show ?thesis by (auto simp: flushing_def delayer_inv_def fits_def)
  next
    case True
    let ?D1 = "D\<lparr>dl_handshake_done := True, dl_av_packet := ps, dl_total_deley_ms := int32 (dl_total_deley_ms D - pk_duration p),
        dl_written := dl_written D @ [p]\<rparr>"
    have tot: "dl_total_deley_ms D - pk_duration p = durations ps" and fit: "fits m p"
      using Cons.prems q by (auto simp: flushing_def)
    have small: "0 \<le> durations ps" "durations ps < 2147483648"
      using Cons.prems q fit tot durations_nonneg [of m ps] by (auto simp: flushing_def fits_def)
    with Cons.prems q True tot fit have f1: "flushing m ?D1"
      by (auto simp: flushing_def held_back_snoc)
    from Cons.hyps(1) [OF _ f1]
    have IH: "flush_loop out ?lim ps ?D1 \<noteq> Undefined
      \<and> (opens out \<longrightarrow> (\<exists>D'. flush_loop out ?lim ps ?D1 = Returns D'))
      \<and> (\<forall>D'. flush_loop out ?lim ps ?D1 = Returns D' \<longrightarrow>
          delayer_inv m D' \<and> dl_written D' @ dl_av_packet D' = dl_written ?D1 @ ps \<and> dl_deley_sec D' = dl_deley_sec D)"
      by simp
    show ?thesis
    proof (cases "handshake out D")
      case (Returns D1)
      then have "D1 = D\<lparr>dl_handshake_done := True\<rparr>" by (rule handshake_cases)
      with Returns True q IH show ?thesis by auto
    next
      case (Exits k)
      with True q handshake_cases(2) [of out D] show ?thesis by auto
    next
      case Undefined
      with handshake_cases(3) show ?thesis by blast
    qed
  qed
qed

text \<open>One push keeps the invariant, neither loses nor reorders a packet, and does not crash.\<close>

lemma push_inv:
  assumes "delayer_inv m D" and "fits m pkt"
  shows "pushAudioFrame out pkt D \<noteq> Undefined
    \<and> (opens out \<longrightarrow> (\<exists>D'. pushAudioFrame out pkt D = Returns D'))
    \<and> (\<forall>D'. pushAudioFrame out pkt D = Returns D' \<longrightarrow> delayer_inv m D' \<and>
        dl_written D' @ dl_av_packet D' = (dl_written D @ dl_av_packet D) @ [pkt] \<and> dl_deley_sec D' = dl_deley_sec D)"
proof -
  let ?D = "D\<lparr>dl_av_packet := dl_av_packet D @ [pkt], dl_total_deley_ms := int32 (dl_total_deley_ms D + pk_duration pkt)\<rparr>"
  have lim: "delay_limit (dl_deley_sec D) = Some (dl_deley_sec D * 2000)"
    using assms(1) by (auto simp: delay_limit_def delayer_inv_def sane_def)
  have "0 \<le> durations (dl_av_packet D)" using assms(1) durations_nonneg by (auto simp: delayer_inv_def)
  then have tot: "dl_total_deley_ms ?D = durations (dl_av_packet ?D)" "dl_total_deley_ms ?D < 2147483648"
    using assms by (auto simp: delayer_inv_def sane_def fits_def)
  have hb: "held_back (dl_deley_sec D * 2000) (dl_written D) (dl_av_packet D @ [pkt])"
    using assms held_back_mono [of _ _ "dl_av_packet D" "dl_av_packet D @ [pkt]"] by (auto simp: delayer_inv_def fits_def)
  show ?thesis
  proof (cases "dl_total_deley_ms ?D > dl_deley_sec D * 2000")
    case True
    then have "flushing m ?D" using assms tot hb by (simp add: flushing_def delayer_inv_def)
    from flush_loop_inv [OF this, of out] True lim show ?thesis by (simp add: pushAudioFrame_def flush_def)
  next
    case False
    then have "pushAudioFrame out pkt D = Returns ?D" using lim by (simp add: pushAudioFrame_def flush_def)
    moreover have "delayer_inv m ?D" using False assms tot hb by (auto simp: delayer_inv_def sane_def)
    ultimately show ?thesis by simp
  qed
qed

lemma push_video_audio: "pushVideoFrame out pkt D = pushAudioFrame out pkt D"
  by (simp add: pushVideoFrame_def pushAudioFrame_def)

section \<open>Muting what waits\<close>

definition stamp :: "AVPacket \<Rightarrow> int \<times> int \<times> int \<times> int" where
  "stamp p = (pk_stream_index p, pk_pts p, pk_dts p, pk_duration p)"

lemma stamp_duration: "stamp q = stamp p \<Longrightarrow> pk_duration q = pk_duration p \<and> pk_stream_index q = pk_stream_index p"
  by (simp add: stamp_def)

lemma durations_of_stamps: "durations ps = sum_list (map (\<lambda>(_, _, _, d). d) (map stamp ps))"
  by (simp add: durations_def stamp_def comp_def)

lemma fits_of_stamps: "list_all (fits m) ps = list_all (\<lambda>(_, _, _, d). 0 \<le> d \<and> d \<le> m) (map stamp ps)"
  by (simp add: list.pred_map stamp_def comp_def fits_def [abs_def])

lemma same_stamps:
  assumes "map stamp qs = map stamp ps"
  shows "durations qs = durations ps" "list_all (fits m) qs = list_all (fits m) ps"
  unfolding durations_of_stamps fits_of_stamps assms by (rule refl)+

text \<open>The contract between the delay line and what mutes a packet: a muted packet keeps its place in the stream.\<close>

locale packet_muter =
  fixes mute :: "AVPacket \<Rightarrow> 'c \<Rightarrow> (AVPacket \<times> 'c) outcome option" and index :: int
  assumes mute_stamp: "mute p c = Some (Returns (q, c')) \<Longrightarrow> pk_stream_index p = index \<Longrightarrow> stamp q = stamp p"
begin

lemma mute_packets_stamps:
  assumes "mute_packets mute index start stop ps c = Some (Returns (qs, c'))"
  shows "map stamp qs = map stamp ps \<and> list_all2 (\<lambda>p q. in_window index start stop p \<or> q = p) ps qs
    \<and> filter (\<lambda>p. pk_stream_index p \<noteq> index) qs = filter (\<lambda>p. pk_stream_index p \<noteq> index) ps"
  using assms
proof (induction ps arbitrary: c qs)
  case (Cons p ps)
  from Cons.prems obtain q c1 qs1 where 1: "qs = q # qs1" "mute_packets mute index start stop ps c1 = Some (Returns (qs1, c'))"
    "(if in_window index start stop p then mute p c else Some (Returns (p, c))) = Some (Returns (q, c1))"
    by (auto simp: and_then_Returns)
  have "stamp q = stamp p \<and> (in_window index start stop p \<or> q = p)"
    using 1(3) mute_stamp [of p c q c1] by (auto simp: in_window_def split: if_splits)
  with 1(1) Cons.IH [OF 1(2)] show ?case by (auto simp: stamp_def in_window_def)
qed simp

lemma replaceAudioPacket_inv:
  assumes "replaceAudioPacket mute index start stop D c = Some (Returns (D', c'))" and "delayer_inv m D"
  shows "delayer_inv m D' \<and> map stamp (dl_written D' @ dl_av_packet D') = map stamp (dl_written D @ dl_av_packet D)
    \<and> dl_written D' = dl_written D \<and> dl_deley_sec D' = dl_deley_sec D
    \<and> list_all2 (\<lambda>p q. in_window index start stop p \<or> q = p) (dl_av_packet D) (dl_av_packet D')
    \<and> filter (\<lambda>p. pk_stream_index p \<noteq> index) (dl_av_packet D') = filter (\<lambda>p. pk_stream_index p \<noteq> index) (dl_av_packet D)"
proof -
  from assms(1) obtain qs where q: "mute_packets mute index start stop (dl_av_packet D) c = Some (Returns (qs, c'))"
    "D' = D\<lparr>dl_av_packet := qs\<rparr>"
    by (auto simp: replaceAudioPacket_def and_then_Returns)
  note s = mute_packets_stamps [OF q(1)]
  have "held_back limit (dl_written D) qs = held_back limit (dl_written D) (dl_av_packet D)" for limit
    using same_stamps(1) [of qs "dl_av_packet D"] s held_back_mono [of limit _ qs "dl_av_packet D"]
      held_back_mono [of limit _ "dl_av_packet D" qs] by auto
  with s q(2) assms(2) same_stamps [of qs "dl_av_packet D"] show ?thesis by (simp add: delayer_inv_def)
qed

end

lemma replacer_stamp:
  "replaceAudioToMute L index p c = Some (Returns (q, c')) \<Longrightarrow> pk_stream_index p = index \<Longrightarrow> stamp q = stamp p"
  using mute_keeps_times [of L index p c q c'] by (simp add: stamp_def)

interpretation replacer: packet_muter "replaceAudioToMute L index" index for L index
  by unfold_locales (rule replacer_stamp)

section \<open>Runs of the delay line\<close>

datatype delay_op = Push AVPacket | MuteWindow int int

definition delay_step :: "output_env \<Rightarrow> 'c codec_lib \<Rightarrow> int \<Rightarrow> delay_op \<Rightarrow> delayer \<times> 'c \<Rightarrow> (delayer \<times> 'c) option" where
  "delay_step out L index op = (\<lambda>(D, c).
     case op of
       Push pkt \<Rightarrow> (case pushAudioFrame out pkt D of Returns D' \<Rightarrow> Some (D', c) | _ \<Rightarrow> None)
     | MuteWindow start stop \<Rightarrow>
         (case replaceAudioPacket (replaceAudioToMute L index) index start stop D c of
            Some (Returns r) \<Rightarrow> Some r | _ \<Rightarrow> None))"

fun pushed :: "delay_op list \<Rightarrow> AVPacket list" where
  "pushed [] = []"
| "pushed (Push p # ops) = p # pushed ops"
| "pushed (MuteWindow start stop # ops) = pushed ops"

lemma delay_run:
  assumes "run_opt (delay_step out L index) ops (D, c) = Some (D', c')" and "delayer_inv m D" and "list_all (fits m) (pushed ops)"
  shows "delayer_inv m D' \<and> dl_deley_sec D' = dl_deley_sec D
    \<and> map stamp (dl_written D' @ dl_av_packet D') = map stamp (dl_written D @ dl_av_packet D @ pushed ops)
    \<and> filter (\<lambda>p. pk_stream_index p \<noteq> index) (dl_written D' @ dl_av_packet D') =
      filter (\<lambda>p. pk_stream_index p \<noteq> index) (dl_written D @ dl_av_packet D @ pushed ops)"
  using assms
proof (induction ops arbitrary: D c)
  case (Cons op ops)
  from Cons.prems(1) obtain D1 c1 where 1: "delay_step out L index op (D, c) = Some (D1, c1)"
    "run_opt (delay_step out L index) ops (D1, c1) = Some (D', c')" by (auto split: option.splits)
  show ?case
  proof (cases op)
    case (Push p)
    with 1(1) have "pushAudioFrame out p D = Returns D1" by (auto simp: delay_step_def split: outcome.splits)
    with Push push_inv [OF Cons.prems(2), of p out] Cons.prems(3)
    have p: "delayer_inv m D1" "dl_written D1 @ dl_av_packet D1 = dl_written D @ dl_av_packet D @ [p]" "dl_deley_sec D1 = dl_deley_sec D"
      by auto
    have "dl_written D1 @ dl_av_packet D1 @ pushed ops = dl_written D @ dl_av_packet D @ pushed (op # ops)"
      using p(2) Push by (metis append.assoc append_Cons append_Nil pushed.simps(2))
    with Cons.IH [OF 1(2) p(1)] Push Cons.prems(3) p(3) show ?thesis by simp
  next
    case (MuteWindow start stop)
    with 1(1) have "replaceAudioPacket (replaceAudioToMute L index) index start stop D c = Some (Returns (D1, c1))"
      by (auto simp: delay_step_def split: outcome.splits option.splits)
    from replacer.replaceAudioPacket_inv [OF this Cons.prems(2)] Cons.IH [OF 1(2)] MuteWindow Cons.prems(3)
    show ?thesis by auto
  qed
qed simp

lemma delayer_new_inv: "sane m sec \<Longrightarrow> delayer_inv m (delayer_new sec)"
  by (simp add: delayer_inv_def delayer_new_def sane_def)

text \<open>The relay neither loses, repeats nor reorders: after any sequence of packets and mute requests the packets sent
  followed by those that wait are the packets that came, in order, each with its stream, time stamps and duration;
  those of other streams than the audio are unchanged. The counter is the duration of what waits, which stays
  within one packet of twice the delay.\<close>

theorem packets_conserved:
  assumes "sane m sec" and "list_all (fits m) (pushed ops)"
    and "run_opt (delay_step out L index) ops (delayer_new sec, c) = Some (D, c')"
  shows "map stamp (dl_written D @ dl_av_packet D) = map stamp (pushed ops)
    \<and> filter (\<lambda>p. pk_stream_index p \<noteq> index) (dl_written D @ dl_av_packet D) = filter (\<lambda>p. pk_stream_index p \<noteq> index) (pushed ops)
    \<and> dl_total_deley_ms D = durations (dl_av_packet D) \<and> durations (dl_av_packet D) \<le> sec * 2000 + m"
  using delay_run [OF assms(3) delayer_new_inv [OF assms(1)] assms(2)]
  by (auto simp: delayer_inv_def delayer_new_def)

text \<open>C5. A packet can be muted as long as at most twice the delay of packets has come after it: until then it has not been
  sent. (Audio and video are counted together, hence twice.)\<close>

theorem still_waiting:
  assumes "sane m sec" and "list_all (fits m) (pushed ops)"
    and "run_opt (delay_step out L index) ops (delayer_new sec, c) = Some (D, c')"
    and "pushed ops = xs @ p # ys" and "durations ys \<le> sec * 2000"
  shows "length (dl_written D) \<le> length xs
    \<and> stamp (dl_av_packet D ! (length xs - length (dl_written D))) = stamp p"
proof -
  note r = delay_run [OF assms(3) delayer_new_inv [OF assms(1)] assms(2)]
  then have eq: "map stamp (dl_written D @ dl_av_packet D) = map stamp (xs @ p # ys)"
    and hb: "held_back (sec * 2000) (dl_written D) (dl_av_packet D)"
    using assms(4) by (auto simp: delayer_new_def delayer_inv_def)
  have le: "length (dl_written D) \<le> length xs"
  proof (rule ccontr)
    assume "\<not> length (dl_written D) \<le> length xs"
    then have w: "dl_written D = take (length xs) (dl_written D) @ dl_written D ! length xs # drop (Suc (length xs)) (dl_written D)"
      by (simp add: id_take_nth_drop)
    have "sec * 2000 < durations (drop (Suc (length xs)) (dl_written D) @ dl_av_packet D)"
      using hb by (subst (asm) w) (rule held_back_at)
    moreover have "drop (Suc (length xs)) (map stamp (dl_written D @ dl_av_packet D)) = map stamp ys"
      unfolding eq by simp
    then have "map stamp (drop (Suc (length xs)) (dl_written D) @ dl_av_packet D) = map stamp ys"
      using \<open>\<not> length (dl_written D) \<le> length xs\<close> by (simp add: drop_map)
    then have "durations (drop (Suc (length xs)) (dl_written D) @ dl_av_packet D) = durations ys" by (rule same_stamps)
    ultimately show False using assms(5) by simp
  qed
  have "map stamp (dl_written D @ dl_av_packet D) ! length xs = stamp p" unfolding eq by (simp add: nth_append)
  moreover have "length (dl_written D @ dl_av_packet D) = length (xs @ p # ys)" using arg_cong [OF eq, of length] by simp
  ultimately show ?thesis using le by (simp add: nth_append)
qed

text \<open>The delay line never stops the relay by itself: with an output that opens, every sequence of packets of sensible
  duration is taken, without overflow and without reading the front of an empty list.\<close>

theorem pushes_succeed:
  assumes "sane m sec" and "list_all (fits m) ps" and "opens out"
  shows "\<exists>D. run_opt (delay_step out L index) (map Push ps) (delayer_new sec, c) = Some (D, c)"
proof -
  have "\<exists>D'. run_opt (delay_step out L index) (map Push ps) (D, c) = Some (D', c)" if "delayer_inv m D" for D
    using assms(2) that
  proof (induction ps arbitrary: D)
    case (Cons p ps)
    with push_inv [of m D p out] assms(3) obtain D1 where "pushAudioFrame out p D = Returns D1" "delayer_inv m D1" by auto
    with Cons show ?case by (simp add: delay_step_def)
  qed simp
  with delayer_new_inv [OF assms(1)] show ?thesis by blast
qed

text \<open>A negative delay on the command line crashes the relay at its first packet: the whole list is written and then
  the front of the empty list is read.\<close>

theorem negative_delay_crashes:
  assumes "- 1073741 \<le> sec" and "sec < 0" and "0 \<le> pk_duration p" and "pk_duration p < 2147483648" and "opens out"
  shows "pushVideoFrame out p (delayer_new sec) = Undefined"
proof -
  have "delay_limit sec = Some (sec * 2000)" using assms(1,2) by (simp add: delay_limit_def)
  with assms show ?thesis
    by (simp add: pushVideoFrame_def flush_def delayer_new_def handshake_cases(2))
qed

section \<open>Examples\<close>

definition output_example :: output_env where
  "output_example = \<lparr>oe_nofile = False, oe_avio_open = 0, oe_write_header = 0\<rparr>"

definition long_packet :: "int \<Rightarrow> AVPacket" where
  "long_packet pts = \<lparr>pk_stream_index = 1, pk_pts = pts, pk_dts = pts, pk_duration = 1500, pk_data = [3]\<rparr>"

definition ops_example :: "delay_op list" where
  "ops_example = [Push (long_packet 0), Push (long_packet 1500), MuteWindow 1500 1600, Push (long_packet 3000)]"

definition delayer_example :: delayer where
  "delayer_example = \<lparr>dl_av_packet = [(long_packet 1500)\<lparr>pk_data := [0]\<rparr>, long_packet 3000], dl_deley_sec = 1, dl_total_deley_ms = 3000,
     dl_handshake_done = True, dl_written = [long_packet 0]\<rparr>"

lemma run_example:
  "run_opt (delay_step output_example codec_example 1) ops_example (delayer_new 1, []) = Some (delayer_example, [])"
  by (simp add: ops_example_def delay_step_def delayer_new_def pushAudioFrame_def flush_def delay_limit_def long_packet_def
      replaceAudioPacket_def and_then_def in_window_def replaceAudioToMute_def encode_muted_def codec_example_def
      send_packet_loop.simps receive_frame_loop.simps send_frame_loop.simps receive_packet_loop.simps mute_frame_def
      zero_at_def handshake_def output_example_def delayer_example_def numeral_eq_Suc)

lemma example_fits: "sane 1500 1" "list_all (fits 1500) (pushed ops_example)"
  by (simp_all add: sane_def ops_example_def fits_def long_packet_def)

lemma packets_conserved_witness:
  "map stamp (dl_written delayer_example @ dl_av_packet delayer_example) = map stamp (pushed ops_example)
    \<and> filter (\<lambda>p. pk_stream_index p \<noteq> 1) (dl_written delayer_example @ dl_av_packet delayer_example) =
      filter (\<lambda>p. pk_stream_index p \<noteq> 1) (pushed ops_example)
    \<and> dl_total_deley_ms delayer_example = durations (dl_av_packet delayer_example)
    \<and> durations (dl_av_packet delayer_example) \<le> 1 * 2000 + 1500"
  by (rule packets_conserved [OF example_fits run_example])

lemma still_waiting_witness:
  "length (dl_written delayer_example) \<le> length [long_packet 0]
    \<and> stamp (dl_av_packet delayer_example ! (length [long_packet 0] - length (dl_written delayer_example))) = stamp (long_packet 1500)"
  by (rule still_waiting [OF example_fits run_example, of _ _ "[long_packet 3000]"]) (simp_all add: ops_example_def long_packet_def)

lemma pushes_succeed_witness:
  "\<exists>D. run_opt (delay_step output_example codec_example 1) (map Push [long_packet 0, long_packet 9]) (delayer_new 1, []) = Some (D, [])"
  by (rule pushes_succeed [OF example_fits(1)]) (simp_all add: fits_def long_packet_def opens_def output_example_def)

lemma negative_delay_crashes_witness: "pushVideoFrame output_example (long_packet 0) (delayer_new (- 1)) = Undefined"
  by (rule negative_delay_crashes) (simp_all add: long_packet_def opens_def output_example_def)

end
