(* ===== verification/Asr.thy ===== *)
theory Asr
  imports Censor Delayer
begin

text \<open>
  The recogniser of the relay: \<open>processor/asr.cpp\<close>, the client of the business service
  (\<open>grpc/biz_client.cpp\<close>), and the dispatch of the SDK's events to its callbacks (\<open>speechTranscriberListener.cpp\<close>).
  The SDK is a record of functions on its own state \<open>'s\<close>, libswresample on \<open>'w\<close>, the decoder on \<open>'c\<close>; requests are
  numbers. The callbacks run on the SDK's event thread and change the recogniser, the delay line and the reports
  sent to the business service.
\<close>

section \<open>The recogniser\<close>

text \<open>What the setters of the request are given.\<close>

record transcriber_config =
  tc_enableContinued :: bool
  tc_format :: string
  tc_appKey :: string
  tc_token :: string
  tc_url :: string
  tc_sampleRate :: int
  tc_intermediateResult :: bool
  tc_punctuationPrediction :: bool
  tc_inverseTextNormalization :: bool
  tc_enableWords :: bool
  tc_semanticSentenceDetection :: bool
  tc_maxSentenceSilence :: int

record 's speech_sdk =
  sdk_init :: "'s \<Rightarrow> 's"
  sdk_createTranscriberRequest :: "'s \<Rightarrow> nat option \<times> 's"
  sdk_start :: "nat \<Rightarrow> transcriber_config \<Rightarrow> 's \<Rightarrow> int \<times> 's"
  sdk_sendAudio :: "nat \<Rightarrow> byte list \<Rightarrow> 's \<Rightarrow> int \<times> 's"

record 'w swr_lib =
  swr_get_delay :: "'w \<Rightarrow> int \<Rightarrow> int"
  swr_convert :: "'w \<Rightarrow> int \<Rightarrow> AVFrame \<Rightarrow> int \<times> byte list \<times> 'w"

text \<open>The result of \<open>applyNlsToken\<close> for a key id and a secret: code, token and expiry.\<close>

type_synonym token_source = "string \<Rightarrow> string \<Rightarrow> int \<times> string \<times> int"

record ('c, 'w, 's) asr =
  ar_appkey :: string
  ar_token :: string
  ar_akId :: string
  ar_akSecret :: string
  ar_expireTime :: int
  ar_decoder :: bool
  ar_request :: "nat option"
  ar_first_audio_pts :: int
  ar_dict :: Dictionary
  ar_max_sentence_silence_ms :: int
  ar_biz_client :: bool
  ar_max_nb_samples :: int
  ar_codec :: 'c
  ar_swr :: 'w
  ar_sdk :: 's

definition resetAsrTimeBase :: "('c, 'w, 's) asr \<Rightarrow> ('c, 'w, 's) asr" where
  "resetAsrTimeBase A = A\<lparr>ar_first_audio_pts := 0\<rparr>"

definition createBlackListDict :: "string option \<Rightarrow> ('c, 'w, 's) asr \<Rightarrow> ('c, 'w, 's) asr" where
  "createBlackListDict file A = A\<lparr>ar_dict := loadFromFile file (ar_dict A)\<rparr>"

definition generateToken :: "token_source \<Rightarrow> ('c, 'w, 's) asr \<Rightarrow> int \<times> ('c, 'w, 's) asr" where
  "generateToken T A =
     (let (retCode, token, expire) = T (ar_akId A) (ar_akSecret A) in
      if retCode < 0 then (retCode, A) else (0, A\<lparr>ar_token := token, ar_expireTime := expire\<rparr>))"

definition checkToken :: "token_source \<Rightarrow> int \<Rightarrow> ('c, 'w, 's) asr \<Rightarrow> int \<times> ('c, 'w, 's) asr" where
  "checkToken T curTime A =
     (if ar_token A = [] then
        (if ar_expireTime A - curTime < 10 then
           (let (ret, A1) = generateToken T A in
            if ret < 0 then (- 1, A1)
            else if ar_token A1 = [] \<or> ar_expireTime A1 < 0 then (- 2, A1) else (0, A1))
         else (0, A))
      else (0, A))"

definition asr_config :: "('c, 'w, 's) asr \<Rightarrow> transcriber_config" where
  "asr_config A = \<lparr>tc_enableContinued = True, tc_format = ''pcm'', tc_appKey = c_str (ar_appkey A), tc_token = c_str (ar_token A),
     tc_url = ''wss://nls-gateway.cn-shanghai.aliyuncs.com/ws/v1'', tc_sampleRate = 16000, tc_intermediateResult = False,
     tc_punctuationPrediction = False, tc_inverseTextNormalization = False, tc_enableWords = True,
     tc_semanticSentenceDetection = False, tc_maxSentenceSilence = ar_max_sentence_silence_ms A\<rparr>"

text \<open>The result of \<open>generateToken\<close> and that of the request's \<open>start\<close> are ignored.\<close>

definition asr_start :: "'s speech_sdk \<Rightarrow> token_source \<Rightarrow> ('c, 'w, 's) asr \<Rightarrow> int \<times> ('c, 'w, 's) asr" where
  "asr_start S T A =
     (let A1 = snd (generateToken T A); (request, s1) = sdk_createTranscriberRequest S (ar_sdk A1);
          A2 = A1\<lparr>ar_request := request, ar_sdk := s1\<rparr> in
      case request of
        None \<Rightarrow> (- 1, A2)
      | Some r \<Rightarrow> (0, A2\<lparr>ar_sdk := snd (sdk_start S r (asr_config A2) s1)\<rparr>))"

definition asr_init :: "'s speech_sdk \<Rightarrow> ('c, 'w, 's) asr \<Rightarrow> ('c, 'w, 's) asr" where
  "asr_init S A = A\<lparr>ar_sdk := sdk_init S (ar_sdk A)\<rparr>"

section \<open>Resampling\<close>

text \<open>\<open>av_rescale_rnd(a, b, c, AV_ROUND_UP)\<close> for \<open>a, b \<ge> 0\<close> and \<open>c > 0\<close>.\<close>

definition av_rescale_up :: "int \<Rightarrow> int \<Rightarrow> int \<Rightarrow> int" where
  "av_rescale_up a b c = (a * b + c - 1) div c"

text \<open>\<open>m_pr_ctx.src\<close> and \<open>dst\<close> are what \<open>pcmResampleInit\<close> stores, mono at 16 kHz in 16 bits; \<open>pcmResampleSetParams\<close>
  tells libswresample the rate of the input but does not store it.\<close>

definition pcmResample :: "'w swr_lib \<Rightarrow> AVFrame \<Rightarrow> ('c, 'w, 's) asr \<Rightarrow> int \<times> byte list \<times> ('c, 'w, 's) asr" where
  "pcmResample R frame A =
     (let nb_samples = int32 (av_rescale_up (swr_get_delay R (ar_swr A) 16000 + int (fr_nb_samples frame)) 16000 16000);
          A1 = (if nb_samples > ar_max_nb_samples A then A\<lparr>ar_max_nb_samples := nb_samples\<rparr> else A);
          (ret, data, w1) = swr_convert R (ar_swr A1) nb_samples frame;
          A2 = A1\<lparr>ar_swr := w1\<rparr> in
      if ret < 0 then (ret, [], A2) else (0, take (nat (ret * 2)) data, A2))"

text \<open>\<open>Asr::sendAudio\<close>. A call through \<open>m_request\<close> when it is null is undefined, and so is decoding when
  \<open>createAudioDecoder\<close> failed, whose result nobody looks at.\<close>

definition asr_sendAudio ::
  "'s speech_sdk \<Rightarrow> token_source \<Rightarrow> 'c codec_lib \<Rightarrow> 'w swr_lib \<Rightarrow> int \<Rightarrow> AVPacket \<Rightarrow> ('c, 'w, 's) asr
     \<Rightarrow> (int \<times> ('c, 'w, 's) asr) outcome option" where
  "asr_sendAudio S T L R curTime pkt A0 =
     (let A = snd (checkToken T curTime A0) in
      if \<not> ar_decoder A then Some Undefined
      else do {
        (sent, c1) \<leftarrow> send_packet_loop L pkt (ar_codec A);
        if \<not> sent then Some (Returns (- 1, A\<lparr>ar_codec := c1\<rparr>))
        else do {
          (received, c2) \<leftarrow> receive_frame_loop L pkt c1;
          let A1 = A\<lparr>ar_codec := c2\<rparr>;
          case received of
            None \<Rightarrow> Some (Returns (- 1, A1))
          | Some frame \<Rightarrow>
              (let (ret, data, A2) = pcmResample R frame A1 in
               if ret < 0 then Some (Returns (0, A2))
               else
                 (case ar_request A2 of
                    None \<Rightarrow> Some Undefined
                  | Some r \<Rightarrow>
                      (let (sent_byte, s1) = sdk_sendAudio S r data (ar_sdk A2); A3 = A2\<lparr>ar_sdk := s1\<rparr> in
                       Some (Returns (0, if ar_first_audio_pts A3 = 0 \<and> sent_byte > 0
                         then A3\<lparr>ar_first_audio_pts := pk_pts pkt\<rparr> else A3)))))
        }
      })"

section \<open>Reports to the business service\<close>

datatype report =
    HitWordRequest string int int string
  | SentenceRequest string int int "(string \<times> int \<times> int) list"

definition sendHitWord :: "('c, 'w, 's) asr \<Rightarrow> string \<Rightarrow> int \<Rightarrow> int \<Rightarrow> string \<Rightarrow> report list" where
  "sendHitWord A word start stop sentence =
     (if ar_biz_client A then [HitWordRequest word (int32 start) (int32 stop) sentence] else [])"

definition sendSentence :: "('c, 'w, 's) asr \<Rightarrow> string \<Rightarrow> int \<Rightarrow> int \<Rightarrow> WordInfomation list \<Rightarrow> report list" where
  "sendSentence A sentence start stop word_list =
     (if ar_biz_client A then
        [SentenceRequest sentence (int32 start) (int32 stop)
           (map (\<lambda>item. (wi_text item, int32 (wi_startTime item), int32 (wi_endTime item))) word_list)]
      else [])"

section \<open>Callbacks\<close>

text \<open>The relay as the callbacks see it: the recogniser, the delay line, the codec of the replacer and the reports.\<close>

record ('c, 'w, 's) relay =
  rl_asr :: "('c, 'w, 's) asr"
  rl_delayer :: delayer
  rl_codec :: 'c
  rl_reports :: "report list"

definition restart_asr :: "'s speech_sdk \<Rightarrow> token_source \<Rightarrow> ('c, 'w, 's) relay \<Rightarrow> ('c, 'w, 's) relay" where
  "restart_asr S T X = X\<lparr>rl_asr := snd (asr_start S T (asr_init S (resetAsrTimeBase (rl_asr X))))\<rparr>"

fun mute_hits :: "'c muter \<Rightarrow> int \<Rightarrow> string \<Rightarrow> AudioSegement list \<Rightarrow> ('c, 'w, 's) relay \<Rightarrow> ('c, 'w, 's) relay outcome option" where
  "mute_hits mute index sentence [] X = Some (Returns X)"
| "mute_hits mute index sentence (item # items) X =
     (let base = ar_first_audio_pts (rl_asr X) in
      and_then (replaceAudioPacket mute index (base + m_start item) (base + m_end item) (rl_delayer X) (rl_codec X)) (\<lambda>(D, c).
      mute_hits mute index sentence items
        (X\<lparr>rl_delayer := D, rl_codec := c,
           rl_reports := rl_reports X @ sendHitWord (rl_asr X) (m_text item) (m_start item) (m_end item) sentence\<rparr>)))"

definition onSentenceEnd ::
  "'c muter \<Rightarrow> int \<Rightarrow> (Dictionary \<Rightarrow> string list) \<Rightarrow> NlsEvent \<Rightarrow> ('c, 'w, 's) relay \<Rightarrow> ('c, 'w, 's) relay outcome option" where
  "onSentenceEnd mute index order e X =
     (case getResult e of
        None \<Rightarrow> Some Undefined
      | Some res \<Rightarrow>
          (let words = getSentenceWordsList e; sentence = c_str res;
               X1 = X\<lparr>rl_reports := rl_reports X @ sendSentence (rl_asr X) sentence (getSentenceBeginTime e)
                        (getSentenceBeginTime e + getSentenceTime e) words\<rparr> in
           case hitDict order (ar_dict (rl_asr X)) sentence words of
             None \<Rightarrow> None
           | Some result \<Rightarrow> mute_hits mute index sentence result X1))"

text \<open>\<open>SpeechTranscriberListener::handlerFrame\<close> with the callbacks that \<open>Asr::start\<close> sets: two are not set, two print,
  and every type the switch does not name goes to \<open>onTaskFailed\<close>.\<close>

definition transcriber_handlerFrame ::
  "'s speech_sdk \<Rightarrow> token_source \<Rightarrow> 'c muter \<Rightarrow> int \<Rightarrow> (Dictionary \<Rightarrow> string list) \<Rightarrow> NlsEvent
     \<Rightarrow> ('c, 'w, 's) relay \<Rightarrow> ('c, 'w, 's) relay outcome option" where
  "transcriber_handlerFrame S T mute index order e X =
     (case ev_msgType e of
        TranscriptionStarted \<Rightarrow> Some (Returns X)
      | SentenceBegin \<Rightarrow> Some (Returns X)
      | TranscriptionResultChanged \<Rightarrow> Some (Returns X)
      | SentenceEnd \<Rightarrow> onSentenceEnd mute index order e X
      | SentenceSemantics \<Rightarrow> Some (Returns X)
      | TranscriptionCompleted \<Rightarrow> Some (Returns X)
      | Message \<Rightarrow> Some (Returns X)
      | Close \<Rightarrow> Some (Returns (restart_asr S T X))
      | _ \<Rightarrow> Some (Returns (restart_asr S T X)))"

section \<open>Tokens\<close>

text \<open>An expired token is never renewed: \<open>checkToken\<close> looks at the expiry only while there is no token, so that with
  a token, however old, every call returns success and changes nothing.\<close>

theorem expired_token_kept:
  assumes "ar_token A \<noteq> []"
  shows "checkToken T curTime A = (0, A)"
  using assms by (simp add: checkToken_def)

section \<open>Resampling\<close>

lemma av_rescale_same: "0 < c \<Longrightarrow> av_rescale_up a c c = a"
proof -
  assume c: "0 < c"
  have "(a * c + (c - 1)) div c = a + (c - 1) div c" using c by (simp add: add.commute)
  with c show ?thesis by (simp add: av_rescale_up_def algebra_simps)
qed

text \<open>The buffer for the converted samples always has room for what libswresample is asked to write, and never
  shrinks; the size asked for counts samples at 16 kHz as if the input had that rate, whatever its rate is.\<close>

lemma resample_buffer_fits:
  assumes "pcmResample R frame A = (ret, data, A')" and "0 \<le> swr_get_delay R (ar_swr A) 16000"
    and "swr_get_delay R (ar_swr A) 16000 + int (fr_nb_samples frame) < 2147483648"
  shows "ar_max_nb_samples A' = max (ar_max_nb_samples A) (swr_get_delay R (ar_swr A) 16000 + int (fr_nb_samples frame))"
  using assms by (auto simp: pcmResample_def av_rescale_same Let_def split: prod.splits if_splits)

section \<open>Muting the words of a sentence\<close>

text \<open>What \<open>mute\<close> achieves for one packet, \<open>quiet\<close>, it achieves for every packet in the window.\<close>

definition mutes :: "'c muter \<Rightarrow> int \<Rightarrow> (AVPacket \<Rightarrow> bool) \<Rightarrow> bool" where
  "mutes mute index quiet \<longleftrightarrow>
     (\<forall>p c q c'. pk_stream_index p = index \<longrightarrow> mute p c = Some (Returns (q, c')) \<longrightarrow> quiet q)"

lemma mute_packets_window:
  assumes "mute_packets mute index start stop ps c = Some (Returns (qs, c'))" and "mutes mute index quiet"
  shows "list_all2 (\<lambda>p q. in_window index start stop p \<and> quiet q \<or> \<not> in_window index start stop p \<and> q = p) ps qs"
  using assms(1)
proof (induction ps arbitrary: c qs)
  case (Cons p ps)
  from Cons.prems obtain q c1 qs1 where 1: "qs = q # qs1" "mute_packets mute index start stop ps c1 = Some (Returns (qs1, c'))"
    "(if in_window index start stop p then mute p c else Some (Returns (p, c))) = Some (Returns (q, c1))"
    by (auto simp: and_then_Returns)
  with Cons.IH [OF 1(2)] assms(2) show ?case by (auto simp: mutes_def in_window_def split: if_splits)
qed simp

lemma in_window_stamp: "stamp q = stamp p \<Longrightarrow> in_window index start stop q = in_window index start stop p"
  by (simp add: stamp_def in_window_def)

text \<open>The waiting packets \<open>qs\<close> after muting the windows \<open>W\<close> of \<open>ps\<close>.\<close>

definition muted_in :: "(AVPacket \<Rightarrow> bool) \<Rightarrow> (AVPacket \<Rightarrow> bool) \<Rightarrow> AVPacket list \<Rightarrow> AVPacket list \<Rightarrow> bool" where
  "muted_in quiet W ps qs \<longleftrightarrow> list_all2 (\<lambda>p q. stamp q = stamp p \<and> (W p \<longrightarrow> quiet q) \<and> (quiet p \<longrightarrow> quiet q) \<and> (\<not> W p \<longrightarrow> q = p)) ps qs"

lemma muted_in_refl: "muted_in quiet (\<lambda>p. False) ps ps"
  by (simp add: muted_in_def list_all2_refl)

lemma muted_in_trans:
  assumes "muted_in quiet W1 ps qs" and "muted_in quiet W2 qs rs"
    and stamped: "\<And>p q. stamp q = stamp p \<Longrightarrow> W2 q = W2 p"
  shows "muted_in quiet (\<lambda>p. W1 p \<or> W2 p) ps rs"
proof -
  from assms(1,2) have len: "length qs = length ps" "length rs = length qs"
    by (simp_all add: muted_in_def list_all2_lengthD)
  have "stamp (rs ! i) = stamp (ps ! i) \<and> (W1 (ps ! i) \<or> W2 (ps ! i) \<longrightarrow> quiet (rs ! i))
      \<and> (quiet (ps ! i) \<longrightarrow> quiet (rs ! i)) \<and> (\<not> (W1 (ps ! i) \<or> W2 (ps ! i)) \<longrightarrow> rs ! i = ps ! i)"
    if "i < length ps" for i
  proof -
    have 1: "stamp (qs ! i) = stamp (ps ! i)" "W1 (ps ! i) \<longrightarrow> quiet (qs ! i)" "quiet (ps ! i) \<longrightarrow> quiet (qs ! i)"
        "\<not> W1 (ps ! i) \<longrightarrow> qs ! i = ps ! i"
      using assms(1) that len by (simp_all add: muted_in_def list_all2_conv_all_nth)
    have 2: "stamp (rs ! i) = stamp (qs ! i)" "W2 (qs ! i) \<longrightarrow> quiet (rs ! i)" "quiet (qs ! i) \<longrightarrow> quiet (rs ! i)"
        "\<not> W2 (qs ! i) \<longrightarrow> rs ! i = qs ! i"
      using assms(2) that len by (simp_all add: muted_in_def list_all2_conv_all_nth)
    from 1 2 stamped [OF 1(1)] show ?thesis by metis
  qed
  with len show ?thesis by (simp add: muted_in_def list_all2_conv_all_nth)
qed

text \<open>Two delay lines with the same packets in the same places, of which only audio may differ in its bytes.\<close>

definition same_line :: "int \<Rightarrow> delayer \<Rightarrow> delayer \<Rightarrow> bool" where
  "same_line index D' D \<longleftrightarrow> map stamp (dl_av_packet D') = map stamp (dl_av_packet D)
     \<and> dl_written D' = dl_written D \<and> dl_deley_sec D' = dl_deley_sec D
     \<and> filter (\<lambda>p. pk_stream_index p \<noteq> index) (dl_av_packet D') = filter (\<lambda>p. pk_stream_index p \<noteq> index) (dl_av_packet D)"

context packet_muter
begin

lemma replaced_quiet:
  assumes "replaceAudioPacket mute index start stop D c = Some (Returns (D', c'))" and "mutes mute index quiet"
  shows "muted_in quiet (in_window index start stop) (dl_av_packet D) (dl_av_packet D')
    \<and> (\<exists>qs. D' = D\<lparr>dl_av_packet := qs\<rparr>)"
proof -
  from assms(1) obtain qs where q: "mute_packets mute index start stop (dl_av_packet D) c = Some (Returns (qs, c'))"
    "D' = D\<lparr>dl_av_packet := qs\<rparr>"
    by (auto simp: replaceAudioPacket_def and_then_Returns)
  from mute_packets_stamps [OF q(1)] have "list_all2 (\<lambda>p q. stamp q = stamp p) (dl_av_packet D) qs"
    by (metis (mono_tags, lifting) list_all2_conv_all_nth length_map nth_map)
  with mute_packets_window [OF q(1) assms(2)] q(2) show ?thesis
    by (auto simp: list_all2_conv_all_nth muted_in_def)
qed

lemma mute_hits_inv:
  assumes "mute_hits mute index sentence segs X = Some (Returns X')" and "delayer_inv m (rl_delayer X)"
  shows "delayer_inv m (rl_delayer X') \<and> same_line index (rl_delayer X') (rl_delayer X)"
  using assms
proof (induction segs arbitrary: X)
  case (Cons seg segs)
  let ?base = "ar_first_audio_pts (rl_asr X)"
  from Cons.prems(1) obtain D c where 1:
    "replaceAudioPacket mute index (?base + m_start seg) (?base + m_end seg) (rl_delayer X) (rl_codec X) = Some (Returns (D, c))"
    "mute_hits mute index sentence segs (X\<lparr>rl_delayer := D, rl_codec := c, rl_reports := rl_reports X
       @ sendHitWord (rl_asr X) (m_text seg) (m_start seg) (m_end seg) sentence\<rparr>) = Some (Returns X')"
    by (auto simp: and_then_Returns Let_def)
  from replaceAudioPacket_inv [OF 1(1) Cons.prems(2)] have "delayer_inv m D \<and> same_line index D (rl_delayer X)"
    by (auto simp: same_line_def)
  with Cons.IH [OF 1(2)] show ?case by (simp add: same_line_def)
qed (simp add: same_line_def)

lemma mute_hits_quiet:
  assumes "mute_hits mute index sentence segs X = Some (Returns X')" and "mutes mute index quiet"
  shows "muted_in quiet (\<lambda>p. \<exists>seg \<in> set segs. in_window index (ar_first_audio_pts (rl_asr X) + m_start seg)
        (ar_first_audio_pts (rl_asr X) + m_end seg) p) (dl_av_packet (rl_delayer X)) (dl_av_packet (rl_delayer X'))
    \<and> rl_asr X' = rl_asr X \<and> (\<exists>qs. rl_delayer X' = (rl_delayer X)\<lparr>dl_av_packet := qs\<rparr>)"
  using assms(1)
proof (induction segs arbitrary: X)
  case Nil
  then have "X' = X" by simp
  then show ?case using muted_in_refl by (auto intro: exI [of _ "dl_av_packet (rl_delayer X)"])
next
  case (Cons seg segs)
  let ?base = "ar_first_audio_pts (rl_asr X)"
  from Cons.prems obtain D c where 1:
    "replaceAudioPacket mute index (?base + m_start seg) (?base + m_end seg) (rl_delayer X) (rl_codec X) = Some (Returns (D, c))"
    "mute_hits mute index sentence segs (X\<lparr>rl_delayer := D, rl_codec := c, rl_reports := rl_reports X
       @ sendHitWord (rl_asr X) (m_text seg) (m_start seg) (m_end seg) sentence\<rparr>) = Some (Returns X')"
    by (auto simp: and_then_Returns Let_def)
  note r = replaced_quiet [OF 1(1) assms(2)]
  have IH: "muted_in quiet (\<lambda>p. \<exists>seg \<in> set segs. in_window index (?base + m_start seg) (?base + m_end seg) p)
      (dl_av_packet D) (dl_av_packet (rl_delayer X'))"
    "rl_asr X' = rl_asr X" "\<exists>qs. rl_delayer X' = D\<lparr>dl_av_packet := qs\<rparr>"
    using Cons.IH [OF 1(2)] by simp_all
  from r obtain qs where D: "D = (rl_delayer X)\<lparr>dl_av_packet := qs\<rparr>" by blast
  from IH(3) obtain qs' where "rl_delayer X' = D\<lparr>dl_av_packet := qs'\<rparr>" by blast
  with D have keep: "\<exists>qs. rl_delayer X' = (rl_delayer X)\<lparr>dl_av_packet := qs\<rparr>" by (intro exI [of _ qs']) simp
  have "muted_in quiet (\<lambda>p. in_window index (?base + m_start seg) (?base + m_end seg) p
      \<or> (\<exists>seg \<in> set segs. in_window index (?base + m_start seg) (?base + m_end seg) p))
    (dl_av_packet (rl_delayer X)) (dl_av_packet (rl_delayer X'))"
    by (rule muted_in_trans [OF conjunct1 [OF r] IH(1)]) (metis in_window_stamp)
  with IH(2) keep show ?case by simp
qed

end

lemma reliable_mutes: "reliable L \<Longrightarrow> mutes (replaceAudioToMute L index) index (silent_packet L)"
  by (auto simp: mutes_def intro: replaced_is_silent)

lemma onSentenceEnd_effect:
  assumes "onSentenceEnd (replaceAudioToMute L index) index order e X = Some (Returns X')" and "getResult e = Some res"
    and "mutes (replaceAudioToMute L index) index quiet"
  shows "\<exists>segs. hitDict order (ar_dict (rl_asr X)) (c_str res) (getSentenceWordsList e) = Some segs
    \<and> muted_in quiet (\<lambda>p. \<exists>seg \<in> set segs. in_window index (ar_first_audio_pts (rl_asr X) + m_start seg)
        (ar_first_audio_pts (rl_asr X) + m_end seg) p) (dl_av_packet (rl_delayer X)) (dl_av_packet (rl_delayer X'))
    \<and> rl_asr X' = rl_asr X \<and> (\<exists>qs. rl_delayer X' = (rl_delayer X)\<lparr>dl_av_packet := qs\<rparr>)"
proof -
  let ?X1 = "X\<lparr>rl_reports := rl_reports X @ sendSentence (rl_asr X) (c_str res) (getSentenceBeginTime e)
      (getSentenceBeginTime e + getSentenceTime e) (getSentenceWordsList e)\<rparr>"
  from assms(1,2) obtain segs where segs: "hitDict order (ar_dict (rl_asr X)) (c_str res) (getSentenceWordsList e) = Some segs"
    and m: "mute_hits (replaceAudioToMute L index) index (c_str res) segs ?X1 = Some (Returns X')"
    by (auto simp: onSentenceEnd_def Let_def split: option.splits)
  from replacer.mute_hits_quiet [OF m assms(3)] segs show ?thesis by simp
qed


section \<open>Failures\<close>

lemma mute_hits_asr: "mute_hits mute index sentence segs X = Some (Returns X') \<Longrightarrow> rl_asr X' = rl_asr X"
proof (induction segs arbitrary: X)
  case (Cons seg segs)
  from Cons.prems obtain D c where
    "mute_hits mute index sentence segs (X\<lparr>rl_delayer := D, rl_codec := c, rl_reports := rl_reports X
       @ sendHitWord (rl_asr X) (m_text seg) (m_start seg) (m_end seg) sentence\<rparr>) = Some (Returns X')"
    by (auto simp: and_then_Returns Let_def)
  from Cons.IH [OF this] show ?case by simp
qed simp

fun handle_events ::
  "'s speech_sdk \<Rightarrow> token_source \<Rightarrow> 'c muter \<Rightarrow> int \<Rightarrow> (Dictionary \<Rightarrow> string list) \<Rightarrow> NlsEvent list
     \<Rightarrow> ('c, 'w, 's) relay \<Rightarrow> ('c, 'w, 's) relay outcome option" where
  "handle_events S T mute index order [] X = Some (Returns X)"
| "handle_events S T mute index order (e # es) X =
     and_then (transcriber_handlerFrame S T mute index order e X) (handle_events S T mute index order es)"

definition restarts :: "EventType \<Rightarrow> bool" where
  "restarts t \<longleftrightarrow> t \<notin> {TranscriptionStarted, SentenceBegin, TranscriptionResultChanged, SentenceEnd, SentenceSemantics,
     TranscriptionCompleted, Message}"

lemma handlerFrame_asr:
  assumes "transcriber_handlerFrame S T mute index order e X = Some (Returns X')"
  shows "if restarts (ev_msgType e) then X' = restart_asr S T X else rl_asr X' = rl_asr X"
proof (cases "ev_msgType e = SentenceEnd")
  case True
  with assms obtain segs Y where "mute_hits mute index (c_str (the (getResult e))) segs Y = Some (Returns X')" "rl_asr Y = rl_asr X"
    by (auto simp: transcriber_handlerFrame_def onSentenceEnd_def Let_def split: option.splits)
  with mute_hits_asr True show ?thesis by (fastforce simp: restarts_def)
next
  case False
  with assms show ?thesis by (auto simp: transcriber_handlerFrame_def restarts_def split: EventType.splits)
qed

lemma requests_grow:
  fixes live :: "'s \<Rightarrow> nat"
  assumes "handle_events S T mute index order es X = Some (Returns X')"
    and "\<forall>s. live (snd (sdk_createTranscriberRequest S s)) = live s + 1 \<and> fst (sdk_createTranscriberRequest S s) \<noteq> None"
    and "\<forall>s. live (sdk_init S s) = live s" and "\<forall>r c s. live (snd (sdk_start S r c s)) = live s"
  shows "live (ar_sdk (rl_asr X')) = live (ar_sdk (rl_asr X)) + length (filter restarts (map ev_msgType es))"
proof -
  have restart: "live (ar_sdk (rl_asr (restart_asr S T Y))) = live (ar_sdk (rl_asr Y)) + 1" for Y :: "('a, 'b, 's) relay"
  proof -
    let ?A = "snd (generateToken T (asr_init S (resetAsrTimeBase (rl_asr Y))))"
    have "live (ar_sdk ?A) = live (ar_sdk (rl_asr Y))"
      using assms(3) by (auto simp: generateToken_def asr_init_def resetAsrTimeBase_def split: prod.splits)
    moreover from assms(2) obtain r where "fst (sdk_createTranscriberRequest S (ar_sdk ?A)) = Some r" by blast
    ultimately show ?thesis
      using assms(2,4) by (auto simp: restart_asr_def asr_start_def Let_def split: prod.splits option.splits)
         (metis snd_conv)+
  qed
  show ?thesis
    using assms(1)
  proof (induction es arbitrary: X)
    case (Cons e es)
    from Cons.prems obtain Y where Y: "transcriber_handlerFrame S T mute index order e X = Some (Returns Y)"
      "handle_events S T mute index order es Y = Some (Returns X')"
      by (auto simp: and_then_Returns)
    from Cons.IH [OF Y(2)] handlerFrame_asr [OF Y(1)] restart [of X] show ?case by (auto split: if_splits)
  qed simp
qed

text \<open>Requests leak, and one failure makes two: every event that is not one of the seven of a running transcription makes
  the recogniser create and start a new request, and none is ever released, so that the number of requests the SDK
  holds grows by one with each such event. The SDK reports a failure as \<open>TaskFailed\<close> followed by \<open>Close\<close>: two
  requests, of which the first is started, never sent any audio and never seen again.\<close>

theorem requests_leak:
  fixes live :: "'s \<Rightarrow> nat"
  assumes "handle_events S T mute index order es X = Some (Returns X')"
    and "\<forall>s. live (snd (sdk_createTranscriberRequest S s)) = live s + 1 \<and> fst (sdk_createTranscriberRequest S s) \<noteq> None"
    and "\<forall>s. live (sdk_init S s) = live s" and "\<forall>r c s. live (snd (sdk_start S r c s)) = live s"
  shows "live (ar_sdk (rl_asr X')) = live (ar_sdk (rl_asr X)) + length (filter restarts (map ev_msgType es))"
  using assms by (rule requests_grow)

section \<open>The time base\<close>

fun asr_feed ::
  "'s speech_sdk \<Rightarrow> token_source \<Rightarrow> 'c codec_lib \<Rightarrow> 'w swr_lib \<Rightarrow> (int \<times> AVPacket) list \<Rightarrow> ('c, 'w, 's) asr
     \<Rightarrow> ('c, 'w, 's) asr outcome option" where
  "asr_feed S T L R [] A = Some (Returns A)"
| "asr_feed S T L R ((time, pkt) # pkts) A = and_then (asr_sendAudio S T L R time pkt A) (\<lambda>(_, A1). asr_feed S T L R pkts A1)"

lemma checkToken_keeps:
  "ar_request (snd (checkToken T t A)) = ar_request A \<and> ar_decoder (snd (checkToken T t A)) = ar_decoder A
    \<and> ar_first_audio_pts (snd (checkToken T t A)) = ar_first_audio_pts A"
  by (auto simp: checkToken_def generateToken_def split: prod.splits if_splits)

lemma pcmResample_keeps:
  "pcmResample R frame A = (ret, data, A') \<Longrightarrow>
    ar_request A' = ar_request A \<and> ar_decoder A' = ar_decoder A \<and> ar_first_audio_pts A' = ar_first_audio_pts A"
  by (auto simp: pcmResample_def Let_def split: prod.splits if_splits)

lemma sendAudio_base:
  assumes "reliable L" and "\<forall>w n f. 0 \<le> fst (swr_convert R w n f)" and "\<forall>r d s. 0 < fst (sdk_sendAudio S r d s)"
    and "ar_request A = Some r \<and> ar_decoder A"
  shows "\<exists>A'. asr_sendAudio S T L R t pkt A = Some (Returns (0, A')) \<and> ar_request A' = Some r \<and> ar_decoder A'
    \<and> ar_first_audio_pts A' = (if ar_first_audio_pts A = 0 then pk_pts pkt else ar_first_audio_pts A)"
proof -
  let ?A = "snd (checkToken T t A)"
  from assms(1) obtain c1 frame c2 where c: "avcodec_send_packet L (ar_codec ?A) pkt = (0, c1)" "avcodec_receive_frame L c1 = (0, frame, c2)"
    unfolding reliable_def by meson
  let ?A1 = "?A\<lparr>ar_codec := c2\<rparr>"
  obtain ret data A2 where r: "pcmResample R frame ?A1 = (ret, data, A2)" by (metis prod_cases3)
  have "0 \<le> ret"
    using r assms(2) by (auto simp: pcmResample_def Let_def split: prod.splits if_splits) (metis fst_conv not_le)+
  obtain sent s1 where s: "sdk_sendAudio S r data (ar_sdk A2) = (sent, s1)" by fastforce
  have "0 < sent" using assms(3) s by (metis fst_conv)
  moreover have "ar_request A2 = Some r" "ar_decoder A2" "ar_first_audio_pts A2 = ar_first_audio_pts A"
    using pcmResample_keeps [OF r] checkToken_keeps [of T t A] assms(4) by simp_all
  ultimately show ?thesis
    using c r s \<open>0 \<le> ret\<close> checkToken_keeps [of T t A] assms(4)
    by (simp add: asr_sendAudio_def send_packet_loop.simps [of L pkt] receive_frame_loop.simps [of L pkt c1] Let_def)
qed

text \<open>The time base of the recogniser is the time of the first packet sent whose time is not zero: zero also means ``not yet
  set'', so that for a stream that begins at time 0 the base is the time of the second packet, and every word is
  muted that much too late.\<close>

theorem time_base:
  assumes "reliable L" and "\<forall>w n f. 0 \<le> fst (swr_convert R w n f)" and "\<forall>r d s. 0 < fst (sdk_sendAudio S r d s)"
    and "ar_request A = Some r \<and> ar_decoder A" and "ar_first_audio_pts A = 0"
  shows "\<exists>A'. asr_feed S T L R pkts A = Some (Returns A')
    \<and> ar_first_audio_pts A' = (case dropWhile (\<lambda>pts. pts = 0) (map (\<lambda>(_, pkt). pk_pts pkt) pkts) of [] \<Rightarrow> 0 | pts # _ \<Rightarrow> pts)"
proof -
  have "\<exists>A'. asr_feed S T L R pkts A = Some (Returns A') \<and> ar_first_audio_pts A' = (if ar_first_audio_pts A = 0
      then (case dropWhile (\<lambda>pts. pts = 0) (map (\<lambda>(_, pkt). pk_pts pkt) pkts) of [] \<Rightarrow> 0 | pts # _ \<Rightarrow> pts) else ar_first_audio_pts A)"
    using assms(4)
  proof (induction pkts arbitrary: A)
    case (Cons p pkts)
    obtain t pkt where p: "p = (t, pkt)" by fastforce
    from sendAudio_base [OF assms(1-3) Cons.prems, of T t pkt] obtain A1 where A1:
      "asr_sendAudio S T L R t pkt A = Some (Returns (0, A1))" "ar_request A1 = Some r \<and> ar_decoder A1"
      "ar_first_audio_pts A1 = (if ar_first_audio_pts A = 0 then pk_pts pkt else ar_first_audio_pts A)" by blast
    from Cons.IH [OF A1(2)] A1(1,3) p show ?case by (auto split: if_splits)
  qed simp
  with assms(5) show ?thesis by simp
qed

section \<open>Examples\<close>

definition codec_always :: "byte list codec_lib" where
  "codec_always = codec_example\<lparr>avcodec_send_packet := (\<lambda>c p. (0, pk_data p))\<rparr>"

lemma reliable_example: "reliable codec_always"
  by (simp add: reliable_def codec_always_def codec_example_def)

text \<open>The state of this SDK is the number of its requests.\<close>

definition sdk_example :: "nat speech_sdk" where
  "sdk_example = \<lparr>sdk_init = (\<lambda>s. s), sdk_createTranscriberRequest = (\<lambda>s. (Some s, s + 1)), sdk_start = (\<lambda>r c s. (0, s)),
     sdk_sendAudio = (\<lambda>r d s. (int (length d) + 1, s))\<rparr>"

definition swr_example :: "unit swr_lib" where
  "swr_example = \<lparr>swr_get_delay = (\<lambda>w n. 0), swr_convert = (\<lambda>w n f. (int (fr_nb_samples f), concat (fr_planes f), w))\<rparr>"

definition asr_example :: "(byte list, unit, nat) asr" where
  "asr_example = \<lparr>ar_appkey = ''k'', ar_token = ''t'', ar_akId = ''i'', ar_akSecret = ''s'', ar_expireTime = 0, ar_decoder = True, ar_request = Some 0,
     ar_first_audio_pts = 0, ar_dict = [''bc''], ar_max_sentence_silence_ms = 200, ar_biz_client = True, ar_max_nb_samples = 0,
     ar_codec = [], ar_swr = (), ar_sdk = 1\<rparr>"

definition sentence_example :: NlsEvent where
  "sentence_example = NlsEvent_new\<lparr>ev_msgType := SentenceEnd, ev_result := ''abc da'', ev_sentenceWordsList := words_example\<rparr>"

definition failure_example :: NlsEvent where "failure_example = NlsEvent_new\<lparr>ev_msgType := TaskFailed\<rparr>"
definition close_example :: NlsEvent where "close_example = NlsEvent_new\<lparr>ev_msgType := Close\<rparr>"

definition relay_example :: "(byte list, unit, nat) relay" where
  "relay_example = \<lparr>rl_asr = asr_example, rl_delayer = (delayer_new 5)\<lparr>dl_av_packet := [long_packet 0, long_packet 9000]\<rparr>,
     rl_codec = [], rl_reports = []\<rparr>"

definition relay_muted :: "(byte list, unit, nat) relay" where
  "relay_muted = relay_example\<lparr>rl_delayer := (delayer_new 5)\<lparr>dl_av_packet := [(long_packet 0)\<lparr>pk_data := [0]\<rparr>, long_packet 9000]\<rparr>,
     rl_reports := [SentenceRequest ''abc da'' 0 0 [(''ab'', 100, 300), (''cd'', 300, 450), (''a'', 500, 600)],
       HitWordRequest ''bc'' 100 450 ''abc da'']\<rparr>"

lemma words_example_text: "removeSpaces ''abc da'' = words_text words_example"
  by (simp add: removeSpaces_def is_space_def words_example_def)

lemma sentence_example_simps:
  "getResult sentence_example = Some ''abc da''" "getSentenceWordsList sentence_example = words_example"
  "getSentenceBeginTime sentence_example = 0" "getSentenceTime sentence_example = 0"
  by (simp_all add: sentence_example_def NlsEvent_new_def getResult_def getSentenceWordsList_def getSentenceBeginTime_def
      getSentenceTime_def in_sentence_def)

lemma mute_example: "replaceAudioToMute codec_always 1 (long_packet 0) [] = Some (Returns ((long_packet 0)\<lparr>pk_data := [0]\<rparr>, []))"
  by (simp add: replaceAudioToMute_def encode_muted_def codec_always_def codec_example_def long_packet_def
      send_packet_loop.simps receive_frame_loop.simps send_frame_loop.simps receive_packet_loop.simps mute_frame_def zero_at_def
      numeral_eq_Suc)

lemma hit_example: "hitDict (\<lambda>D. D) [''bc''] ''abc da'' words_example = Some [\<lparr>m_start = 100, m_end = 450, m_text = ''bc''\<rparr>]"
  by (simp add: hitDict_def words_example_text hit_word.simps segment_at_def words_example_def str_find_def)

lemma asr_example_simps:
  "ar_dict asr_example = [''bc'']" "ar_biz_client asr_example" "ar_first_audio_pts asr_example = 0"
  by (simp_all add: asr_example_def)

lemma c_str_example: "c_str ''abc da'' = ''abc da''"
  by (simp add: c_str_def)

lemma window_example:
  "replaceAudioPacket (replaceAudioToMute codec_always 1) 1 100 450
     ((delayer_new 5)\<lparr>dl_av_packet := [long_packet 0, long_packet 9000]\<rparr>) [] =
   Some (Returns ((delayer_new 5)\<lparr>dl_av_packet := [(long_packet 0)\<lparr>pk_data := [0]\<rparr>, long_packet 9000]\<rparr>, []))"
  by (simp add: replaceAudioPacket_def in_window_def long_packet_def mute_example [unfolded long_packet_def])

lemma sentence_end_example:
  "onSentenceEnd (replaceAudioToMute codec_always 1) 1 (\<lambda>D. D) sentence_example relay_example = Some (Returns relay_muted)"
  by (simp add: onSentenceEnd_def sentence_example_simps relay_example_def asr_example_simps c_str_example hit_example [unfolded words_example_def]
      window_example sendSentence_def sendHitWord_def relay_muted_def words_example_def Let_def)


lemma requests_leak_witness:
  "\<exists>X'. handle_events sdk_example (\<lambda>i s. (0, ''t'', 9)) (replaceAudioToMute codec_always 1) 1 (\<lambda>D. D)
      [failure_example, close_example] relay_example = Some (Returns X')
    \<and> ar_sdk (rl_asr X') = ar_sdk (rl_asr relay_example) + length (filter restarts (map ev_msgType [failure_example, close_example]))"
proof -
  have "handle_events sdk_example (\<lambda>i s. (0, ''t'', 9)) (replaceAudioToMute codec_always 1) 1 (\<lambda>D. D)
      [failure_example, close_example] relay_example =
    Some (Returns (restart_asr sdk_example (\<lambda>i s. (0, ''t'', 9)) (restart_asr sdk_example (\<lambda>i s. (0, ''t'', 9)) relay_example)))"
    by (simp add: transcriber_handlerFrame_def failure_example_def close_example_def NlsEvent_new_def)
  from this requests_leak [OF this, of "\<lambda>n. n"] show ?thesis by (auto simp: sdk_example_def)
qed

lemma expired_token_kept_witness: "checkToken (\<lambda>i s. (0, ''new'', 999)) 500 asr_example = (0, asr_example)"
  by (rule expired_token_kept) (simp add: asr_example_def)

lemma time_base_witness:
  "\<exists>A'. asr_feed sdk_example (\<lambda>i s. (0, ''t'', 9)) codec_always swr_example [(0, long_packet 0), (1, long_packet 1500)] asr_example =
      Some (Returns A')
    \<and> ar_first_audio_pts A' = (case dropWhile (\<lambda>pts. pts = 0) (map (\<lambda>(_, pkt). pk_pts pkt) [(0 :: int, long_packet 0), (1, long_packet 1500)])
        of [] \<Rightarrow> 0 | pts # _ \<Rightarrow> pts)"
  by (rule time_base [OF reliable_example]) (simp_all add: swr_example_def sdk_example_def asr_example_def)

end
