(* ===== verification/Relayer.thy ===== *)
theory Relayer
  imports Asr
begin

text \<open>
  The program: the command line (\<open>main.cpp\<close>) and \<open>processor/relayer.cpp\<close>, which opens input and output, builds the
  parts and reads the input. The main thread (reading, sending audio to the recogniser, queueing packets) and the SDK's
  event thread (the callbacks) are the steps of a transition system; the delayer's mutex makes each call on the delay
  line one step, and between sending an audio packet and queueing it a callback may come.
\<close>

section \<open>The command line\<close>

record options =
  op_appkey :: string
  op_akId :: string
  op_akSecret :: string
  op_token :: string
  op_in_url :: string
  op_out_url :: string
  op_dict_file :: string
  op_delay :: int
  op_sentence_gap :: int
  op_enable_grpc :: bool
  op_grpc_host :: string

definition default_options :: options where
  "default_options = \<lparr>op_appkey = [], op_akId = [], op_akSecret = [], op_token = [], op_in_url = [], op_out_url = [],
     op_dict_file = [], op_delay = 15, op_sentence_gap = 200, op_enable_grpc = False, op_grpc_host = []\<rparr>"

text \<open>The arguments that take a value.\<close>

definition value_option :: "string \<Rightarrow> (string \<Rightarrow> options \<Rightarrow> options) option" where
  "value_option a =
     (if a = ''--appkey'' then Some (\<lambda>v. op_appkey_update (\<lambda>_. v))
      else if a = ''--akId'' then Some (\<lambda>v. op_akId_update (\<lambda>_. v))
      else if a = ''--akSecret'' then Some (\<lambda>v. op_akSecret_update (\<lambda>_. v))
      else if a = ''--token'' then Some (\<lambda>v. op_token_update (\<lambda>_. v))
      else if a = ''--in'' then Some (\<lambda>v. op_in_url_update (\<lambda>_. v))
      else if a = ''--out'' then Some (\<lambda>v. op_out_url_update (\<lambda>_. v))
      else if a = ''--dict'' then Some (\<lambda>v. op_dict_file_update (\<lambda>_. v))
      else if a = ''--delay'' then Some (\<lambda>v. op_delay_update (\<lambda>_. atoi v))
      else if a = ''--maxSentenceGap'' then Some (\<lambda>v. op_sentence_gap_update (\<lambda>_. atoi v))
      else if a = ''--grpcHost'' then Some (\<lambda>v. op_grpc_host_update (\<lambda>_. v))
      else None)"

definition other_option :: "string \<Rightarrow> options \<Rightarrow> options" where
  "other_option a Q = (if a = ''--grpc'' then Q\<lparr>op_enable_grpc := True\<rparr> else Q)"

text \<open>The loop of \<open>parse_argv\<close>, from the first argument after the program's name, with the check of
  \<open>invalied_argv\<close> before a value is read.\<close>

fun parse_args :: "string list \<Rightarrow> options \<Rightarrow> int \<times> options" where
  "parse_args [] Q = (if op_in_url Q = [] \<or> op_out_url Q = [] then 1 else 0, Q)"
| "parse_args [a] Q = (case value_option a of Some upd \<Rightarrow> (1, Q) | None \<Rightarrow> parse_args [] (other_option a Q))"
| "parse_args (a # v # rest) Q =
     (case value_option a of
        Some upd \<Rightarrow> parse_args rest (upd v Q)
      | None \<Rightarrow> parse_args (v # rest) (other_option a Q))"

definition parse_argv :: "string list \<Rightarrow> int \<times> options" where
  "parse_argv argv = parse_args (drop 1 argv) default_options"

section \<open>The relayer\<close>

record relayer_config =
  rc_in_url :: string
  rc_out_url :: string
  rc_appkey :: string
  rc_akId :: string
  rc_akSecret :: string
  rc_dict_filename :: string
  rc_delay_sec :: int
  rc_max_sentence_silence_ms :: int
  rc_grpc_enabled :: bool
  rc_grpc_host :: string

text \<open>What \<open>main\<close> gives to the relayer it creates.\<close>

definition configure :: "options \<Rightarrow> relayer_config" where
  "configure Q = \<lparr>rc_in_url = op_in_url Q, rc_out_url = op_out_url Q, rc_appkey = op_appkey Q, rc_akId = op_akId Q,
     rc_akSecret = op_akSecret Q, rc_dict_filename = op_dict_file Q, rc_delay_sec = op_delay Q,
     rc_max_sentence_silence_ms = op_sentence_gap Q, rc_grpc_enabled = op_enable_grpc Q,
     rc_grpc_host = (if op_enable_grpc Q then op_grpc_host Q else [])\<rparr>"

text \<open>What libavformat answers while the relayer is set up, the files, and the state the libraries start in.
  \<open>ie_new_streams\<close> has one entry for each stream of the input: whether the output stream could be allocated
  and what copying the parameters gave.\<close>

record ('c, 'w, 's) init_env =
  ie_open_input :: int
  ie_find_stream_info :: int
  ie_alloc_output :: bool
  ie_new_streams :: "(bool \<times> int) list"
  ie_audio_index :: int
  ie_video_index :: int
  ie_replacer :: codec_setup
  ie_decoder :: codec_setup
  ie_file :: "string \<Rightarrow> string option"
  ie_expireTime :: int
  ie_request :: "nat option"
  ie_mute_codec :: 'c
  ie_asr_codec :: 'c
  ie_swr :: 'w
  ie_sdk :: 's

definition asr_new :: "('c, 'w, 's) init_env \<Rightarrow> relayer_config \<Rightarrow> ('c, 'w, 's) asr" where
  "asr_new I F = \<lparr>ar_appkey = rc_appkey F, ar_token = [], ar_akId = rc_akId F, ar_akSecret = rc_akSecret F,
     ar_expireTime = ie_expireTime I, ar_decoder = False, ar_request = ie_request I, ar_first_audio_pts = 0, ar_dict = [],
     ar_max_sentence_silence_ms = 200, ar_biz_client = False, ar_max_nb_samples = 0, ar_codec = ie_asr_codec I,
     ar_swr = ie_swr I, ar_sdk = ie_sdk I\<rparr>"

text \<open>Each failure of \<open>Relayer::init\<close> gives -1; otherwise the relay, its decoder opened or not, with the service's client
  set last.\<close>

definition relayer_init ::
  "'s speech_sdk \<Rightarrow> token_source \<Rightarrow> ('c, 'w, 's) init_env \<Rightarrow> relayer_config \<Rightarrow> int + ('c, 'w, 's) relay" where
  "relayer_init S T I F =
     (if ie_open_input I < 0 then Inl (- 1)
      else if ie_find_stream_info I < 0 then Inl (- 1)
      else if \<not> ie_alloc_output I then Inl (- 1)
      else if list_ex (\<lambda>(new, copied). \<not> new \<or> copied < 0) (ie_new_streams I) then Inl (- 1)
      else if ie_audio_index I < 0 then Inl (- 1)
      else if ie_video_index I < 0 then Inl (- 1)
      else if fst (replacer_init (ie_replacer I)) < 0 then Inl (- 1)
      else
        (let A0 = (asr_init S (asr_new I F))\<lparr>ar_max_sentence_silence_ms := rc_max_sentence_silence_ms F,
               ar_decoder := 0 \<le> fst (createAudioDecoder (ie_decoder I))\<rparr>;
             (ret, A1) = asr_start S T (createBlackListDict (ie_file I (rc_dict_filename F)) A0) in
         if ret < 0 then Inl (- 1)
         else Inr \<lparr>rl_asr = A1\<lparr>ar_biz_client := rc_grpc_enabled F\<rparr>, rl_delayer = delayer_new (rc_delay_sec F),
                rl_codec = ie_mute_codec I, rl_reports = []\<rparr>))"

section \<open>The two threads\<close>

record ('c, 'w, 's) relay_env =
  re_sdk :: "'s speech_sdk"
  re_token :: token_source
  re_codec :: "'c codec_lib"
  re_swr :: "'w swr_lib"
  re_order :: "Dictionary \<Rightarrow> string list"
  re_out :: output_env
  re_index :: int
  re_audio :: int
  re_video :: int

text \<open>Where the main thread is: about to read, between \<open>sendAudio\<close> and \<open>pushAudioFrame\<close>, or past the loop.\<close>

datatype main_at = Reading | Queueing AVPacket | Finished

record ('c, 'w, 's) relay_state =
  rs_at :: main_at
  rs_input :: "AVPacket list"
  rs_relay :: "('c, 'w, 's) relay"

inductive relay_step :: "('c, 'w, 's) relay_env \<Rightarrow> ('c, 'w, 's) relay_state \<Rightarrow> ('c, 'w, 's) relay_state \<Rightarrow> bool" for V where
  Video: "rs_at s = Reading \<Longrightarrow> rs_input s = p # ps \<Longrightarrow> pk_stream_index p = re_video V \<Longrightarrow>
    pushVideoFrame (re_out V) p (rl_delayer (rs_relay s)) = Returns D \<Longrightarrow>
    relay_step V s (s\<lparr>rs_input := ps, rs_relay := (rs_relay s)\<lparr>rl_delayer := D\<rparr>\<rparr>)"
| Audio: "rs_at s = Reading \<Longrightarrow> rs_input s = p # ps \<Longrightarrow> pk_stream_index p \<noteq> re_video V \<Longrightarrow> pk_stream_index p = re_audio V \<Longrightarrow>
    asr_sendAudio (re_sdk V) (re_token V) (re_codec V) (re_swr V) time p (rl_asr (rs_relay s)) = Some (Returns (ret, A)) \<Longrightarrow>
    relay_step V s (s\<lparr>rs_at := Queueing p, rs_input := ps, rs_relay := (rs_relay s)\<lparr>rl_asr := A\<rparr>\<rparr>)"
| Queue: "rs_at s = Queueing p \<Longrightarrow> pushAudioFrame (re_out V) p (rl_delayer (rs_relay s)) = Returns D \<Longrightarrow>
    relay_step V s (s\<lparr>rs_at := Reading, rs_relay := (rs_relay s)\<lparr>rl_delayer := D\<rparr>\<rparr>)"
| Other: "rs_at s = Reading \<Longrightarrow> rs_input s = p # ps \<Longrightarrow> pk_stream_index p \<noteq> re_video V \<Longrightarrow> pk_stream_index p \<noteq> re_audio V \<Longrightarrow>
    relay_step V s (s\<lparr>rs_input := ps\<rparr>)"
| End: "rs_at s = Reading \<Longrightarrow> rs_input s = [] \<Longrightarrow> relay_step V s (s\<lparr>rs_at := Finished\<rparr>)"
| Event: "transcriber_handlerFrame (re_sdk V) (re_token V) (replaceAudioToMute (re_codec V) (re_index V)) (re_index V) (re_order V) e
      (rs_relay s) = Some (Returns X) \<Longrightarrow>
    relay_step V s (s\<lparr>rs_relay := X\<rparr>)"

inductive_cases relay_stepE: "relay_step V s s'"

definition relay_start :: "('c, 'w, 's) relay \<Rightarrow> AVPacket list \<Rightarrow> ('c, 'w, 's) relay_state" where
  "relay_start X input = \<lparr>rs_at = Reading, rs_input = input, rs_relay = X\<rparr>"

section \<open>The invariant\<close>

definition kept :: "('c, 'w, 's) relay_env \<Rightarrow> AVPacket list \<Rightarrow> AVPacket list" where
  "kept V ps = filter (\<lambda>p. pk_stream_index p = re_video V \<or> pk_stream_index p = re_audio V) ps"

fun in_hand :: "main_at \<Rightarrow> AVPacket list" where
  "in_hand (Queueing p) = [p]"
| "in_hand _ = []"

text \<open>Of the packets \<open>input\<close> those read so far are in the output, in the delay line or in the hand of the main thread, in
  order; nothing but audio was changed.\<close>

definition relay_inv :: "('c, 'w, 's) relay_env \<Rightarrow> int \<Rightarrow> int \<Rightarrow> AVPacket list \<Rightarrow> ('c, 'w, 's) relay_state \<Rightarrow> bool" where
  "relay_inv V m sec input s \<longleftrightarrow>
     delayer_inv m (rl_delayer (rs_relay s)) \<and> dl_deley_sec (rl_delayer (rs_relay s)) = sec
     \<and> (\<exists>seen. input = seen @ rs_input s
         \<and> map stamp (kept V seen) =
           map stamp (dl_written (rl_delayer (rs_relay s)) @ dl_av_packet (rl_delayer (rs_relay s)) @ in_hand (rs_at s))
         \<and> filter (\<lambda>p. pk_stream_index p \<noteq> re_index V) (kept V seen) =
           filter (\<lambda>p. pk_stream_index p \<noteq> re_index V)
             (dl_written (rl_delayer (rs_relay s)) @ dl_av_packet (rl_delayer (rs_relay s)) @ in_hand (rs_at s)))
     \<and> (rs_at s = Finished \<longrightarrow> rs_input s = [])"

lemma restart_keeps_line: "rl_delayer (restart_asr S T X) = rl_delayer X"
  by (simp add: restart_asr_def)

lemma event_keeps_line:
  assumes "transcriber_handlerFrame S T (replaceAudioToMute L index) index order e X = Some (Returns X')"
    and "delayer_inv m (rl_delayer X)"
  shows "delayer_inv m (rl_delayer X') \<and> same_line index (rl_delayer X') (rl_delayer X)"
proof (cases "ev_msgType e = SentenceEnd")
  case True
  with assms(1) obtain segs Y where Y: "mute_hits (replaceAudioToMute L index) index (c_str (the (getResult e))) segs Y = Some (Returns X')"
    "rl_delayer Y = rl_delayer X"
    by (auto simp: transcriber_handlerFrame_def onSentenceEnd_def Let_def split: option.splits)
  from replacer.mute_hits_inv [OF Y(1)] Y(2) assms(2) show ?thesis by simp
next
  case False
  then have "rl_delayer X' = rl_delayer X"
    using assms(1) by (auto simp: transcriber_handlerFrame_def restart_keeps_line split: EventType.splits)
  with assms(2) show ?thesis by (simp add: same_line_def)
qed

lemma fits_input:
  "list_all (fits m) (kept V (seen @ p # ps)) \<Longrightarrow> pk_stream_index p = re_video V \<or> pk_stream_index p = re_audio V \<Longrightarrow> fits m p"
  by (auto simp: kept_def)

lemma relay_inv_step:
  assumes "relay_step V s s'" and "relay_inv V m sec input s" and "list_all (fits m) (kept V input)"
  shows "relay_inv V m sec input s'"
proof -
  let ?D = "rl_delayer (rs_relay s)"
  from assms(2) obtain seen where inv: "delayer_inv m ?D" "dl_deley_sec ?D = sec" "input = seen @ rs_input s"
    "map stamp (kept V seen) = map stamp (dl_written ?D @ dl_av_packet ?D @ in_hand (rs_at s))"
    "filter (\<lambda>p. pk_stream_index p \<noteq> re_index V) (kept V seen) =
      filter (\<lambda>p. pk_stream_index p \<noteq> re_index V) (dl_written ?D @ dl_av_packet ?D @ in_hand (rs_at s))"
    "rs_at s = Finished \<longrightarrow> rs_input s = []" by (auto simp: relay_inv_def)
  from assms(1) show ?thesis
  proof cases
    case (Video p ps D)
    have "fits m p" using assms(3) fits_input [of m V seen p ps] inv(3) Video by simp
    from push_inv [OF inv(1) this, of "re_out V"] Video
    have D: "delayer_inv m D" "dl_written D @ dl_av_packet D = (dl_written ?D @ dl_av_packet ?D) @ [p]" "dl_deley_sec D = sec"
      using inv(2) by (simp_all add: push_video_audio)
    have "map stamp (dl_written D @ dl_av_packet D) = map stamp (kept V (seen @ [p]))
      \<and> filter (\<lambda>p. pk_stream_index p \<noteq> re_index V) (dl_written D @ dl_av_packet D) =
        filter (\<lambda>p. pk_stream_index p \<noteq> re_index V) (kept V (seen @ [p]))"
      unfolding D(2) using inv(4,5) Video by (simp add: kept_def)
    with D(1,3) inv(3) Video show ?thesis by (auto simp: relay_inv_def intro!: exI [of _ "seen @ [p]"])
  next
    case (Audio p ps time ret A)
    with inv show ?thesis by (auto simp: relay_inv_def kept_def intro!: exI [of _ "seen @ [p]"])
  next
    case (Queue p D)
    have "fits m p"
    proof -
      have "list_all (fits m) (kept V seen)" using assms(3) inv(3) by (simp add: kept_def)
      with inv(4) Queue(2) show ?thesis using same_stamps(2) [OF inv(4), of m] by simp
    qed
    from push_inv [OF inv(1) this, of "re_out V"] Queue
    have D: "delayer_inv m D" "dl_written D @ dl_av_packet D = (dl_written ?D @ dl_av_packet ?D) @ [p]" "dl_deley_sec D = sec"
      using inv(2) by simp_all
    have "map stamp (dl_written D @ dl_av_packet D) = map stamp (kept V seen)
      \<and> filter (\<lambda>p. pk_stream_index p \<noteq> re_index V) (dl_written D @ dl_av_packet D) =
        filter (\<lambda>p. pk_stream_index p \<noteq> re_index V) (kept V seen)"
      unfolding D(2) using inv(4,5) Queue by simp
    with D(1,3) inv(3) Queue show ?thesis by (auto simp: relay_inv_def intro!: exI [of _ seen])
  next
    case (Other p ps)
    with inv show ?thesis by (auto simp: relay_inv_def kept_def intro!: exI [of _ "seen @ [p]"])
  next
    case End
    with inv show ?thesis by (auto simp: relay_inv_def intro!: exI [of _ seen])
  next
    case (Event e X)
    from event_keeps_line [OF Event(2) inv(1)] inv Event(1) show ?thesis
      by (auto simp: relay_inv_def same_line_def intro!: exI [of _ seen])
  qed
qed

lemma relay_inv_start:
  "rl_delayer X = delayer_new sec \<Longrightarrow> sane m sec \<Longrightarrow> relay_inv V m sec input (relay_start X input)"
  using delayer_new_inv [of m sec] by (simp add: relay_inv_def relay_start_def delayer_new_def kept_def)

lemma relay_inv_reachable:
  assumes "(relay_step V)\<^sup>*\<^sup>* (relay_start X input) s" and "rl_delayer X = delayer_new sec" and "sane m sec"
    and "list_all (fits m) (kept V input)"
  shows "relay_inv V m sec input s"
  using assms(1) relay_inv_start [OF assms(2,3), of V input]
  by (induction rule: rtranclp_induct) (auto intro: relay_inv_step [OF _ _ assms(4)])

section \<open>Progress\<close>

definition ready :: "('c, 'w, 's) asr \<Rightarrow> bool" where
  "ready A \<longleftrightarrow> ar_decoder A \<and> ar_request A \<noteq> None"

definition always_requests :: "'s speech_sdk \<Rightarrow> bool" where
  "always_requests S \<longleftrightarrow> (\<forall>s. fst (sdk_createTranscriberRequest S s) \<noteq> None)"

lemma start_ready:
  assumes "always_requests S" and "ar_decoder A"
  shows "ready (snd (asr_start S T A))"
proof -
  have dec: "ar_decoder (snd (generateToken T A))" using assms(2) by (auto simp: generateToken_def split: prod.splits)
  from assms(1) obtain r s1 where "sdk_createTranscriberRequest S (ar_sdk (snd (generateToken T A))) = (Some r, s1)"
    unfolding always_requests_def by (metis not_None_eq surj_pair fst_conv)
  with dec show ?thesis by (simp add: asr_start_def ready_def Let_def)
qed

lemma start_returns:
  assumes "always_requests S"
  shows "fst (asr_start S T A) = 0"
proof -
  from assms obtain r s1 where "sdk_createTranscriberRequest S (ar_sdk (snd (generateToken T A))) = (Some r, s1)"
    unfolding always_requests_def by (metis not_None_eq surj_pair fst_conv)
  then show ?thesis by (simp add: asr_start_def Let_def)
qed

lemma restart_ready: "always_requests S \<Longrightarrow> ready (rl_asr X) \<Longrightarrow> ready (rl_asr (restart_asr S T X))"
  using start_ready [of S "asr_init S (resetAsrTimeBase (rl_asr X))" T]
  by (simp add: restart_asr_def asr_init_def resetAsrTimeBase_def ready_def)

lemma sendAudio_ready:
  assumes "asr_sendAudio S T L R t pkt A = Some (Returns (ret, A'))" and "ready A"
  shows "ready A'"
proof -
  let ?A = "snd (checkToken T t A)"
  have r: "ready ?A" using assms(2) checkToken_keeps [of T t A] by (simp add: ready_def)
  from assms(1) r obtain sent c1 where 1: "send_packet_loop L pkt (ar_codec ?A) = Some (sent, c1)"
    by (auto simp: asr_sendAudio_def Let_def ready_def bind_eq_Some_conv)
  show ?thesis
  proof (cases sent)
    case True
    with assms(1) r 1 obtain got c2 where 2: "receive_frame_loop L pkt c1 = Some (got, c2)"
      by (auto simp: asr_sendAudio_def Let_def ready_def bind_eq_Some_conv)
    show ?thesis
    proof (cases got)
      case (Some frame)
      obtain k data A2 where p: "pcmResample R frame (?A\<lparr>ar_codec := c2\<rparr>) = (k, data, A2)" by (metis prod_cases3)
      with pcmResample_keeps [OF p] assms(1) r 1 2 True Some show ?thesis
        by (auto simp: asr_sendAudio_def Let_def ready_def split: if_splits option.splits prod.splits)
    qed (use assms(1) r 1 2 True in \<open>auto simp: asr_sendAudio_def Let_def ready_def\<close>)
  qed (use assms(1) r 1 in \<open>auto simp: asr_sendAudio_def Let_def ready_def\<close>)
qed

lemma sendAudio_returns:
  assumes "reliable L" and "ready A"
  shows "\<exists>ret A'. asr_sendAudio S T L R t pkt A = Some (Returns (ret, A'))"
proof -
  let ?A = "snd (checkToken T t A)"
  from assms(1) obtain c1 frame c2 where c: "avcodec_send_packet L (ar_codec ?A) pkt = (0, c1)" "avcodec_receive_frame L c1 = (0, frame, c2)"
    unfolding reliable_def by meson
  obtain k data A2 where p: "pcmResample R frame (?A\<lparr>ar_codec := c2\<rparr>) = (k, data, A2)" by (metis prod_cases3)
  from assms(2) checkToken_keeps [of T t A] pcmResample_keeps [OF p] obtain r where r: "ar_request A2 = Some r" "ar_decoder ?A"
    by (auto simp: ready_def)
  obtain sent s1 where s: "sdk_sendAudio S r data (ar_sdk A2) = (sent, s1)" by fastforce
  with c p r show ?thesis
    by (simp add: asr_sendAudio_def send_packet_loop.simps [of L pkt] receive_frame_loop.simps [of L pkt c1] Let_def)
qed

lemma ready_step:
  assumes "relay_step V s s'" and "always_requests (re_sdk V)" and "ready (rl_asr (rs_relay s))"
  shows "ready (rl_asr (rs_relay s'))"
  using assms(1)
proof cases
  case (Audio p ps time ret A)
  with sendAudio_ready assms(3) show ?thesis by simp
next
  case (Event e X)
  from handlerFrame_asr [OF Event(2)] restart_ready [OF assms(2,3)] assms(3) Event(1) show ?thesis
    by (auto split: if_splits)
qed (use assms(3) in simp_all)

definition left :: "('c, 'w, 's) relay_state \<Rightarrow> nat" where
  "left s = 2 * length (rs_input s) + (case rs_at s of Reading \<Rightarrow> 1 | Queueing p \<Rightarrow> 2 | Finished \<Rightarrow> 0)"

lemma main_moves:
  assumes "relay_inv V m sec input s" and "list_all (fits m) (kept V input)" and "opens (re_out V)" and "reliable (re_codec V)"
    and "ready (rl_asr (rs_relay s))" and "rs_at s \<noteq> Finished"
  shows "\<exists>s'. relay_step V s s' \<and> left s' < left s"
proof -
  let ?D = "rl_delayer (rs_relay s)"
  from assms(1) obtain seen where inv: "delayer_inv m ?D" "input = seen @ rs_input s"
    "map stamp (kept V seen) = map stamp (dl_written ?D @ dl_av_packet ?D @ in_hand (rs_at s))" by (auto simp: relay_inv_def)
  show ?thesis
  proof (cases "rs_at s")
    case (Queueing p)
    have "list_all (fits m) (kept V seen)" using assms(2) inv(2) by (simp add: kept_def)
    with same_stamps(2) [OF inv(3), of m] Queueing have "fits m p" by simp
    with push_inv [OF inv(1), of p "re_out V"] assms(3) obtain D where "pushAudioFrame (re_out V) p ?D = Returns D" by auto
    from Queue [where V = V and s = s, OF Queueing this] Queueing show ?thesis by (fastforce simp: left_def)
  next
    case Reading
    show ?thesis
    proof (cases "rs_input s")
      case Nil
      from End [where V = V and s = s, OF Reading Nil] Reading Nil show ?thesis by (fastforce simp: left_def)
    next
      case (Cons p ps)
      consider "pk_stream_index p = re_video V" | "pk_stream_index p \<noteq> re_video V" "pk_stream_index p = re_audio V"
        | "pk_stream_index p \<noteq> re_video V" "pk_stream_index p \<noteq> re_audio V" by blast
      then show ?thesis
      proof cases
        case 1
        then have "fits m p" using assms(2) fits_input [of m V seen p ps] inv(2) Cons by simp
        with push_inv [OF inv(1), of p "re_out V"] assms(3) obtain D where "pushVideoFrame (re_out V) p ?D = Returns D"
          by (auto simp: push_video_audio)
        from Video [where V = V and s = s, OF Reading Cons 1 this] Reading Cons show ?thesis by (fastforce simp: left_def)
      next
        case 2
        from sendAudio_returns [OF assms(4,5), of "re_sdk V" "re_token V" "re_swr V" 0 p] obtain ret A where
          "asr_sendAudio (re_sdk V) (re_token V) (re_codec V) (re_swr V) 0 p (rl_asr (rs_relay s)) = Some (Returns (ret, A))" by blast
        from Audio [where V = V and s = s, OF Reading Cons 2 this] Reading Cons show ?thesis by (fastforce simp: left_def)
      next
        case 3
        from Other [where V = V and s = s, OF Reading Cons 3] Reading Cons show ?thesis by (fastforce simp: left_def)
      qed
    qed
  qed (use assms(6) in simp)
qed

lemma main_finishes:
  assumes "relay_inv V m sec input s" and "list_all (fits m) (kept V input)" and "opens (re_out V)" and "reliable (re_codec V)"
    and "always_requests (re_sdk V)" and "ready (rl_asr (rs_relay s))"
  shows "\<exists>s'. (relay_step V)\<^sup>*\<^sup>* s s' \<and> rs_at s' = Finished"
  using assms(1,6)
proof (induction "left s" arbitrary: s rule: less_induct)
  case less
  show ?case
  proof (cases "rs_at s = Finished")
    case False
    from main_moves [OF less.prems(1) assms(2-4) less.prems(2) False] obtain s1 where s1: "relay_step V s s1" "left s1 < left s" by blast
    from less.hyps [OF s1(2) relay_inv_step [OF s1(1) less.prems(1) assms(2)] ready_step [OF s1(1) assms(5) less.prems(2)]]
    show ?thesis using s1(1) by (meson converse_rtranclp_into_rtranclp)
  qed blast
qed

section \<open>Properties\<close>

lemma init_state:
  assumes "relayer_init S T I F = Inr X"
  shows "rl_delayer X = delayer_new (rc_delay_sec F) \<and> ar_request (rl_asr X) \<noteq> None \<and> ar_first_audio_pts (rl_asr X) = 0
    \<and> ar_biz_client (rl_asr X) = rc_grpc_enabled F \<and> (ar_decoder (rl_asr X) \<longleftrightarrow> 0 \<le> fst (createAudioDecoder (ie_decoder I)))
    \<and> rl_reports X = []"
  using assms
  by (auto simp: relayer_init_def asr_start_def generateToken_def createBlackListDict_def asr_init_def asr_new_def Let_def
      split: if_splits prod.splits option.splits)

text \<open>C1. Nothing the two threads do in any order loses, repeats or reorders a packet: in every state the relay can reach, the
  packets sent, then those that wait, then the one the main thread holds, are the audio and video read so far,
  with their time stamps, and those of other streams than the muted one are unchanged to the byte; what waits is
  never more than one packet over twice the delay.\<close>

theorem relay_conserves:
  assumes "relayer_init S T I F = Inr X" and "sane m (rc_delay_sec F)" and "list_all (fits m) (kept V input)"
    and "(relay_step V)\<^sup>*\<^sup>* (relay_start X input) s"
  shows "\<exists>seen. input = seen @ rs_input s
    \<and> map stamp (dl_written (rl_delayer (rs_relay s)) @ dl_av_packet (rl_delayer (rs_relay s)) @ in_hand (rs_at s)) = map stamp (kept V seen)
    \<and> filter (\<lambda>p. pk_stream_index p \<noteq> re_index V)
        (dl_written (rl_delayer (rs_relay s)) @ dl_av_packet (rl_delayer (rs_relay s)) @ in_hand (rs_at s)) =
      filter (\<lambda>p. pk_stream_index p \<noteq> re_index V) (kept V seen)
    \<and> durations (dl_av_packet (rl_delayer (rs_relay s))) \<le> rc_delay_sec F * 2000 + m"
proof -
  from relay_inv_reachable [OF assms(4) conjunct1 [OF init_state [OF assms(1)]] assms(2,3)]
  show ?thesis by (auto simp: relay_inv_def delayer_inv_def)
qed

text \<open>C11. The end of the stream is cut off: when the input has ended and the loop with it, the packets of at least twice the
  delay are still in the line, and nothing sends them any more; of a stream no longer than that, nothing was sent.\<close>

theorem tail_is_never_sent:
  assumes "relayer_init S T I F = Inr X" and "sane m (rc_delay_sec F)" and "list_all (fits m) (kept V input)"
    and "(relay_step V)\<^sup>*\<^sup>* (relay_start X input) s" and "rs_at s = Finished"
  shows "map stamp (dl_written (rl_delayer (rs_relay s)) @ dl_av_packet (rl_delayer (rs_relay s))) = map stamp (kept V input)
    \<and> (dl_written (rl_delayer (rs_relay s)) = [] \<or> rc_delay_sec F * 2000 < durations (dl_av_packet (rl_delayer (rs_relay s))))
    \<and> durations (dl_written (rl_delayer (rs_relay s))) \<le> max 0 (durations (kept V input) - rc_delay_sec F * 2000)"
proof -
  let ?D = "rl_delayer (rs_relay s)"
  from relay_inv_reachable [OF assms(4) conjunct1 [OF init_state [OF assms(1)]] assms(2,3)] assms(5)
  have inv: "delayer_inv m ?D" "dl_deley_sec ?D = rc_delay_sec F"
    and st: "map stamp (dl_written ?D @ dl_av_packet ?D) = map stamp (kept V input)" by (auto simp: relay_inv_def)
  have held: "rc_delay_sec F * 2000 < durations (dl_av_packet ?D)" if "dl_written ?D \<noteq> []"
  proof -
    have "dl_written ?D = butlast (dl_written ?D) @ [last (dl_written ?D)]" using that by simp
    moreover have "held_back (rc_delay_sec F * 2000) (dl_written ?D) (dl_av_packet ?D)" using inv by (auto simp: delayer_inv_def)
    ultimately show ?thesis by (metis held_back_snoc)
  qed
  have "durations (dl_written ?D) + durations (dl_av_packet ?D) = durations (kept V input)"
    using same_stamps(1) [OF st] by simp
  with held st show ?thesis by (cases "dl_written ?D = []") auto
qed

text \<open>C13. The main thread gets to the end of the input: with codecs that answer, an output that opens and an SDK that
  gives requests, from every state the two threads can reach it can go on and leave the loop, whatever events came.\<close>

theorem relay_finishes:
  assumes "relayer_init S T I F = Inr X" and "sane m (rc_delay_sec F)" and "list_all (fits m) (kept V input)"
    and "(relay_step V)\<^sup>*\<^sup>* (relay_start X input) s" and "opens (re_out V)" and "reliable (re_codec V)"
    and "always_requests (re_sdk V)" and "0 \<le> fst (createAudioDecoder (ie_decoder I))"
  shows "\<exists>s'. (relay_step V)\<^sup>*\<^sup>* s s' \<and> rs_at s' = Finished"
proof -
  note i = init_state [OF assms(1)]
  have "ready (rl_asr (rs_relay s))"
    using assms(4)
  proof (induction rule: rtranclp_induct)
    case base
    show ?case using i assms(8) by (simp add: ready_def relay_start_def)
  next
    case (step s s')
    then show ?case using ready_step assms(7) by blast
  qed
  with main_finishes [OF relay_inv_reachable [OF assms(4) conjunct1 [OF i] assms(2,3)] assms(3,5-7)] show ?thesis by blast
qed

section \<open>Setting up\<close>

text \<open>C25. Setting up fails exactly when one of its checks does: then \<open>init\<close> gives -1; otherwise the relay starts with an
  empty delay line, a request and no time base, even when no token could be had and the recogniser's own decoder
  could not be opened. In that last case the first packet of audio crashes the relay.\<close>

theorem init_result:
  assumes "always_requests S"
  shows "if 0 \<le> ie_open_input I \<and> 0 \<le> ie_find_stream_info I \<and> ie_alloc_output I
      \<and> list_all (\<lambda>(new, copied). new \<and> 0 \<le> copied) (ie_new_streams I) \<and> 0 \<le> ie_audio_index I \<and> 0 \<le> ie_video_index I
      \<and> 0 \<le> fst (replacer_init (ie_replacer I))
    then \<exists>X. relayer_init S T I F = Inr X \<and> rl_delayer X = delayer_new (rc_delay_sec F) \<and> ar_request (rl_asr X) \<noteq> None
      \<and> ar_first_audio_pts (rl_asr X) = 0
      \<and> (asr_sendAudio S T L R time pkt (rl_asr X) = Some Undefined \<or> 0 \<le> fst (createAudioDecoder (ie_decoder I)))
    else relayer_init S T I F = Inl (- 1)"
proof -
  have streams: "list_ex (\<lambda>(new, copied). new \<longrightarrow> copied < 0) ss \<longleftrightarrow> \<not> list_all (\<lambda>(new, copied). new \<and> 0 \<le> copied) ss"
    for ss :: "(bool \<times> int) list"
    by (induction ss) auto
  note started = start_returns [OF assms]
  show ?thesis
  proof (cases "relayer_init S T I F")
    case (Inl k)
    then show ?thesis
      by (auto simp: relayer_init_def streams started Let_def case_prod_beta split: if_splits)
  next
    case (Inr X)
    have "asr_sendAudio S T L R time pkt (rl_asr X) = Some Undefined \<or> ar_decoder (rl_asr X)"
      using checkToken_keeps [of T time "rl_asr X"] by (simp add: asr_sendAudio_def Let_def)
    with init_state [OF Inr] Inr show ?thesis
      by (auto simp: relayer_init_def streams Let_def case_prod_beta split: if_splits)
  qed
qed

section \<open>Reading back a command line\<close>

definition render_options :: "options \<Rightarrow> string list" where
  "render_options Q = [''--appkey'', op_appkey Q, ''--akId'', op_akId Q, ''--akSecret'', op_akSecret Q, ''--token'', op_token Q,
     ''--in'', op_in_url Q, ''--out'', op_out_url Q, ''--dict'', op_dict_file Q, ''--delay'', dec (nat (op_delay Q)),
     ''--maxSentenceGap'', dec (nat (op_sentence_gap Q))]
     @ (if op_enable_grpc Q then [''--grpc''] else []) @ [''--grpcHost'', op_grpc_host Q]"

lemma value_option_simps [simp]:
  "value_option ''--appkey'' = Some (\<lambda>v. op_appkey_update (\<lambda>_. v))"
  "value_option ''--akId'' = Some (\<lambda>v. op_akId_update (\<lambda>_. v))"
  "value_option ''--akSecret'' = Some (\<lambda>v. op_akSecret_update (\<lambda>_. v))"
  "value_option ''--token'' = Some (\<lambda>v. op_token_update (\<lambda>_. v))"
  "value_option ''--in'' = Some (\<lambda>v. op_in_url_update (\<lambda>_. v))"
  "value_option ''--out'' = Some (\<lambda>v. op_out_url_update (\<lambda>_. v))"
  "value_option ''--dict'' = Some (\<lambda>v. op_dict_file_update (\<lambda>_. v))"
  "value_option ''--delay'' = Some (\<lambda>v. op_delay_update (\<lambda>_. atoi v))"
  "value_option ''--maxSentenceGap'' = Some (\<lambda>v. op_sentence_gap_update (\<lambda>_. atoi v))"
  "value_option ''--grpcHost'' = Some (\<lambda>v. op_grpc_host_update (\<lambda>_. v))"
  "value_option ''--grpc'' = None"
  by (simp_all add: value_option_def)

text \<open>Every option of the command line is read: what the options say, written as arguments, is parsed back, whatever the
  values are, also ones that look like options themselves; without an input or an output address the result is 1.\<close>

theorem command_line_roundtrip:
  assumes "0 \<le> op_delay Q" and "op_delay Q < 2147483648" and "0 \<le> op_sentence_gap Q" and "op_sentence_gap Q < 2147483648"
  shows "parse_argv (program # render_options Q) = (if op_in_url Q = [] \<or> op_out_url Q = [] then 1 else 0, Q)"
proof -
  have d: "atoi (dec (nat (op_delay Q))) = op_delay Q" "atoi (dec (nat (op_sentence_gap Q))) = op_sentence_gap Q"
    using atoi_dec [of "[]" "nat (op_delay Q)"] atoi_dec [of "[]" "nat (op_sentence_gap Q)"] assms by simp_all
  show ?thesis
    by (cases Q) (use d in \<open>simp add: parse_argv_def render_options_def default_options_def other_option_def\<close>)
qed

section \<open>The program\<close>

text \<open>\<open>main\<close>: -1 for arguments it cannot use and for a set-up that fails, else the state in which \<open>startProcess\<close> begins. \<open>I\<close> is
  what the set-up meets for the addresses it is given.\<close>

definition relay_main ::
  "'s speech_sdk \<Rightarrow> token_source \<Rightarrow> (relayer_config \<Rightarrow> ('c, 'w, 's) init_env) \<Rightarrow> string list \<Rightarrow> AVPacket list \<Rightarrow> int + ('c, 'w, 's) relay_state" where
  "relay_main S T I argv input =
     (let (ret, Q) = parse_argv argv in
      if ret \<noteq> 0 then Inl (- 1)
      else
        (case relayer_init S T (I (configure Q)) (configure Q) of
           Inl e \<Rightarrow> Inl (- 1)
         | Inr X \<Rightarrow> Inr (relay_start X input)))"

text \<open>The program called with its options does what they say, or ends with -1.\<close>

theorem main_follows_options:
  assumes "0 \<le> op_delay Q" and "op_delay Q < 2147483648" and "0 \<le> op_sentence_gap Q" and "op_sentence_gap Q < 2147483648"
  shows "relay_main S T I (program # render_options Q) input = Inl (- 1) \<or>
    (\<exists>s. relay_main S T I (program # render_options Q) input = Inr s \<and> rs_at s = Reading \<and> rs_input s = input
      \<and> rl_delayer (rs_relay s) = delayer_new (op_delay Q) \<and> ar_biz_client (rl_asr (rs_relay s)) = op_enable_grpc Q
      \<and> op_in_url Q \<noteq> [] \<and> op_out_url Q \<noteq> [])"
proof (cases "relayer_init S T (I (configure Q)) (configure Q)")
  case (Inl e)
  then show ?thesis by (simp add: relay_main_def command_line_roundtrip [OF assms])
next
  case (Inr X)
  from init_state [OF Inr] have "rl_delayer X = delayer_new (op_delay Q)" by (simp add: configure_def)
  moreover from Inr have "ar_biz_client (rl_asr X) = op_enable_grpc Q"
    by (auto simp: relayer_init_def configure_def Let_def split: if_splits prod.splits)
  ultimately show ?thesis using Inr by (simp add: relay_main_def command_line_roundtrip [OF assms] relay_start_def)
qed

section \<open>Examples\<close>

definition options_example :: options where
  "options_example = default_options\<lparr>op_in_url := ''--out'', op_out_url := ''rtmp://b/c'', op_delay := 1, op_enable_grpc := True\<rparr>"

lemma command_line_roundtrip_witness:
  "parse_argv (''rtmp_relay'' # render_options options_example) =
    (if op_in_url options_example = [] \<or> op_out_url options_example = [] then 1 else 0, options_example)"
  by (rule command_line_roundtrip) (simp_all add: options_example_def default_options_def)

definition setup_example :: codec_setup where
  "setup_example = \<lparr>cs_best_stream = 1, cs_alloc_decoder = True, cs_open_decoder = 0, cs_find_encoder = True, cs_alloc_encoder = True\<rparr>"

definition init_example :: "(byte list, unit, nat) init_env" where
  "init_example = \<lparr>ie_open_input = 0, ie_find_stream_info = 0, ie_alloc_output = True, ie_new_streams = [(True, 0), (True, 0)],
     ie_audio_index = 1, ie_video_index = 0, ie_replacer = setup_example, ie_decoder = setup_example, ie_file = (\<lambda>_. None),
     ie_expireTime = 0, ie_request = None, ie_mute_codec = [], ie_asr_codec = [], ie_swr = (), ie_sdk = 0\<rparr>"

definition token_example :: token_source where "token_example = (\<lambda>i s. (0, ''t'', 9))"

definition config_example :: relayer_config where "config_example = configure options_example"

definition boot_example :: "(byte list, unit, nat) relay" where
  "boot_example = \<lparr>rl_asr = \<lparr>ar_appkey = [], ar_token = ''t'', ar_akId = [], ar_akSecret = [], ar_expireTime = 9, ar_decoder = True,
       ar_request = Some 0, ar_first_audio_pts = 0, ar_dict = [], ar_max_sentence_silence_ms = 200, ar_biz_client = True,
       ar_max_nb_samples = 0, ar_codec = [], ar_swr = (), ar_sdk = 1\<rparr>,
     rl_delayer = delayer_new 1, rl_codec = [], rl_reports = []\<rparr>"

lemma setup_example_ok: "fst (createAudioDecoder setup_example) = 0" "fst (replacer_init setup_example) = 0"
  by (simp_all add: setup_example_def replacer_init_def createAudioDecoder_def createAudioEncoder_def)

lemma config_example_delay: "rc_delay_sec config_example = 1"
  by (simp add: config_example_def configure_def options_example_def)

lemma boot: "relayer_init sdk_example token_example init_example config_example = Inr boot_example"
  by (simp add: relayer_init_def init_example_def setup_example_ok asr_start_def asr_init_def asr_new_def createBlackListDict_def
      loadFromFile_def generateToken_def token_example_def sdk_example_def boot_example_def config_example_def configure_def
      options_example_def default_options_def)

definition env_relay_example :: "(byte list, unit, nat) relay_env" where
  "env_relay_example = \<lparr>re_sdk = sdk_example, re_token = token_example, re_codec = codec_always, re_swr = swr_example,
     re_order = (\<lambda>D. D), re_out = output_example, re_index = 1, re_audio = 1, re_video = 0\<rparr>"

definition picture :: "int \<Rightarrow> AVPacket" where
  "picture pts = \<lparr>pk_stream_index = 0, pk_pts = pts, pk_dts = pts, pk_duration = 1500, pk_data = [3]\<rparr>"

definition line_example :: "AVPacket list \<Rightarrow> AVPacket list \<Rightarrow> bool \<Rightarrow> delayer" where
  "line_example out waiting done = \<lparr>dl_av_packet = waiting, dl_deley_sec = 1, dl_total_deley_ms = 1500 * int (length waiting),
     dl_handshake_done = done, dl_written = out\<rparr>"

definition state_example :: "main_at \<Rightarrow> AVPacket list \<Rightarrow> delayer \<Rightarrow> (byte list, unit, nat) relay_state" where
  "state_example at input D = \<lparr>rs_at = at, rs_input = input, rs_relay = boot_example\<lparr>rl_delayer := D\<rparr>\<rparr>"

lemma picture_step:
  assumes "pushVideoFrame output_example (picture n) D = Returns D'"
  shows "relay_step env_relay_example (state_example Reading (picture n # ps) D) (state_example Reading ps D')"
  using Video [of "state_example Reading (picture n # ps) D" "picture n" ps env_relay_example D'] assms
  by (simp add: state_example_def env_relay_example_def picture_def boot_example_def)

lemma run_relay_example:
  "(relay_step env_relay_example)\<^sup>*\<^sup>* (relay_start boot_example [picture 0, picture 1500, picture 3000])
     (state_example Finished [] (line_example [picture 0] [picture 1500, picture 3000] True))"
proof -
  have 0: "relay_start boot_example ps = state_example Reading ps (line_example [] [] False)" for ps
    by (simp add: relay_start_def state_example_def line_example_def boot_example_def delayer_new_def)
  have push: "pushVideoFrame output_example (picture 0) (line_example [] [] False) = Returns (line_example [] [picture 0] False)"
    "pushVideoFrame output_example (picture 1500) (line_example [] [picture 0] False) =
      Returns (line_example [] [picture 0, picture 1500] False)"
    "pushVideoFrame output_example (picture 3000) (line_example [] [picture 0, picture 1500] False) =
      Returns (line_example [picture 0] [picture 1500, picture 3000] True)"
    by (simp_all add: pushVideoFrame_def flush_def delay_limit_def line_example_def picture_def handshake_def output_example_def)
  have "relay_step env_relay_example (state_example Reading [] D) (state_example Finished [] D)" for D
    using End [of "state_example Reading [] D" env_relay_example] by (simp add: state_example_def)
  then show ?thesis
    unfolding 0 using push [THEN picture_step] by (meson converse_rtranclp_into_rtranclp rtranclp.rtrancl_refl)
qed

lemma relay_example_fits: "sane 1500 (rc_delay_sec config_example)"
  "list_all (fits 1500) (kept env_relay_example [picture 0, picture 1500, picture 3000])"
  by (simp_all add: config_example_delay sane_def kept_def env_relay_example_def picture_def fits_def)

abbreviation (input) "end_example \<equiv> state_example Finished [] (line_example [picture 0] [picture 1500, picture 3000] True)"

lemma relay_conserves_witness:
  "\<exists>seen. [picture 0, picture 1500, picture 3000] = seen @ rs_input end_example
    \<and> map stamp (dl_written (rl_delayer (rs_relay end_example)) @ dl_av_packet (rl_delayer (rs_relay end_example))
        @ in_hand (rs_at end_example)) = map stamp (kept env_relay_example seen)
    \<and> filter (\<lambda>p. pk_stream_index p \<noteq> re_index env_relay_example)
        (dl_written (rl_delayer (rs_relay end_example)) @ dl_av_packet (rl_delayer (rs_relay end_example)) @ in_hand (rs_at end_example)) =
      filter (\<lambda>p. pk_stream_index p \<noteq> re_index env_relay_example) (kept env_relay_example seen)
    \<and> durations (dl_av_packet (rl_delayer (rs_relay end_example))) \<le> rc_delay_sec config_example * 2000 + 1500"
  by (rule relay_conserves [OF boot relay_example_fits run_relay_example])

lemma tail_is_never_sent_witness:
  "map stamp (dl_written (rl_delayer (rs_relay end_example)) @ dl_av_packet (rl_delayer (rs_relay end_example))) =
      map stamp (kept env_relay_example [picture 0, picture 1500, picture 3000])
    \<and> (dl_written (rl_delayer (rs_relay end_example)) = []
        \<or> rc_delay_sec config_example * 2000 < durations (dl_av_packet (rl_delayer (rs_relay end_example))))
    \<and> durations (dl_written (rl_delayer (rs_relay end_example))) \<le>
      max 0 (durations (kept env_relay_example [picture 0, picture 1500, picture 3000]) - rc_delay_sec config_example * 2000)"
  by (rule tail_is_never_sent [OF boot relay_example_fits run_relay_example]) (simp add: state_example_def)

lemma relay_finishes_witness:
  "\<exists>s'. (relay_step env_relay_example)\<^sup>*\<^sup>* (relay_start boot_example [picture 0, picture 1500, picture 3000]) s' \<and> rs_at s' = Finished"
  by (rule relay_finishes [OF boot relay_example_fits rtranclp.rtrancl_refl])
     (simp_all add: env_relay_example_def opens_def output_example_def reliable_example always_requests_def sdk_example_def
        init_example_def setup_example_ok)

lemma init_result_witness:
  "if 0 \<le> ie_open_input init_example \<and> 0 \<le> ie_find_stream_info init_example \<and> ie_alloc_output init_example
      \<and> list_all (\<lambda>(new, copied). new \<and> 0 \<le> copied) (ie_new_streams init_example) \<and> 0 \<le> ie_audio_index init_example
      \<and> 0 \<le> ie_video_index init_example \<and> 0 \<le> fst (replacer_init (ie_replacer init_example))
    then \<exists>X. relayer_init sdk_example token_example init_example config_example = Inr X \<and> rl_delayer X = delayer_new (rc_delay_sec config_example)
      \<and> ar_request (rl_asr X) \<noteq> None \<and> ar_first_audio_pts (rl_asr X) = 0
      \<and> (asr_sendAudio sdk_example token_example codec_always swr_example 0 (picture 0) (rl_asr X) = Some Undefined
          \<or> 0 \<le> fst (createAudioDecoder (ie_decoder init_example)))
    else relayer_init sdk_example token_example init_example config_example = Inl (- 1)"
  by (rule init_result) (simp add: always_requests_def sdk_example_def)

end
