(* ===== verification/StdMap.thy ===== *)
theory StdMap
  imports Prelude
begin

text \<open>
  \<open>std::map\<close> and \<open>std::set\<close> keep their keys in the order of a comparison and treat keys of which neither is less as the same:
  an association list in that order. The comparisons of the sources are that of \<open>std::string\<close> and, for HTTP headers,
  the one of \<open>HttpMessage::nocaseLess\<close>.
\<close>

section \<open>Comparisons\<close>

text \<open>\<open>operator<\<close> of \<open>std::string\<close>: bytes are compared without sign.\<close>

fun str_less :: "string \<Rightarrow> string \<Rightarrow> bool" where
  "str_less [] [] = False"
| "str_less [] (d # ds) = True"
| "str_less (c # cs) [] = False"
| "str_less (c # cs) (d # ds) = ((of_char c :: nat) < of_char d \<or> c = d \<and> str_less cs ds)"

text \<open>\<open>tolower\<close> in the C locale.\<close>

definition to_lower :: "char \<Rightarrow> char" where
  "to_lower c = (if 65 \<le> (of_char c :: nat) \<and> of_char c \<le> (90 :: nat) then char_of (of_char c + (32 :: nat)) else c)"

definition nocaseLess :: "string \<Rightarrow> string \<Rightarrow> bool" where
  "nocaseLess s1 s2 \<longleftrightarrow> str_less (map to_lower (c_str s1)) (map to_lower (c_str s2))"

lemma str_less_irrefl: "\<not> str_less a a"
  by (induction a) auto

lemma str_less_trans: "str_less a b \<Longrightarrow> str_less b c \<Longrightarrow> str_less a c"
proof (induction a b arbitrary: c rule: str_less.induct)
  case (4 x xs y ys)
  then show ?case by (cases c) auto
qed (auto elim: str_less.elims)

lemma str_less_total: "a = b \<or> str_less a b \<or> str_less b a"
proof (induction a b rule: str_less.induct)
  case (4 x xs y ys)
  show ?case
  proof (cases "(of_char x :: nat)" "(of_char y :: nat)" rule: linorder_cases)
    case equal
    then have "x = y" by simp
    with 4 show ?thesis by simp
  qed simp_all
qed auto

section \<open>The map\<close>

definition same_key :: "('k \<Rightarrow> 'k \<Rightarrow> bool) \<Rightarrow> 'k \<Rightarrow> 'k \<Rightarrow> bool" where
  "same_key lt a b \<longleftrightarrow> \<not> lt a b \<and> \<not> lt b a"

text \<open>\<open>m[k] = v\<close>: a key that is there keeps its spelling.\<close>

fun map_put :: "('k \<Rightarrow> 'k \<Rightarrow> bool) \<Rightarrow> 'k \<Rightarrow> 'v \<Rightarrow> ('k \<times> 'v) list \<Rightarrow> ('k \<times> 'v) list" where
  "map_put lt k v [] = [(k, v)]"
| "map_put lt k v ((k', v') # m) =
     (if lt k k' then (k, v) # (k', v') # m
      else if lt k' k then (k', v') # map_put lt k v m
      else (k', v) # m)"

fun map_get :: "('k \<Rightarrow> 'k \<Rightarrow> bool) \<Rightarrow> 'k \<Rightarrow> ('k \<times> 'v) list \<Rightarrow> 'v option" where
  "map_get lt k [] = None"
| "map_get lt k ((k', v') # m) = (if same_key lt k k' then Some v' else map_get lt k m)"

definition map_erase :: "('k \<Rightarrow> 'k \<Rightarrow> bool) \<Rightarrow> 'k \<Rightarrow> ('k \<times> 'v) list \<Rightarrow> ('k \<times> 'v) list" where
  "map_erase lt k m = filter (\<lambda>(k', v'). \<not> same_key lt k k') m"

definition ordered :: "('k \<Rightarrow> 'k \<Rightarrow> bool) \<Rightarrow> ('k \<times> 'v) list \<Rightarrow> bool" where
  "ordered lt m \<longleftrightarrow> sorted_wrt (\<lambda>x y. lt (fst x) (fst y)) m"

text \<open>What \<open>std::map\<close> asks of a comparison, a strict weak order, and what it gives for it.\<close>

locale comparison =
  fixes lt :: "'k \<Rightarrow> 'k \<Rightarrow> bool"
  assumes less_irrefl: "\<not> lt a a"
    and less_trans: "lt a b \<Longrightarrow> lt b c \<Longrightarrow> lt a c"
    and less_cotrans: "lt a c \<Longrightarrow> lt a b \<or> lt b c"
begin

lemma put_keys: "x \<in> set (map_put lt k v m) \<Longrightarrow> fst x = k \<or> fst x \<in> fst ` set m"
  by (induction m) (auto split: if_splits)

lemma put_ordered: "ordered lt m \<Longrightarrow> ordered lt (map_put lt k v m)"
proof (induction m)
  case (Cons kv m)
  obtain k' v' where kv: "kv = (k', v')" by fastforce
  have m: "ordered lt m" "\<forall>x \<in> set m. lt k' (fst x)" using Cons.prems kv by (simp_all add: ordered_def)
  consider "lt k k'" | "\<not> lt k k'" "lt k' k" | "\<not> lt k k'" "\<not> lt k' k" by blast
  then show ?case
  proof cases
    case 1
    with m Cons.prems kv less_trans show ?thesis by (auto simp: ordered_def)
  next
    case 2
    have "lt k' (fst x)" if "x \<in> set (map_put lt k v m)" for x
      using put_keys [OF that] m(2) 2(2) by auto
    with 2 kv Cons.IH m(1) show ?thesis by (auto simp: ordered_def)
  next
    case 3
    with kv m show ?thesis by (simp add: ordered_def)
  qed
qed (simp add: ordered_def)

lemma get_put_same: "ordered lt m \<Longrightarrow> same_key lt k k' \<Longrightarrow> map_get lt k' (map_put lt k v m) = Some v"
proof (induction m)
  case (Cons kv m)
  obtain l w where kv: "kv = (l, w)" by fastforce
  have "\<not> same_key lt k' l" if "lt l k"
    using that Cons.prems(2) less_cotrans [of l k k'] by (auto simp: same_key_def)
  moreover have "same_key lt k' l" if "\<not> lt k l" "\<not> lt l k"
    using that Cons.prems(2) less_cotrans [of k' l k] less_cotrans [of l k' k] by (auto simp: same_key_def)
  ultimately show ?case using Cons kv by (auto simp: same_key_def ordered_def)
qed (simp add: same_key_def)

lemma get_put_other: "\<not> same_key lt k k' \<Longrightarrow> map_get lt k' (map_put lt k v m) = map_get lt k' m"
proof (induction m)
  case (Cons kv m)
  obtain l w where kv: "kv = (l, w)" by fastforce
  have "same_key lt k' l = False" if "\<not> lt k l" "\<not> lt l k"
    using that Cons.prems less_cotrans [of k' k l] less_cotrans [of k k' l] by (auto simp: same_key_def)
  with Cons kv show ?case by (auto simp: same_key_def)
qed (auto simp: same_key_def)

end

interpretation string_map: comparison str_less
proof unfold_locales
  show "str_less a c \<Longrightarrow> str_less a b \<or> str_less b c" for a b c
    using str_less_total [of a b] str_less_trans [of b a c] by blast
qed (auto simp: str_less_irrefl intro: str_less_trans)

interpretation header_map: comparison nocaseLess
  unfolding nocaseLess_def
  by unfold_locales (auto intro: string_map.less_trans dest: string_map.less_cotrans simp: string_map.less_irrefl)

lemma same_string [simp]: "same_key str_less a b \<longleftrightarrow> a = b"
  using str_less_total [of a b] str_less_irrefl by (auto simp: same_key_def)

end
