(* ===== verification/Url.thy ===== *)
theory Url
  imports StdMap
begin

text \<open>
  The addresses of the token client: \<open>token/src/Url.cpp\<close>. A \<open>Url\<close> is the record of its members (\<open>ur_host\<close> is \<open>host_\<close>); the accessors are
  the selectors.
\<close>

section \<open>State and setters\<close>

record Url =
  ur_scheme :: string
  ur_userName :: string
  ur_password :: string
  ur_host :: string
  ur_path :: string
  ur_port :: int
  ur_query :: string
  ur_fragment :: string

abbreviation (input) INVALID_PORT :: int where "INVALID_PORT \<equiv> - 1"

definition Url_empty :: Url where
  "Url_empty = \<lparr>ur_scheme = [], ur_userName = [], ur_password = [], ur_host = [], ur_path = [], ur_port = INVALID_PORT, ur_query = [], ur_fragment = []\<rparr>"

definition Url_clear :: "Url \<Rightarrow> Url" where
  "Url_clear u = u\<lparr>ur_scheme := [], ur_userName := [], ur_password := [], ur_host := [], ur_path := [], ur_port := INVALID_PORT, ur_query := [],
     ur_fragment := []\<rparr>"

definition setScheme :: "string \<Rightarrow> Url \<Rightarrow> Url" where
  "setScheme scheme u = (if scheme = [] then u\<lparr>ur_scheme := []\<rparr> else u\<lparr>ur_scheme := map to_lower scheme\<rparr>)"

definition setHost :: "string \<Rightarrow> Url \<Rightarrow> Url" where
  "setHost host u = (if host = [] then u\<lparr>ur_host := []\<rparr> else u\<lparr>ur_host := map to_lower host\<rparr>)"

definition setUserInfo :: "string \<Rightarrow> Url \<Rightarrow> Url" where
  "setUserInfo userInfo u =
     (if userInfo = [] then u\<lparr>ur_userName := [], ur_password := []\<rparr>
      else
        (case str_find userInfo '':'' 0 of
           None \<Rightarrow> u\<lparr>ur_userName := userInfo\<rparr>
         | Some pos \<Rightarrow> u\<lparr>ur_userName := take pos userInfo, ur_password := drop (pos + 1) userInfo\<rparr>))"

text \<open>The host and the port of an authority from \<open>prevpos\<close> on.\<close>

definition host_port :: "string \<Rightarrow> nat \<Rightarrow> string \<times> string" where
  "host_port authority prevpos =
     (case str_find authority '':'' prevpos of
        None \<Rightarrow> (drop prevpos authority, [])
      | Some pos \<Rightarrow> (substr authority prevpos (pos - prevpos), drop (pos + 1) authority))"

definition setAuthority :: "string \<Rightarrow> Url \<Rightarrow> Url" where
  "setAuthority authority u =
     (if authority = [] then (setHost [] (setUserInfo [] u))\<lparr>ur_port := INVALID_PORT\<rparr>
      else
        (let (userinfo, prevpos) = (case str_find authority ''@'' 0 of Some pos \<Rightarrow> (take pos authority, pos + 1) | None \<Rightarrow> ([], 0));
             (host, port) = host_port authority prevpos in
         (setHost host (setUserInfo userinfo u))\<lparr>ur_port := (if port \<noteq> [] then atoi port else INVALID_PORT)\<rparr>))"

text \<open>What follows the first \<open>c\<close>, and what is left when it is erased.\<close>

definition cut_at :: "char \<Rightarrow> string \<Rightarrow> string \<times> string" where
  "cut_at c str = (case str_find str [c] 0 of Some pos \<Rightarrow> (drop (pos + 1) str, take pos str) | None \<Rightarrow> ([], str))"

definition Url_fromString :: "string \<Rightarrow> Url \<Rightarrow> Url" where
  "Url_fromString url u0 =
     (let u = Url_clear u0 in
      if url = [] then u
      else
        (let (scheme, s1) = (case str_find url ''://'' 0 of Some pos \<Rightarrow> (take pos url, drop (pos + 3) url) | None \<Rightarrow> ([], url));
             (fragment, s2) = cut_at (CHR ''#'') s1;
             (query, s3) = cut_at (CHR ''?'') s2;
             (path, authority) = (case str_find s3 ''/'' 0 of Some pos \<Rightarrow> (drop pos s3, take pos s3) | None \<Rightarrow> (''/'', s3)) in
         (setAuthority authority (setScheme scheme u))\<lparr>ur_path := path, ur_query := query, ur_fragment := fragment\<rparr>))"

section \<open>Printing\<close>

definition Url_isEmpty :: "Url \<Rightarrow> bool" where
  "Url_isEmpty u \<longleftrightarrow> ur_scheme u = [] \<and> ur_userName u = [] \<and> ur_password u = [] \<and> ur_host u = [] \<and> ur_path u = [] \<and> ur_port u = INVALID_PORT
     \<and> ur_query u = [] \<and> ur_fragment u = []"

definition Url_isValid :: "Url \<Rightarrow> bool" where
  "Url_isValid u \<longleftrightarrow> \<not> Url_isEmpty u \<and> ur_host u \<noteq> [] \<and> (if ur_userName u = [] then ur_password u = [] else True)"

definition Url_userInfo :: "Url \<Rightarrow> string" where
  "Url_userInfo u =
     (if \<not> Url_isValid u then [] else ur_userName u @ (if ur_password u \<noteq> [] then '':'' @ ur_password u else []))"

definition Url_authority :: "Url \<Rightarrow> string" where
  "Url_authority u =
     (if \<not> Url_isValid u then []
      else (let str = Url_userInfo u in if str \<noteq> [] then str @ ''@'' else [])
        @ ur_host u @ (if ur_port u \<noteq> INVALID_PORT then '':'' @ dec_int (ur_port u) else []))"

definition Url_toString :: "Url \<Rightarrow> string" where
  "Url_toString u =
     (if \<not> Url_isValid u then []
      else (if ur_scheme u \<noteq> [] then ur_scheme u @ ''://'' else []) @ Url_authority u
        @ (if ur_path u = [] then ''/'' else ur_path u)
        @ (if ur_query u \<noteq> [] then ''?'' @ ur_query u else []) @ (if ur_fragment u \<noteq> [] then ''#'' @ ur_fragment u else []))"

section \<open>Reading back\<close>

lemma str_find_char:
  "c \<notin> set xs \<Longrightarrow> str_find (xs @ c # ys) [c] 0 = Some (length xs)"
  "c \<notin> set xs \<Longrightarrow> str_find xs [c] 0 = None"
proof -
  have "c \<notin> set xs \<Longrightarrow> find_at [c] (xs @ c # ys) k = Some (k + length xs)" for k
    by (induction xs arbitrary: k) auto
  moreover have "c \<notin> set xs \<Longrightarrow> find_at [c] xs k = None" for k
    by (induction xs arbitrary: k) auto
  ultimately show "c \<notin> set xs \<Longrightarrow> str_find (xs @ c # ys) [c] 0 = Some (length xs)" "c \<notin> set xs \<Longrightarrow> str_find xs [c] 0 = None"
    by (simp_all add: str_find_def)
qed

text \<open>The pieces between the delimiters, the empty ones too.\<close>

fun cut_pieces :: "char \<Rightarrow> string \<Rightarrow> string \<Rightarrow> string list" where
  "cut_pieces d acc [] = [rev acc]"
| "cut_pieces d acc (c # cs) = (if c = d then rev acc # cut_pieces d [] cs else cut_pieces d (c # acc) cs)"

lemma cut_pieces_append: "d \<notin> set xs \<Longrightarrow> cut_pieces d acc (xs @ d # ys) = (rev acc @ xs) # cut_pieces d [] ys"
  by (induction xs arbitrary: acc) auto

lemma cut_pieces_last: "d \<notin> set xs \<Longrightarrow> cut_pieces d acc xs = [rev acc @ xs]"
  by (induction xs arbitrary: acc) auto

lemma str_find_char_from:
  "c \<notin> set xs \<Longrightarrow> str_find (ps @ xs @ c # ys) [c] (length ps) = Some (length ps + length xs)"
  "c \<notin> set xs \<Longrightarrow> str_find (ps @ xs) [c] (length ps) = None"
proof -
  have "c \<notin> set xs \<Longrightarrow> find_at [c] (xs @ c # ys) k = Some (k + length xs)" for k
    by (induction xs arbitrary: k) auto
  moreover have "c \<notin> set xs \<Longrightarrow> find_at [c] xs k = None" for k
    by (induction xs arbitrary: k) auto
  ultimately show "c \<notin> set xs \<Longrightarrow> str_find (ps @ xs @ c # ys) [c] (length ps) = Some (length ps + length xs)"
    "c \<notin> set xs \<Longrightarrow> str_find (ps @ xs) [c] (length ps) = None"
    by (simp_all add: str_find_def)
qed

lemma str_find_scheme:
  assumes "CHR '':'' \<notin> set xs"
  shows "str_find (xs @ ''://'' @ ys) ''://'' 0 = Some (length xs)"
proof -
  have "find_at ''://'' (xs @ ''://'' @ ys) k = Some (k + length xs)" for k
    using assms by (induction xs arbitrary: k) auto
  from this [of 0] show ?thesis by (simp add: str_find_def)
qed

definition plain :: "string \<Rightarrow> string \<Rightarrow> bool" where
  "plain forbidden s \<longleftrightarrow> list_all (\<lambda>c. c \<notin> set s) forbidden"

text \<open>An address in normal form: scheme and host in lower case, each part without the characters that end it.\<close>

definition normal_url :: "Url \<Rightarrow> bool" where
  "normal_url u \<longleftrightarrow> ur_scheme u \<noteq> [] \<and> map to_lower (ur_scheme u) = ur_scheme u \<and> plain '':'' (ur_scheme u)
     \<and> ur_host u \<noteq> [] \<and> map to_lower (ur_host u) = ur_host u \<and> plain '':@/?#'' (ur_host u)
     \<and> plain '':@/?#'' (ur_userName u) \<and> plain ''@/?#'' (ur_password u) \<and> (ur_userName u = [] \<longrightarrow> ur_password u = [])
     \<and> ur_path u \<noteq> [] \<and> hd (ur_path u) = CHR ''/'' \<and> plain ''?#'' (ur_path u) \<and> plain ''#'' (ur_query u)
     \<and> (ur_port u = INVALID_PORT \<or> 0 \<le> ur_port u \<and> ur_port u < 2147483648)"

lemma atoi_dec_int: "0 \<le> i \<Longrightarrow> i < 2147483648 \<Longrightarrow> atoi (dec_int i) = i"
  using atoi_dec [of "[]" "nat i"] by (simp add: dec_int_def)

lemma plainD: "plain forbidden s \<Longrightarrow> c \<in> set forbidden \<Longrightarrow> c \<notin> set s"
  by (auto simp: plain_def list_all_iff)

lemma normal_urlD:
  assumes "normal_url u"
  shows "CHR '':'' \<notin> set (ur_scheme u)" "CHR '':'' \<notin> set (ur_host u)" "CHR ''@'' \<notin> set (ur_host u)"
    "CHR '':'' \<notin> set (ur_userName u)" "CHR ''@'' \<notin> set (ur_userName u)" "CHR ''@'' \<notin> set (ur_password u)"
    "map to_lower (ur_host u) = ur_host u" "ur_host u \<noteq> []" "ur_userName u = [] \<longrightarrow> ur_password u = []"
    "ur_port u = INVALID_PORT \<or> 0 \<le> ur_port u \<and> ur_port u < 2147483648"
  using assms by (simp_all add: normal_url_def plain_def)

lemma normal_valid: "normal_url u \<Longrightarrow> Url_isValid u"
  by (simp add: normal_url_def Url_isValid_def Url_isEmpty_def)

text \<open>The parts of the authority as \<open>toString\<close> prints them.\<close>

definition user_part :: "Url \<Rightarrow> string" where
  "user_part u = ur_userName u @ (if ur_password u \<noteq> [] then '':'' @ ur_password u else [])"

definition port_part :: "Url \<Rightarrow> string" where
  "port_part u = (if ur_port u \<noteq> INVALID_PORT then '':'' @ dec_int (ur_port u) else [])"

lemma authority_parts:
  "normal_url u \<Longrightarrow> Url_authority u = (if user_part u = [] then [] else user_part u @ ''@'') @ ur_host u @ port_part u"
  by (simp add: Url_authority_def Url_userInfo_def normal_valid user_part_def port_part_def)

lemma port_digits:
  assumes "normal_url u" and "ur_port u \<noteq> INVALID_PORT"
  shows "atoi (dec_int (ur_port u)) = ur_port u" "dec_int (ur_port u) \<noteq> []" "list_all is_digit (dec_int (ur_port u))"
proof -
  have r: "0 \<le> ur_port u" "ur_port u < 2147483648" using normal_urlD(10) [OF assms(1)] assms(2) by blast+
  then show "atoi (dec_int (ur_port u)) = ur_port u" by (rule atoi_dec_int)
  show "dec_int (ur_port u) \<noteq> []" using r by (simp add: dec_int_def)
  show "list_all is_digit (dec_int (ur_port u))" using r dec_digits by (simp add: dec_int_def)
qed

lemma port_part_plain:
  assumes "normal_url u" and "\<not> is_digit c" and "c \<noteq> CHR '':''"
  shows "c \<notin> set (port_part u)"
  using port_digits(3) [OF assms(1)] assms(2,3) by (auto simp: port_part_def list_all_iff)

lemma user_part_plain:
  assumes "normal_url u" and "c \<in> set ''@/?#''"
  shows "c \<notin> set (user_part u)"
proof -
  have "plain ''@/?#'' (ur_password u)" "plain '':@/?#'' (ur_userName u)" using assms(1) by (simp_all add: normal_url_def)
  with assms(2) plainD [of "''@/?#''" "ur_password u" c] plainD [of "'':@/?#''" "ur_userName u" c]
  show ?thesis by (auto simp: user_part_def)
qed

lemma user_parsed:
  assumes "normal_url u" and "ur_userName v = []" and "ur_password v = []"
  shows "setUserInfo (user_part u) v = v\<lparr>ur_userName := ur_userName u, ur_password := ur_password u\<rparr>"
proof (cases "ur_password u = []")
  case True
  with normal_urlD(4) [OF assms(1)] assms(2,3) show ?thesis by (simp add: user_part_def setUserInfo_def str_find_char)
next
  case False
  with normal_urlD(4) [OF assms(1)] str_find_char(1) [of "CHR '':''" "ur_userName u" "ur_password u"] show ?thesis
    by (simp add: user_part_def setUserInfo_def)
qed

lemma host_parsed:
  assumes "normal_url u"
  shows "host_port (ps @ ur_host u @ port_part u) (length ps) = (ur_host u, if ur_port u \<noteq> INVALID_PORT then dec_int (ur_port u) else [])"
  using str_find_char_from [OF normal_urlD(2) [OF assms], of ps] by (simp add: host_port_def substr_def port_part_def)

lemma cut_at_append: "c \<notin> set xs \<Longrightarrow> cut_at c (xs @ (if ys \<noteq> [] then c # ys else [])) = (ys, xs)"
  by (simp add: cut_at_def str_find_char)

lemma authority_parsed:
  assumes "normal_url u" and "ur_userName v = []" and "ur_password v = []"
  shows "setAuthority (Url_authority u) v =
    v\<lparr>ur_userName := ur_userName u, ur_password := ur_password u, ur_host := ur_host u, ur_port := ur_port u\<rparr>"
proof -
  note n = normal_urlD [OF assms(1)]
  have "is_digit (CHR ''@'') = False" by (simp add: is_digit_def)
  with port_part_plain [OF assms(1), of "CHR ''@''"] n(3) have at: "CHR ''@'' \<notin> set (ur_host u @ port_part u)" by simp
  have port: "(if (if ur_port u \<noteq> INVALID_PORT then dec_int (ur_port u) else []) \<noteq> []
      then atoi (if ur_port u \<noteq> INVALID_PORT then dec_int (ur_port u) else []) else INVALID_PORT) = ur_port u"
    using port_digits(1,2) [OF assms(1)] by simp
  show ?thesis
  proof (cases "user_part u = []")
    case True
    then have "ur_userName u = []" "ur_password u = []" by (simp_all add: user_part_def split: if_splits)
    with True host_parsed [OF assms(1), of "[]"] str_find_char(2) [OF at] port n(7,8) assms(2,3) show ?thesis
      by (simp add: authority_parts [OF assms(1)] setAuthority_def setHost_def setUserInfo_def)
  next
    case False
    have f: "str_find (user_part u @ CHR ''@'' # ur_host u @ port_part u) ''@'' 0 = Some (length (user_part u))"
      using user_part_plain [OF assms(1)] by (intro str_find_char) simp
    from False host_parsed [OF assms(1), of "user_part u @ ''@''"] f port n(7,8) user_parsed [OF assms] show ?thesis
      by (simp add: authority_parts [OF assms(1)] setAuthority_def setHost_def)
  qed
qed

lemma scheme_lower: "normal_url u \<Longrightarrow> map to_lower (ur_scheme u) = ur_scheme u \<and> ur_scheme u \<noteq> []"
  by (simp add: normal_url_def)

lemma authority_plain:
  assumes "normal_url u" and "c \<in> set ''/?#''"
  shows "c \<notin> set (Url_authority u)"
proof -
  have c: "\<not> is_digit c" "c \<noteq> CHR '':''" "c \<noteq> CHR ''@''" using assms(2) by (auto simp: is_digit_def)
  have "c \<in> set ''@/?#''" "c \<in> set '':@/?#''" using assms(2) by auto
  then have "c \<notin> set (user_part u)" "c \<notin> set (ur_host u)"
    using user_part_plain [OF assms(1)] assms(1) plainD [of "'':@/?#''" "ur_host u" c] by (simp_all add: normal_url_def)
  with port_part_plain [OF assms(1) c(1,2)] c(3) show ?thesis by (simp add: authority_parts [OF assms(1)])
qed

text \<open>Printing and reading an address are inverse: \<open>fromString\<close> gets back every part of an address in normal form from what
  \<open>toString\<close> prints, whatever the object held before.\<close>

theorem url_roundtrip:
  assumes "normal_url u"
  shows "Url_fromString (Url_toString u) v = u"
proof -
  let ?q = "if ur_query u \<noteq> [] then CHR ''?'' # ur_query u else []" and ?f = "if ur_fragment u \<noteq> [] then CHR ''#'' # ur_fragment u else []"
  let ?a = "Url_authority u"
  obtain ps where path: "ur_path u = CHR ''/'' # ps" using assms by (cases "ur_path u") (auto simp: normal_url_def)
  have pq: "CHR ''?'' \<notin> set (ur_path u)" "CHR ''#'' \<notin> set (ur_path u)" "CHR ''#'' \<notin> set (ur_query u)"
    using assms by (simp_all add: normal_url_def plain_def)
  have au: "CHR ''/'' \<notin> set ?a" "CHR ''?'' \<notin> set ?a" "CHR ''#'' \<notin> set ?a" using authority_plain [OF assms] by simp_all
  note sch = scheme_lower [OF assms]
  have str: "Url_toString u = ur_scheme u @ ''://'' @ (?a @ ur_path u @ ?q) @ ?f"
    using sch path normal_valid [OF assms] by (simp add: Url_toString_def)
  have 1: "str_find (Url_toString u) ''://'' 0 = Some (length (ur_scheme u))"
    unfolding str by (rule str_find_scheme [OF normal_urlD(1) [OF assms]])
  have 2: "cut_at (CHR ''#'') ((?a @ ur_path u @ ?q) @ ?f) = (ur_fragment u, ?a @ ur_path u @ ?q)"
    using pq au(3) by (intro cut_at_append) simp
  have "cut_at (CHR ''?'') ((?a @ ur_path u) @ ?q) = (ur_query u, ?a @ ur_path u)" using pq au(2) by (intro cut_at_append) simp
  then have 3: "cut_at (CHR ''?'') (?a @ ur_path u @ ?q) = (ur_query u, ?a @ ur_path u)" by simp
  have 4: "str_find (?a @ ur_path u) ''/'' 0 = Some (length ?a)" using str_find_char(1) [OF au(1)] path by simp
  have "Url_toString u \<noteq> []" using sch by (simp add: str)
  moreover have "take (length (ur_scheme u)) (Url_toString u) = ur_scheme u"
    "drop (length (ur_scheme u) + 3) (Url_toString u) = (?a @ ur_path u @ ?q) @ ?f" by (simp_all add: str)
  ultimately have "Url_fromString (Url_toString u) v =
      (setAuthority ?a (setScheme (ur_scheme u) (Url_clear v)))\<lparr>ur_path := ur_path u, ur_query := ur_query u, ur_fragment := ur_fragment u\<rparr>"
    by (simp only: Url_fromString_def Let_def 1 2 3 4 option.case split if_False) simp
  with authority_parsed [OF assms, of "setScheme (ur_scheme u) (Url_clear v)"] sch show ?thesis
    by (simp add: setScheme_def Url_clear_def)
qed

definition url_example :: Url where
  "url_example = \<lparr>ur_scheme = ''http'', ur_userName = ''me'', ur_password = ''a:b'', ur_host = ''nls.com'', ur_path = ''/pop/tokens'',
     ur_port = 8080, ur_query = ''a=b?c/d'', ur_fragment = ''x#y''\<rparr>"

lemma url_roundtrip_witness: "Url_fromString (Url_toString url_example) Url_empty = url_example"
  by (rule url_roundtrip) (simp add: normal_url_def url_example_def plain_def to_lower_def)

end
