(* ===== verification/HttpMessage.thy ===== *)
theory HttpMessage
  imports Url "HOL-Library.Monad_Syntax"
begin

text \<open>
  The HTTP messages of the token client: \<open>token/src/HttpMessage.cpp\<close>, \<open>HttpRequest.cpp\<close>, and the callbacks of
  \<open>CurlHttpClient.cpp\<close> that fill a response. The body is the block of memory \<open>malloc\<close> gave; \<open>None\<close> as the result of an
  operation is a write outside of it.
\<close>

section \<open>State\<close>

record HttpMessage =
  hm_body :: "byte list option"
  hm_bodySize :: nat
  hm_headers :: "(string \<times> string) list"

definition HttpMessage_new :: HttpMessage where
  "HttpMessage_new = \<lparr>hm_body = None, hm_bodySize = 0, hm_headers = []\<rparr>"

definition header :: "string \<Rightarrow> HttpMessage \<Rightarrow> string" where
  "header name m = (case map_get nocaseLess name (hm_headers m) of Some v \<Rightarrow> v | None \<Rightarrow> [])"

definition setHeader :: "string \<Rightarrow> string \<Rightarrow> HttpMessage \<Rightarrow> HttpMessage" where
  "setHeader name value m = m\<lparr>hm_headers := map_put nocaseLess name value (hm_headers m)\<rparr>"

definition addHeader :: "string \<Rightarrow> string \<Rightarrow> HttpMessage \<Rightarrow> HttpMessage" where
  "addHeader name value m = setHeader name value m"

definition removeHeader :: "string \<Rightarrow> HttpMessage \<Rightarrow> HttpMessage" where
  "removeHeader name m = m\<lparr>hm_headers := map_erase nocaseLess name (hm_headers m)\<rparr>"

definition hasBody :: "HttpMessage \<Rightarrow> bool" where
  "hasBody m \<longleftrightarrow> hm_bodySize m \<noteq> 0"

section \<open>The body\<close>

text \<open>The bytes in front of the first NUL.\<close>

definition c_bytes :: "byte list \<Rightarrow> byte list" where
  "c_bytes bs = takeWhile (\<lambda>b. b \<noteq> 0) bs"

text \<open>\<open>strncpy\<close> of \<open>data\<close>, whose length is the size given, into zeroed memory of one byte more.\<close>

definition new_body :: "byte list \<Rightarrow> byte list" where
  "new_body data = c_bytes data @ replicate (length data + 1 - length (c_bytes data)) 0"

text \<open>\<open>strncat\<close>: the bytes up to the first NUL of \<open>data\<close> and a NUL, from the first NUL of the memory on.\<close>

definition strncat :: "byte list \<Rightarrow> byte list \<Rightarrow> byte list option" where
  "strncat mem data =
     (let at = length (c_bytes mem); add = c_bytes data @ [0] in
      if at + length add \<le> length mem then Some (take at mem @ add @ drop (at + length add) mem) else None)"

text \<open>\<open>ok\<close> tells whether the allocation succeeds.\<close>

definition setBody :: "bool \<Rightarrow> byte list \<Rightarrow> HttpMessage \<Rightarrow> HttpMessage option" where
  "setBody ok data m =
     (if data = [] then Some m
      else
        (case hm_body m of
           None \<Rightarrow> Some (if ok then m\<lparr>hm_body := Some (new_body data), hm_bodySize := length data + 1\<rparr> else m)
         | Some mem \<Rightarrow>
             if \<not> ok then Some (m\<lparr>hm_body := None, hm_bodySize := 0\<rparr>)
             else if length mem < hm_bodySize m then None
             else
               do {
                 mem' \<leftarrow> strncat (take (hm_bodySize m) mem @ replicate (length data) 0) data;
                 Some (m\<lparr>hm_body := Some mem', hm_bodySize := hm_bodySize m + length data\<rparr>)
               }))"

text \<open>The copy constructor: the size of the original is taken over and then that of the data is set once more.\<close>

definition HttpMessage_copy :: "bool \<Rightarrow> HttpMessage \<Rightarrow> HttpMessage option" where
  "HttpMessage_copy ok other =
     (let m = \<lparr>hm_body = None, hm_bodySize = hm_bodySize other, hm_headers = hm_headers other\<rparr> in
      case hm_body other of None \<Rightarrow> Some m | Some mem \<Rightarrow> setBody ok (take (hm_bodySize other) mem) m)"

definition HttpMessage_assign :: "bool \<Rightarrow> HttpMessage \<Rightarrow> HttpMessage option" where
  "HttpMessage_assign ok other =
     (let m = \<lparr>hm_body = None, hm_bodySize = 0, hm_headers = hm_headers other\<rparr> in
      case hm_body other of None \<Rightarrow> Some m | Some mem \<Rightarrow> setBody ok (take (hm_bodySize other) mem) m)"

section \<open>Callbacks of curl\<close>

definition recvBody :: "bool \<Rightarrow> byte list \<Rightarrow> HttpMessage \<Rightarrow> (nat \<times> HttpMessage) option" where
  "recvBody ok ptr response = map_option (\<lambda>m. (length ptr, m)) (setBody ok ptr response)"

text \<open>The last CR of a header's value is overwritten with a NUL, which stays in the string together with what follows.
  \<open>None\<close> is the exception of \<open>substr\<close> for a line that ends with its colon.\<close>

definition cut_cr :: "string \<Rightarrow> string" where
  "cut_cr value =
     (if char_of (13 :: nat) \<in> set value
      then rev (drop 1 (dropWhile (\<lambda>c. c \<noteq> char_of (13 :: nat)) (rev value))) @ [char_of (0 :: nat)]
        @ rev (takeWhile (\<lambda>c. c \<noteq> char_of (13 :: nat)) (rev value))
      else value)"

definition recvHeaders :: "string \<Rightarrow> HttpMessage \<Rightarrow> HttpMessage option" where
  "recvHeaders buffer response =
     (let line = c_str buffer in
      case str_find line '':'' 0 of
        None \<Rightarrow> Some response
      | Some pos \<Rightarrow>
          if length line < pos + 2 then None
          else Some (setHeader (take pos line) (cut_cr (drop (pos + 2) line)) response))"

section \<open>What the body holds\<close>

text \<open>The memory is as long as the size says and ends with a NUL.\<close>

definition body_ok :: "HttpMessage \<Rightarrow> bool" where
  "body_ok m \<longleftrightarrow> (case hm_body m of None \<Rightarrow> True | Some mem \<Rightarrow> length mem = hm_bodySize m \<and> length (c_bytes mem) < length mem)"

declare body_ok_def [inv_defs]

definition body_text :: "HttpMessage \<Rightarrow> byte list" where
  "body_text m = (case hm_body m of None \<Rightarrow> [] | Some mem \<Rightarrow> c_bytes mem)"

lemma c_bytes_length: "length (c_bytes bs) \<le> length bs"
  by (simp add: c_bytes_def length_takeWhile_le)

lemma c_bytes_nul [simp]: "c_bytes (c_bytes xs @ 0 # ys) = c_bytes xs"
  by (induction xs) (simp_all add: c_bytes_def)

lemma c_bytes_append_nul: "length (c_bytes xs) < length xs \<Longrightarrow> c_bytes (xs @ ys) = c_bytes xs"
  by (induction xs) (auto simp: c_bytes_def)

lemma c_bytes_take: "take (length (c_bytes xs)) xs = c_bytes xs"
  by (induction xs) (simp_all add: c_bytes_def)

lemma c_bytes_join: "c_bytes (c_bytes xs @ c_bytes ys @ 0 # zs) = c_bytes xs @ c_bytes ys"
proof (induction xs)
  case Nil
  show ?case using c_bytes_nul [of ys zs] by (simp add: c_bytes_def)
next
  case (Cons x xs)
  then show ?case using c_bytes_nul [of ys zs] by (simp add: c_bytes_def)
qed

lemma strncat_ok:
  assumes "length (c_bytes mem) + length data < length mem"
  shows "\<exists>mem'. strncat mem data = Some mem' \<and> length mem' = length mem \<and> c_bytes mem' = c_bytes mem @ c_bytes data
    \<and> length (c_bytes mem') < length mem'"
proof -
  let ?rest = "drop (length (c_bytes mem) + (length (c_bytes data) + 1)) mem"
  have fit: "length (c_bytes mem) + (length (c_bytes data) + 1) \<le> length mem" using assms c_bytes_length [of data] by simp
  then have "strncat mem data = Some (c_bytes mem @ c_bytes data @ 0 # ?rest)" by (simp add: strncat_def c_bytes_take Let_def)
  moreover have "length (c_bytes mem @ c_bytes data @ 0 # ?rest) = length mem" using fit by simp
  ultimately show ?thesis using fit by (simp add: c_bytes_join)
qed

lemma new_body_ok: "length (new_body data) = length data + 1 \<and> c_bytes (new_body data) = c_bytes data
    \<and> length (c_bytes data) < length (new_body data)"
proof -
  have "length data + 1 - length (c_bytes data) = Suc (length data - length (c_bytes data))"
    using c_bytes_length [of data] by simp
  then show ?thesis using c_bytes_length [of data] by (simp add: new_body_def)
qed

text \<open>From \<open>m\<close> to \<open>m'\<close> the body took \<open>n\<close> bytes more, of which \<open>t\<close> can be read as text.\<close>

definition took :: "byte list \<Rightarrow> nat \<Rightarrow> HttpMessage \<Rightarrow> HttpMessage \<Rightarrow> bool" where
  "took t n m m' \<longleftrightarrow> body_ok m' \<and> body_text m' = body_text m @ t
     \<and> hm_bodySize m' = (if n = 0 then hm_bodySize m else (if hm_body m = None then 1 else hm_bodySize m) + n)
     \<and> (hm_body m' = None \<longleftrightarrow> hm_body m = None \<and> n = 0)"

lemma took_trans: "took t n m m1 \<Longrightarrow> took t' n' m1 m' \<Longrightarrow> took (t @ t') (n + n') m m'"
  by (cases "n = 0"; cases "n' = 0"; cases "hm_body m"; cases "hm_body m1"; cases "hm_body m'") (simp_all add: took_def)

lemma setBody_took:
  assumes "body_ok m"
  shows "\<exists>m'. setBody True data m = Some m' \<and> took (c_bytes data) (length data) m m'"
proof (cases "data = []")
  case True
  with assms show ?thesis by (simp add: setBody_def c_bytes_def took_def)
next
  case data: False
  show ?thesis
  proof (cases "hm_body m")
    case None
    with data new_body_ok [of data] show ?thesis by (simp add: setBody_def body_ok_def body_text_def took_def)
  next
    case (Some mem)
    let ?mem = "mem @ replicate (length data) 0"
    have m: "length mem = hm_bodySize m" "length (c_bytes mem) < length mem" using assms Some by (simp_all add: body_ok_def)
    have c: "c_bytes ?mem = c_bytes mem" by (rule c_bytes_append_nul [OF m(2)])
    have "length (c_bytes ?mem) + length data < length ?mem" using m c by simp
    from strncat_ok [OF this] c obtain mem' where mem': "strncat ?mem data = Some mem'" "length mem' = length mem + length data"
      "c_bytes mem' = c_bytes mem @ c_bytes data" "length (c_bytes mem') < length mem'" by auto
    with data Some m show ?thesis by (simp add: setBody_def body_ok_def body_text_def took_def)
  qed
qed

text \<open>A body received in pieces is never written outside its memory: after any pieces the text is the pieces one after the
  other, each up to its first zero byte, and the memory is one byte longer than all the data.\<close>

theorem body_accumulates:
  assumes "concat chunks \<noteq> []"
  shows "\<exists>m. run_opt (setBody True) chunks HttpMessage_new = Some m \<and> body_ok m
    \<and> body_text m = concat (map c_bytes chunks) \<and> hm_bodySize m = length (concat chunks) + 1"
proof -
  have "\<exists>m'. run_opt (setBody True) chunks m = Some m' \<and> took (concat (map c_bytes chunks)) (length (concat chunks)) m m'"
    if "body_ok m" for m
    using that
  proof (induction chunks arbitrary: m)
    case Nil
    then show ?case by (simp add: took_def)
  next
    case (Cons data chunks)
    from setBody_took [OF Cons.prems, of data] obtain m1 where m1: "setBody True data m = Some m1"
      "took (c_bytes data) (length data) m m1" by blast
    have "body_ok m1" using m1(2) by (simp add: took_def)
    from Cons.IH [OF this] obtain m' where m': "run_opt (setBody True) chunks m1 = Some m'"
      "took (concat (map c_bytes chunks)) (length (concat chunks)) m1 m'" by blast
    from took_trans [OF m1(2) m'(2)] m1(1) m'(1) show ?case by simp
  qed
  moreover have "body_ok HttpMessage_new" by (simp add: HttpMessage_new_def body_ok_def)
  ultimately obtain m where m: "run_opt (setBody True) chunks HttpMessage_new = Some m"
    "took (concat (map c_bytes chunks)) (length (concat chunks)) HttpMessage_new m" by blast
  moreover have "body_text HttpMessage_new = []" "hm_body HttpMessage_new = None" by (simp_all add: HttpMessage_new_def body_text_def)
  moreover obtain k where "length (concat chunks) = Suc k" using assms by (cases "concat chunks") simp_all
  ultimately show ?thesis by (intro exI [of _ m]) (simp add: took_def)
qed

lemma copy_ok:
  assumes "body_ok m" and "hm_body m \<noteq> None"
  shows "\<exists>m'. HttpMessage_copy True m = Some m' \<and> body_ok m' \<and> hm_body m' \<noteq> None \<and> body_text m' = body_text m
    \<and> hm_bodySize m' = hm_bodySize m + 1 \<and> hm_headers m' = hm_headers m"
proof -
  obtain mem where mem: "hm_body m = Some mem" "length mem = hm_bodySize m" "mem \<noteq> []"
    using assms by (cases "hm_body m") (fastforce simp: body_ok_def)+
  with new_body_ok [of mem] show ?thesis
    by (simp add: HttpMessage_copy_def setBody_def body_ok_def body_text_def)
qed

text \<open>Every copy of a message makes its body one byte longer: the text stays, but the size, which is what is sent as the
  length of the body and what a response is read with, counts one more zero byte each time.\<close>

theorem copies_grow:
  assumes "body_ok m" and "hm_body m \<noteq> None"
  shows "\<exists>m'. run_opt (\<lambda>_. HttpMessage_copy True) (replicate k ()) m = Some m' \<and> body_ok m' \<and> body_text m' = body_text m
    \<and> hm_bodySize m' = hm_bodySize m + k \<and> hm_headers m' = hm_headers m"
  using assms
proof (induction k arbitrary: m)
  case (Suc k)
  from copy_ok [OF Suc.prems] obtain m1 where m1: "HttpMessage_copy True m = Some m1" "body_ok m1" "hm_body m1 \<noteq> None"
    "body_text m1 = body_text m" "hm_bodySize m1 = hm_bodySize m + 1" "hm_headers m1 = hm_headers m" by blast
  from Suc.IH [OF m1(2,3)] m1 show ?case by auto
qed simp

definition message_example_body :: HttpMessage where
  "message_example_body = \<lparr>hm_body = Some [65, 66, 0], hm_bodySize = 3, hm_headers = [(''Host'', ''x'')]\<rparr>"

lemma body_accumulates_witness:
  "\<exists>m. run_opt (setBody True) [[65, 66], [67, 0, 68]] HttpMessage_new = Some m \<and> body_ok m
    \<and> body_text m = concat (map c_bytes [[65, 66], [67, 0, 68]]) \<and> hm_bodySize m = length (concat [[65, 66 :: byte], [67, 0, 68]]) + 1"
  by (rule body_accumulates) simp

lemma copies_grow_witness:
  "\<exists>m'. run_opt (\<lambda>_. HttpMessage_copy True) (replicate 2 ()) message_example_body = Some m' \<and> body_ok m'
    \<and> body_text m' = body_text message_example_body \<and> hm_bodySize m' = hm_bodySize message_example_body + 2
    \<and> hm_headers m' = hm_headers message_example_body"
  by (rule copies_grow) (simp_all add: message_example_body_def body_ok_def c_bytes_def)

end
