(* ===== verification/TokenRequest.thy ===== *)
theory TokenRequest
  imports HttpMessage NlsEvent
begin

text \<open>
  How the token client asks for a token: \<open>token/src/Utils.cpp\<close>, \<open>CommonClient.cpp\<close>, \<open>CoreClient.cpp\<close> and
  \<open>nlsToken.cpp\<close>. curl's escaping and transfer, HMAC-SHA1, MD5, the base64 encoding, uuid and the clock are a record of
  functions.
\<close>

section \<open>Libraries\<close>

record tm =
  tm_year :: nat
  tm_mon :: nat
  tm_mday :: nat
  tm_hour :: nat
  tm_min :: nat
  tm_sec :: nat

datatype HttpMethod = Get | Head | Post | Put | Delete | Connect | Options | Patch | Trace

record HttpRequest =
  rq_url :: Url
  rq_method :: HttpMethod
  rq_message :: HttpMessage

record HttpResponse =
  rs_statusCode :: int
  rs_body :: string

text \<open>\<open>tl_hmac src secret\<close> and \<open>tl_md5\<close> are already in base64, without the NUL. \<open>tl_send\<close> is \<open>curl_easy_perform\<close>: no
  response when the transfer fails. \<open>tl_asString\<close> and \<open>tl_asUInt\<close> are those of jsoncpp, which throw for values they
  cannot convert.\<close>

record 'j token_lib =
  tl_escape :: "string \<Rightarrow> string"
  tl_hmac :: "string \<Rightarrow> string \<Rightarrow> string"
  tl_md5 :: "string \<Rightarrow> string"
  tl_uuid :: string
  tl_gmtime :: tm
  tl_send :: "HttpRequest \<Rightarrow> HttpResponse option"
  tl_json :: "'j jsonlib"
  tl_asString :: "'j \<Rightarrow> string option"
  tl_asUInt :: "'j \<Rightarrow> int option"

section \<open>Utilities\<close>

definition UrlEncode :: "'j token_lib \<Rightarrow> string \<Rightarrow> string" where
  "UrlEncode L src = c_str (tl_escape L src)"

text \<open>\<open>StringReplace\<close> on what is left from \<open>pos\<close> on, for the key \<open>c # cs\<close>.\<close>

function string_replace :: "char \<Rightarrow> string \<Rightarrow> string \<Rightarrow> string \<Rightarrow> string" where
  "string_replace c cs s2 src =
     (case str_find src (c # cs) 0 of
        None \<Rightarrow> src
      | Some pos \<Rightarrow> take pos src @ s2 @ string_replace c cs s2 (drop (pos + length (c # cs)) src))"
  by auto
termination
proof (relation "measure (\<lambda>(c, cs, s2, src). length src)")
  show "((c, cs, s2, drop (pos + length (c # cs)) src), c, cs, s2, src) \<in> measure (\<lambda>(c, cs, s2, src). length src)"
    if "str_find src (c # cs) 0 = Some pos" for c cs and s2 src :: string and pos
    using str_find_Some [OF that] by (cases src) auto
qed simp

declare string_replace.simps [simp del]

fun HttpMethodToString :: "HttpMethod \<Rightarrow> string" where
  "HttpMethodToString Head = ''HEAD''"
| "HttpMethodToString Post = ''POST''"
| "HttpMethodToString Put = ''PUT''"
| "HttpMethodToString Delete = ''DELETE''"
| "HttpMethodToString Connect = ''CONNECT''"
| "HttpMethodToString Options = ''OPTIONS''"
| "HttpMethodToString Patch = ''PATCH''"
| "HttpMethodToString Trace = ''TRACE''"
| "HttpMethodToString Get = ''GET''"

text \<open>\<open>%02d\<close>, and the time stamp of a request.\<close>

definition dec2 :: "nat \<Rightarrow> string" where
  "dec2 n = (if n < 10 then ''0'' @ dec n else dec n)"

definition timestamp :: "tm \<Rightarrow> string" where
  "timestamp t = dec (1900 + tm_year t) @ ''-'' @ dec2 (1 + tm_mon t) @ ''-'' @ dec2 (tm_mday t) @ ''T''
     @ dec2 (tm_hour t) @ '':'' @ dec2 (tm_min t) @ '':'' @ dec2 (tm_sec t) @ ''Z''"

section \<open>The signed query\<close>

type_synonym params = "(string \<times> string) list"

definition put :: "string \<Rightarrow> string \<Rightarrow> params \<Rightarrow> params" where
  "put = map_put str_less"

definition canonical_part :: "'j token_lib \<Rightarrow> string \<Rightarrow> string" where
  "canonical_part L s =
     string_replace (CHR ''%'') ''7E'' ''~'' (string_replace (CHR ''*'') [] ''%2A'' (string_replace (CHR ''+'') [] ''%20'' (UrlEncode L s)))"

definition canonicalizedQuery :: "'j token_lib \<Rightarrow> params \<Rightarrow> string" where
  "canonicalizedQuery L params =
     drop 1 (concat (map (\<lambda>(k, v). ''&'' @ canonical_part L k @ ''='' @ canonical_part L v) params))"

text \<open>\<open>strncmp(key.c_str(), "Task", key.size()) != 0\<close>\<close>

definition not_task :: "string \<Rightarrow> bool" where
  "not_task key \<longleftrightarrow> take (length key) (c_str key) \<noteq> take (length key) ''Task''"

definition query_string :: "'j token_lib \<Rightarrow> params \<Rightarrow> string" where
  "query_string L params = drop 1 (concat (map (\<lambda>(k, v). if not_task k then ''&'' @ k @ ''='' @ UrlEncode L v else []) params))"

record Credentials =
  cr_accessKeyId :: string
  cr_accessKeySecret :: string
  cr_stsToken :: string

record CommonRequest =
  cq_fileTrans :: bool
  cq_domain :: string
  cq_httpMethod :: HttpMethod
  cq_action :: string
  cq_version :: string
  cq_resourcePath :: string
  cq_task :: string
  cq_taskId :: string
  cq_content :: string

definition hmac_generate :: "'j token_lib \<Rightarrow> string \<Rightarrow> string \<Rightarrow> string" where
  "hmac_generate L src secret = (if src = [] then [] else tl_hmac L src secret)"

definition token_params :: "'j token_lib \<Rightarrow> string \<Rightarrow> Credentials \<Rightarrow> CommonRequest \<Rightarrow> params" where
  "token_params L region cred msg =
     put ''Version'' (cq_version msg) (put ''Timestamp'' (timestamp (tl_gmtime L)) (put ''SignatureVersion'' ''1.0''
     (put ''SignatureNonce'' (tl_uuid L) (put ''SignatureMethod'' ''HMAC-SHA1'' (put ''RegionId'' region (put ''Format'' ''JSON''
     (put ''Action'' (cq_action msg) (put ''AccessKeyId'' (cr_accessKeyId cred) []))))))))"

definition string_to_sign :: "'j token_lib \<Rightarrow> HttpMethod \<Rightarrow> string \<Rightarrow> params \<Rightarrow> string" where
  "string_to_sign L m path params =
     HttpMethodToString m @ ''&'' @ UrlEncode L path @ ''&'' @ UrlEncode L (canonicalizedQuery L params)"

definition common_url :: "string \<Rightarrow> string \<Rightarrow> string \<Rightarrow> Url" where
  "common_url endpoint path query = (setHost endpoint (setScheme ''http'' Url_empty))\<lparr>ur_path := path, ur_query := query\<rparr>"

text \<open>The headers that follow the body.\<close>

definition common_headers :: "Url \<Rightarrow> HttpMessage \<Rightarrow> HttpMessage" where
  "common_headers url m =
     setHeader ''Connection'' ''keep-alive'' (setHeader ''Pragma'' ''no-cache'' (setHeader ''Cache-Control'' ''no-cache''
     (setHeader ''x-sdk-invoke-type'' ''common'' (setHeader ''x-sdk-client'' ''CPP/1.3.2'' (setHeader ''Accept-Encoding'' ''identity''
     (setHeader ''Host'' (ur_host url) m))))))"

text \<open>The body and its headers; \<open>None\<close> would be a write outside the body's memory.\<close>

definition with_content :: "'j token_lib \<Rightarrow> bool \<Rightarrow> string \<Rightarrow> string \<Rightarrow> HttpMessage \<Rightarrow> HttpMessage option" where
  "with_content L ok body content m =
     map_option (\<lambda>m1. setHeader ''Content-MD5'' (tl_md5 L content)
        (setHeader ''Content-Type'' ''application/x-www-form-urlencoded;charset=utf-8''
        (setHeader ''Content-Length'' (dec (length body)) m1)))
       (setBody ok (bytes_of body) m)"

definition buildTokenHttpRpcRequest ::
  "'j token_lib \<Rightarrow> bool \<Rightarrow> string \<Rightarrow> Credentials \<Rightarrow> string \<Rightarrow> CommonRequest \<Rightarrow> HttpMethod \<Rightarrow> HttpRequest option" where
  "buildTokenHttpRpcRequest L ok region cred endpoint msg m =
     (let params = token_params L region cred msg;
          tmp = hmac_generate L (string_to_sign L m ''/'' params) (cr_accessKeySecret cred @ ''&'');
          url = common_url endpoint (cq_resourcePath msg) (query_string L (put ''Signature'' tmp params));
          m0 = setHeader ''Accept'' ''application/json'' HttpMessage_new in
      map_option (\<lambda>m1. \<lparr>rq_url = url, rq_method = m, rq_message = common_headers url m1\<rparr>)
        (if cq_content msg \<noteq> [] then with_content L ok (cq_content msg) (cq_content msg) m0 else Some m0))"

text \<open>The request of the file transcription, with the task in the query to sign and in the body.\<close>

definition filetrans_params :: "'j token_lib \<Rightarrow> string \<Rightarrow> Credentials \<Rightarrow> CommonRequest \<Rightarrow> HttpMethod \<Rightarrow> params" where
  "filetrans_params L region cred msg m =
     (let p0 = put ''AccessKeyId'' (cr_accessKeyId cred) [];
          p1 = (if cr_stsToken cred \<noteq> [] then put ''SecurityToken'' (cr_stsToken cred) p0 else p0);
          p2 = put ''SignatureVersion'' ''1.0'' (put ''SignatureNonce'' (tl_uuid L) (put ''SignatureMethod'' ''HMAC-SHA1''
            (put ''RegionId'' region (put ''Format'' ''JSON'' (put ''Action'' (cq_action msg) p1)))));
          p3 = (if m = Post then put ''Task'' (cq_task msg) p2 else put ''TaskId'' (cq_taskId msg) p2) in
      put ''Version'' (cq_version msg) (put ''Timestamp'' (timestamp (tl_gmtime L)) p3))"

definition buildFileTransHttpRequest ::
  "'j token_lib \<Rightarrow> bool \<Rightarrow> string \<Rightarrow> Credentials \<Rightarrow> string \<Rightarrow> CommonRequest \<Rightarrow> HttpMethod \<Rightarrow> HttpRequest option" where
  "buildFileTransHttpRequest L ok region cred endpoint msg m =
     (let params = filetrans_params L region cred msg m;
          tmp = hmac_generate L (string_to_sign L m (cq_resourcePath msg) params) (cr_accessKeySecret cred @ ''&'');
          url = common_url endpoint (cq_resourcePath msg) (query_string L (put ''Signature'' tmp params));
          m0 = setHeader ''Accept'' ''application/json'' HttpMessage_new in
      map_option (\<lambda>m1. \<lparr>rq_url = url, rq_method = m, rq_message = common_headers url m1\<rparr>)
        (if cq_content msg \<noteq> [] then with_content L ok (''Task='' @ UrlEncode L (cq_task msg)) (cq_content msg) m0 else Some m0))"

definition buildHttpRequest ::
  "'j token_lib \<Rightarrow> bool \<Rightarrow> string \<Rightarrow> Credentials \<Rightarrow> string \<Rightarrow> CommonRequest \<Rightarrow> HttpMethod \<Rightarrow> HttpRequest option" where
  "buildHttpRequest L ok region cred endpoint msg m =
     (if cq_fileTrans msg then buildFileTransHttpRequest L ok region cred endpoint msg m
      else buildTokenHttpRpcRequest L ok region cred endpoint msg m)"

section \<open>The answer\<close>

definition hasResponseError :: "HttpResponse \<Rightarrow> bool" where
  "hasResponseError r \<longleftrightarrow> rs_statusCode r < 200 \<or> rs_statusCode r > 299"

text \<open>A call that may throw: \<open>None\<close> is the exception.\<close>

definition json_string :: "'j token_lib \<Rightarrow> 'j \<Rightarrow> string \<Rightarrow> string option" where
  "json_string L v key = do { w \<leftarrow> jl_get (tl_json L) v key; tl_asString L w }"

text \<open>The message of the error, which is all the callers use.\<close>

definition buildCoreError :: "'j token_lib \<Rightarrow> HttpResponse \<Rightarrow> string option" where
  "buildCoreError L r =
     (case jl_parse (tl_json L) (rs_body r) of
        None \<Rightarrow> Some []
      | Some v \<Rightarrow>
          do {
            _ \<leftarrow> json_string L v ''Code'';
            message \<leftarrow> json_string L v ''Message'';
            _ \<leftarrow> json_string L v ''HostId'';
            _ \<leftarrow> json_string L v ''RequestId'';
            Some message
          })"

datatype 'a attempt = Result 'a | Failed string | Throws

definition AttemptRequest ::
  "'j token_lib \<Rightarrow> bool \<Rightarrow> string \<Rightarrow> Credentials \<Rightarrow> CommonRequest \<Rightarrow> HttpResponse attempt" where
  "AttemptRequest L ok region cred msg =
     (case buildHttpRequest L ok region cred (cq_domain msg) msg (cq_httpMethod msg) of
        None \<Rightarrow> Throws
      | Some r \<Rightarrow>
          (case tl_send L r of
             None \<Rightarrow> Failed ''Failed to connect to host or proxy.''
           | Some response \<Rightarrow>
               if hasResponseError response then (case buildCoreError L response of None \<Rightarrow> Throws | Some e \<Rightarrow> Failed e)
               else Result response))"

section \<open>The token\<close>

record NlsToken =
  nt_accessKeySecret :: string
  nt_accessKeyId :: string
  nt_domain :: string
  nt_serverVersion :: string
  nt_serverResourcePath :: string
  nt_regionId :: string
  nt_action :: string
  nt_errorMsg :: string
  nt_tokenId :: string
  nt_expireTime :: int

text \<open>\<open>expireTime_\<close> is not set by the constructor.\<close>

definition NlsToken_new :: "int \<Rightarrow> NlsToken" where
  "NlsToken_new expire = \<lparr>nt_accessKeySecret = [], nt_accessKeyId = [], nt_domain = ''nls-meta.cn-shanghai.aliyuncs.com'',
     nt_serverVersion = ''2019-02-28'', nt_serverResourcePath = ''/pop/2019-02-28/tokens'', nt_regionId = ''cn-shanghai'',
     nt_action = ''CreateToken'', nt_errorMsg = [], nt_tokenId = [], nt_expireTime = expire\<rparr>"

definition setServerVersion :: "string \<Rightarrow> NlsToken \<Rightarrow> NlsToken" where
  "setServerVersion v t = t\<lparr>nt_serverVersion := v, nt_serverResourcePath := ''/pop/'' @ v @ ''/tokens''\<rparr>"

definition paramCheck :: "NlsToken \<Rightarrow> int \<times> NlsToken" where
  "paramCheck t =
     (if nt_accessKeySecret t = [] then (- InvalidAkSecret, t\<lparr>nt_errorMsg := ''AccessKeySecret is empty.''\<rparr>)
      else if nt_accessKeyId t = [] then (- InvalidAkId, t\<lparr>nt_errorMsg := ''AccessKeyId is empty.''\<rparr>)
      else if nt_domain t = [] then (- InvalidDomain, t\<lparr>nt_errorMsg := ''Domain is empty.''\<rparr>)
      else if nt_serverVersion t = [] then (- InvalidServerVersion, t\<lparr>nt_errorMsg := ''ServerVersion is empty.''\<rparr>)
      else if nt_serverResourcePath t = [] then (- InvalidServerResource, t\<lparr>nt_errorMsg := ''ServerResourcePath is empty.''\<rparr>)
      else if nt_action t = [] then (- InvalidAction, t\<lparr>nt_errorMsg := ''Action is empty.''\<rparr>)
      else if nt_regionId t = [] then (- InvalidRegionId, t\<lparr>nt_errorMsg := ''RegionId is empty.''\<rparr>)
      else (Success, t))"

text \<open>The members read from the answer; \<open>None\<close> is an exception, with what was stored before it.\<close>

definition token_members :: "'j token_lib \<Rightarrow> 'j \<Rightarrow> NlsToken \<Rightarrow> bool \<times> NlsToken" where
  "token_members L sub t =
     (case jl_get (tl_json L) sub ''Id'' of
        None \<Rightarrow> (False, t)
      | Some i \<Rightarrow>
          (case (if jl_isNull (tl_json L) i then Some t else map_option (\<lambda>s. t\<lparr>nt_tokenId := s\<rparr>) (tl_asString L i)) of
             None \<Rightarrow> (False, t)
           | Some t1 \<Rightarrow>
               (case jl_get (tl_json L) sub ''ExpireTime'' of
                  None \<Rightarrow> (False, t1)
                | Some e \<Rightarrow>
                    if jl_isNull (tl_json L) e then (True, t1)
                    else (case tl_asUInt L e of None \<Rightarrow> (False, t1) | Some n \<Rightarrow> (True, t1\<lparr>nt_expireTime := n\<rparr>)))))"

definition token_request :: "NlsToken \<Rightarrow> CommonRequest" where
  "token_request t = \<lparr>cq_fileTrans = False, cq_domain = nt_domain t, cq_httpMethod = Post, cq_action = nt_action t,
     cq_version = nt_serverVersion t, cq_resourcePath = nt_serverResourcePath t, cq_task = [], cq_taskId = [], cq_content = []\<rparr>"

text \<open>\<open>None\<close> is an exception that leaves the function: it comes from the error of the server, outside the \<open>try\<close>.\<close>

definition applyNlsToken :: "'j token_lib \<Rightarrow> NlsToken \<Rightarrow> (int \<times> NlsToken) option" where
  "applyNlsToken L t0 =
     (let (retCode, t) = paramCheck t0 in
      if retCode < 0 then Some (retCode, t)
      else
        (case AttemptRequest L True (nt_regionId t)
                \<lparr>cr_accessKeyId = nt_accessKeyId t, cr_accessKeySecret = nt_accessKeySecret t, cr_stsToken = []\<rparr> (token_request t) of
           Throws \<Rightarrow> None
         | Failed e \<Rightarrow> Some (- ClientRequestFaild, t\<lparr>nt_errorMsg := e\<rparr>)
         | Result response \<Rightarrow>
             Some
               (case jl_parse (tl_json L) (rs_body response) of
                  None \<Rightarrow> (- JsonParseFailed, t\<lparr>nt_errorMsg := ''json any failed.''\<rparr>)
                | Some root \<Rightarrow>
                    (case jl_get (tl_json L) root ''Token'' of
                       None \<Rightarrow> (- JsonParseFailed, t)
                     | Some sub \<Rightarrow>
                         if jl_isNull (tl_json L) sub then (Success, t)
                         else (let (done, t1) = token_members L sub t in
                               (if done then Success else - JsonParseFailed, t1))))))"

section \<open>Percent encoding\<close>

text \<open>What \<open>curl_easy_escape\<close> documents: letters, digits and four marks stay, every other byte becomes a per cent sign and
  two upper case digits; and its inverse.\<close>

definition unreserved :: "char \<Rightarrow> bool" where
  "unreserved c \<longleftrightarrow> (let n = (of_char c :: nat) in
     (48 \<le> n \<and> n \<le> 57) \<or> (65 \<le> n \<and> n \<le> 90) \<or> (97 \<le> n \<and> n \<le> 122) \<or> n \<in> {45, 46, 95, 126})"

definition hex :: "nat \<Rightarrow> char" where
  "hex n = (if n < 10 then char_of (48 + n) else char_of (55 + n))"

definition unhex :: "char \<Rightarrow> nat" where
  "unhex c = (let n = of_char c in if n < 58 then n - 48 else n - 55)"

definition pct :: "char \<Rightarrow> string" where
  "pct c = (if unreserved c then [c] else [CHR ''%'', hex (of_char c div 16), hex (of_char c mod 16)])"

definition pct_encode :: "string \<Rightarrow> string" where
  "pct_encode s = concat (map pct s)"

fun pct_decode :: "string \<Rightarrow> string" where
  "pct_decode (c # h # l # s) = (if c = CHR ''%'' then char_of (16 * unhex h + unhex l) # pct_decode s else c # pct_decode (h # l # s))"
| "pct_decode s = s"

lemma of_char_less: "(of_char c :: nat) < 256"
  using nat_of_char_less_256 [of c] by simp

lemma hex_char: "n < 16 \<Longrightarrow> (of_char (hex n) :: nat) = (if n < 10 then 48 + n else 55 + n)"
  by (simp add: hex_def)

lemma unhex_hex: "n < 16 \<Longrightarrow> unhex (hex n) = n"
  by (simp add: unhex_def hex_char)

text \<open>The alphabet of an encoded text.\<close>

definition url_safe :: "char \<Rightarrow> bool" where
  "url_safe c \<longleftrightarrow> unreserved c \<or> c = CHR ''%''"

lemma hex_unreserved: "n < 16 \<Longrightarrow> unreserved (hex n)"
  by (simp add: unreserved_def hex_char Let_def)

lemma char_halves: "(of_char c :: nat) div 16 < 16 \<and> (of_char c :: nat) mod 16 < 16"
  using of_char_less [of c] by presburger

lemma pct_safe: "list_all url_safe (pct c)"
  using hex_unreserved char_halves [of c] by (simp add: pct_def url_safe_def)

lemma pct_encode_simps [simp]: "pct_encode [] = []" "pct_encode (c # s) = pct c @ pct_encode s"
  by (simp_all add: pct_encode_def)

lemma pct_encode_safe: "list_all url_safe (pct_encode s)"
  using pct_safe by (induction s) simp_all

lemma percent_reserved: "\<not> unreserved (CHR ''%'')"
  by (simp add: unreserved_def)

lemma pct_decode_other: "c \<noteq> CHR ''%'' \<Longrightarrow> pct_decode (c # s) = c # pct_decode s"
  by (cases s rule: pct_decode.cases) (auto split: list.split)

lemma pct_decode_encode: "pct_decode (pct_encode s) = s"
proof (induction s)
  case (Cons c s)
  show ?case
  proof (cases "unreserved c")
    case True
    then have "c \<noteq> CHR ''%''" using percent_reserved by blast
    with Cons True show ?thesis by (simp add: pct_def pct_decode_other)
  next
    case False
    have "16 * unhex (hex (of_char c div 16)) + unhex (hex (of_char c mod 16)) = (of_char c :: nat)"
      using char_halves [of c] by (simp add: unhex_hex)
    with Cons False show ?thesis by (simp add: pct_def)
  qed
qed simp

section \<open>The canonical query\<close>

text \<open>The three replacements find nothing in an encoded text.\<close>

lemma string_replace_absent: "str_find src (c # cs) 0 = None \<Longrightarrow> string_replace c cs s2 src = src"
  by (simp add: string_replace.simps)

lemma find_at_past: "c \<notin> set xs \<Longrightarrow> find_at (c # cs) (xs @ ys) k = find_at (c # cs) ys (k + length xs)"
  by (induction xs arbitrary: k) auto

lemma no_tilde: "find_at ''%7E'' (pct_encode s) k = None"
proof (induction s arbitrary: k)
  case (Cons c s)
  show ?case
  proof (cases "unreserved c")
    case True
    then have "CHR ''%'' \<notin> set (pct c)" using percent_reserved by (auto simp: pct_def)
    then show ?thesis using Cons by (simp add: find_at_past)
  next
    case False
    let ?h = "hex (of_char c div 16)" and ?l = "hex (of_char c mod 16)"
    have "\<not> (?h = CHR ''7'' \<and> ?l = CHR ''E'')"
    proof
      assume "?h = CHR ''7'' \<and> ?l = CHR ''E''"
      then have "(of_char ?h :: nat) = 55" "(of_char ?l :: nat) = 69" by simp_all
      with char_halves [of c] have "(of_char c :: nat) div 16 = 7" "(of_char c :: nat) mod 16 = 14"
        by (auto simp: hex_char split: if_splits)
      then have "(of_char c :: nat) = 126" by presburger
      with False show False by (simp add: unreserved_def)
    qed
    moreover have "CHR ''%'' \<notin> set [?h, ?l]"
      using hex_unreserved char_halves [of c] percent_reserved by (metis empty_iff empty_set set_ConsD)
    ultimately show ?thesis
      using False Cons find_at_past [of "CHR ''%''" "[?h, ?l]" "''7E''" "pct_encode s" "Suc k"] by (auto simp: pct_def)
  qed
qed simp

lemma safe_char_absent: "\<not> url_safe c \<Longrightarrow> str_find (pct_encode s) [c] 0 = None"
  using pct_encode_safe [of s] by (intro str_find_char) (auto simp: list_all_iff)

text \<open>The escaping documented by curl.\<close>

definition curl_escapes :: "'j token_lib \<Rightarrow> bool" where
  "curl_escapes L \<longleftrightarrow> tl_escape L = pct_encode"

lemma safe_not_nul: "url_safe c \<Longrightarrow> of_char c \<noteq> (0 :: nat)"
  by (auto simp: url_safe_def unreserved_def Let_def)

lemma UrlEncode_pct: "curl_escapes L \<Longrightarrow> UrlEncode L s = pct_encode s"
proof -
  assume "curl_escapes L"
  moreover have "list_all (\<lambda>c. of_char c \<noteq> (0 :: nat)) (pct_encode s)"
    using pct_encode_safe [of s] safe_not_nul by (simp add: list_all_iff)
  ultimately show ?thesis by (simp add: UrlEncode_def curl_escapes_def c_str_id)
qed

lemma canonical_part_pct: "curl_escapes L \<Longrightarrow> canonical_part L s = pct_encode s"
proof -
  assume L: "curl_escapes L"
  have "\<not> url_safe (CHR ''+'')" "\<not> url_safe (CHR ''*'')" by (simp_all add: url_safe_def unreserved_def)
  moreover have "str_find (pct_encode s) ''%7E'' 0 = None" using no_tilde by (simp add: str_find_def)
  ultimately show ?thesis
    using safe_char_absent by (simp add: canonical_part_def UrlEncode_pct [OF L] string_replace_absent)
qed

text \<open>The reference: a query is cut at its ampersands, each piece at its first equals sign, and both sides are decoded.\<close>

definition parse_pair :: "string \<Rightarrow> string \<times> string" where
  "parse_pair piece = (let (v, k) = cut_at (CHR ''='') piece in (pct_decode k, pct_decode v))"

definition parse_query :: "string \<Rightarrow> params" where
  "parse_query q = (if q = [] then [] else map parse_pair (cut_pieces (CHR ''&'') [] q))"

lemma cut_pieces_join:
  assumes "\<forall>x \<in> set xs. d \<notin> set x" and "xs \<noteq> []"
  shows "cut_pieces d [] (drop 1 (concat (map (\<lambda>x. d # x) xs))) = xs"
  using assms
proof (induction xs)
  case (Cons x xs)
  show ?case
  proof (cases xs)
    case Nil
    with Cons.prems show ?thesis by (simp add: cut_pieces_last)
  next
    case (Cons y ys)
    have "drop 1 (concat (map (\<lambda>x. d # x) (x # xs))) = x @ d # drop 1 (concat (map (\<lambda>x. d # x) xs))"
      by (simp add: Cons)
    with Cons.IH Cons.prems Cons show ?thesis by (simp add: cut_pieces_append)
  qed
qed simp

definition pair_text :: "string \<times> string \<Rightarrow> string" where
  "pair_text = (\<lambda>(k, v). pct_encode k @ ''='' @ pct_encode v)"

lemma encoded_free: "c \<in> set ''&='' \<Longrightarrow> c \<notin> set (pct_encode s)"
proof -
  assume "c \<in> set ''&=''"
  then have "\<not> url_safe c" by (auto simp: url_safe_def unreserved_def)
  with pct_encode_safe [of s] show ?thesis by (auto simp: list_all_iff)
qed

lemma parse_pair_text: "parse_pair (pair_text kv) = kv"
proof -
  obtain k v where kv: "kv = (k, v)" by fastforce
  have "CHR ''='' \<notin> set (pct_encode k)" by (rule encoded_free) simp
  from str_find_char(1) [OF this, of "pct_encode v"] show ?thesis
    by (simp add: kv parse_pair_def pair_text_def cut_at_def pct_decode_encode)
qed

lemma parse_joined: "parse_query (drop 1 (concat (map (\<lambda>kv. ''&'' @ pair_text kv) params))) = params"
proof (cases "params = []")
  case False
  have free: "\<forall>x \<in> set (map pair_text params). CHR ''&'' \<notin> set x"
    using encoded_free [of "CHR ''&''"] by (auto simp: pair_text_def)
  obtain kv ps where ps: "params = kv # ps" using False by (cases params) auto
  have "drop 1 (concat (map (\<lambda>kv. ''&'' @ pair_text kv) params)) \<noteq> []" by (simp add: ps pair_text_def split: prod.split)
  with cut_pieces_join [OF free] False show ?thesis
    by (simp add: parse_query_def comp_def parse_pair_text)
qed (simp add: parse_query_def)

lemma canonical_text: "curl_escapes L \<Longrightarrow> canonicalizedQuery L params = drop 1 (concat (map (\<lambda>kv. ''&'' @ pair_text kv) params))"
  by (simp add: canonicalizedQuery_def pair_text_def canonical_part_pct case_prod_unfold)

text \<open>C30. The text that is signed determines the parameters: the canonical query, cut and decoded, gives back every name and
  value, in order, whatever bytes they hold; so that two requests with the same signature text ask for the same.\<close>

theorem canonical_query_decodes:
  assumes "curl_escapes L"
  shows "parse_query (canonicalizedQuery L params) = params"
  unfolding canonical_text [OF assms] by (rule parse_joined)

section \<open>The signed request\<close>

lemma token_params_list:
  "token_params L region cred msg =
    [(''AccessKeyId'', cr_accessKeyId cred), (''Action'', cq_action msg), (''Format'', ''JSON''), (''RegionId'', region),
     (''SignatureMethod'', ''HMAC-SHA1''), (''SignatureNonce'', tl_uuid L), (''SignatureVersion'', ''1.0''),
     (''Timestamp'', timestamp (tl_gmtime L)), (''Version'', cq_version msg)]"
  by (simp add: token_params_def put_def)

lemma signed_params_list:
  "put ''Signature'' tmp (token_params L region cred msg) =
    [(''AccessKeyId'', cr_accessKeyId cred), (''Action'', cq_action msg), (''Format'', ''JSON''), (''RegionId'', region),
     (''Signature'', tmp), (''SignatureMethod'', ''HMAC-SHA1''), (''SignatureNonce'', tl_uuid L), (''SignatureVersion'', ''1.0''),
     (''Timestamp'', timestamp (tl_gmtime L)), (''Version'', cq_version msg)]"
  by (simp add: token_params_list put_def)

text \<open>A name that is printed as it is.\<close>

definition plain_name :: "string \<Rightarrow> bool" where
  "plain_name k \<longleftrightarrow> list_all unreserved k \<and> not_task k"

lemma plain_name_encoded: "list_all unreserved k \<Longrightarrow> pct_encode k = k"
  by (induction k) (simp_all add: pct_def)

lemma query_string_text:
  assumes "curl_escapes L" and "list_all (\<lambda>(k, v). plain_name k) params"
  shows "query_string L params = drop 1 (concat (map (\<lambda>kv. ''&'' @ pair_text kv) params))"
proof -
  have "map (\<lambda>(k, v). if not_task k then ''&'' @ k @ ''='' @ UrlEncode L v else []) params = map (\<lambda>kv. ''&'' @ pair_text kv) params"
    using assms(2) by (auto simp: list_all_iff plain_name_def pair_text_def plain_name_encoded UrlEncode_pct [OF assms(1)])
  then show ?thesis by (simp only: query_string_def)
qed

lemma token_query:
  assumes "curl_escapes L" and "buildTokenHttpRpcRequest L ok region cred endpoint msg m = Some r"
  defines "params \<equiv> token_params L region cred msg"
  shows "ur_query (rq_url r) = drop 1 (concat (map (\<lambda>kv. ''&'' @ pair_text kv)
      (put ''Signature'' (hmac_generate L (string_to_sign L m ''/'' params) (cr_accessKeySecret cred @ ''&'')) params)))
    \<and> rq_method r = m"
proof -
  let ?tmp = "hmac_generate L (string_to_sign L m ''/'' params) (cr_accessKeySecret cred @ ''&'')"
  have names: "list_all (\<lambda>(k, v). plain_name k) (put ''Signature'' ?tmp params)"
    by (simp add: params_def signed_params_list plain_name_def unreserved_def not_task_def c_str_def)
  have "ur_query (rq_url r) = query_string L (put ''Signature'' ?tmp params)" and "rq_method r = m"
    using assms(2) by (auto simp: params_def buildTokenHttpRpcRequest_def common_url_def Let_def split: if_splits)
  then show ?thesis by (simp add: query_string_text [OF assms(1) names])
qed

lemma joined_alphabet: "list_all (\<lambda>c. url_safe c \<or> c \<in> set ''&='') (concat (map (\<lambda>kv. ''&'' @ pair_text kv) params))"
proof (induction params)
  case (Cons kv params)
  show ?case using Cons pct_encode_safe [of "fst kv"] pct_encode_safe [of "snd kv"]
    by (auto simp: pair_text_def list_all_iff split: prod.split)
qed simp

text \<open>What a server that knows the secret checks: it reads the query, takes the signature out, builds the canonical query of
  the rest anew and compares.\<close>

definition server_accepts :: "(string \<Rightarrow> string \<Rightarrow> string) \<Rightarrow> string \<Rightarrow> HttpRequest \<Rightarrow> bool" where
  "server_accepts hmac secret r \<longleftrightarrow>
     (let ps = parse_query (ur_query (rq_url r)); rest = map_erase str_less ''Signature'' ps in
      map_get str_less ''Signature'' ps = Some (hmac (HttpMethodToString (rq_method r) @ ''&'' @ pct_encode ''/'' @ ''&''
        @ pct_encode (drop 1 (concat (map (\<lambda>kv. ''&'' @ pair_text kv) rest)))) (secret @ ''&'')))"

text \<open>C29. A token request is accepted: from the address alone a server with the same secret computes the signature the request
  carries, whatever bytes the key, the version or the nonce hold, and reads back the parameters that were signed.\<close>

theorem token_request_verifies:
  assumes "curl_escapes L" and "buildTokenHttpRpcRequest L ok region cred endpoint msg m = Some r"
  shows "server_accepts (tl_hmac L) (cr_accessKeySecret cred) r
    \<and> map_erase str_less ''Signature'' (parse_query (ur_query (rq_url r))) = token_params L region cred msg"
proof -
  let ?params = "token_params L region cred msg"
  let ?tmp = "hmac_generate L (string_to_sign L m ''/'' ?params) (cr_accessKeySecret cred @ ''&'')"
  have ps: "parse_query (ur_query (rq_url r)) = put ''Signature'' ?tmp ?params" and m: "rq_method r = m"
    using token_query [OF assms] by (simp_all only: parse_joined)
  have rest: "map_erase str_less ''Signature'' (put ''Signature'' ?tmp ?params) = ?params"
    unfolding signed_params_list by (simp add: map_erase_def token_params_list)
  have sig: "map_get str_less ''Signature'' (put ''Signature'' ?tmp ?params) = Some ?tmp"
    unfolding signed_params_list by simp
  have "?tmp = tl_hmac L (string_to_sign L m ''/'' ?params) (cr_accessKeySecret cred @ ''&'')"
    by (simp add: hmac_generate_def string_to_sign_def)
  with ps rest sig m show ?thesis
    by (simp add: server_accepts_def string_to_sign_def UrlEncode_pct [OF assms(1)] canonical_text [OF assms(1)] Let_def)
qed

text \<open>C31. The query of a token request is text of the right kind whatever bytes the key, the version, the region or the nonce
  hold: letters, digits, the four marks, per cent signs, ampersands and equals signs; so nothing the caller sets
  can end the request line or add a header.\<close>

theorem signed_query_alphabet:
  assumes "curl_escapes L" and "buildTokenHttpRpcRequest L ok region cred endpoint msg m = Some r"
  shows "list_all (\<lambda>c. url_safe c \<or> c \<in> set ''&='') (ur_query (rq_url r))"
proof -
  from token_query [OF assms] obtain params where
    "ur_query (rq_url r) = drop 1 (concat (map (\<lambda>kv. ''&'' @ pair_text kv) params))" by blast
  moreover have "list_all (\<lambda>c. url_safe c \<or> c \<in> set ''&='') (concat (map (\<lambda>kv. ''&'' @ pair_text kv) params))"
    by (rule joined_alphabet)
  ultimately show ?thesis unfolding list_all_iff by (metis in_set_dropD)
qed

section \<open>Errors\<close>

text \<open>What \<open>applyNlsToken\<close> answers: without a secret or a key it fails before anything is sent; a transfer that fails or a
  status outside 200 to 299 is a failure that leaves the token as it was; and it says \<open>Success\<close>, with the old token, also
  for an answer without a token.\<close>

theorem token_answers:
  assumes "applyNlsToken L t = Some (ret, t')"
  shows "ret \<in> {Success, - InvalidAkSecret, - InvalidAkId, - InvalidDomain, - InvalidServerVersion, - InvalidServerResource,
      - InvalidAction, - InvalidRegionId, - ClientRequestFaild, - JsonParseFailed}
    \<and> (nt_accessKeySecret t = [] \<or> nt_accessKeyId t = [] \<longrightarrow> ret \<in> {- InvalidAkSecret, - InvalidAkId})
    \<and> (ret \<noteq> Success \<and> ret \<noteq> - JsonParseFailed \<longrightarrow> nt_tokenId t' = nt_tokenId t \<and> nt_expireTime t' = nt_expireTime t)"
  using assms
  by (auto simp: applyNlsToken_def paramCheck_def Let_def split: if_splits attempt.splits option.splits prod.splits)

section \<open>Examples\<close>

definition token_lib_example :: "json_value token_lib" where
  "token_lib_example = \<lparr>tl_escape = pct_encode, tl_hmac = (\<lambda>src secret. rev secret @ src), tl_md5 = (\<lambda>s. s), tl_uuid = ''u-1'',
     tl_gmtime = \<lparr>tm_year = 124, tm_mon = 9, tm_mday = 8, tm_hour = 7, tm_min = 6, tm_sec = 5\<rparr>,
     tl_send = (\<lambda>r. Some \<lparr>rs_statusCode = 200, rs_body = ''{}''\<rparr>),
     tl_json = json_example (Some (JObject [(''Token'', JObject [(''Id'', JString ''tok''), (''ExpireTime'', JInt 99)])])),
     tl_asString = (\<lambda>v. case v of JString s \<Rightarrow> Some s | JNull \<Rightarrow> Some [] | _ \<Rightarrow> None),
     tl_asUInt = (\<lambda>v. case v of JInt i \<Rightarrow> Some i | _ \<Rightarrow> None)\<rparr>"

definition nls_token_example :: NlsToken where
  "nls_token_example = (NlsToken_new 0)\<lparr>nt_accessKeyId := ''a b&c'', nt_accessKeySecret := ''s''\<rparr>"

definition cred_example :: Credentials where
  "cred_example = \<lparr>cr_accessKeyId = ''a b&c'', cr_accessKeySecret = ''s'', cr_stsToken = []\<rparr>"

lemma example_escapes: "curl_escapes token_lib_example"
  by (simp add: curl_escapes_def token_lib_example_def)

definition request_rpc_example :: HttpRequest where
  "request_rpc_example =
     the (buildTokenHttpRpcRequest token_lib_example True ''cn'' cred_example ''nls.com'' (token_request nls_token_example) Post)"

lemma build_example:
  "buildTokenHttpRpcRequest token_lib_example True ''cn'' cred_example ''nls.com'' (token_request nls_token_example) Post =
    Some request_rpc_example"
  by (simp add: request_rpc_example_def buildTokenHttpRpcRequest_def token_request_def Let_def)

lemma canonical_query_decodes_witness:
  "parse_query (canonicalizedQuery token_lib_example [(''A&'', ''1=2''), (''B'', ''x~%*'')]) = [(''A&'', ''1=2''), (''B'', ''x~%*'')]"
  by (rule canonical_query_decodes [OF example_escapes])

lemma token_request_verifies_witness:
  "server_accepts (tl_hmac token_lib_example) (cr_accessKeySecret cred_example) request_rpc_example
    \<and> map_erase str_less ''Signature'' (parse_query (ur_query (rq_url request_rpc_example))) =
      token_params token_lib_example ''cn'' cred_example (token_request nls_token_example)"
  by (rule token_request_verifies [OF example_escapes build_example])

lemma signed_query_alphabet_witness:
  "list_all (\<lambda>c. url_safe c \<or> c \<in> set ''&='') (ur_query (rq_url request_rpc_example))"
  by (rule signed_query_alphabet [OF example_escapes build_example])

lemma apply_example: "applyNlsToken token_lib_example nls_token_example = Some (Success, nls_token_example\<lparr>nt_tokenId := ''tok'', nt_expireTime := 99\<rparr>)"
  by (simp add: applyNlsToken_def paramCheck_def nls_token_example_def NlsToken_new_def AttemptRequest_def buildHttpRequest_def
      buildTokenHttpRpcRequest_def token_request_def token_lib_example_def hasResponseError_def json_example_def token_members_def Let_def)

lemma token_answers_witness:
  "\<exists>ret t'. applyNlsToken token_lib_example (nls_token_example\<lparr>nt_accessKeyId := []\<rparr>) = Some (ret, t')
    \<and> ret \<in> {Success, - InvalidAkSecret, - InvalidAkId, - InvalidDomain, - InvalidServerVersion, - InvalidServerResource,
      - InvalidAction, - InvalidRegionId, - ClientRequestFaild, - JsonParseFailed} \<and> ret \<in> {- InvalidAkSecret, - InvalidAkId}
    \<and> nt_tokenId t' = []"
proof -
  have a: "applyNlsToken token_lib_example (nls_token_example\<lparr>nt_accessKeyId := []\<rparr>) =
      Some (- InvalidAkId, nls_token_example\<lparr>nt_accessKeyId := [], nt_errorMsg := ''AccessKeyId is empty.''\<rparr>)"
    by (simp add: applyNlsToken_def paramCheck_def nls_token_example_def NlsToken_new_def)
  from a token_answers [OF a] show ?thesis by (simp add: nls_token_example_def NlsToken_new_def)
qed

end
