(* ===== verification/RequestParam.thy ===== *)
theory RequestParam
  imports StdMap ConnectSend
begin

text \<open>
  The parameters of a request and the commands made of them: \<open>framework/item/iNlsRequestParam.cpp\<close> and the classes
  derived from it for the five services. A JSON value of jsoncpp is a \<open>json_value\<close>, whose objects list their
  members in the order of their names; its reader and its writer are a record of functions. A derived class extends
  the record of the base class, and its virtual functions are a \<open>param_class\<close>. Arguments of type \<open>const char *\<close> are
  texts without NUL.
\<close>

section \<open>jsoncpp\<close>

text \<open>\<open>js_parse\<close> is \<open>Reader::parse\<close>, \<open>None\<close> for a text it refuses or throws for; \<open>js_write\<close> is \<open>FastWriter::write\<close>, \<open>None\<close>
  when it throws.\<close>

record json_lib =
  js_parse :: "string \<Rightarrow> json_value option"
  js_write :: "json_value \<Rightarrow> string option"

type_synonym json_object = "(string \<times> json_value) list"

definition put_member :: "string \<Rightarrow> json_value \<Rightarrow> json_object \<Rightarrow> json_object" where
  "put_member = map_put str_less"

definition member :: "json_object \<Rightarrow> string \<Rightarrow> json_value option" where
  "member obj k = map_get str_less k obj"

definition remove_member :: "string \<Rightarrow> json_object \<Rightarrow> json_object" where
  "remove_member = map_erase str_less"

text \<open>\<open>isObject\<close> and the members.\<close>

definition members_of :: "json_value \<Rightarrow> json_object option" where
  "members_of v = (case v of JObject obj \<Rightarrow> Some obj | _ \<Rightarrow> None)"

text \<open>\<open>operator[]\<close> gives null for a name that is not there.\<close>

definition member_or_null :: "json_object \<Rightarrow> string \<Rightarrow> json_value" where
  "member_or_null obj k = (case member obj k of None \<Rightarrow> JNull | Some v \<Rightarrow> v)"

section \<open>The base class\<close>

record nls_param =
  np_enableWakeWord :: bool
  np_enableRecvTimeout :: bool
  np_enableOnMessage :: bool
  np_enableReconnect :: bool
  np_timeout :: int
  np_recv_timeout :: int
  np_send_timeout :: int
  np_sampleRate :: int
  np_requestType :: NlsRequestType
  np_url :: string
  np_outputFormat :: string
  np_token :: string
  np_format :: string
  np_task_id :: string
  np_mode :: NlsType
  np_sdk_name :: string
  np_startCommand :: string
  np_controlCommand :: string
  np_stopCommand :: string
  np_header :: json_object
  np_payload :: json_object
  np_context :: json_object
  np_httpHeader :: json_object
  np_httpHeaderString :: string

definition set_header :: "string \<Rightarrow> json_value \<Rightarrow> 'a nls_param_scheme \<Rightarrow> 'a nls_param_scheme" where
  "set_header k v p = p\<lparr>np_header := put_member k v (np_header p)\<rparr>"

definition set_payload :: "string \<Rightarrow> json_value \<Rightarrow> 'a nls_param_scheme \<Rightarrow> 'a nls_param_scheme" where
  "set_payload k v p = p\<lparr>np_payload := put_member k v (np_payload p)\<rparr>"

definition set_context :: "string \<Rightarrow> json_value \<Rightarrow> 'a nls_param_scheme \<Rightarrow> 'a nls_param_scheme" where
  "set_context k v p = p\<lparr>np_context := put_member k v (np_context p)\<rparr>"

definition getSdkInfo :: "string \<Rightarrow> json_value" where
  "getSdkInfo sdk_name = JObject
     (put_member ''version'' (JString ''3.2.0f'')
     (put_member ''language'' (JString (if sdk_name = ''csharp'' then ''Csharp'' else ''C++''))
     (put_member ''name'' (JString ''nls-cpp-sdk3.x-linux'') [])))"

definition INlsRequestParam_new :: "NlsType \<Rightarrow> string \<Rightarrow> nls_param" where
  "INlsRequestParam_new mode sdkName =
     set_context ''sdk'' (getSdkInfo sdkName) (set_payload ''sample_rate'' (JInt 16000) (set_payload ''format'' (JString ''pcm'')
     \<lparr>np_enableWakeWord = False, np_enableRecvTimeout = False, np_enableOnMessage = False, np_enableReconnect = False,
      np_timeout = 500, np_recv_timeout = 15000, np_send_timeout = 5000, np_sampleRate = 16000, np_requestType = SpeechNormal,
      np_url = ''wss://nls-gateway.cn-shanghai.aliyuncs.com/ws/v1'', np_outputFormat = ''UTF-8'', np_token = [],
      np_format = ''pcm'', np_task_id = [], np_mode = mode, np_sdk_name = sdkName, np_startCommand = [],
      np_controlCommand = [], np_stopCommand = [], np_header = [], np_payload = [], np_context = [], np_httpHeader = [],
      np_httpHeaderString = []\<rparr>))"

subsection \<open>Settings\<close>

definition setAppKey :: "string \<Rightarrow> 'a nls_param_scheme \<Rightarrow> 'a nls_param_scheme" where
  "setAppKey appKey = set_header ''appkey'' (JString appKey)"

definition setFormat :: "string \<Rightarrow> 'a nls_param_scheme \<Rightarrow> 'a nls_param_scheme" where
  "setFormat fmt p = set_payload ''format'' (JString fmt) (p\<lparr>np_format := fmt\<rparr>)"

definition setIntermediateResult :: "bool \<Rightarrow> 'a nls_param_scheme \<Rightarrow> 'a nls_param_scheme" where
  "setIntermediateResult b = set_payload ''enable_intermediate_result'' (JBool b)"

definition setPunctuationPrediction :: "bool \<Rightarrow> 'a nls_param_scheme \<Rightarrow> 'a nls_param_scheme" where
  "setPunctuationPrediction b = set_payload ''enable_punctuation_prediction'' (JBool b)"

definition setTextNormalization :: "bool \<Rightarrow> 'a nls_param_scheme \<Rightarrow> 'a nls_param_scheme" where
  "setTextNormalization b = set_payload ''enable_inverse_text_normalization'' (JBool b)"

definition setCustomizationId :: "string \<Rightarrow> 'a nls_param_scheme \<Rightarrow> 'a nls_param_scheme" where
  "setCustomizationId s = set_payload ''customization_id'' (JString s)"

definition setVocabularyId :: "string \<Rightarrow> 'a nls_param_scheme \<Rightarrow> 'a nls_param_scheme" where
  "setVocabularyId s = set_payload ''vocabulary_id'' (JString s)"

definition setSentenceDetection :: "bool \<Rightarrow> 'a nls_param_scheme \<Rightarrow> 'a nls_param_scheme" where
  "setSentenceDetection b = set_payload ''enable_semantic_sentence_detection'' (JBool b)"

definition setSampleRate :: "int \<Rightarrow> 'a nls_param_scheme \<Rightarrow> 'a nls_param_scheme" where
  "setSampleRate rate p = set_payload ''sample_rate'' (JInt rate) (p\<lparr>np_sampleRate := rate\<rparr>)"

definition setEnableWakeWordVerification :: "bool \<Rightarrow> 'a nls_param_scheme \<Rightarrow> 'a nls_param_scheme" where
  "setEnableWakeWordVerification b p = (set_payload ''enable_wake_word_verification'' (JBool b) p)\<lparr>np_enableWakeWord := b\<rparr>"

definition setSessionId :: "string \<Rightarrow> 'a nls_param_scheme \<Rightarrow> 'a nls_param_scheme" where
  "setSessionId s = set_payload ''session_id'' (JString s)"

text \<open>The loop of \<open>setPayloadParam\<close> and \<open>setContextParam\<close> over the names of the members: \<open>c_str\<close> cuts a name at a NUL.\<close>

definition copy_members :: "json_object \<Rightarrow> json_object \<Rightarrow> json_object" where
  "copy_members root target =
     fold (\<lambda>k. if k = [] then id else put_member (c_str k) (member_or_null root (c_str k))) (map fst root) target"

definition setPayloadParam :: "json_lib \<Rightarrow> string option \<Rightarrow> 'a nls_param_scheme \<Rightarrow> int \<times> 'a nls_param_scheme" where
  "setPayloadParam L value p =
     (case value of
        None \<Rightarrow> (- SetParamsEmpty, p)
      | Some v \<Rightarrow>
          (case js_parse L v of
             None \<Rightarrow> (- JsonParseFailed, p)
           | Some root \<Rightarrow>
               (case members_of root of
                  None \<Rightarrow> (- JsonObjectError, p)
                | Some obj \<Rightarrow> (Success, p\<lparr>np_payload := copy_members obj (np_payload p)\<rparr>))))"

definition setContextParam :: "json_lib \<Rightarrow> string \<Rightarrow> 'a nls_param_scheme \<Rightarrow> int \<times> 'a nls_param_scheme" where
  "setContextParam L v p =
     (case js_parse L v of
        None \<Rightarrow> (- JsonParseFailed, p)
      | Some root \<Rightarrow>
          (case members_of root of
             None \<Rightarrow> (- JsonObjectError, p)
           | Some obj \<Rightarrow> (Success, p\<lparr>np_context := copy_members obj (np_context p)\<rparr>)))"

definition removePayloadParam :: "string option \<Rightarrow> 'a nls_param_scheme \<Rightarrow> int \<times> 'a nls_param_scheme" where
  "removePayloadParam key p =
     (case key of
        None \<Rightarrow> (- SetParamsEmpty, p)
      | Some k \<Rightarrow> (Success, if member (np_payload p) k \<noteq> None then p\<lparr>np_payload := remove_member k (np_payload p)\<rparr> else p))"

definition AppendHttpHeader :: "string option \<Rightarrow> string option \<Rightarrow> 'a nls_param_scheme \<Rightarrow> int \<times> 'a nls_param_scheme" where
  "AppendHttpHeader key value p =
     (case (key, value) of
        (Some k, Some v) \<Rightarrow> (Success, p\<lparr>np_httpHeader := put_member k (JString v) (np_httpHeader p)\<rparr>)
      | _ \<Rightarrow> (- InvalidInputParam, p))"

text \<open>The values in \<open>_httpHeader\<close> are texts.\<close>

definition header_line :: "string \<times> json_value \<Rightarrow> string" where
  "header_line = (\<lambda>(k, v). if k = [] then [] else k @ '': '' @ (case v of JString s \<Rightarrow> s | _ \<Rightarrow> []) @ [CHR 0x0D, CHR 0x0A])"

definition GetHttpHeader :: "'a nls_param_scheme \<Rightarrow> string \<times> 'a nls_param_scheme" where
  "GetHttpHeader p =
     (let s = concat (map header_line (np_httpHeader p)) in (s, p\<lparr>np_httpHeaderString := s\<rparr>))"

subsection \<open>Commands\<close>

text \<open>The two random identifiers a command may draw: of the task and of the message.\<close>

type_synonym uuids = "string \<times> string"

definition stamp_message :: "string \<Rightarrow> 'a nls_param_scheme \<Rightarrow> 'a nls_param_scheme" where
  "stamp_message msgid p = set_header ''message_id'' (JString msgid) (set_header ''task_id'' (JString (np_task_id p)) p)"

definition base_getStartCommand ::
  "json_lib \<Rightarrow> uuids \<Rightarrow> 'a nls_param_scheme \<Rightarrow> string option \<times> 'a nls_param_scheme" where
  "base_getStartCommand L u p =
     (let p1 = stamp_message (snd u) (p\<lparr>np_task_id := fst u\<rparr>);
          root = put_member ''context'' (JObject (np_context p1)) (put_member ''payload'' (JObject (np_payload p1))
            (put_member ''header'' (JObject (np_header p1)) [])) in
      case js_write L (JObject root) of
        None \<Rightarrow> (None, p1)
      | Some text \<Rightarrow> (Some text, p1\<lparr>np_startCommand := text\<rparr>))"

definition copy_field :: "string \<Rightarrow> json_object \<Rightarrow> json_object \<Rightarrow> json_object" where
  "copy_field k input root = (if member_or_null input k \<noteq> JNull then put_member k (member_or_null input k) root else root)"

definition base_getControlCommand ::
  "json_lib \<Rightarrow> uuids \<Rightarrow> string \<Rightarrow> 'a nls_param_scheme \<Rightarrow> string option \<times> 'a nls_param_scheme" where
  "base_getControlCommand L u message p =
     (case Option.bind (js_parse L message) members_of of
        None \<Rightarrow> (None, p)
      | Some input \<Rightarrow>
          (let p1 = stamp_message (snd u) p;
               root = copy_field ''context'' input (copy_field ''payload'' input
                 (put_member ''header'' (JObject (np_header p1)) [])) in
           case js_write L (JObject root) of
             None \<Rightarrow> (None, p1)
           | Some text \<Rightarrow> (Some text, p1\<lparr>np_controlCommand := text\<rparr>)))"

definition base_getStopCommand ::
  "json_lib \<Rightarrow> uuids \<Rightarrow> 'a nls_param_scheme \<Rightarrow> string option \<times> 'a nls_param_scheme" where
  "base_getStopCommand L u p =
     (let p1 = stamp_message (snd u) p;
          root = put_member ''context'' (JObject (np_context p1)) (put_member ''header'' (JObject (np_header p1)) []) in
      case js_write L (JObject root) of
        None \<Rightarrow> (None, p1)
      | Some text \<Rightarrow> (Some text, p1\<lparr>np_stopCommand := text\<rparr>))"

text \<open>The commands that only some services have: an empty text.\<close>

definition base_getExecuteDialog :: "'a nls_param_scheme \<Rightarrow> string option \<times> 'a nls_param_scheme" where
  "base_getExecuteDialog p = (Some [], p)"

definition base_getStopWakeWordCommand :: "'a nls_param_scheme \<Rightarrow> string option \<times> 'a nls_param_scheme" where
  "base_getStopWakeWordCommand p = (Some [], p)"

definition base_getRunFlowingSynthesisCommand :: "'a nls_param_scheme \<Rightarrow> string option \<times> 'a nls_param_scheme" where
  "base_getRunFlowingSynthesisCommand p = (Some [], p)"

definition base_getFlushFlowingTextCommand :: "'a nls_param_scheme \<Rightarrow> string option \<times> 'a nls_param_scheme" where
  "base_getFlushFlowingTextCommand p = (Some [], p)"

end
