(* ===== verification/RequestClasses.thy ===== *)
theory RequestClasses
  imports RequestParam
begin

text \<open>
  The five classes derived from \<open>INlsRequestParam\<close> (\<open>framework/feature\<close>), what a connection node asks of them
  (\<open>ConnectNode::addCmdDataBuffer\<close>), and the contract they share: which identifiers a command carries and which
  settings it leaves alone.
\<close>

section \<open>Transcriber\<close>

record st_param = nls_param +
  sp_controlHeaderName :: string

definition SpeechTranscriberParam_new :: "string \<Rightarrow> st_param" where
  "SpeechTranscriberParam_new sdkName =
     nls_param.extend (set_header ''namespace'' (JString ''SpeechTranscriber'') (INlsRequestParam_new TypeRealTime sdkName))
       \<lparr>sp_controlHeaderName = []\<rparr>"

definition st_getStartCommand :: "json_lib \<Rightarrow> uuids \<Rightarrow> st_param \<Rightarrow> string option \<times> st_param" where
  "st_getStartCommand L u p = base_getStartCommand L u (set_header ''name'' (JString ''StartTranscription'') p)"

definition st_getControlCommand :: "json_lib \<Rightarrow> uuids \<Rightarrow> string \<Rightarrow> st_param \<Rightarrow> string option \<times> st_param" where
  "st_getControlCommand L u message p =
     base_getControlCommand L u message
       (set_header ''name''
         (JString (if sp_controlHeaderName p \<noteq> [] then sp_controlHeaderName p else ''ControlTranscriber'')) p)"

definition st_getStopCommand :: "json_lib \<Rightarrow> uuids \<Rightarrow> st_param \<Rightarrow> string option \<times> st_param" where
  "st_getStopCommand L u p = base_getStopCommand L u (set_header ''name'' (JString ''StopTranscription'') p)"

definition setControlHeaderName :: "string option \<Rightarrow> st_param \<Rightarrow> st_param" where
  "setControlHeaderName name p = p\<lparr>sp_controlHeaderName := (case name of None \<Rightarrow> [] | Some s \<Rightarrow> s)\<rparr>"

definition st_setMaxSentenceSilence :: "int \<Rightarrow> st_param \<Rightarrow> st_param" where
  "st_setMaxSentenceSilence v = set_payload ''max_sentence_silence'' (JInt v)"

definition st_setEnableNlp :: "bool \<Rightarrow> st_param \<Rightarrow> st_param" where
  "st_setEnableNlp b = set_payload ''enable_nlp'' (JBool b)"

definition st_setNlpModel :: "string \<Rightarrow> st_param \<Rightarrow> st_param" where
  "st_setNlpModel s = set_payload ''nlp_model'' (JString s)"

definition st_setEnableWords :: "bool \<Rightarrow> st_param \<Rightarrow> st_param" where
  "st_setEnableWords b = set_payload ''enable_words'' (JBool b)"

definition st_setEnableIgnoreSentenceTimeout :: "bool \<Rightarrow> st_param \<Rightarrow> st_param" where
  "st_setEnableIgnoreSentenceTimeout b = set_payload ''enable_ignore_sentence_timeout'' (JBool b)"

definition st_setDisfluency :: "bool \<Rightarrow> st_param \<Rightarrow> st_param" where
  "st_setDisfluency b = set_payload ''disfluency'' (JBool b)"

definition st_setSpeechNoiseThreshold :: "64 word \<Rightarrow> st_param \<Rightarrow> st_param" where
  "st_setSpeechNoiseThreshold v = set_payload ''speech_noise_threshold'' (JDouble v)"

section \<open>Recogniser\<close>

definition SpeechRecognizerParam_new :: "string \<Rightarrow> nls_param" where
  "SpeechRecognizerParam_new sdkName =
     set_header ''namespace'' (JString ''SpeechRecognizer'') (INlsRequestParam_new TypeAsr sdkName)"

definition sr_getStartCommand :: "json_lib \<Rightarrow> uuids \<Rightarrow> nls_param \<Rightarrow> string option \<times> nls_param" where
  "sr_getStartCommand L u p = base_getStartCommand L u (set_header ''name'' (JString ''StartRecognition'') p)"

definition sr_getStopCommand :: "json_lib \<Rightarrow> uuids \<Rightarrow> nls_param \<Rightarrow> string option \<times> nls_param" where
  "sr_getStopCommand L u p = base_getStopCommand L u (set_header ''name'' (JString ''StopRecognition'') p)"

definition sr_setEnableVoiceDetection :: "bool \<Rightarrow> nls_param \<Rightarrow> nls_param" where
  "sr_setEnableVoiceDetection b = set_payload ''enable_voice_detection'' (JBool b)"

definition sr_setMaxStartSilence :: "int \<Rightarrow> nls_param \<Rightarrow> nls_param" where
  "sr_setMaxStartSilence v = set_payload ''max_start_silence'' (JInt v)"

definition sr_setMaxEndSilence :: "int \<Rightarrow> nls_param \<Rightarrow> nls_param" where
  "sr_setMaxEndSilence v = set_payload ''max_end_silence'' (JInt v)"

definition sr_setAudioAddress :: "string \<Rightarrow> nls_param \<Rightarrow> nls_param" where
  "sr_setAudioAddress s = set_payload ''audio_address'' (JString s)"

section \<open>Dialog assistant\<close>

definition DialogAssistantParam_new :: "int \<Rightarrow> string \<Rightarrow> nls_param" where
  "DialogAssistantParam_new version sdkName =
     (let p = INlsRequestParam_new TypeDialog sdkName in
      set_payload ''session_id'' (JString (np_task_id p))
        (if version = 0 then set_header ''namespace'' (JString ''DialogAssistant'') p
         else set_header ''enable_multi_group'' (JBool True) (set_header ''namespace'' (JString ''DialogAssistant.v2'') p)))"

definition da_getStartCommand :: "json_lib \<Rightarrow> uuids \<Rightarrow> nls_param \<Rightarrow> string option \<times> nls_param" where
  "da_getStartCommand L u p = base_getStartCommand L u (set_header ''name'' (JString ''StartRecognition'') p)"

definition da_getStopCommand :: "json_lib \<Rightarrow> uuids \<Rightarrow> nls_param \<Rightarrow> string option \<times> nls_param" where
  "da_getStopCommand L u p = base_getStopCommand L u (set_header ''name'' (JString ''StopRecognition'') p)"

definition da_getExecuteDialog :: "json_lib \<Rightarrow> uuids \<Rightarrow> nls_param \<Rightarrow> string option \<times> nls_param" where
  "da_getExecuteDialog L u p = base_getStartCommand L u (set_header ''name'' (JString ''ExecuteDialog'') p)"

definition da_getStopWakeWordCommand :: "json_lib \<Rightarrow> uuids \<Rightarrow> nls_param \<Rightarrow> string option \<times> nls_param" where
  "da_getStopWakeWordCommand L u p = base_getStopCommand L u (set_header ''name'' (JString ''StopWakeWordVerification'') p)"

definition da_setQueryParams :: "json_lib \<Rightarrow> string \<Rightarrow> nls_param \<Rightarrow> int \<times> nls_param" where
  "da_setQueryParams L v p =
     (case js_parse L (''{\"key\":'' @ v @ ''}'') of
        None \<Rightarrow> (- JsonParseFailed, p)
      | Some root \<Rightarrow>
          (case members_of root of
             None \<Rightarrow> (- JsonObjectError, p)
           | Some obj \<Rightarrow> (Success, set_payload ''query_params'' (member_or_null obj ''key'') p)))"

definition da_setQueryContext :: "string \<Rightarrow> nls_param \<Rightarrow> nls_param" where
  "da_setQueryContext s = set_payload ''query_context'' (JString s)"

definition da_setQuery :: "string \<Rightarrow> nls_param \<Rightarrow> nls_param" where
  "da_setQuery s = set_payload ''query'' (JString s)"

definition da_setWakeWordModel :: "string \<Rightarrow> nls_param \<Rightarrow> nls_param" where
  "da_setWakeWordModel s = set_payload ''wake_word_model'' (JString s)"

definition da_setWakeWord :: "string \<Rightarrow> nls_param \<Rightarrow> nls_param" where
  "da_setWakeWord s = set_payload ''wake_word'' (JString s)"

definition da_setEnableMultiGroup :: "bool \<Rightarrow> nls_param \<Rightarrow> nls_param" where
  "da_setEnableMultiGroup b = set_header ''enable_multi_group'' (JBool b)"

section \<open>Synthesizer\<close>

definition SpeechSynthesizerParam_new :: "int \<Rightarrow> string \<Rightarrow> nls_param" where
  "SpeechSynthesizerParam_new version sdkName =
     set_header ''namespace'' (JString (if version = 0 then ''SpeechSynthesizer'' else ''SpeechLongSynthesizer''))
       (INlsRequestParam_new TypeTts sdkName)"

text \<open>A text or a voice, which both synthesizers check for \<open>NULL\<close>.\<close>

definition set_text_member :: "string \<Rightarrow> string option \<Rightarrow> 'a nls_param_scheme \<Rightarrow> int \<times> 'a nls_param_scheme" where
  "set_text_member k v p =
     (case v of None \<Rightarrow> (- InvalidInputParam, p) | Some s \<Rightarrow> (Success, set_payload k (JString s) p))"

definition sy_setText :: "string option \<Rightarrow> nls_param \<Rightarrow> int \<times> nls_param" where
  "sy_setText = set_text_member ''text''"

definition sy_setVoice :: "string option \<Rightarrow> 'a nls_param_scheme \<Rightarrow> int \<times> 'a nls_param_scheme" where
  "sy_setVoice = set_text_member ''voice''"

definition sy_setVolume :: "int \<Rightarrow> 'a nls_param_scheme \<Rightarrow> 'a nls_param_scheme" where
  "sy_setVolume v = set_payload ''volume'' (JInt v)"

definition sy_setSpeechRate :: "int \<Rightarrow> 'a nls_param_scheme \<Rightarrow> 'a nls_param_scheme" where
  "sy_setSpeechRate v = set_payload ''speech_rate'' (JInt v)"

definition sy_setPitchRate :: "int \<Rightarrow> 'a nls_param_scheme \<Rightarrow> 'a nls_param_scheme" where
  "sy_setPitchRate v = set_payload ''pitch_rate'' (JInt v)"

definition sy_setEnableSubtitle :: "bool \<Rightarrow> 'a nls_param_scheme \<Rightarrow> 'a nls_param_scheme" where
  "sy_setEnableSubtitle b = set_payload ''enable_subtitle'' (JBool b)"

definition sy_setMethod :: "int \<Rightarrow> nls_param \<Rightarrow> nls_param" where
  "sy_setMethod v = set_payload ''method'' (JInt v)"

definition sy_getStartCommand :: "json_lib \<Rightarrow> uuids \<Rightarrow> nls_param \<Rightarrow> string option \<times> nls_param" where
  "sy_getStartCommand L u p = base_getStartCommand L u (set_header ''name'' (JString ''StartSynthesis'') p)"

definition sy_getStopCommand :: "uuids \<Rightarrow> nls_param \<Rightarrow> string option \<times> nls_param" where
  "sy_getStopCommand u p = (Some [], p)"

section \<open>Flowing synthesizer\<close>

record fs_param = nls_param +
  fp_runFlowingSynthesisCommand :: string
  fp_flushFlowingTextCommand :: string

definition FlowingSynthesizerParam_new :: "string \<Rightarrow> fs_param" where
  "FlowingSynthesizerParam_new sdkName =
     nls_param.extend
       (set_header ''namespace'' (JString ''FlowingSpeechSynthesizer'') (INlsRequestParam_new TypeStreamInputTts sdkName))
       \<lparr>fp_runFlowingSynthesisCommand = [], fp_flushFlowingTextCommand = []\<rparr>"

definition fs_getStartCommand :: "json_lib \<Rightarrow> uuids \<Rightarrow> fs_param \<Rightarrow> string option \<times> fs_param" where
  "fs_getStartCommand L u p = base_getStartCommand L u (set_header ''name'' (JString ''StartSynthesis'') p)"

definition fs_getStopCommand :: "json_lib \<Rightarrow> uuids \<Rightarrow> fs_param \<Rightarrow> string option \<times> fs_param" where
  "fs_getStopCommand L u p = base_getStopCommand L u (set_header ''name'' (JString ''StopSynthesis'') p)"

definition fs_getRunFlowingSynthesisCommand :: "json_lib \<Rightarrow> uuids \<Rightarrow> string \<Rightarrow> fs_param \<Rightarrow> string option \<times> fs_param" where
  "fs_getRunFlowingSynthesisCommand L u t p =
     (let p1 = set_payload ''text'' (JString t) (stamp_message (snd u) (set_header ''name'' (JString ''RunSynthesis'') p));
          root = put_member ''payload'' (JObject (np_payload p1)) (put_member ''header'' (JObject (np_header p1)) []) in
      case js_write L (JObject root) of
        None \<Rightarrow> (None, p1)
      | Some out \<Rightarrow> (Some out, p1\<lparr>fp_runFlowingSynthesisCommand := out\<rparr>))"

definition fs_getFlushFlowingTextCommand :: "json_lib \<Rightarrow> uuids \<Rightarrow> fs_param \<Rightarrow> string option \<times> fs_param" where
  "fs_getFlushFlowingTextCommand L u p =
     (let p1 = stamp_message (snd u) (set_header ''name'' (JString ''FlushText'') p);
          root = put_member ''header'' (JObject (np_header p1)) [] in
      case js_write L (JObject root) of
        None \<Rightarrow> (None, p1)
      | Some out \<Rightarrow> (Some out, p1\<lparr>fp_flushFlowingTextCommand := out\<rparr>))"

section \<open>Virtual functions\<close>

record 'p param_class =
  pc_start :: "uuids \<Rightarrow> 'p \<Rightarrow> string option \<times> 'p"
  pc_control :: "uuids \<Rightarrow> string \<Rightarrow> 'p \<Rightarrow> string option \<times> 'p"
  pc_stop :: "uuids \<Rightarrow> 'p \<Rightarrow> string option \<times> 'p"
  pc_execute :: "uuids \<Rightarrow> 'p \<Rightarrow> string option \<times> 'p"
  pc_stopWake :: "uuids \<Rightarrow> 'p \<Rightarrow> string option \<times> 'p"
  pc_run :: "uuids \<Rightarrow> string \<Rightarrow> 'p \<Rightarrow> string option \<times> 'p"
  pc_flush :: "uuids \<Rightarrow> 'p \<Rightarrow> string option \<times> 'p"

text \<open>What a class that overrides nothing has.\<close>

definition base_class :: "json_lib \<Rightarrow> 'a nls_param_scheme param_class" where
  "base_class L = \<lparr>pc_start = base_getStartCommand L, pc_control = base_getControlCommand L, pc_stop = base_getStopCommand L,
     pc_execute = (\<lambda>u. base_getExecuteDialog), pc_stopWake = (\<lambda>u. base_getStopWakeWordCommand),
     pc_run = (\<lambda>u t. base_getRunFlowingSynthesisCommand), pc_flush = (\<lambda>u. base_getFlushFlowingTextCommand)\<rparr>"

definition st_class :: "json_lib \<Rightarrow> st_param param_class" where
  "st_class L = (base_class L)\<lparr>pc_start := st_getStartCommand L, pc_control := st_getControlCommand L, pc_stop := st_getStopCommand L\<rparr>"

definition sr_class :: "json_lib \<Rightarrow> nls_param param_class" where
  "sr_class L = (base_class L)\<lparr>pc_start := sr_getStartCommand L, pc_stop := sr_getStopCommand L\<rparr>"

definition da_class :: "json_lib \<Rightarrow> nls_param param_class" where
  "da_class L = (base_class L)\<lparr>pc_start := da_getStartCommand L, pc_stop := da_getStopCommand L,
     pc_execute := da_getExecuteDialog L, pc_stopWake := da_getStopWakeWordCommand L\<rparr>"

definition sy_class :: "json_lib \<Rightarrow> nls_param param_class" where
  "sy_class L = (base_class L)\<lparr>pc_start := sy_getStartCommand L, pc_stop := sy_getStopCommand\<rparr>"

definition fs_class :: "json_lib \<Rightarrow> fs_param param_class" where
  "fs_class L = (base_class L)\<lparr>pc_start := fs_getStartCommand L, pc_stop := fs_getStopCommand L,
     pc_run := fs_getRunFlowingSynthesisCommand L, pc_flush := fs_getFlushFlowingTextCommand L\<rparr>"

section \<open>What the node asks\<close>

definition offsets_of :: "NodeReconnection \<Rightarrow> (64 word \<times> 64 word) option" where
  "offsets_of rc =
     (if rc_state rc = TriggerReconnection
      then Some (rc_interruption_timestamp_ms rc - rc_first_audio_timestamp_ms rc, rc_tw_index_offset rc) else None)"

definition offset_members :: "64 word \<Rightarrow> 64 word \<Rightarrow> json_object" where
  "offset_members time index =
     put_member ''tw_index_offset'' (JInt (uint index)) (put_member ''tw_time_offset'' (JInt (uint time)) [])"

text \<open>The case of \<open>CmdStart\<close>. \<open>None\<close> is an exception of the writer, which nobody catches here.\<close>

definition start_with_offsets ::
  "'a nls_param_scheme param_class \<Rightarrow> json_lib \<Rightarrow> (64 word \<times> 64 word) option \<Rightarrow> uuids \<Rightarrow> 'a nls_param_scheme
     \<Rightarrow> (string option \<times> 'a nls_param_scheme) option" where
  "start_with_offsets V L offsets u p =
     (case offsets of
        None \<Rightarrow> Some (pc_start V u p)
      | Some (time, index) \<Rightarrow>
          map_option
            (\<lambda>buf. let (text, p1) = pc_start V u (snd (setPayloadParam L (Some (c_str buf)) p)) in
               (text, snd (removePayloadParam (Some ''tw_index_offset'') (snd (removePayloadParam (Some ''tw_time_offset'') p1)))))
            (js_write L (JObject (offset_members time index))))"

definition param_command ::
  "'a nls_param_scheme param_class \<Rightarrow> json_lib \<Rightarrow> CmdType \<Rightarrow> string \<Rightarrow> NodeReconnection \<Rightarrow> uuids \<Rightarrow> 'a nls_param_scheme
     \<Rightarrow> (string option \<times> 'a nls_param_scheme) option" where
  "param_command V L type msg rc u p =
     (case type of
        CmdStart \<Rightarrow> start_with_offsets V L (offsets_of rc) u p
      | CmdStControl \<Rightarrow> Some (pc_control V u msg p)
      | CmdStop \<Rightarrow> Some (pc_stop V u p)
      | CmdTextDialog \<Rightarrow> Some (pc_execute V u p)
      | CmdWarkWord \<Rightarrow> Some (pc_stopWake V u p)
      | CmdSendText \<Rightarrow> Some (pc_run V u msg p)
      | CmdSendPing \<Rightarrow> Some (Some ''{ping}'', p)
      | CmdSendFlush \<Rightarrow> Some (pc_flush V u p)
      | CmdCancel \<Rightarrow> Some (None, p)
      | CmdExecuteDialog \<Rightarrow> Some (None, p))"

text \<open>The parameters as a connection node sees them for its next command.\<close>

definition as_request_param :: "'a nls_param_scheme param_class \<Rightarrow> json_lib \<Rightarrow> uuids \<Rightarrow> 'a nls_param_scheme \<Rightarrow> request_param" where
  "as_request_param V L u p = \<lparr>rp_url = np_url p, rp_token = np_token p, rp_taskId = np_task_id p,
     rp_outputFormat = np_outputFormat p, rp_format = np_format p, rp_httpHeader = fst (GetHttpHeader p),
     rp_requestType = np_requestType p, rp_mode = np_mode p, rp_sampleRate = np_sampleRate p,
     rp_enableWakeWord = np_enableWakeWord p, rp_enableRecvTimeout = np_enableRecvTimeout p,
     rp_enableOnMessage = np_enableOnMessage p, rp_enableReconnect = np_enableReconnect p,
     rp_startCommand = (\<lambda>offsets. Option.bind (start_with_offsets V L offsets u p) fst),
     rp_controlCommand = (\<lambda>msg. fst (pc_control V u msg p)), rp_stopCommand = fst (pc_stop V u p),
     rp_executeDialog = fst (pc_execute V u p), rp_stopWakeWordCommand = fst (pc_stopWake V u p),
     rp_runFlowingCommand = (\<lambda>msg. fst (pc_run V u msg p)), rp_flushFlowingCommand = fst (pc_flush V u p)\<rparr>"

end
