(* ===== verification/RequestCommands.thy ===== *)
theory RequestCommands
  imports RequestClasses "HOL-Library.Monad_Syntax"
begin

text \<open>
  The contract of the commands of a request: the locale states it for a class of parameters, the interpretations show
  it for the five services. From it: the commands of a session name one task, a reconnection leaves the
  settings as they were, and the node's view of the parameters is right.
\<close>

section \<open>Members of an object\<close>

lemma str_less_same: "\<not> str_less a b \<Longrightarrow> \<not> str_less b a \<Longrightarrow> a = b"
  using str_less_total by blast

lemma member_put [simp]: "member (put_member k v obj) k' = (if k = k' then Some v else member obj k')"
proof -
  have "map_get str_less k (map_put str_less k v obj) = Some v"
    by (induction obj) (auto simp: str_less_irrefl dest: str_less_same)
  then show ?thesis by (cases "k = k'") (simp_all add: member_def put_member_def string_map.get_put_other)
qed

lemma member_Nil [simp]: "member [] k = None"
  by (simp add: member_def)

lemma remove_put_same: "remove_member k (put_member k v obj) = remove_member k obj"
  unfolding remove_member_def put_member_def map_erase_def 
  by (induction obj) (auto simp: str_less_irrefl dest: str_less_same)

lemma remove_absent: "member obj k = None \<Longrightarrow> remove_member k obj = obj"
  unfolding member_def remove_member_def map_erase_def by (induction obj) (auto split: if_splits)

lemma member_remove: "member (remove_member k obj) k' = (if k = k' then None else member obj k')"
  unfolding member_def remove_member_def map_erase_def by (induction obj) auto

lemma remove_twice: "remove_member a (remove_member b (put_member a v obj)) = remove_member a (remove_member b obj)"
proof -
  have "remove_member a (remove_member b o1) = remove_member b (remove_member a o1)" for o1
    unfolding remove_member_def map_erase_def by (simp add: conj_commute)
  then show ?thesis by (simp add: remove_put_same)
qed

text \<open>The two offsets of a reconnection.\<close>

lemma copied_offsets:
  "copy_members (offset_members time index) obj =
    put_member ''tw_time_offset'' (JInt (uint time)) (put_member ''tw_index_offset'' (JInt (uint index)) obj)"
proof -
  have "map fst (offset_members time index) = [''tw_index_offset'', ''tw_time_offset'']"
    by (simp add: offset_members_def put_member_def)
  then show ?thesis by (simp add: copy_members_def member_or_null_def offset_members_def c_str_def)
qed

section \<open>The contract\<close>

text \<open>A text that is the writer's text of an object with a header that names the task and the message; or an empty text,
  which a service answers for a command it does not have; or the text of a ping; or none.\<close>

definition carries :: "json_lib \<Rightarrow> string \<Rightarrow> string \<Rightarrow> string option \<Rightarrow> bool" where
  "carries L task msgid r \<longleftrightarrow>
     (case r of
        None \<Rightarrow> True
      | Some t \<Rightarrow> t = [] \<or> t = ''{ping}'' \<or>
          (\<exists>obj h. js_write L (JObject obj) = Some t \<and> member obj ''header'' = Some (JObject h)
             \<and> member h ''task_id'' = Some (JString task) \<and> member h ''message_id'' = Some (JString msgid)))"

text \<open>What the connection node reads of the parameters besides the commands, and the context.\<close>

definition node_settings :: "'a nls_param_scheme \<Rightarrow> _" where
  "node_settings p = (np_url p, np_token p, np_outputFormat p, np_format p, np_httpHeader p, np_requestType p, np_mode p,
     np_sampleRate p, np_enableWakeWord p, np_enableRecvTimeout p, np_enableOnMessage p, np_enableReconnect p, np_context p)"

lemma removed_payload: "snd (removePayloadParam (Some k) p) = p\<lparr>np_payload := remove_member k (np_payload p)\<rparr>"
  by (auto simp: removePayloadParam_def remove_absent)

lemma node_settings_payload [simp]: "node_settings (p\<lparr>np_payload := x\<rparr>) = node_settings p"
  by (simp add: node_settings_def)

definition command_ok :: "json_lib \<Rightarrow> uuids \<Rightarrow> string \<Rightarrow> 'a nls_param_scheme \<Rightarrow> string option \<times> 'a nls_param_scheme \<Rightarrow> bool" where
  "command_ok L u task p x \<longleftrightarrow>
     carries L task (snd u) (fst x) \<and> np_task_id (snd x) = task \<and> node_settings (snd x) = node_settings p"

fun run_commands ::
  "'a nls_param_scheme param_class \<Rightarrow> json_lib \<Rightarrow> (CmdType \<times> string \<times> NodeReconnection \<times> uuids) list \<Rightarrow> 'a nls_param_scheme
     \<Rightarrow> (string option list \<times> 'a nls_param_scheme) option" where
  "run_commands V L [] p = Some ([], p)"
| "run_commands V L ((type, msg, rc, u) # cs) p =
     do {
       (r, p1) \<leftarrow> param_command V L type msg rc u p;
       (rs, p2) \<leftarrow> run_commands V L cs p1;
       Some (r # rs, p2)
     }"

locale command_contract =
  fixes L :: json_lib and V :: "'a nls_param_scheme param_class"
  assumes start_law: "command_ok L u (fst u) p (pc_start V u p)"
    and start_payload: "np_payload (snd (pc_start V u p)) = np_payload p"
    and start_text: "pc_start V u p = (Some t, p') \<Longrightarrow>
      \<exists>obj. js_write L (JObject obj) = Some t \<and> member obj ''payload'' = Some (JObject (np_payload p))"
    and control_law: "command_ok L u (np_task_id p) p (pc_control V u msg p)"
    and stop_law: "command_ok L u (np_task_id p) p (pc_stop V u p)"
    and execute_law: "command_ok L u (np_task_id (snd (pc_execute V u p))) p (pc_execute V u p)"
    and stopWake_law: "command_ok L u (np_task_id p) p (pc_stopWake V u p)"
    and run_law: "command_ok L u (np_task_id p) p (pc_run V u msg p)"
    and flush_law: "command_ok L u (np_task_id p) p (pc_flush V u p)"
begin

lemma start_offsets:
  assumes "start_with_offsets V L offsets u p = Some (r, p')"
  shows "command_ok L u (fst u) p (r, p')"
proof (cases offsets)
  case None
  with assms start_law [of u p] show ?thesis by (simp add: start_with_offsets_def)
next
  case (Some ti)
  then obtain time index buf where ti: "ti = (time, index)" "js_write L (JObject (offset_members time index)) = Some buf"
    using assms by (cases ti) (auto simp: start_with_offsets_def)
  define p0 where "p0 = snd (setPayloadParam L (Some (c_str buf)) p)"
  have p0: "node_settings p0 = node_settings p"
    by (auto simp: p0_def setPayloadParam_def split: option.split)
  obtain r1 p1 where 1: "pc_start V u p0 = (r1, p1)" by fastforce
  have "r = r1" "np_task_id p' = np_task_id p1" "node_settings p' = node_settings p1"
    using assms 1 by (auto simp: start_with_offsets_def Some ti removed_payload p0_def [symmetric] Let_def)
  with start_law [of u p0] p0 1 show ?thesis by (simp add: command_ok_def)
qed

lemma other_command:
  assumes "param_command V L type msg rc u p = Some (r, p')" and "type \<noteq> CmdStart" "type \<noteq> CmdTextDialog"
  shows "command_ok L u (np_task_id p) p (r, p')"
proof -
  have ping: "command_ok L u (np_task_id p) p (Some ''{ping}'', p)" and none: "command_ok L u (np_task_id p) p (None, p)"
    by (simp_all add: command_ok_def carries_def)
  show ?thesis
    using assms ping none control_law [of u p msg] stop_law [of u p] stopWake_law [of u p] run_law [of u p msg] flush_law [of u p]
    by (cases type) (auto simp: param_command_def)
qed

lemma any_command:
  assumes "param_command V L type msg rc u p = Some (r, p')"
  shows "command_ok L u (np_task_id p') p (r, p')"
proof -
  consider (start) "type = CmdStart" | (dialog) "type = CmdTextDialog" | "type \<noteq> CmdStart" "type \<noteq> CmdTextDialog" by blast
  then show ?thesis
  proof cases
    case start
    with start_offsets [of "offsets_of rc" u p r p'] assms show ?thesis by (simp add: param_command_def command_ok_def)
  next
    case dialog
    with execute_law [of u p] assms show ?thesis by (simp add: param_command_def)
  next
    case 3
    from other_command [OF assms this] show ?thesis by (simp add: command_ok_def)
  qed
qed

text \<open>The start of a reconnection.\<close>

lemma offsets_sent:
  assumes "start_with_offsets V L (Some (time, index)) u p = Some (r, p')"
    and "js_write L (JObject (offset_members time index)) = Some buf"
    and "js_parse L (c_str buf) = Some (JObject (offset_members time index))"
  shows "np_payload p' = remove_member ''tw_index_offset'' (remove_member ''tw_time_offset'' (np_payload p))"
    and "r = Some t \<Longrightarrow> \<exists>obj pay. js_write L (JObject obj) = Some t \<and> member obj ''payload'' = Some (JObject pay)
      \<and> (\<forall>k. member pay k = (if k = ''tw_time_offset'' then Some (JInt (uint time))
          else if k = ''tw_index_offset'' then Some (JInt (uint index)) else member (np_payload p) k))"
proof -
  define p0 where "p0 = snd (setPayloadParam L (Some (c_str buf)) p)"
  have p0: "np_payload p0 = put_member ''tw_time_offset'' (JInt (uint time)) (put_member ''tw_index_offset'' (JInt (uint index)) (np_payload p))"
    using assms(3) by (simp add: p0_def setPayloadParam_def members_of_def copied_offsets)
  obtain p1 where 1: "pc_start V u p0 = (r, p1)"
    "p' = p1\<lparr>np_payload := remove_member ''tw_index_offset'' (remove_member ''tw_time_offset'' (np_payload p1))\<rparr>"
    using assms(1,2) by (cases "pc_start V u p0") (auto simp: start_with_offsets_def p0_def [symmetric] removed_payload)
  have "np_payload p1 = np_payload p0" using start_payload [of u p0] 1(1) by simp
  with 1(2) p0 show "np_payload p' = remove_member ''tw_index_offset'' (remove_member ''tw_time_offset'' (np_payload p))"
    by (simp add: remove_put_same remove_twice)
  assume "r = Some t"
  with start_text [of u p0 t p1] 1(1) obtain obj where
    "js_write L (JObject obj) = Some t" "member obj ''payload'' = Some (JObject (np_payload p0))" by auto
  with p0 show "\<exists>obj pay. js_write L (JObject obj) = Some t \<and> member obj ''payload'' = Some (JObject pay)
      \<and> (\<forall>k. member pay k = (if k = ''tw_time_offset'' then Some (JInt (uint time))
          else if k = ''tw_index_offset'' then Some (JInt (uint index)) else member (np_payload p) k))"
    by auto
qed

text \<open>The commands of one task.\<close>

lemma task_shared:
  assumes "run_commands V L cs p = Some (rs, p')" and "list_all (\<lambda>(type, msg, rc, u). type \<noteq> CmdStart \<and> type \<noteq> CmdTextDialog) cs"
  shows "list_all2 (\<lambda>(type, msg, rc, u). carries L (np_task_id p) (snd u)) cs rs \<and> np_task_id p' = np_task_id p
    \<and> node_settings p' = node_settings p"
  using assms
proof (induction cs arbitrary: p rs)
  case (Cons c cs)
  obtain type msg rc u where c: "c = (type, msg, rc, u)" by (cases c) auto
  from Cons.prems(1) obtain r p1 rs1 where 1: "param_command V L type msg rc u p = Some (r, p1)"
    "run_commands V L cs p1 = Some (rs1, p')" "rs = r # rs1"
    by (auto simp: c split: bind_splits)
  from Cons.prems(2) have ty: "type \<noteq> CmdStart" "type \<noteq> CmdTextDialog"
    and rest: "list_all (\<lambda>(type, msg, rc, u). type \<noteq> CmdStart \<and> type \<noteq> CmdTextDialog) cs" by (simp_all add: c)
  from other_command [OF 1(1) ty] have "carries L (np_task_id p) (snd u) r" "np_task_id p1 = np_task_id p"
    "node_settings p1 = node_settings p" by (simp_all add: command_ok_def)
  with Cons.IH [OF 1(2) rest] 1(3) c show ?case by simp
qed simp

text \<open>A session: a start and the commands after it.\<close>

lemma session_task:
  assumes "param_command V L CmdStart msg rc u p = Some (r, p1)" and "run_commands V L cs p1 = Some (rs, p')"
    and "list_all (\<lambda>(type, msg, rc, u). type \<noteq> CmdStart \<and> type \<noteq> CmdTextDialog) cs"
  shows "carries L (fst u) (snd u) r \<and> list_all2 (\<lambda>(type, msg, rc, v). carries L (fst u) (snd v)) cs rs
    \<and> np_task_id p' = fst u \<and> node_settings p' = node_settings p"
proof -
  from assms(1) have "start_with_offsets V L (offsets_of rc) u p = Some (r, p1)" by (simp add: param_command_def)
  from start_offsets [OF this] have "carries L (fst u) (snd u) r" "np_task_id p1 = fst u" "node_settings p1 = node_settings p"
    by (simp_all add: command_ok_def)
  with task_shared [OF assms(2,3)] show ?thesis by simp
qed

end
section \<open>The five services\<close>

lemma node_settings_header [simp]: "node_settings (set_header k v p) = node_settings p"
  by (simp add: node_settings_def set_header_def)

lemma task_header [simp]: "np_task_id (set_header k v p) = np_task_id p"
  by (simp add: set_header_def)

lemma node_settings_stamp [simp]: "node_settings (stamp_message m p) = node_settings p"
  by (simp add: stamp_message_def)

lemma stamp_fields [simp]:
  "np_task_id (stamp_message m p) = np_task_id p" "np_payload (stamp_message m p) = np_payload p"
  "np_payload (set_header k v p) = np_payload p"
  "np_context (stamp_message m p) = np_context p" "np_context (set_header k v p) = np_context p"
  by (simp_all add: stamp_message_def set_header_def)

lemma stamped [simp]:
  "member (np_header (stamp_message m p)) ''task_id'' = Some (JString (np_task_id p))"
  "member (np_header (stamp_message m p)) ''message_id'' = Some (JString m)"
  by (simp_all add: stamp_message_def set_header_def)

text \<open>An object whose header is a stamped one.\<close>

lemma stamped_text:
  assumes "js_write L (JObject obj) = Some t" and "member obj ''header'' = Some (JObject (np_header (stamp_message m q)))"
  shows "carries L (np_task_id q) m (Some t)"
  using assms unfolding carries_def by auto

lemma copy_field_header [simp]: "k \<noteq> ''header'' \<Longrightarrow> member (copy_field k input root) ''header'' = member root ''header''"
  by (simp add: copy_field_def)

lemma node_settings_updates [simp]:
  "node_settings (p\<lparr>np_task_id := x\<rparr>) = node_settings p" "node_settings (p\<lparr>np_startCommand := x\<rparr>) = node_settings p"
  "node_settings (p\<lparr>np_stopCommand := x\<rparr>) = node_settings p" "node_settings (p\<lparr>np_controlCommand := x\<rparr>) = node_settings p"
  "node_settings (set_payload k v p) = node_settings p"
  by (simp_all add: node_settings_def set_payload_def)

text \<open>What every command ends with.\<close>

lemma written_ok:
  assumes "member root ''header'' = Some (JObject (np_header (stamp_message (snd u) q)))" and "np_task_id q = task"
    and "np_task_id p1 = task" and "node_settings p1 = node_settings p"
    and "\<And>t. np_task_id (f t) = task" and "\<And>t. node_settings (f t) = node_settings p"
  shows "command_ok L u task p (case js_write L (JObject root) of None \<Rightarrow> (None, p1) | Some t \<Rightarrow> (Some t, f t))"
proof (cases "js_write L (JObject root)")
  case None
  with assms(3,4) show ?thesis by (simp add: command_ok_def carries_def)
next
  case (Some t)
  from stamped_text [OF Some assms(1)] assms(2,5,6) Some show ?thesis by (simp add: command_ok_def)
qed

lemma base_start_ok:
  "node_settings q = node_settings p \<Longrightarrow> command_ok L u (fst u) p (base_getStartCommand L u q)"
  unfolding base_getStartCommand_def Let_def
  by (rule written_ok [where q = "q\<lparr>np_task_id := fst u\<rparr>"]) simp_all

lemma base_start_payload: "np_payload (snd (base_getStartCommand L u q)) = np_payload q"
  by (simp add: base_getStartCommand_def Let_def split: option.split)

lemma base_start_text:
  assumes "base_getStartCommand L u q = (Some t, q')"
  shows "\<exists>obj. js_write L (JObject obj) = Some t \<and> member obj ''payload'' = Some (JObject (np_payload q))"
proof -
  let ?q = "stamp_message (snd u) (q\<lparr>np_task_id := fst u\<rparr>)"
  let ?root = "put_member ''context'' (JObject (np_context ?q)) (put_member ''payload'' (JObject (np_payload ?q))
    (put_member ''header'' (JObject (np_header ?q)) []))"
  have "js_write L (JObject ?root) = Some t" using assms by (auto simp: base_getStartCommand_def Let_def split: option.splits)
  moreover have "member ?root ''payload'' = Some (JObject (np_payload q))" by simp
  ultimately show ?thesis by blast
qed

lemma base_stop_ok:
  "node_settings q = node_settings p \<Longrightarrow> np_task_id q = task \<Longrightarrow> command_ok L u task p (base_getStopCommand L u q)"
  unfolding base_getStopCommand_def Let_def by (rule written_ok [where q = q]) simp_all

lemma base_control_ok:
  assumes "node_settings q = node_settings p" and "np_task_id q = task"
  shows "command_ok L u task p (base_getControlCommand L u msg q)"
proof (cases "Option.bind (js_parse L msg) members_of")
  case None
  with assms show ?thesis by (simp add: base_getControlCommand_def command_ok_def carries_def)
next
  case (Some input)
  show ?thesis unfolding base_getControlCommand_def Let_def Some option.case
    by (rule written_ok [where q = q]) (simp_all add: assms)
qed

lemma empty_ok: "command_ok L u (np_task_id p) p (Some [], p)"
  by (simp add: command_ok_def carries_def)

lemma flowing_ok:
  "command_ok L u (np_task_id p) p (fs_getRunFlowingSynthesisCommand L u t p)"
  "command_ok L u (np_task_id p) p (fs_getFlushFlowingTextCommand L u p)"
proof -
  have run: "np_task_id (set_payload k v p) = np_task_id p" "np_header (set_payload k v p) = np_header p" for k v and p :: fs_param
    by (simp_all add: set_payload_def)
  show "command_ok L u (np_task_id p) p (fs_getRunFlowingSynthesisCommand L u t p)"
    unfolding fs_getRunFlowingSynthesisCommand_def Let_def
    by (rule written_ok [where q = "set_header ''name'' (JString ''RunSynthesis'') p"])
      (simp_all add: run, simp_all add: node_settings_def set_payload_def stamp_message_def set_header_def)
  show "command_ok L u (np_task_id p) p (fs_getFlushFlowingTextCommand L u p)"
    unfolding fs_getFlushFlowingTextCommand_def Let_def
    by (rule written_ok [where q = "set_header ''name'' (JString ''FlushText'') p"])
      (simp_all, simp_all add: node_settings_def stamp_message_def set_header_def)
qed

lemmas base_class_defs = base_class_def base_getExecuteDialog_def base_getStopWakeWordCommand_def
  base_getRunFlowingSynthesisCommand_def base_getFlushFlowingTextCommand_def

lemmas base_ok = base_start_ok base_stop_ok base_control_ok empty_ok base_start_payload

lemma header_start_text:
  assumes "base_getStartCommand L u (set_header k v p) = (Some t, q')"
  shows "\<exists>obj. js_write L (JObject obj) = Some t \<and> member obj ''payload'' = Some (JObject (np_payload p))"
  using base_start_text [OF assms] by simp

interpretation st: command_contract L "st_class L" for L
  by unfold_locales
    (simp_all add: st_class_def base_class_defs st_getStartCommand_def st_getControlCommand_def st_getStopCommand_def base_ok header_start_text)

interpretation sr: command_contract L "sr_class L" for L
  by unfold_locales (simp_all add: sr_class_def base_class_defs sr_getStartCommand_def sr_getStopCommand_def base_ok header_start_text)

lemma start_task: "np_task_id (snd (base_getStartCommand L u p)) = fst u"
  using base_start_ok [of p p L u] by (simp add: command_ok_def)

interpretation da: command_contract L "da_class L" for L
  by unfold_locales
    (simp_all add: da_class_def base_class_defs da_getStartCommand_def da_getStopCommand_def da_getExecuteDialog_def
      da_getStopWakeWordCommand_def base_ok header_start_text start_task)

interpretation sy: command_contract L "sy_class L" for L
  by unfold_locales (simp_all add: sy_class_def base_class_defs sy_getStartCommand_def sy_getStopCommand_def base_ok header_start_text)

interpretation fs: command_contract L "fs_class L" for L
  by unfold_locales
    (simp_all add: fs_class_def base_class_defs fs_getStartCommand_def fs_getStopCommand_def base_ok header_start_text flowing_ok)

section \<open>Sessions\<close>

text \<open>C17. Every text a transcription sends between its start and the next one is the JSON text of an object whose header names the
  task the start drew and the message's own identifier, whatever controls, stops and pings come in what order, and
  even when the reader or the writer of JSON fails in between; and none of them changes what the node reads of the
  parameters.\<close>

theorem session_names_one_task:
  assumes "param_command (st_class L) L CmdStart msg rc u p = Some (r, p1)"
    and "run_commands (st_class L) L cs p1 = Some (rs, p')"
    and "list_all (\<lambda>(type, msg, rc, u). type \<noteq> CmdStart \<and> type \<noteq> CmdTextDialog) cs"
  shows "carries L (fst u) (snd u) r \<and> list_all2 (\<lambda>(type, msg, rc, v). carries L (fst u) (snd v)) cs rs
    \<and> np_task_id p' = fst u \<and> node_settings p' = node_settings p"
  using assms by (rule st.session_task)

text \<open>A reconnection sends the two offsets in the payload of its start, next to the settings, and leaves the
  payload afterwards as it was but for these two names, so that a later session does not send stale
  offsets. What the user set under the two names is lost.\<close>

theorem reconnection_keeps_payload:
  assumes "rc_state rc = TriggerReconnection"
    and "js_write L (JObject (offset_members (rc_interruption_timestamp_ms rc - rc_first_audio_timestamp_ms rc) (rc_tw_index_offset rc))) = Some buf"
    and "js_parse L (c_str buf) =
      Some (JObject (offset_members (rc_interruption_timestamp_ms rc - rc_first_audio_timestamp_ms rc) (rc_tw_index_offset rc)))"
    and "param_command (st_class L) L CmdStart msg rc u p = Some (Some t, p')"
  shows "np_payload p' = remove_member ''tw_index_offset'' (remove_member ''tw_time_offset'' (np_payload p))
    \<and> (\<exists>obj pay. js_write L (JObject obj) = Some t \<and> member obj ''payload'' = Some (JObject pay)
      \<and> (\<forall>k. member pay k =
          (if k = ''tw_time_offset'' then Some (JInt (uint (rc_interruption_timestamp_ms rc - rc_first_audio_timestamp_ms rc)))
           else if k = ''tw_index_offset'' then Some (JInt (uint (rc_tw_index_offset rc))) else member (np_payload p) k)))"
proof -
  from assms(1,4) have "start_with_offsets (st_class L) L
      (Some (rc_interruption_timestamp_ms rc - rc_first_audio_timestamp_ms rc, rc_tw_index_offset rc)) u p = Some (Some t, p')"
    by (simp add: param_command_def offsets_of_def)
  from st.offsets_sent [OF this assms(2,3)] show ?thesis by blast
qed

section \<open>Commands in the node\<close>

text \<open>What \<open>command_text\<close> reads of the node's view is what the parameters answer.\<close>

lemma command_text_param: "command_text type msg (as_request_param V L u p) rc = Option.bind (param_command V L type msg rc u p) fst"
  by (cases type) (simp_all add: command_text_def param_command_def as_request_param_def offsets_of_def)

text \<open>C21. What a connection node queues for a command of a transcription is one text frame; a server decodes it to the
  text the parameters made, which names the task of the session.\<close>

theorem queued_command_decodes:
  assumes "cn_request n = Some (as_request_param (st_class L) L u p)" and "type \<noteq> CmdSendPing"
    and "param_command (st_class L) L type msg (cn_reconnection n) u p = Some (Some t, p')"
    and "e_calloc E = (\<lambda>_. True)" and "length (c_str t) < 2 ^ 64"
  shows "\<exists>frame. cn_cmdEvBuffer (addCmdDataBuffer E type msg n) = cn_cmdEvBuffer n @ frame
    \<and> rfc_decode (frame @ rest) = Some (True, TEXT_FRAME, bytes_of (c_str t), rest) \<and> carries L (np_task_id p') (snd u) (Some t)"
proof -
  have said: "command_text type msg (as_request_param (st_class L) L u p) (cn_reconnection n) = Some t"
    using assms(3) by (simp add: command_text_param)
  obtain frame where f: "framePackage (\<lambda>_. True) TEXT_FRAME (bytes_of (c_str t)) = (Success, Some frame)"
    using framePackage_ok [of "\<lambda>_. True"] by blast
  have "rfc_decode (frame @ rest) = Some (True, TEXT_FRAME, bytes_of (c_str t), rest)"
    by (rule framed_payload [OF _ _ f]) (use assms(5) in \<open>simp_all add: length_bytes_of\<close>)
  moreover have "cn_cmdEvBuffer (addCmdDataBuffer E type msg n) = cn_cmdEvBuffer n @ frame"
    using said f assms(1,2,4) by (simp add: addCmdDataBuffer_def frame_bytes_def textFrame_def Let_def)
  moreover have "carries L (np_task_id p') (snd u) (Some t)"
    using st.any_command [OF assms(3)] by (simp add: command_ok_def)
  ultimately show ?thesis by blast
qed

section \<open>Examples\<close>

definition json_lib_example :: json_lib where
  "json_lib_example = \<lparr>js_parse = (\<lambda>t. if t = ''tw'' then Some (JObject (offset_members 7 3)) else None),
     js_write = (\<lambda>v. Some (if v = JObject (offset_members 7 3) then ''tw'' else ''doc''))\<rparr>"

definition param_example :: st_param where
  "param_example = SpeechTranscriberParam_new ''cpp''"

definition reconnection_example :: NodeReconnection where
  "reconnection_example = rc_init\<lparr>rc_state := TriggerReconnection, rc_interruption_timestamp_ms := 9, rc_first_audio_timestamp_ms := 2,
     rc_tw_index_offset := 3\<rparr>"

lemma offsets_differ: "put_member a (JObject x) obj \<noteq> offset_members i j"
proof
  assume "put_member a (JObject x) obj = offset_members i j"
  then have "member (offset_members i j) a = Some (JObject x)" using member_put [of a "JObject x" obj a] by simp
  then show False by (simp add: offset_members_def split: if_splits)
qed

lemma start_example: "base_getStartCommand json_lib_example u q = (Some t, q') \<longleftrightarrow>
    t = ''doc'' \<and> q' = (stamp_message (snd u) (q\<lparr>np_task_id := fst u\<rparr>))\<lparr>np_startCommand := ''doc''\<rparr>"
  by (auto simp: base_getStartCommand_def json_lib_example_def Let_def offsets_differ)

definition started_example :: st_param where
  "started_example = snd (the (param_command (st_class json_lib_example) json_lib_example CmdStart [] rc_init (''t'', ''m'') param_example))"

lemma started_example_eq:
  "param_command (st_class json_lib_example) json_lib_example CmdStart [] rc_init (''t'', ''m'') param_example = Some (Some ''doc'', started_example)"
proof -
  obtain r q where "pc_start (st_class json_lib_example) (''t'', ''m'') param_example = (r, q)" by fastforce
  moreover have "fst (pc_start (st_class json_lib_example) (''t'', ''m'') param_example) = Some ''doc''"
    by (simp add: st_class_def st_getStartCommand_def base_getStartCommand_def json_lib_example_def Let_def offsets_differ)
  ultimately show ?thesis
    by (simp add: started_example_def param_command_def start_with_offsets_def offsets_of_def rc_init_def)
qed

lemma run_example_commands:
  "\<exists>rs p'. run_commands (st_class json_lib_example) json_lib_example [(CmdSendPing, [], rc_init, (''x'', ''n'')), (CmdStop, [], rc_init, (''y'', ''o''))]
    started_example = Some (rs, p')"
  by (simp add: param_command_def split: prod.split)

lemma session_names_one_task_witness:
  "\<exists>rs p'. list_all2 (\<lambda>c. carries json_lib_example ''t'' (snd (snd (snd (snd c)))))
      [(CmdSendPing, [] :: string, rc_init, (''x'', ''n'')), (CmdStop, [], rc_init, (''y'', ''o''))] rs \<and> np_task_id (p' :: st_param) = ''t''"
proof -
  from run_example_commands obtain rs p' where
    "run_commands (st_class json_lib_example) json_lib_example [(CmdSendPing, [], rc_init, (''x'', ''n'')), (CmdStop, [], rc_init, (''y'', ''o''))]
      started_example = Some (rs, p')" by blast
  from session_names_one_task [OF started_example_eq this] show ?thesis by (auto simp: list_all2_Cons1)
qed

lemma reconnection_keeps_payload_witness:
  "\<exists>p' obj pay. js_write json_lib_example (JObject obj) = Some ''doc'' \<and> member obj ''payload'' = Some (JObject pay)
    \<and> member pay ''tw_time_offset'' = Some (JInt 7) \<and> member (np_payload (p' :: st_param)) ''tw_time_offset'' = None"
proof -
  let ?r = "the (param_command (st_class json_lib_example) json_lib_example CmdStart [] reconnection_example (''t'', ''m'') param_example)"
  have w: "js_write json_lib_example (JObject (offset_members (rc_interruption_timestamp_ms reconnection_example
      - rc_first_audio_timestamp_ms reconnection_example) (rc_tw_index_offset reconnection_example))) = Some ''tw''"
    and r: "js_parse json_lib_example (c_str ''tw'') = Some (JObject (offset_members (rc_interruption_timestamp_ms reconnection_example
      - rc_first_audio_timestamp_ms reconnection_example) (rc_tw_index_offset reconnection_example)))"
    and s: "rc_state reconnection_example = TriggerReconnection"
    by (simp_all add: json_lib_example_def reconnection_example_def rc_init_def c_str_def)
  have "fst (pc_start (st_class json_lib_example) (''t'', ''m'') q) = Some ''doc''" for q
    by (simp add: st_class_def st_getStartCommand_def base_getStartCommand_def json_lib_example_def Let_def offsets_differ)
  then have c: "param_command (st_class json_lib_example) json_lib_example CmdStart [] reconnection_example (''t'', ''m'') param_example
      = Some (Some ''doc'', snd ?r)"
    using w s by (simp add: param_command_def start_with_offsets_def offsets_of_def case_prod_unfold)
  have d: "rc_interruption_timestamp_ms reconnection_example - rc_first_audio_timestamp_ms reconnection_example = 7"
    by (simp add: reconnection_example_def rc_init_def)
  from reconnection_keeps_payload [OF s w r c] obtain obj pay where "js_write json_lib_example (JObject obj) = Some ''doc''"
    "member obj ''payload'' = Some (JObject pay)" "member pay ''tw_time_offset'' = Some (JInt 7)"
    "member (np_payload (snd ?r)) ''tw_time_offset'' = None"
    unfolding d by (auto simp: member_remove)
  then show ?thesis by blast
qed

lemma queued_command_decodes_witness:
  "\<exists>frame. cn_cmdEvBuffer (addCmdDataBuffer (env_example None) CmdStart []
      (node_example\<lparr>cn_request := Some (as_request_param (st_class json_lib_example) json_lib_example (''t'', ''m'') param_example)\<rparr>))
     = cn_cmdEvBuffer node_example @ frame \<and> rfc_decode (frame @ [9]) = Some (True, TEXT_FRAME, bytes_of ''doc'', [9])"
proof -
  let ?n = "node_example\<lparr>cn_request := Some (as_request_param (st_class json_lib_example) json_lib_example (''t'', ''m'') param_example)\<rparr>"
  have "cn_request ?n = Some (as_request_param (st_class json_lib_example) json_lib_example (''t'', ''m'') param_example)"
    and "param_command (st_class json_lib_example) json_lib_example CmdStart [] (cn_reconnection ?n) (''t'', ''m'') param_example
      = Some (Some ''doc'', started_example)"
    using started_example_eq by (simp_all add: node_example_def)
  from queued_command_decodes [OF this(1) _ this(2), where E = "env_example None" and rest = "[9]"] show ?thesis
    by (auto simp: env_example_def c_str_def node_example_def)
qed

end
