(* ===== verification/Listener.thy ===== *)
theory Listener
  imports NlsEvent
begin

text \<open>
  What the callbacks of the five services share: the pointers kept with the callbacks (\<open>_paramap\<close>), the call of one callback, and the
  locale \<open>listener\<close> of a class whose \<open>handlerFrame\<close> picks a callback by the type of the event. Its lemmas are proved once and hold for
  every service by the interpretations in \<open>Transcriber\<close> and \<open>Services\<close>.
\<close>

section \<open>Pointers and calls\<close>

record 'd callback_base =
  cb_paramap :: "EventType \<rightharpoonup> 'd option"

definition set_para :: "EventType \<Rightarrow> 'd option \<Rightarrow> ('d, 'z) callback_base_scheme \<Rightarrow> ('d, 'z) callback_base_scheme" where
  "set_para t para c =
     (if cb_paramap c t \<noteq> None then c\<lparr>cb_paramap := (cb_paramap c)(t := Some para)\<rparr>
      else c\<lparr>cb_paramap := (cb_paramap c)(t \<mapsto> para)\<rparr>)"

text \<open>A call of a callback that is set, with the event and the pointer; \<open>operator[]\<close> enters a null pointer for a type that
  has none.\<close>

type_synonym ('f, 'd) call = "('f \<times> NlsEvent \<times> 'd option) option"

definition invoke ::
  "'f option \<Rightarrow> EventType \<Rightarrow> NlsEvent \<Rightarrow> ('d, 'z) callback_base_scheme \<Rightarrow> ('f, 'd) call \<times> ('d, 'z) callback_base_scheme" where
  "invoke slot t e c =
     (case slot of
        None \<Rightarrow> (None, c)
      | Some f \<Rightarrow>
          (let para = (case cb_paramap c t of None \<Rightarrow> None | Some d \<Rightarrow> d) in
           (Some (f, e, para), c\<lparr>cb_paramap := (cb_paramap c)(t \<mapsto> para)\<rparr>)))"

section \<open>Use of a listener\<close>

text \<open>What happens to a request: the program sets a callback, or an event arrives.\<close>

datatype ('f, 'd) listener_op = Assign EventType "'f option" "'d option" | Arrive NlsEvent

fun listener_run ::
  "(EventType \<Rightarrow> 'f option \<Rightarrow> 'd option \<Rightarrow> 'c \<Rightarrow> 'c) \<Rightarrow> (NlsEvent \<Rightarrow> 'c \<Rightarrow> ('f, 'd) call \<times> 'c)
     \<Rightarrow> ('f, 'd) listener_op list \<Rightarrow> 'c \<Rightarrow> ('f, 'd) call list" where
  "listener_run assign handle [] c = []"
| "listener_run assign handle (Assign s f d # ops) c = listener_run assign handle ops (assign s f d c)"
| "listener_run assign handle (Arrive e # ops) c = fst (handle e c) # listener_run assign handle ops (snd (handle e c))"

text \<open>The contract: a table from the slots to a callback and its pointer, written by the one and read by the other.\<close>

type_synonym ('f, 'd) table = "EventType \<Rightarrow> ('f \<times> 'd option) option"

definition table_set :: "(EventType \<Rightarrow> EventType) \<Rightarrow> EventType \<Rightarrow> 'f option \<Rightarrow> 'd option \<Rightarrow> ('f, 'd) table \<Rightarrow> ('f, 'd) table" where
  "table_set slot s f d T = (\<lambda>t. if slot s = slot t then map_option (\<lambda>g. (g, d)) f else T t)"

definition table_call :: "NlsEvent \<Rightarrow> ('f, 'd) table \<Rightarrow> ('f, 'd) call" where
  "table_call e T = map_option (\<lambda>(f, d). (f, e, d)) (T (ev_msgType e))"

fun table_run :: "(EventType \<Rightarrow> EventType) \<Rightarrow> ('f, 'd) listener_op list \<Rightarrow> ('f, 'd) table \<Rightarrow> ('f, 'd) call list" where
  "table_run slot [] T = []"
| "table_run slot (Assign s f d # ops) T = table_run slot ops (table_set slot s f d T)"
| "table_run slot (Arrive e # ops) T = table_call e T # table_run slot ops T"

text \<open>The table of an object whose callback for a slot is \<open>field\<close>.\<close>

definition table_of ::
  "(('d, 'z) callback_base_scheme \<Rightarrow> EventType \<Rightarrow> 'f option) \<Rightarrow> (EventType \<Rightarrow> EventType) \<Rightarrow> ('d, 'z) callback_base_scheme \<Rightarrow> ('f, 'd) table" where
  "table_of field slot c t =
     map_option (\<lambda>f. (f, case cb_paramap c (slot t) of None \<Rightarrow> None | Some d \<Rightarrow> d)) (field c (slot t))"

section \<open>The interface\<close>

locale listener =
  fixes assign :: "EventType \<Rightarrow> 'f option \<Rightarrow> 'd option \<Rightarrow> 'c \<Rightarrow> 'c" and handle :: "NlsEvent \<Rightarrow> 'c \<Rightarrow> ('f, 'd) call \<times> 'c"
    and slot :: "EventType \<Rightarrow> EventType" and tab :: "'c \<Rightarrow> ('f, 'd) table"
  assumes tab_assign: "tab (assign s f d c) = table_set slot s f d (tab c)"
    and call_handle: "fst (handle e c) = table_call e (tab c)"
    and tab_handle: "tab (snd (handle e c)) = tab c"
begin

lemma runs_as_table: "listener_run assign handle ops c = table_run slot ops (tab c)"
proof (induction ops arbitrary: c)
  case (Cons op ops)
  then show ?case by (cases op) (simp_all add: tab_assign call_handle tab_handle)
qed simp

lemma last_assigned:
  assumes "slot s = slot (ev_msgType e)"
  shows "fst (handle e (assign s f d c)) = map_option (\<lambda>g. (g, e, d)) f"
  using assms by (simp add: call_handle tab_assign table_call_def table_set_def option.map_comp comp_def)

end

lemma table_of_invoke:
  assumes "\<And>k. field (c\<lparr>cb_paramap := k\<rparr>) = field c"
  shows "table_of field slot (snd (invoke g s e c)) = table_of field slot c"
  using assms by (cases g) (auto simp: fun_eq_iff table_of_def invoke_def Let_def split: option.split)

lemma call_invoke: "fst (invoke (field c (slot t)) (slot t) e c) = map_option (\<lambda>(f, d). (f, e, d)) (table_of field slot c t)"
  by (simp add: invoke_def table_of_def Let_def option.map_comp comp_def split: option.split)

lemma table_of_assign:
  assumes "\<And>t. field c' (slot t) = (if slot s = slot t then f else field c (slot t))"
    and "cb_paramap c' = (cb_paramap c)(slot s \<mapsto> d)"
  shows "table_of field slot c' = table_set slot s f d (table_of field slot c)"
  using assms by (auto simp: fun_eq_iff table_of_def table_set_def)

end
