(* ===== verification/Transcriber.thy ===== *)
theory Transcriber
  imports RequestCommands Asr Listener
begin

text \<open>
  The request the relay uses: its settings (\<open>framework/feature/st/speechTranscriberRequest.cpp\<close>), its callbacks and
  the listener that calls them (\<open>speechTranscriberListener.cpp\<close>), and what \<open>Asr::start\<close> sets.
\<close>

section \<open>Settings of a request\<close>

text \<open>The calls of the setters, a \<open>NULL\<close> text as \<open>None\<close>.\<close>

datatype st_call =
    SetPayloadParam "string option" | SetContextParam "string option" | SetToken "string option" | SetUrl "string option"
  | SetAppKey "string option" | SetFormat "string option" | SetSampleRate int | SetIntermediateResult bool
  | SetPunctuationPrediction bool | SetInverseTextNormalization bool
  | AppendHttpHeaderParam "string option" "string option" | SetSemanticSentenceDetection bool | SetMaxSentenceSilence int
  | SetCustomizationId "string option" | SetVocabularyId "string option" | SetTimeout int | SetEnableRecvTimeout bool
  | SetRecvTimeout int | SetSendTimeout int | SetOutputFormat "string option" | SetEnableOnMessage bool
  | SetEnableContinued bool | SetNlpModel "string option" | SetEnableNlp bool | SetSessionId "string option"
  | SetEnableWords bool | SetEnableIgnoreSentenceTimeout bool | SetDisfluency bool | SetSpeechNoiseThreshold "64 word"

text \<open>\<open>INPUT_REQUEST_PARAM_CHECK\<close> and \<open>INPUT_PARAM_STRING_CHECK\<close>; \<open>None\<close> is a request without parameters.\<close>

definition with_param :: "('p \<Rightarrow> int \<times> 'p) \<Rightarrow> 'p option \<Rightarrow> int \<times> 'p option" where
  "with_param f r = (case r of None \<Rightarrow> (- InvalidRequest, None) | Some p \<Rightarrow> (let (ret, p') = f p in (ret, Some p')))"

definition with_string :: "string option \<Rightarrow> (string \<Rightarrow> 'p \<Rightarrow> int \<times> 'p) \<Rightarrow> 'p option \<Rightarrow> int \<times> 'p option" where
  "with_string v f r = (case v of None \<Rightarrow> (- InvalidInputParam, r) | Some s \<Rightarrow> with_param (f s) r)"

definition done_with :: "('a \<Rightarrow> 'a) \<Rightarrow> 'a \<Rightarrow> int \<times> 'a" where
  "done_with f p = (Success, f p)"

fun st_setting :: "json_lib \<Rightarrow> st_call \<Rightarrow> st_param option \<Rightarrow> int \<times> st_param option" where
  "st_setting L (SetPayloadParam v) = with_string v (\<lambda>s. setPayloadParam L (Some s))"
| "st_setting L (SetContextParam v) = with_string v (setContextParam L)"
| "st_setting L (SetToken v) = with_string v (\<lambda>s. done_with (np_token_update (\<lambda>_. s)))"
| "st_setting L (SetUrl v) = with_string v (\<lambda>s. done_with (np_url_update (\<lambda>_. s)))"
| "st_setting L (SetAppKey v) = with_string v (\<lambda>s. done_with (setAppKey s))"
| "st_setting L (SetFormat v) = with_string v (\<lambda>s. done_with (setFormat s))"
| "st_setting L (SetSampleRate i) = with_param (done_with (setSampleRate i))"
| "st_setting L (SetIntermediateResult b) = with_param (done_with (setIntermediateResult b))"
| "st_setting L (SetPunctuationPrediction b) = with_param (done_with (setPunctuationPrediction b))"
| "st_setting L (SetInverseTextNormalization b) = with_param (done_with (setTextNormalization b))"
| "st_setting L (AppendHttpHeaderParam k v) = with_param (AppendHttpHeader k v)"
| "st_setting L (SetSemanticSentenceDetection b) = with_param (done_with (setSentenceDetection b))"
| "st_setting L (SetMaxSentenceSilence i) = with_param (done_with (st_setMaxSentenceSilence i))"
| "st_setting L (SetCustomizationId v) = with_string v (\<lambda>s. done_with (setCustomizationId s))"
| "st_setting L (SetVocabularyId v) = with_string v (\<lambda>s. done_with (setVocabularyId s))"
| "st_setting L (SetTimeout i) = with_param (done_with (np_timeout_update (\<lambda>_. i)))"
| "st_setting L (SetEnableRecvTimeout b) = with_param (done_with (np_enableRecvTimeout_update (\<lambda>_. b)))"
| "st_setting L (SetRecvTimeout i) = with_param (done_with (np_recv_timeout_update (\<lambda>_. i)))"
| "st_setting L (SetSendTimeout i) = with_param (done_with (np_send_timeout_update (\<lambda>_. i)))"
| "st_setting L (SetOutputFormat v) = with_string v (\<lambda>s. done_with (np_outputFormat_update (\<lambda>_. s)))"
| "st_setting L (SetEnableOnMessage b) = with_param (done_with (np_enableOnMessage_update (\<lambda>_. b)))"
| "st_setting L (SetEnableContinued b) = with_param (done_with (np_enableReconnect_update (\<lambda>_. b)))"
| "st_setting L (SetNlpModel v) = with_string v (\<lambda>s. done_with (st_setNlpModel s))"
| "st_setting L (SetEnableNlp b) = with_param (done_with (st_setEnableNlp b))"
| "st_setting L (SetSessionId v) = with_string v (\<lambda>s. done_with (setSessionId s))"
| "st_setting L (SetEnableWords b) = with_param (done_with (st_setEnableWords b))"
| "st_setting L (SetEnableIgnoreSentenceTimeout b) = with_param (done_with (st_setEnableIgnoreSentenceTimeout b))"
| "st_setting L (SetDisfluency b) = with_param (done_with (st_setDisfluency b))"
| "st_setting L (SetSpeechNoiseThreshold v) = with_param (done_with (st_setSpeechNoiseThreshold v))"

definition st_settings :: "json_lib \<Rightarrow> st_call list \<Rightarrow> st_param option \<Rightarrow> st_param option" where
  "st_settings L cs r = fold (\<lambda>c. snd \<circ> st_setting L c) cs r"

section \<open>Callbacks\<close>

record ('f, 'd) st_callback = "'d callback_base" +
  sc_onTaskFailed :: "'f option"
  sc_onTranscriptionStarted :: "'f option"
  sc_onSentenceBegin :: "'f option"
  sc_onTranscriptionResultChanged :: "'f option"
  sc_onSentenceEnd :: "'f option"
  sc_onTranscriptionCompleted :: "'f option"
  sc_onChannelClosed :: "'f option"
  sc_onSentenceSemantics :: "'f option"
  sc_onMessage :: "'f option"

text \<open>The constructor does not set \<open>_onSentenceSemantics\<close>: it is whatever the memory held.\<close>

definition SpeechTranscriberCallback_new :: "'f option \<Rightarrow> ('f, 'd) st_callback" where
  "SpeechTranscriberCallback_new memory = \<lparr>cb_paramap = Map.empty, sc_onTaskFailed = None, sc_onTranscriptionStarted = None, sc_onSentenceBegin = None,
     sc_onTranscriptionResultChanged = None, sc_onSentenceEnd = None, sc_onTranscriptionCompleted = None,
     sc_onChannelClosed = None, sc_onSentenceSemantics = memory, sc_onMessage = None\<rparr>"

definition setOnTaskFailed :: "'f option \<Rightarrow> 'd option \<Rightarrow> ('f, 'd) st_callback \<Rightarrow> ('f, 'd) st_callback" where
  "setOnTaskFailed f para c = set_para TaskFailed para (c\<lparr>sc_onTaskFailed := f\<rparr>)"

definition setOnTranscriptionStarted :: "'f option \<Rightarrow> 'd option \<Rightarrow> ('f, 'd) st_callback \<Rightarrow> ('f, 'd) st_callback" where
  "setOnTranscriptionStarted f para c = set_para TranscriptionStarted para (c\<lparr>sc_onTranscriptionStarted := f\<rparr>)"

definition setOnSentenceBegin :: "'f option \<Rightarrow> 'd option \<Rightarrow> ('f, 'd) st_callback \<Rightarrow> ('f, 'd) st_callback" where
  "setOnSentenceBegin f para c = set_para SentenceBegin para (c\<lparr>sc_onSentenceBegin := f\<rparr>)"

definition setOnTranscriptionResultChanged :: "'f option \<Rightarrow> 'd option \<Rightarrow> ('f, 'd) st_callback \<Rightarrow> ('f, 'd) st_callback" where
  "setOnTranscriptionResultChanged f para c =
     set_para TranscriptionResultChanged para (c\<lparr>sc_onTranscriptionResultChanged := f\<rparr>)"

definition setOnSentenceEnd :: "'f option \<Rightarrow> 'd option \<Rightarrow> ('f, 'd) st_callback \<Rightarrow> ('f, 'd) st_callback" where
  "setOnSentenceEnd f para c = set_para SentenceEnd para (c\<lparr>sc_onSentenceEnd := f\<rparr>)"

definition setOnSentenceSemantics :: "'f option \<Rightarrow> 'd option \<Rightarrow> ('f, 'd) st_callback \<Rightarrow> ('f, 'd) st_callback" where
  "setOnSentenceSemantics f para c = set_para SentenceSemantics para (c\<lparr>sc_onSentenceSemantics := f\<rparr>)"

definition setOnMessage :: "'f option \<Rightarrow> 'd option \<Rightarrow> ('f, 'd) st_callback \<Rightarrow> ('f, 'd) st_callback" where
  "setOnMessage f para c = set_para Message para (c\<lparr>sc_onMessage := f\<rparr>)"

definition setOnTranscriptionCompleted :: "'f option \<Rightarrow> 'd option \<Rightarrow> ('f, 'd) st_callback \<Rightarrow> ('f, 'd) st_callback" where
  "setOnTranscriptionCompleted f para c = set_para TranscriptionCompleted para (c\<lparr>sc_onTranscriptionCompleted := f\<rparr>)"

definition setOnChannelClosed :: "'f option \<Rightarrow> 'd option \<Rightarrow> ('f, 'd) st_callback \<Rightarrow> ('f, 'd) st_callback" where
  "setOnChannelClosed f para c = set_para Close para (c\<lparr>sc_onChannelClosed := f\<rparr>)"

definition st_handlerFrame ::
  "NlsEvent \<Rightarrow> ('f, 'd) st_callback \<Rightarrow> ('f, 'd) call \<times> ('f, 'd) st_callback" where
  "st_handlerFrame e c =
     (case ev_msgType e of
        TranscriptionStarted \<Rightarrow> invoke (sc_onTranscriptionStarted c) TranscriptionStarted e c
      | SentenceBegin \<Rightarrow> invoke (sc_onSentenceBegin c) SentenceBegin e c
      | TranscriptionResultChanged \<Rightarrow> invoke (sc_onTranscriptionResultChanged c) TranscriptionResultChanged e c
      | SentenceEnd \<Rightarrow> invoke (sc_onSentenceEnd c) SentenceEnd e c
      | SentenceSemantics \<Rightarrow> invoke (sc_onSentenceSemantics c) SentenceSemantics e c
      | TranscriptionCompleted \<Rightarrow> invoke (sc_onTranscriptionCompleted c) TranscriptionCompleted e c
      | Message \<Rightarrow> invoke (sc_onMessage c) Message e c
      | Close \<Rightarrow> invoke (sc_onChannelClosed c) Close e c
      | _ \<Rightarrow> invoke (sc_onTaskFailed c) TaskFailed e c)"

section \<open>What the relay sets\<close>

datatype relay_callback =
    OnTranscriptionStarted | OnTranscriptionResultChanged | OnTranscriptionCompleted | OnSentenceBegin | OnSentenceEnd
  | OnTaskFailed | OnChannelClosed

text \<open>\<open>Asr::start\<close>: the callbacks, each with the recogniser \<open>this\<close>, and the settings.\<close>

definition asr_callbacks :: "'d \<Rightarrow> (relay_callback, 'd) st_callback \<Rightarrow> (relay_callback, 'd) st_callback" where
  "asr_callbacks this =
     setOnChannelClosed (Some OnChannelClosed) (Some this) \<circ> setOnTaskFailed (Some OnTaskFailed) (Some this)
     \<circ> setOnSentenceEnd (Some OnSentenceEnd) (Some this) \<circ> setOnSentenceBegin (Some OnSentenceBegin) (Some this)
     \<circ> setOnTranscriptionCompleted (Some OnTranscriptionCompleted) (Some this)
     \<circ> setOnTranscriptionResultChanged (Some OnTranscriptionResultChanged) (Some this)
     \<circ> setOnTranscriptionStarted (Some OnTranscriptionStarted) (Some this)"

definition asr_settings :: "transcriber_config \<Rightarrow> st_call list" where
  "asr_settings c =
     [SetEnableContinued (tc_enableContinued c), SetFormat (Some (tc_format c)), SetAppKey (Some (tc_appKey c)),
      SetToken (Some (tc_token c)), SetUrl (Some (tc_url c)), SetSampleRate (tc_sampleRate c),
      SetIntermediateResult (tc_intermediateResult c), SetPunctuationPrediction (tc_punctuationPrediction c),
      SetInverseTextNormalization (tc_inverseTextNormalization c), SetEnableWords (tc_enableWords c),
      SetSemanticSentenceDetection (tc_semanticSentenceDetection c), SetMaxSentenceSilence (tc_maxSentenceSilence c)]"

text \<open>What each callback does to the relay: three of them print.\<close>

definition run_callback ::
  "'s speech_sdk \<Rightarrow> token_source \<Rightarrow> 'c muter \<Rightarrow> int \<Rightarrow> (Dictionary \<Rightarrow> string list) \<Rightarrow> relay_callback \<Rightarrow> NlsEvent
     \<Rightarrow> ('c, 'w, 's) relay \<Rightarrow> ('c, 'w, 's) relay outcome option" where
  "run_callback S T mute index order f e X =
     (case f of
        OnSentenceEnd \<Rightarrow> onSentenceEnd mute index order e X
      | OnTaskFailed \<Rightarrow> Some (Returns (restart_asr S T X))
      | OnChannelClosed \<Rightarrow> Some (Returns (restart_asr S T X))
      | _ \<Rightarrow> Some (Returns X))"

section \<open>Settings are all or nothing\<close>

lemmas setting_defs = with_string_def with_param_def done_with_def setPayloadParam_def setContextParam_def AppendHttpHeader_def

text \<open>A setter that answers anything but success leaves the request as it was, and it refuses exactly a null text, a
  request without parameters, and a text that is not the JSON text of an object.\<close>

theorem refused_setting_keeps:
  assumes "fst (st_setting L c r) \<noteq> Success"
  shows "snd (st_setting L c r) = r
    \<and> fst (st_setting L c r) \<in> {- InvalidInputParam, - InvalidRequest, - JsonParseFailed, - JsonObjectError}"
  using assms by (cases c) (auto simp: setting_defs split: option.splits prod.splits)

section \<open>The callback that runs\<close>

text \<open>The type under which the listener files an event, and the callback of an object for it.\<close>

definition st_slot :: "EventType \<Rightarrow> EventType" where
  "st_slot t = (if t \<in> {TranscriptionStarted, SentenceBegin, TranscriptionResultChanged, SentenceEnd, SentenceSemantics,
     TranscriptionCompleted, Message, Close} then t else TaskFailed)"

definition st_field :: "('f, 'd) st_callback \<Rightarrow> EventType \<Rightarrow> 'f option" where
  "st_field c t =
     (case t of
        TranscriptionStarted \<Rightarrow> sc_onTranscriptionStarted c
      | SentenceBegin \<Rightarrow> sc_onSentenceBegin c
      | TranscriptionResultChanged \<Rightarrow> sc_onTranscriptionResultChanged c
      | SentenceEnd \<Rightarrow> sc_onSentenceEnd c
      | SentenceSemantics \<Rightarrow> sc_onSentenceSemantics c
      | TranscriptionCompleted \<Rightarrow> sc_onTranscriptionCompleted c
      | Message \<Rightarrow> sc_onMessage c
      | Close \<Rightarrow> sc_onChannelClosed c
      | _ \<Rightarrow> sc_onTaskFailed c)"

fun st_assign :: "EventType \<Rightarrow> 'f option \<Rightarrow> 'd option \<Rightarrow> ('f, 'd) st_callback \<Rightarrow> ('f, 'd) st_callback" where
  "st_assign TranscriptionStarted = setOnTranscriptionStarted"
| "st_assign SentenceBegin = setOnSentenceBegin"
| "st_assign TranscriptionResultChanged = setOnTranscriptionResultChanged"
| "st_assign SentenceEnd = setOnSentenceEnd"
| "st_assign SentenceSemantics = setOnSentenceSemantics"
| "st_assign TranscriptionCompleted = setOnTranscriptionCompleted"
| "st_assign Message = setOnMessage"
| "st_assign Close = setOnChannelClosed"
| "st_assign _ = setOnTaskFailed"

lemmas setters = setOnTaskFailed_def setOnTranscriptionStarted_def setOnSentenceBegin_def setOnTranscriptionResultChanged_def
  setOnSentenceEnd_def setOnSentenceSemantics_def setOnMessage_def setOnTranscriptionCompleted_def setOnChannelClosed_def

lemma st_field_paramap: "st_field (c\<lparr>cb_paramap := k\<rparr>) = st_field c"
  by (simp add: fun_eq_iff st_field_def split: EventType.split)

lemma st_handler_slot: "st_handlerFrame e c = invoke (st_field c (st_slot (ev_msgType e))) (st_slot (ev_msgType e)) e c"
  by (cases "ev_msgType e") (simp_all add: st_handlerFrame_def st_field_def st_slot_def)

lemma st_field_assign: "st_field (st_assign s f d c) (st_slot t) = (if st_slot s = st_slot t then f else st_field c (st_slot t))"
  by (cases s; cases t) (simp_all add: setters set_para_def st_field_def st_slot_def)

lemma st_paramap_assign: "cb_paramap (st_assign s f d c) = (cb_paramap c)(st_slot s \<mapsto> d)"
  by (cases s) (simp_all add: setters set_para_def st_slot_def)

interpretation st: listener st_assign st_handlerFrame st_slot "table_of st_field st_slot"
proof
  show "table_of st_field st_slot (st_assign s f d c) = table_set st_slot s f d (table_of st_field st_slot c)" for s f d and c :: "('f, 'd) st_callback"
    by (rule table_of_assign) (rule st_field_assign st_paramap_assign)+
  show "fst (st_handlerFrame e c) = table_call e (table_of st_field st_slot c)" for e and c :: "('f, 'd) st_callback"
    by (simp add: st_handler_slot call_invoke table_call_def)
  show "table_of st_field st_slot (snd (st_handlerFrame e c)) = table_of st_field st_slot c" for e and c :: "('f, 'd) st_callback"
    unfolding st_handler_slot by (rule table_of_invoke) (rule st_field_paramap)
qed

section \<open>The relay's request\<close>

text \<open>With a memory that holds a null pointer in the one place the constructor forgets, the listener and the callbacks the
  relay sets are \<open>transcriber_handlerFrame\<close>.\<close>

lemma relay_dispatch:
  "transcriber_handlerFrame S T mute index order e X =
     (case fst (st_handlerFrame e (asr_callbacks this (SpeechTranscriberCallback_new None))) of
        None \<Rightarrow> Some (Returns X)
      | Some (f, e', d) \<Rightarrow> run_callback S T mute index order f e' X)"
  by (cases "ev_msgType e")
    (simp_all add: transcriber_handlerFrame_def st_handlerFrame_def invoke_def asr_callbacks_def setters set_para_def run_callback_def
      SpeechTranscriberCallback_new_def Let_def)

definition relay_param :: "json_lib \<Rightarrow> ('c, 'w, 's) asr \<Rightarrow> st_param" where
  "relay_param L A = the (st_settings L (asr_settings (asr_config A)) (Some (SpeechTranscriberParam_new ''cpp'')))"

lemmas member_defs = set_header_def set_payload_def set_context_def put_member_def

lemmas relay_setting_defs = setAppKey_def setFormat_def setSampleRate_def setIntermediateResult_def setPunctuationPrediction_def
  setTextNormalization_def st_setEnableWords_def setSentenceDetection_def st_setMaxSentenceSilence_def

lemma relay_param_fields:
  "np_header (relay_param L A) = [(''appkey'', JString (c_str (ar_appkey A))), (''namespace'', JString ''SpeechTranscriber'')]"
  "np_payload (relay_param L A) =
    [(''enable_intermediate_result'', JBool False), (''enable_inverse_text_normalization'', JBool False),
     (''enable_punctuation_prediction'', JBool False), (''enable_semantic_sentence_detection'', JBool False),
     (''enable_words'', JBool True), (''format'', JString ''pcm''),
     (''max_sentence_silence'', JInt (ar_max_sentence_silence_ms A)), (''sample_rate'', JInt 16000)]"
  "np_context (relay_param L A) = [(''sdk'', getSdkInfo ''cpp'')]"
  "np_token (relay_param L A) = c_str (ar_token A)"
  "np_url (relay_param L A) = ''wss://nls-gateway.cn-shanghai.aliyuncs.com/ws/v1''"
  "np_enableReconnect (relay_param L A)" "np_format (relay_param L A) = ''pcm''" "np_sampleRate (relay_param L A) = 16000"
  "\<not> np_enableOnMessage (relay_param L A)"
  by (simp_all add: relay_param_def st_settings_def asr_settings_def asr_config_def with_string_def with_param_def done_with_def
      SpeechTranscriberParam_new_def INlsRequestParam_new_def nls_param.defs relay_setting_defs member_defs)

text \<open>The message a relay starts its transcription with, byte for byte the JSON text of this object: the application key and
  the names of the service in the header, and in the payload 16 kHz PCM, the times of the words, which the
  muting needs, and none of the changes to the text (punctuation, numbers) that would make the words of the
  dictionary miss; while the token and the address go to the hand-shake and reconnection is on.\<close>

theorem relay_start_message:
  "Option.bind (param_command (st_class L) L CmdStart msg rc_init (task, mid) (relay_param L A)) fst =
     js_write L (JObject
       [(''context'', JObject [(''sdk'', JObject
          [(''language'', JString ''C++''), (''name'', JString ''nls-cpp-sdk3.x-linux''), (''version'', JString ''3.2.0f'')])]),
        (''header'', JObject
          [(''appkey'', JString (c_str (ar_appkey A))), (''message_id'', JString mid), (''name'', JString ''StartTranscription''),
           (''namespace'', JString ''SpeechTranscriber''), (''task_id'', JString task)]),
        (''payload'', JObject
          [(''enable_intermediate_result'', JBool False), (''enable_inverse_text_normalization'', JBool False),
           (''enable_punctuation_prediction'', JBool False), (''enable_semantic_sentence_detection'', JBool False),
           (''enable_words'', JBool True), (''format'', JString ''pcm''),
           (''max_sentence_silence'', JInt (ar_max_sentence_silence_ms A)), (''sample_rate'', JInt 16000)])])
   \<and> np_token (relay_param L A) = c_str (ar_token A) \<and> np_enableReconnect (relay_param L A)"
proof -
  let ?q = "stamp_message mid ((set_header ''name'' (JString ''StartTranscription'') (relay_param L A))\<lparr>np_task_id := task\<rparr>)"
  have h: "np_header ?q = [(''appkey'', JString (c_str (ar_appkey A))), (''message_id'', JString mid),
      (''name'', JString ''StartTranscription''), (''namespace'', JString ''SpeechTranscriber''), (''task_id'', JString task)]"
    by (simp add: stamp_message_def member_defs relay_param_fields)
  have sdk: "getSdkInfo ''cpp'' = JObject [(''language'', JString ''C++''), (''name'', JString ''nls-cpp-sdk3.x-linux''),
      (''version'', JString ''3.2.0f'')]"
    by (simp add: getSdkInfo_def put_member_def)
  have "fst (base_getStartCommand L (task, mid) (set_header ''name'' (JString ''StartTranscription'') (relay_param L A))) =
      js_write L (JObject [(''context'', JObject (np_context (relay_param L A))), (''header'', JObject (np_header ?q)),
        (''payload'', JObject (np_payload (relay_param L A)))])"
    by (simp add: base_getStartCommand_def Let_def put_member_def split: option.split)
  then show ?thesis
    by (simp only: h sdk relay_param_fields)
      (simp add: param_command_def start_with_offsets_def offsets_of_def rc_init_def st_class_def st_getStartCommand_def relay_param_fields)
qed

section \<open>Examples\<close>

lemma refused_setting_keeps_witness:
  "snd (st_setting json_lib_example (SetPayloadParam (Some ''{'')) (Some param_example)) = Some param_example
    \<and> fst (st_setting json_lib_example (SetPayloadParam (Some ''{'')) (Some param_example))
      \<in> {- InvalidInputParam, - InvalidRequest, - JsonParseFailed, - JsonObjectError}"
  by (rule refused_setting_keeps) (simp add: setting_defs json_lib_example_def)

end
