(* ===== verification/Services.thy ===== *)
theory Services
  imports Transcriber
begin

text \<open>
  The requests of the four services beside the transcriber (\<open>framework/feature/sr\<close>, \<open>sy\<close>, \<open>da\<close> and \<open>fss\<close>): their callbacks with the
  listeners that call them, an \<open>interpretation\<close> of \<open>listener\<close> each, their settings, and what \<open>start\<close> sets before it calls the event network.
  The test \<open>NULL == _callback\<close> of three listeners is left out: the constructor of the request has just made the object.
\<close>

section \<open>Recognizer: callbacks\<close>

record ('f, 'd) sr_callback = "'d callback_base" +
  sr_onTaskFailed :: "'f option"
  sr_onRecognitionStarted :: "'f option"
  sr_onRecognitionCompleted :: "'f option"
  sr_onRecognitionResultChanged :: "'f option"
  sr_onChannelClosed :: "'f option"
  sr_onMessage :: "'f option"

definition SpeechRecognizerCallback_new :: "('f, 'd) sr_callback" where
  "SpeechRecognizerCallback_new = \<lparr>cb_paramap = Map.empty, sr_onTaskFailed = None, sr_onRecognitionStarted = None, sr_onRecognitionCompleted = None,
     sr_onRecognitionResultChanged = None, sr_onChannelClosed = None, sr_onMessage = None\<rparr>"

definition sr_setOnTaskFailed :: "'f option \<Rightarrow> 'd option \<Rightarrow> ('f, 'd) sr_callback \<Rightarrow> ('f, 'd) sr_callback" where
  "sr_setOnTaskFailed f para c = set_para TaskFailed para (c\<lparr>sr_onTaskFailed := f\<rparr>)"

definition sr_setOnRecognitionStarted :: "'f option \<Rightarrow> 'd option \<Rightarrow> ('f, 'd) sr_callback \<Rightarrow> ('f, 'd) sr_callback" where
  "sr_setOnRecognitionStarted f para c = set_para RecognitionStarted para (c\<lparr>sr_onRecognitionStarted := f\<rparr>)"

definition sr_setOnRecognitionCompleted :: "'f option \<Rightarrow> 'd option \<Rightarrow> ('f, 'd) sr_callback \<Rightarrow> ('f, 'd) sr_callback" where
  "sr_setOnRecognitionCompleted f para c = set_para RecognitionCompleted para (c\<lparr>sr_onRecognitionCompleted := f\<rparr>)"

definition sr_setOnRecognitionResultChanged :: "'f option \<Rightarrow> 'd option \<Rightarrow> ('f, 'd) sr_callback \<Rightarrow> ('f, 'd) sr_callback" where
  "sr_setOnRecognitionResultChanged f para c = set_para RecognitionResultChanged para (c\<lparr>sr_onRecognitionResultChanged := f\<rparr>)"

definition sr_setOnChannelClosed :: "'f option \<Rightarrow> 'd option \<Rightarrow> ('f, 'd) sr_callback \<Rightarrow> ('f, 'd) sr_callback" where
  "sr_setOnChannelClosed f para c = set_para Close para (c\<lparr>sr_onChannelClosed := f\<rparr>)"

definition sr_setOnMessage :: "'f option \<Rightarrow> 'd option \<Rightarrow> ('f, 'd) sr_callback \<Rightarrow> ('f, 'd) sr_callback" where
  "sr_setOnMessage f para c = set_para Message para (c\<lparr>sr_onMessage := f\<rparr>)"

definition sr_handlerFrame :: "NlsEvent \<Rightarrow> ('f, 'd) sr_callback \<Rightarrow> ('f, 'd) call \<times> ('f, 'd) sr_callback" where
  "sr_handlerFrame e c =
     (case ev_msgType e of
        RecognitionStarted \<Rightarrow> invoke (sr_onRecognitionStarted c) RecognitionStarted e c
      | RecognitionCompleted \<Rightarrow> invoke (sr_onRecognitionCompleted c) RecognitionCompleted e c
      | RecognitionResultChanged \<Rightarrow> invoke (sr_onRecognitionResultChanged c) RecognitionResultChanged e c
      | Close \<Rightarrow> invoke (sr_onChannelClosed c) Close e c
      | Message \<Rightarrow> invoke (sr_onMessage c) Message e c
      | _ \<Rightarrow> invoke (sr_onTaskFailed c) TaskFailed e c)"

definition sr_slot :: "EventType \<Rightarrow> EventType" where
  "sr_slot t = (if t \<in> {RecognitionStarted, RecognitionCompleted, RecognitionResultChanged, Close, Message} then t else TaskFailed)"

definition sr_field :: "('f, 'd) sr_callback \<Rightarrow> EventType \<Rightarrow> 'f option" where
  "sr_field c t =
     (case t of
        RecognitionStarted \<Rightarrow> sr_onRecognitionStarted c
      | RecognitionCompleted \<Rightarrow> sr_onRecognitionCompleted c
      | RecognitionResultChanged \<Rightarrow> sr_onRecognitionResultChanged c
      | Close \<Rightarrow> sr_onChannelClosed c
      | Message \<Rightarrow> sr_onMessage c
      | _ \<Rightarrow> sr_onTaskFailed c)"

fun sr_assign :: "EventType \<Rightarrow> 'f option \<Rightarrow> 'd option \<Rightarrow> ('f, 'd) sr_callback \<Rightarrow> ('f, 'd) sr_callback" where
  "sr_assign RecognitionStarted = sr_setOnRecognitionStarted"
| "sr_assign RecognitionCompleted = sr_setOnRecognitionCompleted"
| "sr_assign RecognitionResultChanged = sr_setOnRecognitionResultChanged"
| "sr_assign Close = sr_setOnChannelClosed"
| "sr_assign Message = sr_setOnMessage"
| "sr_assign _ = sr_setOnTaskFailed"

lemmas sr_setters = sr_setOnTaskFailed_def sr_setOnRecognitionStarted_def sr_setOnRecognitionCompleted_def sr_setOnRecognitionResultChanged_def
  sr_setOnChannelClosed_def sr_setOnMessage_def

lemma sr_field_paramap: "sr_field (c\<lparr>cb_paramap := k\<rparr>) = sr_field c"
  by (simp add: fun_eq_iff sr_field_def split: EventType.split)

lemma sr_handler_slot: "sr_handlerFrame e c = invoke (sr_field c (sr_slot (ev_msgType e))) (sr_slot (ev_msgType e)) e c"
  by (cases "ev_msgType e") (simp_all add: sr_handlerFrame_def sr_field_def sr_slot_def)

lemma sr_field_assign: "sr_field (sr_assign s f d c) (sr_slot t) = (if sr_slot s = sr_slot t then f else sr_field c (sr_slot t))"
  by (cases s; cases t) (simp_all add: sr_setters set_para_def sr_field_def sr_slot_def)

lemma sr_paramap_assign: "cb_paramap (sr_assign s f d c) = (cb_paramap c)(sr_slot s \<mapsto> d)"
  by (cases s) (simp_all add: sr_setters set_para_def sr_slot_def)

interpretation sr: listener sr_assign sr_handlerFrame sr_slot "table_of sr_field sr_slot"
proof
  show "table_of sr_field sr_slot (sr_assign s f d c) = table_set sr_slot s f d (table_of sr_field sr_slot c)" for s f d and c :: "('f, 'd) sr_callback"
    by (rule table_of_assign) (rule sr_field_assign sr_paramap_assign)+
  show "fst (sr_handlerFrame e c) = table_call e (table_of sr_field sr_slot c)" for e and c :: "('f, 'd) sr_callback"
    by (simp add: sr_handler_slot call_invoke table_call_def)
  show "table_of sr_field sr_slot (snd (sr_handlerFrame e c)) = table_of sr_field sr_slot c" for e and c :: "('f, 'd) sr_callback"
    unfolding sr_handler_slot by (rule table_of_invoke) (rule sr_field_paramap)
qed

section \<open>Synthesizer: callbacks\<close>

record ('f, 'd) sy_callback = "'d callback_base" +
  sy_onTaskFailed :: "'f option"
  sy_onSynthesisStarted :: "'f option"
  sy_onSynthesisCompleted :: "'f option"
  sy_onChannelClosed :: "'f option"
  sy_onBinaryDataReceived :: "'f option"
  sy_onMetaInfo :: "'f option"
  sy_onMessage :: "'f option"

text \<open>The constructor does not set \<open>_onMetaInfo\<close>: it is whatever the memory held.\<close>

definition SpeechSynthesizerCallback_new :: "'f option \<Rightarrow> ('f, 'd) sy_callback" where
  "SpeechSynthesizerCallback_new memory = \<lparr>cb_paramap = Map.empty, sy_onTaskFailed = None, sy_onSynthesisStarted = None, sy_onSynthesisCompleted = None,
     sy_onChannelClosed = None, sy_onBinaryDataReceived = None, sy_onMetaInfo = memory, sy_onMessage = None\<rparr>"

definition sy_setOnTaskFailed :: "'f option \<Rightarrow> 'd option \<Rightarrow> ('f, 'd) sy_callback \<Rightarrow> ('f, 'd) sy_callback" where
  "sy_setOnTaskFailed f para c = set_para TaskFailed para (c\<lparr>sy_onTaskFailed := f\<rparr>)"

definition sy_setOnSynthesisStarted :: "'f option \<Rightarrow> 'd option \<Rightarrow> ('f, 'd) sy_callback \<Rightarrow> ('f, 'd) sy_callback" where
  "sy_setOnSynthesisStarted f para c = set_para SynthesisStarted para (c\<lparr>sy_onSynthesisStarted := f\<rparr>)"

definition sy_setOnSynthesisCompleted :: "'f option \<Rightarrow> 'd option \<Rightarrow> ('f, 'd) sy_callback \<Rightarrow> ('f, 'd) sy_callback" where
  "sy_setOnSynthesisCompleted f para c = set_para SynthesisCompleted para (c\<lparr>sy_onSynthesisCompleted := f\<rparr>)"

definition sy_setOnChannelClosed :: "'f option \<Rightarrow> 'd option \<Rightarrow> ('f, 'd) sy_callback \<Rightarrow> ('f, 'd) sy_callback" where
  "sy_setOnChannelClosed f para c = set_para Close para (c\<lparr>sy_onChannelClosed := f\<rparr>)"

definition sy_setOnBinaryDataReceived :: "'f option \<Rightarrow> 'd option \<Rightarrow> ('f, 'd) sy_callback \<Rightarrow> ('f, 'd) sy_callback" where
  "sy_setOnBinaryDataReceived f para c = set_para Binary para (c\<lparr>sy_onBinaryDataReceived := f\<rparr>)"

definition sy_setOnMetaInfo :: "'f option \<Rightarrow> 'd option \<Rightarrow> ('f, 'd) sy_callback \<Rightarrow> ('f, 'd) sy_callback" where
  "sy_setOnMetaInfo f para c = set_para MetaInfo para (c\<lparr>sy_onMetaInfo := f\<rparr>)"

definition sy_setOnMessage :: "'f option \<Rightarrow> 'd option \<Rightarrow> ('f, 'd) sy_callback \<Rightarrow> ('f, 'd) sy_callback" where
  "sy_setOnMessage f para c = set_para Message para (c\<lparr>sy_onMessage := f\<rparr>)"

definition sy_handlerFrame :: "NlsEvent \<Rightarrow> ('f, 'd) sy_callback \<Rightarrow> ('f, 'd) call \<times> ('f, 'd) sy_callback" where
  "sy_handlerFrame e c =
     (case ev_msgType e of
        SynthesisStarted \<Rightarrow> invoke (sy_onSynthesisStarted c) SynthesisStarted e c
      | SynthesisCompleted \<Rightarrow> invoke (sy_onSynthesisCompleted c) SynthesisCompleted e c
      | Close \<Rightarrow> invoke (sy_onChannelClosed c) Close e c
      | Binary \<Rightarrow> invoke (sy_onBinaryDataReceived c) Binary e c
      | MetaInfo \<Rightarrow> invoke (sy_onMetaInfo c) MetaInfo e c
      | Message \<Rightarrow> invoke (sy_onMessage c) Message e c
      | _ \<Rightarrow> invoke (sy_onTaskFailed c) TaskFailed e c)"

definition sy_slot :: "EventType \<Rightarrow> EventType" where
  "sy_slot t = (if t \<in> {SynthesisStarted, SynthesisCompleted, Close, Binary, MetaInfo, Message} then t else TaskFailed)"

definition sy_field :: "('f, 'd) sy_callback \<Rightarrow> EventType \<Rightarrow> 'f option" where
  "sy_field c t =
     (case t of
        SynthesisStarted \<Rightarrow> sy_onSynthesisStarted c
      | SynthesisCompleted \<Rightarrow> sy_onSynthesisCompleted c
      | Close \<Rightarrow> sy_onChannelClosed c
      | Binary \<Rightarrow> sy_onBinaryDataReceived c
      | MetaInfo \<Rightarrow> sy_onMetaInfo c
      | Message \<Rightarrow> sy_onMessage c
      | _ \<Rightarrow> sy_onTaskFailed c)"

fun sy_assign :: "EventType \<Rightarrow> 'f option \<Rightarrow> 'd option \<Rightarrow> ('f, 'd) sy_callback \<Rightarrow> ('f, 'd) sy_callback" where
  "sy_assign SynthesisStarted = sy_setOnSynthesisStarted"
| "sy_assign SynthesisCompleted = sy_setOnSynthesisCompleted"
| "sy_assign Close = sy_setOnChannelClosed"
| "sy_assign Binary = sy_setOnBinaryDataReceived"
| "sy_assign MetaInfo = sy_setOnMetaInfo"
| "sy_assign Message = sy_setOnMessage"
| "sy_assign _ = sy_setOnTaskFailed"

lemmas sy_setters = sy_setOnTaskFailed_def sy_setOnSynthesisStarted_def sy_setOnSynthesisCompleted_def sy_setOnChannelClosed_def
  sy_setOnBinaryDataReceived_def sy_setOnMetaInfo_def sy_setOnMessage_def

lemma sy_field_paramap: "sy_field (c\<lparr>cb_paramap := k\<rparr>) = sy_field c"
  by (simp add: fun_eq_iff sy_field_def split: EventType.split)

lemma sy_handler_slot: "sy_handlerFrame e c = invoke (sy_field c (sy_slot (ev_msgType e))) (sy_slot (ev_msgType e)) e c"
  by (cases "ev_msgType e") (simp_all add: sy_handlerFrame_def sy_field_def sy_slot_def)

lemma sy_field_assign: "sy_field (sy_assign s f d c) (sy_slot t) = (if sy_slot s = sy_slot t then f else sy_field c (sy_slot t))"
  by (cases s; cases t) (simp_all add: sy_setters set_para_def sy_field_def sy_slot_def)

lemma sy_paramap_assign: "cb_paramap (sy_assign s f d c) = (cb_paramap c)(sy_slot s \<mapsto> d)"
  by (cases s) (simp_all add: sy_setters set_para_def sy_slot_def)

interpretation sy: listener sy_assign sy_handlerFrame sy_slot "table_of sy_field sy_slot"
proof
  show "table_of sy_field sy_slot (sy_assign s f d c) = table_set sy_slot s f d (table_of sy_field sy_slot c)" for s f d and c :: "('f, 'd) sy_callback"
    by (rule table_of_assign) (rule sy_field_assign sy_paramap_assign)+
  show "fst (sy_handlerFrame e c) = table_call e (table_of sy_field sy_slot c)" for e and c :: "('f, 'd) sy_callback"
    by (simp add: sy_handler_slot call_invoke table_call_def)
  show "table_of sy_field sy_slot (snd (sy_handlerFrame e c)) = table_of sy_field sy_slot c" for e and c :: "('f, 'd) sy_callback"
    unfolding sy_handler_slot by (rule table_of_invoke) (rule sy_field_paramap)
qed

section \<open>Dialog assistant: callbacks\<close>

record ('f, 'd) da_callback = "'d callback_base" +
  da_onTaskFailed :: "'f option"
  da_onRecognitionStarted :: "'f option"
  da_onRecognitionCompleted :: "'f option"
  da_onDialogResultGenerated :: "'f option"
  da_onWakeWordVerificationCompleted :: "'f option"
  da_onRecognitionResultChanged :: "'f option"
  da_onChannelClosed :: "'f option"

text \<open>The constructor does not set \<open>_onWakeWordVerificationCompleted\<close>: it is whatever the memory held.\<close>

definition DialogAssistantCallback_new :: "'f option \<Rightarrow> ('f, 'd) da_callback" where
  "DialogAssistantCallback_new memory = \<lparr>cb_paramap = Map.empty, da_onTaskFailed = None, da_onRecognitionStarted = None, da_onRecognitionCompleted = None,
     da_onDialogResultGenerated = None, da_onWakeWordVerificationCompleted = memory, da_onRecognitionResultChanged = None,
     da_onChannelClosed = None\<rparr>"

definition da_setOnTaskFailed :: "'f option \<Rightarrow> 'd option \<Rightarrow> ('f, 'd) da_callback \<Rightarrow> ('f, 'd) da_callback" where
  "da_setOnTaskFailed f para c = set_para TaskFailed para (c\<lparr>da_onTaskFailed := f\<rparr>)"

definition da_setOnRecognitionStarted :: "'f option \<Rightarrow> 'd option \<Rightarrow> ('f, 'd) da_callback \<Rightarrow> ('f, 'd) da_callback" where
  "da_setOnRecognitionStarted f para c = set_para RecognitionStarted para (c\<lparr>da_onRecognitionStarted := f\<rparr>)"

definition da_setOnRecognitionCompleted :: "'f option \<Rightarrow> 'd option \<Rightarrow> ('f, 'd) da_callback \<Rightarrow> ('f, 'd) da_callback" where
  "da_setOnRecognitionCompleted f para c = set_para RecognitionCompleted para (c\<lparr>da_onRecognitionCompleted := f\<rparr>)"

definition da_setOnDialogResultGenerated :: "'f option \<Rightarrow> 'd option \<Rightarrow> ('f, 'd) da_callback \<Rightarrow> ('f, 'd) da_callback" where
  "da_setOnDialogResultGenerated f para c = set_para DialogResultGenerated para (c\<lparr>da_onDialogResultGenerated := f\<rparr>)"

definition da_setOnWakeWordVerificationCompleted :: "'f option \<Rightarrow> 'd option \<Rightarrow> ('f, 'd) da_callback \<Rightarrow> ('f, 'd) da_callback" where
  "da_setOnWakeWordVerificationCompleted f para c = set_para WakeWordVerificationCompleted para (c\<lparr>da_onWakeWordVerificationCompleted := f\<rparr>)"

definition da_setOnRecognitionResultChanged :: "'f option \<Rightarrow> 'd option \<Rightarrow> ('f, 'd) da_callback \<Rightarrow> ('f, 'd) da_callback" where
  "da_setOnRecognitionResultChanged f para c = set_para RecognitionResultChanged para (c\<lparr>da_onRecognitionResultChanged := f\<rparr>)"

definition da_setOnChannelClosed :: "'f option \<Rightarrow> 'd option \<Rightarrow> ('f, 'd) da_callback \<Rightarrow> ('f, 'd) da_callback" where
  "da_setOnChannelClosed f para c = set_para Close para (c\<lparr>da_onChannelClosed := f\<rparr>)"

definition da_handlerFrame :: "NlsEvent \<Rightarrow> ('f, 'd) da_callback \<Rightarrow> ('f, 'd) call \<times> ('f, 'd) da_callback" where
  "da_handlerFrame e c =
     (case ev_msgType e of
        RecognitionStarted \<Rightarrow> invoke (da_onRecognitionStarted c) RecognitionStarted e c
      | RecognitionCompleted \<Rightarrow> invoke (da_onRecognitionCompleted c) RecognitionCompleted e c
      | DialogResultGenerated \<Rightarrow> invoke (da_onDialogResultGenerated c) DialogResultGenerated e c
      | WakeWordVerificationCompleted \<Rightarrow> invoke (da_onWakeWordVerificationCompleted c) WakeWordVerificationCompleted e c
      | RecognitionResultChanged \<Rightarrow> invoke (da_onRecognitionResultChanged c) RecognitionResultChanged e c
      | Close \<Rightarrow> invoke (da_onChannelClosed c) Close e c
      | _ \<Rightarrow> invoke (da_onTaskFailed c) TaskFailed e c)"

definition da_slot :: "EventType \<Rightarrow> EventType" where
  "da_slot t = (if t \<in> {RecognitionStarted, RecognitionCompleted, DialogResultGenerated, WakeWordVerificationCompleted, RecognitionResultChanged, Close} then t else TaskFailed)"

definition da_field :: "('f, 'd) da_callback \<Rightarrow> EventType \<Rightarrow> 'f option" where
  "da_field c t =
     (case t of
        RecognitionStarted \<Rightarrow> da_onRecognitionStarted c
      | RecognitionCompleted \<Rightarrow> da_onRecognitionCompleted c
      | DialogResultGenerated \<Rightarrow> da_onDialogResultGenerated c
      | WakeWordVerificationCompleted \<Rightarrow> da_onWakeWordVerificationCompleted c
      | RecognitionResultChanged \<Rightarrow> da_onRecognitionResultChanged c
      | Close \<Rightarrow> da_onChannelClosed c
      | _ \<Rightarrow> da_onTaskFailed c)"

fun da_assign :: "EventType \<Rightarrow> 'f option \<Rightarrow> 'd option \<Rightarrow> ('f, 'd) da_callback \<Rightarrow> ('f, 'd) da_callback" where
  "da_assign RecognitionStarted = da_setOnRecognitionStarted"
| "da_assign RecognitionCompleted = da_setOnRecognitionCompleted"
| "da_assign DialogResultGenerated = da_setOnDialogResultGenerated"
| "da_assign WakeWordVerificationCompleted = da_setOnWakeWordVerificationCompleted"
| "da_assign RecognitionResultChanged = da_setOnRecognitionResultChanged"
| "da_assign Close = da_setOnChannelClosed"
| "da_assign _ = da_setOnTaskFailed"

lemmas da_setters = da_setOnTaskFailed_def da_setOnRecognitionStarted_def da_setOnRecognitionCompleted_def da_setOnDialogResultGenerated_def
  da_setOnWakeWordVerificationCompleted_def da_setOnRecognitionResultChanged_def da_setOnChannelClosed_def

lemma da_field_paramap: "da_field (c\<lparr>cb_paramap := k\<rparr>) = da_field c"
  by (simp add: fun_eq_iff da_field_def split: EventType.split)

lemma da_handler_slot: "da_handlerFrame e c = invoke (da_field c (da_slot (ev_msgType e))) (da_slot (ev_msgType e)) e c"
  by (cases "ev_msgType e") (simp_all add: da_handlerFrame_def da_field_def da_slot_def)

lemma da_field_assign: "da_field (da_assign s f d c) (da_slot t) = (if da_slot s = da_slot t then f else da_field c (da_slot t))"
  by (cases s; cases t) (simp_all add: da_setters set_para_def da_field_def da_slot_def)

lemma da_paramap_assign: "cb_paramap (da_assign s f d c) = (cb_paramap c)(da_slot s \<mapsto> d)"
  by (cases s) (simp_all add: da_setters set_para_def da_slot_def)

interpretation da: listener da_assign da_handlerFrame da_slot "table_of da_field da_slot"
proof
  show "table_of da_field da_slot (da_assign s f d c) = table_set da_slot s f d (table_of da_field da_slot c)" for s f d and c :: "('f, 'd) da_callback"
    by (rule table_of_assign) (rule da_field_assign da_paramap_assign)+
  show "fst (da_handlerFrame e c) = table_call e (table_of da_field da_slot c)" for e and c :: "('f, 'd) da_callback"
    by (simp add: da_handler_slot call_invoke table_call_def)
  show "table_of da_field da_slot (snd (da_handlerFrame e c)) = table_of da_field da_slot c" for e and c :: "('f, 'd) da_callback"
    unfolding da_handler_slot by (rule table_of_invoke) (rule da_field_paramap)
qed

section \<open>Flowing synthesizer: callbacks\<close>

record ('f, 'd) fs_callback = "'d callback_base" +
  fs_onTaskFailed :: "'f option"
  fs_onSynthesisStarted :: "'f option"
  fs_onSynthesisCompleted :: "'f option"
  fs_onChannelClosed :: "'f option"
  fs_onBinaryDataReceived :: "'f option"
  fs_onSentenceBegin :: "'f option"
  fs_onSentenceEnd :: "'f option"
  fs_onSentenceSynthesis :: "'f option"
  fs_onMessage :: "'f option"

definition FlowingSynthesizerCallback_new :: "('f, 'd) fs_callback" where
  "FlowingSynthesizerCallback_new = \<lparr>cb_paramap = Map.empty, fs_onTaskFailed = None, fs_onSynthesisStarted = None, fs_onSynthesisCompleted = None,
     fs_onChannelClosed = None, fs_onBinaryDataReceived = None, fs_onSentenceBegin = None, fs_onSentenceEnd = None,
     fs_onSentenceSynthesis = None, fs_onMessage = None\<rparr>"

definition fs_setOnTaskFailed :: "'f option \<Rightarrow> 'd option \<Rightarrow> ('f, 'd) fs_callback \<Rightarrow> ('f, 'd) fs_callback" where
  "fs_setOnTaskFailed f para c = set_para TaskFailed para (c\<lparr>fs_onTaskFailed := f\<rparr>)"

definition fs_setOnSynthesisStarted :: "'f option \<Rightarrow> 'd option \<Rightarrow> ('f, 'd) fs_callback \<Rightarrow> ('f, 'd) fs_callback" where
  "fs_setOnSynthesisStarted f para c = set_para SynthesisStarted para (c\<lparr>fs_onSynthesisStarted := f\<rparr>)"

definition fs_setOnSynthesisCompleted :: "'f option \<Rightarrow> 'd option \<Rightarrow> ('f, 'd) fs_callback \<Rightarrow> ('f, 'd) fs_callback" where
  "fs_setOnSynthesisCompleted f para c = set_para SynthesisCompleted para (c\<lparr>fs_onSynthesisCompleted := f\<rparr>)"

definition fs_setOnChannelClosed :: "'f option \<Rightarrow> 'd option \<Rightarrow> ('f, 'd) fs_callback \<Rightarrow> ('f, 'd) fs_callback" where
  "fs_setOnChannelClosed f para c = set_para Close para (c\<lparr>fs_onChannelClosed := f\<rparr>)"

definition fs_setOnBinaryDataReceived :: "'f option \<Rightarrow> 'd option \<Rightarrow> ('f, 'd) fs_callback \<Rightarrow> ('f, 'd) fs_callback" where
  "fs_setOnBinaryDataReceived f para c = set_para Binary para (c\<lparr>fs_onBinaryDataReceived := f\<rparr>)"

definition fs_setOnSentenceBegin :: "'f option \<Rightarrow> 'd option \<Rightarrow> ('f, 'd) fs_callback \<Rightarrow> ('f, 'd) fs_callback" where
  "fs_setOnSentenceBegin f para c = set_para SentenceBegin para (c\<lparr>fs_onSentenceBegin := f\<rparr>)"

definition fs_setOnSentenceEnd :: "'f option \<Rightarrow> 'd option \<Rightarrow> ('f, 'd) fs_callback \<Rightarrow> ('f, 'd) fs_callback" where
  "fs_setOnSentenceEnd f para c = set_para SentenceEnd para (c\<lparr>fs_onSentenceEnd := f\<rparr>)"

definition fs_setOnSentenceSynthesis :: "'f option \<Rightarrow> 'd option \<Rightarrow> ('f, 'd) fs_callback \<Rightarrow> ('f, 'd) fs_callback" where
  "fs_setOnSentenceSynthesis f para c = set_para SentenceSynthesis para (c\<lparr>fs_onSentenceSynthesis := f\<rparr>)"

definition fs_setOnMessage :: "'f option \<Rightarrow> 'd option \<Rightarrow> ('f, 'd) fs_callback \<Rightarrow> ('f, 'd) fs_callback" where
  "fs_setOnMessage f para c = set_para Message para (c\<lparr>fs_onMessage := f\<rparr>)"

definition fs_handlerFrame :: "NlsEvent \<Rightarrow> ('f, 'd) fs_callback \<Rightarrow> ('f, 'd) call \<times> ('f, 'd) fs_callback" where
  "fs_handlerFrame e c =
     (case ev_msgType e of
        SynthesisStarted \<Rightarrow> invoke (fs_onSynthesisStarted c) SynthesisStarted e c
      | SynthesisCompleted \<Rightarrow> invoke (fs_onSynthesisCompleted c) SynthesisCompleted e c
      | Close \<Rightarrow> invoke (fs_onChannelClosed c) Close e c
      | Binary \<Rightarrow> invoke (fs_onBinaryDataReceived c) Binary e c
      | SentenceBegin \<Rightarrow> invoke (fs_onSentenceBegin c) SentenceBegin e c
      | SentenceEnd \<Rightarrow> invoke (fs_onSentenceEnd c) SentenceEnd e c
      | SentenceSynthesis \<Rightarrow> invoke (fs_onSentenceSynthesis c) SentenceSynthesis e c
      | Message \<Rightarrow> invoke (fs_onMessage c) Message e c
      | _ \<Rightarrow> invoke (fs_onTaskFailed c) TaskFailed e c)"

definition fs_slot :: "EventType \<Rightarrow> EventType" where
  "fs_slot t = (if t \<in> {SynthesisStarted, SynthesisCompleted, Close, Binary, SentenceBegin, SentenceEnd, SentenceSynthesis, Message} then t else TaskFailed)"

definition fs_field :: "('f, 'd) fs_callback \<Rightarrow> EventType \<Rightarrow> 'f option" where
  "fs_field c t =
     (case t of
        SynthesisStarted \<Rightarrow> fs_onSynthesisStarted c
      | SynthesisCompleted \<Rightarrow> fs_onSynthesisCompleted c
      | Close \<Rightarrow> fs_onChannelClosed c
      | Binary \<Rightarrow> fs_onBinaryDataReceived c
      | SentenceBegin \<Rightarrow> fs_onSentenceBegin c
      | SentenceEnd \<Rightarrow> fs_onSentenceEnd c
      | SentenceSynthesis \<Rightarrow> fs_onSentenceSynthesis c
      | Message \<Rightarrow> fs_onMessage c
      | _ \<Rightarrow> fs_onTaskFailed c)"

fun fs_assign :: "EventType \<Rightarrow> 'f option \<Rightarrow> 'd option \<Rightarrow> ('f, 'd) fs_callback \<Rightarrow> ('f, 'd) fs_callback" where
  "fs_assign SynthesisStarted = fs_setOnSynthesisStarted"
| "fs_assign SynthesisCompleted = fs_setOnSynthesisCompleted"
| "fs_assign Close = fs_setOnChannelClosed"
| "fs_assign Binary = fs_setOnBinaryDataReceived"
| "fs_assign SentenceBegin = fs_setOnSentenceBegin"
| "fs_assign SentenceEnd = fs_setOnSentenceEnd"
| "fs_assign SentenceSynthesis = fs_setOnSentenceSynthesis"
| "fs_assign Message = fs_setOnMessage"
| "fs_assign _ = fs_setOnTaskFailed"

lemmas fs_setters = fs_setOnTaskFailed_def fs_setOnSynthesisStarted_def fs_setOnSynthesisCompleted_def fs_setOnChannelClosed_def
  fs_setOnBinaryDataReceived_def fs_setOnSentenceBegin_def fs_setOnSentenceEnd_def fs_setOnSentenceSynthesis_def fs_setOnMessage_def

lemma fs_field_paramap: "fs_field (c\<lparr>cb_paramap := k\<rparr>) = fs_field c"
  by (simp add: fun_eq_iff fs_field_def split: EventType.split)

lemma fs_handler_slot: "fs_handlerFrame e c = invoke (fs_field c (fs_slot (ev_msgType e))) (fs_slot (ev_msgType e)) e c"
  by (cases "ev_msgType e") (simp_all add: fs_handlerFrame_def fs_field_def fs_slot_def)

lemma fs_field_assign: "fs_field (fs_assign s f d c) (fs_slot t) = (if fs_slot s = fs_slot t then f else fs_field c (fs_slot t))"
  by (cases s; cases t) (simp_all add: fs_setters set_para_def fs_field_def fs_slot_def)

lemma fs_paramap_assign: "cb_paramap (fs_assign s f d c) = (cb_paramap c)(fs_slot s \<mapsto> d)"
  by (cases s) (simp_all add: fs_setters set_para_def fs_slot_def)

interpretation fs: listener fs_assign fs_handlerFrame fs_slot "table_of fs_field fs_slot"
proof
  show "table_of fs_field fs_slot (fs_assign s f d c) = table_set fs_slot s f d (table_of fs_field fs_slot c)" for s f d and c :: "('f, 'd) fs_callback"
    by (rule table_of_assign) (rule fs_field_assign fs_paramap_assign)+
  show "fst (fs_handlerFrame e c) = table_call e (table_of fs_field fs_slot c)" for e and c :: "('f, 'd) fs_callback"
    by (simp add: fs_handler_slot call_invoke table_call_def)
  show "table_of fs_field fs_slot (snd (fs_handlerFrame e c)) = table_of fs_field fs_slot c" for e and c :: "('f, 'd) fs_callback"
    unfolding fs_handler_slot by (rule table_of_invoke) (rule fs_field_paramap)
qed

section \<open>Recognizer: settings\<close>

datatype sr_call =
    SrPayloadParam "string option" | SrContextParam "string option" | SrToken "string option" | SrUrl "string option" |
    SrAppKey "string option" | SrFormat "string option" | SrSampleRate int | SrIntermediateResult bool | SrPunctuationPrediction bool |
    SrInverseTextNormalization bool | SrEnableVoiceDetection bool | SrMaxStartSilence int | SrMaxEndSilence int |
    SrAppendHttpHeader "string option" "string option" | SrCustomizationId "string option" | SrVocabularyId "string option" |
    SrTimeout int | SrEnableRecvTimeout bool | SrRecvTimeout int | SrSendTimeout int | SrOutputFormat "string option" |
    SrEnableOnMessage bool | SrEnableContinued bool | SrAudioAddress "string option"

fun sr_setting :: "json_lib \<Rightarrow> sr_call \<Rightarrow> nls_param option \<Rightarrow> int \<times> nls_param option" where
  "sr_setting L (SrPayloadParam v) = with_string v (\<lambda>s. setPayloadParam L (Some s))"
| "sr_setting L (SrContextParam v) = with_string v (setContextParam L)"
| "sr_setting L (SrToken v) = with_string v (\<lambda>s. done_with (np_token_update (\<lambda>_. s)))"
| "sr_setting L (SrUrl v) = with_string v (\<lambda>s. done_with (np_url_update (\<lambda>_. s)))"
| "sr_setting L (SrAppKey v) = with_string v (\<lambda>s. done_with (setAppKey s))"
| "sr_setting L (SrFormat v) = with_string v (\<lambda>s. done_with (setFormat s))"
| "sr_setting L (SrSampleRate i) = with_param (done_with (setSampleRate i))"
| "sr_setting L (SrIntermediateResult b) = with_param (done_with (setIntermediateResult b))"
| "sr_setting L (SrPunctuationPrediction b) = with_param (done_with (setPunctuationPrediction b))"
| "sr_setting L (SrInverseTextNormalization b) = with_param (done_with (setTextNormalization b))"
| "sr_setting L (SrEnableVoiceDetection b) = with_param (done_with (sr_setEnableVoiceDetection b))"
| "sr_setting L (SrMaxStartSilence i) = with_param (done_with (sr_setMaxStartSilence i))"
| "sr_setting L (SrMaxEndSilence i) = with_param (done_with (sr_setMaxEndSilence i))"
| "sr_setting L (SrAppendHttpHeader k v) = with_param (AppendHttpHeader k v)"
| "sr_setting L (SrCustomizationId v) = with_string v (\<lambda>s. done_with (setCustomizationId s))"
| "sr_setting L (SrVocabularyId v) = with_string v (\<lambda>s. done_with (setVocabularyId s))"
| "sr_setting L (SrTimeout i) = with_param (done_with (np_timeout_update (\<lambda>_. i)))"
| "sr_setting L (SrEnableRecvTimeout b) = with_param (done_with (np_enableRecvTimeout_update (\<lambda>_. b)))"
| "sr_setting L (SrRecvTimeout i) = with_param (done_with (np_recv_timeout_update (\<lambda>_. i)))"
| "sr_setting L (SrSendTimeout i) = with_param (done_with (np_send_timeout_update (\<lambda>_. i)))"
| "sr_setting L (SrOutputFormat v) = with_string v (\<lambda>s. done_with (np_outputFormat_update (\<lambda>_. s)))"
| "sr_setting L (SrEnableOnMessage b) = with_param (done_with (np_enableOnMessage_update (\<lambda>_. b)))"
| "sr_setting L (SrEnableContinued b) = with_param (done_with (np_enableReconnect_update (\<lambda>_. b)))"
| "sr_setting L (SrAudioAddress v) = with_string v (\<lambda>s. done_with (sr_setAudioAddress s))"

section \<open>Synthesizer: settings\<close>

datatype sy_call =
    SyPayloadParam "string option" | SyContextParam "string option" | SyUrl "string option" | SyAppKey "string option" |
    SyToken "string option" | SyFormat "string option" | SySampleRate int | SyText "string option" | SyMethod int | SyPitchRate int |
    SyEnableSubtitle bool | SySpeechRate int | SyVolume int | SyVoice "string option" | SyTimeout int | SyRecvTimeout int |
    SySendTimeout int | SyOutputFormat "string option" | SyEnableOnMessage bool | SyEnableContinued bool |
    SyAppendHttpHeader "string option" "string option"

fun sy_setting :: "json_lib \<Rightarrow> sy_call \<Rightarrow> nls_param option \<Rightarrow> int \<times> nls_param option" where
  "sy_setting L (SyPayloadParam v) = with_string v (\<lambda>s. setPayloadParam L (Some s))"
| "sy_setting L (SyContextParam v) = with_string v (setContextParam L)"
| "sy_setting L (SyUrl v) = with_string v (\<lambda>s. done_with (np_url_update (\<lambda>_. s)))"
| "sy_setting L (SyAppKey v) = with_string v (\<lambda>s. done_with (setAppKey s))"
| "sy_setting L (SyToken v) = with_string v (\<lambda>s. done_with (np_token_update (\<lambda>_. s)))"
| "sy_setting L (SyFormat v) = with_string v (\<lambda>s. done_with (setFormat s))"
| "sy_setting L (SySampleRate i) = with_param (done_with (setSampleRate i))"
| "sy_setting L (SyText v) = with_string v (\<lambda>s. sy_setText (Some s))"
| "sy_setting L (SyMethod i) = with_param (done_with (sy_setMethod i))"
| "sy_setting L (SyPitchRate i) = with_param (done_with (sy_setPitchRate i))"
| "sy_setting L (SyEnableSubtitle b) = with_param (done_with (sy_setEnableSubtitle b))"
| "sy_setting L (SySpeechRate i) = with_param (done_with (sy_setSpeechRate i))"
| "sy_setting L (SyVolume i) = with_param (done_with (sy_setVolume i))"
| "sy_setting L (SyVoice v) = with_string v (\<lambda>s. sy_setVoice (Some s))"
| "sy_setting L (SyTimeout i) = with_param (done_with (np_timeout_update (\<lambda>_. i)))"
| "sy_setting L (SyRecvTimeout i) = with_param (done_with (np_recv_timeout_update (\<lambda>_. i)))"
| "sy_setting L (SySendTimeout i) = with_param (done_with (np_send_timeout_update (\<lambda>_. i)))"
| "sy_setting L (SyOutputFormat v) = with_string v (\<lambda>s. done_with (np_outputFormat_update (\<lambda>_. s)))"
| "sy_setting L (SyEnableOnMessage b) = with_param (done_with (np_enableOnMessage_update (\<lambda>_. b)))"
| "sy_setting L (SyEnableContinued b) = with_param (done_with (np_enableReconnect_update (\<lambda>_. b)))"
| "sy_setting L (SyAppendHttpHeader k v) = with_param (AppendHttpHeader k v)"

section \<open>Dialog assistant: settings\<close>

text \<open>Six setters do not look at the text they get: a null pointer makes jsoncpp throw, and a \<open>std::string\<close> of it is undefined.\<close>

definition unguarded :: "string option \<Rightarrow> (string \<Rightarrow> 'p \<Rightarrow> int \<times> 'p) \<Rightarrow> 'p option \<Rightarrow> (int \<times> 'p option) option" where
  "unguarded v f r = (case (r, v) of (None, _) \<Rightarrow> Some (- InvalidRequest, None) | (Some p, None) \<Rightarrow> None | (Some p, Some s) \<Rightarrow> Some (with_param (f s) r))"

datatype da_call =
    DaPayloadParam "string option" | DaContextParam "string option" | DaToken "string option" | DaUrl "string option" |
    DaAppKey "string option" | DaFormat "string option" | DaSampleRate int | DaTimeout int | DaRecvTimeout int | DaSendTimeout int |
    DaOutputFormat "string option" | DaSessionId "string option" | DaQueryContext "string option" | DaQuery "string option" |
    DaQueryParams "string option" | DaAppendHttpHeader "string option" "string option" | DaWakeWordModel "string option" |
    DaWakeWord "string option" | DaEnableWakeWordVerification bool

fun da_setting :: "json_lib \<Rightarrow> da_call \<Rightarrow> nls_param option \<Rightarrow> (int \<times> nls_param option) option" where
  "da_setting L (DaPayloadParam v) = Some \<circ> with_string v (\<lambda>s. setPayloadParam L (Some s))"
| "da_setting L (DaContextParam v) = Some \<circ> with_string v (setContextParam L)"
| "da_setting L (DaToken v) = Some \<circ> with_string v (\<lambda>s. done_with (np_token_update (\<lambda>_. s)))"
| "da_setting L (DaUrl v) = Some \<circ> with_string v (\<lambda>s. done_with (np_url_update (\<lambda>_. s)))"
| "da_setting L (DaAppKey v) = Some \<circ> with_string v (\<lambda>s. done_with (setAppKey s))"
| "da_setting L (DaFormat v) = Some \<circ> with_string v (\<lambda>s. done_with (setFormat s))"
| "da_setting L (DaSampleRate i) = Some \<circ> with_param (done_with (setSampleRate i))"
| "da_setting L (DaTimeout i) = Some \<circ> with_param (done_with (np_timeout_update (\<lambda>_. i)))"
| "da_setting L (DaRecvTimeout i) = Some \<circ> with_param (done_with (np_recv_timeout_update (\<lambda>_. i)))"
| "da_setting L (DaSendTimeout i) = Some \<circ> with_param (done_with (np_send_timeout_update (\<lambda>_. i)))"
| "da_setting L (DaOutputFormat v) = Some \<circ> with_string v (\<lambda>s. done_with (np_outputFormat_update (\<lambda>_. s)))"
| "da_setting L (DaSessionId v) = unguarded v (\<lambda>s. done_with (setSessionId s))"
| "da_setting L (DaQueryContext v) = unguarded v (\<lambda>s. done_with (da_setQueryContext s))"
| "da_setting L (DaQuery v) = unguarded v (\<lambda>s. done_with (da_setQuery s))"
| "da_setting L (DaQueryParams v) = unguarded v (da_setQueryParams L)"
| "da_setting L (DaAppendHttpHeader k v) = Some \<circ> with_param (AppendHttpHeader k v)"
| "da_setting L (DaWakeWordModel v) = unguarded v (\<lambda>s. done_with (da_setWakeWordModel s))"
| "da_setting L (DaWakeWord v) = unguarded v (\<lambda>s. done_with (da_setWakeWord s))"
| "da_setting L (DaEnableWakeWordVerification b) = Some \<circ> with_param (done_with (setEnableWakeWordVerification b))"

text \<open>The setter without a result.\<close>

definition setEnableMultiGroup :: "bool \<Rightarrow> nls_param option \<Rightarrow> nls_param option" where
  "setEnableMultiGroup b = map_option (da_setEnableMultiGroup b)"

section \<open>Flowing synthesizer: settings\<close>

datatype fs_call =
    FsPayloadParam "string option" | FsContextParam "string option" | FsUrl "string option" | FsAppKey "string option" |
    FsToken "string option" | FsFormat "string option" | FsSampleRate int | FsPitchRate int | FsEnableSubtitle bool | FsSpeechRate int |
    FsVolume int | FsVoice "string option" | FsTimeout int | FsRecvTimeout int | FsSendTimeout int | FsOutputFormat "string option" |
    FsEnableOnMessage bool | FsEnableContinued bool | FsAppendHttpHeader "string option" "string option"

text \<open>\<open>AppendHttpHeaderParam\<close> does not check that there are parameters.\<close>

fun fs_setting :: "json_lib \<Rightarrow> fs_call \<Rightarrow> fs_param option \<Rightarrow> (int \<times> fs_param option) option" where
  "fs_setting L (FsPayloadParam v) = Some \<circ> with_string v (\<lambda>s. setPayloadParam L (Some s))"
| "fs_setting L (FsContextParam v) = Some \<circ> with_string v (setContextParam L)"
| "fs_setting L (FsUrl v) = Some \<circ> with_string v (\<lambda>s. done_with (np_url_update (\<lambda>_. s)))"
| "fs_setting L (FsAppKey v) = Some \<circ> with_string v (\<lambda>s. done_with (setAppKey s))"
| "fs_setting L (FsToken v) = Some \<circ> with_string v (\<lambda>s. done_with (np_token_update (\<lambda>_. s)))"
| "fs_setting L (FsFormat v) = Some \<circ> with_string v (\<lambda>s. done_with (setFormat s))"
| "fs_setting L (FsSampleRate i) = Some \<circ> with_param (done_with (setSampleRate i))"
| "fs_setting L (FsPitchRate i) = Some \<circ> with_param (done_with (sy_setPitchRate i))"
| "fs_setting L (FsEnableSubtitle b) = Some \<circ> with_param (done_with (sy_setEnableSubtitle b))"
| "fs_setting L (FsSpeechRate i) = Some \<circ> with_param (done_with (sy_setSpeechRate i))"
| "fs_setting L (FsVolume i) = Some \<circ> with_param (done_with (sy_setVolume i))"
| "fs_setting L (FsVoice v) = Some \<circ> with_string v (\<lambda>s. sy_setVoice (Some s))"
| "fs_setting L (FsTimeout i) = Some \<circ> with_param (done_with (np_timeout_update (\<lambda>_. i)))"
| "fs_setting L (FsRecvTimeout i) = Some \<circ> with_param (done_with (np_recv_timeout_update (\<lambda>_. i)))"
| "fs_setting L (FsSendTimeout i) = Some \<circ> with_param (done_with (np_send_timeout_update (\<lambda>_. i)))"
| "fs_setting L (FsOutputFormat v) = Some \<circ> with_string v (\<lambda>s. done_with (np_outputFormat_update (\<lambda>_. s)))"
| "fs_setting L (FsEnableOnMessage b) = Some \<circ> with_param (done_with (np_enableOnMessage_update (\<lambda>_. b)))"
| "fs_setting L (FsEnableContinued b) = Some \<circ> with_param (done_with (np_enableReconnect_update (\<lambda>_. b)))"
| "fs_setting L (FsAppendHttpHeader k v) = map_option (\<lambda>p. (let (ret, p1) = AppendHttpHeader k v p in (ret, Some p1)))"

section \<open>Start\<close>

text \<open>The type of the request, set before \<open>INlsRequest::start\<close>: it decides the first command.\<close>

definition with_type :: "NlsRequestType \<Rightarrow> 'a nls_param_scheme option \<Rightarrow> 'a nls_param_scheme option" where
  "with_type t = map_option (np_requestType_update (\<lambda>_. t))"

text \<open>The result of the start on the request when there are no parameters is \<open>- InvalidRequest\<close>; otherwise the call goes on with these.\<close>

definition checked_start ::
  "('a nls_param_scheme \<Rightarrow> NlsRequestType) \<Rightarrow> ('a nls_param_scheme option \<Rightarrow> int \<times> 'a nls_param_scheme option)
     \<Rightarrow> 'a nls_param_scheme option \<Rightarrow> int \<times> 'a nls_param_scheme option" where
  "checked_start t net_start r = (case r of None \<Rightarrow> (- InvalidRequest, r) | Some p \<Rightarrow> net_start (with_type (t p) r))"

definition da_start :: "(nls_param option \<Rightarrow> int \<times> nls_param option) \<Rightarrow> nls_param option \<Rightarrow> int \<times> nls_param option" where
  "da_start = checked_start (\<lambda>p. if np_enableWakeWord p then SpeechWakeWordDialog else SpeechExecuteDialog)"

definition da_queryText :: "(nls_param option \<Rightarrow> int \<times> nls_param option) \<Rightarrow> nls_param option \<Rightarrow> int \<times> nls_param option" where
  "da_queryText = checked_start (\<lambda>p. SpeechTextDialog)"

definition sy_start :: "(nls_param option \<Rightarrow> int \<times> nls_param option) \<Rightarrow> nls_param option \<Rightarrow> int \<times> nls_param option" where
  "sy_start = checked_start (\<lambda>p. SpeechSynthesizer)"

definition fs_start :: "(fs_param option \<Rightarrow> int \<times> fs_param option) \<Rightarrow> fs_param option \<Rightarrow> int \<times> fs_param option" where
  "fs_start = checked_start (\<lambda>p. FlowingSynthesizer)"

section \<open>Listeners are tables\<close>

lemma new_tables:
  "table_of sr_field sr_slot SpeechRecognizerCallback_new = (\<lambda>_. None)"
  "table_of sy_field sy_slot (SpeechSynthesizerCallback_new memory) = (\<lambda>t. if t = MetaInfo then map_option (\<lambda>f. (f, None)) memory else None)"
  "table_of da_field da_slot (DialogAssistantCallback_new memory)
     = (\<lambda>t. if t = WakeWordVerificationCompleted then map_option (\<lambda>f. (f, None)) memory else None)"
  "table_of fs_field fs_slot FlowingSynthesizerCallback_new = (\<lambda>_. None)"
  "table_of st_field st_slot (SpeechTranscriberCallback_new memory) = (\<lambda>t. if t = SentenceSemantics then map_option (\<lambda>f. (f, None)) memory else None)"
  by (simp_all add: fun_eq_iff table_of_def sr_field_def sr_slot_def SpeechRecognizerCallback_new_def sy_field_def sy_slot_def
      SpeechSynthesizerCallback_new_def da_field_def da_slot_def DialogAssistantCallback_new_def fs_field_def fs_slot_def
      FlowingSynthesizerCallback_new_def st_field_def st_slot_def SpeechTranscriberCallback_new_def split: EventType.split)

text \<open>C26. In every service, whatever callbacks the program sets and whatever events come, in any order: an event runs the callback that was
  last set for its type, with the pointer that was given with it, and nothing when there is none, and a type without a callback of its
  own runs the one for failures. At the start there is no callback at all, except that the transcriber, the synthesizer and the
  dialog assistant have one that their constructors forget, where the memory decides what is called.\<close>

theorem listeners_refine_table:
  "listener_run st_assign st_handlerFrame ops1 (SpeechTranscriberCallback_new memory1)
     = table_run st_slot ops1 (\<lambda>t. if t = SentenceSemantics then map_option (\<lambda>f. (f, None)) memory1 else None)
   \<and> listener_run sr_assign sr_handlerFrame ops2 SpeechRecognizerCallback_new = table_run sr_slot ops2 (\<lambda>t. None)
   \<and> listener_run sy_assign sy_handlerFrame ops3 (SpeechSynthesizerCallback_new memory3)
     = table_run sy_slot ops3 (\<lambda>t. if t = MetaInfo then map_option (\<lambda>f. (f, None)) memory3 else None)
   \<and> listener_run da_assign da_handlerFrame ops4 (DialogAssistantCallback_new memory4)
     = table_run da_slot ops4 (\<lambda>t. if t = WakeWordVerificationCompleted then map_option (\<lambda>f. (f, None)) memory4 else None)
   \<and> listener_run fs_assign fs_handlerFrame ops5 FlowingSynthesizerCallback_new = table_run fs_slot ops5 (\<lambda>t. None)"
  by (simp only: st.runs_as_table sr.runs_as_table sy.runs_as_table da.runs_as_table fs.runs_as_table new_tables simp_thms)

section \<open>Settings\<close>

text \<open>A setter that changes nothing when it fails, and the same for those that may not return.\<close>

definition careful :: "('a \<Rightarrow> int \<times> 'a) \<Rightarrow> bool" where
  "careful f \<longleftrightarrow> (\<forall>x ret y. f x = (ret, y) \<longrightarrow> ret \<noteq> Success \<longrightarrow> y = x)"

definition careful_if_back :: "('a \<Rightarrow> (int \<times> 'a) option) \<Rightarrow> bool" where
  "careful_if_back f \<longleftrightarrow> (\<forall>x ret y. f x = Some (ret, y) \<longrightarrow> ret \<noteq> Success \<longrightarrow> y = x)"

lemma careful_combinators [intro!]:
  "careful (done_with g)" "careful f \<Longrightarrow> careful (with_param f)" "(\<And>s. careful (h s)) \<Longrightarrow> careful (with_string v h)"
  "careful f \<Longrightarrow> careful_if_back (Some \<circ> f)"
  by (auto simp: careful_def careful_if_back_def done_with_def with_param_def with_string_def split: option.splits prod.splits)

lemma careful_unguarded [intro!]: "(\<And>s. careful (h s)) \<Longrightarrow> careful_if_back (unguarded v h)"
proof -
  assume h: "\<And>s. careful (h s)"
  then have "careful (with_param (h s))" for s by (intro careful_combinators)
  then show ?thesis by (auto simp: careful_def careful_if_back_def unguarded_def split: option.splits)
qed

lemma careful_members [intro!]:
  "careful (setPayloadParam L v)" "careful (setContextParam L s)" "careful (AppendHttpHeader k v)" "careful (da_setQueryParams L s)"
  "careful (sy_setText v)" "careful (sy_setVoice v)"
  "careful_if_back (map_option (\<lambda>p. (let (ret, p1) = AppendHttpHeader k v p in (ret, Some p1))))"
  by (auto simp: careful_def careful_if_back_def setting_defs sy_setText_def sy_setVoice_def set_text_member_def da_setQueryParams_def
      split: option.splits)

lemma refused_settings_keep:
  "careful (sr_setting L c1)" "careful (sy_setting L c2)" "careful_if_back (da_setting L c3)" "careful_if_back (fs_setting L c4)"
proof -
  show "careful (sr_setting L c1)" by (cases c1; simp only: sr_setting.simps; blast)
  show "careful (sy_setting L c2)" by (cases c2; simp only: sy_setting.simps; blast)
  show "careful_if_back (da_setting L c3)" by (cases c3; simp only: da_setting.simps; blast)
  show "careful_if_back (fs_setting L c4)" by (cases c4; simp only: fs_setting.simps; blast)
qed

text \<open>Which calls of the dialog assistant and of the flowing synthesizer end the process.\<close>

lemma da_setting_ends:
  "da_setting L c (Some p) = None \<longleftrightarrow> c \<in> {DaSessionId None, DaQueryContext None, DaQuery None, DaQueryParams None, DaWakeWordModel None, DaWakeWord None}"
  by (cases c) (simp_all add: unguarded_def split: option.split)

lemma fs_setting_ends: "fs_setting L c r = None \<longleftrightarrow> r = None \<and> (\<exists>k v. c = FsAppendHttpHeader k v)"
  by (cases c) simp_all

text \<open>The first command of a text query is \<open>ExecuteDialog\<close>, and an ordinary start after it is not.\<close>

lemma query_then_start:
  assumes "snd (da_queryText (\<lambda>r. (Success, r)) (Some p)) = Some p1" and "snd (da_start (\<lambda>r. (Success, r)) (Some p1)) = Some p2"
  shows "np_requestType p1 = SpeechTextDialog \<and> np_requestType p2 \<in> {SpeechWakeWordDialog, SpeechExecuteDialog}"
  using assms by (cases "np_enableWakeWord p") (auto simp: da_queryText_def da_start_def checked_start_def with_type_def)

end
