(* ===== verification/NlsClient.thy ===== *)
theory NlsClient
  imports EventNetWork RequestCommands
begin

text \<open>
  The client object that makes and releases requests: \<open>framework/common/nlsClient.cpp\<close>, every function of which holds
  one mutex, and \<open>nlsClientImpl.cpp\<close>. The objects that exist are a \<open>heap\<close> and, for every request, its connection
  node; \<open>new\<close> gives addresses that are free. Between the calls the event threads change nodes and statuses.
\<close>

section \<open>State\<close>

text \<open>\<open>cl_impl\<close> is the implementation object, \<open>nullptr\<close> when there is none; \<open>cl_network\<close> is \<open>NlsEventNetWork::_eventClient\<close>.
  The two \<open>cl_isInitialize\<close> are static members.\<close>

record nls_client =
  cl_impl :: addr
  cl_isInitializeSSL :: bool
  cl_isInitializeThread :: bool
  cl_aiFamily :: string
  cl_directHostIp :: string
  cl_enableSysGetAddr :: bool
  cl_syncCallTimeoutMs :: nat
  cl_nodeManager :: node_manager
  cl_network :: "event_network option"
  cl_heap :: heap
  cl_nodes :: "addr \<rightharpoonup> conn_node"

definition client_zero :: nls_client where
  "client_zero = \<lparr>cl_impl = nullptr, cl_isInitializeSSL = False, cl_isInitializeThread = False, cl_aiFamily = [],
     cl_directHostIp = [], cl_enableSysGetAddr = False, cl_syncCallTimeoutMs = 0, cl_nodeManager = nm_init,
     cl_network = None, cl_heap = \<lparr>connectNode_of = Map.empty, uuid_of = Map.empty, request_of = Map.empty\<rparr>, cl_nodes = Map.empty\<rparr>"

section \<open>The instance\<close>

definition NlsClientImpl_new :: "addr \<Rightarrow> bool \<Rightarrow> nls_client \<Rightarrow> nls_client" where
  "NlsClientImpl_new impl sslInitial C = C\<lparr>cl_impl := impl, cl_aiFamily := ''AF_INET'', cl_directHostIp := [],
     cl_enableSysGetAddr := False, cl_syncCallTimeoutMs := 0, cl_nodeManager := nm_init,
     cl_isInitializeSSL := (cl_isInitializeSSL C \<or> sslInitial)\<rparr>"

definition getInstance :: "addr \<Rightarrow> bool \<Rightarrow> nls_client \<Rightarrow> nls_client" where
  "getInstance impl sslInitial C = (if cl_impl C = nullptr then NlsClientImpl_new impl sslInitial C else C)"

text \<open>\<open>removeInstanceFromInfo\<close> always succeeds; the requests are not released.\<close>

definition releaseInstanceImpl :: "nls_client \<Rightarrow> nls_client" where
  "releaseInstanceImpl C =
     (let C1 = (if cl_isInitializeThread C then C\<lparr>cl_network := None, cl_isInitializeThread := False\<rparr> else C);
          C2 = C1\<lparr>cl_isInitializeSSL := False\<rparr> in
      if removeInstanceFromInfo (cl_impl C2) \<noteq> Success then C2 else C2\<lparr>cl_nodeManager := nm_init\<rparr>)"

definition with_impl :: "(nls_client \<Rightarrow> nls_client option) \<Rightarrow> nls_client \<Rightarrow> nls_client option" where
  "with_impl f C = (if cl_impl C = nullptr then Some C else f C)"

definition releaseInstance :: "nls_client \<Rightarrow> nls_client option" where
  "releaseInstance = with_impl (\<lambda>C. Some ((releaseInstanceImpl C)\<lparr>cl_impl := nullptr\<rparr>))"

definition setAddrInFamilyImpl :: "string option \<Rightarrow> nls_client \<Rightarrow> nls_client" where
  "setAddrInFamilyImpl aiFamily C =
     (case aiFamily of
        None \<Rightarrow> C
      | Some f \<Rightarrow> if f = ''AF_INET'' \<or> f = ''AF_INET6'' \<or> f = ''AF_UNSPEC'' then C\<lparr>cl_aiFamily := f\<rparr> else C)"

text \<open>\<open>strncpy\<close> into 64 bytes.\<close>

definition setDirectHostImpl :: "string option \<Rightarrow> nls_client \<Rightarrow> nls_client" where
  "setDirectHostImpl ip C = C\<lparr>cl_directHostIp := (case ip of None \<Rightarrow> [] | Some s \<Rightarrow> take 64 s)\<rparr>"

definition startWorkThreadImpl :: "int \<Rightarrow> int \<Rightarrow> nls_client \<Rightarrow> nls_client" where
  "startWorkThreadImpl cpuNumber threadsNumber C =
     (let en = (case cl_network C of None \<Rightarrow> en_zero | Some en \<Rightarrow> en) in
      if cl_isInitializeThread C then C\<lparr>cl_network := Some en\<rparr>
      else C\<lparr>cl_network := Some (initEventNetWork cpuNumber threadsNumber (Some (cl_aiFamily C)) (Some (cl_directHostIp C))
               (cl_enableSysGetAddr C) (cl_syncCallTimeoutMs C) en), cl_isInitializeThread := True\<rparr>)"

text \<open>\<open>setLogConfig\<close>: the level is one of the four from \<open>LogError\<close> to \<open>LogDebug\<close>.\<close>

definition setLogConfigImpl :: "int \<Rightarrow> nat \<Rightarrow> int" where
  "setLogConfigImpl logLevel logFileNum =
     (if logLevel < 1 \<or> logLevel > 4 then - InvalidLogLevel else if logFileNum < 1 then - InvalidLogFileNum else Success)"

section \<open>Requests\<close>

text \<open>A new node; what the constructor does not set is what \<open>memory\<close> holds.\<close>

definition ConnectNode_new :: "addr \<Rightarrow> request_param \<Rightarrow> bool \<Rightarrow> conn_node \<Rightarrow> conn_node" where
  "ConnectNode_new node rp isLongConnection memory = memory\<lparr>cn_addr := node, cn_request := Some rp, cn_handler := True,
     cn_isLongConnection := isLongConnection, cn_retryConnectCount := 0, cn_socketFd := None, cn_binaryEvBuffer := [],
     cn_readEvBuffer := [], cn_cmdEvBuffer := [], cn_wwvEvBuffer := [],
     cn_audio := \<lparr>au_hasEncoder = False, au_encoderType = ENCODER_NONE, au_audioFrame = None, au_maxFrameSize = 0,
       au_isFirstAudioFrame = True\<rparr>,
     cn_isDestroy := False, cn_isWakeStop := False, cn_isStop := False, cn_isFirstBinaryFrame := True,
     cn_isConnected := False, cn_workStatus := NodeCreated, cn_exitStatus := ExitInvalid, cn_instance := False,
     cn_syncCallTimeoutMs := 0, cn_dnsEvent := False, cn_enableRecvTv := rp_enableRecvTimeout rp,
     cn_enableOnMessage := rp_enableOnMessage rp, cn_launchEvent := False, cn_connectEvent := False, cn_readEvent := False,
     cn_writeEvent := False, cn_releasingFlag := False, cn_connectTimerFlag := True, cn_connectTimerEvent := False,
     cn_rStatus := WsHeadSize, cn_http := http_init, cn_reconnection := rc_init\<rparr>"

definition heap_new :: "addr \<Rightarrow> addr \<Rightarrow> string \<Rightarrow> heap \<Rightarrow> heap" where
  "heap_new request node uuid h = h\<lparr>connectNode_of := (connectNode_of h)(request \<mapsto> node),
     uuid_of := (uuid_of h)(node \<mapsto> uuid), request_of := (request_of h)(node \<mapsto> request)\<rparr>"

definition heap_delete :: "addr \<Rightarrow> heap \<Rightarrow> heap option" where
  "heap_delete request h =
     (case connectNode_of h request of
        None \<Rightarrow> None
      | Some node \<Rightarrow> Some (h\<lparr>connectNode_of := (connectNode_of h)(request := None), uuid_of := (uuid_of h)(node := None),
          request_of := (request_of h)(node := None)\<rparr>))"

text \<open>\<open>delete request\<close>: \<open>None\<close> for an object that does not exist.\<close>

definition delete_request :: "addr \<Rightarrow> nls_client \<Rightarrow> nls_client option" where
  "delete_request request C =
     map_option (\<lambda>h. C\<lparr>cl_heap := h, cl_nodes := (cl_nodes C)(request := None)\<rparr>) (heap_delete request (cl_heap C))"

text \<open>\<open>new\<close> and the registration; the five \<open>create\<close> differ in the class of the request. The result is the request, \<open>nullptr\<close>
  when it could not be registered.\<close>

definition create_request :: "addr \<Rightarrow> addr \<Rightarrow> string \<Rightarrow> conn_node \<Rightarrow> nls_client \<Rightarrow> (addr \<times> nls_client) option" where
  "create_request request node uuid new_node C =
     (let C1 = C\<lparr>cl_heap := heap_new request node uuid (cl_heap C), cl_nodes := (cl_nodes C)(request \<mapsto> new_node)\<rparr> in
      case addRequestIntoInfoWithInstance (cl_heap C1) (cl_nodeManager C1) request (cl_impl C1) of
        None \<Rightarrow> None
      | Some (ret, m) \<Rightarrow>
          (let C2 = C1\<lparr>cl_nodeManager := m\<rparr> in
           if ret \<noteq> Success then map_option (\<lambda>C3. (nullptr, C3)) (delete_request request C2) else Some (request, C2)))"

text \<open>\<open>request->cancel()\<close> on the node \<open>n\<close>.\<close>

definition cancel_node :: "'j env \<Rightarrow> (nat \<Rightarrow> conn_node \<Rightarrow> conn_node) \<Rightarrow> nls_client \<Rightarrow> conn_node \<Rightarrow> conn_node" where
  "cancel_node E others C n =
     (case cl_network C of
        None \<Rightarrow> n
      | Some en \<Rightarrow>
          as_node (snd (cancel E others
            \<lparr>as_net = en,
             as_work = \<lparr>wt_node = n, wt_registry = cl_nodeManager C, wt_nodeList = [], wt_addrInFamily = en_addrInFamily en,
               wt_directIp = en_directIp en, wt_enableSysGetAddr = en_enableSysGetAddr en, wt_dnsBase = True\<rparr>,
             as_threadNumber = 0, as_hasNode = True\<rparr>)))"

text \<open>\<open>releaseRequest\<close>. Its two checks and the removal happen under the mutex of the client, so that nothing comes between.\<close>

definition releaseRequest :: "addr \<Rightarrow> nls_client \<Rightarrow> nls_client option" where
  "releaseRequest request C =
     (if request = nullptr then Some C
      else
        (case connectNode_of (cl_heap C) request of
           None \<Rightarrow> None
         | Some node \<Rightarrow>
             if node = nullptr then Some C
             else
               (case checkRequestExist (cl_heap C) (cl_nodeManager C) request of
                  None \<Rightarrow> None
                | Some (ret, status) \<Rightarrow>
                    if ret \<noteq> Success then Some C
                    else
                      (case cl_nodes C request of
                         None \<Rightarrow> None
                       | Some n \<Rightarrow>
                           (let n1 = snd (updateDestroyStatus (delAllEvents (n\<lparr>cn_releasingFlag := True\<rparr>)));
                                (removed, m) = removeRequestFromInfo (\<lambda>k m. m) (cl_nodeManager C) request False;
                                C1 = C\<lparr>cl_nodes := (cl_nodes C)(request \<mapsto> n1), cl_nodeManager := m\<rparr> in
                            if removed = Success then delete_request request C1 else Some C1)))))"

text \<open>The five \<open>release\<close>: a request of another client or of none is left alone; \<open>skip\<close> is the condition under which the request
  is not cancelled first.\<close>

definition release_request ::
  "(conn_node \<Rightarrow> bool) \<Rightarrow> 'j env \<Rightarrow> (nat \<Rightarrow> conn_node \<Rightarrow> conn_node) \<Rightarrow> addr \<Rightarrow> nls_client \<Rightarrow> nls_client option" where
  "release_request skip E others request C =
     (if request = nullptr then Some C
      else
        (case checkRequestWithInstance (cl_heap C) (cl_nodeManager C) request (cl_impl C) of
           None \<Rightarrow> None
         | Some ret \<Rightarrow>
             if ret \<noteq> Success then Some C
             else
               (case (connectNode_of (cl_heap C) request, cl_nodes C request) of
                  (Some node, Some n) \<Rightarrow>
                    releaseRequest request
                      (if node \<noteq> nullptr \<and> \<not> skip n
                       then C\<lparr>cl_nodes := (cl_nodes C)(request \<mapsto> cancel_node E others C n)\<rparr> else C)
                | _ \<Rightarrow> None)))"

definition ended :: "conn_node \<Rightarrow> bool" where
  "ended n \<longleftrightarrow> cn_exitStatus n \<noteq> ExitInvalid \<or> cn_workStatus n = NodeClosed"

text \<open>The ten functions.\<close>

definition createRecognizerRequest :: "json_lib \<Rightarrow> uuids \<Rightarrow> string \<Rightarrow> bool \<Rightarrow> conn_node \<Rightarrow> addr \<Rightarrow> addr \<Rightarrow> string \<Rightarrow> nls_client \<Rightarrow> (addr \<times> nls_client) option" where
  "createRecognizerRequest L u sdkName isLong memory request node uuid =
     create_request request node uuid
       (ConnectNode_new node (as_request_param (sr_class L) L u (SpeechRecognizerParam_new sdkName)) isLong memory)"

definition createTranscriberRequest :: "json_lib \<Rightarrow> uuids \<Rightarrow> string \<Rightarrow> bool \<Rightarrow> conn_node \<Rightarrow> addr \<Rightarrow> addr \<Rightarrow> string \<Rightarrow> nls_client \<Rightarrow> (addr \<times> nls_client) option" where
  "createTranscriberRequest L u sdkName isLong memory request node uuid =
     create_request request node uuid
       (ConnectNode_new node (as_request_param (st_class L) L u (SpeechTranscriberParam_new sdkName)) isLong memory)"

definition createSynthesizerRequest :: "int \<Rightarrow> json_lib \<Rightarrow> uuids \<Rightarrow> string \<Rightarrow> bool \<Rightarrow> conn_node \<Rightarrow> addr \<Rightarrow> addr \<Rightarrow> string \<Rightarrow> nls_client \<Rightarrow> (addr \<times> nls_client) option" where
  "createSynthesizerRequest version L u sdkName isLong memory request node uuid =
     create_request request node uuid
       (ConnectNode_new node
         (as_request_param (sy_class L) L u (SpeechSynthesizerParam_new version sdkName)) isLong memory)"

definition createDialogAssistantRequest :: "int \<Rightarrow> json_lib \<Rightarrow> uuids \<Rightarrow> string \<Rightarrow> bool \<Rightarrow> conn_node \<Rightarrow> addr \<Rightarrow> addr \<Rightarrow> string \<Rightarrow> nls_client \<Rightarrow> (addr \<times> nls_client) option" where
  "createDialogAssistantRequest version L u sdkName isLong memory request node uuid =
     create_request request node uuid
       (ConnectNode_new node (as_request_param (da_class L) L u (DialogAssistantParam_new version sdkName)) isLong memory)"

definition createFlowingSynthesizerRequest :: "json_lib \<Rightarrow> uuids \<Rightarrow> string \<Rightarrow> bool \<Rightarrow> conn_node \<Rightarrow> addr \<Rightarrow> addr \<Rightarrow> string \<Rightarrow> nls_client \<Rightarrow> (addr \<times> nls_client) option" where
  "createFlowingSynthesizerRequest L u sdkName isLong memory request node uuid =
     create_request request node uuid
       (ConnectNode_new node
         (as_request_param (fs_class L) L u (FlowingSynthesizerParam_new sdkName)) isLong memory)"

definition releaseTranscriberRequest :: "'j env \<Rightarrow> (nat \<Rightarrow> conn_node \<Rightarrow> conn_node) \<Rightarrow> addr \<Rightarrow> nls_client \<Rightarrow> nls_client option" where
  "releaseTranscriberRequest = release_request ended"

definition releaseRecognizerRequest :: "'j env \<Rightarrow> (nat \<Rightarrow> conn_node \<Rightarrow> conn_node) \<Rightarrow> addr \<Rightarrow> nls_client \<Rightarrow> nls_client option" where
  "releaseRecognizerRequest = release_request ended"

definition releaseSynthesizerRequest :: "'j env \<Rightarrow> (nat \<Rightarrow> conn_node \<Rightarrow> conn_node) \<Rightarrow> addr \<Rightarrow> nls_client \<Rightarrow> nls_client option" where
  "releaseSynthesizerRequest = release_request ended"

definition releaseFlowingSynthesizerRequest :: "'j env \<Rightarrow> (nat \<Rightarrow> conn_node \<Rightarrow> conn_node) \<Rightarrow> addr \<Rightarrow> nls_client \<Rightarrow> nls_client option" where
  "releaseFlowingSynthesizerRequest = release_request ended"

definition releaseDialogAssistantRequest :: "'j env \<Rightarrow> (nat \<Rightarrow> conn_node \<Rightarrow> conn_node) \<Rightarrow> addr \<Rightarrow> nls_client \<Rightarrow> nls_client option" where
  "releaseDialogAssistantRequest = release_request (\<lambda>n. cn_exitStatus n \<noteq> ExitInvalid)"

section \<open>Sequences of calls\<close>

datatype client_op =
    GetInstance addr bool
  | ReleaseInstance
  | SetAddrInFamily "string option"
  | SetUseSysGetAddrInfo bool
  | SetSyncCallTimeout nat
  | SetDirectHost "string option"
  | StartWorkThread int int
  | CreateRequest addr addr string conn_node
  | ReleaseRequest addr
  | ReleaseDialog addr
  | NodeStatus addr int
  | NodeRuns addr conn_node

text \<open>The last two are the event threads: a status they report and a node they change.\<close>

definition client_step :: "'j env \<Rightarrow> (nat \<Rightarrow> conn_node \<Rightarrow> conn_node) \<Rightarrow> client_op \<Rightarrow> nls_client \<Rightarrow> nls_client option" where
  "client_step E others op C =
     (case op of
        GetInstance impl ssl \<Rightarrow> Some (getInstance impl ssl C)
      | ReleaseInstance \<Rightarrow> releaseInstance C
      | SetAddrInFamily f \<Rightarrow> with_impl (Some \<circ> setAddrInFamilyImpl f) C
      | SetUseSysGetAddrInfo b \<Rightarrow> with_impl (\<lambda>C. Some (C\<lparr>cl_enableSysGetAddr := b\<rparr>)) C
      | SetSyncCallTimeout ms \<Rightarrow> with_impl (\<lambda>C. Some (C\<lparr>cl_syncCallTimeoutMs := ms\<rparr>)) C
      | SetDirectHost ip \<Rightarrow> with_impl (Some \<circ> setDirectHostImpl ip) C
      | StartWorkThread cpus n \<Rightarrow> with_impl (Some \<circ> startWorkThreadImpl cpus n) C
      | CreateRequest r n uuid node \<Rightarrow> with_impl (map_option snd \<circ> create_request r n uuid node) C
      | ReleaseRequest r \<Rightarrow> with_impl (releaseTranscriberRequest E others r) C
      | ReleaseDialog r \<Rightarrow> with_impl (releaseDialogAssistantRequest E others r) C
      | NodeStatus n status \<Rightarrow> map_option (\<lambda>(ret, m). C\<lparr>cl_nodeManager := m\<rparr>) (updateNodeStatus (cl_heap C) (cl_nodeManager C) n status)
      | NodeRuns r node \<Rightarrow> Some (if cl_nodes C r = None then C else C\<lparr>cl_nodes := (cl_nodes C)(r \<mapsto> node)\<rparr>))"

text \<open>\<open>new\<close> gives free addresses.\<close>

definition op_fresh :: "client_op \<Rightarrow> nls_client \<Rightarrow> bool" where
  "op_fresh op C =
     (case op of
        GetInstance impl ssl \<Rightarrow> impl \<noteq> nullptr
      | CreateRequest r n uuid node \<Rightarrow> r \<noteq> nullptr \<and> n \<noteq> nullptr \<and> connectNode_of (cl_heap C) r = None \<and> request_of (cl_heap C) n = None
      | _ \<Rightarrow> True)"

definition client_run :: "'j env \<Rightarrow> (nat \<Rightarrow> conn_node \<Rightarrow> conn_node) \<Rightarrow> client_op list \<Rightarrow> nls_client \<Rightarrow> nls_client option" where
  "client_run E others ops C = run_opt (client_step E others) ops C"

fun all_fresh :: "'j env \<Rightarrow> (nat \<Rightarrow> conn_node \<Rightarrow> conn_node) \<Rightarrow> client_op list \<Rightarrow> nls_client \<Rightarrow> bool" where
  "all_fresh E others [] C = True"
| "all_fresh E others (op # ops) C =
     (op_fresh op C \<and> (case client_step E others op C of None \<Rightarrow> True | Some C' \<Rightarrow> all_fresh E others ops C'))"

section \<open>The invariant\<close>

definition heap_ok :: "heap \<Rightarrow> bool" where
  "heap_ok h \<longleftrightarrow> (\<forall>r n. connectNode_of h r = Some n \<longrightarrow>
     r \<noteq> nullptr \<and> n \<noteq> nullptr \<and> request_of h n = Some r \<and> uuid_of h n \<noteq> None)"

definition client_ok :: "nls_client \<Rightarrow> bool" where
  "client_ok C \<longleftrightarrow> heap_ok (cl_heap C) \<and> nm_ok (cl_heap C) (cl_nodeManager C) \<and> dom (cl_nodes C) = dom (connectNode_of (cl_heap C))"

lemma client_ok_zero: "client_ok client_zero"
  by (simp add: client_ok_def client_zero_def heap_ok_def nm_ok_init)

lemma nm_ok_heap_new:
  assumes "nm_ok h m" and "connectNode_of h r = None" and "request_of h n = None"
  shows "nm_ok (heap_new r n u h) m"
proof (rule nm_okI)
  fix r' i assume i: "infoByRequest m r' = Some i"
  with nm_ok_info [OF assms(1)] assms(2,3) show "info_ok (heap_new r n u h) m r' i"
    by (auto simp: info_ok_def heap_new_def)
next
  fix n' r' assume "requestListByNode m n' = Some r'"
  from nm_ok_node [OF assms(1) this] show "\<exists>i. infoByRequest m r' = Some i \<and> ni_node i = n'" by blast
qed

lemma nm_ok_heap_delete:
  assumes "nm_ok h m" and "infoByRequest m r = None" and "heap_ok h" and "heap_delete r h = Some h'"
  shows "nm_ok h' m \<and> heap_ok h'"
proof -
  from assms(4) obtain n where n: "connectNode_of h r = Some n"
    "h' = h\<lparr>connectNode_of := (connectNode_of h)(r := None), uuid_of := (uuid_of h)(n := None), request_of := (request_of h)(n := None)\<rparr>"
    by (auto simp: heap_delete_def split: option.splits)
  from assms(3) n(1) have rn: "request_of h n = Some r" by (auto simp: heap_ok_def)
  have "nm_ok h' m"
  proof (rule nm_okI)
    fix r' i assume i: "infoByRequest m r' = Some i"
    with nm_ok_info [OF assms(1) i] assms(2) rn n show "info_ok h' m r' i" by (auto simp: info_ok_def)
  next
    fix n' r' assume "requestListByNode m n' = Some r'"
    from nm_ok_node [OF assms(1) this] show "\<exists>i. infoByRequest m r' = Some i \<and> ni_node i = n'" by blast
  qed
  moreover have "ra = r" if "connectNode_of h ra = Some n" for ra using assms(3) rn that by (auto simp: heap_ok_def)
  then have "heap_ok h'" using assms(3) n(2) by (auto simp: heap_ok_def)
  ultimately show ?thesis by blast
qed

lemma heap_ok_new:
  assumes "heap_ok h" and "r \<noteq> nullptr" "n \<noteq> nullptr" and "connectNode_of h r = None" "request_of h n = None"
  shows "heap_ok (heap_new r n u h) \<and> linked (heap_new r n u h) r"
  using assms by (auto simp: heap_ok_def heap_new_def linked_def)

section \<open>Creation\<close>

lemma registered_exists: "nm_ok h m \<Longrightarrow> connectNode_of h r = None \<Longrightarrow> infoByRequest m r = None"
  using nm_ok_info [of h m r] by (cases "infoByRequest m r") (auto simp: info_ok_def)

lemma create_request_ok:
  assumes "client_ok C" and "cl_impl C \<noteq> nullptr" and "r \<noteq> nullptr" "n \<noteq> nullptr"
    and "connectNode_of (cl_heap C) r = None" "request_of (cl_heap C) n = None"
  shows "\<exists>m. create_request r n uuid node C =
      Some (r, C\<lparr>cl_heap := heap_new r n uuid (cl_heap C), cl_nodes := (cl_nodes C)(r \<mapsto> node), cl_nodeManager := m\<rparr>)
    \<and> nm_ok (heap_new r n uuid (cl_heap C)) m
    \<and> infoByRequest m = (infoByRequest (cl_nodeManager C))(r \<mapsto>
        \<lparr>ni_request = r, ni_node = n, ni_instance = cl_impl C, ni_uuid = uuid, ni_status = NodeStatusCreated\<rparr>)"
proof -
  let ?h = "heap_new r n uuid (cl_heap C)"
  have ok: "nm_ok ?h (cl_nodeManager C)" "linked ?h r"
    using assms nm_ok_heap_new heap_ok_new by (auto simp: client_ok_def)
  from add_ok [OF ok(1), of r "cl_impl C"] ok(2) obtain ret m where
    a: "addRequestIntoInfoWithInstance ?h (cl_nodeManager C) r (cl_impl C) = Some (ret, m)" "nm_ok ?h m" by blast
  have fresh: "infoByRequest (cl_nodeManager C) r = None"
    using assms(1,5) registered_exists by (auto simp: client_ok_def)
  have h: "connectNode_of ?h r = Some n" "uuid_of ?h n = Some uuid" by (simp_all add: heap_new_def)
  have "ret = Success \<and> infoByRequest m = (infoByRequest (cl_nodeManager C))(r \<mapsto>
        \<lparr>ni_request = r, ni_node = n, ni_instance = cl_impl C, ni_uuid = uuid, ni_status = NodeStatusCreated\<rparr>)"
    using a(1) assms(2-4) fresh h by (auto simp: addRequestIntoInfoWithInstance_def)
  with a show ?thesis by (intro exI [of _ m]) (simp add: create_request_def Let_def)
qed

lemma create_client_ok:
  assumes "client_ok C" and "cl_impl C \<noteq> nullptr" and "r \<noteq> nullptr" "n \<noteq> nullptr"
    and "connectNode_of (cl_heap C) r = None" "request_of (cl_heap C) n = None"
  shows "\<exists>C'. create_request r n uuid node C = Some (r, C') \<and> client_ok C'"
proof -
  from create_request_ok [OF assms] obtain m where
    m: "create_request r n uuid node C =
      Some (r, C\<lparr>cl_heap := heap_new r n uuid (cl_heap C), cl_nodes := (cl_nodes C)(r \<mapsto> node), cl_nodeManager := m\<rparr>)"
    "nm_ok (heap_new r n uuid (cl_heap C)) m" by blast
  have "dom ((cl_nodes C)(r \<mapsto> node)) = dom (connectNode_of (heap_new r n uuid (cl_heap C)))"
    using assms(1) by (auto simp: client_ok_def heap_new_def)
  with m heap_ok_new [of "cl_heap C" r n uuid] assms show ?thesis by (auto simp: client_ok_def)
qed

section \<open>Release\<close>

text \<open>Releasing a registered request deletes it with its node and nothing else.\<close>

lemma releaseRequest_registered:
  assumes "client_ok C" and "infoByRequest (cl_nodeManager C) r = Some i"
  shows "\<exists>C'. releaseRequest r C = Some C' \<and> client_ok C' \<and> connectNode_of (cl_heap C') = (connectNode_of (cl_heap C))(r := None)
    \<and> infoByRequest (cl_nodeManager C') = (infoByRequest (cl_nodeManager C))(r := None)
    \<and> (\<forall>r'. r' \<noteq> r \<longrightarrow> cl_nodes C' r' = cl_nodes C r') \<and> cl_impl C' = cl_impl C"
proof -
  have ok: "heap_ok (cl_heap C)" "nm_ok (cl_heap C) (cl_nodeManager C)" "dom (cl_nodes C) = dom (connectNode_of (cl_heap C))"
    using assms(1) by (simp_all add: client_ok_def)
  note i = nm_ok_info [OF ok(2) assms(2)]
  then have c: "connectNode_of (cl_heap C) r = Some (ni_node i)" "r \<noteq> nullptr" "ni_node i \<noteq> nullptr" by (simp_all add: info_ok_def)
  with ok(3) obtain n where n: "cl_nodes C r = Some n" by blast
  obtain m where e: "erase_request (cl_nodeManager C) r = (Success, m)"
    "infoByRequest m = (infoByRequest (cl_nodeManager C))(r := None)"
    using assms(2) by (simp add: erase_request_def)
  have m: "nm_ok (cl_heap C) m" using erase_ok [OF ok(2), of r] e(1) by simp
  obtain h' where h': "heap_delete r (cl_heap C) = Some h'" "connectNode_of h' = (connectNode_of (cl_heap C))(r := None)"
    using c by (simp add: heap_delete_def)
  from nm_ok_heap_delete [OF m _ ok(1) h'(1)] e(2) have "nm_ok h' m" "heap_ok h'" by simp_all
  moreover have "releaseRequest r C = Some (C\<lparr>cl_nodes := (cl_nodes C)(r := None), cl_nodeManager := m, cl_heap := h'\<rparr>)"
    using checkRequestExist_registered [OF ok(2) assms(2)] c n e(1) h'(1)
    by (simp add: releaseRequest_def removeRequestFromInfo_def delete_request_def Let_def)
  ultimately show ?thesis using e(2) h'(2) ok(3) by (auto simp: client_ok_def)
qed

lemma cancelled_ok:
  "client_ok C \<Longrightarrow> cl_nodes C r \<noteq> None \<Longrightarrow> client_ok (C\<lparr>cl_nodes := (cl_nodes C)(r \<mapsto> n)\<rparr>)"
  by (auto simp: client_ok_def)

text \<open>The whole of a release, on any address.\<close>

lemma release_request_cases:
  assumes "client_ok C" and "cl_impl C \<noteq> nullptr"
  shows "\<exists>C'. release_request skip E others r C = Some C' \<and> client_ok C' \<and> cl_impl C' = cl_impl C
    \<and> (if \<exists>i. infoByRequest (cl_nodeManager C) r = Some i \<and> ni_instance i = cl_impl C
       then connectNode_of (cl_heap C') = (connectNode_of (cl_heap C))(r := None)
         \<and> infoByRequest (cl_nodeManager C') = (infoByRequest (cl_nodeManager C))(r := None)
         \<and> (\<forall>r'. r' \<noteq> r \<longrightarrow> cl_nodes C' r' = cl_nodes C r')
       else C' = C)"
proof (cases "\<exists>i. infoByRequest (cl_nodeManager C) r = Some i \<and> ni_instance i = cl_impl C")
  case False
  have "checkRequestWithInstance (cl_heap C) (cl_nodeManager C) r (cl_impl C) = Some (- InvalidRequest)" if "r \<noteq> nullptr"
    using False that assms(2) by (auto simp: checkRequestWithInstance_def split: option.splits)
  with False assms show ?thesis by (auto simp: release_request_def)
next
  case True
  then obtain i where i: "infoByRequest (cl_nodeManager C) r = Some i" "ni_instance i = cl_impl C" by blast
  have ok: "nm_ok (cl_heap C) (cl_nodeManager C)" "dom (cl_nodes C) = dom (connectNode_of (cl_heap C))"
    using assms(1) by (simp_all add: client_ok_def)
  have c: "connectNode_of (cl_heap C) r = Some (ni_node i)" "r \<noteq> nullptr" "ni_node i \<noteq> nullptr"
    using nm_ok_info [OF ok(1) i(1)] by (simp_all add: info_ok_def)
  with ok(2) obtain n where n: "cl_nodes C r = Some n" by blast
  have ch: "checkRequestWithInstance (cl_heap C) (cl_nodeManager C) r (cl_impl C) = Some Success"
    using i c assms(2) check_node_of_request_ok [OF ok(1) i(1)] by (simp add: checkRequestWithInstance_def)
  define C1 where "C1 = (if \<not> skip n then C\<lparr>cl_nodes := (cl_nodes C)(r \<mapsto> cancel_node E others C n)\<rparr> else C)"
  have C1: "client_ok C1" "infoByRequest (cl_nodeManager C1) r = Some i" "cl_nodeManager C1 = cl_nodeManager C"
    "cl_heap C1 = cl_heap C" "cl_impl C1 = cl_impl C" "\<forall>r'. r' \<noteq> r \<longrightarrow> cl_nodes C1 r' = cl_nodes C r'"
    using assms(1) n i(1) cancelled_ok [of C r] by (simp_all add: C1_def)
  have "release_request skip E others r C = releaseRequest r C1"
    using ch c n by (simp add: release_request_def C1_def)
  with releaseRequest_registered [OF C1(1,2)] C1(3-6) True show ?thesis by auto
qed

section \<open>Safety\<close>

lemma client_ok_fields:
  "client_ok C \<Longrightarrow> client_ok (C\<lparr>cl_impl := i\<rparr>)" "client_ok C \<Longrightarrow> client_ok (C\<lparr>cl_enableSysGetAddr := b\<rparr>)"
  "client_ok C \<Longrightarrow> client_ok (C\<lparr>cl_syncCallTimeoutMs := ms\<rparr>)"
  "client_ok C \<Longrightarrow> client_ok (getInstance i ssl C)" "client_ok C \<Longrightarrow> client_ok (releaseInstanceImpl C)"
  "client_ok C \<Longrightarrow> client_ok (setAddrInFamilyImpl f C)" "client_ok C \<Longrightarrow> client_ok (setDirectHostImpl d C)"
  "client_ok C \<Longrightarrow> client_ok (startWorkThreadImpl cpus num C)"
  by (simp_all add: client_ok_def getInstance_def NlsClientImpl_new_def releaseInstanceImpl_def setAddrInFamilyImpl_def
      setDirectHostImpl_def startWorkThreadImpl_def removeInstanceFromInfo_def nm_ok_init Let_def split: option.split)

lemma with_impl_ok:
  "client_ok C \<Longrightarrow> (cl_impl C \<noteq> nullptr \<Longrightarrow> \<exists>C'. f C = Some C' \<and> client_ok C') \<Longrightarrow> \<exists>C'. with_impl f C = Some C' \<and> client_ok C'"
  by (simp add: with_impl_def)

lemma release_step_ok: "client_ok C \<Longrightarrow> \<exists>C'. with_impl (release_request skip E others r) C = Some C' \<and> client_ok C'"
  using release_request_cases [of C skip E others r] by (intro with_impl_ok) auto

lemma client_step_ok:
  assumes "client_ok C" and "op_fresh op C"
  shows "\<exists>C'. client_step E others op C = Some C' \<and> client_ok C'"
proof (cases op)
  case (CreateRequest r n uuid node)
  with assms(2) have "\<exists>C'. create_request r n uuid node C = Some (r, C') \<and> client_ok C'" if "cl_impl C \<noteq> nullptr"
    using create_client_ok [OF assms(1) that] by (simp add: op_fresh_def)
  then show ?thesis using with_impl_ok [OF assms(1)] CreateRequest by (fastforce simp: client_step_def)
next
  case (ReleaseRequest r)
  with release_step_ok [OF assms(1)] show ?thesis by (simp add: client_step_def releaseTranscriberRequest_def)
next
  case (ReleaseDialog r)
  with release_step_ok [OF assms(1)] show ?thesis by (simp add: client_step_def releaseDialogAssistantRequest_def)
next
  case (NodeStatus n status)
  from assms(1) have "nm_ok (cl_heap C) (cl_nodeManager C)" by (simp add: client_ok_def)
  from update_ok [OF this, of n status] NodeStatus assms(1) show ?thesis by (auto simp: client_step_def client_ok_def)
qed (use assms client_ok_fields in \<open>auto simp: client_step_def releaseInstance_def with_impl_def cancelled_ok\<close>)

lemma client_run_ok:
  "client_ok C \<Longrightarrow> all_fresh E others ops C \<Longrightarrow> \<exists>C'. client_run E others ops C = Some C' \<and> client_ok C'"
proof (induction ops arbitrary: C)
  case (Cons op ops)
  from client_step_ok [OF Cons.prems(1), of op E others] Cons.prems(2) obtain C1 where
    1: "client_step E others op C = Some C1" "client_ok C1" by auto
  with Cons.IH [OF 1(2)] Cons.prems(2) show ?case by (simp add: client_run_def)
qed (simp add: client_run_def)


text \<open>C20. A release deletes the request it is given, if this client made it, and touches no other; called again for the same
  request, as long as the address is not used anew, it does nothing.\<close>

theorem released_once:
  assumes "client_ok C" and "cl_impl C \<noteq> nullptr"
    and "infoByRequest (cl_nodeManager C) r = Some i" and "ni_instance i = cl_impl C"
  shows "\<exists>C'. releaseTranscriberRequest E others r C = Some C'
    \<and> connectNode_of (cl_heap C') = (connectNode_of (cl_heap C))(r := None)
    \<and> (\<forall>r'. r' \<noteq> r \<longrightarrow> cl_nodes C' r' = cl_nodes C r')
    \<and> releaseTranscriberRequest E others r C' = Some C'"
proof -
  from release_request_cases [OF assms(1,2), of ended E others r] assms(3,4) obtain C' where
    1: "release_request ended E others r C = Some C'" "client_ok C'" "cl_impl C' = cl_impl C"
    "connectNode_of (cl_heap C') = (connectNode_of (cl_heap C))(r := None)"
    "infoByRequest (cl_nodeManager C') = (infoByRequest (cl_nodeManager C))(r := None)"
    "\<forall>r'. r' \<noteq> r \<longrightarrow> cl_nodes C' r' = cl_nodes C r'" by auto
  from release_request_cases [OF 1(2), of ended E others r] 1(3,5) assms(2)
  have "release_request ended E others r C' = Some C'" by auto
  with 1 show ?thesis by (simp add: releaseTranscriberRequest_def)
qed

text \<open>Requests that are alive when the client is released can never be released afterwards: the new client does not
  know them and leaves them alone, so that they and their nodes stay allocated.\<close>

theorem orphans_stay:
  assumes "client_ok C" and "cl_impl C \<noteq> nullptr" and "impl \<noteq> nullptr"
    and "releaseInstance C = Some C1" and "C2 = getInstance impl ssl C1"
  shows "connectNode_of (cl_heap C2) = connectNode_of (cl_heap C) \<and> cl_nodes C2 = cl_nodes C
    \<and> releaseTranscriberRequest E others r C2 = Some C2"
proof -
  have C1: "C1 = (releaseInstanceImpl C)\<lparr>cl_impl := nullptr\<rparr>" using assms(2,4) by (simp add: releaseInstance_def with_impl_def)
  then have ok: "client_ok C2" using assms(1,5) client_ok_fields by simp
  have "cl_impl C2 \<noteq> nullptr" "cl_nodeManager C2 = nm_init" "cl_heap C2 = cl_heap C" "cl_nodes C2 = cl_nodes C"
    using C1 assms(3,5) by (simp_all add: getInstance_def NlsClientImpl_new_def releaseInstanceImpl_def removeInstanceFromInfo_def Let_def)
  with release_request_cases [OF ok, of ended E others r] show ?thesis
    by (auto simp: nm_init_def releaseTranscriberRequest_def)
qed

section \<open>Examples\<close>

definition client_example :: nls_client where
  "client_example = client_zero\<lparr>cl_impl := 9,
     cl_nodeManager := nm_init\<lparr>infoByRequest := [1 \<mapsto> \<lparr>ni_request = 1, ni_node = 2, ni_instance = 9, ni_uuid = ''a'', ni_status = 1\<rparr>],
       requestListByNode := [2 \<mapsto> 1]\<rparr>,
     cl_heap := heap_new 1 2 ''a'' (cl_heap client_zero), cl_nodes := [1 \<mapsto> node_example\<lparr>cn_exitStatus := ExitCancel\<rparr>]\<rparr>"

lemma client_example_ok: "client_ok client_example"
  by (simp add: client_ok_def client_example_def client_zero_def heap_new_def heap_ok_def nm_ok_def info_ok_def nm_init_def)


lemma released_once_witness:
  "\<exists>C'. releaseTranscriberRequest (env_example None) (\<lambda>k n. n) 1 client_example = Some C' \<and> connectNode_of (cl_heap C') 1 = None
    \<and> releaseTranscriberRequest (env_example None) (\<lambda>k n. n) 1 C' = Some C'"
  using released_once [OF client_example_ok, where r = 1 and E = "env_example None" and others = "\<lambda>k n. n"]
  by (auto simp: client_example_def)

lemma orphans_stay_witness:
  "\<exists>C1. releaseInstance client_example = Some C1 \<and> cl_nodes (getInstance 10 True C1) 1 \<noteq> None
    \<and> releaseTranscriberRequest (env_example None) (\<lambda>k n. n) 1 (getInstance 10 True C1) = Some (getInstance 10 True C1)"
proof -
  obtain C1 where 1: "releaseInstance client_example = Some C1" by (simp add: releaseInstance_def with_impl_def client_example_def)
  from orphans_stay [OF client_example_ok _ _ 1 refl, where impl = 10 and ssl = True and r = 1 and E = "env_example None" and others = "\<lambda>k n. n"] 1
  show ?thesis by (simp add: client_example_def)
qed

end
