(* ===== verification/OggHeader.thy ===== *)
theory OggHeader
  imports NlsGlobal "HOL-Library.Monad_Syntax"
begin

text \<open>
  The first two packets of an Ogg/Opus stream: \<open>encoder/oggopusHeader.cpp\<close>, which writes the identification header, and
  the comment header of \<open>encoder/oggopusEncoder.cpp\<close>. A packet being written is its bytes and the size of its memory;
  a function that runs out of memory writes nothing and returns 0, here \<open>None\<close>.
\<close>

section \<open>Little-endian fields\<close>

definition le_bytes :: "nat \<Rightarrow> int \<Rightarrow> byte list" where
  "le_bytes k v = map (\<lambda>i. word_of_int (v div 256 ^ i)) [0..<k]"

type_synonym packet = "byte list \<times> int"

definition write_chars :: "byte list \<Rightarrow> packet \<Rightarrow> packet option" where
  "write_chars str p = (if int (length (fst p)) > snd p - int (length str) then None else Some (fst p @ str, snd p))"

definition write_uint32 :: "int \<Rightarrow> packet \<Rightarrow> packet option" where
  "write_uint32 v p = (if int (length (fst p)) > snd p - 4 then None else Some (fst p @ le_bytes 4 v, snd p))"

definition write_uint16 :: "int \<Rightarrow> packet \<Rightarrow> packet option" where
  "write_uint16 v p = (if int (length (fst p)) > snd p - 2 then None else Some (fst p @ le_bytes 2 v, snd p))"

text \<open>A packet being read is its bytes and the position.\<close>

definition le_val :: "byte list \<Rightarrow> int" where
  "le_val bs = (\<Sum>i<length bs. uint (bs ! i) * 256 ^ i)"

definition read_uint32 :: "byte list \<times> nat \<Rightarrow> (int \<times> nat) option" where
  "read_uint32 p = (let (data, pos) = p in if int pos > int (length data) - 4 then None else Some (le_val (take 4 (drop pos data)), pos + 4))"

definition read_uint16 :: "byte list \<times> nat \<Rightarrow> (int \<times> nat) option" where
  "read_uint16 p = (let (data, pos) = p in if int pos > int (length data) - 2 then None else Some (le_val (take 2 (drop pos data)), pos + 2))"

definition read_chars :: "nat \<Rightarrow> byte list \<times> nat \<Rightarrow> (byte list \<times> nat) option" where
  "read_chars k p = (let (data, pos) = p in if int pos > int (length data) - int k then None else Some (take k (drop pos data), pos + k))"

section \<open>The identification header\<close>

record OpusHeader =
  oh_version :: int
  oh_channels :: int
  oh_preskip :: int
  oh_input_sample_rate :: int
  oh_gain :: int
  oh_channel_mapping :: int
  oh_nb_streams :: int
  oh_nb_coupled :: int
  oh_stream_map :: "byte list"

definition OpusHeader_new :: OpusHeader where
  "OpusHeader_new = \<lparr>oh_version = 0, oh_channels = 0, oh_preskip = 0, oh_input_sample_rate = 0, oh_gain = 0,
     oh_channel_mapping = 0, oh_nb_streams = 0, oh_nb_coupled = 0, oh_stream_map = replicate 255 0\<rparr>"

text \<open>The loop over \<open>stream_map\<close>, whose 255 entries end before a channel number that is larger: \<open>None\<close> there too.\<close>

fun write_map :: "byte list \<Rightarrow> nat \<Rightarrow> packet \<Rightarrow> packet option" where
  "write_map m 0 p = Some p"
| "write_map [] (Suc k) p = None"
| "write_map (b # m) (Suc k) p = Option.bind (write_chars [b] p) (write_map m k)"

definition write_steps :: "(packet \<Rightarrow> packet option) list \<Rightarrow> packet \<Rightarrow> packet option" where
  "write_steps fs p = fold (\<lambda>f r. Option.bind r f) fs (Some p)"

text \<open>The result is the packet; an empty one stands for the result 0.\<close>

definition OpusHeaderToPacket :: "OpusHeader \<Rightarrow> int \<Rightarrow> byte list" where
  "OpusHeaderToPacket h len =
     (if len < 19 then []
      else
        (case write_steps
           ([write_chars (bytes_of ''OpusHead''), write_chars [1], write_chars [word_of_int (oh_channels h)],
             write_uint16 (oh_preskip h), write_uint32 (oh_input_sample_rate h), write_uint16 (oh_gain h),
             write_chars [word_of_int (oh_channel_mapping h)]]
            @ (if oh_channel_mapping h \<noteq> 0 then
                 [write_chars [word_of_int (oh_nb_streams h)], write_chars [word_of_int (oh_nb_coupled h)],
                  write_map (oh_stream_map h) (nat (oh_channels h))]
               else [])) ([], len) of
           None \<Rightarrow> []
         | Some p \<Rightarrow> fst p))"

section \<open>The comment header\<close>

text \<open>\<open>writeint\<close> and \<open>readint\<close> in a block of memory.\<close>

definition writeint :: "byte list \<Rightarrow> nat \<Rightarrow> int \<Rightarrow> byte list" where
  "writeint buf base v = take base buf @ le_bytes 4 v @ drop (base + 4) buf"

definition readint :: "byte list \<Rightarrow> nat \<Rightarrow> int" where
  "readint buf base = le_val (take 4 (drop base buf))"

definition copy_at :: "byte list \<Rightarrow> nat \<Rightarrow> byte list \<Rightarrow> byte list" where
  "copy_at buf base src = take base buf @ src @ drop (base + length src) buf"

definition InitComment :: "string \<Rightarrow> byte list" where
  "InitComment opus_version =
     (let n = length opus_version; p = replicate (8 + 4 + n + 4) 0 in
      writeint (copy_at (writeint (copy_at p 0 (bytes_of ''OpusTags'')) 8 (int n)) 12 (bytes_of opus_version)) (12 + n) 0)"

text \<open>\<open>realloc\<close> keeps the old bytes; \<open>more_bytes\<close> is what the new ones hold.\<close>

definition AddComment :: "string \<Rightarrow> (nat \<Rightarrow> byte list) \<Rightarrow> byte list \<Rightarrow> byte list" where
  "AddComment ENCODER_string more_bytes p =
     (let tag = ''ENCODER''; vendor_length = nat (readint p 8);
          user_comment_list_length = readint p (8 + 4 + vendor_length);
          tag_len = length tag; val_len = length ENCODER_string; old = length p;
          len = old + 4 + tag_len + val_len;
          p1 = p @ more_bytes (len - old);
          p2 = writeint p1 old (int (tag_len + val_len));
          p3 = copy_at p2 (old + 4) (bytes_of tag);
          p4 = p3[old + 4 + (tag_len - 1) := 61];
          p5 = copy_at p4 (old + 4 + tag_len) (bytes_of ENCODER_string) in
      writeint p5 (8 + 4 + vendor_length) (user_comment_list_length + 1))"

definition ENCODER_string :: string where
  "ENCODER_string = ''opusenc from opus-tools of Alibaba iDST 1.3.5''"

section \<open>Reading back what was written\<close>

lemma length_le_bytes [simp]: "length (le_bytes k v) = k"
  by (simp add: le_bytes_def)

lemma le_val_mod: "le_val (le_bytes k v) = v mod 256 ^ k"
proof -
  have "(\<Sum>i<k. uint (word_of_int (v div 256 ^ i) :: byte) * 256 ^ i) = v mod 256 ^ k"
  proof (induction k)
    case (Suc k)
    have "uint (word_of_int (v div 256 ^ k) :: byte) = v div 256 ^ k mod 256" by (simp add: uint_word_of_int)
    with Suc have "(\<Sum>i<Suc k. uint (word_of_int (v div 256 ^ i) :: byte) * 256 ^ i) = v mod 256 ^ k + (v div 256 ^ k mod 256) * 256 ^ k"
      by simp
    also have "\<dots> = v mod (256 ^ k * 256)" by (simp add: zmod_zmult2_eq)
    finally show ?case by (simp add: mult.commute)
  qed simp
  then show ?thesis by (simp add: le_val_def le_bytes_def)
qed

lemma le_val_le_bytes: "0 \<le> v \<Longrightarrow> v < 256 ^ k \<Longrightarrow> le_val (le_bytes k v) = v"
  by (simp add: le_val_mod)

text \<open>The reference: the reading functions of the source in the order of the fields.\<close>

definition read_header :: "byte list \<Rightarrow> (byte list \<times> byte list \<times> byte list \<times> int \<times> int \<times> int \<times> byte list) option" where
  "read_header data =
     do {
       (magic, p1) \<leftarrow> read_chars 8 (data, 0);
       (version, p2) \<leftarrow> read_chars 1 (data, p1);
       (channels, p3) \<leftarrow> read_chars 1 (data, p2);
       (preskip, p4) \<leftarrow> read_uint16 (data, p3);
       (rate, p5) \<leftarrow> read_uint32 (data, p4);
       (gain, p6) \<leftarrow> read_uint16 (data, p5);
       (mapping, p7) \<leftarrow> read_chars 1 (data, p6);
       Some (magic, version, channels, preskip, rate, gain, mapping)
     }"

lemma header_bytes:
  assumes "19 \<le> len" and "oh_channel_mapping h = 0"
  shows "OpusHeaderToPacket h len = bytes_of ''OpusHead'' @ [1] @ [word_of_int (oh_channels h)] @ le_bytes 2 (oh_preskip h)
    @ le_bytes 4 (oh_input_sample_rate h) @ le_bytes 2 (oh_gain h) @ [0]"
  using assms
  by (simp add: OpusHeaderToPacket_def write_steps_def write_chars_def write_uint16_def write_uint32_def)

text \<open>The identification header holds the parameters of the encoder: read with the functions that read its fields, a packet
  for the mapping 0 gives back the mark, the version, the channels, the pre-skip, the rate and the gain; it has
  19 bytes, and a smaller memory is refused.\<close>

theorem opus_header_reads_back:
  assumes "19 \<le> len" and "oh_channel_mapping h = 0" and "0 \<le> oh_preskip h" "oh_preskip h < 65536"
    and "0 \<le> oh_input_sample_rate h" "oh_input_sample_rate h < 4294967296" and "0 \<le> oh_gain h" "oh_gain h < 65536"
  shows "read_header (OpusHeaderToPacket h len) =
      Some (bytes_of ''OpusHead'', [1], [word_of_int (oh_channels h)], oh_preskip h, oh_input_sample_rate h, oh_gain h, [0])
    \<and> length (OpusHeaderToPacket h len) = 19"
proof -
  have fields: "le_val (le_bytes 2 (oh_preskip h)) = oh_preskip h" "le_val (le_bytes 4 (oh_input_sample_rate h)) = oh_input_sample_rate h"
    "le_val (le_bytes 2 (oh_gain h)) = oh_gain h"
    using assms(3-8) by (simp_all add: le_val_le_bytes)
  show ?thesis unfolding header_bytes [OF assms(1,2)]
    by (simp add: read_header_def read_chars_def read_uint16_def read_uint32_def fields)
qed

lemma small_memory_refused: "len < 19 \<Longrightarrow> OpusHeaderToPacket h len = []"
  by (simp add: OpusHeaderToPacket_def)

section \<open>The comment\<close>

lemma init_comment_bytes:
  "InitComment v = bytes_of ''OpusTags'' @ le_bytes 4 (int (length v)) @ bytes_of v @ le_bytes 4 0"
  by (simp add: InitComment_def Let_def writeint_def copy_at_def)

lemma copy_at_middle: "length pre = base \<Longrightarrow> length mid = length src \<Longrightarrow> copy_at (pre @ mid @ post) base src = pre @ src @ post"
  by (simp add: copy_at_def)

lemma writeint_copy: "writeint buf base v = copy_at buf base (le_bytes 4 v)"
  by (simp add: writeint_def copy_at_def)

text \<open>The comment header is well formed whatever the version of the library: the mark, the vendor with its length, one
  comment with its length; but the comment is named \<open>ENCODE\<close>, because the separator is written over the last letter of
  its name instead of behind it.\<close>

theorem comment_layout:
  assumes "length v < 2147483648" and "\<And>k. length (more_bytes k) = k"
  shows "AddComment ENCODER_string more_bytes (InitComment v) =
    bytes_of ''OpusTags'' @ le_bytes 4 (int (length v)) @ bytes_of v @ le_bytes 4 1
    @ le_bytes 4 (int (7 + length ENCODER_string)) @ bytes_of (''ENCODE='' @ ENCODER_string)"
proof -
  have r8: "readint (InitComment v) 8 = int (length v)"
    using assms(1) by (simp add: readint_def init_comment_bytes le_val_le_bytes)
  have rn: "readint (InitComment v) (12 + length v) = 0"
    by (simp add: readint_def init_comment_bytes le_val_le_bytes)
  let ?n = "length v" and ?e = "length ENCODER_string"
  let ?A = "bytes_of ''OpusTags'' @ le_bytes 4 (int ?n) @ bytes_of v"
  let ?P = "?A @ le_bytes 4 0"
  have P: "InitComment v = ?P" by (simp add: init_comment_bytes)
  define m where "m = more_bytes (11 + ?e)"
  obtain m4 m7 me where m: "m = m4 @ m7 @ me" "length m4 = 4" "length m7 = 7" "length me = ?e"
  proof
    show "m = take 4 m @ take 7 (drop 4 m) @ drop 11 m" using append_take_drop_id [of 4 m] append_take_drop_id [of 7 "drop 4 m"] by simp
  qed (simp_all add: m_def assms(2))
  have 2: "writeint (?P @ m) (16 + ?n) (int (7 + ?e)) = ?P @ le_bytes 4 (int (7 + ?e)) @ m7 @ me"
    unfolding m(1) writeint_copy by (rule copy_at_middle) (simp_all add: m(2))
  have 3: "copy_at (?P @ le_bytes 4 (int (7 + ?e)) @ m7 @ me) (20 + ?n) (bytes_of ''ENCODER'') =
      (?P @ le_bytes 4 (int (7 + ?e))) @ bytes_of ''ENCODER'' @ me"
    using copy_at_middle [of "?P @ le_bytes 4 (int (7 + ?e))" "20 + ?n" m7 "bytes_of ''ENCODER''" me] m(3) by simp
  have 4: "((?P @ le_bytes 4 (int (7 + ?e))) @ bytes_of ''ENCODER'' @ me)[26 + ?n := 61] =
      (?P @ le_bytes 4 (int (7 + ?e))) @ bytes_of ''ENCODE='' @ me"
    by (simp add: list_update_append bytes_of_def)
  have 5: "copy_at ((?P @ le_bytes 4 (int (7 + ?e))) @ bytes_of ''ENCODE='' @ me) (27 + ?n) (bytes_of ENCODER_string) =
      ?P @ le_bytes 4 (int (7 + ?e)) @ bytes_of (''ENCODE='' @ ENCODER_string)"
    using copy_at_middle [of "?P @ le_bytes 4 (int (7 + ?e)) @ bytes_of ''ENCODE=''" "27 + ?n" me "bytes_of ENCODER_string" "[]"] m(4)
    by (simp add: bytes_of_def)
  have 6: "writeint (?P @ le_bytes 4 (int (7 + ?e)) @ bytes_of (''ENCODE='' @ ENCODER_string)) (12 + ?n) 1 =
      ?A @ le_bytes 4 1 @ le_bytes 4 (int (7 + ?e)) @ bytes_of (''ENCODE='' @ ENCODER_string)"
    unfolding writeint_copy
    using copy_at_middle [of ?A "12 + ?n" "le_bytes 4 0" "le_bytes 4 1" "le_bytes 4 (int (7 + ?e)) @ bytes_of (''ENCODE='' @ ENCODER_string)"]
    by simp
  have len: "length ?P = 16 + ?n" by simp
  have "AddComment ENCODER_string more_bytes ?P =
      writeint (copy_at ((copy_at (writeint (?P @ m) (16 + ?n) (int (7 + ?e))) (20 + ?n) (bytes_of ''ENCODER''))[26 + ?n := 61])
        (27 + ?n) (bytes_of ENCODER_string)) (12 + ?n) 1"
    using r8 rn unfolding P AddComment_def Let_def by (simp add: m_def add.commute)
  also have "\<dots> = ?A @ le_bytes 4 1 @ le_bytes 4 (int (7 + ?e)) @ bytes_of (''ENCODE='' @ ENCODER_string)"
    unfolding 2 3 4 5 by (rule 6)
  finally show ?thesis unfolding P by simp
qed

section \<open>Examples\<close>

definition header_example :: OpusHeader where
  "header_example = OpusHeader_new\<lparr>oh_channels := 1, oh_preskip := 312, oh_input_sample_rate := 16000\<rparr>"

lemma opus_header_reads_back_witness:
  "read_header (OpusHeaderToPacket header_example 276) = Some (bytes_of ''OpusHead'', [1], [1], 312, 16000, 0, [0])"
  using opus_header_reads_back [of 276 header_example] by (simp add: header_example_def OpusHeader_new_def)

lemma comment_layout_witness:
  "AddComment ENCODER_string (\<lambda>k. replicate k 0) (InitComment ''v1'') =
    bytes_of ''OpusTags'' @ le_bytes 4 2 @ bytes_of ''v1'' @ le_bytes 4 1
    @ le_bytes 4 (int (7 + length ENCODER_string)) @ bytes_of (''ENCODE='' @ ENCODER_string)"
  using comment_layout [of "''v1''" "\<lambda>k. replicate k 0"] by simp

end
