(* ===== verification/OggOpus.thy ===== *)
theory OggOpus
  imports OggHeader
begin

text \<open>
  The Ogg/Opus encoder: \<open>encoder/oggopusEncoder.cpp\<close> and \<open>oggopusAudioIn.cpp\<close>. libopus and libogg are a record of functions on
  their own states \<open>'o\<close> and \<open>'g\<close>, and so is arithmetic of single precision, of type \<open>'f\<close>: the conversion of a sample and
  the linear prediction of \<open>lpc.cpp\<close>. The encoded bytes go to a callback with a state \<open>'q\<close>. The result \<open>None\<close> of an
  operation is the end of the process (\<open>exit\<close>), an access outside of memory, or a stream that never runs out of pages.
\<close>

section \<open>The libraries\<close>

record ogg_packet =
  op_packet :: "byte list"
  op_b_o_s :: bool
  op_e_o_s :: bool
  op_granulepos :: int
  op_packetno :: int

text \<open>\<open>og_packets\<close> is \<open>ogg_page_packets\<close> and \<open>og_segments\<close> is \<open>header[26]\<close>.\<close>

record ogg_page =
  og_header :: "byte list"
  og_body :: "byte list"
  og_packets :: int
  og_granulepos :: int
  og_segments :: int

datatype opus_ctl = SetBitrate int | SetVbr bool | SetVbrConstraint int | SetComplexity int | SetPacketLossPerc int | SetLsbDepth int

text \<open>\<open>ol_encode\<close> has the largest size of a packet and the samples, and gives an error code or the packet. \<open>ol_pcm v\<close> is
  \<open>v / 32768.0f\<close>, so that \<open>ol_pcm 0\<close> is zero; \<open>ol_predict\<close> is \<open>vorbis_lpc_from_data\<close> with \<open>vorbis_lpc_predict\<close>.\<close>

record ('o, 'g, 'f) opus_lib =
  ol_version :: string
  ol_create :: "int \<Rightarrow> 'o option"
  ol_ctl :: "opus_ctl \<Rightarrow> 'o \<Rightarrow> 'o option"
  ol_lookahead :: "'o \<Rightarrow> nat option"
  ol_encode :: "int \<Rightarrow> 'f list \<Rightarrow> 'o \<Rightarrow> (int + byte list) \<times> 'o"
  ol_stream_init :: "int \<Rightarrow> 'g option"
  ol_packetin :: "ogg_packet \<Rightarrow> 'g \<Rightarrow> 'g"
  ol_flush :: "'g \<Rightarrow> ogg_page option \<times> 'g"
  ol_flush_fill :: "int \<Rightarrow> 'g \<Rightarrow> ogg_page option \<times> 'g"
  ol_pageout_fill :: "int \<Rightarrow> 'g \<Rightarrow> ogg_page option \<times> 'g"
  ol_pcm :: "int \<Rightarrow> 'f"
  ol_predict :: "'f list \<Rightarrow> nat \<Rightarrow> 'f list"
  ol_memory :: "nat \<Rightarrow> byte list"

section \<open>State\<close>

record ('o, 'g, 'f) ogg_para =
  pa_encoder :: 'o
  pa_os :: 'g
  pa_op :: ogg_packet
  pa_input :: "'f list"
  pa_comments :: "byte list"
  pa_header :: OpusHeader
  pa_last_granulepos :: int
  pa_enc_granulepos :: int
  pa_original_sample_number :: int
  pa_id :: int
  pa_last_segments :: int
  pa_nbBytes :: int
  pa_nb_samples :: int
  pa_max_frame_bytes :: int
  pa_bitrate :: int
  pa_complexity :: int
  pa_max_ogg_delay :: int
  pa_lookahead :: nat
  pa_skip :: nat
  pa_samplesread :: nat
  pa_extraout :: nat
  pa_lpc_ptr :: int
  pa_lpc_out :: "'f list"

record ('o, 'g, 'f) ogg_encoder =
  oe_para :: "('o, 'g, 'f) ogg_para option"
  oe_is_first_frame_processed :: bool
  oe_sample_rate :: int
  oe_frame_sample_num :: int
  oe_frame_sample_bytes :: int
  oe_encoder_bitrate :: int
  oe_encoder_complexity :: int

definition OggOpusDataEncoder_new :: "('o, 'g, 'f) ogg_encoder" where
  "OggOpusDataEncoder_new = \<lparr>oe_para = None, oe_is_first_frame_processed = False, oe_sample_rate = 16000, oe_frame_sample_num = 1600,
     oe_frame_sample_bytes = 3200, oe_encoder_bitrate = 16000, oe_encoder_complexity = 8\<rparr>"

definition tenth :: "int \<Rightarrow> int" where
  "tenth rate = (if 0 \<le> rate then rate div 10 else - (- rate div 10))"

definition SetSampleRate :: "int \<Rightarrow> ('o, 'g, 'f) ogg_encoder \<Rightarrow> ('o, 'g, 'f) ogg_encoder" where
  "SetSampleRate rate e = e\<lparr>oe_sample_rate := rate, oe_frame_sample_num := tenth rate, oe_frame_sample_bytes := tenth rate * 2\<rparr>"

text \<open>\<open>SetFrameSampleBytes\<close>; the memory \<open>realloc\<close> adds holds anything.\<close>

definition SetFrameSampleBytes :: "(nat \<Rightarrow> 'f list) \<Rightarrow> int \<Rightarrow> ('o, 'g, 'f) ogg_encoder \<Rightarrow> ('o, 'g, 'f) ogg_encoder option" where
  "SetFrameSampleBytes memory bytes e =
     (if bytes = oe_frame_sample_bytes e then Some e
      else
        (case oe_para e of
           None \<Rightarrow> None
         | Some P \<Rightarrow>
             if bytes < 2 then None
             else
               (let n = nat (bytes div 2) in
                Some (e\<lparr>oe_frame_sample_bytes := bytes, oe_frame_sample_num := bytes div 2,
                  oe_para := Some (P\<lparr>pa_max_frame_bytes := (if bytes > pa_max_frame_bytes P then bytes * 2 else pa_max_frame_bytes P),
                    pa_input := take n (pa_input P @ memory (n - length (pa_input P)))\<rparr>)\<rparr>))))"

section \<open>Reading samples\<close>

text \<open>The bytes copied and what is left in the buffer; an empty or missing buffer is left alone.\<close>

definition ReadBuffer :: "nat \<Rightarrow> byte list option \<Rightarrow> byte list \<times> byte list option" where
  "ReadBuffer requested_len src =
     (case src of
        None \<Rightarrow> ([], None)
      | Some buf \<Rightarrow>
          if buf = [] then ([], Some buf)
          else if length buf < requested_len then (buf, None)
          else (take requested_len buf, if length buf = requested_len then None else Some (drop requested_len buf)))"

text \<open>Samples of 16 bits, the low byte first; an odd byte at the end is not a sample.\<close>

fun pcm_samples :: "byte list \<Rightarrow> int list" where
  "pcm_samples (lo # hi # bs) = (256 * sint hi + uint lo) # pcm_samples bs"
| "pcm_samples bs = []"

definition WavRead ::
  "('o, 'g, 'f) opus_lib \<Rightarrow> nat \<Rightarrow> byte list option \<Rightarrow> ('o, 'g, 'f) ogg_para \<Rightarrow> (nat \<times> byte list option \<times> ('o, 'g, 'f) ogg_para) option" where
  "WavRead L samples inbuf P =
     (let (buf, left) = ReadBuffer (samples * 2) inbuf; xs = map (ol_pcm L) (pcm_samples buf) in
      if length xs > length (pa_input P) then None
      else Some (length xs, left, P\<lparr>pa_samplesread := pa_samplesread P + length xs, pa_input := xs @ drop (length xs) (pa_input P)\<rparr>))"

text \<open>\<open>ReadPadder\<close>: predicted samples fill up a short read, as long as there are any left.\<close>

definition start_lpc :: "('o, 'g, 'f) opus_lib \<Rightarrow> nat \<Rightarrow> ('o, 'g, 'f) ogg_para \<Rightarrow> ('o, 'g, 'f) ogg_para" where
  "start_lpc L in_samples P =
     (if pa_lpc_ptr P < 0 then
        P\<lparr>pa_lpc_out := (if in_samples > 64 then ol_predict L (take in_samples (pa_input P)) (pa_extraout P)
            else replicate (pa_extraout P) (ol_pcm L 0)), pa_lpc_ptr := 0\<rparr>
      else P)"

definition ReadPadder ::
  "('o, 'g, 'f) opus_lib \<Rightarrow> nat \<Rightarrow> byte list option \<Rightarrow> ('o, 'g, 'f) ogg_para \<Rightarrow> (nat \<times> byte list option \<times> ('o, 'g, 'f) ogg_para) option" where
  "ReadPadder L samples inbuf P =
     (case WavRead L samples inbuf P of
        None \<Rightarrow> None
      | Some (in_samples, left, P1) \<Rightarrow>
          if in_samples = 0 then Some (0, left, P1)
          else
            (let P2 = P1\<lparr>pa_original_sample_number := pa_original_sample_number P1 + int in_samples\<rparr> in
             if in_samples < samples then
               (let P3 = start_lpc L in_samples P2;
                    extra = min (samples - in_samples) (pa_extraout P3);
                    at = nat (pa_lpc_ptr P3) in
                if at + extra > length (pa_lpc_out P3) \<or> in_samples + extra > length (pa_input P3) then None
                else Some (in_samples + extra, left, P3\<lparr>pa_extraout := pa_extraout P3 - extra,
                       pa_input := take in_samples (pa_input P3) @ take extra (drop at (pa_lpc_out P3)) @ drop (in_samples + extra) (pa_input P3),
                       pa_lpc_ptr := pa_lpc_ptr P3 + int extra\<rparr>))
             else Some (in_samples, left, P2)))"

section \<open>Writing pages\<close>

text \<open>The callback answers with the number of bytes it took.\<close>

type_synonym 'q sink = "byte list \<Rightarrow> 'q \<Rightarrow> int \<times> 'q"

definition WritePage :: "'q sink \<Rightarrow> ogg_page \<Rightarrow> 'q \<Rightarrow> int \<times> 'q" where
  "WritePage cb og q =
     (let (written1, q1) = cb (og_header og) q; (written2, q2) = cb (og_body og) q1 in (written1 + written2, q2))"

text \<open>The four loops: \<open>page\<close> asks libogg for the next page, \<open>note\<close> is what the loop does with it before it writes it.
  The result is whether all pages could be written.\<close>

partial_function (option) page_loop ::
  "('p \<Rightarrow> ogg_page option \<times> 'p) \<Rightarrow> (ogg_page \<Rightarrow> 'p \<Rightarrow> 'p) \<Rightarrow> 'q sink \<Rightarrow> 'p \<Rightarrow> 'q \<Rightarrow> (bool \<times> 'p \<times> 'q) option" where
  "page_loop page note cb P q =
     (case page P of
        (None, P1) \<Rightarrow> Some (True, P1, q)
      | (Some og, P1) \<Rightarrow>
          (let P2 = note og P1; (ret, q1) = WritePage cb og q in
           if ret \<noteq> int (length (og_header og)) + int (length (og_body og)) then Some (False, P2, q1)
           else page_loop page note cb P2 q1))"

declare page_loop.simps [code]

definition on_stream :: "('g \<Rightarrow> ogg_page option \<times> 'g) \<Rightarrow> ('o, 'g, 'f) ogg_para \<Rightarrow> ogg_page option \<times> ('o, 'g, 'f) ogg_para" where
  "on_stream f P = (let (og, os) = f (pa_os P) in (og, P\<lparr>pa_os := os\<rparr>))"

definition packetin :: "('o, 'g, 'f) opus_lib \<Rightarrow> ogg_packet \<Rightarrow> ('o, 'g, 'f) ogg_para \<Rightarrow> ('o, 'g, 'f) ogg_para" where
  "packetin L packet P = P\<lparr>pa_op := packet, pa_os := ol_packetin L packet (pa_os P)\<rparr>"

definition flush_stream ::
  "('o, 'g, 'f) opus_lib \<Rightarrow> 'q sink \<Rightarrow> ('o, 'g, 'f) ogg_para \<Rightarrow> 'q \<Rightarrow> (bool \<times> ('o, 'g, 'f) ogg_para \<times> 'q) option" where
  "flush_stream L cb P q = page_loop (on_stream (ol_flush L)) (\<lambda>og P. P) cb P q"

definition note_page :: "ogg_page \<Rightarrow> ('o, 'g, 'f) ogg_para \<Rightarrow> ('o, 'g, 'f) ogg_para" where
  "note_page og P =
     (let P1 = (if og_packets og \<noteq> 0 then P\<lparr>pa_last_granulepos := og_granulepos og\<rparr> else P) in
      P1\<lparr>pa_last_segments := pa_last_segments P1 - og_segments og\<rparr>)"

text \<open>The pages that go out before a new packet of \<open>size_segments\<close> segments, and those after it.\<close>

definition page_before :: "('o, 'g, 'f) opus_lib \<Rightarrow> int \<Rightarrow> ('o, 'g, 'f) ogg_para \<Rightarrow> ogg_page option \<times> ('o, 'g, 'f) ogg_para" where
  "page_before L size_segments P =
     (if size_segments \<le> 255 \<and> pa_last_segments P + size_segments > 255
        \<or> pa_enc_granulepos P - pa_last_granulepos P > pa_max_ogg_delay P
      then on_stream (ol_flush_fill L (255 * 255)) P else (None, P))"

definition page_after :: "('o, 'g, 'f) opus_lib \<Rightarrow> ('o, 'g, 'f) ogg_para \<Rightarrow> ogg_page option \<times> ('o, 'g, 'f) ogg_para" where
  "page_after L P =
     (if op_e_o_s (pa_op P) \<or> pa_enc_granulepos P + 1600 * 3 - pa_last_granulepos P > pa_max_ogg_delay P \<or> pa_last_segments P \<ge> 255
      then on_stream (ol_flush_fill L (255 * 255)) P else on_stream (ol_pageout_fill L (255 * 255)) P)"

section \<open>Creation\<close>

definition SetupPadder :: "('o, 'g, 'f) ogg_para \<Rightarrow> ('o, 'g, 'f) ogg_para" where
  "SetupPadder P = P\<lparr>pa_lpc_ptr := - 1, pa_lpc_out := []\<rparr>"

definition encoder_header :: "int \<Rightarrow> nat \<Rightarrow> OpusHeader" where
  "encoder_header sample_rate skip = \<lparr>oh_version = 0, oh_channels = 1, oh_preskip = int skip * 3, oh_input_sample_rate = sample_rate,
     oh_gain = 0, oh_channel_mapping = 0, oh_nb_streams = 1, oh_nb_coupled = 0, oh_stream_map = replicate 255 0\<rparr>"

definition require_ctls :: "('o, 'g, 'f) opus_lib \<Rightarrow> opus_ctl list \<Rightarrow> 'o \<Rightarrow> 'o option" where
  "require_ctls L cs enc = fold (\<lambda>c r. Option.bind r (ol_ctl L c)) cs (Some enc)"

text \<open>The five settings that end the process when they fail, and the sixth, whose failure is only logged.\<close>

definition configured :: "('o, 'g, 'f) opus_lib \<Rightarrow> ('o, 'g, 'f) ogg_encoder \<Rightarrow> 'o \<Rightarrow> 'o option" where
  "configured L e enc =
     map_option (\<lambda>enc1. case ol_ctl L (SetLsbDepth 16) enc1 of None \<Rightarrow> enc1 | Some enc2 \<Rightarrow> enc2)
       (require_ctls L [SetBitrate (oe_encoder_bitrate e), SetVbr True, SetVbrConstraint 0, SetComplexity (oe_encoder_complexity e),
          SetPacketLossPerc 0] enc)"

definition OggopusEncoderCreate ::
  "('o, 'g, 'f) opus_lib \<Rightarrow> int \<Rightarrow> ('o, 'g, 'f) ogg_encoder \<Rightarrow> (int \<times> ('o, 'g, 'f) ogg_encoder) option" where
  "OggopusEncoderCreate L samplerate e =
     do {
       let e1 = e\<lparr>oe_sample_rate := samplerate, oe_is_first_frame_processed := False\<rparr>;
       enc \<leftarrow> ol_create L samplerate;
       enc1 \<leftarrow> configured L e1 enc;
       lookahead \<leftarrow> ol_lookahead L enc1;
       os \<leftarrow> ol_stream_init L 0;
       Some (Success, e1\<lparr>oe_para := Some (SetupPadder
         \<lparr>pa_encoder = enc1, pa_os = os,
          pa_op = \<lparr>op_packet = [], op_b_o_s = False, op_e_o_s = False, op_granulepos = 0, op_packetno = 0\<rparr>,
          pa_input = replicate (nat (oe_frame_sample_num e1)) (ol_pcm L 0),
          pa_comments = AddComment ENCODER_string (ol_memory L) (InitComment (ol_version L)),
          pa_header = encoder_header samplerate lookahead, pa_last_granulepos = 0, pa_enc_granulepos = 0,
          pa_original_sample_number = 0, pa_id = - 1, pa_last_segments = 0, pa_nbBytes = - 1, pa_nb_samples = - 1,
          pa_max_frame_bytes = 6400, pa_bitrate = oe_encoder_bitrate e1, pa_complexity = oe_encoder_complexity e1,
          pa_max_ogg_delay = 200, pa_lookahead = lookahead, pa_skip = lookahead, pa_samplesread = 0, pa_extraout = lookahead,
          pa_lpc_ptr = 0, pa_lpc_out = []\<rparr>)\<rparr>)
     }"

section \<open>Encoding\<close>

text \<open>The two packets before the first frame; \<open>None\<close> in the result's place means they could be written.\<close>

definition write_headers ::
  "('o, 'g, 'f) opus_lib \<Rightarrow> 'q sink \<Rightarrow> ('o, 'g, 'f) ogg_para \<Rightarrow> 'q \<Rightarrow> (bool \<times> ('o, 'g, 'f) ogg_para \<times> 'q) option" where
  "write_headers L cb P q =
     (let P1 = packetin L \<lparr>op_packet = OpusHeaderToPacket (pa_header P) 276, op_b_o_s = True, op_e_o_s = False,
                 op_granulepos = 0, op_packetno = 0\<rparr> P in
      case flush_stream L cb P1 q of
        None \<Rightarrow> None
      | Some (False, P2, q1) \<Rightarrow> Some (False, P2, q1)
      | Some (True, P2, q1) \<Rightarrow>
          flush_stream L cb (packetin L ((pa_op P2)\<lparr>op_packet := pa_comments P2, op_b_o_s := False, op_packetno := 1\<rparr>) P2) q1)"

text \<open>What is to be read: a frame of its own, the first frame behind as many zero bytes, or nothing.\<close>

definition prepare_input ::
  "('o, 'g, 'f) opus_lib \<Rightarrow> 'q sink \<Rightarrow> byte list \<Rightarrow> ('o, 'g, 'f) ogg_encoder \<Rightarrow> ('o, 'g, 'f) ogg_para \<Rightarrow> 'q
     \<Rightarrow> (bool \<times> byte list option \<times> bool \<times> ('o, 'g, 'f) ogg_para \<times> 'q) option" where
  "prepare_input L cb data e P q =
     (if oe_is_first_frame_processed e \<and> data \<noteq> [] then Some (True, Some data, True, P, q)
      else if int (length data) = oe_frame_sample_bytes e then
        (case write_headers L cb P q of
           None \<Rightarrow> None
         | Some (ok, P1, q1) \<Rightarrow>
             if ok then Some (True, Some (replicate (length data) 0 @ data), True, P1, q1)
             else Some (False, None, oe_is_first_frame_processed e, P1, q1))
      else Some (True, None, oe_is_first_frame_processed e, P\<lparr>pa_op := (pa_op P)\<lparr>op_e_o_s := True\<rparr>\<rparr>, q))"

text \<open>\<open>cur_frame_size\<close>, and the zeros written behind the samples of a short frame.\<close>

definition cur_frame_size :: "int \<Rightarrow> int \<Rightarrow> int" where
  "cur_frame_size frame_num nb_samples =
     (if nb_samples < frame_num
      then frame_num - (frame_num - (if nb_samples \<ge> 0 then nb_samples else 1)) div 320 * 320 else frame_num)"

definition zero_tail :: "('o, 'g, 'f) opus_lib \<Rightarrow> nat \<Rightarrow> nat \<Rightarrow> 'f list \<Rightarrow> 'f list" where
  "zero_tail L k m xs = take k xs @ replicate (m - k) (ol_pcm L 0) @ drop m xs"

text \<open>From the encoded packet to the end of the call: pages that are due, reading ahead when the delay allows it, the packet,
  and the pages it fills.\<close>

definition read_ahead ::
  "('o, 'g, 'f) opus_lib \<Rightarrow> int \<Rightarrow> byte list option \<Rightarrow> ('o, 'g, 'f) ogg_para \<Rightarrow> ('o, 'g, 'f) ogg_para option" where
  "read_ahead L frame_num left P =
     (if \<not> op_e_o_s (pa_op P) \<and> pa_max_ogg_delay P > 5760 then
        map_option (\<lambda>(k, left1, P1). P1\<lparr>pa_nb_samples := int k,
            pa_op := (if k = 0 then (pa_op P1)\<lparr>op_e_o_s := True\<rparr> else pa_op P1)\<rparr>)
          (ReadPadder L (nat frame_num) left P)
      else Some (P\<lparr>pa_nb_samples := - 1\<rparr>))"

definition add_packet ::
  "('o, 'g, 'f) opus_lib \<Rightarrow> int \<Rightarrow> int \<Rightarrow> byte list \<Rightarrow> ('o, 'g, 'f) ogg_para \<Rightarrow> ('o, 'g, 'f) ogg_para" where
  "add_packet L rate size_segments packet P =
     (let eos = op_e_o_s (pa_op P);
          granulepos = (if eos then (pa_original_sample_number P * 48000 + rate - 1) div rate + oh_preskip (pa_header P)
                        else pa_enc_granulepos P);
          P1 = packetin L \<lparr>op_packet = packet, op_b_o_s = False, op_e_o_s = eos, op_granulepos = granulepos,
                 op_packetno = 2 + pa_id P\<rparr> P in
      P1\<lparr>pa_last_segments := pa_last_segments P1 + size_segments\<rparr>)"

definition finish_packet ::
  "('o, 'g, 'f) opus_lib \<Rightarrow> 'q sink \<Rightarrow> int \<Rightarrow> int \<Rightarrow> byte list option \<Rightarrow> byte list \<Rightarrow> ('o, 'g, 'f) ogg_para \<Rightarrow> 'q
     \<Rightarrow> (int \<times> ('o, 'g, 'f) ogg_para \<times> 'q) option" where
  "finish_packet L cb frame_num rate left packet P q =
     (let size_segments = (int (length packet) + 255) div 255;
          P1 = P\<lparr>pa_nbBytes := int (length packet), pa_enc_granulepos := pa_enc_granulepos P + 1600 * 3\<rparr> in
      case page_loop (page_before L size_segments) note_page cb P1 q of
        None \<Rightarrow> None
      | Some (False, P2, q1) \<Rightarrow> Some (- OggOpusEncodeFailed, P2, q1)
      | Some (True, P2, q1) \<Rightarrow>
          (case read_ahead L frame_num left P2 of
             None \<Rightarrow> None
           | Some P3 \<Rightarrow>
               (case page_loop (page_after L) note_page cb (add_packet L rate size_segments packet P3) q1 of
                  None \<Rightarrow> None
                | Some (ok, P4, q2) \<Rightarrow> Some (if ok then Success else - OggOpusEncodeFailed, P4, q2))))"

text \<open>The samples of a frame are read unless a call before left some; then zeros are written behind them.\<close>

definition frame_ready ::
  "('o, 'g, 'f) opus_lib \<Rightarrow> int \<Rightarrow> byte list option \<Rightarrow> ('o, 'g, 'f) ogg_para \<Rightarrow> (byte list option \<times> ('o, 'g, 'f) ogg_para) option" where
  "frame_ready L n tmp P =
     (if pa_nb_samples P < 0 then
        map_option (\<lambda>(k, left, P2). (left, P2\<lparr>pa_nb_samples := int k\<rparr>)) (ReadPadder L (nat n) tmp P)
      else Some (tmp, P))"

definition pad_frame :: "('o, 'g, 'f) opus_lib \<Rightarrow> int \<Rightarrow> ('o, 'g, 'f) ogg_para \<Rightarrow> ('o, 'g, 'f) ogg_para" where
  "pad_frame L n P =
     (if pa_nb_samples P < n
      then P\<lparr>pa_input := zero_tail L (nat (pa_nb_samples P)) (nat (cur_frame_size n (pa_nb_samples P))) (pa_input P)\<rparr> else P)"

definition encode_frame ::
  "('o, 'g, 'f) opus_lib \<Rightarrow> 'q sink \<Rightarrow> int \<Rightarrow> int \<Rightarrow> byte list option \<Rightarrow> ('o, 'g, 'f) ogg_para \<Rightarrow> 'q
     \<Rightarrow> (int \<times> ('o, 'g, 'f) ogg_para \<times> 'q) option" where
  "encode_frame L cb frame_num rate tmp P q =
     (case frame_ready L frame_num tmp (P\<lparr>pa_id := pa_id P + 1\<rparr>) of
        None \<Rightarrow> None
      | Some (left, P2) \<Rightarrow>
          if cur_frame_size frame_num (pa_nb_samples P2) \<le> 0 then Some (- OggOpusEncodeFailed, P2, q)
          else if nat (cur_frame_size frame_num (pa_nb_samples P2)) > length (pa_input P2) then None
          else
            (let P3 = pad_frame L frame_num P2 in
             case ol_encode L (pa_max_frame_bytes P3) (take (nat (cur_frame_size frame_num (pa_nb_samples P2))) (pa_input P3)) (pa_encoder P3) of
               (Inl err, enc) \<Rightarrow> Some (- OggOpusEncodeFailed, P3\<lparr>pa_encoder := enc, pa_nbBytes := err\<rparr>, q)
             | (Inr packet, enc) \<Rightarrow> finish_packet L cb frame_num rate left packet (P3\<lparr>pa_encoder := enc\<rparr>) q))"

text \<open>\<open>NULL\<close> with length 0 is the empty list.\<close>

definition OggopusEncode ::
  "('o, 'g, 'f) opus_lib \<Rightarrow> 'q sink \<Rightarrow> byte list \<Rightarrow> ('o, 'g, 'f) ogg_encoder \<Rightarrow> 'q \<Rightarrow> (int \<times> ('o, 'g, 'f) ogg_encoder \<times> 'q) option" where
  "OggopusEncode L cb data e q =
     (case oe_para e of
        None \<Rightarrow> Some (- OggOpusInvalidState, e, q)
      | Some P \<Rightarrow>
          (case prepare_input L cb data e P q of
             None \<Rightarrow> None
           | Some (False, tmp, first, P1, q1) \<Rightarrow> Some (- OggOpusEncodeFailed, e\<lparr>oe_para := Some P1, oe_is_first_frame_processed := first\<rparr>, q1)
           | Some (True, tmp, first, P1, q1) \<Rightarrow>
               map_option (\<lambda>(ret, P2, q2). (ret, e\<lparr>oe_para := Some P2, oe_is_first_frame_processed := first\<rparr>, q2))
                 (encode_frame L cb (oe_frame_sample_num e) (oe_sample_rate e) tmp P1 q1)))"

definition OggopusFinish ::
  "('o, 'g, 'f) opus_lib \<Rightarrow> 'q sink \<Rightarrow> ('o, 'g, 'f) ogg_encoder \<Rightarrow> 'q \<Rightarrow> (int \<times> ('o, 'g, 'f) ogg_encoder \<times> 'q) option" where
  "OggopusFinish L cb e q =
     (if oe_para e = None then Some (- OggOpusInvalidState, e, q)
      else
        (case OggopusEncode L cb [] e q of
           None \<Rightarrow> None
         | Some (_, e1, q1) \<Rightarrow> map_option (\<lambda>(_, e2, q2). (Success, e2, q2)) (OggopusEncode L cb [] e1 q1)))"

definition OggopusSoftRestart :: "('o, 'g, 'f) ogg_encoder \<Rightarrow> int \<times> ('o, 'g, 'f) ogg_encoder" where
  "OggopusSoftRestart e = (Success, e\<lparr>oe_is_first_frame_processed := False\<rparr>)"

definition OggopusDestroy :: "('o, 'g, 'f) ogg_encoder \<Rightarrow> int \<times> ('o, 'g, 'f) ogg_encoder" where
  "OggopusDestroy e =
     (if oe_para e = None then (- OggOpusInvalidState, e) else (Success, e\<lparr>oe_para := None, oe_is_first_frame_processed := False\<rparr>))"

section \<open>The page loops\<close>

text \<open>An invariant of the loop, and a measure of the pages libogg still holds.\<close>

lemma page_loop_inv:
  fixes r :: "bool \<times> 'p \<times> 'q"
  assumes "page_loop page note cb P q = Some r" and "I P q"
    and "\<And>P q og P1. I P q \<Longrightarrow> page P = (Some og, P1) \<Longrightarrow> I (note og P1) (snd (WritePage cb og q))"
    and "\<And>P q P1. I P q \<Longrightarrow> page P = (None, P1) \<Longrightarrow> I P1 q"
  shows "I (fst (snd r)) (snd (snd r))"
proof -
  let ?C = "\<lambda>a (r :: bool \<times> 'p \<times> 'q). case a of ((((page', note'), cb'), P), q) \<Rightarrow>
    page' = page \<and> note' = note \<and> cb' = cb \<and> I P q \<longrightarrow> I (fst (snd r)) (snd (snd r))"
  have "?C ((((page, note), cb), P), q) r"
  proof (rule page_loop.raw_induct [where Pa = ?C, OF _ assms(1)])
    fix rec page' note' cb' P q and x :: "bool \<times> 'p \<times> 'q"
    assume rec: "\<And>note' cb' P q b y. rec note' cb' P q b = Some y \<Longrightarrow> ?C ((((note', cb'), P), q), b) y"
    assume x: "(case page' P of (None, P1) \<Rightarrow> Some (True, P1, q)
        | (Some og, P1) \<Rightarrow>
            let P2 = note' og P1; (ret, q1) = WritePage cb' og q in
            if ret \<noteq> int (length (og_header og)) + int (length (og_body og)) then Some (False, P2, q1)
            else rec page' note' cb' P2 q1) = Some x"
    show "?C ((((page', note'), cb'), P), q) x"
    proof clarsimp
      assume [simp]: "page' = page" "note' = note" "cb' = cb" and I: "I P q"
      obtain og P1 where p: "page P = (og, P1)" by force
      obtain ret q1 where w: "WritePage cb (the og) q = (ret, q1)" by force
      show "I (fst (snd x)) (snd (snd x))"
      proof (cases og)
        case None
        with x p assms(4) [OF I] show ?thesis by auto
      next
        case (Some o1)
        with assms(3) [OF I, of o1 P1] p w have I1: "I (note o1 P1) q1" by simp
        show ?thesis
        proof (cases "ret \<noteq> int (length (og_header o1)) + int (length (og_body o1))")
          case True
          with x p w Some I1 show ?thesis by auto
        next
          case False
          with x p w Some have "rec page note cb (note o1 P1) q1 = Some x" by simp
          from rec [OF this] I1 show ?thesis by simp
        qed
      qed
    qed
  qed
  with assms(2) show ?thesis by simp
qed

lemma page_loop_returns:
  assumes "I P" and "\<And>P og P1. I P \<Longrightarrow> page P = (Some og, P1) \<Longrightarrow> I (note og P1) \<and> m (note og P1) < (m P :: nat)"
  shows "\<exists>r. page_loop page note cb P q = Some r"
  using assms(1)
proof (induction "m P" arbitrary: P q rule: less_induct)
  case less
  show ?case
  proof (cases "fst (page P)")
    case None
    then obtain P1 where "page P = (None, P1)" by (cases "page P") auto
    then have "page_loop page note cb P q = Some (True, P1, q)" by (subst page_loop.simps) simp
    then show ?thesis by blast
  next
    case (Some og)
    obtain P1 where p: "page P = (Some og, P1)" using Some by (cases "page P") auto
    from assms(2) [OF less.prems p] have n: "I (note og P1)" "m (note og P1) < m P" by auto
    from less.hyps [OF n(2,1)] p show ?thesis by (subst page_loop.simps) (auto simp: Let_def split: prod.split)
  qed
qed

text \<open>What the loops leave alone, and how much the stream still holds.\<close>

definition frame_view :: "('o, 'g, 'f) ogg_para \<Rightarrow> _" where
  "frame_view P = (pa_encoder P, pa_input P, pa_comments P, pa_header P, pa_enc_granulepos P, pa_original_sample_number P, pa_id P,
     pa_nb_samples P, pa_max_frame_bytes P, pa_max_ogg_delay P, pa_extraout P, pa_lpc_ptr P, pa_lpc_out P)"

lemma frame_view_simps [simp]:
  "frame_view (P\<lparr>pa_os := os\<rparr>) = frame_view P" "frame_view (packetin L pk P) = frame_view P"
  "frame_view (note_page og P) = frame_view P" "pa_op (note_page og P) = pa_op P" "pa_os (note_page og P) = pa_os P"
  by (simp_all add: frame_view_def packetin_def note_page_def Let_def)

lemma frame_viewD:
  assumes "frame_view P = frame_view P'"
  shows "pa_encoder P = pa_encoder P'" "pa_input P = pa_input P'" "pa_header P = pa_header P'" "pa_enc_granulepos P = pa_enc_granulepos P'"
    "pa_original_sample_number P = pa_original_sample_number P'" "pa_nb_samples P = pa_nb_samples P'"
    "pa_max_frame_bytes P = pa_max_frame_bytes P'" "pa_max_ogg_delay P = pa_max_ogg_delay P'" "pa_extraout P = pa_extraout P'"
    "pa_lpc_ptr P = pa_lpc_ptr P'" "pa_lpc_out P = pa_lpc_out P'" "pa_id P = pa_id P'"
  using assms by (simp_all add: frame_view_def)

text \<open>libogg runs out of pages: \<open>left\<close> counts what a stream can still give.\<close>

definition ogg_finite :: "('o, 'g, 'f) opus_lib \<Rightarrow> ('g \<Rightarrow> nat) \<Rightarrow> bool" where
  "ogg_finite L left \<longleftrightarrow>
     (\<forall>g og g'. ol_flush L g = (Some og, g') \<longrightarrow> left g' < left g)
     \<and> (\<forall>n g og g'. ol_flush_fill L n g = (Some og, g') \<longrightarrow> left g' < left g)
     \<and> (\<forall>n g og g'. ol_pageout_fill L n g = (Some og, g') \<longrightarrow> left g' < left g)"

lemma stream_loop:
  assumes "page_loop page note cb P q = Some r"
    and "\<And>P. frame_view (snd (page P)) = frame_view P \<and> pa_op (snd (page P)) = pa_op P"
    and "\<And>og P. frame_view (note og P) = frame_view P \<and> pa_op (note og P) = pa_op P"
  shows "frame_view (fst (snd r)) = frame_view P \<and> pa_op (fst (snd r)) = pa_op P"
  by (rule page_loop_inv [OF assms(1), where I = "\<lambda>P' q. frame_view P' = frame_view P \<and> pa_op P' = pa_op P"])
    (use assms(2,3) in \<open>auto, (metis snd_conv)+\<close>)

lemma frame_view_on_stream [simp]: "frame_view (snd (on_stream f P)) = frame_view P" "pa_op (snd (on_stream f P)) = pa_op P"
  by (simp_all add: on_stream_def Let_def case_prod_beta)

lemma flush_stream_keeps:
  assumes "flush_stream L cb P q = Some r"
  shows "frame_view (fst (snd r)) = frame_view P \<and> pa_op (fst (snd r)) = pa_op P"
  using stream_loop [OF assms [unfolded flush_stream_def]] by simp

lemma page_before_keeps:
  assumes "page_loop (page_before L k) note_page cb P q = Some r"
  shows "frame_view (fst (snd r)) = frame_view P \<and> pa_op (fst (snd r)) = pa_op P"
  using stream_loop [OF assms] by (simp add: page_before_def)

lemma page_after_keeps:
  assumes "page_loop (page_after L) note_page cb P q = Some r"
  shows "frame_view (fst (snd r)) = frame_view P \<and> pa_op (fst (snd r)) = pa_op P"
  using stream_loop [OF assms] by (simp add: page_after_def)

lemma streams_return:
  assumes "ogg_finite L left"
  shows "\<exists>r. flush_stream L cb P q = Some r" "\<exists>r. page_loop (page_before L k) note_page cb P q = Some r"
    "\<exists>r. page_loop (page_after L) note_page cb P q = Some r"
  unfolding flush_stream_def
  by (rule page_loop_returns [where I = "\<lambda>P. True" and m = "\<lambda>P. left (pa_os P)"];
      use assms in \<open>auto simp: ogg_finite_def on_stream_def page_before_def page_after_def Let_def split: if_splits prod.splits\<close>)+

section \<open>One call\<close>

lemma length_pcm_samples [simp]: "length (pcm_samples bs) = length bs div 2"
  by (induction bs rule: pcm_samples.induct) auto

lemma pcm_samples_zeros: "pcm_samples (replicate (2 * k) 0) = replicate k 0"
proof (induction k)
  case (Suc k)
  have "replicate (2 * Suc k) (0 :: byte) = 0 # 0 # replicate (2 * k) 0" by (simp add: numeral_2_eq_2)
  with Suc show ?case by simp
qed simp

text \<open>The memory of the encoder: the input holds a frame of \<open>n\<close> samples, and the predicted samples that may still be used exist.\<close>

definition para_ok :: "int \<Rightarrow> ('o, 'g, 'f) ogg_para \<Rightarrow> bool" where
  "para_ok n P \<longleftrightarrow> 0 < n \<and> n \<le> int (length (pa_input P)) \<and> pa_max_ogg_delay P = 200
     \<and> (pa_lpc_ptr P < 0 \<or> nat (pa_lpc_ptr P) + pa_extraout P \<le> length (pa_lpc_out P))"

definition predicts :: "('o, 'g, 'f) opus_lib \<Rightarrow> bool" where
  "predicts L \<longleftrightarrow> (\<forall>xs k. length (ol_predict L xs k) = k)"

lemma para_ok_view: "frame_view P = frame_view P' \<Longrightarrow> para_ok n P = para_ok n P'"
  by (simp add: para_ok_def frame_view_def)

lemma ReadBuffer_cases:
  "length (fst (ReadBuffer k src)) \<le> k"
  "k \<le> length buf \<Longrightarrow> 0 < k \<Longrightarrow> fst (ReadBuffer k (Some buf)) = take k buf"
  by (auto simp: ReadBuffer_def split: option.split)

lemma ReadPadder_full:
  assumes "para_ok n P" and "2 * nat n \<le> length buf"
  shows "\<exists>left. ReadPadder L (nat n) (Some buf) P = Some (nat n, left, P\<lparr>pa_samplesread := pa_samplesread P + nat n,
    pa_original_sample_number := pa_original_sample_number P + n,
    pa_input := map (ol_pcm L) (pcm_samples (take (2 * nat n) buf)) @ drop (nat n) (pa_input P)\<rparr>)"
proof -
  have n: "0 < nat n" "nat n \<le> length (pa_input P)" using assms(1) by (auto simp: para_ok_def)
  obtain got left where r: "ReadBuffer (nat n * 2) (Some buf) = (got, left)" by force
  have got: "got = take (2 * nat n) buf" using ReadBuffer_cases(2) [of "nat n * 2" buf] assms(2) n r by (simp add: mult.commute)
  have len: "length got = 2 * nat n" using got assms(2) by simp
  show ?thesis using n r got len by (auto simp: ReadPadder_def WavRead_def Let_def)
qed

text \<open>Reading never leaves the memory.\<close>

definition read_kept :: "('o, 'g, 'f) ogg_para \<Rightarrow> _" where
  "read_kept P = (pa_encoder P, pa_os P, pa_op P, pa_comments P, pa_header P, pa_last_granulepos P, pa_enc_granulepos P, pa_id P,
     pa_last_segments P, pa_nb_samples P, pa_max_frame_bytes P, pa_max_ogg_delay P)"

lemma WavRead_ok:
  assumes "k \<le> length (pa_input P)"
  shows "\<exists>j left P'. WavRead L k src P = Some (j, left, P') \<and> j \<le> k \<and> length (pa_input P') = length (pa_input P) \<and> read_kept P' = read_kept P
    \<and> pa_extraout P' = pa_extraout P \<and> pa_lpc_ptr P' = pa_lpc_ptr P \<and> pa_lpc_out P' = pa_lpc_out P"
proof -
  obtain got left where r: "ReadBuffer (k * 2) src = (got, left)" by force
  with ReadBuffer_cases(1) [of "k * 2" src] have "length got div 2 \<le> k" by simp
  with r assms show ?thesis by (auto simp: WavRead_def read_kept_def Let_def)
qed

lemma start_lpc_ok:
  assumes "predicts L" and "pa_lpc_ptr P < 0 \<or> nat (pa_lpc_ptr P) + pa_extraout P \<le> length (pa_lpc_out P)"
  shows "0 \<le> pa_lpc_ptr (start_lpc L j P) \<and> nat (pa_lpc_ptr (start_lpc L j P)) + pa_extraout P \<le> length (pa_lpc_out (start_lpc L j P))"
    and "pa_extraout (start_lpc L j P) = pa_extraout P" "pa_input (start_lpc L j P) = pa_input P" "read_kept (start_lpc L j P) = read_kept P"
  using assms by (auto simp: start_lpc_def predicts_def read_kept_def)

lemma padded_ok:
  assumes "0 < n" and "n \<le> int (length (pa_input P))" and "pa_max_ogg_delay P = 200" and "0 \<le> pa_lpc_ptr P"
    and "nat (pa_lpc_ptr P) + pa_extraout P \<le> length (pa_lpc_out P)" and "extra \<le> pa_extraout P" and "j + extra \<le> nat n"
  shows "para_ok n (P\<lparr>pa_extraout := pa_extraout P - extra,
       pa_input := take j (pa_input P) @ take extra (drop (nat (pa_lpc_ptr P)) (pa_lpc_out P)) @ drop (j + extra) (pa_input P),
       pa_lpc_ptr := pa_lpc_ptr P + int extra\<rparr>)"
  using assms by (simp add: para_ok_def nat_add_distrib; linarith)

lemma ReadPadder_ok:
  assumes "para_ok n P" and "predicts L"
  shows "\<exists>j left P'. ReadPadder L (nat n) src P = Some (j, left, P') \<and> para_ok n P' \<and> j \<le> nat n \<and> read_kept P' = read_kept P"
proof -
  have n: "nat n \<le> length (pa_input P)" "0 < n" using assms(1) by (auto simp: para_ok_def)
  from WavRead_ok [OF n(1), of L src] obtain j left P1 where 1: "WavRead L (nat n) src P = Some (j, left, P1)" "j \<le> nat n"
    "length (pa_input P1) = length (pa_input P)" "read_kept P1 = read_kept P" "pa_extraout P1 = pa_extraout P"
    "pa_lpc_ptr P1 = pa_lpc_ptr P" "pa_lpc_out P1 = pa_lpc_out P" by blast
  have ok1: "para_ok n P1" using assms(1) 1 by (simp add: para_ok_def read_kept_def)
  let ?P2 = "P1\<lparr>pa_original_sample_number := pa_original_sample_number P1 + int j\<rparr>"
  have ok2: "para_ok n ?P2" "read_kept ?P2 = read_kept P" using ok1 1(4) by (simp_all add: para_ok_def read_kept_def)
  consider "j = 0" | "0 < j" "\<not> j < nat n" | "0 < j" "j < nat n" by fastforce
  then show ?thesis
  proof cases
    case 1
    with \<open>WavRead L (nat n) src P = Some (j, left, P1)\<close> ok1 \<open>read_kept P1 = read_kept P\<close> show ?thesis by (simp add: ReadPadder_def)
  next
    case 2
    with 1 ok2 show ?thesis by (simp add: ReadPadder_def Let_def)
  next
    case 3
    define P3 where "P3 = start_lpc L j ?P2"
    have "pa_lpc_ptr ?P2 < 0 \<or> nat (pa_lpc_ptr ?P2) + pa_extraout ?P2 \<le> length (pa_lpc_out ?P2)"
      using ok2(1) by (simp add: para_ok_def)
    note s = start_lpc_ok [OF assms(2) this, of j, folded P3_def]
    have i: "length (pa_input P3) = length (pa_input P)" using s(3) 1(3) by simp
    have e: "pa_extraout ?P2 = pa_extraout P3" using s(2) by simp
    have d: "pa_max_ogg_delay P3 = 200" using s(4) ok2 by (simp add: read_kept_def para_ok_def)
    define extra where "extra = min (nat n - j) (pa_extraout P3)"
    have b: "nat (pa_lpc_ptr P3) + extra \<le> length (pa_lpc_out P3)" "j + extra \<le> length (pa_input P3)" "extra \<le> pa_extraout P3" "j + extra \<le> nat n"
      using s(1) e i n 3 by (auto simp: extra_def)
    let ?P4 = "P3\<lparr>pa_extraout := pa_extraout P3 - extra,
       pa_input := take j (pa_input P3) @ take extra (drop (nat (pa_lpc_ptr P3)) (pa_lpc_out P3)) @ drop (j + extra) (pa_input P3),
       pa_lpc_ptr := pa_lpc_ptr P3 + int extra\<rparr>"
    have "ReadPadder L (nat n) src P = Some (j + extra, left, ?P4)"
      using 1(1) 3 b(1,2) by (simp add: ReadPadder_def Let_def flip: P3_def extra_def)
    moreover have "read_kept ?P4 = read_kept P" using s(4) ok2(2) by (simp add: read_kept_def)
    moreover have "para_ok n ?P4" by (rule padded_ok) (use n i d s(1) e b in auto)
    ultimately show ?thesis using b(4) by blast
  qed
qed

text \<open>With the delay of 200 samples nothing is read ahead.\<close>

lemma finish_packet_keeps:
  assumes "finish_packet L cb n rate left packet P q = Some (ret, P', q')" and "para_ok n P"
  shows "para_ok n P' \<and> pa_encoder P' = pa_encoder P \<and> pa_max_frame_bytes P' = pa_max_frame_bytes P
    \<and> pa_enc_granulepos P' = pa_enc_granulepos P + 4800 \<and> pa_header P' = pa_header P
    \<and> (ret = Success \<longrightarrow> pa_nb_samples P' = - 1 \<and> op_e_o_s (pa_op P') = op_e_o_s (pa_op P))
    \<and> ret \<in> {Success, - OggOpusEncodeFailed} \<and> pa_nb_samples P' \<in> {pa_nb_samples P, - 1}"
proof -
  let ?k = "(int (length packet) + 255) div 255"
  let ?P1 = "P\<lparr>pa_nbBytes := int (length packet), pa_enc_granulepos := pa_enc_granulepos P + 1600 * 3\<rparr>"
  have ok1: "para_ok n ?P1" using assms(2) by (simp add: para_ok_def)
  from assms(1) obtain ok P2 q1 where 2: "page_loop (page_before L ?k) note_page cb ?P1 q = Some (ok, P2, q1)"
    by (simp add: finish_packet_def Let_def split: option.splits prod.splits)
  have v2: "frame_view P2 = frame_view ?P1" "pa_op P2 = pa_op P" using page_before_keeps [OF 2] by simp_all
  note f2 = frame_viewD [OF v2(1)]
  have ok2: "para_ok n P2" using para_ok_view [OF v2(1)] ok1 by simp
  show ?thesis
  proof (cases ok)
    case False
    with assms(1) 2 have "ret = - OggOpusEncodeFailed" "P' = P2" by (simp_all add: finish_packet_def)
    with f2 ok2 show ?thesis by simp
  next
    case True
    have delay: "\<not> pa_max_ogg_delay P2 > 5760" using ok2 by (simp add: para_ok_def)
    define P3 where "P3 = P2\<lparr>pa_nb_samples := - 1\<rparr>"
    from assms(1) 2 True delay obtain ok7 q2 where
      7: "page_loop (page_after L) note_page cb (add_packet L rate ?k packet P3) q1 = Some (ok7, P', q2)"
      "ret = (if ok7 then Success else - OggOpusEncodeFailed)"
      by (auto simp: finish_packet_def read_ahead_def P3_def split: option.splits)
    have "frame_view P' = frame_view P3" "op_e_o_s (pa_op P') = op_e_o_s (pa_op P3)"
      using page_after_keeps [OF 7(1)] by (simp_all add: add_packet_def Let_def packetin_def frame_view_def)
    note v7 = this and f7 = frame_viewD [OF this(1)]
    have "para_ok n P3" using ok2 by (simp add: P3_def para_ok_def)
    then have "para_ok n P'" using para_ok_view [OF v7(1), of n] by simp
    then show ?thesis using f7 f2 v7(2) v2(2) 7(2) by (simp add: P3_def)
  qed
qed

lemma finish_packet_returns:
  assumes "para_ok n P" and "ogg_finite L left_pages"
  shows "\<exists>ret P' q'. finish_packet L cb n rate left packet P q = Some (ret, P', q')"
proof -
  let ?k = "(int (length packet) + 255) div 255"
  let ?P1 = "P\<lparr>pa_nbBytes := int (length packet), pa_enc_granulepos := pa_enc_granulepos P + 1600 * 3\<rparr>"
  obtain ok P2 q1 where 2: "page_loop (page_before L ?k) note_page cb ?P1 q = Some (ok, P2, q1)"
    using streams_return(2) [OF assms(2)] by (metis prod_cases3)
  have "frame_view P2 = frame_view ?P1" using page_before_keeps [OF 2] by simp
  from frame_viewD(8) [OF this] assms(1) have delay: "\<not> pa_max_ogg_delay P2 > 5760" by (simp add: para_ok_def)
  define P3 where "P3 = P2\<lparr>pa_nb_samples := - 1\<rparr>"
  obtain ok3 P4 q2 where "page_loop (page_after L) note_page cb (add_packet L rate ?k packet P3) q1 = Some (ok3, P4, q2)"
    using streams_return(3) [OF assms(2)] by (metis prod_cases3)
  then show ?thesis using 2 delay by (cases ok) (simp_all add: finish_packet_def read_ahead_def P3_def)
qed

lemma cur_frame_size_le: "0 < n \<Longrightarrow> 0 \<le> k \<Longrightarrow> cur_frame_size n k \<le> n"
  by (simp add: cur_frame_size_def)

lemma cur_frame_size_full [simp]: "cur_frame_size n n = n"
  by (simp add: cur_frame_size_def)

lemma cur_frame_size_empty: "320 dvd n \<Longrightarrow> 0 \<le> n \<Longrightarrow> cur_frame_size n 0 = 0"
  by (auto simp: cur_frame_size_def)

lemma length_zero_tail: "k \<le> m \<Longrightarrow> m \<le> length xs \<Longrightarrow> length (zero_tail L k m xs) = length xs"
  by (simp add: zero_tail_def)

lemma cur_frame_size_ge: "0 < n \<Longrightarrow> 0 \<le> k \<Longrightarrow> k \<le> n \<Longrightarrow> k \<le> cur_frame_size n k"
  by (simp add: cur_frame_size_def; linarith)

lemma frame_ready_ok:
  assumes "para_ok n P" and "predicts L" and "pa_nb_samples P \<le> n"
  shows "\<exists>left P'. frame_ready L n tmp P = Some (left, P') \<and> para_ok n P' \<and> 0 \<le> pa_nb_samples P' \<and> pa_nb_samples P' \<le> n
    \<and> pa_encoder P' = pa_encoder P \<and> pa_op P' = pa_op P \<and> pa_max_frame_bytes P' = pa_max_frame_bytes P
    \<and> pa_enc_granulepos P' = pa_enc_granulepos P \<and> pa_header P' = pa_header P"
proof (cases "pa_nb_samples P < 0")
  case True
  from ReadPadder_ok [OF assms(1,2), of tmp] obtain j left P1 where
    1: "ReadPadder L (nat n) tmp P = Some (j, left, P1)" "para_ok n P1" "j \<le> nat n" "read_kept P1 = read_kept P" by blast
  then have "para_ok n (P1\<lparr>pa_nb_samples := int j\<rparr>)" "int j \<le> n" using assms(1) by (auto simp: para_ok_def)
  with 1 True show ?thesis by (simp add: frame_ready_def read_kept_def)
next
  case False
  with assms show ?thesis by (simp add: frame_ready_def)
qed

lemma finish_packet_ret: "finish_packet L cb n rate left packet P q = Some (ret, P', q') \<Longrightarrow> ret \<le> 0"
  by (auto simp: finish_packet_def Let_def split: option.splits prod.splits bool.splits)

lemma encode_frame_ret: "encode_frame L cb n rate tmp P q = Some (ret, P', q') \<Longrightarrow> ret \<le> 0"
  by (auto simp: encode_frame_def Let_def dest: finish_packet_ret split: option.splits prod.splits if_splits sum.splits)

text \<open>What every call keeps.\<close>

definition call_kept :: "int \<Rightarrow> ('o, 'g, 'f) ogg_para \<Rightarrow> int \<Rightarrow> ('o, 'g, 'f) ogg_para \<Rightarrow> bool" where
  "call_kept n P ret P' \<longleftrightarrow> para_ok n P' \<and> pa_nb_samples P' \<le> n \<and> pa_max_frame_bytes P' = pa_max_frame_bytes P
     \<and> pa_header P' = pa_header P \<and> ret \<in> {Success, - OggOpusEncodeFailed}
     \<and> (ret = Success \<longrightarrow> pa_nb_samples P' = - 1 \<and> op_e_o_s (pa_op P') = op_e_o_s (pa_op P)
         \<and> pa_enc_granulepos P' = pa_enc_granulepos P + 4800)"

lemma encode_frame_keeps:
  assumes "encode_frame L cb n rate tmp P q = Some (ret, P', q')" and "para_ok n P" and "predicts L" and "pa_nb_samples P \<le> n"
  shows "call_kept n P ret P'"
proof -
  let ?P1 = "P\<lparr>pa_id := pa_id P + 1\<rparr>"
  have 1: "para_ok n ?P1" "pa_nb_samples ?P1 \<le> n" using assms(2,4) by (simp_all add: para_ok_def)
  from frame_ready_ok [OF 1(1) assms(3) 1(2), of tmp] obtain left P2 where 2: "frame_ready L n tmp ?P1 = Some (left, P2)" "para_ok n P2"
    "0 \<le> pa_nb_samples P2" "pa_nb_samples P2 \<le> n" "pa_op P2 = pa_op P" "pa_max_frame_bytes P2 = pa_max_frame_bytes P"
    "pa_enc_granulepos P2 = pa_enc_granulepos P" "pa_header P2 = pa_header P" by auto
  define size where "size = cur_frame_size n (pa_nb_samples P2)"
  define P3 where "P3 = pad_frame L n P2"
  have n: "0 < n" using assms(2) by (simp add: para_ok_def)
  have b: "pa_nb_samples P2 \<le> size" "size \<le> n" "size \<le> int (length (pa_input P2))"
    using cur_frame_size_le [OF n 2(3)] cur_frame_size_ge [OF n 2(3,4)] 2(2) by (auto simp: size_def para_ok_def)
  have ok3: "para_ok n (P3\<lparr>pa_encoder := enc, pa_nbBytes := k\<rparr>)" "para_ok n (P3\<lparr>pa_encoder := enc\<rparr>)" for enc k
    using 2(2,3) b by (auto simp: P3_def pad_frame_def para_ok_def length_zero_tail size_def)
  have f3: "pa_op P3 = pa_op P" "pa_max_frame_bytes P3 = pa_max_frame_bytes P" "pa_enc_granulepos P3 = pa_enc_granulepos P"
    "pa_header P3 = pa_header P" "pa_nb_samples P3 = pa_nb_samples P2" using 2 by (simp_all add: P3_def pad_frame_def)
  show ?thesis
  proof (cases "size \<le> 0")
    case True
    then have "ret = - OggOpusEncodeFailed" "P' = P2" using assms(1) 2(1) by (simp_all add: encode_frame_def size_def)
    with 2 show ?thesis by (simp add: call_kept_def)
  next
    case False
    obtain r enc where e: "ol_encode L (pa_max_frame_bytes P3) (take (nat size) (pa_input P3)) (pa_encoder P3) = (r, enc)" by force
    have E: "(case r of Inl err \<Rightarrow> Some (- OggOpusEncodeFailed, P3\<lparr>pa_encoder := enc, pa_nbBytes := err\<rparr>, q)
        | Inr packet \<Rightarrow> finish_packet L cb n rate left packet (P3\<lparr>pa_encoder := enc\<rparr>) q) = Some (ret, P', q')"
    proof -
      have "\<not> length (pa_input P2) < nat size" using b(3) by simp
      with assms(1) 2(1) False e show ?thesis unfolding P3_def size_def by (simp add: encode_frame_def Let_def)
    qed
    show ?thesis
    proof (cases r)
      case (Inl err)
      with E have "ret = - OggOpusEncodeFailed" "P' = P3\<lparr>pa_encoder := enc, pa_nbBytes := err\<rparr>" by simp_all
      with ok3(1) f3 2(4) show ?thesis by (simp add: call_kept_def)
    next
      case (Inr packet)
      with E have "finish_packet L cb n rate left packet (P3\<lparr>pa_encoder := enc\<rparr>) q = Some (ret, P', q')" by simp
      from finish_packet_keeps [OF this ok3(2)] f3 2(4) n show ?thesis by (auto simp: call_kept_def)
    qed
  qed
qed

lemma encode_frame_returns:
  assumes "para_ok n P" and "predicts L" and "pa_nb_samples P \<le> n" and "ogg_finite L left_pages"
  shows "\<exists>ret P' q'. encode_frame L cb n rate tmp P q = Some (ret, P', q')"
proof -
  let ?P1 = "P\<lparr>pa_id := pa_id P + 1\<rparr>"
  have 1: "para_ok n ?P1" "pa_nb_samples ?P1 \<le> n" using assms(1,3) by (simp_all add: para_ok_def)
  from frame_ready_ok [OF 1(1) assms(2) 1(2), of tmp] obtain left P2 where 2: "frame_ready L n tmp ?P1 = Some (left, P2)" "para_ok n P2"
    "0 \<le> pa_nb_samples P2" "pa_nb_samples P2 \<le> n" by auto
  have n: "0 < n" using assms(1) by (simp add: para_ok_def)
  let ?size = "cur_frame_size n (pa_nb_samples P2)"
  have b: "pa_nb_samples P2 \<le> ?size" "?size \<le> int (length (pa_input P2))"
    using cur_frame_size_le [OF n 2(3)] cur_frame_size_ge [OF n 2(3,4)] 2(2) by (auto simp: para_ok_def)
  define P3 where "P3 = pad_frame L n P2"
  have ok3: "para_ok n (P3\<lparr>pa_encoder := enc\<rparr>)" for enc
    using 2(2,3) b by (auto simp: P3_def pad_frame_def para_ok_def length_zero_tail)
  obtain r enc where e: "ol_encode L (pa_max_frame_bytes P3) (take (nat ?size) (pa_input P3)) (pa_encoder P3) = (r, enc)" by force
  have "\<exists>ret P' q'. finish_packet L cb n rate left packet (P3\<lparr>pa_encoder := enc\<rparr>) q = Some (ret, P', q')" for packet
    by (rule finish_packet_returns [OF ok3 assms(4)])
  moreover have "\<not> length (pa_input P2) < nat ?size" using b(2) by simp
  ultimately show ?thesis using 2(1) e unfolding P3_def by (cases r) (simp_all add: encode_frame_def Let_def)
qed

text \<open>A full frame reaches libopus sample by sample; an empty read ends in an error, for as long as nothing is read anew.\<close>

lemma encode_frame_full:
  assumes "encode_frame L cb n rate (Some buf) P q = Some (ret, P', q')" and "para_ok n P" and "pa_nb_samples P < 0"
    and "2 * nat n \<le> length buf"
  shows "pa_encoder P' = snd (ol_encode L (pa_max_frame_bytes P) (map (ol_pcm L) (pcm_samples (take (2 * nat n) buf))) (pa_encoder P))"
proof -
  let ?P1 = "P\<lparr>pa_id := pa_id P + 1\<rparr>" and ?xs = "map (ol_pcm L) (pcm_samples (take (2 * nat n) buf))"
  have n: "0 < n" "nat n \<le> length (pa_input P)" using assms(2) by (auto simp: para_ok_def)
  have ok1: "para_ok n ?P1" using assms(2) by (simp add: para_ok_def)
  from ReadPadder_full [OF ok1 assms(4), of L] obtain left where
    r: "ReadPadder L (nat n) (Some buf) ?P1 = Some (nat n, left, ?P1\<lparr>pa_samplesread := pa_samplesread ?P1 + nat n,
      pa_original_sample_number := pa_original_sample_number ?P1 + n, pa_input := ?xs @ drop (nat n) (pa_input ?P1)\<rparr>)" by blast
  define P2 where "P2 = ?P1\<lparr>pa_samplesread := pa_samplesread ?P1 + nat n,
      pa_original_sample_number := pa_original_sample_number ?P1 + n, pa_input := ?xs @ drop (nat n) (pa_input ?P1), pa_nb_samples := n\<rparr>"
  have f: "frame_ready L n (Some buf) ?P1 = Some (left, P2)" using r assms(3) n by (simp add: frame_ready_def P2_def)
  have len: "length ?xs = nat n" using assms(4) by simp
  have P2: "pa_nb_samples P2 = n" "pa_encoder P2 = pa_encoder P" "pa_max_frame_bytes P2 = pa_max_frame_bytes P"
    "take (nat n) (pa_input P2) = ?xs" "length (pa_input P2) = length (pa_input P)" "pad_frame L n P2 = P2"
    using len n by (simp_all add: P2_def pad_frame_def)
  have ok2: "para_ok n (P2\<lparr>pa_encoder := enc\<rparr>)" for enc using assms(2) P2(5) by (simp add: para_ok_def P2_def)
  obtain r enc where e: "ol_encode L (pa_max_frame_bytes P) ?xs (pa_encoder P) = (r, enc)" by force
  have E: "(case r of Inl err \<Rightarrow> Some (- OggOpusEncodeFailed, P2\<lparr>pa_encoder := enc, pa_nbBytes := err\<rparr>, q)
        | Inr packet \<Rightarrow> finish_packet L cb n rate left packet (P2\<lparr>pa_encoder := enc\<rparr>) q) = Some (ret, P', q')"
    using assms(1) f P2 n e by (simp add: encode_frame_def Let_def)
  have "pa_encoder P' = enc"
  proof (cases r)
    case (Inl err)
    with E show ?thesis by auto
  next
    case (Inr packet)
    with E have "finish_packet L cb n rate left packet (P2\<lparr>pa_encoder := enc\<rparr>) q = Some (ret, P', q')" by simp
    from finish_packet_keeps [OF this ok2] show ?thesis by simp
  qed
  with e show ?thesis by simp
qed

lemma encode_frame_empty:
  assumes "320 dvd n" and "0 \<le> n" and "pa_nb_samples P = 0 \<or> pa_nb_samples P < 0 \<and> tmp = None"
  shows "encode_frame L cb n rate tmp P q = Some (- OggOpusEncodeFailed, P\<lparr>pa_id := pa_id P + 1, pa_nb_samples := 0\<rparr>, q)"
  using assms cur_frame_size_empty [OF assms(1,2)]
  by (auto simp: encode_frame_def frame_ready_def ReadPadder_def WavRead_def ReadBuffer_def)

section \<open>Sequences of calls\<close>

lemma write_headers_keeps:
  assumes "write_headers L cb P q = Some (ok, P', q')"
  shows "frame_view P' = frame_view P \<and> \<not> op_e_o_s (pa_op P')"
proof -
  define P1 where "P1 = packetin L \<lparr>op_packet = OpusHeaderToPacket (pa_header P) 276, op_b_o_s = True, op_e_o_s = False,
                 op_granulepos = 0, op_packetno = 0\<rparr> P"
  from assms obtain ok2 P2 q2 where 2: "flush_stream L cb P1 q = Some (ok2, P2, q2)"
    by (simp add: write_headers_def Let_def P1_def split: option.splits prod.splits)
  have v2: "frame_view P2 = frame_view P" "\<not> op_e_o_s (pa_op P2)" using flush_stream_keeps [OF 2] by (simp_all add: P1_def packetin_def frame_view_def)
  show ?thesis
  proof (cases ok2)
    case False
    with assms 2 v2 show ?thesis by (simp add: write_headers_def P1_def)
  next
    case True
    with assms 2 have "flush_stream L cb (packetin L ((pa_op P2)\<lparr>op_packet := pa_comments P2, op_b_o_s := False, op_packetno := 1\<rparr>) P2) q2
        = Some (ok, P', q')" by (simp add: write_headers_def P1_def)
    from flush_stream_keeps [OF this] v2 show ?thesis by (simp add: packetin_def frame_view_def)
  qed
qed

lemma write_headers_returns: "ogg_finite L left_pages \<Longrightarrow> \<exists>r. write_headers L cb P q = Some r"
proof -
  assume f: "ogg_finite L left_pages"
  obtain ok P2 q2 where "flush_stream L cb (packetin L \<lparr>op_packet = OpusHeaderToPacket (pa_header P) 276, op_b_o_s = True,
      op_e_o_s = False, op_granulepos = 0, op_packetno = 0\<rparr> P) q = Some (ok, P2, q2)"
    using streams_return(1) [OF f] by (metis prod_cases3)
  then show ?thesis using streams_return(1) [OF f] by (cases ok) (auto simp: write_headers_def)
qed

lemma prepare_input_keeps:
  assumes "prepare_input L cb data e P q = Some (ok, tmp, first, P', q')"
  shows "frame_view P' = frame_view P"
  using assms write_headers_keeps [of L cb P q] by (auto simp: prepare_input_def frame_view_def split: if_splits option.splits prod.splits)

lemma prepare_input_returns: "ogg_finite L left_pages \<Longrightarrow> \<exists>r. prepare_input L cb data e P q = Some r"
  using write_headers_returns [of L left_pages cb P q] by (auto simp: prepare_input_def split: option.split prod.split)

text \<open>The encoder between calls.\<close>

definition encoder_ok :: "('o, 'g, 'f) ogg_encoder \<Rightarrow> bool" where
  "encoder_ok e \<longleftrightarrow> (\<forall>P. oe_para e = Some P \<longrightarrow> para_ok (oe_frame_sample_num e) P \<and> pa_nb_samples P \<le> oe_frame_sample_num e)"

lemma OggopusEncode_cases:
  assumes "OggopusEncode L cb data e q = Some (ret, e', q')" and "oe_para e = Some P"
  obtains (refused) tmp first P1 where "prepare_input L cb data e P q = Some (False, tmp, first, P1, q')" "ret = - OggOpusEncodeFailed"
      "e' = e\<lparr>oe_para := Some P1, oe_is_first_frame_processed := first\<rparr>"
    | (encoded) tmp first P1 q1 P2 where "prepare_input L cb data e P q = Some (True, tmp, first, P1, q1)"
      "encode_frame L cb (oe_frame_sample_num e) (oe_sample_rate e) tmp P1 q1 = Some (ret, P2, q')"
      "e' = e\<lparr>oe_para := Some P2, oe_is_first_frame_processed := first\<rparr>"
  using assms by (auto simp: OggopusEncode_def split: option.splits prod.splits bool.splits if_splits)

lemma OggopusEncode_ret: "OggopusEncode L cb data e q = Some (ret, e', q') \<Longrightarrow> ret \<le> 0"
  by (cases "oe_para e") (auto simp: OggopusEncode_def dest: encode_frame_ret split: option.splits prod.splits bool.splits)

lemma OggopusEncode_ok:
  assumes "OggopusEncode L cb data e q = Some (ret, e', q')" and "encoder_ok e" and "predicts L"
  shows "encoder_ok e' \<and> oe_frame_sample_num e' = oe_frame_sample_num e \<and> oe_frame_sample_bytes e' = oe_frame_sample_bytes e"
proof (cases "oe_para e")
  case None
  with assms(1,2) show ?thesis by (simp add: OggopusEncode_def)
next
  case (Some P)
  from assms(2) Some have ok: "para_ok (oe_frame_sample_num e) P" "pa_nb_samples P \<le> oe_frame_sample_num e" by (simp_all add: encoder_ok_def)
  from assms(1) Some show ?thesis
  proof (cases rule: OggopusEncode_cases)
    case (refused tmp first P1)
    note v = prepare_input_keeps [OF refused(1)]
    from ok para_ok_view [OF v, of "oe_frame_sample_num e"] frame_viewD(6) [OF v] refused(3) show ?thesis by (simp add: encoder_ok_def)
  next
    case (encoded tmp first P1 q1 P2)
    note v = prepare_input_keeps [OF encoded(1)]
    from ok para_ok_view [OF v, of "oe_frame_sample_num e"] frame_viewD(6) [OF v]
    have "para_ok (oe_frame_sample_num e) P1" "pa_nb_samples P1 \<le> oe_frame_sample_num e" by simp_all
    from encode_frame_keeps [OF encoded(2) this(1) assms(3) this(2)] encoded(3) show ?thesis by (simp add: encoder_ok_def call_kept_def)
  qed
qed

lemma OggopusEncode_returns:
  assumes "encoder_ok e" and "predicts L" and "ogg_finite L left_pages"
  shows "\<exists>ret e' q'. OggopusEncode L cb data e q = Some (ret, e', q')"
proof (cases "oe_para e")
  case None
  then show ?thesis by (simp add: OggopusEncode_def)
next
  case (Some P)
  obtain ok tmp first P1 q1 where p: "prepare_input L cb data e P q = Some (ok, tmp, first, P1, q1)"
    using prepare_input_returns [OF assms(3)] by (metis prod_cases5)
  note v = prepare_input_keeps [OF p]
  from assms(1) Some para_ok_view [OF v, of "oe_frame_sample_num e"] frame_viewD(6) [OF v]
  have "para_ok (oe_frame_sample_num e) P1" "pa_nb_samples P1 \<le> oe_frame_sample_num e" by (simp_all add: encoder_ok_def)
  from encode_frame_returns [OF this(1) assms(2) this(2) assms(3)] p Some show ?thesis by (cases ok) (fastforce simp: OggopusEncode_def)+
qed

datatype ogg_op = EncodeOp "byte list" | FinishOp | SoftRestartOp

fun ogg_step ::
  "('o, 'g, 'f) opus_lib \<Rightarrow> 'q sink \<Rightarrow> ogg_op \<Rightarrow> ('o, 'g, 'f) ogg_encoder \<times> 'q \<Rightarrow> (('o, 'g, 'f) ogg_encoder \<times> 'q) option" where
  "ogg_step L cb (EncodeOp data) (e, q) = map_option snd (OggopusEncode L cb data e q)"
| "ogg_step L cb FinishOp (e, q) = map_option snd (OggopusFinish L cb e q)"
| "ogg_step L cb SoftRestartOp (e, q) = Some (snd (OggopusSoftRestart e), q)"

lemma ogg_step_ok:
  assumes "encoder_ok (fst s)" and "predicts L" and "ogg_finite L left_pages"
  shows "\<exists>s'. ogg_step L cb op s = Some s' \<and> encoder_ok (fst s')"
proof -
  obtain e q where s: "s = (e, q)" by force
  have call: "\<exists>ret e' q'. OggopusEncode L cb d e q = Some (ret, e', q') \<and> encoder_ok e'" if e: "encoder_ok e" for d e q
  proof -
    obtain ret e' q' where 1: "OggopusEncode L cb d e q = Some (ret, e', q')" using OggopusEncode_returns [OF e assms(2,3), of cb d q] by blast
    with OggopusEncode_ok [OF 1 e assms(2)] show ?thesis by blast
  qed
  show ?thesis
  proof (cases op)
    case (EncodeOp data)
    with call [of e data q] assms(1) s show ?thesis by auto
  next
    case FinishOp
    show ?thesis
    proof (cases "oe_para e")
      case None
      with FinishOp assms(1) s show ?thesis by (simp add: OggopusFinish_def)
    next
      case (Some P)
      from call [of e "[]" q] assms(1) s obtain r1 e1 q1 where 1: "OggopusEncode L cb [] e q = Some (r1, e1, q1)" "encoder_ok e1" by auto
      from call [OF 1(2), of "[]" q1] obtain r2 e2 q2 where 2: "OggopusEncode L cb [] e1 q1 = Some (r2, e2, q2)" "encoder_ok e2" by auto
      with 1 FinishOp Some s show ?thesis by (simp add: OggopusFinish_def)
    qed
  next
    case SoftRestartOp
    with assms(1) s show ?thesis by (simp add: OggopusSoftRestart_def encoder_ok_def)
  qed
qed

text \<open>A new encoder, as \<open>createNlsEncoder\<close> leaves it.\<close>

lemma created_ok:
  assumes "OggopusEncoderCreate L rate OggOpusDataEncoder_new = Some (ret, e)"
  shows "\<exists>P. oe_para e = Some P \<and> pa_nb_samples P = - 1 \<and> length (pa_input P) = 1600 \<and> pa_max_ogg_delay P = 200
    \<and> pa_lpc_ptr P = - 1 \<and> pa_max_frame_bytes P = 6400 \<and> pa_enc_granulepos P = 0" and "ret = Success"
    and "\<not> oe_is_first_frame_processed e"
  using assms
  by (auto simp: OggopusEncoderCreate_def OggOpusDataEncoder_new_def SetupPadder_def Let_def split: Option.bind_splits)

lemma created_encoder_ok:
  assumes "OggopusEncoderCreate L rate OggOpusDataEncoder_new = Some (ret, e)" and "10 \<le> rate" and "rate < 16010"
  shows "encoder_ok (SetSampleRate rate e)"
proof -
  from created_ok(1) [OF assms(1)] obtain P where "oe_para e = Some P" "pa_nb_samples P = - 1" "length (pa_input P) = 1600"
    "pa_max_ogg_delay P = 200" "pa_lpc_ptr P = - 1" by blast
  moreover have "0 < rate div 10" "rate div 10 \<le> 1600" using assms(2,3) by presburger+
  ultimately show ?thesis using assms(2) by (simp add: encoder_ok_def para_ok_def SetSampleRate_def tenth_def)
qed

text \<open>C37. Up to 16 kHz no sequence of calls makes the Opus encoder leave its memory or write pages for ever: whatever the lengths
  of the data, with soft restarts and finishes at any point, every call returns. libogg is only required to run out
  of pages, and the prediction to have the length asked for.\<close>

theorem encoder_always_returns:
  assumes "OggopusEncoderCreate L rate OggOpusDataEncoder_new = Some (ret, e)" and "10 \<le> rate" and "rate < 16010"
    and "predicts L" and "ogg_finite L left_pages"
  shows "run_opt (ogg_step L cb) ops (SetSampleRate rate e, q) \<noteq> None"
proof -
  have "\<exists>s. run_opt (ogg_step L cb) ops (SetSampleRate rate e, q) = Some s \<and> encoder_ok (fst s)"
    by (rule run_opt_inv [where ok = "\<lambda>_. True"])
      (use created_encoder_ok [OF assms(1-3)] ogg_step_ok [OF _ assms(4,5)] in \<open>auto simp: list_all_iff\<close>)
  then show ?thesis by auto
qed

section \<open>What the encoder hears\<close>

text \<open>The samples of a frame, and the frames given to libopus one after the other.\<close>

definition frame_samples :: "('o, 'g, 'f) opus_lib \<Rightarrow> byte list \<Rightarrow> 'f list" where
  "frame_samples L data = map (ol_pcm L) (pcm_samples data)"

definition hear :: "('o, 'g, 'f) opus_lib \<Rightarrow> int \<Rightarrow> 'f list list \<Rightarrow> 'o \<Rightarrow> 'o" where
  "hear L limit frames enc = fold (\<lambda>xs o1. snd (ol_encode L limit xs o1)) frames enc"

definition encode_all ::
  "('o, 'g, 'f) opus_lib \<Rightarrow> 'q sink \<Rightarrow> byte list list \<Rightarrow> ('o, 'g, 'f) ogg_encoder \<times> 'q \<Rightarrow> (('o, 'g, 'f) ogg_encoder \<times> 'q) option" where
  "encode_all L cb = run_opt (\<lambda>data (e, q). case OggopusEncode L cb data e q of
     Some (ret, e', q') \<Rightarrow> if ret = Success then Some (e', q') else None | None \<Rightarrow> None)"

text \<open>Between full frames.\<close>

definition steady :: "int \<Rightarrow> ('o, 'g, 'f) ogg_encoder \<Rightarrow> ('o, 'g, 'f) ogg_para \<Rightarrow> bool" where
  "steady n e P \<longleftrightarrow> oe_para e = Some P \<and> oe_frame_sample_num e = n \<and> oe_frame_sample_bytes e = 2 * n \<and> para_ok n P \<and> pa_nb_samples P < 0"

lemma frame_samples_zeros: "frame_samples L (take (2 * nat n) (replicate (2 * nat n) 0 @ data)) = replicate (nat n) (ol_pcm L 0)"
  by (simp add: frame_samples_def pcm_samples_zeros)

lemma encode_full_frame:
  assumes "steady n e P" and "predicts L" and "int (length data) = 2 * n" and "OggopusEncode L cb data e q = Some (Success, e', q')"
  shows "\<exists>P'. steady n e' P' \<and> oe_is_first_frame_processed e' \<and> pa_max_frame_bytes P' = pa_max_frame_bytes P
    \<and> pa_enc_granulepos P' = pa_enc_granulepos P + 4800
    \<and> pa_encoder P' = hear L (pa_max_frame_bytes P)
        [if oe_is_first_frame_processed e then frame_samples L data else replicate (nat n) (ol_pcm L 0)] (pa_encoder P)"
proof -
  have P: "oe_para e = Some P" "oe_frame_sample_num e = n" "oe_frame_sample_bytes e = 2 * n" "para_ok n P" "pa_nb_samples P < 0"
    using assms(1) by (simp_all add: steady_def)
  have n: "0 < n" using P(4) by (simp add: para_ok_def)
  have len: "length data = 2 * nat n" "data \<noteq> []" using assms(3) n by auto
  from assms(4) P(1) obtain tmp first P1 q1 P2 where 1: "prepare_input L cb data e P q = Some (True, tmp, first, P1, q1)"
    "encode_frame L cb n (oe_sample_rate e) tmp P1 q1 = Some (Success, P2, q')"
    "e' = e\<lparr>oe_para := Some P2, oe_is_first_frame_processed := first\<rparr>"
    using P(2) by (cases rule: OggopusEncode_cases) auto
  let ?buf = "if oe_is_first_frame_processed e then data else replicate (length data) 0 @ data"
  have tmp: "tmp = Some ?buf \<and> first" using 1(1) len P(3) n
    by (auto simp: prepare_input_def split: if_splits option.splits prod.splits)
  note v = prepare_input_keeps [OF 1(1)]
  have P1: "para_ok n P1" "pa_nb_samples P1 < 0" "pa_nb_samples P1 \<le> n" using P(4,5) n para_ok_view [OF v, of n] frame_viewD(6) [OF v] by auto
  have "2 * nat n \<le> length ?buf" using len by simp
  from encode_frame_full [OF _ P1(1,2) this, of L cb "oe_sample_rate e" q1 Success P2 q'] 1(2) tmp
  have e2: "pa_encoder P2 = snd (ol_encode L (pa_max_frame_bytes P1) (map (ol_pcm L) (pcm_samples (take (2 * nat n) ?buf))) (pa_encoder P1))"
    by simp
  have "map (ol_pcm L) (pcm_samples (take (2 * nat n) ?buf)) =
      (if oe_is_first_frame_processed e then frame_samples L data else replicate (nat n) (ol_pcm L 0))"
    using len frame_samples_zeros [of L n data] by (simp add: frame_samples_def)
  with e2 have "pa_encoder P2 = hear L (pa_max_frame_bytes P)
      [if oe_is_first_frame_processed e then frame_samples L data else replicate (nat n) (ol_pcm L 0)] (pa_encoder P)"
    using frame_viewD(1,7) [OF v] by (simp add: hear_def)
  moreover from encode_frame_keeps [OF 1(2) P1(1) assms(2) P1(3)] frame_viewD(4,7) [OF v]
  have "para_ok n P2" "pa_nb_samples P2 < 0" "pa_max_frame_bytes P2 = pa_max_frame_bytes P" "pa_enc_granulepos P2 = pa_enc_granulepos P + 4800"
    by (auto simp: call_kept_def)
  ultimately show ?thesis using 1(3) P(2,3) tmp by (intro exI [of _ P2]) (simp add: steady_def)
qed

lemma encode_full_frames:
  assumes "encode_all L cb frames (e, q) = Some (e', q')" and "steady n e P" and "predicts L" and "\<forall>d \<in> set frames. int (length d) = 2 * n"
    and "oe_is_first_frame_processed e"
  shows "\<exists>P'. oe_para e' = Some P' \<and> pa_enc_granulepos P' = pa_enc_granulepos P + 4800 * int (length frames)
    \<and> pa_encoder P' = hear L (pa_max_frame_bytes P) (map (frame_samples L) frames) (pa_encoder P)"
  using assms(1,2,4,5)
proof (induction frames arbitrary: e q P)
  case Nil
  then show ?case by (simp add: encode_all_def hear_def steady_def)
next
  case (Cons d ds)
  from Cons.prems(1) obtain e1 q1 where 1: "OggopusEncode L cb d e q = Some (Success, e1, q1)" "encode_all L cb ds (e1, q1) = Some (e', q')"
    by (auto simp: encode_all_def split: option.splits if_splits)
  from encode_full_frame [OF Cons.prems(2) assms(3) _ 1(1)] Cons.prems(3,4) obtain P1 where
    P1: "steady n e1 P1" "oe_is_first_frame_processed e1" "pa_max_frame_bytes P1 = pa_max_frame_bytes P"
    "pa_enc_granulepos P1 = pa_enc_granulepos P + 4800" "pa_encoder P1 = hear L (pa_max_frame_bytes P) [frame_samples L d] (pa_encoder P)"
    by auto
  from Cons.IH [OF 1(2) P1(1) _ P1(2)] Cons.prems(3) P1 show ?case by (auto simp: hear_def)
qed

text \<open>C18. What libopus hears of a stream of full frames is silence in the place of the first frame and then the other frames,
  sample by sample: \<open>OggopusEncode\<close> puts as many zeros before the first frame as it has bytes and then reads one
  frame of the two. After a soft restart, so after every session of a long connection, the first frame is lost
  again. The position written with the pages grows by 4800, 100 ms at 48 kHz, for each frame.\<close>

theorem first_frame_silenced:
  assumes "oe_para e = Some P" and "oe_frame_sample_num e = n" and "oe_frame_sample_bytes e = 2 * n" and "para_ok n P"
    and "pa_nb_samples P < 0" and "predicts L" and "\<not> oe_is_first_frame_processed e"
    and "\<forall>d \<in> set (first # frames). int (length d) = 2 * n"
    and "encode_all L cb (first # frames) (e, q) = Some (e', q')"
  shows "\<exists>P'. oe_para e' = Some P' \<and> pa_enc_granulepos P' = pa_enc_granulepos P + 4800 * int (length (first # frames))
    \<and> pa_encoder P' = hear L (pa_max_frame_bytes P) (replicate (nat n) (ol_pcm L 0) # map (frame_samples L) frames) (pa_encoder P)"
proof -
  have P: "steady n e P" using assms(1-5) by (simp add: steady_def)
  from assms(9) obtain e1 q1 where 1: "OggopusEncode L cb first e q = Some (Success, e1, q1)" "encode_all L cb frames (e1, q1) = Some (e', q')"
    by (auto simp: encode_all_def split: option.splits if_splits)
  from encode_full_frame [OF P assms(6) _ 1(1)] assms(7,8) obtain P1 where
    P1: "steady n e1 P1" "oe_is_first_frame_processed e1" "pa_max_frame_bytes P1 = pa_max_frame_bytes P"
    "pa_enc_granulepos P1 = pa_enc_granulepos P + 4800"
    "pa_encoder P1 = hear L (pa_max_frame_bytes P) [replicate (nat n) (ol_pcm L 0)] (pa_encoder P)" by auto
  from encode_full_frames [OF 1(2) P1(1) assms(6) _ P1(2)] assms(8) P1 show ?thesis by (auto simp: hear_def)
qed

section \<open>Where the bytes go\<close>

text \<open>A sink that keeps the bytes.\<close>

definition byte_sink :: "byte list sink" where
  "byte_sink bs q = (int (length bs), q @ bs)"

text \<open>The encoder only appends to its sink: two sinks related by \<open>h\<close> get the same pages.\<close>

definition same_sink :: "('q \<Rightarrow> 'r) \<Rightarrow> 'q sink \<Rightarrow> 'r sink \<Rightarrow> bool" where
  "same_sink h cb cb' \<longleftrightarrow> (\<forall>bs q. fst (cb bs q) = fst (cb' bs (h q)) \<and> h (snd (cb bs q)) = snd (cb' bs (h q)))"

lemma WritePage_sink:
  assumes "same_sink h cb cb'" and "WritePage cb og q = (ret, q1)"
  shows "WritePage cb' og (h q) = (ret, h q1)"
proof -
  obtain w1 q2 where 1: "cb (og_header og) q = (w1, q2)" by force
  obtain w2 q3 where 2: "cb (og_body og) q2 = (w2, q3)" by force
  from assms(1) have s: "fst (cb bs q) = fst (cb' bs (h q))" "h (snd (cb bs q)) = snd (cb' bs (h q))" for bs q by (auto simp: same_sink_def)
  have "cb' (og_header og) (h q) = (w1, h q2)" "cb' (og_body og) (h q2) = (w2, h q3)"
    using s [of "og_header og" q] s [of "og_body og" q2] 1 2 by (auto simp: prod_eq_iff)
  with assms(2) 1 2 show ?thesis by (auto simp: WritePage_def)
qed

lemma page_loop_sink:
  fixes r :: "bool \<times> 'p \<times> 'q"
  assumes "page_loop page note cb P q = Some r" and "same_sink h cb cb'"
  shows "page_loop page note cb' P (h q) = Some (fst r, fst (snd r), h (snd (snd r)))"
proof -
  let ?C = "\<lambda>a (r :: bool \<times> 'p \<times> 'q). case a of ((((page', note'), cb0), P), q) \<Rightarrow>
    page' = page \<and> note' = note \<and> cb0 = cb \<longrightarrow> page_loop page note cb' P (h q) = Some (fst r, fst (snd r), h (snd (snd r)))"
  have "?C ((((page, note), cb), P), q) r"
  proof (rule page_loop.raw_induct [where Pa = ?C, OF _ assms(1)])
    fix rec page' note' cb0 P q and x :: "bool \<times> 'p \<times> 'q"
    assume rec: "\<And>note' cb0 P q b y. rec note' cb0 P q b = Some y \<Longrightarrow> ?C ((((note', cb0), P), q), b) y"
    assume x: "(case page' P of (None, P1) \<Rightarrow> Some (True, P1, q)
        | (Some og, P1) \<Rightarrow>
            let P2 = note' og P1; (ret, q1) = WritePage cb0 og q in
            if ret \<noteq> int (length (og_header og)) + int (length (og_body og)) then Some (False, P2, q1)
            else rec page' note' cb0 P2 q1) = Some x"
    show "?C ((((page', note'), cb0), P), q) x"
    proof clarsimp
      assume [simp]: "page' = page" "note' = note" "cb0 = cb"
      obtain og P1 where p: "page P = (og, P1)" by force
      show "page_loop page note cb' P (h q) = Some (fst x, fst (snd x), h (snd (snd x)))"
      proof (cases og)
        case None
        with x p show ?thesis by (subst page_loop.simps) auto
      next
        case (Some o1)
        obtain ret q1 where w: "WritePage cb o1 q = (ret, q1)" by force
        note w' = WritePage_sink [OF assms(2) w]
        show ?thesis
        proof (cases "ret \<noteq> int (length (og_header o1)) + int (length (og_body o1))")
          case True
          with x p w w' Some show ?thesis by (subst page_loop.simps) auto
        next
          case False
          with x p w Some have "rec page note cb (note o1 P1) q1 = Some x" by simp
          from rec [OF this] False p w' Some show ?thesis by (subst page_loop.simps) simp
        qed
      qed
    qed
  qed
  then show ?thesis by simp
qed

lemma page_loop_sink': "same_sink h cb cb' \<Longrightarrow> page_loop page note cb P q = Some (ok, P', q') \<Longrightarrow>
    page_loop page note cb' P (h q) = Some (ok, P', h q')"
  by (drule (1) page_loop_sink [rotated]) simp

lemma write_headers_sink:
  assumes h: "same_sink h cb cb'" and "write_headers L cb P q = Some (ok, P', q')"
  shows "write_headers L cb' P (h q) = Some (ok, P', h q')"
proof -
  define P1 where "P1 = packetin L \<lparr>op_packet = OpusHeaderToPacket (pa_header P) 276, op_b_o_s = True, op_e_o_s = False,
                 op_granulepos = 0, op_packetno = 0\<rparr> P"
  from assms(2) obtain ok2 P2 q2 where 2: "flush_stream L cb P1 q = Some (ok2, P2, q2)"
    by (simp add: write_headers_def Let_def P1_def split: option.splits prod.splits)
  note 3 = page_loop_sink' [OF h 2 [unfolded flush_stream_def], folded flush_stream_def]
  show ?thesis
  proof (cases ok2)
    case False
    with assms(2) 2 3 show ?thesis by (simp add: write_headers_def P1_def)
  next
    case True
    with assms(2) 2 have 4: "flush_stream L cb (packetin L ((pa_op P2)\<lparr>op_packet := pa_comments P2, op_b_o_s := False, op_packetno := 1\<rparr>) P2) q2
        = Some (ok, P', q')" by (simp add: write_headers_def P1_def)
    note 5 = page_loop_sink' [OF h 4 [unfolded flush_stream_def], folded flush_stream_def]
    with 3 True show ?thesis by (simp add: write_headers_def P1_def)
  qed
qed

lemma prepare_input_sink:
  assumes h: "same_sink h cb cb'" and "prepare_input L cb data e P q = Some (ok, tmp, first, P', q')"
  shows "prepare_input L cb' data e P (h q) = Some (ok, tmp, first, P', h q')"
proof (cases "\<not> (oe_is_first_frame_processed e \<and> data \<noteq> []) \<and> int (length data) = oe_frame_sample_bytes e")
  case False
  with assms(2) show ?thesis by (auto simp: prepare_input_def)
next
  case True
  with assms(2) obtain ok1 P1 q1 where 1: "write_headers L cb P q = Some (ok1, P1, q1)" by (auto simp: prepare_input_def split: option.splits)
  from write_headers_sink [OF h this] 1 True assms(2) show ?thesis by (auto simp: prepare_input_def)
qed

lemma finish_packet_sink:
  assumes h: "same_sink h cb cb'" and "finish_packet L cb n rate left packet P q = Some (ret, P', q')"
  shows "finish_packet L cb' n rate left packet P (h q) = Some (ret, P', h q')"
proof -
  let ?k = "(int (length packet) + 255) div 255"
  let ?P1 = "P\<lparr>pa_nbBytes := int (length packet), pa_enc_granulepos := pa_enc_granulepos P + 1600 * 3\<rparr>"
  from assms(2) obtain ok P2 q1 where 2: "page_loop (page_before L ?k) note_page cb ?P1 q = Some (ok, P2, q1)"
    by (simp add: finish_packet_def Let_def split: option.splits prod.splits)
  note 3 = page_loop_sink' [OF h 2]
  show ?thesis
  proof (cases ok)
    case False
    with assms(2) 2 3 show ?thesis by (simp add: finish_packet_def)
  next
    case True
    from assms(2) 2 True obtain P3 where a: "read_ahead L n left P2 = Some P3"
      by (simp add: finish_packet_def split: option.splits)
    from assms(2) 2 True a obtain ok4 P4 q2 where
      4: "page_loop (page_after L) note_page cb (add_packet L rate ?k packet P3) q1 = Some (ok4, P4, q2)"
      by (auto simp: finish_packet_def split: option.splits)
    from page_loop_sink' [OF h 4] 2 3 4 a True assms(2) show ?thesis by (simp add: finish_packet_def)
  qed
qed

lemma encode_frame_sink:
  assumes h: "same_sink h cb cb'" and "encode_frame L cb n rate tmp P q = Some (ret, P', q')"
  shows "encode_frame L cb' n rate tmp P (h q) = Some (ret, P', h q')"
proof -
  from assms(2) obtain left P2 where 2: "frame_ready L n tmp (P\<lparr>pa_id := pa_id P + 1\<rparr>) = Some (left, P2)"
    by (auto simp: encode_frame_def split: option.splits)
  show ?thesis
  proof (cases "cur_frame_size n (pa_nb_samples P2) \<le> 0")
    case True
    with assms(2) 2 show ?thesis by (simp add: encode_frame_def)
  next
    case False
    define P3 where "P3 = pad_frame L n P2"
    obtain r enc where e: "ol_encode L (pa_max_frame_bytes P3) (take (nat (cur_frame_size n (pa_nb_samples P2))) (pa_input P3)) (pa_encoder P3) = (r, enc)"
      by force
    have len: "\<not> length (pa_input P2) < nat (cur_frame_size n (pa_nb_samples P2))"
      using assms(2) 2 False by (auto simp: encode_frame_def split: if_splits)
    have U: "encode_frame L c n rate tmp P q0 =
        (case r of Inl err \<Rightarrow> Some (- OggOpusEncodeFailed, P3\<lparr>pa_encoder := enc, pa_nbBytes := err\<rparr>, q0)
         | Inr packet \<Rightarrow> finish_packet L c n rate left packet (P3\<lparr>pa_encoder := enc\<rparr>) q0)" for c :: "'x sink" and q0
      using 2 False len e unfolding P3_def by (simp add: encode_frame_def Let_def)
    show ?thesis
    proof (cases r)
      case (Inl err)
      with assms(2) U [of cb q] U [of cb' "h q"] show ?thesis by auto
    next
      case (Inr packet)
      with assms(2) U [of cb q] finish_packet_sink [OF h] U [of cb' "h q"] show ?thesis by simp
    qed
  qed
qed

text \<open>The queue of the encoder, or any other sink, is only a way of keeping the bytes.\<close>

lemma OggopusEncode_sink:
  assumes h: "same_sink h cb cb'" and "OggopusEncode L cb data e q = Some (ret, e', q')"
  shows "OggopusEncode L cb' data e (h q) = Some (ret, e', h q')"
proof (cases "oe_para e")
  case None
  with assms(2) show ?thesis by (simp add: OggopusEncode_def)
next
  case (Some P)
  from assms(2) Some show ?thesis
  proof (cases rule: OggopusEncode_cases)
    case (refused tmp first P1)
    with prepare_input_sink [OF h refused(1)] Some show ?thesis by (simp add: OggopusEncode_def)
  next
    case (encoded tmp first P1 q1 P2)
    with prepare_input_sink [OF h encoded(1)] encode_frame_sink [OF h encoded(2)] Some show ?thesis by (simp add: OggopusEncode_def)
  qed
qed

section \<open>Errors\<close>

text \<open>Above 16 kHz the frame is longer than the memory taken for it when the encoder was created.\<close>

lemma high_rate_overflows:
  assumes "OggopusEncoderCreate L rate OggOpusDataEncoder_new = Some (ret, e)" and "16010 \<le> rate"
    and "int (length data) = oe_frame_sample_bytes (SetSampleRate rate e)"
  shows "OggopusEncode L cb data (SetSampleRate rate e) q \<in> {None} \<union> {Some (- OggOpusEncodeFailed, e', q') | e' q'. True}"
proof -
  from created_ok [OF assms(1)] obtain P where P: "oe_para e = Some P" "pa_nb_samples P = - 1" "length (pa_input P) = 1600"
    "\<not> oe_is_first_frame_processed e" by blast
  let ?e = "SetSampleRate rate e" and ?n = "rate div 10"
  have n: "1600 < ?n" using assms(2) by presburger
  have e: "oe_para ?e = Some P" "oe_frame_sample_num ?e = ?n" "oe_frame_sample_bytes ?e = ?n * 2" "\<not> oe_is_first_frame_processed ?e"
    using P assms(2) by (simp_all add: SetSampleRate_def tenth_def)
  have d: "data \<noteq> []" "length data = 2 * nat ?n" using assms(3) e n by auto
  show ?thesis
  proof (cases "prepare_input L cb data ?e P q")
    case None
    then show ?thesis using e by (simp add: OggopusEncode_def)
  next
    case (Some r)
    obtain ok tmp first P1 q1 where r: "r = (ok, tmp, first, P1, q1)" by (metis prod_cases5)
    show ?thesis
    proof (cases ok)
      case False
      then show ?thesis using Some r e by (simp add: OggopusEncode_def)
    next
      case True
      have tmp: "tmp = Some (replicate (length data) 0 @ data)" using Some r True e d assms(3)
        by (auto simp: prepare_input_def split: if_splits option.splits prod.splits)
      note v = prepare_input_keeps [OF Some [unfolded r]]
      let ?P1 = "P1\<lparr>pa_id := pa_id P1 + 1\<rparr>"
      have P1: "length (pa_input ?P1) = 1600" "pa_nb_samples ?P1 < 0" using frame_viewD(2,6) [OF v] P by simp_all
      obtain got left where b: "ReadBuffer (nat ?n * 2) tmp = (got, left)" by force
      have "length got = nat ?n * 2" using ReadBuffer_cases(2) [of "nat ?n * 2" "replicate (length data) 0 @ data"] b tmp d n by simp
      then have "WavRead L (nat ?n) tmp ?P1 = None" using b P1 n by (simp add: WavRead_def Let_def)
      then have "encode_frame L cb ?n (oe_sample_rate ?e) tmp P1 q1 = None"
        using P1 by (simp add: encode_frame_def frame_ready_def ReadPadder_def)
      then show ?thesis using Some r True e by (simp add: OggopusEncode_def)
    qed
  qed
qed

text \<open>Nothing is read while a count of samples is kept, and a count of none is never used up when the frame is a multiple of
  20 ms, as it is at 16 kHz.\<close>

definition stuck :: "('o, 'g, 'f) ogg_encoder \<Rightarrow> 'o \<Rightarrow> bool" where
  "stuck e enc \<longleftrightarrow> 320 dvd oe_frame_sample_num e \<and> 0 \<le> oe_frame_sample_num e
     \<and> (\<exists>P. oe_para e = Some P \<and> pa_nb_samples P = 0 \<and> pa_encoder P = enc)"

lemma stuck_call:
  assumes "stuck e enc" and "OggopusEncode L cb data e q = Some (ret, e', q')"
  shows "ret = - OggOpusEncodeFailed \<and> stuck e' enc"
proof -
  from assms(1) obtain P where P: "oe_para e = Some P" "pa_nb_samples P = 0" "pa_encoder P = enc" and
    n: "320 dvd oe_frame_sample_num e" "0 \<le> oe_frame_sample_num e" by (auto simp: stuck_def)
  from assms(2) P(1) show ?thesis
  proof (cases rule: OggopusEncode_cases)
    case (refused tmp first P1)
    with frame_viewD(1,6) [OF prepare_input_keeps [OF refused(1)]] P n show ?thesis by (simp add: stuck_def)
  next
    case (encoded tmp first P1 q1 P2)
    note f = frame_viewD(1,6) [OF prepare_input_keeps [OF encoded(1)]]
    from encode_frame_empty [OF n, of P1 tmp L cb "oe_sample_rate e" q1] encoded(2) f P
    have "ret = - OggOpusEncodeFailed" "P2 = P1\<lparr>pa_id := pa_id P1 + 1, pa_nb_samples := 0\<rparr>" by simp_all
    with encoded(3) f P n show ?thesis by (simp add: stuck_def)
  qed
qed

lemma short_first_frame_sticks:
  assumes "oe_para e = Some P" and "pa_nb_samples P \<le> 0" and "320 dvd oe_frame_sample_num e" and "0 \<le> oe_frame_sample_num e"
    and "\<not> oe_is_first_frame_processed e \<or> data = []" and "int (length data) \<noteq> oe_frame_sample_bytes e"
  shows "\<exists>e'. OggopusEncode L cb data e q = Some (- OggOpusEncodeFailed, e', q) \<and> stuck e' (pa_encoder P)
    \<and> oe_frame_sample_num e' = oe_frame_sample_num e \<and> oe_frame_sample_bytes e' = oe_frame_sample_bytes e
    \<and> oe_is_first_frame_processed e' = oe_is_first_frame_processed e"
proof -
  let ?P1 = "P\<lparr>pa_op := (pa_op P)\<lparr>op_e_o_s := True\<rparr>\<rparr>"
  have "prepare_input L cb data e P q = Some (True, None, oe_is_first_frame_processed e, ?P1, q)" using assms(5,6) by (auto simp: prepare_input_def)
  moreover have "encode_frame L cb (oe_frame_sample_num e) (oe_sample_rate e) None ?P1 q =
      Some (- OggOpusEncodeFailed, ?P1\<lparr>pa_id := pa_id ?P1 + 1, pa_nb_samples := 0\<rparr>, q)"
    by (rule encode_frame_empty [OF assms(3,4)]) (use assms(2) in auto)
  ultimately show ?thesis using assms(1,3,4) by (auto simp: OggopusEncode_def stuck_def)
qed

section \<open>Examples\<close>

text \<open>A library that remembers the frames it is given and puts every packet on a page of its own.\<close>

fun take_page :: "ogg_packet list \<Rightarrow> ogg_page option \<times> ogg_packet list" where
  "take_page [] = (None, [])"
| "take_page (pk # g) = (Some \<lparr>og_header = [1], og_body = op_packet pk, og_packets = 1, og_granulepos = op_granulepos pk, og_segments = 1\<rparr>, g)"

definition opus_example :: "(int list list, ogg_packet list, int) opus_lib" where
  "opus_example = \<lparr>ol_version = ''libopus'', ol_create = (\<lambda>_. Some []), ol_ctl = (\<lambda>_ enc. Some enc), ol_lookahead = (\<lambda>_. Some 104),
     ol_encode = (\<lambda>_ xs enc. (Inr [of_nat (length enc), 7], enc @ [xs])), ol_stream_init = (\<lambda>_. Some []),
     ol_packetin = (\<lambda>pk g. g @ [pk]), ol_flush = take_page, ol_flush_fill = (\<lambda>_. take_page), ol_pageout_fill = (\<lambda>_. take_page),
     ol_pcm = (\<lambda>v. v), ol_predict = (\<lambda>xs k. replicate k 0), ol_memory = (\<lambda>k. replicate k 0)\<rparr>"

definition para_example :: "(int list list, ogg_packet list, int) ogg_para" where
  "para_example = \<lparr>pa_encoder = [], pa_os = [],
     pa_op = \<lparr>op_packet = [], op_b_o_s = False, op_e_o_s = False, op_granulepos = 0, op_packetno = 0\<rparr>,
     pa_input = [0, 0], pa_comments = [9], pa_header = encoder_header 16000 104, pa_last_granulepos = 0, pa_enc_granulepos = 0,
     pa_original_sample_number = 0, pa_id = - 1, pa_last_segments = 0, pa_nbBytes = - 1, pa_nb_samples = - 1,
     pa_max_frame_bytes = 6400, pa_bitrate = 16000, pa_complexity = 8, pa_max_ogg_delay = 200, pa_lookahead = 104, pa_skip = 104,
     pa_samplesread = 0, pa_extraout = 104, pa_lpc_ptr = - 1, pa_lpc_out = []\<rparr>"

definition encoder_example :: "(int list list, ogg_packet list, int) ogg_encoder" where
  "encoder_example = \<lparr>oe_para = Some para_example, oe_is_first_frame_processed = False, oe_sample_rate = 16000, oe_frame_sample_num = 2,
     oe_frame_sample_bytes = 4, oe_encoder_bitrate = 16000, oe_encoder_complexity = 8\<rparr>"

lemma opus_example_ok: "predicts opus_example" "ogg_finite opus_example length"
proof -
  have "take_page g = (Some og, g') \<Longrightarrow> length g' < length g" for g og g' by (cases g) auto
  then show "ogg_finite opus_example length" by (simp add: ogg_finite_def opus_example_def)
  show "predicts opus_example" by (simp add: predicts_def opus_example_def)
qed

lemma para_example_ok: "para_ok 2 para_example"
  by (simp add: para_ok_def para_example_def)

lemma encoder_always_returns_witness:
  "\<exists>e. OggopusEncoderCreate opus_example 16000 OggOpusDataEncoder_new = Some (Success, e)
    \<and> run_opt (ogg_step opus_example byte_sink) [EncodeOp [1, 2, 3], SoftRestartOp, FinishOp, EncodeOp [4]] (SetSampleRate 16000 e, []) \<noteq> None"
proof -
  obtain e where e: "OggopusEncoderCreate opus_example 16000 OggOpusDataEncoder_new = Some (Success, e)"
    by (simp add: OggopusEncoderCreate_def configured_def require_ctls_def opus_example_def Let_def)
  from encoder_always_returns [OF e _ _ opus_example_ok, of byte_sink "[EncodeOp [1, 2, 3], SoftRestartOp, FinishOp, EncodeOp [4]]" "[]"]
  have "run_opt (ogg_step opus_example byte_sink) [EncodeOp [1, 2, 3], SoftRestartOp, FinishOp, EncodeOp [4]] (SetSampleRate 16000 e, []) \<noteq> None"
    by simp
  with e show ?thesis by blast
qed

lemma encode_example: "encode_all opus_example byte_sink [[1, 0, 2, 0], [3, 0, 4, 255]] (encoder_example, []) \<noteq> None"
  by code_simp

lemma frame_samples_example: "frame_samples opus_example [3, 0, 4, 255] = [3, - 252]"
  by code_simp

lemma first_frame_silenced_witness:
  "\<exists>e' q' P'. encode_all opus_example byte_sink [[1, 0, 2, 0], [3, 0, 4, 255]] (encoder_example, []) = Some (e', q')
    \<and> oe_para e' = Some P' \<and> pa_encoder P' = [[0, 0], [3, - 252]]"
proof -
  from encode_example obtain e' q' where 1: "encode_all opus_example byte_sink [[1, 0, 2, 0], [3, 0, 4, 255]] (encoder_example, []) = Some (e', q')" by auto
  have "\<exists>P'. oe_para e' = Some P' \<and> pa_enc_granulepos P' = pa_enc_granulepos para_example + 4800 * int (length [[1, 0, 2, 0], [3, 0, 4, 255 :: byte]])
    \<and> pa_encoder P' = hear opus_example (pa_max_frame_bytes para_example)
        (replicate (nat 2) (ol_pcm opus_example 0) # map (frame_samples opus_example) [[3, 0, 4, 255]]) (pa_encoder para_example)"
    by (rule first_frame_silenced [OF _ _ _ para_example_ok _ opus_example_ok(1) _ _ 1]) (simp_all add: encoder_example_def para_example_def)
  then have "\<exists>P'. oe_para e' = Some P' \<and> pa_encoder P' = [[0, 0], [3, - 252]]"
    using frame_samples_example by (auto simp: hear_def opus_example_def para_example_def numeral_2_eq_2)
  with 1 show ?thesis by blast
qed

end
