(* ===== verification/DataQueue.thy ===== *)
theory DataQueue
  imports Prelude
begin

text \<open>
  \<open>utils/thread_data.h\<close>: the queue between the encoder, which pushes blocks, and the sender, which takes elements out by
  number. A position is a block and an element in it. Each operation holds the queue's mutex, so it is one step.
\<close>

section \<open>Operations\<close>

type_synonym 'a blocks = "'a list list"

definition Pushback :: "'a list \<Rightarrow> 'a blocks \<Rightarrow> int \<times> 'a blocks" where
  "Pushback xs data = (if xs \<noteq> [] then (0, data @ [xs]) else (- 1, data))"

definition remove_block :: "nat \<Rightarrow> 'a blocks \<Rightarrow> 'a blocks" where
  "remove_block i data = take i data @ drop (Suc i) data"

text \<open>The loop of \<open>Get\<close>: \<open>got\<close> is what has been copied so far.\<close>

function get_loop :: "bool \<Rightarrow> nat \<Rightarrow> 'a list \<Rightarrow> nat \<Rightarrow> nat \<Rightarrow> 'a blocks \<Rightarrow> 'a list \<times> nat \<times> nat \<times> 'a blocks" where
  "get_loop del num got ai ei data =
     (if ai < length data \<and> length got < num then
        (if length (data ! ai) \<le> ei + num - length got then
           get_loop del num (got @ drop ei (data ! ai)) (if del then ai else Suc ai) 0 (if del then remove_block ai data else data)
         else (got @ take (num - length got) (drop ei (data ! ai)), ai, ei + (num - length got), data))
      else (got, ai, ei, data))"
  by auto
termination
  by (relation "measure (\<lambda>(del, num, got, ai, ei, data). length data - ai)") (auto simp: remove_block_def)

declare get_loop.simps [simp del]

text \<open>The elements, the new position and the queue.\<close>

definition Get :: "bool \<Rightarrow> nat \<Rightarrow> nat \<Rightarrow> nat \<Rightarrow> 'a blocks \<Rightarrow> 'a list \<times> nat \<times> nat \<times> 'a blocks" where
  "Get del num ai ei data = get_loop del num [] ai ei data"

fun Flush :: "nat \<Rightarrow> 'a blocks \<Rightarrow> nat \<times> 'a blocks" where
  "Flush 0 data = (0, data)"
| "Flush (Suc i) data = (if Suc i < length data then Flush i (drop 1 data) else (Suc i, data))"

text \<open>The position is restored when there are too few elements.\<close>

definition TryGet :: "bool \<Rightarrow> nat \<Rightarrow> nat \<Rightarrow> nat \<Rightarrow> 'a blocks \<Rightarrow> 'a list \<times> nat \<times> nat \<times> 'a blocks" where
  "TryGet del num ai ei data =
     (let (got, ai1, ei1, data1) = Get False num ai ei data;
          (ai2, ei2) = (if length got \<noteq> num then (ai, ei) else (ai1, ei1));
          (ai3, data3) = (if del then Flush ai2 data1 else (ai2, data1)) in
      (if length got \<noteq> num then [] else got, ai3, ei2, data3))"

definition ElementNum :: "'a blocks \<Rightarrow> nat" where
  "ElementNum data = sum_list (map length data)"

definition Clear :: "'a blocks \<Rightarrow> 'a blocks" where
  "Clear data = []"

section \<open>What is read\<close>

text \<open>The number of the element at a position, in the queue laid end to end.\<close>

definition offset :: "nat \<Rightarrow> nat \<Rightarrow> 'a blocks \<Rightarrow> nat" where
  "offset ai ei data = length (concat (take ai data)) + ei"

lemma ElementNum_concat: "ElementNum data = length (concat data)"
  by (simp add: ElementNum_def length_concat)

lemma concat_split: "ai < length data \<Longrightarrow> concat data = concat (take ai data) @ data ! ai @ concat (drop (Suc ai) data)"
  using id_take_nth_drop [of ai data] by (metis concat.simps(2) concat_append)

lemma offset_next: "ai < length data \<Longrightarrow> offset (Suc ai) 0 data = offset ai 0 data + length (data ! ai)"
  by (simp add: offset_def take_Suc_conv_app_nth)

lemma from_offset: "ai < length data \<Longrightarrow> ei \<le> length (data ! ai) \<Longrightarrow>
    drop (offset ai ei data) (concat data) = drop ei (data ! ai) @ drop (offset (Suc ai) 0 data) (concat data)"
  by (subst (1) concat_split [of ai data], assumption, subst concat_split [of ai data], assumption)
    (simp add: offset_def take_Suc_conv_app_nth)

text \<open>Reading without deleting is reading on in the elements laid end to end.\<close>

lemma get_loop_reads:
  assumes "get_loop False num got ai ei data = (got', ai', ei', data')" and "length got \<le> num"
    and "ai < length data \<Longrightarrow> ei \<le> length (data ! ai)" and "length data \<le> ai \<Longrightarrow> ei = 0"
  shows "got' = got @ take (num - length got) (drop (offset ai ei data) (concat data)) \<and> data' = data
    \<and> offset ai' ei' data = offset ai ei data + (length got' - length got)"
  using assms
proof (induction "False" num got ai ei data rule: get_loop.induct)
  case (1 num got ai ei data)
  show ?case
  proof (cases "ai < length data \<and> length got < num")
    case False
    with "1.prems" have "got' = got" "ai' = ai" "ei' = ei" "data' = data"
      by (subst (asm) get_loop.simps, auto)+
    moreover have "take (num - length got) (drop (offset ai ei data) (concat data)) = []"
      using False "1.prems"(4) by (cases "length data \<le> ai") (auto simp: offset_def)
    ultimately show ?thesis by simp
  next
    case True
    note ei = "1.prems"(3) [OF conjunct1 [OF True]]
    note rest = from_offset [OF conjunct1 [OF True] ei]
    show ?thesis
    proof (cases "length (data ! ai) \<le> ei + num - length got")
      case whole: True
      let ?got = "got @ drop ei (data ! ai)"
      have r: "get_loop False num ?got (Suc ai) 0 data = (got', ai', ei', data')"
        using "1.prems"(1) True whole by (subst (asm) get_loop.simps) simp
      have len: "length ?got \<le> num" using whole conjunct2 [OF True] by (simp; linarith)
      have "got' = ?got @ take (num - length ?got) (drop (offset (Suc ai) 0 data) (concat data)) \<and> data' = data
          \<and> offset ai' ei' data = offset (Suc ai) 0 data + (length got' - length ?got)"
        using "1.hyps" [OF True whole] r len by simp
      moreover have "offset (Suc ai) 0 data = offset ai ei data + length (drop ei (data ! ai))"
        using offset_next [OF conjunct1 [OF True]] ei by (simp add: offset_def)
      moreover have "take (num - length got) (drop (offset ai ei data) (concat data)) =
          drop ei (data ! ai) @ take (num - length ?got) (drop (offset (Suc ai) 0 data) (concat data))"
        using whole True unfolding rest by simp
      ultimately show ?thesis by simp
    next
      case part: False
      have r: "got' = got @ take (num - length got) (drop ei (data ! ai))" "ai' = ai" "ei' = ei + (num - length got)" "data' = data"
        using "1.prems"(1) True part by (subst (asm) get_loop.simps, simp)+
      moreover have "take (num - length got) (drop (offset ai ei data) (concat data)) = take (num - length got) (drop ei (data ! ai))"
        using part True unfolding rest by simp
      ultimately show ?thesis using part True by (simp add: offset_def)
    qed
  qed
qed

text \<open>Reading with deleting, from the front as the encoder does: whole blocks leave the queue, and of a block that is read
  only in part nothing leaves it. Blocks are never empty.\<close>

fun unread :: "nat \<Rightarrow> 'a blocks \<Rightarrow> 'a blocks" where
  "unread m [] = []"
| "unread m (x # xs) = (if length x \<le> m then unread (m - length x) xs else x # xs)"

lemma get_loop_takes:
  assumes "[] \<notin> set data" and "length got \<le> num"
  shows "\<exists>ai ei. get_loop True num got 0 0 data = (got @ take (num - length got) (concat data), ai, ei, unread (num - length got) data)"
  using assms
proof (induction data arbitrary: got)
  case Nil
  then show ?case by (subst get_loop.simps) simp
next
  case (Cons x data)
  show ?case
  proof (cases "length got < num")
    case False
    with Cons.prems show ?thesis by (subst get_loop.simps) auto
  next
    case True
    show ?thesis
    proof (cases "length x \<le> num - length got")
      case whole: True
      have "get_loop True num got 0 0 (x # data) = get_loop True num (got @ x) 0 0 data"
        using True whole by (subst get_loop.simps) (simp add: remove_block_def)
      moreover have "length (got @ x) \<le> num" using whole True by simp
      ultimately show ?thesis using Cons.IH [of "got @ x"] Cons.prems whole by simp
    next
      case False
      with True show ?thesis by (subst get_loop.simps) simp
    qed
  qed
qed

lemma Get_front: "[] \<notin> set data \<Longrightarrow> \<exists>ai ei. Get True num 0 0 data = (take num (concat data), ai, ei, unread num data)"
  using get_loop_takes [of data "[]" num] by (simp add: Get_def)

lemma unread_all: "length (concat data) \<le> num \<Longrightarrow> unread num data = []"
  by (induction data arbitrary: num) auto

lemma unread_suffix: "\<exists>k. unread num data = drop k data"
proof (induction data arbitrary: num)
  case (Cons x data)
  from Cons [of "num - length x"] obtain k where k: "unread (num - length x) data = drop k data" by blast
  show ?case
  proof (cases "length x \<le> num")
    case True
    with k show ?thesis by (intro exI [of _ "Suc k"]) simp
  next
    case False
    then show ?thesis by (intro exI [of _ 0]) simp
  qed
qed simp

lemma unread_nonempty: "[] \<notin> set data \<Longrightarrow> [] \<notin> set (unread num data)"
  using unread_suffix [of num data] by (auto dest: in_set_dropD)

text \<open>The elements read and those left make up the queue, with the part of a block that was read in part twice.\<close>

lemma unread_overlap: "[] \<notin> set data \<Longrightarrow> num < length (concat data) \<Longrightarrow>
    \<exists>k. concat (unread num data) = drop k (concat data) \<and> k \<le> num
      \<and> (k = num \<longleftrightarrow> (\<exists>i \<le> length data. num = length (concat (take i data))))"
proof (induction data arbitrary: num)
  case (Cons x data)
  show ?case
  proof (cases "length x \<le> num")
    case True
    have "num - length x < length (concat data)" using Cons.prems True by simp
    from Cons.IH [OF _ this] Cons.prems(1) obtain k where k: "concat (unread (num - length x) data) = drop k (concat data)"
      "k \<le> num - length x" "k = num - length x \<longleftrightarrow> (\<exists>i \<le> length data. num - length x = length (concat (take i data)))" by auto
    have "(\<exists>i \<le> length (x # data). num = length (concat (take i (x # data)))) \<longleftrightarrow>
        (\<exists>i \<le> length data. num - length x = length (concat (take i data)))"
    proof
      assume "\<exists>i \<le> length (x # data). num = length (concat (take i (x # data)))"
      then obtain i where i: "i \<le> length (x # data)" "num = length (concat (take i (x # data)))" by blast
      have "x \<noteq> []" using Cons.prems(1) by auto
      with i True obtain j where "i = Suc j" by (cases i) auto
      with i show "\<exists>i \<le> length data. num - length x = length (concat (take i data))" by auto
    next
      assume "\<exists>i \<le> length data. num - length x = length (concat (take i data))"
      then obtain j where "j \<le> length data" "num - length x = length (concat (take j data))" by blast
      with True show "\<exists>i \<le> length (x # data). num = length (concat (take i (x # data)))"
        by (intro exI [of _ "Suc j"]) simp
    qed
    with k True show ?thesis by (intro exI [of _ "length x + k"]) (auto simp: add.commute)
  next
    case False
    have "num = 0" if "i \<le> length (x # data)" "num = length (concat (take i (x # data)))" for i
      using that False by (cases i) auto
    with False show ?thesis by (intro exI [of _ 0]) auto
  qed
qed simp

end
