(* ===== verification/NlsEncoder.thy ===== *)
theory NlsEncoder
  imports OggOpus DataQueue
begin

text \<open>
  The encoder of a connection node: \<open>encoder/nlsEncoder.cpp\<close>. For the format \<open>opu\<close> it wraps the packets of libopus with a
  length byte, for \<open>opus\<close> it runs the Ogg/Opus encoder, whose pages go through a queue of blocks. What the encoder
  needs of that queue is the locale \<open>block_queue\<close>.
\<close>

section \<open>State\<close>

datatype opu_ctl = OpuVbr int | OpuBitrate int | OpuComplexity int | OpuSignalVoice

text \<open>The functions of libopus for \<open>opu\<close>; \<open>ou_create\<close> has the rate and the channels and gives an error code or an encoder,
  \<open>ou_encode\<close> the samples and the size of the output.\<close>

record 'u opu_lib =
  ou_create :: "int \<Rightarrow> int \<Rightarrow> int + 'u"
  ou_ctl :: "opu_ctl \<Rightarrow> 'u \<Rightarrow> 'u"
  ou_encode :: "int list \<Rightarrow> int \<Rightarrow> 'u \<Rightarrow> (int + byte list) \<times> 'u"

datatype ('u, 'e) handle = NoHandle | OpuHandle 'u | OpusHandle 'e

record ('u, 'e) nls_encoder =
  ne_handle :: "('u, 'e) handle"
  ne_type :: ENCODER_TYPE
  ne_data :: "byte blocks"

definition NlsEncoder_new :: "('u, 'e) nls_encoder" where
  "NlsEncoder_new = \<lparr>ne_handle = NoHandle, ne_type = ENCODER_NONE, ne_data = []\<rparr>"

section \<open>Operations\<close>

definition oggopusEncodedData :: "byte blocks sink" where
  "oggopusEncodedData data q = (int (length data), snd (Pushback data q))"

definition getFrameSampleBytes :: "('u, ('o, 'g, 'f) ogg_encoder) nls_encoder \<Rightarrow> int" where
  "getFrameSampleBytes E =
     (case (ne_handle E, ne_type E) of
        (NoHandle, _) \<Rightarrow> - EncoderInexistent
      | (_, ENCODER_OPU) \<Rightarrow> 640
      | (OpusHandle e, ENCODER_OPUS) \<Rightarrow> oe_frame_sample_bytes e
      | _ \<Rightarrow> - InvalidEncoderType)"

text \<open>The result, the error code written for the caller, and the encoder. \<open>SetBitrate\<close> and \<open>SetComplexity\<close> come after the creation, which
  has read both.\<close>

definition createNlsEncoder ::
  "'u opu_lib \<Rightarrow> ('o, 'g, 'f) opus_lib \<Rightarrow> ENCODER_TYPE \<Rightarrow> int \<Rightarrow> int \<Rightarrow> ('u, ('o, 'g, 'f) ogg_encoder) nls_encoder
     \<Rightarrow> (int \<times> int option \<times> ('u, ('o, 'g, 'f) ogg_encoder) nls_encoder) option" where
  "createNlsEncoder U L type channels sampleRate E =
     (let channel_num = (if channels < 0 then 1 else channels) in
      if ne_handle E \<noteq> NoHandle then Some (- EncoderExistent, None, E)
      else if type = ENCODER_OPU then
        (case ou_create U sampleRate channel_num of
           Inl err \<Rightarrow> Some (- OpusEncoderCreateFailed, Some err, E)
         | Inr u \<Rightarrow>
             Some (Success, Some 0, E\<lparr>ne_handle := OpuHandle (fold (ou_ctl U) [OpuVbr 1, OpuBitrate 27800, OpuComplexity 8, OpuSignalVoice] u),
               ne_type := type\<rparr>))
      else if type = ENCODER_OPUS then
        map_option (\<lambda>(ret, e).
          (ret, None, E\<lparr>ne_handle := OpusHandle (if ret = Success
             then (SetSampleRate sampleRate (e\<lparr>oe_encoder_bitrate := 27800\<rparr>))\<lparr>oe_encoder_complexity := 8\<rparr> else e), ne_type := type\<rparr>))
          (OggopusEncoderCreate L sampleRate OggOpusDataEncoder_new)
      else Some (Success, None, E))"

text \<open>An odd number of bytes is read and copied beyond its end; a packet as long as the output leaves no room for its length.\<close>

definition opu_encoding ::
  "'u opu_lib \<Rightarrow> byte list \<Rightarrow> int \<Rightarrow> 'u \<Rightarrow> (int \<times> byte list \<times> 'u) option" where
  "opu_encoding U frame outputSize u =
     (if odd (length frame) then None
      else
        (case ou_encode U (pcm_samples frame) outputSize u of
           (Inl err, u1) \<Rightarrow> Some (err, [], u1)
         | (Inr packet, u1) \<Rightarrow>
             if int (length packet) + 1 > outputSize then None
             else Some (int (length packet) + 1, of_nat (length packet) # packet, u1)))"

text \<open>What is in the queue goes out as far as there is room.\<close>

definition take_encoded :: "int \<Rightarrow> byte blocks \<Rightarrow> byte list \<times> byte blocks" where
  "take_encoded outputSize q =
     (let data_len = ElementNum q in
      if 0 < data_len then (let (out, _, _, q1) = Get True (min data_len (nat outputSize)) 0 0 q in (out, q1)) else ([], q))"

text \<open>The result, the bytes written to the output, and the encoder.\<close>

definition nlsEncoding ::
  "'u opu_lib \<Rightarrow> ('o, 'g, 'f) opus_lib \<Rightarrow> byte list \<Rightarrow> int \<Rightarrow> ('u, ('o, 'g, 'f) ogg_encoder) nls_encoder
     \<Rightarrow> (int \<times> byte list \<times> ('u, ('o, 'g, 'f) ogg_encoder) nls_encoder) option" where
  "nlsEncoding U L frame outputSize E =
     (if frame = [] \<or> outputSize \<le> 0 then Some (0, [], E)
      else
        (case (ne_type E, ne_handle E) of
           (ENCODER_OPU, OpuHandle u) \<Rightarrow>
             map_option (\<lambda>(ret, out, u1). (ret, out, E\<lparr>ne_handle := OpuHandle u1\<rparr>)) (opu_encoding U frame outputSize u)
         | (ENCODER_OPUS, OpusHandle e) \<Rightarrow>
             map_option (\<lambda>(ret, e1, q1).
               if ret \<noteq> Success then (ret, [], E\<lparr>ne_handle := OpusHandle e1, ne_data := q1\<rparr>)
               else (let (out, q2) = take_encoded outputSize q1 in
                     (int (length out), out, E\<lparr>ne_handle := OpusHandle e1, ne_data := q2\<rparr>)))
               (OggopusEncode L oggopusEncodedData frame e (ne_data E))
         | (ENCODER_NONE, _) \<Rightarrow> Some (- 1, [], E)
         | _ \<Rightarrow> None))"

definition nlsEncoderSoftRestart :: "('u, ('o, 'g, 'f) ogg_encoder) nls_encoder \<Rightarrow> int \<times> ('u, ('o, 'g, 'f) ogg_encoder) nls_encoder" where
  "nlsEncoderSoftRestart E =
     (case ne_handle E of
        NoHandle \<Rightarrow> (- EncoderInexistent, E)
      | OpuHandle u \<Rightarrow> (Success, E)
      | OpusHandle e \<Rightarrow> (Success, E\<lparr>ne_handle := OpusHandle (snd (OggopusSoftRestart e))\<rparr>))"

definition destroyNlsEncoder :: "('u, ('o, 'g, 'f) ogg_encoder) nls_encoder \<Rightarrow> int \<times> ('u, ('o, 'g, 'f) ogg_encoder) nls_encoder" where
  "destroyNlsEncoder E =
     (case ne_handle E of
        NoHandle \<Rightarrow> (- EncoderInexistent, E)
      | OpuHandle u \<Rightarrow> (Success, E\<lparr>ne_handle := NoHandle, ne_type := ENCODER_NONE\<rparr>)
      | OpusHandle e \<Rightarrow> (Success, E\<lparr>ne_handle := NoHandle, ne_data := Clear (ne_data E), ne_type := ENCODER_NONE\<rparr>))"

section \<open>The queue as the encoder needs it\<close>

text \<open>What is pushed can be taken out in order; what is taken with room for everything leaves nothing behind, and otherwise the
  queue keeps a tail of its elements, which may begin before the end of what was taken.\<close>

locale block_queue =
  fixes push :: "'a list \<Rightarrow> 'q \<Rightarrow> 'q" and take_out :: "nat \<Rightarrow> 'q \<Rightarrow> 'a list \<times> 'q" and elements :: "'q \<Rightarrow> 'a list" and good :: "'q \<Rightarrow> bool"
  assumes elements_push: "elements (push xs q) = elements q @ xs"
    and good_push: "good q \<Longrightarrow> good (push xs q)"
    and taken: "good q \<Longrightarrow> fst (take_out n q) = take n (elements q)"
    and good_taken: "good q \<Longrightarrow> good (snd (take_out n q))"
    and emptied: "good q \<Longrightarrow> length (elements q) \<le> n \<Longrightarrow> elements (snd (take_out n q)) = []"
    and rest_is_tail: "good q \<Longrightarrow> \<exists>k \<le> n. elements (snd (take_out n q)) = drop k (elements q)"
begin

text \<open>Room that is left over shows that the queue is empty.\<close>

lemma took_everything:
  assumes "good q" and "length (fst (take_out n q)) < n"
  shows "fst (take_out n q) = elements q \<and> elements (snd (take_out n q)) = []"
proof -
  have "length (elements q) \<le> n" using assms taken [OF assms(1), of n] by simp
  with emptied [OF assms(1) this] taken [OF assms(1), of n] show ?thesis by simp
qed

lemma push_all: "elements (fold push xss q) = elements q @ concat xss"
  by (induction xss arbitrary: q) (simp_all add: elements_push)

lemma good_push_all: "good q \<Longrightarrow> good (fold push xss q)"
  by (induction xss arbitrary: q) (simp_all add: good_push)

text \<open>Blocks pushed at once come out as one.\<close>

lemma pushed_and_taken:
  assumes "good q" and "elements q = []" and "length (concat xss) \<le> n"
  shows "fst (take_out n (fold push xss q)) = concat xss \<and> elements (snd (take_out n (fold push xss q))) = []"
  using assms taken [OF good_push_all [OF assms(1)], of n xss] emptied [OF good_push_all [OF assms(1)], of xss n] by (simp add: push_all)

end

lemma concat_Pushback: "concat (snd (Pushback xs q)) = concat q @ xs"
  by (simp add: Pushback_def)

lemma Pushback_nonempty: "[] \<notin> set q \<Longrightarrow> [] \<notin> set (snd (Pushback xs q))"
  by (auto simp: Pushback_def)

lemma take_encoded_eq:
  assumes "[] \<notin> set q" and "0 \<le> n"
  shows "take_encoded n q = (take (nat n) (concat q), unread (min (length (concat q)) (nat n)) q)"
proof (cases "q = []")
  case True
  then show ?thesis by (simp add: take_encoded_def ElementNum_concat)
next
  case False
  with assms(1) have "0 < length (concat q)" by (cases q) auto
  moreover from Get_front [OF assms(1), of "min (length (concat q)) (nat n)"] obtain ai ei where
    "Get True (min (length (concat q)) (nat n)) 0 0 q = (take (min (length (concat q)) (nat n)) (concat q), ai, ei, unread (min (length (concat q)) (nat n)) q)"
    by blast
  moreover have "take (min (length xs) k) xs = take k xs" for xs :: "'x list" and k by (simp add: min_def)
  ultimately show ?thesis by (simp add: take_encoded_def ElementNum_concat Let_def)
qed

lemma unread_tail: "[] \<notin> set q \<Longrightarrow> \<exists>k \<le> m. concat (unread m q) = drop k (concat q)"
proof (cases "m < length (concat q)")
  case True
  assume "[] \<notin> set q"
  from unread_overlap [OF this True] show ?thesis by blast
next
  case False
  then show ?thesis by (intro exI [of _ "length (concat q)"]) (simp add: unread_all)
qed

interpretation encoded: block_queue "\<lambda>xs q. snd (Pushback xs q)" "\<lambda>n. take_encoded (int n)" concat "\<lambda>q. [] \<notin> set q"
proof unfold_locales
  fix q :: "byte blocks" and xs n assume q: "[] \<notin> set q"
  note t = take_encoded_eq [OF q, of "int n"]
  show "[] \<notin> set (snd (Pushback xs q))" by (rule Pushback_nonempty [OF q])
  show "fst (take_encoded (int n) q) = take n (concat q)" using t by simp
  show "[] \<notin> set (snd (take_encoded (int n) q))" using t unread_nonempty [OF q] by simp
  show "concat (snd (take_encoded (int n) q)) = []" if "length (concat q) \<le> n" using t that by (simp add: unread_all)
  show "\<exists>k \<le> n. concat (snd (take_encoded (int n) q)) = drop k (concat q)"
  proof -
    from unread_tail [OF q, of "min (length (concat q)) n"] obtain k where
      "k \<le> min (length (concat q)) n" "concat (unread (min (length (concat q)) n) q) = drop k (concat q)" by blast
    with t show ?thesis by (intro exI [of _ k]) simp
  qed
qed (rule concat_Pushback)

section \<open>The stream of a session\<close>

text \<open>A sequence of calls that all succeed, with their outputs.\<close>

fun encode_stream ::
  "'u opu_lib \<Rightarrow> ('o, 'g, 'f) opus_lib \<Rightarrow> (byte list \<times> int) list \<Rightarrow> ('u, ('o, 'g, 'f) ogg_encoder) nls_encoder
     \<Rightarrow> (byte list list \<times> ('u, ('o, 'g, 'f) ogg_encoder) nls_encoder) option" where
  "encode_stream U L [] E = Some ([], E)"
| "encode_stream U L ((frame, outputSize) # fs) E =
     (case nlsEncoding U L frame outputSize E of
        None \<Rightarrow> None
      | Some (ret, out, E1) \<Rightarrow>
          if ret < 0 then None else map_option (\<lambda>(outs, E2). (out # outs, E2)) (encode_stream U L fs E1))"

lemma queue_sink: "same_sink concat oggopusEncodedData byte_sink"
  by (simp add: same_sink_def oggopusEncodedData_def byte_sink_def concat_Pushback)

lemma queue_stays_good:
  assumes "OggopusEncode L oggopusEncodedData data e q = Some (ret, e', q')" and "[] \<notin> set q"
  shows "[] \<notin> set q'"
proof -
  let ?h = "filter (\<lambda>xs. xs \<noteq> [])"
  have "same_sink ?h oggopusEncodedData oggopusEncodedData" by (simp add: same_sink_def oggopusEncodedData_def Pushback_def)
  from OggopusEncode_sink [OF this assms(1)] have "OggopusEncode L oggopusEncodedData data e (?h q) = Some (ret, e', ?h q')" .
  moreover have "?h q = q" using assms(2) by (auto simp: filter_id_conv)
  ultimately have "?h q' = q'" using assms(1) by simp
  then show ?thesis by (auto simp: filter_id_conv)
qed

text \<open>C19. The outputs of a session, laid end to end, are the pages of the Ogg stream, byte for byte and in order, whatever
  the sizes of the frames, as long as every output has room to spare: the queue between the two sides is then emptied by
  every call.\<close>

theorem stream_in_order:
  assumes "encode_stream U L fs E = Some (outs, E')" and "ne_type E = ENCODER_OPUS" and "ne_handle E = OpusHandle e" and "ne_data E = []"
    and "\<forall>(frame, n) \<in> set fs. frame \<noteq> [] \<and> 0 < n" and "list_all2 (\<lambda>(frame, n) out. int (length out) < n) fs outs"
  shows "\<exists>e'. ne_handle E' = OpusHandle e' \<and> encode_all L byte_sink (map fst fs) (e, []) = Some (e', concat outs)"
proof -
  have "\<exists>e'. ne_handle E' = OpusHandle e' \<and> encode_all L byte_sink (map fst fs) (e, sent) = Some (e', sent @ concat outs)"
    if "[] \<notin> set (ne_data E)" "concat (ne_data E) = []" for sent
    using assms(1,2,3,5,6) that
  proof (induction fs arbitrary: E e outs sent)
    case Nil
    then show ?case by (simp add: encode_all_def)
  next
    case (Cons f fs)
    obtain frame n where f: "f = (frame, n)" by force
    from Cons.prems f have n: "frame \<noteq> []" "0 < n" by auto
    from Cons.prems(1) f obtain ret out E1 outs1 where
      1: "nlsEncoding U L frame n E = Some (ret, out, E1)" "\<not> ret < 0" "encode_stream U L fs E1 = Some (outs1, E')" "outs = out # outs1"
      by (auto split: option.splits if_splits)
    from 1(1) n Cons.prems(2,3) obtain r e1 q1 where 2: "OggopusEncode L oggopusEncodedData frame e (ne_data E) = Some (r, e1, q1)"
      by (auto simp: nlsEncoding_def)
    have ok: "r = Success"
    proof (rule ccontr)
      assume "r \<noteq> Success"
      with 1(1,2) 2 n Cons.prems(2,3) OggopusEncode_ret [OF 2] show False by (auto simp: nlsEncoding_def)
    qed
    obtain q2 where t: "take_encoded n q1 = (out, q2)" "E1 = E\<lparr>ne_handle := OpusHandle e1, ne_data := q2\<rparr>"
      using 1(1) 2 n Cons.prems(2,3) ok by (auto simp: nlsEncoding_def split: prod.splits)
    have good: "[] \<notin> set q1" by (rule queue_stays_good [OF 2 Cons.prems(6)])
    have room: "int (length out) < n" "list_all2 (\<lambda>(frame, n) out. int (length out) < n) fs outs1" using Cons.prems(5) f 1(4) by auto
    from encoded.took_everything [OF good, of "nat n"] t(1) room(1) n have all: "out = concat q1" "concat q2 = []" by simp_all
    from OggopusEncode_sink [OF _ 2, of "\<lambda>q. sent @ concat q" byte_sink] queue_sink Cons.prems(7)
    have 3: "OggopusEncode L byte_sink frame e sent = Some (Success, e1, sent @ out)" using ok all
      by (simp add: same_sink_def byte_sink_def)
    from encoded.good_taken [OF good, of "nat n"] t n have E1: "[] \<notin> set (ne_data E1)" by simp
    from Cons.IH [OF 1(3) _ _ _ room(2) E1, of e1 "sent @ out"] t(2) Cons.prems(2,4) all obtain e' where
      "ne_handle E' = OpusHandle e'" "encode_all L byte_sink (map fst fs) (e1, sent @ out) = Some (e', (sent @ out) @ concat outs1)"
      by auto
    with 3 f 1(4) show ?case by (simp add: encode_all_def)
  qed
  from this [of "[]"] assms(4) show ?thesis by simp
qed

text \<open>Without that room the bytes of a block that did not fit go out a second time: the block stays in the queue whole.\<close>

lemma short_output_repeats:
  assumes "[] \<notin> set q" and "0 < n" and "nat n < length x"
  shows "take_encoded n (x # q) = (take (nat n) x, x # q)"
proof -
  have x: "[] \<notin> set (x # q)" "min (length (concat (x # q))) (nat n) = nat n" using assms by auto
  from take_encoded_eq [OF x(1), of n] assms x(2) show ?thesis by simp
qed

section \<open>Length-prefixed packets\<close>

text \<open>A reader of the format \<open>opu\<close>, and the packets libopus makes of the frames.\<close>

function split_opu :: "byte list \<Rightarrow> byte list list option" where
  "split_opu [] = Some []"
| "split_opu (k # bs) =
     (if unat k \<le> length bs then map_option (\<lambda>ps. take (unat k) bs # ps) (split_opu (drop (unat k) bs)) else None)"
  by pat_completeness auto
termination
  by (relation "measure length") auto

fun opu_packets :: "'u opu_lib \<Rightarrow> (byte list \<times> int) list \<Rightarrow> 'u \<Rightarrow> byte list list option" where
  "opu_packets U [] u = Some []"
| "opu_packets U ((frame, n) # fs) u =
     (case ou_encode U (pcm_samples frame) n u of
        (Inl err, u1) \<Rightarrow> None
      | (Inr packet, u1) \<Rightarrow> map_option (\<lambda>ps. packet # ps) (opu_packets U fs u1))"

definition opu_errors_negative :: "'u opu_lib \<Rightarrow> bool" where
  "opu_errors_negative U \<longleftrightarrow> (\<forall>xs n u. case fst (ou_encode U xs n u) of Inl err \<Rightarrow> err < 0 | Inr packet \<Rightarrow> True)"

lemma split_opu_packet: "length p < 256 \<Longrightarrow> split_opu ((of_nat (length p) :: byte) # p @ bs) = map_option (\<lambda>ps. p # ps) (split_opu bs)"
  by (simp add: unat_of_nat)

text \<open>The outputs of a session in the format \<open>opu\<close> split back into the packets of libopus, as long as no packet is longer than
  the 255 bytes its length byte can say.\<close>

theorem opu_stream_splits:
  assumes "encode_stream U L fs E = Some (outs, E')" and "ne_type E = ENCODER_OPU" and "ne_handle E = OpuHandle u"
    and "opu_errors_negative U" and "\<forall>(frame, n) \<in> set fs. frame \<noteq> [] \<and> 0 < n" and "\<forall>out \<in> set outs. length out \<le> 256"
  shows "\<exists>ps. opu_packets U fs u = Some ps \<and> split_opu (concat outs) = Some ps"
  using assms(1-3,5,6)
proof (induction fs arbitrary: E u outs)
  case Nil
  then show ?case by simp
next
  case (Cons f fs)
  obtain frame n where f: "f = (frame, n)" by force
  from Cons.prems f have n: "frame \<noteq> []" "0 < n" by auto
  from Cons.prems(1) f obtain ret out E1 outs1 where
    1: "nlsEncoding U L frame n E = Some (ret, out, E1)" "\<not> ret < 0" "encode_stream U L fs E1 = Some (outs1, E')" "outs = out # outs1"
    by (auto split: option.splits if_splits)
  from 1(1) n Cons.prems(2,3) obtain u1 where 2: "opu_encoding U frame n u = Some (ret, out, u1)" "E1 = E\<lparr>ne_handle := OpuHandle u1\<rparr>"
    by (auto simp: nlsEncoding_def)
  obtain r u2 where e: "ou_encode U (pcm_samples frame) n u = (r, u2)" by force
  have "\<exists>p. r = Inr p"
  proof (cases r)
    case (Inl err)
    have "err < 0" using assms(4) e Inl unfolding opu_errors_negative_def by (metis fst_conv sum.case(1))
    with 2(1) e Inl 1(2) show ?thesis by (auto simp: opu_encoding_def split: if_splits)
  qed simp
  then obtain p where p: "r = Inr p" by blast
  with 2 e have out: "out = of_nat (length p) # p" "u1 = u2" by (auto simp: opu_encoding_def split: if_splits)
  have "length p < 256" using Cons.prems(5) 1(4) out by auto
  note s = split_opu_packet [OF this, of "concat outs1"]
  from Cons.IH [OF 1(3), of u1] Cons.prems(2,4,5) 2(2) 1(4) obtain ps where
    "opu_packets U fs u1 = Some ps" "split_opu (concat outs1) = Some ps" by auto
  with s e p out f 1(4) show ?case by simp
qed

section \<open>A stream shorter than a frame\<close>

datatype nls_op = EncodingOp "byte list" int | RestartOp

fun nls_step ::
  "'u opu_lib \<Rightarrow> ('o, 'g, 'f) opus_lib \<Rightarrow> nls_op \<Rightarrow> ('u, ('o, 'g, 'f) ogg_encoder) nls_encoder \<Rightarrow> ('u, ('o, 'g, 'f) ogg_encoder) nls_encoder option" where
  "nls_step U L (EncodingOp frame n) E = map_option (\<lambda>(ret, out, E1). E1) (nlsEncoding U L frame n E)"
| "nls_step U L RestartOp E = Some (snd (nlsEncoderSoftRestart E))"

definition blocked :: "('u, ('o, 'g, 'f) ogg_encoder) nls_encoder \<Rightarrow> bool" where
  "blocked E \<longleftrightarrow> ne_type E = ENCODER_OPUS \<and> (\<exists>e enc. ne_handle E = OpusHandle e \<and> stuck e enc)"

lemma blocked_encoding:
  assumes "blocked E" and "frame \<noteq> []" and "0 < n" and "nlsEncoding U L frame n E = Some (ret, out, E')"
  shows "ret = - OggOpusEncodeFailed \<and> out = [] \<and> blocked E'"
proof -
  from assms(1) obtain e enc where e: "ne_type E = ENCODER_OPUS" "ne_handle E = OpusHandle e" "stuck e enc" by (auto simp: blocked_def)
  from assms(2-4) e(1,2) obtain r e1 q1 where 1: "OggopusEncode L oggopusEncodedData frame e (ne_data E) = Some (r, e1, q1)"
    by (auto simp: nlsEncoding_def)
  from stuck_call [OF e(3) 1] 1 assms(2-4) e show ?thesis by (auto simp: nlsEncoding_def blocked_def)
qed

lemma blocked_step:
  assumes "blocked E" and "nls_step U L op E = Some E'"
  shows "blocked E'"
proof (cases op)
  case (EncodingOp frame n)
  show ?thesis
  proof (cases "frame = [] \<or> n \<le> 0")
    case True
    with assms EncodingOp show ?thesis by (auto simp: nlsEncoding_def)
  next
    case False
    with assms EncodingOp blocked_encoding [OF assms(1), of frame n U L] show ?thesis by auto
  qed
next
  case RestartOp
  with assms show ?thesis by (auto simp: nlsEncoderSoftRestart_def OggopusSoftRestart_def blocked_def stuck_def)
qed

text \<open>An Opus stream that ends before its first full frame makes the encoder useless: the frame is refused, and after it so is
  every other, in whatever sizes they come and however often the encoder is restarted between sessions, until it is
  destroyed. The refused call leaves the count of samples at zero, and only a negative count makes the next call read.\<close>

theorem short_stream_blocks:
  assumes "createNlsEncoder U L ENCODER_OPUS 1 16000 NlsEncoder_new = Some (Success, err, E)"
    and "frame \<noteq> []" and "length frame \<noteq> 3200" and "0 < n" and "nlsEncoding U L frame n E = Some (ret, out, E1)"
    and "run_opt (nls_step U L) ops E1 = Some E2"
    and "frame' \<noteq> []" and "0 < n'" and "nlsEncoding U L frame' n' E2 = Some (ret', out', E3)"
  shows "ret = - OggOpusEncodeFailed \<and> ret' = - OggOpusEncodeFailed \<and> out' = []"
proof -
  from assms(1) obtain e where c: "OggopusEncoderCreate L 16000 OggOpusDataEncoder_new = Some (Success, e)" and
    E: "E = \<lparr>ne_handle = OpusHandle ((SetSampleRate 16000 (e\<lparr>oe_encoder_bitrate := 27800\<rparr>))\<lparr>oe_encoder_complexity := 8\<rparr>), ne_type = ENCODER_OPUS, ne_data = []\<rparr>"
    by (auto simp: createNlsEncoder_def NlsEncoder_new_def)
  from created_ok [OF c] obtain P where P: "oe_para e = Some P" "pa_nb_samples P = - 1" "\<not> oe_is_first_frame_processed e" by blast
  let ?e = "(SetSampleRate 16000 (e\<lparr>oe_encoder_bitrate := 27800\<rparr>))\<lparr>oe_encoder_complexity := 8\<rparr>"
  obtain e' where e': "OggopusEncode L oggopusEncodedData frame ?e [] = Some (- OggOpusEncodeFailed, e', [])" "stuck e' (pa_encoder P)"
    using short_first_frame_sticks [of ?e P frame L oggopusEncodedData "[]"] P assms(3) by (auto simp: SetSampleRate_def tenth_def)
  from assms(2,4,5) E e'(1) have r: "ret = - OggOpusEncodeFailed" and E1: "E1 = \<lparr>ne_handle = OpusHandle e', ne_type = ENCODER_OPUS, ne_data = []\<rparr>"
    by (auto simp: nlsEncoding_def)
  have 1: "ret = - OggOpusEncodeFailed" "blocked E1" unfolding blocked_def using r E1 e'(2) by auto
  have "blocked E2" using assms(6) 1(2)
  proof (induction ops arbitrary: E1)
    case (Cons op ops)
    then show ?case by (auto split: option.splits dest: blocked_step)
  qed simp
  from blocked_encoding [OF this assms(7-9)] 1 show ?thesis by simp
qed

section \<open>Examples\<close>

definition opu_example :: "nat opu_lib" where
  "opu_example = \<lparr>ou_create = (\<lambda>_ _. Inr 0), ou_ctl = (\<lambda>_ u. u), ou_encode = (\<lambda>xs _ u. (Inr [of_nat (length xs), of_nat u], u + 1))\<rparr>"

definition opus_session :: "(nat, (int list list, ogg_packet list, int) ogg_encoder) nls_encoder" where
  "opus_session = \<lparr>ne_handle = OpusHandle encoder_example, ne_type = ENCODER_OPUS, ne_data = []\<rparr>"

lemma stream_example:
  "case encode_stream opu_example opus_example [([1, 0, 2, 0], 1000), ([3, 0, 4, 255], 5)] opus_session of
     None \<Rightarrow> False | Some (outs, E) \<Rightarrow> list_all2 (\<lambda>(frame, n) out. int (length out) < n) [([1, 0, 2, 0], 1000), ([3, 0, 4, 255 :: byte], 5)] outs"
  by code_simp

lemma stream_in_order_witness:
  "\<exists>outs E' e'. encode_stream opu_example opus_example [([1, 0, 2, 0], 1000), ([3, 0, 4, 255], 5)] opus_session = Some (outs, E')
     \<and> encode_all opus_example byte_sink [[1, 0, 2, 0], [3, 0, 4, 255]] (encoder_example, []) = Some (e', concat outs)"
proof -
  from stream_example obtain outs E' where
    1: "encode_stream opu_example opus_example [([1, 0, 2, 0], 1000), ([3, 0, 4, 255], 5)] opus_session = Some (outs, E')" and
    2: "list_all2 (\<lambda>(frame, n) out. int (length out) < n) [([1, 0, 2, 0], 1000), ([3, 0, 4, 255 :: byte], 5)] outs"
    by (auto split: option.splits)
  from stream_in_order [OF 1 _ _ _ _ 2, of encoder_example] 1 show ?thesis by (auto simp: opus_session_def)
qed

definition opu_session :: "(nat, (int list list, ogg_packet list, int) ogg_encoder) nls_encoder" where
  "opu_session = \<lparr>ne_handle = OpuHandle 0, ne_type = ENCODER_OPU, ne_data = []\<rparr>"

lemma opu_stream_splits_witness:
  "\<exists>ps. opu_packets opu_example [([1, 0], 10), ([2, 0, 3, 0], 10)] 0 = Some ps \<and> split_opu [2, 1, 0, 2, 2, 1] = Some ps"
proof -
  have 1: "encode_stream opu_example opus_example [([1, 0], 10), ([2, 0, 3, 0], 10)] opu_session
      = Some ([[2, 1, 0], [2, 2, 1]], opu_session\<lparr>ne_handle := OpuHandle (Suc (Suc 0))\<rparr>)"
    by (simp add: opu_session_def nlsEncoding_def opu_encoding_def opu_example_def)
  have 2: "opu_errors_negative opu_example" by (simp add: opu_errors_negative_def opu_example_def)
  from opu_stream_splits [OF 1 _ _ 2, of 0] show ?thesis by (simp add: opu_session_def)
qed

text \<open>A call with two bytes, at any time before the first full frame.\<close>

definition young :: "('u, ('o, 'g, 'f) ogg_encoder) nls_encoder \<Rightarrow> bool" where
  "young E \<longleftrightarrow> ne_type E = ENCODER_OPUS \<and> (\<exists>e P. ne_handle E = OpusHandle e \<and> oe_para e = Some P \<and> pa_nb_samples P \<le> 0
    \<and> oe_frame_sample_num e = 1600 \<and> oe_frame_sample_bytes e = 3200 \<and> \<not> oe_is_first_frame_processed e)"

lemma short_call_example:
  assumes "young E"
  shows "\<exists>E'. nlsEncoding U L [1, 2] 100 E = Some (- OggOpusEncodeFailed, [], E') \<and> young E'"
proof -
  from assms obtain e P where e: "ne_type E = ENCODER_OPUS" "ne_handle E = OpusHandle e" "oe_para e = Some P" "pa_nb_samples P \<le> 0"
    "oe_frame_sample_num e = 1600" "oe_frame_sample_bytes e = 3200" "\<not> oe_is_first_frame_processed e"
    by (auto simp: young_def)
  from short_first_frame_sticks [OF e(3,4), of "[1, 2]" L oggopusEncodedData "ne_data E"] e obtain e' where
    e': "OggopusEncode L oggopusEncodedData [1, 2] e (ne_data E) = Some (- OggOpusEncodeFailed, e', ne_data E)" "stuck e' (pa_encoder P)"
    "oe_frame_sample_num e' = 1600" "oe_frame_sample_bytes e' = 3200" "\<not> oe_is_first_frame_processed e'" by auto
  have "nlsEncoding U L [1, 2] 100 E = Some (- OggOpusEncodeFailed, [], E\<lparr>ne_handle := OpusHandle e', ne_data := ne_data E\<rparr>)"
    using e(1,2) e'(1) by (simp add: nlsEncoding_def)
  moreover have "young (E\<lparr>ne_handle := OpusHandle e', ne_data := ne_data E\<rparr>)" unfolding young_def using e(1) e'(2-5) by (auto simp: stuck_def)
  ultimately show ?thesis by blast
qed

lemma short_stream_blocks_witness:
  "\<exists>E E1 E2 E3. createNlsEncoder opu_example opus_example ENCODER_OPUS 1 16000 NlsEncoder_new = Some (Success, None, E)
     \<and> nlsEncoding opu_example opus_example [1, 2] 100 E = Some (- OggOpusEncodeFailed, [], E1)
     \<and> nlsEncoding opu_example opus_example [1, 2] 100 E2 = Some (- OggOpusEncodeFailed, [], E3)"
proof -
  let ?E = "fst (the (map_option (\<lambda>(r, err, E). (E, r)) (createNlsEncoder opu_example opus_example ENCODER_OPUS 1 16000 NlsEncoder_new)))"
  have c: "createNlsEncoder opu_example opus_example ENCODER_OPUS 1 16000 NlsEncoder_new = Some (Success, None, ?E) \<and> young ?E"
    by (simp add: createNlsEncoder_def OggopusEncoderCreate_def configured_def require_ctls_def opus_example_def Let_def NlsEncoder_new_def
        OggOpusDataEncoder_new_def SetupPadder_def young_def SetSampleRate_def tenth_def)
  from short_call_example [of ?E opu_example opus_example] c obtain E1 where
    1: "nlsEncoding opu_example opus_example [1, 2] 100 ?E = Some (- OggOpusEncodeFailed, [], E1)" "young E1" by blast
  from short_call_example [OF this(2), of opu_example opus_example] obtain E2 where
    2: "nlsEncoding opu_example opus_example [1, 2] 100 E1 = Some (- OggOpusEncodeFailed, [], E2)" "young E2" by blast
  from short_call_example [OF this(2), of opu_example opus_example] obtain E3 where
    3: "nlsEncoding opu_example opus_example [1, 2] 100 E2 = Some (- OggOpusEncodeFailed, [], E3)" by blast
  have "run_opt (nls_step opu_example opus_example) [EncodingOp [1, 2] 100] E1 = Some E2" using 2 by simp
  from short_stream_blocks [OF _ _ _ _ 1(1) this _ _ 3] c 1(1) 3 show ?thesis by auto
qed

end
