(* ===== verification/TextUtils.thy ===== *)
theory TextUtils
  imports Prelude "HOL-Library.Signed_Division"
begin

text \<open>
  The text functions of \<open>utils/text_utils.cpp\<close> that are pure: counting the characters of a UTF-8 text, masking a secret before it is
  logged, splitting, the periods of the timers, the task ids, and the conversions between bytes and samples. What is made of
  the clock, the calendar and \<open>iconv\<close> is in \<open>TextFormat\<close>; the text of libuuid is an argument.
\<close>

section \<open>Counting characters\<close>

definition Utf8Size :: "byte \<Rightarrow> int" where
  "Utf8Size head =
     (let one_mask = drop_bit 7 head AND 1; two_mask = drop_bit 5 head AND 7; three_mask = drop_bit 4 head AND 15;
          four_mask = drop_bit 3 head AND 31; five_mask = drop_bit 2 head AND 63; six_mask = drop_bit 1 head AND 127 in
      if one_mask = 0 then 1
      else if two_mask = 6 then 2
      else if three_mask = 14 then 3
      else if four_mask = 30 then 4
      else if five_mask = 62 then 5
      else if six_mask = 126 then 6
      else 0)"

text \<open>The loop at position \<open>i\<close>, which the loop variable enters one before the next character and then steps over.\<close>

function chars_loop :: "byte list \<Rightarrow> nat \<Rightarrow> int \<Rightarrow> int" where
  "chars_loop s i ret =
     (if i < length s then
        (let len = Utf8Size (s ! i) in
         if len > 6 \<or> len \<le> 0 then ret else chars_loop s (i + nat (len - 1) + 1) (ret + 1))
      else ret)"
  by pat_completeness auto
termination
  by (relation "measure (\<lambda>(s, i, ret). length s - i)") auto

declare chars_loop.simps [simp del]

definition CharsCalculate :: "byte list option \<Rightarrow> int" where
  "CharsCalculate s = (case s of None \<Rightarrow> 0 | Some bs \<Rightarrow> chars_loop (takeWhile (\<lambda>b. b \<noteq> 0) bs) 0 0)"

section \<open>Masking\<close>

text \<open>The text assigned to \<open>buf_str\<close>, \<open>None\<close> when characters are written at or behind the end of the copy.\<close>

definition securityDisposalForLog :: "string \<Rightarrow> string \<Rightarrow> string \<Rightarrow> nat \<Rightarrow> char \<Rightarrow> string option" where
  "securityDisposalForLog buf_in buf_str key step c =
     (let s = c_str buf_in in
      if 0 < length s then
        (case str_find s key 0 of
           None \<Rightarrow> Some s
         | Some pos2 \<Rightarrow>
             (let begin_at = pos2 + length key + 1 in
              if 0 < step \<and> length s < begin_at + step then None
              else Some (take begin_at s @ replicate step c @ drop (begin_at + step) s)))
      else Some buf_str)"

section \<open>Splitting, periods, identifiers\<close>

definition IsEmpty :: "string option \<Rightarrow> bool" where
  "IsEmpty s = (case s of None \<Rightarrow> True | Some s \<Rightarrow> c_str s = [])"

definition split_text :: "string \<Rightarrow> char \<Rightarrow> string list" where
  "split_text s delim = getlines delim [] s"

text \<open>Division in C cuts towards zero.\<close>

definition GetTimevalFromMs :: "int \<Rightarrow> int \<times> int" where
  "GetTimevalFromMs ms = (let tv_sec = ms sdiv 1000 in (tv_sec, (ms - tv_sec * 1000) * 1000))"

definition GetTimespecFromMs :: "int \<Rightarrow> int \<times> int" where
  "GetTimespecFromMs ms = (ms sdiv 1000, (ms smod 1000) * 1000000)"

text \<open>The text of libuuid without its hyphens.\<close>

definition getRandomUuid :: "string \<Rightarrow> string" where
  "getRandomUuid unparsed = filter (\<lambda>c. c \<noteq> CHR ''-'') (c_str unparsed)"

section \<open>Bytes and samples\<close>

text \<open>A sample in a memory of bytes, the low byte first.\<close>

definition short_at :: "byte list \<Rightarrow> nat \<Rightarrow> 16 word" where
  "short_at mem i = push_bit 8 (ucast (mem ! (2 * i + 1))) OR ucast (mem ! (2 * i))"

definition ByteArrayToShortArray :: "byte list \<Rightarrow> 16 word list" where
  "ByteArrayToShortArray bytes = map (short_at bytes) [0 ..< length bytes div 2]"

text \<open>In place: the samples and the bytes are the same memory.\<close>

definition ShortArrayToByteArray :: "nat \<Rightarrow> byte list \<Rightarrow> byte list" where
  "ShortArrayToByteArray len_short mem =
     fold (\<lambda>i m. let low_byte = ucast (short_at m i AND 15); high_byte = ucast (drop_bit 8 (short_at m i) AND 15) in
        m[2 * i := low_byte, 2 * i + 1 := high_byte]) [0 ..< len_short] mem"

section \<open>UTF-8\<close>

text \<open>The encoder of the standard, with the forms of five and six bytes it once had, of which the code counts the first bytes.\<close>

definition utf8_tail :: "nat \<Rightarrow> nat \<Rightarrow> byte list" where
  "utf8_tail k n = map (\<lambda>j. of_nat (128 + n div 64 ^ j mod 64)) (rev [0 ..< k])"

definition utf8 :: "nat \<Rightarrow> byte list" where
  "utf8 n =
     (if n < 0x80 then [of_nat n]
      else if n < 0x800 then of_nat (192 + n div 64) # utf8_tail 1 n
      else if n < 0x10000 then of_nat (224 + n div 64 ^ 2) # utf8_tail 2 n
      else if n < 0x200000 then of_nat (240 + n div 64 ^ 3) # utf8_tail 3 n
      else if n < 0x4000000 then of_nat (248 + n div 64 ^ 4) # utf8_tail 4 n
      else of_nat (252 + n div 64 ^ 5) # utf8_tail 5 n)"

lemma mask_nat: "unat (drop_bit k b AND mask m) = unat b div 2 ^ k mod 2 ^ m" for b :: byte
proof -
  have "unat (take_bit m (drop_bit k b)) = take_bit m (drop_bit k (unat b))" by (simp only: unsigned_take_bit_eq unat_drop_bit_eq)
  then show ?thesis by (simp only: take_bit_eq_mask) (simp add: take_bit_eq_mod drop_bit_eq_div take_bit_eq_mask [symmetric])
qed

lemma mask_eq: "q < 2 ^ m \<Longrightarrow> q < 256 \<Longrightarrow> drop_bit k b AND mask m = of_nat q \<longleftrightarrow> unat b div 2 ^ k mod 2 ^ m = q" for b :: byte
  by (simp add: word_unat_eq_iff mask_nat unat_of_nat)

lemma nat_div_eq: "0 < k \<Longrightarrow> v div k = q \<longleftrightarrow> q * k \<le> v \<and> v < q * k + k" for v :: nat
  using div_nat_eqI [of k q v] times_div_less_eq_dividend [of k v] dividend_less_div_times [of k v] by (auto simp: mult.commute)

lemma Utf8Size_nat:
  "Utf8Size b = (let v = unat b in
     if v < 128 then 1 else if v < 192 then 0 else if v < 224 then 2 else if v < 240 then 3 else if v < 248 then 4
     else if v < 252 then 5 else if v < 254 then 6 else 0)"
proof -
  have v: "unat b < 256" using unsigned_less [of b] by simp
  have m7: "drop_bit 7 b AND 1 = 0 \<longleftrightarrow> unat b div 128 mod 2 = 0" using mask_eq [of 0 1 7 b] by (simp add: mask_eq_exp_minus_1)
  have m5: "drop_bit 5 b AND 7 = 6 \<longleftrightarrow> unat b div 32 mod 8 = 6" using mask_eq [of 6 3 5 b] by (simp add: mask_eq_exp_minus_1)
  have m4: "drop_bit 4 b AND 15 = 14 \<longleftrightarrow> unat b div 16 mod 16 = 14" using mask_eq [of 14 4 4 b] by (simp add: mask_eq_exp_minus_1)
  have m3: "drop_bit 3 b AND 31 = 30 \<longleftrightarrow> unat b div 8 mod 32 = 30" using mask_eq [of 30 5 3 b] by (simp add: mask_eq_exp_minus_1)
  have m2: "drop_bit 2 b AND 63 = 62 \<longleftrightarrow> unat b div 4 mod 64 = 62" using mask_eq [of 62 6 2 b] by (simp add: mask_eq_exp_minus_1)
  have m1: "drop_bit 1 b AND 127 = 126 \<longleftrightarrow> unat b div 2 mod 128 = 126" using mask_eq [of 126 7 1 b] by (simp add: mask_eq_exp_minus_1)
  note m = m7 m5 m4 m3 m2 m1
  define v where "v = unat b"
  have v: "v < 256" using v v_def by simp
  have "v div 128 < 2" "v div 32 < 8" "v div 16 < 16" "v div 8 < 32" "v div 4 < 64" "v div 2 < 128" using v by (simp_all add: less_mult_imp_div_less)
  then have d: "v div 128 mod 2 = 0 \<longleftrightarrow> v < 128" "v div 32 mod 8 = 6 \<longleftrightarrow> 192 \<le> v \<and> v < 224"
    "v div 16 mod 16 = 14 \<longleftrightarrow> 224 \<le> v \<and> v < 240" "v div 8 mod 32 = 30 \<longleftrightarrow> 240 \<le> v \<and> v < 248"
    "v div 4 mod 64 = 62 \<longleftrightarrow> 248 \<le> v \<and> v < 252" "v div 2 mod 128 = 126 \<longleftrightarrow> 252 \<le> v \<and> v < 254"
    by (simp_all add: nat_div_eq)
  consider "v < 128" | "128 \<le> v" "v < 192" | "192 \<le> v" "v < 224" | "224 \<le> v" "v < 240" | "240 \<le> v" "v < 248" | "248 \<le> v" "v < 252"
    | "252 \<le> v" "v < 254" | "254 \<le> v" by linarith
  then show ?thesis unfolding Utf8Size_def Let_def m v_def [symmetric] d by cases auto
qed

text \<open>The first byte of a character gives its length, and no byte of it is the end of the C string.\<close>

lemma unat_byte [simp]: "k < 256 \<Longrightarrow> unat (of_nat k :: byte) = k"
  by (simp add: unat_of_nat)

lemma Utf8Size_of_nat:
  "k < 256 \<Longrightarrow> Utf8Size (of_nat k) = (if k < 128 then 1 else if k < 192 then 0 else if k < 224 then 2 else if k < 240 then 3
     else if k < 248 then 4 else if k < 252 then 5 else if k < 254 then 6 else 0)"
  by (simp only: Utf8Size_nat Let_def unat_byte)

lemma utf8_cases:
  assumes "n < 0x80000000"
  obtains k h where "utf8 n = of_nat h # utf8_tail k n" "h < 256" "n = 0 \<longleftrightarrow> h = 0" "Utf8Size (of_nat h) = int k + 1" "k \<le> 5"
proof -
  consider "n < 0x80" | "0x80 \<le> n" "n < 0x800" | "0x800 \<le> n" "n < 0x10000" | "0x10000 \<le> n" "n < 0x200000" | "0x200000 \<le> n" "n < 0x4000000"
    | "0x4000000 \<le> n" by linarith
  then show ?thesis
  proof cases
    case 1
    then show ?thesis by (intro that [of n 0]) (simp_all add: utf8_def utf8_tail_def Utf8Size_of_nat del: of_nat_add)
  next
    case 2
    then have "n div 64 < 32" by auto
    with 2 show ?thesis by (intro that [of "192 + n div 64" 1]) (simp_all add: utf8_def Utf8Size_of_nat del: of_nat_add)
  next
    case 3
    then have "n div 4096 < 16" by auto
    with 3 show ?thesis by (intro that [of "224 + n div 64 ^ 2" 2]) (simp_all add: utf8_def Utf8Size_of_nat del: of_nat_add)
  next
    case 4
    then have "n div 262144 < 8" by auto
    with 4 show ?thesis by (intro that [of "240 + n div 64 ^ 3" 3]) (simp_all add: utf8_def Utf8Size_of_nat del: of_nat_add)
  next
    case 5
    then have "n div 16777216 < 4" by auto
    with 5 show ?thesis by (intro that [of "248 + n div 64 ^ 4" 4]) (simp_all add: utf8_def Utf8Size_of_nat del: of_nat_add)
  next
    case 6
    then have "n div 1073741824 < 2" using assms by auto
    with 6 show ?thesis by (intro that [of "252 + n div 64 ^ 5" 5]) (simp_all add: utf8_def Utf8Size_of_nat del: of_nat_add)
  qed
qed

lemma length_utf8_tail [simp]: "length (utf8_tail k n) = k"
  by (simp add: utf8_tail_def)

lemma utf8_tail_nonzero: "0 \<notin> set (utf8_tail k n)"
proof -
  have "(of_nat (128 + m mod 64) :: byte) \<noteq> 0" for m
  proof -
    have "m mod 64 < 64" by simp
    then have "unat (of_nat (128 + m mod 64) :: byte) = 128 + m mod 64" by (simp del: of_nat_add)
    then show ?thesis by (metis add_is_0 unsigned_0 zero_neq_numeral)
  qed
  then show ?thesis by (auto simp: utf8_tail_def)
qed

lemma utf8_nonzero: "0 < n \<Longrightarrow> n < 0x80000000 \<Longrightarrow> 0 \<notin> set (utf8 n)"
proof -
  assume n: "0 < n" "n < 0x80000000"
  from utf8_cases [OF n(2)] obtain k h where u: "utf8 n = of_nat h # utf8_tail k n" "h < 256" "n = 0 \<longleftrightarrow> h = 0" by metis
  from u n have "(of_nat h :: byte) \<noteq> 0" by (metis not_gr0 unat_byte unsigned_0)
  with u utf8_tail_nonzero show ?thesis by auto
qed

lemma chars_loop_utf8:
  assumes "\<forall>n \<in> set cps. n < 0x80000000"
  shows "chars_loop (pre @ concat (map utf8 cps) @ rest) (length pre) ret =
    chars_loop (pre @ concat (map utf8 cps) @ rest) (length pre + length (concat (map utf8 cps))) (ret + int (length cps))"
  using assms
proof (induction cps arbitrary: pre ret)
  case (Cons n cps)
  from Cons.prems utf8_cases [of n] obtain k h where u: "utf8 n = of_nat h # utf8_tail k n" "Utf8Size (of_nat h) = int k + 1" "k \<le> 5"
    by (metis list.set_intros(1))
  have "chars_loop (pre @ utf8 n @ r) (length pre) ret = chars_loop (pre @ utf8 n @ r) (length (pre @ utf8 n)) (ret + 1)" for r
    using u by (subst chars_loop.simps) (simp add: nth_append Let_def)
  from this [of "concat (map utf8 cps) @ rest"] Cons.IH [of "pre @ utf8 n" "ret + 1"] Cons.prems show ?case by (simp add: add.assoc)
qed simp

text \<open>The characters of a text that is UTF-8 are counted one by one, from one to six bytes each, and a byte that begins no character
  ends the count, whatever follows it.\<close>

theorem chars_counted:
  assumes "\<forall>n \<in> set cps. 0 < n \<and> n < 0x80000000" and "b \<noteq> 0" and "Utf8Size b = 0"
  shows "CharsCalculate (Some (concat (map utf8 cps))) = int (length cps)
    \<and> CharsCalculate (Some (concat (map utf8 cps) @ b # rest)) = int (length cps)"
proof -
  let ?s = "concat (map utf8 cps)"
  have "0 \<notin> set ?s" using assms(1) utf8_nonzero by auto
  then have t: "takeWhile (\<lambda>b. b \<noteq> 0) (?s @ r) = ?s @ takeWhile (\<lambda>b. b \<noteq> 0) r" for r
    by (intro takeWhile_append2) auto
  have l: "chars_loop (?s @ r) 0 0 = chars_loop (?s @ r) (length ?s) (int (length cps))" for r
    using chars_loop_utf8 [of cps "[]" r 0] assms(1) by simp
  have "chars_loop (?s @ []) (length ?s) x = x" for x by (subst chars_loop.simps) simp
  then have 1: "CharsCalculate (Some ?s) = int (length cps)" using l [of "[]"] t [of "[]"] by (simp only: CharsCalculate_def option.case append_Nil2 takeWhile.simps)
  have "chars_loop (?s @ b # r) (length ?s) x = x" for r x using assms(3) by (subst chars_loop.simps) (simp add: nth_append Let_def)
  then have "CharsCalculate (Some (?s @ b # rest)) = int (length cps)" using l t [of "b # rest"] assms(2)
    by (simp only: CharsCalculate_def option.case takeWhile.simps not_False_eq_True if_True)
  with 1 show ?thesis by simp
qed

lemma bytes_of_no_character: "Utf8Size b = 0 \<longleftrightarrow> 128 \<le> unat b \<and> unat b < 192 \<or> 254 \<le> unat b"
  unfolding Utf8Size_nat Let_def by simp

section \<open>What the log shows\<close>

text \<open>The masked text is the text with the \<open>step\<close> characters that begin one after the key replaced: the character next to the
  key and the rest of the secret behind those stay readable. When the text ends before that, memory behind the copy is overwritten.\<close>

theorem secret_masked:
  assumes "str_find (pre @ key @ x # secret) key 0 = Some (length pre)" and "c_str (pre @ key @ x # secret) = pre @ key @ x # secret"
  shows "securityDisposalForLog (pre @ key @ x # secret) buf_str key step c =
    (if step \<le> length secret then Some (pre @ key @ x # replicate step c @ drop step secret) else None)"
  using assms by (auto simp: securityDisposalForLog_def Let_def)

section \<open>Periods and identifiers\<close>

lemma period_exact:
  "GetTimevalFromMs ms = (s, us) \<Longrightarrow> s * 1000000 + us = ms * 1000 \<and> \<bar>us\<bar> < 1000000 \<and> (0 \<le> ms \<longrightarrow> 0 \<le> us)"
  "GetTimespecFromMs ms = (s, ns) \<Longrightarrow> s * 1000000000 + ns = ms * 1000000 \<and> \<bar>ns\<bar> < 1000000000 \<and> (0 \<le> ms \<longrightarrow> 0 \<le> ns)"
proof -
  have d: "ms - (ms sdiv 1000) * 1000 = ms smod 1000" by (rule minus_sdiv_mult_eq_smod)
  moreover have "\<bar>ms smod 1000\<bar> < 1000 \<and> (0 \<le> ms \<longrightarrow> 0 \<le> ms smod 1000)" by (auto simp: smod_int_alt_def abs_mult sgn_if)
  ultimately show "GetTimevalFromMs ms = (s, us) \<Longrightarrow> s * 1000000 + us = ms * 1000 \<and> \<bar>us\<bar> < 1000000 \<and> (0 \<le> ms \<longrightarrow> 0 \<le> us)"
    "GetTimespecFromMs ms = (s, ns) \<Longrightarrow> s * 1000000000 + ns = ms * 1000000 \<and> \<bar>ns\<bar> < 1000000000 \<and> (0 \<le> ms \<longrightarrow> 0 \<le> ns)"
    by (auto simp: GetTimevalFromMs_def GetTimespecFromMs_def Let_def)
qed

lemma uuid_plain: "CHR ''-'' \<notin> set (getRandomUuid u)"
  by (simp add: getRandomUuid_def)

section \<open>Samples\<close>

text \<open>The conversion to bytes keeps four bits of every byte, the other way all of them.\<close>

lemma low_high:
  "ucast (short_at m i AND 15) = m ! (2 * i) AND 15" "ucast (drop_bit 8 (short_at m i) AND 15) = m ! (2 * i + 1) AND 15"
proof -
  have t: "x AND 15 = take_bit 4 x" for x :: "'x::len word" by (simp add: take_bit_eq_mask mask_eq_exp_minus_1)
  show "ucast (short_at m i AND 15) = m ! (2 * i) AND 15" unfolding t
    by (rule bit_word_eqI) (auto simp: short_at_def bit_simps dest: bit_imp_le_length)
  show "ucast (drop_bit 8 (short_at m i) AND 15) = m ! (2 * i + 1) AND 15" unfolding t
    by (rule bit_word_eqI) (auto simp: short_at_def bit_simps dest: bit_imp_le_length)
qed

lemma short_bytes_lossy:
  assumes "2 * n \<le> length mem"
  shows "ShortArrayToByteArray n mem = map (\<lambda>b. b AND 15) (take (2 * n) mem) @ drop (2 * n) mem"
  using assms
proof (induction n)
  case 0
  then show ?case by (simp add: ShortArrayToByteArray_def)
next
  case (Suc n)
  let ?m = "map (\<lambda>b. b AND 15) (take (2 * n) mem) @ drop (2 * n) mem"
  have i: "2 * n + 2 \<le> i \<Longrightarrow> Suc (Suc (i - 2)) = i" for i by simp
  have "ShortArrayToByteArray (Suc n) mem = (?m[2 * n := ?m ! (2 * n) AND 15])[2 * n + 1 := ?m ! (2 * n + 1) AND 15]"
    using Suc by (simp add: ShortArrayToByteArray_def low_high Let_def)
  also have "\<dots> = map (\<lambda>b. b AND 15) (take (2 * Suc n) mem) @ drop (2 * Suc n) mem"
    using Suc.prems by (intro nth_equalityI) (auto simp: nth_append nth_list_update min_def le_Suc_eq i)
  finally show ?case .
qed

section \<open>Examples\<close>

lemma chars_counted_witness:
  "CharsCalculate (Some (concat (map utf8 [65, 0x4F60, 0x1F600]))) = 3
    \<and> CharsCalculate (Some (concat (map utf8 [65, 0x4F60, 0x1F600]) @ 0xBF # [66])) = 3"
  using chars_counted [of "[65, 0x4F60, 0x1F600]" "0xBF" "[66]"] by (simp add: bytes_of_no_character)

lemma secret_masked_witness:
  "securityDisposalForLog ''Token:abcdef'' [] ''Token:'' 4 CHR ''Y'' = Some ''Token:aYYYYf''
    \<and> securityDisposalForLog ''Token:abc'' [] ''Token:'' 4 CHR ''Y'' = None"
  using secret_masked [of "[]" "''Token:''" "CHR ''a''" "''bcdef''" "[]" 4 "CHR ''Y''"]
    secret_masked [of "[]" "''Token:''" "CHR ''a''" "''bc''" "[]" 4 "CHR ''Y''"]
  by (simp add: str_find_def c_str_def numeral_eq_Suc)

end
