(* ===== verification/FileTrans.thy ===== *)
theory FileTrans
  imports TokenRequest
begin

text \<open>
  Transcription of files: \<open>token/src/FileTrans.cpp\<close> with the requests of \<open>ServiceRequest.cpp\<close>. A task is submitted, and then the service is
  asked for its result until it says anything but that the task is running. The answers of the service are those of a library for every
  call, so that they can change between calls.
\<close>

section \<open>Requests\<close>

record ServiceRequest =
  sv_content :: string
  sv_contentSize :: nat
  sv_params :: params
  sv_product :: string
  sv_resourcePath :: string
  sv_version :: string
  sv_action :: string
  sv_task :: string
  sv_taskId :: string

definition ServiceRequest_new :: "string \<Rightarrow> string \<Rightarrow> ServiceRequest" where
  "ServiceRequest_new product version = \<lparr>sv_content = [], sv_contentSize = 0, sv_params = [], sv_product = product,
     sv_resourcePath = ''/'', sv_version = version, sv_action = [], sv_task = [], sv_taskId = []\<rparr>"

definition setContent :: "string \<Rightarrow> ServiceRequest \<Rightarrow> ServiceRequest" where
  "setContent data s = s\<lparr>sv_content := data, sv_contentSize := length data\<rparr>"

definition hasContent :: "ServiceRequest \<Rightarrow> bool" where
  "hasContent s \<longleftrightarrow> sv_contentSize s \<noteq> 0"

definition setTask :: "string \<Rightarrow> ServiceRequest \<Rightarrow> ServiceRequest" where
  "setTask t s = setContent (''Task='' @ t) (s\<lparr>sv_task := t\<rparr>)"

definition setParameter :: "string \<Rightarrow> string \<Rightarrow> ServiceRequest \<Rightarrow> ServiceRequest" where
  "setParameter k v s = s\<lparr>sv_params := put k v (sv_params s)\<rparr>"

definition addParameter :: "string \<Rightarrow> string \<Rightarrow> ServiceRequest \<Rightarrow> ServiceRequest" where
  "addParameter = setParameter"

text \<open>\<open>at\<close> throws for a name that is not there.\<close>

definition parameter :: "string \<Rightarrow> ServiceRequest \<Rightarrow> string option" where
  "parameter k s = map_get str_less k (sv_params s)"

definition removeParameter :: "string \<Rightarrow> ServiceRequest \<Rightarrow> ServiceRequest" where
  "removeParameter k s = s\<lparr>sv_params := map_erase str_less k (sv_params s)\<rparr>"

text \<open>The copies: the constructor leaves the action and the task out, the assignment the names too.\<close>

definition ServiceRequest_copy :: "ServiceRequest \<Rightarrow> ServiceRequest" where
  "ServiceRequest_copy r = setContent (sv_content r) ((ServiceRequest_new (sv_product r) (sv_version r))
     \<lparr>sv_params := sv_params r, sv_resourcePath := sv_resourcePath r\<rparr>)"

definition ServiceRequest_assign :: "ServiceRequest \<Rightarrow> ServiceRequest \<Rightarrow> ServiceRequest" where
  "ServiceRequest_assign r s = setContent (sv_content r) (s\<lparr>sv_params := sv_params r\<rparr>)"

text \<open>What the client reads of a request.\<close>

definition common_request :: "bool \<Rightarrow> string \<Rightarrow> HttpMethod \<Rightarrow> ServiceRequest \<Rightarrow> CommonRequest" where
  "common_request pattern domain m s = \<lparr>cq_fileTrans = pattern, cq_domain = domain, cq_httpMethod = m, cq_action = sv_action s,
     cq_version = sv_version s, cq_resourcePath = sv_resourcePath s, cq_task = sv_task s, cq_taskId = sv_taskId s,
     cq_content = sv_content s\<rparr>"

section \<open>State\<close>

datatype FileTransEvent = TaskUnknown | TransFailed | TransCompleted

record resultResponse =
  rr_taskId :: string
  rr_event :: FileTransEvent
  rr_statusCode :: int
  rr_errorMsg :: string
  rr_result :: string

text \<open>\<open>client\<close> is the client by its credentials and region.\<close>

record resultRequest =
  rq_client :: "Credentials \<times> string"
  rq_taskId :: string
  rq_domain :: string
  rq_serverVersion :: string

text \<open>\<open>ft_calls\<close> records the calls of the event handler, by the response it finds.\<close>

record FileTrans =
  ft_accessKeySecret :: string
  ft_accessKeyId :: string
  ft_stsToken :: string
  ft_domain :: string
  ft_serverVersion :: string
  ft_regionId :: string
  ft_action :: string
  ft_appKey :: string
  ft_fileLink :: string
  ft_outputFormat :: string
  ft_customParam :: string
  ft_hasHandler :: bool
  ft_request :: "resultRequest option"
  ft_response :: resultResponse
  ft_calls :: "resultResponse list"

definition FileTrans_new :: FileTrans where
  "FileTrans_new = \<lparr>ft_accessKeySecret = [], ft_accessKeyId = [], ft_stsToken = [], ft_domain = ''filetrans.cn-shanghai.aliyuncs.com'',
     ft_serverVersion = ''2018-08-17'', ft_regionId = [], ft_action = ''SubmitTask'', ft_appKey = [], ft_fileLink = [],
     ft_outputFormat = ''UTF-8'', ft_customParam = [], ft_hasHandler = False, ft_request = None,
     ft_response = \<lparr>rr_taskId = [], rr_event = TaskUnknown, rr_statusCode = 0, rr_errorMsg = [], rr_result = []\<rparr>, ft_calls = []\<rparr>"

definition with_response :: "(resultResponse \<Rightarrow> resultResponse) \<Rightarrow> FileTrans \<Rightarrow> FileTrans" where
  "with_response f F = F\<lparr>ft_response := f (ft_response F)\<rparr>"

definition failed_with :: "string \<Rightarrow> FileTrans \<Rightarrow> FileTrans" where
  "failed_with msg = with_response (\<lambda>r. r\<lparr>rr_errorMsg := msg, rr_event := TransFailed\<rparr>)"

text \<open>What the program sets, one setter for each; the parameter of the handler is the program's own.\<close>

datatype file_setting =
    KeySecret string | AccessKeyId string | StsToken string | Domain string | ServerVersion string | AppKey string | FileLinkUrl string
  | RegionId string | TaskAction string | CustomParam string | OutputFormat string | EventListener bool

fun file_set :: "file_setting \<Rightarrow> FileTrans \<Rightarrow> FileTrans" where
  "file_set (KeySecret s) F = F\<lparr>ft_accessKeySecret := s\<rparr>"
| "file_set (AccessKeyId s) F = F\<lparr>ft_accessKeyId := s\<rparr>"
| "file_set (StsToken s) F = F\<lparr>ft_stsToken := s\<rparr>"
| "file_set (Domain s) F = F\<lparr>ft_domain := s\<rparr>"
| "file_set (ServerVersion s) F = F\<lparr>ft_serverVersion := s\<rparr>"
| "file_set (AppKey s) F = F\<lparr>ft_appKey := s\<rparr>"
| "file_set (FileLinkUrl s) F = F\<lparr>ft_fileLink := s\<rparr>"
| "file_set (RegionId s) F = F\<lparr>ft_regionId := s\<rparr>"
| "file_set (TaskAction s) F = F\<lparr>ft_action := s\<rparr>"
| "file_set (CustomParam s) F = F\<lparr>ft_customParam := s\<rparr>"
| "file_set (OutputFormat s) F = F\<lparr>ft_outputFormat := s\<rparr>"
| "file_set (EventListener b) F = F\<lparr>ft_hasHandler := b\<rparr>"

definition ft_paramCheck :: "FileTrans \<Rightarrow> int \<times> FileTrans" where
  "ft_paramCheck F =
     (if ft_accessKeySecret F = [] then (- InvalidAkSecret, failed_with ''AccessKeySecret is empty.'' F)
      else if ft_accessKeyId F = [] then (- InvalidAkId, failed_with ''AccessKeyId is empty.'' F)
      else if ft_appKey F = [] then (- InvalidAppKey, failed_with ''AppKey is empty.'' F)
      else if ft_fileLink F = [] then (- InvalidFileLink, failed_with ''FileLink is empty.'' F)
      else if ft_domain F = [] then (- InvalidDomain, failed_with ''Domain is empty.'' F)
      else if ft_serverVersion F = [] then (- InvalidServerVersion, failed_with ''ServerVersion is empty.'' F)
      else if ft_action F = [] then (- InvalidAction, failed_with ''Action is empty.'' F)
      else (Success, F))"

text \<open>The library: \<open>tr_at k\<close> serves the call \<open>k\<close>. \<open>tr_asCString\<close> throws for anything but a text; \<open>tr_put\<close> sets a text member.\<close>

record 'j trans_lib =
  tr_at :: "nat \<Rightarrow> 'j token_lib"
  tr_json :: "'j jsonlib"
  tr_asUInt :: "'j \<Rightarrow> int option"
  tr_asCString :: "'j \<Rightarrow> string option"
  tr_null :: 'j
  tr_put :: "string \<Rightarrow> string \<Rightarrow> 'j \<Rightarrow> 'j"
  tr_write :: "'j \<Rightarrow> string"

text \<open>The member \<open>StatusCode\<close>: an exception, nothing, or a number.\<close>

datatype status = StatusThrows | NoStatus | Status int

definition status_code :: "'j trans_lib \<Rightarrow> 'j \<Rightarrow> status" where
  "status_code L v =
     (case jl_get (tr_json L) v ''StatusCode'' of
        None \<Rightarrow> StatusThrows
      | Some w \<Rightarrow>
          if jl_isNull (tr_json L) w then NoStatus
          else (case tr_asUInt L w of None \<Rightarrow> StatusThrows | Some c \<Rightarrow> Status c))"

definition c_string :: "'j trans_lib \<Rightarrow> 'j \<Rightarrow> string \<Rightarrow> string option" where
  "c_string L v k = Option.bind (jl_get (tr_json L) v k) (tr_asCString L)"

definition running_code :: "int \<Rightarrow> bool" where
  "running_code c \<longleftrightarrow> c = 21050001 \<or> c = 21050002"

definition done_code :: "int \<Rightarrow> bool" where
  "done_code c \<longleftrightarrow> c = 21050000 \<or> c = 21050003"

section \<open>Asking for the result\<close>

definition result_request :: "resultRequest \<Rightarrow> CommonRequest" where
  "result_request p = common_request True (rq_domain p) HttpMethod.Get
     ((ServiceRequest_new [] [])\<lparr>sv_version := rq_serverVersion p, sv_action := ''GetTaskResult'', sv_taskId := rq_taskId p\<rparr>)"

text \<open>One round of the loop: it goes on, or ends with a result code or with an exception. \<open>code\<close> is \<open>statusCode\<close> from the round before, and
  in the first one whatever the memory held.\<close>

datatype round = Again int | Ends "(int \<times> FileTrans) option"

definition result_round :: "'j trans_lib \<Rightarrow> resultRequest \<Rightarrow> nat \<Rightarrow> int \<Rightarrow> FileTrans \<Rightarrow> round" where
  "result_round L p k code F =
     (case AttemptRequest (tr_at L k) True (snd (rq_client p)) (fst (rq_client p)) (result_request p) of
        Throws \<Rightarrow> Ends None
      | Failed e \<Rightarrow> Ends (Some (- ClientRequestFaild, failed_with e F))
      | Result response \<Rightarrow>
          (case jl_parse (tr_json L) (rs_body response) of
             None \<Rightarrow> Ends (Some (- JsonParseFailed, failed_with (''Json any failed: '' @ rs_body response) F))
           | Some v \<Rightarrow>
               (case status_code L v of
                  StatusThrows \<Rightarrow> Ends None
                | NoStatus \<Rightarrow>
                    Ends (Some (- ErrorStatusCode, with_response (\<lambda>r. r\<lparr>rr_statusCode := code\<rparr>) (failed_with (rs_body response) F)))
                | Status c \<Rightarrow>
                    if running_code c then Again c
                    else if done_code c then
                      Ends (Some (Success, with_response (\<lambda>r. r\<lparr>rr_result := rs_body response, rr_statusCode := c, rr_event := TransCompleted\<rparr>) F))
                    else
                      (case c_string L v ''StatusText'' of
                         None \<Rightarrow> Ends None
                       | Some t \<Rightarrow> Ends (Some (- ErrorStatusCode, with_response (\<lambda>r. r\<lparr>rr_statusCode := c\<rparr>) (failed_with t F)))))))"

text \<open>The outer \<open>None\<close> is a loop that never ends, the inner one an exception.\<close>

partial_function (option) result_loop ::
  "'j trans_lib \<Rightarrow> resultRequest \<Rightarrow> nat \<Rightarrow> int \<Rightarrow> FileTrans \<Rightarrow> (int \<times> FileTrans) option option" where
  "result_loop L p k code F =
     (case result_round L p k code F of Again c \<Rightarrow> result_loop L p (Suc k) c F | Ends r \<Rightarrow> Some r)"

definition call_handler :: "FileTrans \<Rightarrow> FileTrans" where
  "call_handler F = (if ft_hasHandler F then F\<lparr>ft_calls := ft_calls F @ [ft_response F]\<rparr> else F)"

definition applyResultRequest ::
  "'j trans_lib \<Rightarrow> resultRequest \<Rightarrow> nat \<Rightarrow> int \<Rightarrow> FileTrans \<Rightarrow> (int \<times> FileTrans) option option" where
  "applyResultRequest L p k memory F =
     map_option (map_option (\<lambda>(ret, F1). (ret, call_handler F1)))
       (result_loop L p k memory (with_response (\<lambda>r. r\<lparr>rr_taskId := rq_taskId p\<rparr>) F))"

definition applyResultRequestThread :: "'j trans_lib \<Rightarrow> nat \<Rightarrow> int \<Rightarrow> FileTrans \<Rightarrow> (int \<times> FileTrans) option option" where
  "applyResultRequestThread L k memory F =
     (case ft_request F of None \<Rightarrow> Some None | Some p \<Rightarrow> applyResultRequest L p k memory F)"

section \<open>Submitting\<close>

text \<open>The task: the members the program gave, with the key and the link. \<open>Inl\<close> is the error code.\<close>

definition task_root :: "'j trans_lib \<Rightarrow> FileTrans \<Rightarrow> int + 'j" where
  "task_root L F =
     (if ft_customParam F = [] then Inr (tr_null L)
      else
        (case jl_parse (tr_json L) (c_str (ft_customParam F)) of
           None \<Rightarrow> Inl (- JsonParseFailed)
         | Some root \<Rightarrow> if jl_isObject (tr_json L) root then Inr root else Inl (- JsonObjectError)))"

definition task_request :: "'j trans_lib \<Rightarrow> 'j \<Rightarrow> FileTrans \<Rightarrow> CommonRequest" where
  "task_request L root F = common_request True (ft_domain F) HttpMethod.Post
     (setTask (tr_write L (tr_put L ''file_link'' (c_str (ft_fileLink F)) (tr_put L ''app_key'' (c_str (ft_appKey F)) root)))
       ((ServiceRequest_new [] [])\<lparr>sv_version := ft_serverVersion F, sv_action := ''SubmitTask''\<rparr>))"

definition client_of :: "FileTrans \<Rightarrow> Credentials \<times> string" where
  "client_of F = (\<lparr>cr_accessKeyId = ft_accessKeyId F, cr_accessKeySecret = ft_accessKeySecret F, cr_stsToken = ft_stsToken F\<rparr>,
     if ft_regionId F = [] then ''cn-shanghai'' else ft_regionId F)"

text \<open>The answer to the submission: an exception, an error, or the id of the task.\<close>

definition submitted :: "'j trans_lib \<Rightarrow> HttpResponse attempt \<Rightarrow> FileTrans \<Rightarrow> ((int \<times> FileTrans) + string) option" where
  "submitted L outcome F =
     (case outcome of
        Throws \<Rightarrow> None
      | Failed e \<Rightarrow> Some (Inl (- ClientRequestFaild, failed_with e F))
      | Result response \<Rightarrow>
          (case jl_parse (tr_json L) (rs_body response) of
             None \<Rightarrow> Some (Inl (- JsonParseFailed, with_response (\<lambda>r. r\<lparr>rr_errorMsg := ''Json any failed: '' @ rs_body response\<rparr>) F))
           | Some v \<Rightarrow>
               (case status_code L v of
                  StatusThrows \<Rightarrow> None
                | NoStatus \<Rightarrow> Some (Inl (- JsonParseFailed, failed_with ''Json anly failed.'' F))
                | Status c \<Rightarrow>
                    if done_code c then map_option Inr (c_string L v ''TaskId'')
                    else
                      map_option (\<lambda>t. Inl (- ErrorStatusCode, with_response (\<lambda>r. r\<lparr>rr_statusCode := c\<rparr>) (failed_with t F)))
                        (c_string L v ''StatusText''))))"

definition applyFileTrans :: "'j trans_lib \<Rightarrow> int \<Rightarrow> bool \<Rightarrow> FileTrans \<Rightarrow> (int \<times> FileTrans) option option" where
  "applyFileTrans L memory sync F0 =
     (let (retCode, F) = ft_paramCheck F0 in
      if retCode < 0 then Some (Some (retCode, F))
      else
        (case task_root L F of
           Inl err \<Rightarrow> Some (Some (err, F))
         | Inr root \<Rightarrow>
             (case submitted L (AttemptRequest (tr_at L 0) True (snd (client_of F)) (fst (client_of F)) (task_request L root F)) F of
                None \<Rightarrow> Some None
              | Some (Inl r) \<Rightarrow> Some (Some r)
              | Some (Inr taskId) \<Rightarrow>
                  (let p = \<lparr>rq_client = client_of F, rq_taskId = taskId, rq_domain = ft_domain F, rq_serverVersion = ft_serverVersion F\<rparr>;
                       F1 = F\<lparr>ft_request := Some p\<rparr> in
                   if sync then applyResultRequest L p 1 memory F1 else Some (Some (Success, F1))))))"

text \<open>What the program reads afterwards: the texts are converted in place, every time they are read.\<close>

definition getErrorMsg :: "(string \<Rightarrow> string option) \<Rightarrow> FileTrans \<Rightarrow> (string \<times> FileTrans) option" where
  "getErrorMsg gbk F =
     (if ft_outputFormat F = ''GBK'' then
        map_option (\<lambda>s. (s, with_response (\<lambda>r. r\<lparr>rr_errorMsg := s\<rparr>) F)) (gbk (rr_errorMsg (ft_response F)))
      else Some (rr_errorMsg (ft_response F), F))"

definition getResult :: "(string \<Rightarrow> string option) \<Rightarrow> FileTrans \<Rightarrow> (string \<times> FileTrans) option" where
  "getResult gbk F =
     (if ft_outputFormat F = ''GBK'' then
        map_option (\<lambda>s. (s, with_response (\<lambda>r. r\<lparr>rr_result := s\<rparr>) F)) (gbk (rr_result (ft_response F)))
      else Some (rr_result (ft_response F), F))"

section \<open>The loop ends with the first final answer\<close>

text \<open>The status of an answer that keeps the loop going.\<close>

definition running_answer :: "'j trans_lib \<Rightarrow> resultRequest \<Rightarrow> nat \<Rightarrow> int option" where
  "running_answer L p k =
     (case AttemptRequest (tr_at L k) True (snd (rq_client p)) (fst (rq_client p)) (result_request p) of
        Result response \<Rightarrow>
          (case jl_parse (tr_json L) (rs_body response) of
             None \<Rightarrow> None
           | Some v \<Rightarrow> (case status_code L v of Status c \<Rightarrow> if running_code c then Some c else None | _ \<Rightarrow> None))
      | _ \<Rightarrow> None)"

lemma round_again: "result_round L p k code F = Again c \<longleftrightarrow> running_answer L p k = Some c"
  by (auto simp: result_round_def running_answer_def split: attempt.splits option.splits status.splits)

lemma round_ends: "running_answer L p k = None \<Longrightarrow> \<exists>r. result_round L p k code F = Ends r"
  using round_again [of L p k code F] by (cases "result_round L p k code F") auto

definition code_before :: "'j trans_lib \<Rightarrow> resultRequest \<Rightarrow> nat \<Rightarrow> nat \<Rightarrow> int \<Rightarrow> int" where
  "code_before L p k n memory = (if n = 0 then memory else the (running_answer L p (k + n - 1)))"

lemma loop_until:
  assumes "\<forall>i < n. running_answer L p (k + i) \<noteq> None"
  shows "result_loop L p k code F = result_loop L p (k + n) (code_before L p k n code) F"
  using assms
proof (induction n)
  case 0
  then show ?case by (simp add: code_before_def)
next
  case (Suc n)
  from Suc.prems obtain c where c: "running_answer L p (k + n) = Some c" by auto
  then have "result_round L p (k + n) (code_before L p k n code) F = Again c" by (simp add: round_again)
  then have "result_loop L p (k + n) (code_before L p k n code) F = result_loop L p (k + Suc n) c F" by (subst result_loop.simps) simp
  with Suc c show ?case by (simp add: code_before_def)
qed

text \<open>A loop that ends has found an answer that is not of the running kind.\<close>

lemma loop_found:
  fixes L :: "'j trans_lib" and r :: "(int \<times> FileTrans) option"
  assumes "result_loop L p k code F = Some r"
  shows "\<exists>n. running_answer L p (k + n) = None"
proof (rule result_loop.raw_induct [OF _ assms])
  fix rec p k code F and L :: "'j trans_lib" and r :: "(int \<times> FileTrans) option"
  assume rec: "\<And>(L :: 'j trans_lib) p k code F y. rec L p k code F = Some y \<Longrightarrow> \<exists>n. running_answer L p (k + n) = None"
    and r: "(case result_round L p k code F of Again c \<Rightarrow> rec L p (Suc k) c F | Ends x \<Rightarrow> Some x) = Some r"
  show "\<exists>n. running_answer L p (k + n) = None"
  proof (cases "result_round L p k code F")
    case (Again c)
    with r rec have "\<exists>n. running_answer L p (Suc k + n) = None" by fastforce
    then show ?thesis by (metis add_Suc_shift)
  next
    case (Ends x)
    then have "running_answer L p (k + 0) = None" using round_again [of L p k code F] by (cases "running_answer L p k") auto
    then show ?thesis by blast
  qed
qed

lemma first_final:
  assumes "\<forall>i < n. running_answer L p (k + i) \<noteq> None" and "running_answer L p (k + n) = None"
  shows "\<exists>r. result_round L p (k + n) (code_before L p k n memory) (with_response (\<lambda>r. r\<lparr>rr_taskId := rq_taskId p\<rparr>) F) = Ends r
    \<and> applyResultRequest L p k memory F = Some (map_option (\<lambda>(ret, F1). (ret, call_handler F1)) r)"
proof -
  let ?F = "with_response (\<lambda>r. r\<lparr>rr_taskId := rq_taskId p\<rparr>) F"
  from round_ends [OF assms(2)] obtain r where r: "result_round L p (k + n) (code_before L p k n memory) ?F = Ends r" by blast
  then have "result_loop L p k memory ?F = Some r" using loop_until [OF assms(1), of memory ?F] by (simp add: result_loop.simps)
  with r show ?thesis by (simp add: applyResultRequest_def)
qed

text \<open>C28. Asking for the result of a task ends exactly when some answer is not of the kind that says that the task waits or runs; it ends
  with the first such answer, whose outcome it reports together with the id of the task, and calls the handler of the program then,
  once, with that outcome. A service that says for ever that the task runs is asked for ever.\<close>

theorem result_of_first_final_answer:
  "applyResultRequest L p k memory F =
     (if \<exists>i. running_answer L p (k + i) = None then
        (let n = (LEAST i. running_answer L p (k + i) = None) in
         case result_round L p (k + n) (code_before L p k n memory) (with_response (\<lambda>r. r\<lparr>rr_taskId := rq_taskId p\<rparr>) F) of
           Ends r \<Rightarrow> Some (map_option (\<lambda>(ret, F1). (ret, call_handler F1)) r))
      else None)"
proof (cases "\<exists>i. running_answer L p (k + i) = None")
  case True
  define n where "n = (LEAST i. running_answer L p (k + i) = None)"
  have "running_answer L p (k + n) = None" "\<forall>i < n. running_answer L p (k + i) \<noteq> None"
    unfolding n_def using LeastI_ex [OF True] not_less_Least by blast+
  from first_final [OF this(2,1), of memory F] True show ?thesis unfolding n_def [symmetric] by auto
next
  case False
  then have "result_loop L p k memory G = None" for G using loop_found [of L p k memory G] by (cases "result_loop L p k memory G") auto
  then show ?thesis unfolding if_not_P [OF False] by (simp add: applyResultRequest_def)
qed

section \<open>What is reported\<close>

text \<open>The outcome, its event and the call of the handler agree when the loop ends.\<close>

lemma round_report:
  assumes "result_round L p k code F = Ends (Some (ret, F1))"
  shows "(ret = Success \<longleftrightarrow> rr_event (ft_response F1) = TransCompleted) \<and> rr_taskId (ft_response F1) = rr_taskId (ft_response F)
    \<and> ft_calls F1 = ft_calls F \<and> ft_hasHandler F1 = ft_hasHandler F"
  using assms by (auto simp: result_round_def failed_with_def with_response_def split: attempt.splits option.splits status.splits if_splits)

text \<open>Not so when the submission fails: an answer that is not JSON leaves the event of the task before.\<close>

lemma stale_event:
  assumes "ft_paramCheck F = (Success, F)" and "task_root L F = Inr root"
    and "AttemptRequest (tr_at L 0) True (snd (client_of F)) (fst (client_of F)) (task_request L root F) = Result response"
    and "jl_parse (tr_json L) (rs_body response) = None"
  shows "\<exists>F1. applyFileTrans L memory sync F = Some (Some (- JsonParseFailed, F1))
    \<and> rr_event (ft_response F1) = rr_event (ft_response F) \<and> ft_calls F1 = ft_calls F"
  using assms by (simp add: applyFileTrans_def submitted_def with_response_def)

text \<open>An answer without a status reports the status of the answer before, and the first one a value nobody set.\<close>

lemma status_from_memory:
  assumes "AttemptRequest (tr_at L k) True (snd (rq_client p)) (fst (rq_client p)) (result_request p) = Result response"
    and "jl_parse (tr_json L) (rs_body response) = Some v" and "status_code L v = NoStatus"
  shows "\<exists>F1. applyResultRequest L p k memory F = Some (Some (- ErrorStatusCode, F1)) \<and> rr_statusCode (ft_response F1) = memory"
  using assms by (simp add: applyResultRequest_def result_loop.simps result_round_def with_response_def failed_with_def call_handler_def)

lemma read_twice:
  assumes "ft_outputFormat F = ''GBK''" and "getErrorMsg gbk F = Some (s, F1)" and "getErrorMsg gbk F1 = Some (s1, F2)"
  shows "gbk (rr_errorMsg (ft_response F)) = Some s \<and> gbk s = Some s1"
  using assms by (auto simp: getErrorMsg_def with_response_def)

lemma copies_forget: "sv_action (ServiceRequest_copy r) = [] \<and> sv_action (ServiceRequest_assign r s) = sv_action s"
  by (simp add: ServiceRequest_copy_def ServiceRequest_assign_def ServiceRequest_new_def setContent_def)

text \<open>What has to be set before a task is submitted, and in which order does not matter.\<close>

lemma settings_checked:
  "fst (ft_paramCheck (fold file_set [KeySecret k, AccessKeyId i, AppKey a, FileLinkUrl l] FileTrans_new)) = Success \<longleftrightarrow>
     k \<noteq> [] \<and> i \<noteq> [] \<and> a \<noteq> [] \<and> l \<noteq> []"
  by (simp add: ft_paramCheck_def FileTrans_new_def failed_with_def with_response_def)

lemma get_erased: "map_get lt k (map_erase lt k m) = None"
  by (induction m) (auto simp: map_erase_def)

lemma parameter_set:
  assumes "ordered str_less (sv_params s)"
  shows "parameter k (setParameter k v s) = Some v \<and> parameter k (removeParameter k s) = None
    \<and> ordered str_less (sv_params (setParameter k v s))"
  using assms string_map.get_put_same [of "sv_params s" k k v] string_map.put_ordered [of "sv_params s" k v]
  by (simp add: parameter_def setParameter_def removeParameter_def put_def get_erased same_key_def str_less_irrefl)

section \<open>Examples\<close>

text \<open>A service that says twice that the task runs and then that it is done; the JSON value of a text is the text.\<close>

definition trans_example :: "json_value trans_lib" where
  "trans_example = \<lparr>tr_at = (\<lambda>k. token_lib_example\<lparr>tl_send := (\<lambda>r. Some \<lparr>rs_statusCode = 200, rs_body = (if k < 3 then ''run'' else ''done'')\<rparr>)\<rparr>),
     tr_json = (json_example None)\<lparr>jl_parse := (\<lambda>s. Some (JString s)), jl_get := (\<lambda>v k. Some v), jl_isNull := (\<lambda>v. False)\<rparr>,
     tr_asUInt = (\<lambda>v. Some (if v = JString ''run'' then 21050001 else 21050000)), tr_asCString = (\<lambda>v. Some ''id''),
     tr_null = JNull, tr_put = (\<lambda>k v j. j), tr_write = (\<lambda>j. ''{}'')\<rparr>"

definition result_request_example :: resultRequest where
  "result_request_example = \<lparr>rq_client = (cred_example, ''cn-shanghai''), rq_taskId = ''id'', rq_domain = ''d'', rq_serverVersion = ''v''\<rparr>"

lemma trans_example_attempt:
  "AttemptRequest (tr_at trans_example k) True (snd (rq_client result_request_example)) (fst (rq_client result_request_example))
     (result_request result_request_example) = Result \<lparr>rs_statusCode = 200, rs_body = (if k < 3 then ''run'' else ''done'')\<rparr>"
  by (simp add: AttemptRequest_def buildHttpRequest_def buildFileTransHttpRequest_def result_request_def common_request_def ServiceRequest_new_def
      trans_example_def hasResponseError_def Let_def)

lemma trans_example_json:
  "jl_parse (tr_json trans_example) s = Some (JString s)"
  "status_code trans_example (JString s) = Status (if s = ''run'' then 21050001 else 21050000)"
  by (simp_all add: trans_example_def status_code_def)

lemma trans_example_running:
  "running_answer trans_example result_request_example k = (if k < 3 then Some 21050001 else None)"
  unfolding running_answer_def trans_example_attempt by (simp add: trans_example_json running_code_def)

lemma trans_example_result:
  "applyResultRequest trans_example result_request_example 1 0 FileTrans_new =
     Some (Some (Success, FileTrans_new\<lparr>ft_response := \<lparr>rr_taskId = ''id'', rr_event = TransCompleted, rr_statusCode = 21050000,
       rr_errorMsg = [], rr_result = ''done''\<rparr>\<rparr>))"
proof -
  let ?F = "with_response (\<lambda>r. r\<lparr>rr_taskId := rq_taskId result_request_example\<rparr>) FileTrans_new"
  have 1: "result_round trans_example result_request_example 3 c ?F =
      Ends (Some (Success, with_response (\<lambda>r. r\<lparr>rr_result := ''done'', rr_statusCode := 21050000, rr_event := TransCompleted\<rparr>) ?F))" for c
    unfolding result_round_def trans_example_attempt by (simp add: trans_example_json running_code_def done_code_def)
  have "\<forall>i < 2. running_answer trans_example result_request_example (1 + i) \<noteq> None"
    "running_answer trans_example result_request_example (1 + 2) = None"
    by (simp_all add: trans_example_running)
  moreover have "1 + 2 = (3 :: nat)" by simp
  ultimately obtain r where "result_round trans_example result_request_example 3 (code_before trans_example result_request_example 1 2 0) ?F = Ends r"
    "applyResultRequest trans_example result_request_example 1 0 FileTrans_new = Some (map_option (\<lambda>(ret, F1). (ret, call_handler F1)) r)"
    using first_final [of 2 trans_example result_request_example 1 0 FileTrans_new] by metis
  with 1
  show ?thesis by (auto simp: with_response_def FileTrans_new_def result_request_example_def call_handler_def)
qed

end
