(* ===== verification/NodeProcess.thy ===== *)
theory NodeProcess
  imports RequestCommands
begin

text \<open>
  The record a node keeps of its work (\<open>NodeProcess\<close>, \<open>updateNodeProcess\<close> and \<open>updateNodeProcess4*\<close> of
  \<open>transport/connectNode.cpp\<close>, built with \<open>ENABLE_REQUEST_RECORDING\<close>), and the report made of it: the members added to the
  message of a \<open>TaskFailed\<close> or \<open>Close\<close> event, and the dump a program can ask for. A reading of the clock is an argument; the
  calendar (\<open>GetTimeFromMs\<close>) and jsoncpp are parameters.
\<close>

section \<open>The record\<close>

record NodeProcess =
  pr_create :: "64 word"
  pr_start :: "64 word"
  pr_started :: "64 word"
  pr_stop :: "64 word"
  pr_cancel :: "64 word"
  pr_first_binary :: "64 word"
  pr_last_send :: "64 word"
  pr_last_ctrl :: "64 word"
  pr_failed :: "64 word"
  pr_completed :: "64 word"
  pr_closed :: "64 word"
  pr_last_op :: "64 word"
  pr_last_status :: ConnectStatus
  pr_recording_bytes :: "64 word"
  pr_send_count :: "64 word"
  pr_play_bytes :: "64 word"
  pr_play_count :: "64 word"
  pr_start_run :: bool
  pr_stop_run :: bool
  pr_cancel_run :: bool
  pr_send_run :: bool
  pr_ctrl_run :: bool
  pr_last_api :: "64 word"
  pr_last_callback :: EventType
  pr_cb_start :: "64 word"
  pr_cb_end :: "64 word"
  pr_cb_run :: bool

definition NodeProcess_init :: NodeProcess where
  "NodeProcess_init = \<lparr>pr_create = 0, pr_start = 0, pr_started = 0, pr_stop = 0, pr_cancel = 0, pr_first_binary = 0, pr_last_send = 0,
     pr_last_ctrl = 0, pr_failed = 0, pr_completed = 0, pr_closed = 0, pr_last_op = 0, pr_last_status = NodeInvalid,
     pr_recording_bytes = 0, pr_send_count = 0, pr_play_bytes = 0, pr_play_count = 0, pr_start_run = False, pr_stop_run = False,
     pr_cancel_run = False, pr_send_run = False, pr_ctrl_run = False, pr_last_api = 0, pr_last_callback = TaskFailed,
     pr_cb_start = 0, pr_cb_end = 0, pr_cb_run = False\<rparr>"

text \<open>What the constructor of the node makes of it.\<close>

definition NodeProcess_new :: "64 word \<Rightarrow> NodeProcess" where
  "NodeProcess_new t1 = NodeProcess_init\<lparr>pr_last_status := NodeCreated, pr_create := t1, pr_last_op := t1\<rparr>"

definition record_status :: "ConnectStatus \<Rightarrow> NodeProcess \<Rightarrow> NodeProcess" where
  "record_status s p = p\<lparr>pr_last_status := s\<rparr>"

section \<open>Recording\<close>

text \<open>An operation that is entered reads the clock twice, for itself and for \<open>last_api_timestamp_ms\<close>.\<close>

definition enter_api :: "64 word \<Rightarrow> 64 word \<Rightarrow> ConnectStatus \<Rightarrow> NodeProcess \<Rightarrow> NodeProcess" where
  "enter_api t1 t2 s p = p\<lparr>pr_last_op := t1, pr_last_status := s, pr_last_api := t2\<rparr>"

text \<open>\<open>ev\<close> is the argument \<open>status\<close>, which only a callback reads; \<open>first\<close> is \<open>_isFirstBinaryFrame\<close> of the node.\<close>

definition enter_callback :: "64 word \<Rightarrow> 64 word \<Rightarrow> EventType \<Rightarrow> nat \<Rightarrow> bool \<Rightarrow> NodeProcess \<Rightarrow> NodeProcess" where
  "enter_callback t1 t2 ev sz first p0 =
     (let p = p0\<lparr>pr_last_callback := ev\<rparr>;
          p1 = (if ev \<in> {RecognitionStarted, TranscriptionStarted} then p\<lparr>pr_last_op := t1, pr_started := t1\<rparr>
                else if ev \<in> {TranscriptionCompleted, RecognitionCompleted, SynthesisCompleted} then p\<lparr>pr_last_op := t1, pr_completed := t1\<rparr>
                else if ev = Binary then
                  (let p2 = p\<lparr>pr_last_op := t1, pr_play_bytes := pr_play_bytes p + of_nat sz, pr_play_count := pr_play_count p + 1,
                              pr_last_status := NodePlayAudio\<rparr> in
                   if first then p2\<lparr>pr_first_binary := t1\<rparr> else p2)
                else p) in
      p1\<lparr>pr_cb_start := t2, pr_cb_end := 0, pr_cb_run := True\<rparr>)"

definition updateNodeProcess ::
  "64 word \<Rightarrow> 64 word \<Rightarrow> bool \<Rightarrow> string \<Rightarrow> EventType \<Rightarrow> bool \<Rightarrow> nat \<Rightarrow> NodeProcess \<Rightarrow> NodeProcess" where
  "updateNodeProcess t1 t2 first api ev enter sz p =
     (if api = ''start'' then
        (if enter then (enter_api t1 t2 NodeInvoking p)\<lparr>pr_start := t1, pr_start_run := True\<rparr> else p\<lparr>pr_start_run := False\<rparr>)
      else if api = ''stop'' then
        (if enter then (enter_api t1 t2 NodeStop p)\<lparr>pr_stop := t1, pr_stop_run := True\<rparr> else p\<lparr>pr_stop_run := False\<rparr>)
      else if api = ''cancel'' then
        (if enter then (enter_api t1 t2 NodeCancel p)\<lparr>pr_cancel := t1, pr_cancel_run := True\<rparr> else p\<lparr>pr_cancel_run := False\<rparr>)
      else if api = ''sendAudio'' then
        (if enter then (enter_api t1 t2 NodeSendAudio p)\<lparr>pr_last_send := t1, pr_recording_bytes := pr_recording_bytes p + of_nat sz,
           pr_send_count := pr_send_count p + 1, pr_send_run := True\<rparr>
         else p\<lparr>pr_send_run := False\<rparr>)
      else if api = ''ctrl'' then
        (if enter then (enter_api t1 t2 NodeSendControl p)\<lparr>pr_last_ctrl := t1, pr_ctrl_run := True\<rparr> else p\<lparr>pr_ctrl_run := False\<rparr>)
      else if api = ''send_text'' then
        (if enter then (enter_api t1 t2 NodeSendText p)\<lparr>pr_ctrl_run := True\<rparr> else p\<lparr>pr_ctrl_run := False\<rparr>)
      else if api = ''callback'' then
        (if enter then enter_callback t1 t2 ev sz first p else p\<lparr>pr_cb_end := t1, pr_cb_run := False\<rparr>)
      else p)"

text \<open>What \<open>handlerEvent\<close> records of the two last events.\<close>

definition record_event :: "64 word \<Rightarrow> EventType \<Rightarrow> NodeProcess \<Rightarrow> NodeProcess" where
  "record_event t1 t p =
     (if t = TaskFailed then p\<lparr>pr_last_op := t1, pr_failed := t1\<rparr>
      else if t = Close then p\<lparr>pr_last_op := t1, pr_closed := t1\<rparr> else p)"

section \<open>The report\<close>

text \<open>\<open>T\<close> is \<open>GetTimeFromMs\<close>. A member of a value that is not set is left out.\<close>

definition stamped :: "(64 word \<Rightarrow> string) \<Rightarrow> string \<Rightarrow> 64 word \<Rightarrow> json_object \<Rightarrow> json_object" where
  "stamped T k t obj = (if t > 0 then put_member k (JString (T t)) obj else obj)"

definition counted :: "string \<Rightarrow> 64 word \<Rightarrow> json_object \<Rightarrow> json_object" where
  "counted k n obj = (if n > 0 then put_member k (JInt (uint n)) obj else obj)"

definition updateNodeProcess4Data :: "NodeProcess \<Rightarrow> json_object" where
  "updateNodeProcess4Data p =
     counted ''play_count'' (pr_play_count p) (counted ''play_bytes'' (pr_play_bytes p)
     (counted ''send_count'' (pr_send_count p) (counted ''recording_bytes'' (pr_recording_bytes p) [])))"

definition updateNodeProcess4Last :: "(64 word \<Rightarrow> string) \<Rightarrow> NodeProcess \<Rightarrow> json_object" where
  "updateNodeProcess4Last T p =
     stamped T ''action'' (pr_last_op p) (stamped T ''control'' (pr_last_ctrl p) (stamped T ''send'' (pr_last_send p)
     (put_member ''status'' (JString (getConnectNodeStatusString (pr_last_status p))) [])))"

definition updateNodeProcess4Timestamp :: "(64 word \<Rightarrow> string) \<Rightarrow> NodeProcess \<Rightarrow> json_object" where
  "updateNodeProcess4Timestamp T p =
     fold (\<lambda>(k, t). stamped T k t)
       [(''start'', pr_start p), (''started'', pr_started p), (''stop'', pr_stop p), (''cancel'', pr_cancel p), (''failed'', pr_failed p),
        (''completed'', pr_completed p), (''closed'', pr_closed p), (''first_binary'', pr_first_binary p)]
       (put_member ''create'' (JString (T (pr_create p))) [])"

definition updateNodeProcess4Callback :: "(64 word \<Rightarrow> string) \<Rightarrow> NodeProcess \<Rightarrow> json_object" where
  "updateNodeProcess4Callback T p =
     (let cb_name = getMsgTypeString (pr_last_callback p) in
      if cb_name \<noteq> [] \<and> cb_name \<noteq> ''Unknown'' then
        (let c = stamped T ''end'' (pr_cb_end p) (stamped T ''start'' (pr_cb_start p) (put_member ''name'' (JString cb_name) [])) in
         if pr_cb_run p then put_member ''status'' (JString ''running'') c else c)
      else [])"

text \<open>The operations that run, in the order of the source; the last of them gives the names of the two members for its time.\<close>

definition block_flags :: "NodeProcess \<Rightarrow> (string \<times> bool) list" where
  "block_flags p = [(''start'', pr_start_run p), (''stop'', pr_stop_run p), (''cancel'', pr_cancel_run p), (''send'', pr_send_run p),
     (''ctrl'', pr_ctrl_run p)]"

definition running_ops :: "NodeProcess \<Rightarrow> string list" where
  "running_ops p = map fst (filter snd (block_flags p))"

definition updateNodeProcess4Block :: "(64 word \<Rightarrow> string) \<Rightarrow> 64 word \<Rightarrow> NodeProcess \<Rightarrow> json_object" where
  "updateNodeProcess4Block T current p =
     (let block = fold (\<lambda>k. put_member k (JString ''running'')) (running_ops p) [] in
      if running_ops p \<noteq> [] \<and> pr_last_api p > 0 then
        put_member (last (running_ops p) @ ''_duration_ms'') (JInt (uint (current - pr_last_api p)))
          (put_member (last (running_ops p) @ ''_timestamp'') (JString (T (pr_last_api p))) block)
      else block)"

definition updateNodeReconnection :: "(64 word \<Rightarrow> string) \<Rightarrow> NodeReconnection \<Rightarrow> json_object" where
  "updateNodeReconnection T r =
     (let obj = counted ''tw_index_offset'' (rc_tw_index_offset r) (stamped T ''interruption_timestamp'' (rc_interruption_timestamp_ms r)
                  (stamped T ''first_audio_timestamp'' (rc_first_audio_timestamp_ms r) [])) in
      if rc_state r \<noteq> NoReconnection then
        put_member ''reconnected_count'' (JInt (int (rc_reconnected_count r))) (put_member ''should_reconnecting'' (JBool True) obj)
      else obj)"

definition put_nonempty :: "string \<Rightarrow> json_object \<Rightarrow> json_object \<Rightarrow> json_object" where
  "put_nonempty k obj root = (if obj = [] then root else put_member k (JObject obj) root)"

definition annotate :: "(64 word \<Rightarrow> string) \<Rightarrow> 64 word \<Rightarrow> NodeProcess \<Rightarrow> NodeReconnection \<Rightarrow> json_object \<Rightarrow> json_object" where
  "annotate T current p r root =
     put_nonempty ''reconnection'' (updateNodeReconnection T r)
     (put_member ''sdkversion'' (JString ''3.2.0f'')
     (put_nonempty ''block'' (updateNodeProcess4Block T current p)
     (put_member ''callback'' (JObject (updateNodeProcess4Callback T p))
     (put_member ''data'' (JObject (updateNodeProcess4Data p))
     (put_member ''last'' (JObject (updateNodeProcess4Last T p))
     (put_member ''timestamp'' (JObject (updateNodeProcess4Timestamp T p)) root))))))"

text \<open>A member can be set of an object and of null, which becomes one; for any other value jsoncpp throws.\<close>

definition settable :: "json_value \<Rightarrow> json_object option" where
  "settable v = (case v of JObject obj \<Rightarrow> Some obj | JNull \<Rightarrow> Some [] | _ \<Rightarrow> None)"

definition replenish :: "json_lib \<Rightarrow> (64 word \<Rightarrow> string) \<Rightarrow> 64 word \<Rightarrow> NodeProcess \<Rightarrow> NodeReconnection \<Rightarrow> string option \<Rightarrow> string" where
  "replenish L T current p r error =
     (case Option.bind error (js_parse L) of
        None \<Rightarrow> []
      | Some v \<Rightarrow>
          (case Option.bind (settable v) (\<lambda>root. js_write L (JObject (annotate T current p r root))) of None \<Rightarrow> [] | Some s \<Rightarrow> s))"

text \<open>\<open>dumpAllInfo\<close> logs its text and returns \<open>info.c_str()\<close> of a local string: the pointer is good for nothing (\<open>None\<close>) unless jsoncpp threw.\<close>

definition dumped_text :: "json_lib \<Rightarrow> (64 word \<Rightarrow> string) \<Rightarrow> 64 word \<Rightarrow> NodeProcess \<Rightarrow> NodeReconnection \<Rightarrow> string option" where
  "dumped_text L T current p r = js_write L (JObject (annotate T current p r []))"

definition dumpAllInfo :: "json_lib \<Rightarrow> (64 word \<Rightarrow> string) \<Rightarrow> 64 word \<Rightarrow> NodeProcess \<Rightarrow> NodeReconnection \<Rightarrow> string option" where
  "dumpAllInfo L T current p r = (case dumped_text L T current p r of None \<Rightarrow> Some [] | Some s \<Rightarrow> None)"

section \<open>What the report says of a sequence of records\<close>

datatype recording =
    Update "64 word" "64 word" bool string EventType bool nat
  | StatusSet ConnectStatus
  | EventSeen "64 word" EventType

fun record_step :: "recording \<Rightarrow> NodeProcess \<Rightarrow> NodeProcess" where
  "record_step (Update t1 t2 first api ev enter sz) p = updateNodeProcess t1 t2 first api ev enter sz p"
| "record_step (StatusSet s) p = record_status s p"
| "record_step (EventSeen t1 t) p = record_event t1 t p"

definition recorded :: "64 word \<Rightarrow> recording list \<Rightarrow> NodeProcess" where
  "recorded t us = fold record_step us (NodeProcess_new t)"

text \<open>The sizes of the audio sent and of the audio delivered.\<close>

fun sent_size :: "recording \<Rightarrow> nat option" where
  "sent_size (Update t1 t2 first api ev enter sz) = (if api = ''sendAudio'' \<and> enter then Some sz else None)"
| "sent_size u = None"

fun played_size :: "recording \<Rightarrow> nat option" where
  "played_size (Update t1 t2 first api ev enter sz) = (if api = ''callback'' \<and> enter \<and> ev = Binary then Some sz else None)"
| "played_size u = None"

text \<open>The name under which an operation is reported as running; a text command has that of a control command.\<close>

definition report_name :: "string \<Rightarrow> string" where
  "report_name api = (if api = ''sendAudio'' then ''send'' else if api = ''send_text'' then ''ctrl'' else api)"

fun runs :: "string \<Rightarrow> recording list \<Rightarrow> bool" where
  "runs k [] = False"
| "runs k (u # us) =
     (case u of
        Update t1 t2 first api ev enter sz \<Rightarrow> if report_name api = k \<and> api \<noteq> ''send'' then enter else runs k us
      | _ \<Rightarrow> runs k us)"

definition op_names :: "string list" where
  "op_names = [''start'', ''stop'', ''cancel'', ''send'', ''ctrl'']"

lemma op_names_cases:
  assumes "k \<in> set op_names"
  obtains "k = ''start''" | "k = ''stop''" | "k = ''cancel''" | "k = ''send''" | "k = ''ctrl''"
  using assms by (auto simp: op_names_def)

lemma counters_step:
  "pr_recording_bytes (record_step u p) = pr_recording_bytes p + (case sent_size u of None \<Rightarrow> 0 | Some n \<Rightarrow> of_nat n)"
  "pr_send_count (record_step u p) = pr_send_count p + (case sent_size u of None \<Rightarrow> 0 | Some n \<Rightarrow> 1)"
  "pr_play_bytes (record_step u p) = pr_play_bytes p + (case played_size u of None \<Rightarrow> 0 | Some n \<Rightarrow> of_nat n)"
  "pr_play_count (record_step u p) = pr_play_count p + (case played_size u of None \<Rightarrow> 0 | Some n \<Rightarrow> 1)"
  by (cases u; simp add: updateNodeProcess_def enter_api_def enter_callback_def record_status_def record_event_def Let_def)+

lemma recorded_snoc: "recorded t (us @ [u]) = record_step u (recorded t us)"
  by (simp add: recorded_def)

lemma counters:
  "pr_recording_bytes (recorded t us) = of_nat (sum_list (List.map_filter sent_size us))"
  "pr_send_count (recorded t us) = of_nat (length (List.map_filter sent_size us))"
  "pr_play_bytes (recorded t us) = of_nat (sum_list (List.map_filter played_size us))"
  "pr_play_count (recorded t us) = of_nat (length (List.map_filter played_size us))"
  by (induction us rule: rev_induct; simp add: recorded_def NodeProcess_new_def NodeProcess_init_def List.map_filter_def counters_step
      split: option.split)+

lemma flags_update:
  "pr_start_run (updateNodeProcess t1 t2 first api ev enter sz p) = (if api = ''start'' then enter else pr_start_run p)"
  "pr_stop_run (updateNodeProcess t1 t2 first api ev enter sz p) = (if api = ''stop'' then enter else pr_stop_run p)"
  "pr_cancel_run (updateNodeProcess t1 t2 first api ev enter sz p) = (if api = ''cancel'' then enter else pr_cancel_run p)"
  "pr_send_run (updateNodeProcess t1 t2 first api ev enter sz p) = (if api = ''sendAudio'' then enter else pr_send_run p)"
  "pr_ctrl_run (updateNodeProcess t1 t2 first api ev enter sz p) = (if api = ''ctrl'' \<or> api = ''send_text'' then enter else pr_ctrl_run p)"
  by (simp_all add: updateNodeProcess_def enter_api_def enter_callback_def Let_def)

lemma flags_event:
  "block_flags (record_status s p) = block_flags p" "block_flags (record_event t1 t p) = block_flags p"
  by (simp_all add: block_flags_def record_status_def record_event_def)

text \<open>A flag by its name.\<close>

definition flag :: "string \<Rightarrow> NodeProcess \<Rightarrow> bool" where
  "flag k p = the (map_of (block_flags p) k)"

lemma running_flag: "running_ops p = filter (\<lambda>k. flag k p) op_names"
  by (simp add: running_ops_def block_flags_def flag_def op_names_def)

lemma flag_step:
  assumes "k \<in> set op_names"
  shows "flag k (record_step u p) =
    (case u of
       Update t1 t2 first api ev enter sz \<Rightarrow> if report_name api = k \<and> api \<noteq> ''send'' then enter else flag k p
     | _ \<Rightarrow> flag k p)"
proof (cases u)
  case (Update t1 t2 first api ev enter sz)
  with assms show ?thesis
    by (elim op_names_cases; simp add: flag_def block_flags_def flags_update report_name_def)
qed (simp_all add: flag_def flags_event)

lemma flag_recorded: "k \<in> set op_names \<Longrightarrow> flag k (recorded t us) = runs k (rev us)"
proof (induction us rule: rev_induct)
  case Nil
  then show ?case
    by (elim op_names_cases; simp add: recorded_def flag_def block_flags_def NodeProcess_new_def NodeProcess_init_def)
next
  case (snoc u us)
  then show ?case unfolding recorded_snoc flag_step [OF snoc.prems] by (cases u) simp_all
qed

lemma running_recorded: "running_ops (recorded t us) = filter (\<lambda>k. runs k (rev us)) op_names"
  unfolding running_flag by (rule filter_cong) (simp_all add: flag_recorded)

section \<open>The report\<close>

lemma member_counted: "member (counted k n obj) k' = (if k = k' \<and> n > 0 then Some (JInt (uint n)) else member obj k')"
  by (simp add: counted_def)

lemma member_stamped: "member (stamped T k t obj) k' = (if k = k' \<and> t > 0 then Some (JString (T t)) else member obj k')"
  by (simp add: stamped_def)

lemma member_nonempty: "member (put_nonempty k obj root) k' = (if k = k' \<and> obj \<noteq> [] then Some (JObject obj) else member root k')"
  by (simp add: put_nonempty_def)

lemma member_running:
  "member (fold (\<lambda>k. put_member k (JString ''running'')) ks obj) k' = (if k' \<in> set ks then Some (JString ''running'') else member obj k')"
  by (induction ks arbitrary: obj) auto

lemma last_running: "running_ops p \<noteq> [] \<Longrightarrow> last (running_ops p) \<in> set op_names"
  using last_in_set [of "running_ops p"] by (simp add: running_flag)

lemma member_block:
  assumes "k \<in> set op_names"
  shows "member (updateNodeProcess4Block T current p) k = (if k \<in> set (running_ops p) then Some (JString ''running'') else None)"
proof -
  have "m @ ''_timestamp'' \<noteq> k \<and> m @ ''_duration_ms'' \<noteq> k" if "m \<in> set op_names" for m
    using that assms by (elim op_names_cases; simp)
  with last_running [of p] show ?thesis by (auto simp: updateNodeProcess4Block_def Let_def member_running)
qed

text \<open>The total that is reported: modulo \<open>2 ^ 64\<close>, and not at all when it is zero.\<close>

definition total_member :: "nat \<Rightarrow> json_value option" where
  "total_member n = (if n mod 2 ^ 64 = 0 then None else Some (JInt (int (n mod 2 ^ 64))))"

lemma total_word:
  fixes w :: "64 word"
  assumes "w = of_nat n"
  shows "(if w > 0 then Some (JInt (uint w)) else None) = total_member n"
proof -
  have "uint w = int (n mod 2 ^ 64)" using assms by (simp add: unsigned_of_nat take_bit_eq_mod of_nat_mod uint_nat)
  moreover have "w > 0 \<longleftrightarrow> uint w \<noteq> 0" by (simp add: word_gt_0 uint_0_iff)
  ultimately show ?thesis by (simp add: total_member_def)
qed

text \<open>C38. Whatever the operations and the callbacks of a request record and in whatever order, the report names the bytes and the number of
  the pieces sent and delivered so far, modulo \<open>2 ^ 64\<close>, and as running exactly the operations that were entered and not left since;
  a text command is reported under the name of a control command.\<close>

theorem report_of_record:
  "map (member (updateNodeProcess4Data (recorded t us))) [''recording_bytes'', ''send_count'', ''play_bytes'', ''play_count''] =
     map total_member [sum_list (List.map_filter sent_size us), length (List.map_filter sent_size us),
       sum_list (List.map_filter played_size us), length (List.map_filter played_size us)]
   \<and> filter (\<lambda>k. member (updateNodeProcess4Block T current (recorded t us)) k = Some (JString ''running'')) op_names =
     filter (\<lambda>k. runs k (rev us)) op_names"
proof
  show "map (member (updateNodeProcess4Data (recorded t us))) [''recording_bytes'', ''send_count'', ''play_bytes'', ''play_count''] =
     map total_member [sum_list (List.map_filter sent_size us), length (List.map_filter sent_size us),
       sum_list (List.map_filter played_size us), length (List.map_filter played_size us)]"
    by (simp add: updateNodeProcess4Data_def member_counted counters total_word [OF refl, symmetric])
  show "filter (\<lambda>k. member (updateNodeProcess4Block T current (recorded t us)) k = Some (JString ''running'')) op_names =
     filter (\<lambda>k. runs k (rev us)) op_names"
    by (rule filter_cong) (simp_all add: member_block running_recorded)
qed

text \<open>The report adds its members to the message of the service and leaves the others alone.\<close>

lemma report_keeps:
  assumes "k \<notin> {''timestamp'', ''last'', ''data'', ''callback'', ''block'', ''sdkversion'', ''reconnection''}"
  shows "member (annotate T current p r root) k = member root k"
  using assms by (auto simp: annotate_def member_nonempty)

text \<open>\<open>replenishNodeProcess\<close> of the delivery of events is this one, for an environment whose clock and library are these.\<close>

lemma replenish_implements:
  assumes "jl_parse (e_json E) = js_parse L"
    and "\<And>root. e_annotate E (cn_clock n) root =
      (case Option.bind (settable root) (\<lambda>obj. js_write L (JObject (annotate T current p (cn_reconnection n) obj))) of None \<Rightarrow> [] | Some s \<Rightarrow> s)"
  shows "replenishNodeProcess E n error = replenish L T current p (cn_reconnection n) (Some error)"
  using assms by (simp add: replenishNodeProcess_def replenish_def split: option.split)

section \<open>What the report gets wrong\<close>

text \<open>A request that had no callback yet reports one, \<open>TaskFailed\<close>.\<close>

lemma fresh_callback: "updateNodeProcess4Callback T (NodeProcess_new t) = [(''name'', JString ''TaskFailed'')]"
  by (simp add: updateNodeProcess4Callback_def NodeProcess_new_def NodeProcess_init_def getMsgTypeString_def stamped_def put_member_def Let_def)

text \<open>The time of the last operation entered is reported as that of the last one in the list: while audio is sent, a cancel restarts the
  duration of the sending.\<close>

lemma duration_of_another:
  assumes "pr_send_run p" and "\<not> pr_ctrl_run p" and "t2 > 0"
  shows "member (updateNodeProcess4Block T current (updateNodeProcess t1 t2 first ''cancel'' ev True 0 p)) ''send_duration_ms'' =
      Some (JInt (uint (current - t2)))
    \<and> member (updateNodeProcess4Block T current (updateNodeProcess t1 t2 first ''cancel'' ev True 0 p)) ''cancel_duration_ms'' = None"
proof -
  let ?p = "updateNodeProcess t1 t2 first ''cancel'' ev True 0 p"
  have l: "running_ops ?p \<noteq> []" "last (running_ops ?p) = ''send''" "pr_last_api ?p = t2"
    using assms by (simp_all add: running_ops_def block_flags_def flags_update) (simp add: updateNodeProcess_def enter_api_def)
  moreover have "''cancel_duration_ms'' \<notin> set (running_ops ?p)" "''send_duration_ms'' \<notin> set (running_ops ?p)"
    by (simp_all add: running_ops_def block_flags_def)
  ultimately show ?thesis using assms(3) by (simp add: updateNodeProcess4Block_def Let_def member_running)
qed

text \<open>A clock that was set back makes the duration wrap.\<close>

lemma duration_wraps:
  fixes current t :: "64 word"
  shows "current < t \<Longrightarrow> uint (current - t) = 2 ^ 64 - (uint t - uint current)"
  by (simp add: uint_sub_if' word_less_def)

text \<open>The dump is never good for anything but when jsoncpp throws.\<close>

lemma dump_dangles: "dumpAllInfo L T current p r = Some s \<Longrightarrow> s = [] \<and> js_write L (JObject (annotate T current p r [])) = None"
  by (auto simp: dumpAllInfo_def dumped_text_def split: option.splits)

end
