(* ===== verification/SslConnect.thy ===== *)
theory SslConnect
  imports WorkThread
begin

text \<open>
  The TLS connection of a node, \<open>transport/SSLconnect.cpp\<close>: the handshake, writing, reading with its three tries after the peer has
  closed, the text of the last failure, and closing. OpenSSL is a record of functions of the number of the call; what \<open>SSL_get_error\<close>,
  \<open>errno\<close> and \<open>ERR_error_string_n\<close> say belongs to the call before. The connecting, sending and receiving of a node see this
  class through the functions of their environment; the last section says what they may expect of it.
\<close>

section \<open>State\<close>

abbreviation (input) SSL_ERROR_WANT_X509_LOOKUP :: int where "SSL_ERROR_WANT_X509_LOOKUP \<equiv> 4"
abbreviation (input) SSL_ERROR_SYSCALL :: int where "SSL_ERROR_SYSCALL \<equiv> 5"
abbreviation (input) SSL_ERROR_ZERO_RETURN :: int where "SSL_ERROR_ZERO_RETURN \<equiv> 6"
abbreviation (input) ECONNRESET :: int where "ECONNRESET \<equiv> 104"
abbreviation (input) MaxSslTryAgain :: int where "MaxSslTryAgain \<equiv> 3"
abbreviation (input) MaxSslErrorLength :: nat where "MaxSslErrorLength \<equiv> 512"

text \<open>An \<open>SSL\<close> object: its socket, the host name it asks for, and whether it was put into the state of a client.\<close>

record ssl_object =
  so_fd :: "int option"
  so_name :: "string option"
  so_connecting :: bool

text \<open>\<open>ss_write\<close> and \<open>ss_read\<close> are given the length as an \<open>int\<close>.\<close>

record ssl_lib =
  ss_ctx :: bool
  ss_new :: "nat \<Rightarrow> bool"
  ss_set_name :: "nat \<Rightarrow> bool"
  ss_set_fd :: "nat \<Rightarrow> int \<Rightarrow> int"
  ss_connect :: "nat \<Rightarrow> ssl_object \<Rightarrow> int"
  ss_write :: "nat \<Rightarrow> byte list \<Rightarrow> int \<Rightarrow> int"
  ss_read :: "nat \<Rightarrow> int \<Rightarrow> byte list \<times> int"
  ss_error :: "nat \<Rightarrow> int"
  ss_errno :: "nat \<Rightarrow> int"
  ss_text :: "nat \<Rightarrow> string"

text \<open>\<open>sc_calls\<close> numbers the calls of the library.\<close>

record SSLconnect =
  sc_ssl :: "ssl_object option"
  sc_tryAgain :: int
  sc_errorMsg :: string
  sc_calls :: nat

definition SSLconnect_new :: SSLconnect where
  "SSLconnect_new = \<lparr>sc_ssl = None, sc_tryAgain = 0, sc_errorMsg = [], sc_calls = 0\<rparr>"

text \<open>The context all connections share: \<open>None\<close> is the exit of the process.\<close>

definition SSL_init :: "ssl_lib \<Rightarrow> bool \<Rightarrow> (int \<times> bool) option" where
  "SSL_init L ctx = (if ctx \<or> ss_ctx L then Some (Success, True) else None)"

definition SSL_destroy :: "bool \<Rightarrow> bool" where
  "SSL_destroy ctx = False"

definition called :: "SSLconnect \<Rightarrow> SSLconnect" where
  "called S = S\<lparr>sc_calls := sc_calls S + 1\<rparr>"

text \<open>\<open>SSL_shutdown\<close> and \<open>SSL_free\<close>.\<close>

definition SSL_sslClose :: "SSLconnect \<Rightarrow> SSLconnect" where
  "SSL_sslClose S = S\<lparr>sc_ssl := None\<rparr>"

text \<open>The prefix and what \<open>ERR_error_string_n\<close> writes behind it: it is told one byte less than there is and ends with a NUL.\<close>

definition error_text :: "string \<Rightarrow> string \<Rightarrow> string" where
  "error_text prefix err = prefix @ take (MaxSslErrorLength - length prefix - 1 - 1) (c_str err)"

definition with_message :: "string \<Rightarrow> SSLconnect \<Rightarrow> SSLconnect" where
  "with_message m S = S\<lparr>sc_errorMsg := m\<rparr>"

section \<open>Handshake\<close>

text \<open>\<open>Inl\<close> is an early return.\<close>

definition make_ssl :: "ssl_lib \<Rightarrow> int \<Rightarrow> string option \<Rightarrow> SSLconnect \<Rightarrow> (int \<times> SSLconnect) + ssl_object \<times> SSLconnect" where
  "make_ssl L fd hostname S =
     (case sc_ssl S of
        Some obj \<Rightarrow> Inr (obj, S)
      | None \<Rightarrow>
          (let k = sc_calls S; S1 = called S in
           if \<not> ss_new L k then Inl (- SslNewFailed, with_message (error_text ''return of SSL_new: '' (ss_text L k)) S1)
           else
             (let obj = \<lparr>so_fd = None, so_name = (if ss_set_name L k then hostname else None), so_connecting = False\<rparr> in
              if ss_set_fd L k fd = 0 then
                Inl (- SslSetFailed, with_message (error_text ''return of SSL_set_fd: '' (ss_text L k)) (S1\<lparr>sc_ssl := Some obj\<rparr>))
              else
                (let obj1 = obj\<lparr>so_fd := Some fd, so_connecting := True\<rparr> in Inr (obj1, S1\<lparr>sc_ssl := Some obj1\<rparr>)))))"

definition connect_ssl :: "ssl_lib \<Rightarrow> ssl_object \<Rightarrow> SSLconnect \<Rightarrow> int \<times> SSLconnect" where
  "connect_ssl L obj S =
     (let k = sc_calls S; S1 = called S in
      if ss_connect L k obj < 0 then
        (let sslError = ss_error L k; errno_code = ss_errno L k in
         if sslError = SSL_ERROR_WANT_READ \<or> sslError = SSL_ERROR_WANT_WRITE then (sslError, S1)
         else if sslError = SSL_ERROR_SYSCALL then
           (if connect_retriable errno_code \<or> rw_retriable errno_code then (SSL_ERROR_WANT_READ, S1)
            else if errno_code = 0 then (Success, S1)
            else (- SslConnectFailed, S1))
         else (- SslConnectFailed, SSL_sslClose (with_message (error_text ''return of SSL_connect: '' (ss_text L k)) S1)))
      else (Success, S1))"

definition SSL_sslHandshake :: "ssl_lib \<Rightarrow> bool \<Rightarrow> int \<Rightarrow> string option \<Rightarrow> SSLconnect \<Rightarrow> int \<times> SSLconnect" where
  "SSL_sslHandshake L ctx fd hostname S =
     (if \<not> ctx then (- SslCtxEmpty, S)
      else (case make_ssl L fd hostname S of Inl r \<Rightarrow> r | Inr (obj, S1) \<Rightarrow> connect_ssl L obj S1))"

section \<open>Writing and reading\<close>

text \<open>The ends of the messages.\<close>

definition closed_note :: "int \<Rightarrow> int \<Rightarrow> string" where
  "closed_note errno_code sslError = ''. It'' @ [CHR 0x27] @ ''s mean the remote end was closed because of bad network. errno_code:''
     @ dec_int errno_code @ '', ssl_eCode:'' @ dec_int sslError @ ''.''"

definition code_note :: "string \<Rightarrow> int \<Rightarrow> int \<Rightarrow> string" where
  "code_note separator errno_code sslError = ''. errno_code:'' @ dec_int errno_code @ separator @ ''ssl_eCode:'' @ dec_int sslError @ ''.''"

definition shutdown_note :: "string" where
  "shutdown_note = '' It'' @ [CHR 0x27] @ ''s mean this connection was closed or shutdown because of bad network''"

definition message :: "string \<Rightarrow> string" where
  "message s = fst (snprintf MaxSslErrorLength s)"

definition SSL_sslWrite :: "ssl_lib \<Rightarrow> byte list \<Rightarrow> SSLconnect \<Rightarrow> int \<times> SSLconnect" where
  "SSL_sslWrite L buffer S =
     (if sc_ssl S = None then (- SslWriteFailed, S)
      else
        (let k = sc_calls S; S1 = called S; wLen = ss_write L k buffer (int32 (int (length buffer))) in
         if wLen < 0 then
           (let sslError = ss_error L k; errno_code = ss_errno L k; sslErrMsg = error_text ''return of SSL_write: '' (ss_text L k) in
            if sslError = SSL_ERROR_WANT_READ \<or> sslError = SSL_ERROR_WANT_WRITE then (0, S1)
            else if sslError = SSL_ERROR_SYSCALL then
              (if connect_retriable errno_code \<or> rw_retriable errno_code then (0, S1)
               else if errno_code = 0 then (0, S1)
               else if errno_code = ECONNRESET then
                 (- SslWriteFailed, with_message (message (sslErrMsg @ closed_note errno_code sslError)) S1)
               else (- SslWriteFailed, with_message (message (sslErrMsg @ code_note '' '' errno_code sslError)) S1))
            else if sslError = SSL_ERROR_ZERO_RETURN \<and> errno_code = 0 then
              (- SslWriteFailed,
               with_message (message (sslErrMsg @ code_note '' '' errno_code sslError @ shutdown_note @ ''.'')) S1)
            else (- SslWriteFailed, with_message (message (sslErrMsg @ code_note '' '' errno_code sslError)) S1))
         else (wLen, S1)))"

text \<open>The bytes read are in the buffer of the caller. \<open>++_sslTryAgain\<close> stands behind two conditions.\<close>

definition SSL_sslRead :: "ssl_lib \<Rightarrow> nat \<Rightarrow> SSLconnect \<Rightarrow> (byte list \<times> int) \<times> SSLconnect" where
  "SSL_sslRead L len S =
     (if sc_ssl S = None then (([], - SslReadFailed), S)
      else
        (let k = sc_calls S; S1 = called S; (data, rLen) = ss_read L k (int32 (int len)) in
         if rLen \<le> 0 then
           (let sslError = ss_error L k; errno_code = ss_errno L k; sslErrMsg = error_text ''return of SSL_read: '' (ss_text L k) in
            if sslError = SSL_ERROR_WANT_READ \<or> sslError = SSL_ERROR_WANT_WRITE \<or> sslError = SSL_ERROR_WANT_X509_LOOKUP then (([], 0), S1)
            else if sslError = SSL_ERROR_SYSCALL then
              (if connect_retriable errno_code \<or> rw_retriable errno_code then (([], 0), S1)
               else if errno_code = 0 then (([], 0), S1)
               else if errno_code = ECONNRESET then
                 (([], - SslReadSysError), with_message (message (sslErrMsg @ closed_note errno_code sslError)) S1)
               else (([], - SslReadSysError), with_message (message (sslErrMsg @ code_note '', '' errno_code sslError)) S1))
            else if sslError = SSL_ERROR_ZERO_RETURN \<and> errno_code = 0 then
              (let S2 = S1\<lparr>sc_tryAgain := sc_tryAgain S1 + 1\<rparr> in
               if sc_tryAgain S2 \<le> MaxSslTryAgain then
                 (([], 0), with_message (message (sslErrMsg @ code_note '' '' errno_code sslError @ shutdown_note @ '', Try again ...'')) S2)
               else (([], - SslReadFailed), with_message (message (sslErrMsg @ code_note '' '' errno_code sslError)) S2))
            else (([], - SslReadFailed), with_message (message (sslErrMsg @ code_note '' '' errno_code sslError)) S1))
         else ((data, rLen), S1\<lparr>sc_tryAgain := 0\<rparr>)))"

section \<open>The message fits\<close>

text \<open>Every operation keeps the text of the last failure inside its array, with the NUL.\<close>

definition message_fits :: "SSLconnect \<Rightarrow> bool" where
  "message_fits S \<longleftrightarrow> length (sc_errorMsg S) < MaxSslErrorLength"

named_theorems ssl_simps \<open>the fields of a TLS connection after its operations\<close>

lemma message_length [ssl_simps]: "length (message s) < MaxSslErrorLength"
  by (simp add: message_def snprintf_def)

lemma error_text_length [ssl_simps]: "length prefix < 500 \<Longrightarrow> length (error_text prefix err) < MaxSslErrorLength"
  by (simp add: error_text_def)

lemma fits_updates [ssl_simps]:
  "message_fits (with_message m S) \<longleftrightarrow> length m < MaxSslErrorLength"
  "message_fits (called S) = message_fits S" "message_fits (SSL_sslClose S) = message_fits S"
  "message_fits (S\<lparr>sc_ssl := x\<rparr>) = message_fits S" "message_fits (S\<lparr>sc_tryAgain := i\<rparr>) = message_fits S"
  by (simp_all add: message_fits_def with_message_def called_def SSL_sslClose_def)

lemma fits_new: "message_fits SSLconnect_new"
  by (simp add: message_fits_def SSLconnect_new_def)

lemma fits_handshake:
  assumes "message_fits S"
  shows "message_fits (snd (SSL_sslHandshake L ctx fd hostname S))"
proof -
  have c: "message_fits (snd (connect_ssl L obj R))" if "message_fits R" for obj R
    using that by (simp add: connect_ssl_def Let_def ssl_simps)
  have "case make_ssl L fd hostname S of Inl r \<Rightarrow> message_fits (snd r) | Inr q \<Rightarrow> message_fits (snd q)"
    using assms by (simp add: make_ssl_def Let_def ssl_simps split: option.split)
  with c assms show ?thesis by (auto simp: SSL_sslHandshake_def split: sum.splits prod.splits)
qed

lemma fits_write: "message_fits S \<Longrightarrow> message_fits (snd (SSL_sslWrite L buffer S))"
  by (simp add: SSL_sslWrite_def Let_def ssl_simps)

lemma fits_read: "message_fits S \<Longrightarrow> message_fits (snd (SSL_sslRead L len S))"
  by (simp add: SSL_sslRead_def Let_def ssl_simps split: prod.split)

section \<open>Results\<close>

text \<open>A write takes what the library took, or nothing, or fails.\<close>

lemma write_result:
  "fst (SSL_sslWrite L buffer S) \<in> {0, - SslWriteFailed, max 0 (ss_write L (sc_calls S) buffer (int32 (int (length buffer))))}"
  by (simp add: SSL_sslWrite_def Let_def)

lemma read_result:
  assumes "SSL_sslRead L len S = ((data, r), S1)"
  shows "(r > 0 \<and> ss_read L (sc_calls S) (int32 (int len)) = (data, r) \<and> sc_tryAgain S1 = 0)
    \<or> (data = [] \<and> r \<in> {0, - SslReadFailed, - SslReadSysError})"
  using assms by (auto simp: SSL_sslRead_def Let_def split: prod.splits if_splits)

text \<open>The answers of the library when the peer has closed the connection properly.\<close>

definition zero_return :: "ssl_lib \<Rightarrow> nat \<Rightarrow> bool" where
  "zero_return L k \<longleftrightarrow> (\<forall>len. snd (ss_read L k len) \<le> 0) \<and> ss_error L k = SSL_ERROR_ZERO_RETURN \<and> ss_errno L k = 0"

definition read_again :: "ssl_lib \<Rightarrow> nat \<Rightarrow> nat \<Rightarrow> SSLconnect \<Rightarrow> SSLconnect" where
  "read_again L len i S = ((\<lambda>S. snd (SSL_sslRead L len S)) ^^ i) S"

lemma zero_return_read:
  assumes "zero_return L (sc_calls S)" and "sc_ssl S \<noteq> None"
  shows "fst (SSL_sslRead L len S) = ([], if sc_tryAgain S < MaxSslTryAgain then 0 else - SslReadFailed)"
    "sc_calls (snd (SSL_sslRead L len S)) = sc_calls S + 1" "sc_ssl (snd (SSL_sslRead L len S)) = sc_ssl S"
    "sc_tryAgain (snd (SSL_sslRead L len S)) = sc_tryAgain S + 1"
proof -
  obtain data rLen where r: "ss_read L (sc_calls S) (int32 (int len)) = (data, rLen)" by fastforce
  with assms(1) have "rLen \<le> 0" by (metis snd_conv zero_return_def)
  with r assms show "fst (SSL_sslRead L len S) = ([], if sc_tryAgain S < MaxSslTryAgain then 0 else - SslReadFailed)"
    "sc_calls (snd (SSL_sslRead L len S)) = sc_calls S + 1" "sc_ssl (snd (SSL_sslRead L len S)) = sc_ssl S"
    "sc_tryAgain (snd (SSL_sslRead L len S)) = sc_tryAgain S + 1"
    by (auto simp: SSL_sslRead_def zero_return_def called_def with_message_def Let_def)
qed

lemma zero_return_again:
  assumes "\<forall>i < n. zero_return L (sc_calls S + i)" and "sc_ssl S \<noteq> None"
  shows "sc_calls (read_again L len n S) = sc_calls S + n \<and> sc_ssl (read_again L len n S) = sc_ssl S
    \<and> sc_tryAgain (read_again L len n S) = sc_tryAgain S + int n"
  using assms(1)
proof (induction n)
  case 0
  show ?case by (simp add: read_again_def)
next
  case (Suc n)
  then have "zero_return L (sc_calls (read_again L len n S))" "sc_ssl (read_again L len n S) \<noteq> None"
    and IH: "sc_calls (read_again L len n S) = sc_calls S + n" "sc_ssl (read_again L len n S) = sc_ssl S"
      "sc_tryAgain (read_again L len n S) = sc_tryAgain S + int n"
    using assms(2) by auto
  moreover have "read_again L len (Suc n) S = snd (SSL_sslRead L len (read_again L len n S))" by (simp add: read_again_def)
  ultimately show ?case by (simp add: zero_return_read)
qed

text \<open>What a failed read of an open connection says, and how the delivery of the failure classifies it.\<close>

lemma read_message_marked: "strstr (message (error_text ''return of SSL_read: '' t @ rest)) ''return of SSL_read:''"
proof -
  obtain z where "message (error_text ''return of SSL_read: '' t @ rest) = ''return of SSL_read: '' @ z"
    by (simp add: message_def snprintf_def error_text_def)
  then show ?thesis by (simp add: strstr_def c_str_append str_find_def) (simp add: c_str_def)
qed

lemma read_failure_marked:
  assumes "sc_ssl S \<noteq> None" and "snd (fst (SSL_sslRead L len S)) < 0"
  shows "strstr (sc_errorMsg (snd (SSL_sslRead L len S))) ''return of SSL_read:''"
  using assms by (auto simp: SSL_sslRead_def Let_def with_message_def read_message_marked split: prod.splits if_splits)

lemma read_failure_code:
  assumes "sc_ssl S \<noteq> None" and "snd (fst (SSL_sslRead L len S)) < 0"
    and "jl_parse J (c_str (sc_errorMsg (snd (SSL_sslRead L len S)))) = None"
  shows "getErrorCodeFromMsg J (c_str (sc_errorMsg (snd (SSL_sslRead L len S)))) = DefaultErrorCode"
proof -
  have "c_str (c_str x) = c_str x" for x by (simp add: c_str_def)
  then show ?thesis
    using assms(3) read_failure_marked [OF assms(1,2)] by (simp add: getErrorCodeFromMsg_def text_error_code_def strstr_def)
qed

text \<open>A library whose peer has closed the connection, and a connection on socket 5.\<close>

definition ssl_example :: ssl_lib where
  "ssl_example = \<lparr>ss_ctx = True, ss_new = (\<lambda>_. True), ss_set_name = (\<lambda>_. True), ss_set_fd = (\<lambda>_ _. 1), ss_connect = (\<lambda>_ _. 1),
     ss_write = (\<lambda>_ bs len. min len (int (length bs))), ss_read = (\<lambda>_ _. ([], 0)), ss_error = (\<lambda>_. SSL_ERROR_ZERO_RETURN),
     ss_errno = (\<lambda>_. 0), ss_text = (\<lambda>_. ''error:00000000'')\<rparr>"

definition connected_example :: SSLconnect where
  "connected_example = SSLconnect_new\<lparr>sc_ssl := Some \<lparr>so_fd = Some 5, so_name = None, so_connecting = True\<rparr>\<rparr>"

text \<open>A connection the peer has closed is noticed: while the library answers every read with the closed connection, the reads that follow
  the last data return nothing three times, and every later one fails.\<close>

theorem closed_peer_is_noticed:
  assumes "\<forall>i \<le> n. zero_return L (sc_calls S + i)" and "sc_ssl S \<noteq> None"
  shows "fst (SSL_sslRead L len (read_again L len n S)) =
    ([], if sc_tryAgain S + int n < MaxSslTryAgain then 0 else - SslReadFailed)"
proof -
  have "sc_calls (read_again L len n S) = sc_calls S + n" "sc_ssl (read_again L len n S) = sc_ssl S"
    "sc_tryAgain (read_again L len n S) = sc_tryAgain S + int n"
    using zero_return_again [of n L S len] assms by auto
  with assms show ?thesis by (simp add: zero_return_read(1))
qed

lemma closed_peer_is_noticed_witness:
  "fst (SSL_sslRead ssl_example 100 (read_again ssl_example 100 3 connected_example)) = ([], - SslReadFailed)"
proof -
  have z: "\<forall>i \<le> 3. zero_return ssl_example (sc_calls connected_example + i)" by (simp add: zero_return_def ssl_example_def)
  have c: "sc_ssl connected_example \<noteq> None" "sc_tryAgain connected_example = 0"
    by (simp_all add: connected_example_def SSLconnect_new_def)
  show ?thesis unfolding closed_peer_is_noticed [OF z c(1)] by (simp add: c(2))
qed

text \<open>The count of the tries outlives the connection: one that is made again after a loss starts with none left.\<close>

lemma tries_updates [ssl_simps]:
  "sc_tryAgain (with_message m S) = sc_tryAgain S" "sc_tryAgain (called S) = sc_tryAgain S" "sc_tryAgain (SSL_sslClose S) = sc_tryAgain S"
  by (simp_all add: with_message_def called_def SSL_sslClose_def)

lemma tries_outlive_connection: "sc_tryAgain (snd (SSL_sslHandshake L ctx fd hostname S)) = sc_tryAgain S"
proof -
  have c: "sc_tryAgain (snd (connect_ssl L obj R)) = sc_tryAgain R" for obj R
    by (simp add: connect_ssl_def Let_def ssl_simps)
  have "case make_ssl L fd hostname S of Inl r \<Rightarrow> sc_tryAgain (snd r) = sc_tryAgain S | Inr q \<Rightarrow> sc_tryAgain (snd q) = sc_tryAgain S"
    by (simp add: make_ssl_def Let_def ssl_simps split: option.split)
  with c show ?thesis by (auto simp: SSL_sslHandshake_def split: sum.splits prod.splits)
qed

text \<open>A handshake the library says has failed, and one the peer cut off, count as done.\<close>

lemma failed_handshake_succeeds:
  assumes "sc_ssl S = Some obj"
    and "ss_connect L (sc_calls S) obj = 0
      \<or> ss_connect L (sc_calls S) obj < 0 \<and> ss_error L (sc_calls S) = SSL_ERROR_SYSCALL \<and> ss_errno L (sc_calls S) = 0"
  shows "fst (SSL_sslHandshake L True fd hostname S) = Success"
  using assms by (auto simp: SSL_sslHandshake_def make_ssl_def connect_ssl_def connect_retriable_def rw_retriable_def Let_def)

text \<open>After a socket that could not be set, the next handshake connects without one.\<close>

lemma handshake_without_socket:
  assumes "sc_ssl S = None" and "ss_new L (sc_calls S)" and "ss_set_fd L (sc_calls S) fd = 0"
  shows "\<exists>obj S1. SSL_sslHandshake L True fd hostname S = (- SslSetFailed, S1) \<and> sc_ssl S1 = Some obj \<and> so_fd obj = None
    \<and> SSL_sslHandshake L True fd hostname S1 = connect_ssl L obj S1"
  using assms by (simp add: SSL_sslHandshake_def make_ssl_def with_message_def Let_def)

text \<open>What the sending of a node asks of its environment: a write never takes more than it is given.\<close>

lemma write_takes_a_part:
  assumes "\<And>k bs len. ss_write L k bs len \<le> int (length bs)"
  shows "fst (SSL_sslWrite L buffer S) \<le> int (length buffer)"
proof -
  have "max 0 (ss_write L (sc_calls S) buffer (int32 (int (length buffer)))) \<le> int (length buffer)" using assms by simp
  moreover have "(0 :: int) \<le> int (length buffer)" "- SslWriteFailed \<le> int (length buffer)" by simp_all
  ultimately show ?thesis using write_result [of L buffer S] by auto
qed

section \<open>A lost connection and the node\<close>

text \<open>What the node sees of its connection at its next read, and of the text when that fails.\<close>

definition reads_ssl :: "'j env \<Rightarrow> nat \<Rightarrow> ssl_lib \<Rightarrow> SSLconnect \<Rightarrow> bool" where
  "reads_ssl E io L S \<longleftrightarrow> e_sslRead E io ReadBufferSize = fst (SSL_sslRead L ReadBufferSize S)
     \<and> e_sslError E (io + 1) = sc_errorMsg (snd (SSL_sslRead L ReadBufferSize S))"

lemma response_read_failed:
  assumes "cn_workStatus n = NodeStarted" and "\<not> cn_releasingFlag n" and "u_isSsl (cn_url n)" and "e_calloc (n_env N) ReadBufferSize"
    and "reads_ssl (n_env N) (cn_io n) L S" and "snd (fst (SSL_sslRead L ReadBufferSize S)) < 0"
  shows "response_receive N R n = Some (- NlsReceiveFailed, False,
    n\<lparr>cn_io := cn_io n + 1, cn_nodeErrMsg := sc_errorMsg (snd (SSL_sslRead L ReadBufferSize S))\<rparr>)"
proof -
  obtain data r where d: "fst (SSL_sslRead L ReadBufferSize S) = (data, r)" by fastforce
  with assms(6) have "r < 0" by simp
  with assms d show ?thesis
    by (simp add: response_receive_def webSocketResponse_def nlsReceive_def sslRead_def reads_ssl_def Let_def)
qed

text \<open>C14. A TLS connection that fails while the node reads is repaired behind the user's back: with reconnection enabled, each of the first four
  failures in a row closes the connection and starts a reconnection, and the listener hears nothing of it.\<close>

theorem lost_connection_is_repaired:
  assumes "check_node N W = Some Success" and "open_node rp (wt_node W)" and "cn_workStatus (wt_node W) = NodeStarted"
    and "\<not> cn_releasingFlag (wt_node W)" and "u_isSsl (cn_url (wt_node W))" and "e_calloc (n_env N) ReadBufferSize"
    and "reads_ssl (n_env N) (cn_io (wt_node W)) L S" and "sc_ssl S \<noteq> None" and "snd (fst (SSL_sslRead L ReadBufferSize S)) < 0"
    and "jl_parse (e_json (n_env N)) (c_str (sc_errorMsg (snd (SSL_sslRead L ReadBufferSize S)))) = None"
    and "rp_enableReconnect rp" and "rc_state (cn_reconnection (wt_node W)) \<in> {NoReconnection, NewReconnectionStarting}"
    and "rc_reconnected_count (cn_reconnection (wt_node W)) < 4" and "\<forall>i. e_event_add (n_env N) i = Success"
  shows "\<exists>W'. nodeResponseProcess N W = Some (- NlsReceiveFailed, W') \<and> seen W' = seen W \<and> cn_workStatus (wt_node W') = NodeClosed
    \<and> rc_state (cn_reconnection (wt_node W')) = TriggerReconnection
    \<and> rc_reconnected_count (cn_reconnection (wt_node W')) = rc_reconnected_count (cn_reconnection (wt_node W)) + 1"
proof -
  define m where "m = sc_errorMsg (snd (SSL_sslRead L ReadBufferSize S))"
  define n1 where "n1 = (wt_node W)\<lparr>cn_io := cn_io (wt_node W) + 1, cn_nodeErrMsg := m\<rparr>"
  define n2 where "n2 = do_close (n_env N) n1"
  have m: "c_str m \<noteq> []" using read_failure_marked [OF assms(8,9)] by (auto simp: m_def strstr_def str_find_def)
  have r: "nodeResponseProcess N W = Some (- NlsReceiveFailed,
      W\<lparr>wt_node := handlerTaskFailedEvent (n_env N) (c_str m) DefaultErrorCode n2\<rparr>)"
    using assms(1,3,4) response_read_failed [OF assms(3-7,9)] m
    by (simp add: nodeResponseProcess_def failed_info_def n1_def n2_def m_def Let_def)
  have o: "open_node rp n2"
    using assms(2)
    by (simp add: n2_def n1_def open_node_def do_close_def closeConnectNode_def reset_audio_frame_def close_socket_def)
  have k: "cn_callbacks n2 = seen W" "cn_reconnection n2 = cn_reconnection (wt_node W)"
    by (simp_all add: n2_def n1_def seen_def do_close_def closeConnectNode_def reset_audio_frame_def close_socket_def)
  have "DefaultErrorCode = (if DefaultErrorCode = DefaultErrorCode then getErrorCodeFromMsg (e_json (n_env N)) (c_str (c_str m)) else DefaultErrorCode)"
    using read_failure_code [OF assms(8-10)] by (simp add: m_def c_str_def)
  from repairable_code [OF o assms(11) m this _ _ _ assms(14)] assms(12,13) k r show ?thesis
    by (auto simp: seen_def reconnect_code_def Let_def)
qed

text \<open>The node of the example with reconnection and TLS, whose connection has used up its tries.\<close>

definition lost_example :: SSLconnect where
  "lost_example = connected_example\<lparr>sc_tryAgain := 3\<rparr>"

definition tls_thread :: work_thread where
  "tls_thread = thread_example\<lparr>wt_node := node_example\<lparr>cn_request := Some (request_example\<lparr>rp_enableReconnect := True\<rparr>),
     cn_url := (cn_url node_example)\<lparr>u_isSsl := True\<rparr>\<rparr>\<rparr>"

definition tls_net :: "json_value net_env" where
  "tls_net = net_example\<lparr>n_env := (env_example None)\<lparr>e_sslRead := (\<lambda>_ _. fst (SSL_sslRead ssl_example ReadBufferSize lost_example)),
     e_sslError := (\<lambda>_. sc_errorMsg (snd (SSL_sslRead ssl_example ReadBufferSize lost_example)))\<rparr>\<rparr>"

lemma tls_env: "n_env tls_net = (env_example None)\<lparr>e_sslRead := (\<lambda>_ _. fst (SSL_sslRead ssl_example ReadBufferSize lost_example)),
     e_sslError := (\<lambda>_. sc_errorMsg (snd (SSL_sslRead ssl_example ReadBufferSize lost_example)))\<rparr>"
  by (simp add: tls_net_def net_example_def)

lemma lost_read: "fst (SSL_sslRead ssl_example ReadBufferSize lost_example) = ([], - SslReadFailed)" "sc_ssl lost_example \<noteq> None"
  by (simp_all add: SSL_sslRead_def ssl_example_def lost_example_def connected_example_def SSLconnect_new_def called_def Let_def)

lemma lost_connection_is_repaired_witness:
  "\<exists>W'. nodeResponseProcess tls_net tls_thread = Some (- NlsReceiveFailed, W') \<and> seen W' = seen tls_thread
    \<and> cn_workStatus (wt_node W') = NodeClosed \<and> rc_state (cn_reconnection (wt_node W')) = TriggerReconnection
    \<and> rc_reconnected_count (cn_reconnection (wt_node W')) = rc_reconnected_count (cn_reconnection (wt_node tls_thread)) + 1"
  by (rule lost_connection_is_repaired [where rp = "request_example\<lparr>rp_enableReconnect := True\<rparr>" and L = ssl_example and S = lost_example])
    (simp_all add: reads_ssl_def lost_read tls_env check_node_def tls_thread_def thread_example_def node_example_def open_node_def
      env_example_def json_example_def request_example_def rc_init_def heap_example_def registry_example_def checkNodeExist_def)

end
