(* ===== verification/DnsThread.thy ===== *)
theory DnsThread
  imports WorkThread
begin

text \<open>
  The thread that resolves a host name with the functions of the system (\<open>async_dns_resolve_thread_fn\<close>, \<open>native_getaddrinfo\<close>,
  the parts of \<open>~ConnectNode\<close> and \<open>updateDestroyStatus\<close> that wait for it in \<open>transport/connectNode.cpp\<close>, and
  \<open>WorkThread::sysDnsEventCallback\<close>). The code between two blocking calls of the thread is one step, and so is each of the other
  functions. The results of the library are arguments of the steps. The thread detaches itself; a \<open>pthread_join\<close> of a detached
  thread is undefined, and in practice returns at once: the flag \<open>joins\<close> of the step relation says whether it waits.
\<close>

section \<open>State\<close>

type_synonym addresses = "(int \<times> string option) list"

text \<open>The fields of a node the resolution uses. \<open>dn_freed\<close>: the object was deleted; \<open>dn_check\<close>: what \<open>checkNodeExist\<close> says of it; \<open>dn_thread\<close>: the
  thread's number is not 0; \<open>dn_gaicb\<close>: the block \<open>_gaicbRequest[0]\<close> points to.\<close>

record dns_node =
  dn_freed :: bool
  dn_request :: bool
  dn_check :: int
  dn_cancelled :: bool
  dn_thread :: bool
  dn_threadExit :: bool
  dn_threadRunning :: bool
  dn_gaicb :: "nat option"
  dn_errorCode :: int
  dn_addrinfo :: addresses
  dn_event :: bool

text \<open>A thread has not run yet, waits for the block, or has ended.\<close>

datatype dns_pc = Started | Suspended nat | Gone

text \<open>A block that was allocated: whether it was freed, and whether a lookup works on it.\<close>

record gai_block =
  gb_freed :: bool
  gb_flying :: bool

text \<open>\<open>ds_reports\<close>: the error codes with which the event of the resolution was made active.\<close>

record dns_system =
  ds_node :: dns_node
  ds_threads :: "dns_pc list"
  ds_blocks :: "gai_block list"
  ds_reports :: "int list"

definition dns_init :: dns_system where
  "dns_init = \<lparr>ds_node = \<lparr>dn_freed = False, dn_request = True, dn_check = Success, dn_cancelled = False, dn_thread = False,
     dn_threadExit = False, dn_threadRunning = False, dn_gaicb = None, dn_errorCode = 0, dn_addrinfo = [], dn_event = False\<rparr>,
     ds_threads = [], ds_blocks = [], ds_reports = []\<rparr>"

definition with_node :: "(dns_node \<Rightarrow> dns_node) \<Rightarrow> dns_system \<Rightarrow> dns_system" where
  "with_node f S = S\<lparr>ds_node := f (ds_node S)\<rparr>"

definition set_block :: "nat \<Rightarrow> (gai_block \<Rightarrow> gai_block) \<Rightarrow> dns_system \<Rightarrow> dns_system" where
  "set_block b f S = S\<lparr>ds_blocks := (ds_blocks S)[b := f (ds_blocks S ! b)]\<rparr>"

section \<open>The thread\<close>

text \<open>\<open>if (_gaicbRequest[0]) free\<close>.\<close>

definition free_gaicb :: "dns_system \<Rightarrow> dns_system" where
  "free_gaicb S =
     (case dn_gaicb (ds_node S) of
        None \<Rightarrow> S
      | Some b \<Rightarrow> with_node (\<lambda>n. n\<lparr>dn_gaicb := None\<rparr>) (set_block b (\<lambda>k. k\<lparr>gb_freed := True\<rparr>) S))"

definition dns_exit :: "nat \<Rightarrow> dns_system \<Rightarrow> dns_system" where
  "dns_exit i S =
     (with_node (\<lambda>n. n\<lparr>dn_thread := False, dn_threadRunning := False\<rparr>) (free_gaicb S))\<lparr>ds_threads := (ds_threads S)[i := Gone]\<rparr>"

text \<open>The event: there is one, or \<open>event_new\<close> makes it. Then the thread ends.\<close>

definition dns_report :: "nat \<Rightarrow> int \<Rightarrow> bool \<Rightarrow> dns_system \<Rightarrow> dns_system" where
  "dns_report i err made S =
     (let S1 = with_node (\<lambda>n. n\<lparr>dn_errorCode := err\<rparr>) S in
      dns_exit i
        (if dn_event (ds_node S1) \<or> made
         then with_node (\<lambda>n. n\<lparr>dn_event := True\<rparr>) (S1\<lparr>ds_reports := ds_reports S1 @ [err]\<rparr>) else S1))"

text \<open>The block: \<open>malloc\<close> may fail.\<close>

definition take_block :: "bool \<Rightarrow> dns_system \<Rightarrow> (nat \<times> dns_system) option" where
  "take_block alloc S =
     (case dn_gaicb (ds_node S) of
        Some b \<Rightarrow> Some (b, S)
      | None \<Rightarrow>
          if alloc then
            Some (length (ds_blocks S),
              with_node (\<lambda>n. n\<lparr>dn_gaicb := Some (length (ds_blocks S))\<rparr>)
                (S\<lparr>ds_blocks := ds_blocks S @ [\<lparr>gb_freed = False, gb_flying = False\<rparr>]\<rparr>))
          else None)"

text \<open>Up to \<open>gai_suspend\<close>: \<open>err\<close> is the result of \<open>getaddrinfo_a\<close>.\<close>

definition dns_begin :: "nat \<Rightarrow> bool \<Rightarrow> int \<Rightarrow> bool \<Rightarrow> dns_system \<Rightarrow> dns_system" where
  "dns_begin i alloc err made S =
     (case take_block alloc S of
        None \<Rightarrow> dns_exit i S
      | Some (b, S1) \<Rightarrow>
          if err \<noteq> 0 then dns_report i err made S1
          else
            (let S2 = set_block b (\<lambda>k. k\<lparr>gb_flying := True\<rparr>) S1 in
             if \<not> dn_request (ds_node S2) then dns_exit i S2
             else if dn_check (ds_node S2) \<noteq> Success then dns_exit i S2
             else S2\<lparr>ds_threads := (ds_threads S2)[i := Suspended b]\<rparr>))"

text \<open>From \<open>gai_suspend\<close> on: \<open>err\<close> is its result, \<open>gerr\<close> the one of \<open>gai_error\<close>, \<open>adrs\<close> the addresses found.\<close>

definition dns_wake :: "nat \<Rightarrow> int \<Rightarrow> int \<Rightarrow> addresses \<Rightarrow> bool \<Rightarrow> dns_system \<Rightarrow> dns_system" where
  "dns_wake i err gerr adrs made S =
     (let n = ds_node S in
      if dn_threadExit n then dns_exit i S
      else if \<not> dn_thread n then dns_exit i S
      else if err \<noteq> 0 then dns_report i err made S
      else if dn_check n \<noteq> Success then dns_exit i S
      else if gerr \<noteq> 0 then dns_report i gerr made S
      else dns_report i 0 made (with_node (\<lambda>n. n\<lparr>dn_addrinfo := adrs\<rparr>) S))"

section \<open>The others\<close>

text \<open>\<open>native_getaddrinfo\<close>: its result, \<open>Success\<close> or what it failed with; \<open>err\<close> is the result of \<open>pthread_create\<close>.\<close>

definition native_getaddrinfo :: "int \<Rightarrow> dns_system \<Rightarrow> int \<times> dns_system" where
  "native_getaddrinfo err S =
     (if dn_check (ds_node S) \<noteq> Success then (dn_check (ds_node S), S)
      else if dn_cancelled (ds_node S) then (- CancelledExitStatus, S)
      else if err \<noteq> 0 then (err, with_node (\<lambda>n. n\<lparr>dn_threadRunning := False\<rparr>) S)
      else (err, with_node (\<lambda>n. n\<lparr>dn_threadRunning := True, dn_thread := True\<rparr>) (S\<lparr>ds_threads := ds_threads S @ [Started]\<rparr>)))"

text \<open>What \<open>updateDestroyStatus\<close> and the destructor do with the thread; only the destructor frees the block, and the node.\<close>

definition leave_thread :: "dns_system \<Rightarrow> dns_system" where
  "leave_thread S = (if dn_thread (ds_node S) then with_node (\<lambda>n. n\<lparr>dn_threadExit := True, dn_thread := False\<rparr>) S else S)"

definition destroy_node :: "dns_system \<Rightarrow> dns_system" where
  "destroy_node S =
     with_node (\<lambda>n. n\<lparr>dn_freed := True\<rparr>) (if dn_thread (ds_node S) then free_gaicb (leave_thread S) else S)"

text \<open>\<open>delAllEvents\<close> asks the thread to end and waits five seconds at most.\<close>

definition ask_thread :: "dns_system \<Rightarrow> dns_system" where
  "ask_thread S = (if dn_threadRunning (ds_node S) then with_node (\<lambda>n. n\<lparr>dn_threadExit := True\<rparr>) S else S)"

text \<open>The event runs on the event thread and starts the connection.\<close>

definition sysDnsEventCallback :: "'j net_env \<Rightarrow> net_event \<Rightarrow> dns_node \<Rightarrow> work_thread \<Rightarrow> (dns_node \<times> work_thread) option" where
  "sysDnsEventCallback N what d W =
     (if what = EV_READ then
        do {
          ret \<leftarrow> check_node N W;
          if ret \<noteq> Success then Some (d, W)
          else map_option (Pair (d\<lparr>dn_errorCode := 0\<rparr>)) (dnsEventCallback N (dn_errorCode d) (dn_addrinfo d) W)
        }
      else Some (d, W))"

section \<open>Steps\<close>

text \<open>\<open>Answer\<close>: the library has finished a lookup. \<open>Forgotten\<close>: the rest of the client cancels or releases the request.\<close>

inductive dns_step :: "bool \<Rightarrow> dns_system \<Rightarrow> dns_system \<Rightarrow> bool" for joins where
  Lookup: "\<not> dn_freed (ds_node S) \<Longrightarrow> joins \<longrightarrow> \<not> dn_thread (ds_node S) \<Longrightarrow> dns_step joins S (snd (native_getaddrinfo err S))"
| Begin: "i < length (ds_threads S) \<Longrightarrow> ds_threads S ! i = Started \<Longrightarrow> dns_step joins S (dns_begin i alloc err made S)"
| Answer: "b < length (ds_blocks S) \<Longrightarrow> dns_step joins S (set_block b (\<lambda>k. k\<lparr>gb_flying := False\<rparr>) S)"
| Wake: "i < length (ds_threads S) \<Longrightarrow> ds_threads S ! i = Suspended b \<Longrightarrow> err = 0 \<longrightarrow> \<not> gb_flying (ds_blocks S ! b) \<Longrightarrow>
    dns_step joins S (dns_wake i err gerr adrs made S)"
| Forgotten: "dns_step joins S (with_node (\<lambda>n. n\<lparr>dn_request := r, dn_check := k, dn_cancelled := c\<rparr>) S)"
| Callback: "dns_step joins S (with_node (\<lambda>n. n\<lparr>dn_errorCode := 0\<rparr>) S)"
| Ask: "\<not> dn_freed (ds_node S) \<Longrightarrow> dns_step joins S (ask_thread S)"
| Leave: "\<not> dn_freed (ds_node S) \<Longrightarrow> joins \<longrightarrow> \<not> dn_thread (ds_node S) \<Longrightarrow> dns_step joins S (leave_thread S)"
| Destroy: "\<not> dn_freed (ds_node S) \<Longrightarrow> joins \<longrightarrow> \<not> dn_thread (ds_node S) \<Longrightarrow> dns_step joins S (destroy_node S)"

inductive_cases dns_stepE: "dns_step joins S S'"

section \<open>What may happen\<close>

definition live_threads :: "dns_system \<Rightarrow> nat" where
  "live_threads S = length (filter (\<lambda>p. p \<noteq> Gone) (ds_threads S))"

text \<open>A thread that has not ended will read and write the node.\<close>

definition uses_freed_node :: "dns_system \<Rightarrow> bool" where
  "uses_freed_node S \<longleftrightarrow> dn_freed (ds_node S) \<and> 0 < live_threads S"

text \<open>A lookup of the library works on memory that was given back.\<close>

definition lookup_in_freed_block :: "dns_system \<Rightarrow> bool" where
  "lookup_in_freed_block S \<longleftrightarrow> (\<exists>k \<in> set (ds_blocks S). gb_freed k \<and> gb_flying k)"

named_theorems dns_simps \<open>the state of the resolution after its operations\<close>

lemma with_node_simps [dns_simps]:
  "ds_node (with_node f S) = f (ds_node S)" "ds_threads (with_node f S) = ds_threads S" "ds_reports (with_node f S) = ds_reports S"
  "ds_blocks (with_node f S) = ds_blocks S" "live_threads (with_node f S) = live_threads S"
  by (simp_all add: with_node_def live_threads_def)

lemma set_block_simps [dns_simps]:
  "ds_node (set_block b f S) = ds_node S" "ds_threads (set_block b f S) = ds_threads S" "ds_reports (set_block b f S) = ds_reports S"
  "live_threads (set_block b f S) = live_threads S"
  by (simp_all add: set_block_def live_threads_def)

lemma free_gaicb_simps [dns_simps]:
  "ds_threads (free_gaicb S) = ds_threads S" "ds_reports (free_gaicb S) = ds_reports S" "live_threads (free_gaicb S) = live_threads S"
  "dn_thread (ds_node (free_gaicb S)) = dn_thread (ds_node S)" "dn_freed (ds_node (free_gaicb S)) = dn_freed (ds_node S)"
  by (simp_all add: free_gaicb_def dns_simps split: option.split)

lemma leave_thread_simps [dns_simps]:
  "ds_threads (leave_thread S) = ds_threads S" "ds_reports (leave_thread S) = ds_reports S" "live_threads (leave_thread S) = live_threads S"
  "dn_freed (ds_node (leave_thread S)) = dn_freed (ds_node S)"
  by (simp_all add: leave_thread_def dns_simps)

lemma ask_thread_simps [dns_simps]:
  "ds_threads (ask_thread S) = ds_threads S" "ds_reports (ask_thread S) = ds_reports S" "live_threads (ask_thread S) = live_threads S"
  "dn_freed (ds_node (ask_thread S)) = dn_freed (ds_node S)" "dn_thread (ds_node (ask_thread S)) = dn_thread (ds_node S)"
  by (simp_all add: ask_thread_def dns_simps)

lemma take_block_keeps:
  "take_block alloc S = Some (b, S1) \<Longrightarrow> ds_threads S1 = ds_threads S \<and> ds_reports S1 = ds_reports S \<and> live_threads S1 = live_threads S
    \<and> dn_thread (ds_node S1) = dn_thread (ds_node S) \<and> dn_freed (ds_node S1) = dn_freed (ds_node S)"
  by (auto simp: take_block_def dns_simps live_threads_def split: option.splits if_splits)

text \<open>Counting the threads that have not ended.\<close>

lemma live_update:
  assumes "i < length ps" and "ps ! i \<noteq> Gone"
  shows "length (filter (\<lambda>p. p \<noteq> Gone) ps) = Suc (length (filter (\<lambda>p. p \<noteq> Gone) (ps[i := Gone])))"
    "q \<noteq> Gone \<Longrightarrow> length (filter (\<lambda>p. p \<noteq> Gone) (ps[i := q])) = length (filter (\<lambda>p. p \<noteq> Gone) ps)"
  using assms by (induction ps arbitrary: i) (auto simp: nth_Cons' less_Suc_eq_0_disj split: nat.split)

text \<open>What a step of a thread does to the counts: it ends, having reported once at most, or goes on.\<close>

definition thread_moved :: "dns_system \<Rightarrow> dns_system \<Rightarrow> bool" where
  "thread_moved S S' \<longleftrightarrow> length (ds_threads S') = length (ds_threads S) \<and> dn_freed (ds_node S') = dn_freed (ds_node S)
     \<and> (live_threads S = Suc (live_threads S') \<and> \<not> dn_thread (ds_node S') \<and> length (ds_reports S') \<le> Suc (length (ds_reports S))
        \<or> live_threads S' = live_threads S \<and> dn_thread (ds_node S') = dn_thread (ds_node S) \<and> ds_reports S' = ds_reports S)"

lemma exit_moves:
  assumes "i < length (ds_threads R)" and "ds_threads R ! i \<noteq> Gone" and "ds_threads R = ds_threads S"
    and "dn_freed (ds_node R) = dn_freed (ds_node S)" and "length (ds_reports R) \<le> Suc (length (ds_reports S))"
  shows "thread_moved S (dns_exit i R)"
  using assms live_update(1) [OF assms(1,2)] by (simp add: thread_moved_def dns_exit_def dns_simps live_threads_def)

lemma report_moves:
  assumes "i < length (ds_threads R)" and "ds_threads R ! i \<noteq> Gone" and "ds_threads R = ds_threads S"
    and "dn_freed (ds_node R) = dn_freed (ds_node S)" and "ds_reports R = ds_reports S"
  shows "thread_moved S (dns_report i err made R)"
  unfolding dns_report_def Let_def by (rule exit_moves) (use assms in \<open>auto simp: dns_simps\<close>)

lemma begin_moves:
  assumes "i < length (ds_threads S)" and "ds_threads S ! i = Started"
  shows "thread_moved S (dns_begin i alloc err made S)"
proof (cases "take_block alloc S")
  case None
  with assms show ?thesis by (simp add: dns_begin_def exit_moves)
next
  case (Some q)
  then obtain b S1 where q: "take_block alloc S = Some (b, S1)" by (cases q) auto
  note k = take_block_keeps [OF q]
  let ?S2 = "set_block b (\<lambda>k. k\<lparr>gb_flying := True\<rparr>) S1"
  have "thread_moved S (dns_report i err made S1)" "thread_moved S (dns_exit i ?S2)"
    using assms k by (auto intro!: report_moves exit_moves simp: dns_simps)
  moreover have "thread_moved S (?S2\<lparr>ds_threads := (ds_threads ?S2)[i := Suspended b]\<rparr>)"
    using assms k live_update(2) [of i "ds_threads S" "Suspended b"] by (auto simp: thread_moved_def dns_simps live_threads_def)
  ultimately show ?thesis using q by (auto simp: dns_begin_def Let_def)
qed

lemma wake_moves:
  assumes "i < length (ds_threads S)" and "ds_threads S ! i = Suspended b"
  shows "thread_moved S (dns_wake i err gerr adrs made S)"
  unfolding dns_wake_def Let_def using assms by (auto intro!: report_moves exit_moves simp: dns_simps)

section \<open>The node outlives its thread if it waits for it\<close>

definition dns_inv :: "dns_system \<Rightarrow> bool" where
  "dns_inv S \<longleftrightarrow> live_threads S \<le> (if dn_thread (ds_node S) then 1 else 0) \<and> (dn_freed (ds_node S) \<longrightarrow> \<not> dn_thread (ds_node S))"

lemma moved_inv:
  assumes "thread_moved S S'" and "dns_inv S" and "0 < live_threads S"
  shows "dns_inv S'"
  using assms by (auto simp: thread_moved_def dns_inv_def split: if_splits)

lemma some_live: "i < length (ds_threads S) \<Longrightarrow> ds_threads S ! i \<noteq> Gone \<Longrightarrow> 0 < live_threads S"
  by (auto simp: live_threads_def filter_empty_conv dest: nth_mem)

lemma inv_step: "dns_step True S S' \<Longrightarrow> dns_inv S \<Longrightarrow> dns_inv S'"
proof (induction rule: dns_step.induct)
  case (Lookup S err)
  then show ?case by (simp add: native_getaddrinfo_def dns_inv_def dns_simps) (simp add: live_threads_def)
next
  case (Begin i S alloc err made)
  then show ?case using moved_inv [OF begin_moves] some_live by (metis dns_pc.distinct(3))
next
  case (Wake i S b err gerr adrs made)
  then show ?case using moved_inv [OF wake_moves] some_live by (metis dns_pc.distinct(5))
next
  case (Leave S)
  then show ?case by (simp add: leave_thread_def)
next
  case (Destroy S)
  then show ?case by (simp add: destroy_node_def dns_inv_def dns_simps)
qed (simp_all add: dns_inv_def dns_simps)

lemma inv_init: "dns_inv dns_init"
  by (simp add: dns_inv_def live_threads_def dns_init_def)

lemma inv_reachable: "(dns_step True)\<^sup>*\<^sup>* dns_init S \<Longrightarrow> dns_inv S"
  by (induction rule: rtranclp_induct) (simp_all add: inv_init inv_step)

text \<open>Whether the node waits or not, a thread reports once at most.\<close>

lemma reports_step: "dns_step joins S S' \<Longrightarrow> length (ds_reports S) + live_threads S \<le> length (ds_threads S) \<Longrightarrow>
    length (ds_reports S') + live_threads S' \<le> length (ds_threads S')"
proof (induction rule: dns_step.induct)
  case (Lookup S err)
  then show ?case by (simp add: native_getaddrinfo_def dns_simps) (simp add: live_threads_def)
next
  case (Begin i S alloc err made)
  then show ?case using begin_moves [of i S alloc err made] by (auto simp: thread_moved_def)
next
  case (Wake i S b err gerr adrs made)
  then show ?case using wake_moves [of i S b err gerr adrs made] by (auto simp: thread_moved_def)
qed (simp_all add: destroy_node_def dns_simps)

lemma one_report_per_thread: "(dns_step joins)\<^sup>*\<^sup>* dns_init S \<Longrightarrow> length (ds_reports S) \<le> length (ds_threads S)"
proof -
  assume "(dns_step joins)\<^sup>*\<^sup>* dns_init S"
  then have "length (ds_reports S) + live_threads S \<le> length (ds_threads S)"
    by (induction rule: rtranclp_induct) (simp add: dns_init_def live_threads_def, blast intro: reports_step)
  then show ?thesis by simp
qed

section \<open>Runs that go wrong\<close>

text \<open>A lookup was started; its thread waits for the library.\<close>

definition started_state :: dns_system where
  "started_state = dns_init\<lparr>ds_node := (ds_node dns_init)\<lparr>dn_thread := True, dn_threadRunning := True\<rparr>, ds_threads := [Started]\<rparr>"

definition waiting_state :: dns_system where
  "waiting_state = dns_init\<lparr>ds_node := (ds_node dns_init)\<lparr>dn_thread := True, dn_threadRunning := True, dn_gaicb := Some 0\<rparr>,
     ds_threads := [Suspended 0], ds_blocks := [\<lparr>gb_freed = False, gb_flying = True\<rparr>]\<rparr>"

lemma waiting_reachable: "(dns_step joins)\<^sup>*\<^sup>* dns_init waiting_state"
proof -
  have "snd (native_getaddrinfo 0 dns_init) = started_state"
    by (simp add: native_getaddrinfo_def started_state_def dns_init_def with_node_def)
  then have "dns_step joins dns_init started_state" using Lookup [of dns_init joins 0] by (simp add: dns_init_def)
  moreover have "dns_begin 0 True 0 True started_state = waiting_state"
    by (simp add: dns_begin_def take_block_def set_block_def started_state_def waiting_state_def dns_init_def with_node_def)
  then have "dns_step joins started_state waiting_state"
    using Begin [of 0 started_state joins True 0 True] by (simp add: started_state_def)
  ultimately show ?thesis by (meson rtranclp.simps)
qed

text \<open>The node is deleted while the thread waits.\<close>

lemma deleted_while_looking_up: "\<exists>S. (dns_step False)\<^sup>*\<^sup>* dns_init S \<and> uses_freed_node S"
proof (intro exI conjI)
  have "dns_step False waiting_state (destroy_node waiting_state)"
    by (rule Destroy) (simp_all add: waiting_state_def dns_init_def)
  with waiting_reachable show "(dns_step False)\<^sup>*\<^sup>* dns_init (destroy_node waiting_state)" by (rule rtranclp.rtrancl_into_rtrancl)
  show "uses_freed_node (destroy_node waiting_state)"
    unfolding uses_freed_node_def destroy_node_def by (simp add: dns_simps) (simp add: live_threads_def waiting_state_def)
qed

text \<open>A lookup that takes longer than the timeout goes on in a block the thread has freed, whether the node waits or not.\<close>

lemma timeout_frees_lookup: "\<exists>S. (dns_step joins)\<^sup>*\<^sup>* dns_init S \<and> lookup_in_freed_block S \<and> ds_reports S = [- 3]"
proof (intro exI conjI)
  let ?S = "dns_wake 0 (- 3) 0 [] True waiting_state"
  have "dns_step joins waiting_state ?S" by (rule Wake [where b = 0]) (simp_all add: waiting_state_def)
  with waiting_reachable show "(dns_step joins)\<^sup>*\<^sup>* dns_init ?S" by (rule rtranclp.rtrancl_into_rtrancl)
  have "?S = dns_report 0 (- 3) True waiting_state" by (simp add: dns_wake_def waiting_state_def dns_init_def)
  moreover have "dns_report 0 (- 3) True waiting_state = dns_exit 0 (waiting_state
      \<lparr>ds_node := (ds_node waiting_state)\<lparr>dn_errorCode := - 3, dn_event := True\<rparr>, ds_reports := [- 3]\<rparr>)" (is "_ = dns_exit 0 ?R")
    by (simp add: dns_report_def with_node_def waiting_state_def dns_init_def)
  moreover have "ds_blocks (dns_exit 0 ?R) = [\<lparr>gb_freed = True, gb_flying = True\<rparr>]" "ds_reports (dns_exit 0 ?R) = [- 3]"
    by (simp_all add: dns_exit_def free_gaicb_def set_block_def with_node_def waiting_state_def dns_init_def)
  ultimately show "lookup_in_freed_block ?S" "ds_reports ?S = [- 3]" by (simp_all add: lookup_in_freed_block_def)
qed

text \<open>A thread that gets no memory ends without a report: nothing tells the request that its host name was never looked up.\<close>

lemma silent_failure:
  assumes "dn_gaicb (ds_node S) = None"
  shows "ds_reports (dns_begin i False err made S) = ds_reports S"
  using assms by (simp add: dns_begin_def take_block_def dns_exit_def free_gaicb_def with_node_def)


end
