(* ===== verification/ThreadEnd.thy ===== *)
theory ThreadEnd
  imports NlsClient
begin

text \<open>
  The end of an event thread: the destructor of \<open>WorkThread\<close> (\<open>event/workThread.cpp\<close>), which \<open>releaseInstance\<close> runs for every thread.
  It holds the mutex of the list of requests while it deletes them, and a node that is deleted takes that mutex to leave the list.
  Proved: when it ends, the list is empty after at most 251 rounds; and with a registered request in the list it never ends.
\<close>

section \<open>The destructor\<close>

text \<open>A thread that takes a mutex it holds waits for ever; \<open>Crashes\<close> is the use of a deleted object.\<close>

datatype 'a ending = Ends 'a | Hangs | Crashes

text \<open>\<open>MUTEX_LOCK(_mtxList)\<close> in a thread that may hold the mutex already.\<close>

definition lock_list :: "bool \<Rightarrow> 'a \<Rightarrow> 'a ending" where
  "lock_list held x = (if held then Hangs else Ends x)"

text \<open>\<open>own r\<close> tells that the event thread of the node of \<open>r\<close> is the one that ends: the destructor of that node calls
  \<open>freeListNode\<close> on its list. \<open>held\<close> tells whether the caller holds the mutex of the list.\<close>

definition delete_listed :: "bool \<Rightarrow> (addr \<Rightarrow> bool) \<Rightarrow> addr \<Rightarrow> nls_client \<Rightarrow> nls_client ending" where
  "delete_listed held own request C =
     (let C1 = C\<lparr>cl_nodeManager := snd (removeRequestFromInfo (\<lambda>k m. m) (cl_nodeManager C) request False)\<rparr> in
      if request = nullptr then Ends C1
      else
        (case (if own request then lock_list held C1 else Ends C1) of
           Ends C2 \<Rightarrow> (case delete_request request C2 of None \<Rightarrow> Crashes | Some C3 \<Rightarrow> Ends C3)
         | Hangs \<Rightarrow> Hangs
         | Crashes \<Rightarrow> Crashes))"

text \<open>One pass over the list, with the mutex held: what stays in it, and the client.\<close>

fun end_pass :: "(addr \<Rightarrow> bool) \<Rightarrow> addr list \<Rightarrow> nls_client \<Rightarrow> (addr list \<times> nls_client) ending" where
  "end_pass own [] C = Ends ([], C)"
| "end_pass own (r # rs) C =
     (if r = nullptr then end_pass own rs C
      else
        (case connectNode_of (cl_heap C) r of
           None \<Rightarrow> Crashes
         | Some node \<Rightarrow>
             if node = nullptr then end_pass own rs C
             else
               (case checkRequestExist (cl_heap C) (cl_nodeManager C) r of
                  None \<Rightarrow> Crashes
                | Some (ret, status) \<Rightarrow>
                    if ret \<noteq> Success then end_pass own rs C
                    else
                      (case cl_nodes C r of
                         None \<Rightarrow> Crashes
                       | Some n \<Rightarrow>
                           if cn_workStatus n = NodeInvalid \<or> cn_workStatus n = NodeCreated then
                             (case delete_listed True own r C of
                                Ends C1 \<Rightarrow> end_pass own rs C1 | Hangs \<Rightarrow> Hangs | Crashes \<Rightarrow> Crashes)
                           else
                             (case end_pass own rs C of
                                Ends (l, C1) \<Rightarrow> Ends (r # l, C1) | Hangs \<Rightarrow> Hangs | Crashes \<Rightarrow> Crashes)))))"

text \<open>When the attempts are used up, all that is left is deleted, whatever its state.\<close>

fun end_all :: "(addr \<Rightarrow> bool) \<Rightarrow> addr list \<Rightarrow> nls_client \<Rightarrow> (addr list \<times> nls_client) ending" where
  "end_all own [] C = Ends ([], C)"
| "end_all own (r # rs) C =
     (case delete_listed True own r C of Ends C1 \<Rightarrow> end_all own rs C1 | Hangs \<Rightarrow> Hangs | Crashes \<Rightarrow> Crashes)"

text \<open>One round; \<open>world\<close> is what the other threads do while this one sleeps. \<open>try_count\<close> goes down by two: the round tests and
  decrements it, and the condition of the loop does so again.\<close>

definition end_round :: "(addr \<Rightarrow> bool) \<Rightarrow> (addr list \<times> nls_client) \<Rightarrow> int \<Rightarrow> (addr list \<times> nls_client) ending" where
  "end_round own s try_count =
     (case end_pass own (fst s) (snd s) of
        Ends (l, C) \<Rightarrow> if try_count \<le> 0 then end_all own l C else Ends (l, C)
      | Hangs \<Rightarrow> Hangs
      | Crashes \<Rightarrow> Crashes)"

function end_loop :: "(addr \<Rightarrow> bool) \<Rightarrow> (int \<Rightarrow> addr list \<times> nls_client \<Rightarrow> addr list \<times> nls_client) \<Rightarrow> int \<Rightarrow> addr list \<times> nls_client \<Rightarrow>
    (addr list \<times> nls_client) ending" where
  "end_loop own world try_count s =
     (case end_round own (world try_count s) try_count of
        Ends (l, C) \<Rightarrow> if l \<noteq> [] \<and> try_count - 1 > 0 then end_loop own world (try_count - 2) (l, C) else Ends (l, C)
      | Hangs \<Rightarrow> Hangs
      | Crashes \<Rightarrow> Crashes)"
  by pat_completeness auto
termination
  by (relation "measure (\<lambda>(own, world, try_count, s). nat try_count)") auto

declare end_loop.simps [simp del]

text \<open>The result tells whether the loop of the thread was stopped and joined. Without an instance nothing is done.\<close>

definition WorkThread_end :: "(addr \<Rightarrow> bool) \<Rightarrow> (int \<Rightarrow> addr list \<times> nls_client \<Rightarrow> addr list \<times> nls_client) \<Rightarrow> addr list \<times> nls_client \<Rightarrow>
    (bool \<times> addr list \<times> nls_client) ending" where
  "WorkThread_end own world s =
     (if cl_impl (snd s) = nullptr then Ends (False, s)
      else (case end_loop own world 500 s of Ends s' \<Rightarrow> Ends (True, s') | Hangs \<Rightarrow> Hangs | Crashes \<Rightarrow> Crashes))"

section \<open>It ends with an empty list\<close>

lemma end_all_empty: "end_all own l C = Ends (l', C') \<Longrightarrow> l' = []"
  by (induction own l C rule: end_all.induct) (auto split: ending.splits)

lemma end_loop_empty:
  "0 \<le> t \<Longrightarrow> even t \<Longrightarrow> end_loop own world t s = Ends (l, C) \<Longrightarrow> l = []"
proof (induction own world t s rule: end_loop.induct)
  case (1 own world t s)
  from "1.prems"(3) obtain l1 C1 where r: "end_round own (world t s) t = Ends (l1, C1)"
    by (subst (asm) end_loop.simps) (auto split: ending.splits)
  show ?case
  proof (cases "l1 \<noteq> [] \<and> t - 1 > 0")
    case True
    with r "1.prems"(3) have "end_loop own world (t - 2) (l1, C1) = Ends (l, C)" by (subst (asm) end_loop.simps) simp
    with "1.IH" [OF r refl True] "1.prems" True show ?thesis by simp
  next
    case False
    with r "1.prems"(3) have l: "l1 = l" by (subst (asm) end_loop.simps) (auto split: if_splits)
    show ?thesis
    proof (cases "t \<le> 0")
      case True
      with r show ?thesis by (auto simp: end_round_def l dest: end_all_empty split: ending.splits)
    next
      case pos: False
      with "1.prems"(2) have "t \<noteq> 1" by auto
      with False pos l show ?thesis by simp
    qed
  qed
qed

text \<open>A thread that could be joined has no requests left.\<close>

theorem joined_thread_has_no_requests:
  "WorkThread_end own world s = Ends (True, l, C) \<Longrightarrow> l = []"
  by (auto simp: WorkThread_end_def split: if_splits ending.splits dest: end_loop_empty [rotated 2])

section \<open>It never ends\<close>

text \<open>The request \<open>r\<close> is in the list and registered, and the list holds requests that exist.\<close>

definition holds :: "addr \<Rightarrow> addr list \<times> nls_client \<Rightarrow> bool" where
  "holds r s \<longleftrightarrow> client_ok (snd s) \<and> r \<in> set (fst s) \<and> infoByRequest (cl_nodeManager (snd s)) r \<noteq> None
     \<and> (\<forall>q \<in> set (fst s). q = nullptr \<or> connectNode_of (cl_heap (snd s)) q \<noteq> None)"

lemma check_total: "client_ok C \<Longrightarrow> checkRequestExist (cl_heap C) (cl_nodeManager C) q \<noteq> None"
  using check_node_of_request_ok [of "cl_heap C" "cl_nodeManager C"]
  by (auto simp: checkRequestExist_def client_ok_def split: option.splits)

lemma end_pass_holds:
  assumes "client_ok C" and "\<forall>q. own q" and "\<forall>q \<in> set l. q = nullptr \<or> connectNode_of (cl_heap C) q \<noteq> None"
  shows "end_pass own l C = Hangs \<or> (\<exists>l'. end_pass own l C = Ends (l', C) \<and> set l' \<subseteq> set l - {nullptr}
    \<and> (\<forall>q \<in> set l. infoByRequest (cl_nodeManager C) q \<noteq> None \<longrightarrow> q \<in> set l'))"
  using assms(3)
proof (induction l)
  case (Cons q l)
  then have IH: "end_pass own l C = Hangs \<or> (\<exists>l'. end_pass own l C = Ends (l', C) \<and> set l' \<subseteq> set l - {nullptr}
      \<and> (\<forall>q \<in> set l. infoByRequest (cl_nodeManager C) q \<noteq> None \<longrightarrow> q \<in> set l'))" by simp
  have ok: "heap_ok (cl_heap C)" "nm_ok (cl_heap C) (cl_nodeManager C)" "dom (cl_nodes C) = dom (connectNode_of (cl_heap C))"
    using assms(1) by (simp_all add: client_ok_def)
  show ?case
  proof (cases "q = nullptr")
    case True
    have "infoByRequest (cl_nodeManager C) q = None"
    proof (rule ccontr)
      assume "infoByRequest (cl_nodeManager C) q \<noteq> None"
      then obtain i where "infoByRequest (cl_nodeManager C) q = Some i" by blast
      from nm_ok_info [OF ok(2) this] True show False by (simp add: info_ok_def)
    qed
    with IH True show ?thesis by auto
  next
    case False
    with Cons.prems obtain node where node: "connectNode_of (cl_heap C) q = Some node" by auto
    with ok(1) have nn: "node \<noteq> nullptr" by (auto simp: heap_ok_def)
    from ok(3) node obtain n where n: "cl_nodes C q = Some n" by blast
    obtain ret status where c: "checkRequestExist (cl_heap C) (cl_nodeManager C) q = Some (ret, status)"
      using check_total [OF assms(1), of q] by auto
    have reg: "infoByRequest (cl_nodeManager C) q \<noteq> None \<Longrightarrow> ret = Success"
      using checkRequestExist_registered [OF ok(2), of q] c by auto
    show ?thesis
    proof (cases "ret = Success \<and> (cn_workStatus n = NodeInvalid \<or> cn_workStatus n = NodeCreated)")
      case True
      with False node nn n c assms(2) show ?thesis by (simp add: delete_listed_def lock_list_def)
    next
      case keep: False
      with False node nn n c IH reg show ?thesis by auto
    qed
  qed
qed simp

lemma end_round_holds:
  assumes "holds r s" and "\<forall>q. own q"
  shows "end_round own s t = Hangs \<or> (0 < t \<and> (\<exists>s'. end_round own s t = Ends s' \<and> holds r s'))"
proof -
  from assms(1) have h: "client_ok (snd s)" "r \<in> set (fst s)" "infoByRequest (cl_nodeManager (snd s)) r \<noteq> None"
    "\<forall>q \<in> set (fst s). q = nullptr \<or> connectNode_of (cl_heap (snd s)) q \<noteq> None" by (simp_all add: holds_def)
  consider "end_pass own (fst s) (snd s) = Hangs" | l' where "end_pass own (fst s) (snd s) = Ends (l', snd s)"
    "set l' \<subseteq> set (fst s) - {nullptr}" "\<forall>q \<in> set (fst s). infoByRequest (cl_nodeManager (snd s)) q \<noteq> None \<longrightarrow> q \<in> set l'"
    using end_pass_holds [OF h(1) assms(2) h(4)] by blast
  then show ?thesis
  proof cases
    case 1
    then show ?thesis by (simp add: end_round_def)
  next
    case p: (2 l')
    then have r: "r \<in> set l'" "holds r (l', snd s)" using h by (auto simp: holds_def)
    show ?thesis
    proof (cases "t \<le> 0")
      case True
      obtain q l where l: "l' = q # l" "q \<noteq> nullptr" using r(1) p(2) by (cases l') auto
      then have "end_all own l' (snd s) = Hangs" using assms(2) by (simp add: delete_listed_def lock_list_def)
      with True p(1) show ?thesis by (simp add: end_round_def)
    next
      case False
      with p(1) r(2) show ?thesis by (simp add: end_round_def)
    qed
  qed
qed

text \<open>C10. While the client is released with a request that is still registered, the thread that runs it waits for its own mutex,
  after 251 rounds of ten milliseconds at the latest, whatever the request does meanwhile, short of being released elsewhere.\<close>

theorem registered_request_blocks_release:
  assumes "holds r s" and "\<forall>q. own q" and "cl_impl (snd s) \<noteq> nullptr" and "\<forall>t s. holds r s \<longrightarrow> holds r (world t s)"
  shows "WorkThread_end own world s = Hangs"
proof -
  have "end_loop own world t s = Hangs" if "even t" "holds r s" "\<forall>q. own q" "\<forall>t s. holds r s \<longrightarrow> holds r (world t s)" for t s
    using that
  proof (induction own world t s rule: end_loop.induct)
    case (1 own world t s)
    then have "holds r (world t s)" by blast
    from end_round_holds [OF this "1.prems"(3), of t] show ?case
    proof (elim disjE conjE exE)
      fix s' assume s': "end_round own (world t s) t = Ends s'" "holds r s'" "0 < t"
      obtain l C where lC: "s' = (l, C)" by fastforce
      with s' have ne: "l \<noteq> []" by (auto simp: holds_def)
      have "t \<noteq> 1" using "1.prems"(1) by auto
      with s'(3) have "t - 1 > 0" by simp
      with ne have step: "l \<noteq> [] \<and> 0 < t - 1" by simp
      have "even (t - 2)" "holds r (l, C)" using "1.prems"(1) s'(2) lC by simp_all
      from "1.IH" [OF s'(1) lC [symmetric] step this "1.prems"(3,4)] have "end_loop own world (t - 2) (l, C) = Hangs" .
      with step show ?case by (subst end_loop.simps) (simp add: s'(1) [unfolded lC])
    qed (subst end_loop.simps, simp)
  qed
  from this [of 500 s] assms show ?thesis by (simp add: WorkThread_end_def)
qed

text \<open>A list of requests that were all released before is given up, and the thread is joined.\<close>

lemma released_requests_forgotten:
  assumes "client_ok C" and "cl_impl C \<noteq> nullptr"
    and "\<forall>q \<in> set l. q = nullptr \<or> (connectNode_of (cl_heap C) q \<noteq> None \<and> infoByRequest (cl_nodeManager C) q = None)"
  shows "WorkThread_end own (\<lambda>t s. s) (l, C) = Ends (True, [], C)"
proof -
  have "heap_ok (cl_heap C)" using assms(1) by (simp add: client_ok_def)
  with assms(3) have "end_pass own l C = Ends ([], C)"
    by (induction l) (auto simp: heap_ok_def checkRequestExist_def)
  with assms(2) show ?thesis by (simp add: WorkThread_end_def end_loop.simps [of own _ 500] end_round_def)
qed

section \<open>Examples\<close>

lemma client_example_holds: "holds 1 ([1], client_example)"
  using client_example_ok by (simp add: holds_def client_example_def heap_new_def)

lemma registered_request_blocks_release_witness: "WorkThread_end (\<lambda>q. True) (\<lambda>t s. s) ([1], client_example) = Hangs"
  by (rule registered_request_blocks_release [OF client_example_holds]) (simp_all add: client_example_def)

lemma joined_thread_has_no_requests_witness:
  "\<exists>l. WorkThread_end (\<lambda>q. True) (\<lambda>t s. s) ([0], client_example) = Ends (True, l, client_example) \<and> l = []"
proof -
  have "WorkThread_end (\<lambda>q. True) (\<lambda>t s. s) ([0], client_example) = Ends (True, [], client_example)"
    by (rule released_requests_forgotten [OF client_example_ok]) (simp_all add: client_example_def)
  with joined_thread_has_no_requests [OF this] show ?thesis by blast
qed

end
