(* ===== verification/TextFormat.thy ===== *)
theory TextFormat
  imports TextUtils WsHttp StdMap "HOL-Library.Product_Lexorder"
begin

text \<open>
  The texts \<open>utils/text_utils.cpp\<close> makes of the clock, of the date of the build and of \<open>iconv\<close>. The calendar (\<open>localtime\<close>), \<open>__DATE__\<close>
  and the conversion are arguments. Proved: the text of a time has a fixed layout, so that texts compare as the times do; the version
  has the date of the build; and every failure of the conversion ends in an exception.
\<close>

section \<open>Finding a character\<close>

lemma substr_one: "i < length s \<Longrightarrow> substr s i (Suc 0) = [s ! i]"
  by (simp add: substr_def take_Suc hd_drop_conv_nth)

text \<open>The text from \<open>start\<close> on is what comes before the character that is found, the character, and the rest.\<close>

lemma str_find_char_split:
  assumes "str_find s [c] start = Some seek"
  shows "start \<le> seek \<and> seek < length s \<and> drop start s = substr s start (seek - start) @ c # drop (seek + 1) s
    \<and> c \<notin> set (substr s start (seek - start))"
proof -
  from str_find_Some [OF assms] have "start \<le> seek" "seek < length s" "substr s seek (Suc 0) = [c]" by simp_all
  then have s: "start \<le> seek" "seek < length s" "s ! seek = c" using substr_one [of seek s] by simp_all
  have "c \<notin> set (substr s start (seek - start))"
  proof
    assume "c \<in> set (substr s start (seek - start))"
    then obtain i where "i < seek - start" "s ! (start + i) = c" using s(2) by (auto simp: substr_def in_set_conv_nth)
    then have "start + i < seek" "s ! (start + i) = c" by simp_all
    with str_find_first [OF assms, of "start + i"] s(2) show False by (simp add: substr_one)
  qed
  moreover have "drop start s = substr s start (seek - start) @ c # drop (seek + 1) s"
    using s by (metis Cons_nth_drop_Suc Suc_eq_plus1 append_take_drop_id drop_drop le_add_diff_inverse2 substr_def)
  ultimately show ?thesis using s by simp
qed

lemma str_find_char_absent:
  assumes "str_find s [c] start = None"
  shows "c \<notin> set (drop start s)"
proof
  assume "c \<in> set (drop start s)"
  then obtain i where "i < length s - start" "s ! (start + i) = c" by (auto simp: in_set_conv_nth)
  then have "start + i < length s" "s ! (start + i) = c" by simp_all
  with str_find_None [OF assms, of "start + i"] show False by (simp add: substr_one)
qed

section \<open>Times\<close>

text \<open>\<open>%0wd\<close> for a number that is not negative.\<close>

definition padded :: "nat \<Rightarrow> nat \<Rightarrow> string" where
  "padded w n = replicate (w - length (dec n)) (CHR ''0'') @ dec n"

text \<open>What \<open>localtime\<close> gives, as it is printed: the year and the month as they are counted by people.\<close>

record calendar =
  ca_year :: nat
  ca_mon :: nat
  ca_mday :: nat
  ca_hour :: nat
  ca_min :: nat
  ca_sec :: nat

definition time_text :: "calendar \<Rightarrow> string" where
  "time_text c = padded 4 (ca_year c) @ ''-'' @ padded 2 (ca_mon c) @ ''-'' @ padded 2 (ca_mday c) @ ''_''
     @ padded 2 (ca_hour c) @ '':'' @ padded 2 (ca_min c) @ '':'' @ padded 2 (ca_sec c)"

definition GetTime :: "calendar \<Rightarrow> nat \<Rightarrow> string" where
  "GetTime ltm tv_usec = fst (snprintf 64 (time_text ltm @ ''.'' @ padded 6 tv_usec))"

definition GetTimestamp :: "nat \<Rightarrow> nat \<Rightarrow> string" where
  "GetTimestamp tv_sec tv_usec = dec (tv_sec * 1000 + tv_usec div 1000)"

definition GetTimestampMs :: "nat \<Rightarrow> nat \<Rightarrow> 64 word" where
  "GetTimestampMs tv_sec tv_usec = of_nat tv_sec * 1000 + of_nat tv_usec div 1000"

text \<open>\<open>None\<close> is the null pointer \<open>localtime\<close> gives for a year that is no \<open>int\<close>, which is followed.\<close>

definition GetTimeFromMs :: "(nat \<Rightarrow> calendar option) \<Rightarrow> nat \<Rightarrow> string option" where
  "GetTimeFromMs localtime ms =
     map_option (\<lambda>c. fst (snprintf 64 (time_text c @ ''.'' @ padded 3 (ms mod 1000)))) (localtime (ms div 1000))"

section \<open>The version\<close>

definition monthes :: "string list" where
  "monthes = [''Jan'', ''Feb'', ''Mar'', ''Apr'', ''May'', ''Jun'', ''Jul'', ''Aug'', ''Sep'', ''Oct'', ''Nov'', ''Dec'']"

text \<open>The first name from number \<open>i\<close> on that occurs, counted from one.\<close>

fun month_of :: "nat \<Rightarrow> string list \<Rightarrow> string \<Rightarrow> nat" where
  "month_of i [] dateStr = 0"
| "month_of i (m # ms) dateStr = (if str_find dateStr m 0 \<noteq> None then i + 1 else month_of (i + 1) ms dateStr)"

definition GetVersion :: "string \<Rightarrow> string \<Rightarrow> string" where
  "GetVersion dateStr sdk_v =
     (let year = atoi (drop (length dateStr - 4) dateStr);
          month = month_of 0 monthes dateStr;
          day = atoi (substr dateStr 4 2) in
      ''V'' @ c_str sdk_v @ ''-'' @ padded 4 (nat year) @ padded 2 month @ padded 2 (nat day))"

section \<open>Conversion\<close>

text \<open>\<open>iconv_open\<close> answers with a descriptor, which is \<open>- 1\<close> when it fails; \<open>iconv\<close> with the bytes it wrote, or \<open>None\<close>. The
  third result of \<open>codeConvert\<close> are the descriptors that stay open.\<close>

record iconv_lib =
  ic_open :: "string \<Rightarrow> string \<Rightarrow> int"
  ic_convert :: "int \<Rightarrow> string \<Rightarrow> nat \<Rightarrow> string option"

definition codeConvert :: "iconv_lib \<Rightarrow> string \<Rightarrow> string \<Rightarrow> string \<Rightarrow> nat \<Rightarrow> int \<times> string \<times> int list" where
  "codeConvert I from_charset to_charset inbuf outlen =
     (let cd = ic_open I to_charset from_charset in
      if cd = 0 then (- IconvOpenFailed, [], [])
      else
        (case ic_convert I cd inbuf outlen of
           None \<Rightarrow> (- IconvFailed, [], if cd = - 1 then [] else [cd])
         | Some out \<Rightarrow> (Success, out @ replicate (outlen - length out) (char_of (0 :: nat)), [])))"

text \<open>\<open>None\<close> is the exception of the \<open>std::string\<close> that is made of a null pointer.\<close>

definition utf8ToGbk :: "iconv_lib \<Rightarrow> string \<Rightarrow> string option" where
  "utf8ToGbk I strUTF8 =
     (let inputLen = length strUTF8; msg = c_str strUTF8;
          (res, outbuf, leaked) = codeConvert I ''UTF-8'' ''GBK'' (msg @ replicate (inputLen - length msg) (char_of (0 :: nat))) (inputLen * 20) in
      if res < 0 then None else Some (c_str outbuf))"

section \<open>Fixed width\<close>

lemma padded_one: "n < 10 \<Longrightarrow> padded (Suc 0) n = [char_of (48 + n)]"
  by (simp add: padded_def dec.simps [of n])

lemma zero_char: "char_of (48 :: nat) = CHR ''0''"
proof -
  have "of_char (CHR ''0'') = (48 :: nat)" by simp
  then show ?thesis by (metis char_of_char)
qed

lemma padded_Suc:
  assumes "0 < w"
  shows "padded (Suc w) n = padded w (n div 10) @ [char_of (48 + n mod 10)]"
proof (cases "n < 10")
  case True
  then have "dec n = [char_of (48 + n)]" "dec (n div 10) = ''0''" by (simp_all add: dec.simps [of n] dec.simps [of 0] zero_char)
  moreover have "replicate w (CHR ''0'') = replicate (w - 1) (CHR ''0'') @ ''0''"
    using assms replicate_append_same [of "w - 1" "CHR ''0''"] by (cases w) simp_all
  ultimately show ?thesis using True by (simp add: padded_def)
next
  case False
  then have "dec n = dec (n div 10) @ [char_of (48 + n mod 10)]" by (simp add: dec.simps [of n])
  then show ?thesis by (simp add: padded_def)
qed

lemma padded_length: "0 < w \<Longrightarrow> n < 10 ^ w \<Longrightarrow> length (padded w n) = w"
  using dec_length [of n w] by (simp add: padded_def)

lemma padded_digits: "list_all is_digit (padded w n)"
  using dec_digits [of n] by (auto simp: padded_def list_all_iff is_digit_def)

lemma str_less_append:
  "length a = length b \<Longrightarrow> str_less (a @ x) (b @ y) \<longleftrightarrow> str_less a b \<or> a = b \<and> str_less x y"
  by (induction a b rule: list_induct2) auto

lemma str_less_digit:
  fixes m n :: nat
  assumes "m < 10" and "n < 10"
  shows "(str_less [char_of (48 + m)] [char_of (48 + n)] \<longleftrightarrow> m < n) \<and> ((char_of (48 + m) :: char) = char_of (48 + n) \<longleftrightarrow> m = n)"
proof -
  have "(of_char (char_of (48 + k) :: char) :: nat) = 48 + k" if "k < 10" for k using that by simp
  from this [OF assms(1)] this [OF assms(2)] show ?thesis by (simp only: str_less.simps) (metis add_left_cancel add_less_cancel_left)
qed

lemma less_by_digits:
  fixes m n k :: nat
  shows "m < n \<longleftrightarrow> m div k < n div k \<or> m div k = n div k \<and> m mod k < n mod k"
proof (cases "m div k" "n div k" rule: linorder_cases)
  case less
  then have "\<not> n \<le> m" using div_le_mono [of n m k] by linarith
  with less show ?thesis by simp
next
  case equal
  then have "m div k * k = n div k * k" by simp
  with div_mult_mod_eq [of m k] div_mult_mod_eq [of n k] have "m < n \<longleftrightarrow> m mod k < n mod k" by linarith
  with equal show ?thesis by simp
next
  case greater
  then have "\<not> m \<le> n" using div_le_mono [of m n k] by linarith
  with greater show ?thesis by simp
qed

lemma padded_order:
  assumes "0 < w" and "m < 10 ^ w" and "n < 10 ^ w"
  shows "(str_less (padded w m) (padded w n) \<longleftrightarrow> m < n) \<and> (padded w m = padded w n \<longleftrightarrow> m = n)"
  using assms
proof (induction w arbitrary: m n)
  case (Suc w)
  show ?case
  proof (cases "w = 0")
    case True
    with Suc.prems show ?thesis by (auto simp: padded_one)
  next
    case False
    have d: "m div 10 < 10 ^ w" "n div 10 < 10 ^ w" using Suc.prems by (simp_all add: less_mult_imp_div_less mult.commute)
    with padded_length False have l: "length (padded w (m div 10)) = length (padded w (n div 10))" by simp
    have eq: "m = n \<longleftrightarrow> m div 10 = n div 10 \<and> m mod 10 = n mod 10" by (metis div_mult_mod_eq)
    have p: "padded (Suc w) k = padded w (k div 10) @ [char_of (48 + k mod 10)]" for k
      using False by (simp add: padded_Suc)
    have "m mod 10 < 10" "n mod 10 < 10" by simp_all
    from str_less_digit [OF this] Suc.IH [OF _ d] False
    have "str_less (padded (Suc w) m) (padded (Suc w) n) \<longleftrightarrow> m div 10 < n div 10 \<or> m div 10 = n div 10 \<and> m mod 10 < n mod 10"
      "padded (Suc w) m = padded (Suc w) n \<longleftrightarrow> m div 10 = n div 10 \<and> m mod 10 = n mod 10"
      by (simp_all only: p str_less_append [OF l] append_eq_append_conv l list.inject simp_thms neq0_conv)
    then show ?thesis using eq less_by_digits [of m n 10] by simp
  qed
qed simp

lemma padded_compare:
  assumes "0 < w" and "m < 10 ^ w" and "n < 10 ^ w"
  shows "str_less (padded w m @ x) (padded w n @ y) \<longleftrightarrow> m < n \<or> m = n \<and> str_less x y"
  using padded_order [OF assms] str_less_append [of "padded w m" "padded w n" x y] padded_length assms by simp

section \<open>Texts of times\<close>

definition printable :: "calendar \<Rightarrow> bool" where
  "printable c \<longleftrightarrow> ca_year c < 10000 \<and> ca_mon c < 100 \<and> ca_mday c < 100 \<and> ca_hour c < 100 \<and> ca_min c < 100 \<and> ca_sec c < 100"

abbreviation (input) ca_fields :: "calendar \<Rightarrow> nat \<times> nat \<times> nat \<times> nat \<times> nat \<times> nat" where
  "ca_fields c \<equiv> (ca_year c, ca_mon c, ca_mday c, ca_hour c, ca_min c, ca_sec c)"

lemma time_text_length: "printable c \<Longrightarrow> length (time_text c) = 19"
  by (simp add: time_text_def printable_def padded_length)

lemma time_text_compare:
  assumes "printable a" and "printable b"
  shows "str_less (time_text a @ x) (time_text b @ y) \<longleftrightarrow> ca_fields a < ca_fields b \<or> ca_fields a = ca_fields b \<and> str_less x y"
  using assms unfolding printable_def time_text_def less_prod_def less_eq_prod_def
  by (simp add: padded_compare) auto

lemma GetTimeFromMs_text:
  assumes "localtime (ms div 1000) = Some c" and "printable c"
  shows "GetTimeFromMs localtime ms = Some (time_text c @ ''.'' @ padded 3 (ms mod 1000))"
  using assms time_text_length [of c] padded_length [of 3 "ms mod 1000"] by (simp add: GetTimeFromMs_def snprintf_def)

text \<open>The texts of two times compare as the times do, as long as the calendar does not go back between them (as it does when
  summer ends).\<close>

theorem times_compare_as_texts:
  assumes c: "localtime (i div 1000) = Some c" "printable c" and d: "localtime (j div 1000) = Some d" "printable d"
    and "i div 1000 < j div 1000 \<Longrightarrow> ca_fields c < ca_fields d" and "j div 1000 < i div 1000 \<Longrightarrow> ca_fields d < ca_fields c"
    and "GetTimeFromMs localtime i = Some a" and "GetTimeFromMs localtime j = Some b"
  shows "str_less a b \<longleftrightarrow> i < j"
proof -
  have ab: "a = time_text c @ ''.'' @ padded 3 (i mod 1000)" "b = time_text d @ ''.'' @ padded 3 (j mod 1000)"
    using GetTimeFromMs_text [of localtime i] GetTimeFromMs_text [of localtime j] c d assms(7,8) by simp_all
  have "str_less (padded 3 (i mod 1000)) (padded 3 (j mod 1000)) \<longleftrightarrow> i mod 1000 < j mod 1000"
    by (simp add: padded_order)
  then have s: "str_less a b \<longleftrightarrow> ca_fields c < ca_fields d \<or> ca_fields c = ca_fields d \<and> i mod 1000 < j mod 1000"
    unfolding ab using time_text_compare [OF c(2) d(2)] by simp
  note ij = less_by_digits [of i j 1000]
  consider "i div 1000 < j div 1000" | "i div 1000 = j div 1000" | "j div 1000 < i div 1000" by linarith
  then show ?thesis
  proof cases
    case 1
    with assms(5) s ij show ?thesis by blast
  next
    case 2
    with c(1) d(1) have "c = d" by simp
    with s ij 2 show ?thesis by simp
  next
    case 3
    from assms(6) [OF 3] have "\<not> ca_fields c < ca_fields d" "ca_fields c \<noteq> ca_fields d" by auto
    moreover have "\<not> i < j" using ij 3 by linarith
    ultimately show ?thesis using s by blast
  qed
qed

section \<open>The version of a build\<close>

text \<open>\<open>__DATE__\<close> as the language defines it: the day is padded with a space.\<close>

definition date_text :: "nat \<Rightarrow> nat \<Rightarrow> nat \<Rightarrow> string" where
  "date_text m d y = monthes ! (m - 1) @ '' '' @ (if d < 10 then '' '' else []) @ dec d @ '' '' @ dec y"

lemma dec_length_ge: "10 ^ k \<le> n \<Longrightarrow> k < length (dec n)"
proof (induction k arbitrary: n)
  case 0
  show ?case by simp
next
  case (Suc k)
  then have k: "10 ^ k \<le> n div 10" by (simp add: less_eq_div_iff_mult_less_eq mult.commute)
  have "(1 :: nat) \<le> 10 ^ k" by simp
  with k have "\<not> n < 10" by linarith
  with Suc.IH [OF k] show ?case by (simp add: dec.simps [of n])
qed

lemma dec_width: "10 ^ k \<le> n \<Longrightarrow> n < 10 ^ Suc k \<Longrightarrow> length (dec n) = Suc k"
  using dec_length_ge [of k n] dec_length [of n "Suc k"] by simp

lemma atoi_dec_plain: "n < 2147483648 \<Longrightarrow> atoi (dec n) = int n"
  using atoi_dec [of "[]" n] by simp

lemma atoi_space: "atoi (CHR '' '' # s) = atoi s"
  by (simp add: atoi_def c_str_def is_space_def)

lemma find_at_absent: "c \<notin> set s \<Longrightarrow> find_at (c # cs) s k = None"
  by (induction s arbitrary: k) auto

lemma month_found:
  assumes "1 \<le> m" and "m \<le> 12" and "list_all (\<lambda>c. is_digit c \<or> c = CHR '' '') rest"
  shows "month_of 0 monthes (monthes ! (m - 1) @ rest) = m"
proof -
  have absent: "find_at (c # cs) rest k = None" if "\<not> is_digit c" "c \<noteq> CHR '' ''" for c cs k
    using that assms(3) by (intro find_at_absent) (auto simp: list_all_iff)
  have "m \<in> {1, 2, 3, 4, 5, 6, 7, 8, 9, 10, 11, 12}" using assms(1,2) by simp presburger
  then show ?thesis
    by (elim insertE emptyE) (simp_all add: monthes_def str_find_def absent is_digit_def)
qed

theorem version_has_build_date:
  assumes "1 \<le> m" and "m \<le> 12" and "1 \<le> d" and "d < 32" and "1000 \<le> y" and "y < 10000"
  shows "GetVersion (date_text m d y) sdk = ''V'' @ c_str sdk @ ''-'' @ padded 4 y @ padded 2 m @ padded 2 d"
proof -
  have ly: "length (dec y) = 4" using dec_width [of 3 y] assms(5,6) by simp
  have lm: "length (monthes ! (m - 1)) = 3"
  proof -
    have "\<forall>x \<in> set monthes. length x = 3" by (simp add: monthes_def)
    moreover have "m - 1 < length monthes" using assms(1,2) by (simp add: monthes_def)
    ultimately show ?thesis by simp
  qed
  have ld: "length ((if d < 10 then '' '' else []) @ dec d) = 2"
    using dec_width [of 1 d] assms(4) by (cases "d < 10") (simp_all add: dec.simps [of d])
  define day where "day = (if d < 10 then '' '' else []) @ dec d"
  have t: "date_text m d y = monthes ! (m - 1) @ '' '' @ day @ '' '' @ dec y" by (simp add: date_text_def day_def)
  have year: "drop (length (date_text m d y) - 4) (date_text m d y) = dec y" using ly by (simp add: t)
  have "substr (date_text m d y) 4 2 = day" using lm ld by (simp add: t substr_def day_def [symmetric])
  moreover have "atoi day = int d" using assms(4) by (simp add: day_def atoi_space atoi_dec_plain)
  moreover have "month_of 0 monthes (date_text m d y) = m"
    unfolding t using dec_digits [of d] dec_digits [of y] by (intro month_found assms) (auto simp: day_def list_all_iff)
  ultimately show ?thesis using year assms(6) by (simp add: GetVersion_def atoi_dec_plain Let_def)
qed

section \<open>Failures of the conversion\<close>

text \<open>The documented behaviour of \<open>iconv\<close>: what is no descriptor is refused, and the output fits.\<close>

definition iconv_ok :: "iconv_lib \<Rightarrow> bool" where
  "iconv_ok I \<longleftrightarrow> (\<forall>s n. ic_convert I (- 1) s n = None) \<and> (\<forall>a b. ic_open I a b \<noteq> 0)"

text \<open>A conversion the library does not know is reported as a failed conversion, and no failure is reported to the caller of
  \<open>utf8ToGbk\<close>: it ends in an exception, with the descriptor left open.\<close>

theorem conversion_failures:
  assumes "iconv_ok I"
  shows "fst (codeConvert I a b s n) \<in> {Success, - IconvFailed}"
    and "ic_open I b a = - 1 \<Longrightarrow> codeConvert I a b s n = (- IconvFailed, [], [])"
    and "ic_open I b a \<noteq> - 1 \<Longrightarrow> fst (codeConvert I a b s n) \<noteq> Success \<Longrightarrow> snd (snd (codeConvert I a b s n)) = [ic_open I b a]"
  using assms by (auto simp: codeConvert_def iconv_ok_def Let_def split: option.splits)

lemma gbk_None:
  "utf8ToGbk I s = None \<longleftrightarrow>
    fst (codeConvert I ''UTF-8'' ''GBK'' (c_str s @ replicate (length s - length (c_str s)) (char_of (0 :: nat))) (length s * 20)) < 0"
  by (auto simp: utf8ToGbk_def Let_def split: prod.splits)

text \<open>What follows a NUL of the text is not converted.\<close>

lemma gbk_cut_at_nul:
  "utf8ToGbk I (s @ char_of (0 :: nat) # t) = utf8ToGbk I (s @ char_of (0 :: nat) # replicate (length t) (char_of (0 :: nat)))"
proof -
  have "c_str (s @ char_of (0 :: nat) # u) = c_str s" for u by (induction s) (simp_all add: c_str_def)
  then show ?thesis by (simp add: utf8ToGbk_def)
qed

section \<open>Examples\<close>

lemma version_has_build_date_witness:
  "GetVersion (date_text 3 7 2024) ''3.2'' = ''V3.2-20240307''"
proof -
  have "padded 4 2024 = ''2024''" "padded 2 3 = ''03''" "padded 2 7 = ''07''" by code_simp+
  then show ?thesis using version_has_build_date [of 3 7 2024 "''3.2''"] by (simp add: c_str_def)
qed

definition first_day :: "nat \<Rightarrow> calendar option" where
  "first_day s = Some \<lparr>ca_year = 1970, ca_mon = 1, ca_mday = 1, ca_hour = s div 3600, ca_min = s div 60 mod 60, ca_sec = s mod 60\<rparr>"

lemma times_compare_as_texts_witness:
  "\<exists>a b. GetTimeFromMs first_day 59999 = Some a \<and> GetTimeFromMs first_day 60000 = Some b \<and> str_less a b"
proof -
  obtain c d where c: "first_day (59999 div 1000) = Some c" "printable c" and d: "first_day (60000 div 1000) = Some d" "printable d"
    and cd: "ca_fields c < ca_fields d"
    by (auto simp: first_day_def printable_def)
  obtain a b where "GetTimeFromMs first_day 59999 = Some a" "GetTimeFromMs first_day 60000 = Some b"
    using c d by (simp add: GetTimeFromMs_def)
  with times_compare_as_texts [OF c d cd _ this] show ?thesis by simp
qed

lemma GetTime_example: "GetTime \<lparr>ca_year = 2024, ca_mon = 3, ca_mday = 7, ca_hour = 9, ca_min = 5, ca_sec = 0\<rparr> 42 = ''2024-03-07_09:05:00.000042''"
  by code_simp

end
