(* ===== verification/VipServer.thy ===== *)
theory VipServer
  imports Url TextFormat
begin

text \<open>
  The address of the service from a vipserver, as a private cloud is built (\<open>ENABLE_VIPSERVER\<close>): \<open>vipServerListGetUrlImpl\<close> and
  \<open>vipServerGetIp\<close> of \<open>framework/common/nlsClientImpl.cpp\<close>. The vipserver client is a closed library: its three calls are a record of
  functions on its state.
\<close>

section \<open>One server\<close>

record 's vip_lib =
  vl_init :: "string \<Rightarrow> 's \<Rightarrow> bool \<times> 's"
  vl_query :: "string \<Rightarrow> 's \<Rightarrow> (string \<times> int) option \<times> 's"
  vl_unInit :: "'s \<Rightarrow> 's"

record 's vip =
  vp_initialised :: bool
  vp_lib :: 's
  vp_url :: string

abbreviation (input) VipServerPort :: int where
  "VipServerPort \<equiv> 80"

definition vip_url :: "string \<Rightarrow> int \<Rightarrow> string" where
  "vip_url ip port = fst (snprintf 256 (''ws://'' @ c_str ip @ '':'' @ dec_int port @ ''/ws/v1''))"

text \<open>The library is told its server once; both queries are made, and only the second counts.\<close>

definition vip_start :: "'s vip_lib \<Rightarrow> string \<Rightarrow> 's vip \<Rightarrow> bool \<times> 's vip" where
  "vip_start V buff S =
     (if vp_initialised S then (True, S)
      else (let (ok, l) = vl_init V buff (vp_lib S) in (ok, S\<lparr>vp_initialised := ok, vp_lib := l\<rparr>)))"

definition vipServerGetIp :: "'s vip_lib \<Rightarrow> string \<Rightarrow> int \<Rightarrow> string \<Rightarrow> 's vip \<Rightarrow> int \<times> 's vip" where
  "vipServerGetIp V domain port target S =
     (if domain = [] \<or> target = [] \<or> port < 0 then (- InvalidInputParam, S)
      else
        (let tmpPort = (if port = 0 then VipServerPort else port);
             (ok, S1) = vip_start V (fst (snprintf 512 (c_str domain @ '':'' @ dec_int tmpPort))) S in
         if \<not> ok then (- VipClientInitFailed, S1)
         else
           (let (_, l1) = vl_query V (c_str target) (vp_lib S1);
                (answer, l2) = vl_query V (c_str target) l1;
                S2 = S1\<lparr>vp_lib := l2\<rparr> in
            case answer of
              None \<Rightarrow> (- VipClientQueryIpFailed, S2)
            | Some (ip, p) \<Rightarrow> (Success, S2\<lparr>vp_url := vip_url ip p\<rparr>))))"

section \<open>A list of servers\<close>

text \<open>The name and the port of an entry; without a port it gets the one given.\<close>

definition name_and_port :: "string \<Rightarrow> int \<Rightarrow> string \<times> int" where
  "name_and_port buff port =
     (case str_find buff '':'' 0 of
        None \<Rightarrow> (buff, port)
      | Some portSeek \<Rightarrow> (take portSeek buff, if drop (portSeek + 1) buff \<noteq> [] then atoi (drop (portSeek + 1) buff) else port))"

definition vip_unInit :: "'s vip_lib \<Rightarrow> 's vip \<Rightarrow> 's vip" where
  "vip_unInit V S = S\<lparr>vp_initialised := False, vp_lib := vl_unInit V (vp_lib S)\<rparr>"

text \<open>The loop from \<open>domainStart\<close> on, and what follows it. \<open>port\<close> lives as long as the loop.\<close>

function vip_loop :: "'s vip_lib \<Rightarrow> string \<Rightarrow> string \<Rightarrow> nat \<Rightarrow> int \<Rightarrow> 's vip \<Rightarrow> int \<times> 's vip" where
  "vip_loop V domains target start port S =
     (case str_find domains '','' start of
        Some seek \<Rightarrow>
          if start \<noteq> seek then
            (let (ip, p) = name_and_port (substr domains start (seek - start)) port;
                 (ret, S1) = vipServerGetIp V ip p target S in
             if ret = Success then (Success, S1) else vip_loop V domains target (seek + 1) p (vip_unInit V S1))
          else vip_loop V domains target (seek + 1) port S
      | None \<Rightarrow>
          if drop start domains \<noteq> [] then
            (let (ip, p) = name_and_port (drop start domains) VipServerPort in vipServerGetIp V ip p target S)
          else (Success, S))"
  by pat_completeness auto
termination
  by (relation "measure (\<lambda>(V, domains, target, start, port, S). Suc (length domains) - start)")
     (auto dest!: str_find_Some)

declare vip_loop.simps [simp del]

definition vipServerListGetUrlImpl :: "'s vip_lib \<Rightarrow> string \<Rightarrow> string \<Rightarrow> 's vip \<Rightarrow> int \<times> 's vip" where
  "vipServerListGetUrlImpl V domains target S = vip_loop V domains target 0 VipServerPort S"

text \<open>\<open>instance\<close> tells whether the client exists.\<close>

definition vipServerListGetUrl :: "'s vip_lib \<Rightarrow> bool \<Rightarrow> string \<Rightarrow> string \<Rightarrow> 's vip \<Rightarrow> int \<times> 's vip" where
  "vipServerListGetUrl V inst domains target S =
     (if inst then vipServerListGetUrlImpl V domains target S else (- EventClientEmpty, S))"

section \<open>The list as a sequence of attempts\<close>

text \<open>The reference: the list is cut at its commas; an empty entry is no attempt, an entry without a port is tried with that of
  the attempt before it, the last entry with 80.\<close>

fun attempts :: "int \<Rightarrow> string list \<Rightarrow> (string \<times> int) list" where
  "attempts port [] = []"
| "attempts port [x] = (if x = [] then [] else [name_and_port x VipServerPort])"
| "attempts port (x # y # xs) =
     (if x = [] then attempts port (y # xs)
      else name_and_port x port # attempts (snd (name_and_port x port)) (y # xs))"

text \<open>The attempts in order until one succeeds; \<open>closed\<close> tells that the list ends with an entry, whose result stands.\<close>

fun first_answer :: "'s vip_lib \<Rightarrow> string \<Rightarrow> bool \<Rightarrow> (string \<times> int) list \<Rightarrow> 's vip \<Rightarrow> int \<times> 's vip" where
  "first_answer V target closed [] S = (Success, S)"
| "first_answer V target closed ((ip, p) # es) S =
     (let (ret, S1) = vipServerGetIp V ip p target S in
      if ret = Success \<or> (es = [] \<and> closed) then (ret, S1) else first_answer V target closed es (vip_unInit V S1))"

abbreviation (input) entries :: "string \<Rightarrow> string list" where
  "entries \<equiv> cut_pieces (CHR '','') []"

lemma cut_pieces_neq_Nil [simp]: "cut_pieces d acc s \<noteq> []"
  by (induction s arbitrary: acc) auto

lemma find_comma:
  assumes "str_find s [c] start = Some seek"
  shows "cut_pieces c [] (drop start s) = substr s start (seek - start) # cut_pieces c [] (drop (seek + 1) s)"
  using str_find_char_split [OF assms] cut_pieces_append [of c "substr s start (seek - start)" "[]"] by simp

lemma find_no_comma:
  assumes "str_find s [c] start = None" and "start \<le> length s"
  shows "cut_pieces c [] (drop start s) = [drop start s]"
  using cut_pieces_last [OF str_find_char_absent [OF assms(1)], of "[]"] by simp

lemma attempts_Cons: "xs \<noteq> [] \<Longrightarrow> attempts port (x # xs) =
    (if x = [] then attempts port xs else name_and_port x port # attempts (snd (name_and_port x port)) xs)"
  by (cases xs) simp_all

lemma attempts_Nil: "attempts port xs = [] \<longleftrightarrow> (\<forall>x \<in> set xs. x = [])"
  by (induction port xs rule: attempts.induct) auto

lemma vip_loop_attempts:
  assumes "start \<le> length domains"
  shows "vip_loop V domains target start port S =
    first_answer V target (last (entries (drop start domains)) \<noteq> []) (attempts port (entries (drop start domains))) S"
  using assms
proof (induction V domains target start port S rule: vip_loop.induct)
  case (1 V domains target start port S)
  show ?case
  proof (cases "str_find domains '','' start")
    case None
    from find_no_comma [OF None "1.prems"] show ?thesis
      by (subst vip_loop.simps) (simp add: None split: prod.splits)
  next
    case (Some seek)
    from str_find_Some [OF Some] have s: "seek + 1 \<le> length domains" by simp
    note cut = find_comma [OF Some]
    show ?thesis
    proof (cases "start = seek")
      case True
      with "1.IH"(2) [OF Some _ s] cut show ?thesis
        by (subst vip_loop.simps) (simp add: Some [unfolded True] True attempts_Cons substr_def)
    next
      case False
      obtain ip p where n: "name_and_port (substr domains start (seek - start)) port = (ip, p)" by fastforce
      obtain ret S1 where g: "vipServerGetIp V ip p target S = (ret, S1)" by fastforce
      have ne: "substr domains start (seek - start) \<noteq> []" using False str_find_Some [OF Some] by (auto simp: substr_def)
      have closed: "\<not> (attempts p (entries (drop (seek + 1) domains)) = [] \<and> last (entries (drop (seek + 1) domains)) \<noteq> [])"
        using last_in_set [of "entries (drop (seek + 1) domains)"] by (auto simp: attempts_Nil)
      show ?thesis
      proof (cases "ret = Success")
        case True
        then show ?thesis using cut ne n g False by (subst vip_loop.simps) (simp add: Some attempts_Cons)
      next
        case fail: False
        from "1.IH"(1) [OF Some False n [symmetric] refl g [symmetric] refl fail s] closed show ?thesis
          using cut ne n g False fail by (subst vip_loop.simps) (auto simp: Some attempts_Cons)
      qed
    qed
  qed
qed

text \<open>The servers are asked in the order of the list, and the first that answers gives the address.\<close>

theorem servers_in_order:
  "vipServerListGetUrlImpl V domains target S =
    first_answer V target (last (entries domains) \<noteq> []) (attempts VipServerPort (entries domains)) S"
  using vip_loop_attempts [of 0 domains V target VipServerPort S] by (simp add: vipServerListGetUrlImpl_def)

section \<open>What the answer says\<close>

lemma vip_start_url: "vp_url (snd (vip_start V buff S)) = vp_url S"
  by (simp add: vip_start_def split: prod.split)

lemma server_answers:
  "(fst (vipServerGetIp V domain port target S) = Success \<and>
      (\<exists>l ip p. fst (vl_query V (c_str target) l) = Some (ip, p) \<and> vp_url (snd (vipServerGetIp V domain port target S)) = vip_url ip p)) \<or>
   (fst (vipServerGetIp V domain port target S) < Success \<and> vp_url (snd (vipServerGetIp V domain port target S)) = vp_url S)"
proof -
  obtain ok S1 where 1: "vip_start V (fst (snprintf 512 (c_str domain @ '':'' @ dec_int (if port = 0 then VipServerPort else port)))) S = (ok, S1)"
    by fastforce
  with vip_start_url [of V _ S] have "vp_url S1 = vp_url S" by (metis snd_conv)
  with 1 show ?thesis
    by (auto simp: vipServerGetIp_def Let_def split: prod.splits option.splits) (metis fst_conv)
qed

text \<open>An answer that was found is the address the last query gave; a failure leaves the address of the caller alone.\<close>

lemma first_answer_url:
  "(fst (first_answer V target True es S) = Success \<and> es \<noteq> [] \<and>
      (\<exists>l ip p. fst (vl_query V (c_str target) l) = Some (ip, p) \<and> vp_url (snd (first_answer V target True es S)) = vip_url ip p)) \<or>
   (es = [] \<or> fst (first_answer V target True es S) < Success) \<and> vp_url (snd (first_answer V target True es S)) = vp_url S"
proof (induction V target True es S rule: first_answer.induct)
  case (2 V target ip p es S)
  obtain ret S1 where g: "vipServerGetIp V ip p target S = (ret, S1)" by fastforce
  have u: "vp_url (vip_unInit V S1) = vp_url S1" by (simp add: vip_unInit_def)
  show ?case
  proof (cases "ret = Success \<or> es = []")
    case True
    with server_answers [of V ip p target S] g show ?thesis by auto
  next
    case False
    with 2 [OF g [symmetric] refl] server_answers [of V ip p target S] g u show ?thesis by auto
  qed
qed simp

theorem found_address:
  assumes "last (entries domains) \<noteq> []"
  shows "(fst (vipServerListGetUrlImpl V domains target S) = Success \<and>
      (\<exists>l ip p. fst (vl_query V (c_str target) l) = Some (ip, p) \<and> vp_url (snd (vipServerListGetUrlImpl V domains target S)) = vip_url ip p)) \<or>
    (fst (vipServerListGetUrlImpl V domains target S) < Success \<and> vp_url (snd (vipServerListGetUrlImpl V domains target S)) = vp_url S)"
proof -
  from assms have "attempts VipServerPort (entries domains) \<noteq> []"
    using last_in_set [of "entries domains"] by (auto simp: attempts_Nil)
  with assms first_answer_url [of V target "attempts VipServerPort (entries domains)" S] show ?thesis by (auto simp: servers_in_order)
qed

text \<open>A list whose last entry is empty, and so the empty list, is answered with success when every server failed.\<close>

lemma all_failed_succeeds:
  assumes "last (entries domains) = []"
    and "\<And>ip p S. (ip, p) \<in> set (attempts VipServerPort (entries domains)) \<Longrightarrow> fst (vipServerGetIp V ip p target S) \<noteq> Success"
  shows "fst (vipServerListGetUrlImpl V domains target S) = Success \<and> vp_url (snd (vipServerListGetUrlImpl V domains target S)) = vp_url S"
proof -
  have "fst (first_answer V target False es S) = Success \<and> vp_url (snd (first_answer V target False es S)) = vp_url S"
    if "\<And>ip p S. (ip, p) \<in> set es \<Longrightarrow> fst (vipServerGetIp V ip p target S) \<noteq> Success" for es
    using that
  proof (induction es arbitrary: S)
    case (Cons e es)
    obtain ip p where e: "e = (ip, p)" by fastforce
    obtain ret S1 where g: "vipServerGetIp V ip p target S = (ret, S1)" by fastforce
    from Cons.prems [of ip p S] e g have "ret \<noteq> Success" by simp
    with Cons.IH [of "vip_unInit V S1"] Cons.prems e g server_answers [of V ip p target S] show ?case
      by (auto simp: vip_unInit_def)
  qed simp
  from this [OF assms(2)] assms(1) servers_in_order [of V domains target S] show ?thesis by simp
qed

text \<open>A server that is named after one that was reached is never asked: the library keeps the first.\<close>

lemma server_ignored:
  "vp_initialised S \<Longrightarrow> d \<noteq> [] \<Longrightarrow> d' \<noteq> [] \<Longrightarrow> 0 \<le> p \<Longrightarrow> 0 \<le> p' \<Longrightarrow> vipServerGetIp V d p target S = vipServerGetIp V d' p' target S"
  by (simp add: vipServerGetIp_def vip_start_def)

text \<open>The port of one entry is used for the next that has none, but not for the last.\<close>

lemma port_carried: "attempts VipServerPort (entries ''a:81,b,c'') = [(''a'', 81), (''b'', 81), (''c'', 80)]"
  by (simp add: name_and_port_def str_find_def atoi_def c_str_def is_space_def is_digit_def digit_val_def)

end
