(* ===== verification/TokenHttp.thy ===== *)
theory TokenHttp
  imports TokenRequest
begin

text \<open>
  The part of \<open>token/src/CommonClient.cpp\<close> and \<open>Utils.cpp\<close> that the token client itself does not reach: the request signed over its headers
  (\<open>buildTokenHttpRequest\<close>) with the canonical text of the headers, \<open>UrlDecode\<close> and \<open>GenerateUuid\<close>. Proved: the canonical text
  does not depend on the order or the spelling of the headers, no value can add a line to it, and decoding undoes encoding.
\<close>

section \<open>Utilities\<close>

text \<open>\<open>curl_easy_unescape\<close> with its length, so that NUL bytes stay.\<close>

definition UrlDecode :: "(string \<Rightarrow> string) \<Rightarrow> string \<Rightarrow> string" where
  "UrlDecode unescape src = unescape src"

text \<open>The text of libuuid is written into an array of 36 bytes, \<open>None\<close> when it does not fit with its NUL.\<close>

definition GenerateUuid :: "string \<Rightarrow> string option" where
  "GenerateUuid unparsed = (if length (c_str unparsed) + 1 \<le> 36 then Some (c_str unparsed) else None)"

section \<open>The text of the headers\<close>

abbreviation (input) linefeed :: char where
  "linefeed \<equiv> char_of (10 :: nat)"

definition canonical_value :: "string \<Rightarrow> string" where
  "canonical_value value =
     string_replace (char_of (12 :: nat)) [] '' '' (string_replace (char_of (13 :: nat)) [] '' ''
       (string_replace linefeed [] '' '' (string_replace (char_of (9 :: nat)) [] '' '' value)))"

definition materials :: "params \<Rightarrow> params" where
  "materials headers =
     fold (\<lambda>(k, v) m. let key = map to_lower k in if is_prefix ''x-acs-'' key then put key (canonical_value v) m else m) headers []"

definition signed_line :: "string \<times> string \<Rightarrow> string" where
  "signed_line = (\<lambda>(k, v). k @ '':'' @ v @ [linefeed])"

definition canonicalizedHeaders :: "params \<Rightarrow> string" where
  "canonicalizedHeaders headers = concat (map signed_line (materials headers))"

section \<open>The request\<close>

record week_tm = tm +
  tm_wday :: nat

definition week_days :: "string list" where
  "week_days = [''Sun'', ''Mon'', ''Tue'', ''Wed'', ''Thu'', ''Fri'', ''Sat'']"

definition month_names :: "string list" where
  "month_names = [''Jan'', ''Feb'', ''Mar'', ''Apr'', ''May'', ''Jun'', ''Jul'', ''Aug'', ''Sep'', ''Oct'', ''Nov'', ''Dec'']"

text \<open>The empty string for a number that is no day or month.\<close>

definition name_of :: "string list \<Rightarrow> nat \<Rightarrow> string" where
  "name_of names i = (if i < length names then names ! i else [])"

definition http_date :: "week_tm \<Rightarrow> string" where
  "http_date gmt = name_of week_days (tm_wday gmt) @ '', '' @ dec2 (tm_mday gmt) @ '' '' @ name_of month_names (tm_mon gmt) @ '' ''
     @ dec (1900 + tm_year gmt) @ '' '' @ dec2 (tm_hour gmt) @ '':'' @ dec2 (tm_min gmt) @ '':'' @ dec2 (tm_sec gmt) @ '' GMT''"

text \<open>The query: the parameters with a value, as they are.\<close>

definition header_query :: "params \<Rightarrow> string" where
  "header_query parameters =
     (let queryParams = fold (\<lambda>(k, v) m. if v \<noteq> [] then put k v m else m) parameters [] in
      drop 1 (concat (map (\<lambda>(k, v). ''&'' @ k @ ''='' @ v) queryParams)))"

text \<open>The headers in the order they are set.\<close>

definition http_headers :: "'j token_lib \<Rightarrow> week_tm \<Rightarrow> Url \<Rightarrow> string \<Rightarrow> string \<Rightarrow> string \<Rightarrow> HttpMessage" where
  "http_headers L gmt url sessionToken version content =
     (let m0 = setHeader ''Accept'' ''application/json'' HttpMessage_new;
          m1 = setHeader ''Content-Length'' (dec (length content)) m0;
          m2 = setHeader ''Content-Type'' ''application/octet-stream;charset=utf-8'' m1;
          m3 = setHeader ''Content-MD5'' (tl_md5 L content) m2;
          m4 = setHeader ''Date'' (http_date gmt) m3;
          m5 = setHeader ''Host'' (ur_host url) m4;
          m6 = setHeader ''x-sdk-client'' ''CPP/1.3.2'' m5;
          m7 = (if sessionToken \<noteq> [] then setHeader ''x-acs-security-token'' sessionToken m6 else m6);
          m8 = setHeader ''x-acs-signature-method'' ''HMAC-SHA1'' m7;
          m9 = setHeader ''x-acs-signature-version'' ''1.0'' m8;
          m10 = setHeader ''x-acs-version'' version m9;
          m11 = setHeader ''x-sdk-invoke-type'' ''common'' m10;
          m12 = setHeader ''Cache-Control'' ''no-cache'' m11;
          m13 = setHeader ''Pragma'' ''no-cache'' m12 in
      setHeader ''Connection'' ''keep-alive'' m13)"

definition plaintext :: "HttpMethod \<Rightarrow> Url \<Rightarrow> HttpMessage \<Rightarrow> string" where
  "plaintext m url msg =
     HttpMethodToString m @ [linefeed] @ header ''Accept'' msg @ [linefeed] @ header ''Content-MD5'' msg @ [linefeed]
     @ header ''Content-Type'' msg @ [linefeed] @ header ''Date'' msg @ [linefeed] @ canonicalizedHeaders (hm_headers msg)
     @ (if ur_query url = [] then ur_path url else ur_path url @ ''?'' @ ur_query url)"

text \<open>\<open>sessionToken\<close> is that of the credentials, \<open>parameters\<close> are the header parameters of the message.\<close>

definition buildTokenHttpRequest ::
  "'j token_lib \<Rightarrow> week_tm \<Rightarrow> string \<Rightarrow> Credentials \<Rightarrow> string \<Rightarrow> CommonRequest \<Rightarrow> params \<Rightarrow> HttpMethod \<Rightarrow> HttpRequest" where
  "buildTokenHttpRequest L gmt sessionToken cred endpoint msg parameters m =
     (let url = common_url endpoint (cq_resourcePath msg) (header_query parameters);
          message = http_headers L gmt url sessionToken (cq_version msg) (cq_content msg);
          sign = ''acs '' @ cr_accessKeyId cred @ '':'' @ hmac_generate L (plaintext m url message) (cr_accessKeySecret cred) in
      \<lparr>rq_url = url, rq_method = m, rq_message = setHeader ''Authorization'' sign message\<rparr>)"

section \<open>Values and lines\<close>

lemma string_replace_char: "string_replace c [] [d] s = map (\<lambda>x. if x = c then d else x) s"
proof (induction "length s" arbitrary: s rule: less_induct)
  case less
  show ?case
  proof (cases "str_find s [c] 0")
    case None
    then have "c \<notin> set s" using str_find_char(1) [of c] split_list_first [of c s] by fastforce
    with None show ?thesis by (subst string_replace.simps) (auto intro!: map_idI [symmetric])
  next
    case (Some pos)
    from str_find_Some [OF Some] have pos: "pos < length s" "take 1 (drop pos s) = [c]" by (simp_all add: substr_def)
    then have at: "s = take pos s @ c # drop (Suc pos) s"
      by (metis Cons_nth_drop_Suc One_nat_def append_take_drop_id list.inject take_Suc_Cons)
    have "c \<notin> set (take pos s)"
    proof
      assume "c \<in> set (take pos s)"
      then obtain i where "i < pos" "s ! i = c" by (auto simp: in_set_conv_nth)
      with str_find_first [OF Some, of i] pos(1) show False
        by (simp add: substr_def take_Suc hd_drop_conv_nth)
    qed
    then have "map (\<lambda>x. if x = c then d else x) (take pos s) = take pos s" by (auto intro: map_idI)
    moreover have "string_replace c [] [d] (drop (Suc pos) s) = map (\<lambda>x. if x = c then d else x) (drop (Suc pos) s)"
      using less pos(1) by simp
    ultimately have "string_replace c [] [d] s = map (\<lambda>x. if x = c then d else x) (take pos s @ c # drop (Suc pos) s)"
      by (subst string_replace.simps) (simp add: Some)
    with at show ?thesis by simp
  qed
qed

text \<open>Tabs, line feeds, carriage returns and form feeds become spaces.\<close>

lemma canonical_value_map:
  "canonical_value v = map (\<lambda>c. if c \<in> {char_of (9 :: nat), linefeed, char_of (12 :: nat), char_of (13 :: nat)} then CHR '' '' else c) v"
  unfolding canonical_value_def string_replace_char map_map comp_def by (intro map_cong refl) auto

lemma canonical_value_lines: "linefeed \<notin> set (canonical_value v)"
proof -
  have "(of_char linefeed :: nat) \<noteq> of_char (CHR '' '')" by simp
  then have "linefeed \<noteq> CHR '' ''" by metis
  then show ?thesis by (auto simp: canonical_value_map)
qed

lemma materials_snoc: "materials (hs @ [(k, v)]) =
    (if is_prefix ''x-acs-'' (map to_lower k) then put (map to_lower k) (canonical_value v) (materials hs) else materials hs)"
  by (simp add: materials_def Let_def)

lemma materials_ordered: "ordered str_less (materials hs)"
proof (induction hs rule: rev_induct)
  case Nil
  show ?case by (simp add: materials_def ordered_def)
next
  case (snoc kv hs)
  then show ?case by (cases kv) (simp add: materials_snoc put_def string_map.put_ordered)
qed

lemma materials_lines:
  assumes "\<forall>(k, v) \<in> set hs. linefeed \<notin> set k"
  shows "\<forall>(k, v) \<in> set (materials hs). linefeed \<notin> set k \<and> linefeed \<notin> set v"
proof -
  have put_values: "snd x = v \<or> x \<in> set m \<or> snd x \<in> snd ` set m" if "x \<in> set (map_put str_less k v m)" for x k v and m :: params
    using that by (induction m) (auto split: if_splits)
  have lower: "linefeed \<notin> set (map to_lower k)" if "linefeed \<notin> set k" for k
  proof
    assume "linefeed \<in> set (map to_lower k)"
    then obtain c where c: "c \<in> set k" "to_lower c = linefeed" by auto
    have "(of_char (to_lower c) :: nat) \<noteq> 10 \<or> c = to_lower c" by (auto simp: to_lower_def)
    with c that show False by auto
  qed
  show ?thesis using assms
  proof (induction hs rule: rev_induct)
    case Nil
    show ?case by (simp add: materials_def)
  next
    case (snoc kv hs)
    obtain k v where kv: "kv = (k, v)" by fastforce
    from snoc have IH: "\<forall>(k, v) \<in> set (materials hs). linefeed \<notin> set k \<and> linefeed \<notin> set v" and k: "linefeed \<notin> set k"
      by (auto simp: kv)
    have "linefeed \<notin> set (fst x) \<and> linefeed \<notin> set (snd x)" if "x \<in> set (put (map to_lower k) (canonical_value v) (materials hs))" for x
      using string_map.put_keys [OF that [unfolded put_def]] put_values [OF that [unfolded put_def]] IH lower [OF k] canonical_value_lines
      by (auto simp: case_prod_unfold)
    with IH show ?case by (auto simp: kv materials_snoc)
  qed
qed

text \<open>The text has one line for each header that is signed: a value that holds line ends adds none.\<close>

theorem one_line_per_header:
  assumes "\<forall>(k, v) \<in> set hs. linefeed \<notin> set k"
  shows "cut_pieces linefeed [] (canonicalizedHeaders hs) = map (\<lambda>(k, v). k @ '':'' @ v) (materials hs) @ [[]]"
proof -
  have "cut_pieces linefeed [] (concat (map signed_line m)) = map (\<lambda>(k, v). k @ '':'' @ v) m @ [[]]"
    if "\<forall>(k, v) \<in> set m. linefeed \<notin> set k \<and> linefeed \<notin> set v" for m
    using that
  proof (induction m)
    case (Cons kv m)
    obtain k v where kv: "kv = (k, v)" by fastforce
    have "(of_char linefeed :: nat) \<noteq> of_char (CHR '':'')" by simp
    then have "linefeed \<noteq> CHR '':''" by metis
    with Cons.prems kv have "linefeed \<notin> set (k @ '':'' @ v)" by simp
    from cut_pieces_append [OF this, of "[]"] Cons kv show ?case by (simp add: signed_line_def)
  qed simp
  with materials_lines [OF assms] show ?thesis by (simp add: canonicalizedHeaders_def)
qed

section \<open>Order and spelling do not matter\<close>

lemma ordered_get: "map_get str_less k m = map_of m k"
  by (induction m) auto

lemma ordered_unique:
  assumes "ordered str_less m" and "ordered str_less m'" and "map_of m = map_of m'"
  shows "m = m'"
  using assms
proof (induction m arbitrary: m')
  case Nil
  then show ?case by (metis map_of_eq_empty_iff map_of.simps(1))
next
  case (Cons kv m)
  obtain k v where kv: "kv = (k, v)" by fastforce
  from Cons.prems(3) kv have "map_of m' k = Some v" by (metis map_of_Cons_code(2))
  then obtain k' v' n where m': "m' = (k', v') # n" by (cases m') auto
  have above: "map_of m x = None" if "\<not> str_less k x" for x
    using Cons.prems(1) kv that by (auto simp: ordered_def map_of_eq_None_iff)
  have above': "map_of n x = None" if "\<not> str_less k' x" for x
    using Cons.prems(2) m' that by (auto simp: ordered_def map_of_eq_None_iff)
  have "map_of ((k, v) # m) x = map_of ((k', v') # n) x" for x
    using fun_cong [OF Cons.prems(3), of x] by (simp only: kv m')
  note eq = this
  have k: "k = k'"
  proof (rule ccontr)
    assume ne: "k \<noteq> k'"
    with eq [of k] eq [of k'] have "map_of n k = Some v" "map_of m k' = Some v'" by simp_all
    with above [of k'] above' [of k] have "str_less k k'" "str_less k' k" by force+
    with str_less_trans str_less_irrefl show False by blast
  qed
  with eq [of k] have v: "v = v'" by simp
  have "map_of m x = map_of n x" for x
    using eq [of x] above [of x] above' [of x] k by (cases "x = k") (auto simp: str_less_irrefl)
  with Cons.IH [of n] Cons.prems(1,2) kv m' k v show ?case by (auto simp: ordered_def)
qed

lemma materials_get:
  assumes "distinct (map (\<lambda>(k, v). map to_lower k) hs)"
  shows "map_of (materials hs) x =
    (if is_prefix ''x-acs-'' x then map_option canonical_value (map_of (map (\<lambda>(k, v). (map to_lower k, v)) hs) x) else None)"
  using assms
proof (induction hs rule: rev_induct)
  case Nil
  show ?case by (simp add: materials_def)
next
  case (snoc kv hs)
  obtain k v where kv: "kv = (k, v)" by fastforce
  let ?k = "map to_lower k"
  have d: "distinct (map (\<lambda>(k, v). map to_lower k) hs)" "?k \<notin> set (map (\<lambda>(k, v). map to_lower k) hs)"
    using snoc.prems kv by auto
  have put: "map_of (put ?k w (materials hs)) x = (if x = ?k then Some w else map_of (materials hs) x)" for w
    using string_map.get_put_same [OF materials_ordered, of ?k x w hs] string_map.get_put_other [of ?k x w "materials hs"]
    by (auto simp: put_def ordered_get same_key_def [symmetric])
  have "map_of (map (\<lambda>(k, v). (map to_lower k, v)) hs) ?k = None"
    using d(2) by (simp add: map_of_eq_None_iff case_prod_unfold comp_def image_image)
  then show ?case using snoc.IH [OF d(1)] by (auto simp: kv materials_snoc put map_add_def split: option.splits)
qed

text \<open>Two collections that hold the same headers, whatever the order and the case of the names, are signed alike.\<close>

theorem headers_are_canonical:
  assumes "distinct (map (\<lambda>(k, v). map to_lower k) hs)" and "distinct (map (\<lambda>(k, v). map to_lower k) hs')"
    and "set (map (\<lambda>(k, v). (map to_lower k, v)) hs) = set (map (\<lambda>(k, v). (map to_lower k, v)) hs')"
  shows "canonicalizedHeaders hs = canonicalizedHeaders hs'"
proof -
  have "map fst (map (\<lambda>(k, v). (map to_lower k, v)) l) = map (\<lambda>(k, v). map to_lower k) l" for l :: params
    by (simp add: case_prod_unfold comp_def)
  with assms have "map_of (map (\<lambda>(k, v). (map to_lower k, v)) hs) = map_of (map (\<lambda>(k, v). (map to_lower k, v)) hs')"
    by (metis map_of_inject_set)
  with materials_get [OF assms(1)] materials_get [OF assms(2)] have "map_of (materials hs) = map_of (materials hs')"
    by (intro ext) simp
  then have "materials hs = materials hs'" by (rule ordered_unique [OF materials_ordered materials_ordered])
  then show ?thesis by (simp add: canonicalizedHeaders_def)
qed

section \<open>The rest\<close>

theorem decode_encode:
  assumes "curl_escapes L" and "unescape = pct_decode"
  shows "UrlDecode unescape (UrlEncode L s) = s"
  by (simp add: UrlDecode_def UrlEncode_pct assms pct_decode_encode)

text \<open>A uuid has 36 characters.\<close>

lemma uuid_overflows: "length (c_str unparsed) = 36 \<Longrightarrow> GenerateUuid unparsed = None"
  by (simp add: GenerateUuid_def)

text \<open>The request announces a content it does not carry.\<close>

lemma content_not_sent:
  "hm_body (rq_message (buildTokenHttpRequest L gmt sessionToken cred endpoint msg parameters m)) = None"
  by (simp add: buildTokenHttpRequest_def http_headers_def setHeader_def HttpMessage_new_def Let_def)

lemma header_put: "ordered nocaseLess (hm_headers m) \<Longrightarrow> same_key nocaseLess n n' \<Longrightarrow> header n' (setHeader n v m) = v"
  by (simp add: header_def setHeader_def header_map.get_put_same)

section \<open>Examples\<close>

lemma one_line_example:
  "canonicalizedHeaders [(''X-Acs-B'', ''1'' @ [linefeed] @ ''x-acs-c:2''), (''Host'', ''h''), (''x-acs-a'', ''3'')] =
    ''x-acs-a:3'' @ [linefeed] @ ''x-acs-b:1 x-acs-c:2'' @ [linefeed]"
  by code_simp

lemma date_example:
  "http_date \<lparr>tm_year = 124, tm_mon = 2, tm_mday = 7, tm_hour = 9, tm_min = 5, tm_sec = 0, tm_wday = 4\<rparr> = ''Thu, 07 Mar 2024 09:05:00 GMT''"
  by code_simp

end
