(* ===== verification/CurlHttp.thy ===== *)
theory CurlHttp
  imports TokenRequest
begin

text \<open>
  The transfer of the token client: \<open>CurlHttpClient::makeRequest\<close> and \<open>setCUrlProxy\<close> (\<open>token/src/CurlHttpClient.cpp\<close>), with the proxy of
  \<open>NetworkProxy.cpp\<close>. What libcurl is told is a record of options; what it does with them is an argument, which gives a result and the
  calls of the two callbacks it made.
\<close>

section \<open>The options\<close>

datatype proxy_type = NoProxy | HttpProxy | Socks5Proxy

record network_proxy =
  px_type :: proxy_type
  px_hostName :: string
  px_port :: nat
  px_user :: string
  px_password :: string

record curl_options =
  co_upload :: bool
  co_post :: bool
  co_postfields :: "byte list option"
  co_postfieldsize :: "nat option"
  co_url :: string
  co_verifypeer :: bool
  co_verifyhost :: nat
  co_httpheader :: "string list"
  co_proxytype :: "proxy_type option"
  co_proxy :: "string option"
  co_proxyuserpwd :: "string option"

definition curl_easy_init :: curl_options where
  "curl_easy_init = \<lparr>co_upload = False, co_post = False, co_postfields = None, co_postfieldsize = None, co_url = [],
     co_verifypeer = True, co_verifyhost = 2, co_httpheader = [], co_proxytype = None, co_proxy = None, co_proxyuserpwd = None\<rparr>"

text \<open>\<open>out.clear()\<close> resets the state of the stream and leaves its text.\<close>

definition setCUrlProxy :: "network_proxy \<Rightarrow> curl_options \<Rightarrow> curl_options" where
  "setCUrlProxy proxy O1 =
     (if px_type proxy = NoProxy then O1
      else
        (let out = px_hostName proxy @ '':'' @ dec (px_port proxy);
             O2 = O1\<lparr>co_proxytype := Some (if px_type proxy = Socks5Proxy then Socks5Proxy else HttpProxy),
               co_proxy := Some (c_str out)\<rparr> in
         if px_user proxy \<noteq> []
         then O2\<lparr>co_proxyuserpwd := Some (c_str (out @ px_user proxy @ '':'' @ px_password proxy))\<rparr> else O2))"

definition with_method :: "HttpRequest \<Rightarrow> curl_options \<Rightarrow> curl_options" where
  "with_method r O1 =
     (let O2 = (if rq_method r = Put then O1\<lparr>co_upload := True\<rparr> else O1) in
      if rq_method r \<noteq> Get then
        (let O3 = O2\<lparr>co_post := True\<rparr> in
         if hasBody (rq_message r)
         then O3\<lparr>co_postfields := hm_body (rq_message r), co_postfieldsize := Some (hm_bodySize (rq_message r))\<rparr>
         else O3\<lparr>co_postfields := Some []\<rparr>)
      else O2)"

definition header_list :: "HttpRequest \<Rightarrow> string list" where
  "header_list r = map (\<lambda>(name, value). c_str (name @ '': '' @ value)) (hm_headers (rq_message r))"

definition request_options :: "network_proxy \<Rightarrow> HttpRequest \<Rightarrow> curl_options" where
  "request_options proxy r =
     setCUrlProxy proxy
       ((with_method r curl_easy_init)\<lparr>co_url := c_str (Url_toString (rq_url r)), co_verifypeer := True, co_verifyhost := 2,
          co_httpheader := header_list r\<rparr>)"

section \<open>The transfer\<close>

datatype curl_call = HeaderLine string | BodyPart "byte list"

text \<open>What \<open>curl_easy_perform\<close> gives: whether it succeeded, the status and the calls of the callbacks.\<close>

record curl_outcome =
  cu_ok :: bool
  cu_status :: int
  cu_calls :: "curl_call list"

definition receive_call :: "curl_call \<Rightarrow> HttpMessage \<Rightarrow> HttpMessage option" where
  "receive_call call m =
     (case call of HeaderLine s \<Rightarrow> recvHeaders s m | BodyPart bs \<Rightarrow> map_option snd (recvBody True bs m))"

text \<open>\<open>None\<close> is an exception in a callback or a write outside of the body; else the error, or the status and the message.\<close>

definition makeRequest ::
  "(curl_options \<Rightarrow> curl_outcome) \<Rightarrow> network_proxy \<Rightarrow> HttpRequest \<Rightarrow> (string + int \<times> HttpMessage) option" where
  "makeRequest perform proxy r =
     (let res = perform (request_options proxy r) in
      map_option (\<lambda>m. if cu_ok res then Inr (cu_status res, m) else Inl ''Failed to connect to host or proxy.'')
        (run_opt receive_call (cu_calls res) HttpMessage_new))"

section \<open>What is sent\<close>

lemma proxy_keeps [simp]:
  "co_post (setCUrlProxy proxy O1) = co_post O1" "co_postfieldsize (setCUrlProxy proxy O1) = co_postfieldsize O1"
  "co_postfields (setCUrlProxy proxy O1) = co_postfields O1" "co_httpheader (setCUrlProxy proxy O1) = co_httpheader O1"
  "co_verifypeer (setCUrlProxy proxy O1) = co_verifypeer O1" "co_url (setCUrlProxy proxy O1) = co_url O1"
  by (simp_all add: setCUrlProxy_def Let_def)

lemma method_post [simp]:
  "co_post (with_method r O1) = (rq_method r \<noteq> Get \<or> co_post O1)"
  "rq_method r \<noteq> Get \<Longrightarrow> hasBody (rq_message r) \<Longrightarrow> co_postfieldsize (with_method r O1) = Some (hm_bodySize (rq_message r))"
  "rq_method r \<noteq> Get \<Longrightarrow> hasBody (rq_message r) \<Longrightarrow> co_postfields (with_method r O1) = hm_body (rq_message r)"
  by (simp_all add: with_method_def Let_def)

text \<open>Every method but GET is sent as POST, whatever it is called in the signature; and the certificate of the service is checked.\<close>

lemma sent_as_post: "co_post (request_options proxy r) \<longleftrightarrow> rq_method r \<noteq> Get"
  by (simp add: request_options_def curl_easy_init_def)

text \<open>The credentials given for a proxy begin with its address.\<close>

lemma proxy_credentials:
  assumes "px_type proxy \<noteq> NoProxy" and "px_user proxy \<noteq> []" and "c_str (px_hostName proxy) = px_hostName proxy"
    and "c_str (px_user proxy) = px_user proxy" and "c_str (px_password proxy) = px_password proxy"
  shows "co_proxyuserpwd (request_options proxy r) =
    Some (px_hostName proxy @ '':'' @ dec (px_port proxy) @ px_user proxy @ '':'' @ px_password proxy)"
proof -
  have plain: "list_all (\<lambda>c. of_char c \<noteq> (0 :: nat)) s" if "c_str s = s" for s
    using that by (simp add: c_str_def takeWhile_eq_all_conv list_all_iff)
  have "list_all (\<lambda>c. of_char c \<noteq> (0 :: nat)) (dec (px_port proxy))"
    using dec_digits [of "px_port proxy"] by (auto simp: list_all_iff is_digit_def)
  with plain [OF assms(3)] plain [OF assms(4)] plain [OF assms(5)]
  have "c_str (px_hostName proxy @ '':'' @ dec (px_port proxy) @ px_user proxy @ '':'' @ px_password proxy) =
      px_hostName proxy @ '':'' @ dec (px_port proxy) @ px_user proxy @ '':'' @ px_password proxy"
    by (intro c_str_id) simp
  with assms(1,2) show ?thesis by (simp add: request_options_def setCUrlProxy_def Let_def)
qed

lemma setHeader_keeps [simp]: "hm_body (setHeader n v m) = hm_body m" "hm_bodySize (setHeader n v m) = hm_bodySize m"
  by (simp_all add: setHeader_def)

lemma header_other: "\<not> same_key nocaseLess n n' \<Longrightarrow> header n' (setHeader n v m) = header n' m"
  by (simp add: header_def setHeader_def header_map.get_put_other)

lemma header_same: "ordered nocaseLess (hm_headers m) \<Longrightarrow> header n (setHeader n v m) = v"
  by (simp add: header_def setHeader_def header_map.get_put_same same_key_def header_map.less_irrefl)

lemma other_names:
  "list_all (\<lambda>n. \<not> same_key nocaseLess n ''Content-Length'')
    [''Connection'', ''Pragma'', ''Cache-Control'', ''x-sdk-invoke-type'', ''x-sdk-client'', ''Accept-Encoding'', ''Host'',
     ''Content-MD5'', ''Content-Type'']"
  by code_simp

text \<open>The body that is posted has a byte more than the header says: the size of a message counts its final NUL.\<close>

theorem posted_body_longer_than_announced:
  assumes "buildTokenHttpRpcRequest L True region cred endpoint msg m = Some r" and "m \<noteq> Get" and "cq_content msg \<noteq> []"
  shows "co_postfieldsize (request_options proxy r) = Some (length (cq_content msg) + 1)
    \<and> header ''Content-Length'' (rq_message r) = dec (length (cq_content msg))"
proof -
  define m0 where "m0 = setHeader ''Accept'' ''application/json'' HttpMessage_new"
  define m1 where "m1 = m0\<lparr>hm_body := Some (new_body (bytes_of (cq_content msg))), hm_bodySize := length (cq_content msg) + 1\<rparr>"
  have b: "bytes_of (cq_content msg) \<noteq> []" using assms(3) length_bytes_of [of "cq_content msg"] by (metis length_0_conv)
  then have set_body: "setBody True (bytes_of (cq_content msg)) m0 = Some m1"
    by (simp add: setBody_def m0_def m1_def HttpMessage_new_def)
  have "ordered nocaseLess (hm_headers m1)" by (simp add: m1_def m0_def HttpMessage_new_def setHeader_def ordered_def)
  then have cl: "header ''Content-Length'' (setHeader ''Content-Length'' v m1) = v" for v by (rule header_same)
  obtain m2 url where m2: "with_content L True (cq_content msg) (cq_content msg) m0 = Some m2"
    "rq_message r = common_headers url m2" "rq_method r = m"
    using assms(1,3) by (auto simp: buildTokenHttpRpcRequest_def m0_def [symmetric] Let_def)
  with set_body have m2': "m2 = setHeader ''Content-MD5'' (tl_md5 L (cq_content msg))
      (setHeader ''Content-Type'' ''application/x-www-form-urlencoded;charset=utf-8'' (setHeader ''Content-Length'' (dec (length (cq_content msg))) m1))"
    by (simp add: with_content_def)
  have "hm_bodySize (rq_message r) = length (cq_content msg) + 1" by (simp add: m2(2) m2' common_headers_def m1_def)
  moreover from this have "hasBody (rq_message r)" by (simp add: hasBody_def)
  moreover have "header ''Content-Length'' (rq_message r) = dec (length (cq_content msg))"
    using other_names cl by (simp add: m2(2) m2' common_headers_def header_other)
  ultimately show ?thesis using assms(2) m2(3) by (simp add: request_options_def)
qed

section \<open>What is received\<close>

definition body_parts :: "curl_call list \<Rightarrow> byte list list" where
  "body_parts calls = concat (map (\<lambda>c. case c of BodyPart bs \<Rightarrow> [bs] | HeaderLine s \<Rightarrow> []) calls)"

text \<open>A line \<open>recvHeaders\<close> can take: nothing or more than the colon follows its first colon.\<close>

definition line_ok :: "curl_call \<Rightarrow> bool" where
  "line_ok call \<longleftrightarrow> (case call of HeaderLine s \<Rightarrow> recvHeaders s HttpMessage_new \<noteq> None | BodyPart bs \<Rightarrow> True)"

lemma header_line_keeps:
  "line_ok (HeaderLine s) \<Longrightarrow> \<exists>m'. recvHeaders s m = Some m' \<and> hm_body m' = hm_body m \<and> hm_bodySize m' = hm_bodySize m"
  by (auto simp: line_ok_def recvHeaders_def Let_def split: option.splits if_splits)

lemma receive_call_took:
  assumes "body_ok m" and "line_ok call"
  shows "\<exists>m'. receive_call call m = Some m' \<and> took (concat (map c_bytes (body_parts [call]))) (length (concat (body_parts [call]))) m m'"
proof (cases call)
  case (HeaderLine s)
  with header_line_keeps [of s m] assms show ?thesis
    by (auto simp: receive_call_def body_parts_def took_def body_ok_def body_text_def split: option.splits)
next
  case (BodyPart bs)
  with setBody_took [OF assms(1), of bs] show ?thesis by (auto simp: receive_call_def recvBody_def body_parts_def)
qed

lemma body_parts_Cons: "body_parts (call # calls) = body_parts [call] @ body_parts calls"
  by (simp add: body_parts_def)

lemma receive_calls_took:
  assumes "body_ok m" and "list_all line_ok calls"
  shows "\<exists>m'. run_opt receive_call calls m = Some m' \<and> took (concat (map c_bytes (body_parts calls))) (length (concat (body_parts calls))) m m'"
  using assms
proof (induction calls arbitrary: m)
  case Nil
  then show ?case by (simp add: body_parts_def took_def)
next
  case (Cons call calls)
  then obtain m1 where m1: "receive_call call m = Some m1"
    "took (concat (map c_bytes (body_parts [call]))) (length (concat (body_parts [call]))) m m1"
    using receive_call_took [of m call] by auto
  then have "body_ok m1" by (simp add: took_def)
  with Cons obtain m' where m': "run_opt receive_call calls m1 = Some m'"
    "took (concat (map c_bytes (body_parts calls))) (length (concat (body_parts calls))) m1 m'" by auto
  from took_trans [OF m1(2) m'(2)] m1(1) m'(1) show ?case by (simp add: body_parts_Cons [of call calls])
qed

text \<open>However the answer comes in, headers before, between or after the pieces of the body, the body is the pieces in order, each up
  to its first zero byte, and none is written outside its memory; unless a header line ends with its colon.\<close>

theorem answer_in_order:
  assumes "cu_ok (perform (request_options proxy r))" and "list_all line_ok (cu_calls (perform (request_options proxy r)))"
  shows "\<exists>m. makeRequest perform proxy r = Some (Inr (cu_status (perform (request_options proxy r)), m)) \<and> body_ok m
    \<and> body_text m = concat (map c_bytes (body_parts (cu_calls (perform (request_options proxy r)))))"
proof -
  have "body_ok HttpMessage_new" "body_text HttpMessage_new = []" by (simp_all add: body_ok_def body_text_def HttpMessage_new_def)
  with receive_calls_took [OF _ assms(2), of HttpMessage_new] assms(1) show ?thesis
    by (auto simp: makeRequest_def took_def)
qed

lemma colon_line_throws:
  "perform (request_options proxy r) = \<lparr>cu_ok = True, cu_status = 200, cu_calls = [HeaderLine ''Server:'']\<rparr> \<Longrightarrow> makeRequest perform proxy r = None"
  by (simp add: makeRequest_def receive_call_def recvHeaders_def c_str_def str_find_def)

text \<open>A failed transfer gives no message, whatever was received of it.\<close>

lemma failed_transfer:
  "\<not> cu_ok (perform (request_options proxy r)) \<Longrightarrow> makeRequest perform proxy r = Some e \<Longrightarrow> e = Inl ''Failed to connect to host or proxy.''"
  by (auto simp: makeRequest_def)

section \<open>Examples\<close>

definition perform_example :: "curl_options \<Rightarrow> curl_outcome" where
  "perform_example O1 = \<lparr>cu_ok = True, cu_status = 200, cu_calls = [HeaderLine ''Server: x'', BodyPart [65, 66], BodyPart [67]]\<rparr>"

lemma answer_in_order_witness:
  "\<exists>m. makeRequest perform_example \<lparr>px_type = NoProxy, px_hostName = [], px_port = 0, px_user = [], px_password = []\<rparr> request_rpc_example =
      Some (Inr (200, m)) \<and> body_text m = [65, 66, 67]"
  using answer_in_order [of perform_example "\<lparr>px_type = NoProxy, px_hostName = [], px_port = 0, px_user = [], px_password = []\<rparr>" request_rpc_example]
  by (auto simp: perform_example_def line_ok_def body_parts_def c_bytes_def recvHeaders_def c_str_def str_find_def)

lemma new_body_set: "hm_body m = None \<Longrightarrow> \<exists>m'. setBody True bs m = Some m'"
  by (simp add: setBody_def)

lemma HttpMessage_new_body [simp]: "hm_body HttpMessage_new = None"
  by (simp add: HttpMessage_new_def)

lemma posted_example:
  "\<exists>r. buildTokenHttpRpcRequest token_lib_example True ''cn'' cred_example ''nls.com'' ((token_request nls_token_example)\<lparr>cq_content := ''ab''\<rparr>) Post = Some r
    \<and> co_postfieldsize (request_options \<lparr>px_type = NoProxy, px_hostName = [], px_port = 0, px_user = [], px_password = []\<rparr> r) = Some 3"
proof -
  obtain m' where "setBody True (bytes_of ''ab'') (setHeader ''Accept'' ''application/json'' HttpMessage_new) = Some m'"
    using new_body_set [of "setHeader ''Accept'' ''application/json'' HttpMessage_new" "bytes_of ''ab''"] by auto
  then obtain r where r: "buildTokenHttpRpcRequest token_lib_example True ''cn'' cred_example ''nls.com''
      ((token_request nls_token_example)\<lparr>cq_content := ''ab''\<rparr>) Post = Some r"
    by (simp add: buildTokenHttpRpcRequest_def with_content_def Let_def)
  with posted_body_longer_than_announced [OF r] show ?thesis by simp
qed

end
