(* ===== verification/NlsLog.thy ===== *)
theory NlsLog
  imports TextFormat
begin

text \<open>
  The log of the SDK: \<open>utils/nlog.cpp\<close>, as it is built on Linux. A message is formatted into fixed arrays, its per cent signs are
  doubled, and it is given to log4cpp, which takes it as a format, or printed, and to a callback. \<open>vsnprintf\<close>, the clock and log4cpp are
  outside: the text of the arguments, the calendar and the thread are arguments, and what is handed out is a list of outputs. Proved:
  a message is harmless as a format, whatever it holds, and what log4cpp writes is the message but for a last per cent sign.
\<close>

section \<open>The text of a message\<close>

text \<open>\<open>LOG_FORMAT_STRING\<close>: \<open>formatted\<close> is what \<open>vsnprintf\<close> would write without a limit.\<close>

definition format_message :: "string \<Rightarrow> string \<Rightarrow> nat \<Rightarrow> string \<Rightarrow> string" where
  "format_message self function line formatted =
     (let tmpBuffer = fst (snprintf 2047 (c_str formatted)) in
      fst (snprintf 2048 (''[ID:0x'' @ self @ ''][''  @ function @ '':'' @ dec line @ '']'' @ tmpBuffer)))"

text \<open>\<open>LOG_WASH\<close>: the text is cut at its per cent signs, a last empty piece is left out, and the pieces are joined with two signs.\<close>

function wash_pieces :: "string \<Rightarrow> nat \<Rightarrow> string list" where
  "wash_pieces s pos1 =
     (case str_find s ''%'' pos1 of
        Some pos2 \<Rightarrow> substr s pos1 (pos2 - pos1) # wash_pieces s (pos2 + 1)
      | None \<Rightarrow> if pos1 \<noteq> length s then [drop pos1 s] else [])"
  by pat_completeness auto
termination
  by (relation "measure (\<lambda>(s, pos1). Suc (length s) - pos1)") (auto dest!: str_find_Some)

declare wash_pieces.simps [simp del]

fun join_pieces :: "string list \<Rightarrow> string" where
  "join_pieces [] = []"
| "join_pieces [p] = p"
| "join_pieces (p # q # ps) = p @ ''%%'' @ join_pieces (q # ps)"

definition wash :: "string \<Rightarrow> string" where
  "wash message = join_pieces (wash_pieces (c_str message) 0)"

section \<open>Outputs\<close>

abbreviation (input) LogErrorLevel :: int where "LogErrorLevel \<equiv> 1"
abbreviation (input) LogWarningLevel :: int where "LogWarningLevel \<equiv> 2"
abbreviation (input) LogInfoLevel :: int where "LogInfoLevel \<equiv> 3"
abbreviation (input) LogDebugLevel :: int where "LogDebugLevel \<equiv> 4"

text \<open>A call of log4cpp with its priority and its format, a line on the standard output, a call of the callback.\<close>

datatype log_output =
    ToFile string string
  | ToStdout string
  | ToCallback string int string

record nls_log =
  lg_callback :: bool
  lg_logLevel :: int
  lg_isStdout :: bool
  lg_isConfig :: bool
  lg_logFileName :: string
  lg_logLibeventFileName :: string
  lg_priority :: string
  lg_fileSize :: nat
  lg_fileNum :: nat

text \<open>The last three are the settings of log4cpp.\<close>

definition NlsLog_new :: nls_log where
  "NlsLog_new = \<lparr>lg_callback = False, lg_logLevel = 1, lg_isStdout = True, lg_isConfig = False, lg_logFileName = [],
     lg_logLibeventFileName = [], lg_priority = [], lg_fileSize = 0, lg_fileNum = 0\<rparr>"

definition priority_of :: "int \<Rightarrow> string" where
  "priority_of level =
     (if level = 1 then ''ERROR'' else if level = 2 then ''WARN'' else if level = 3 then ''INFO'' else if level = 4 then ''DEBUG'' else ''ERROR'')"

definition logConfig :: "string option \<Rightarrow> int \<Rightarrow> nat \<Rightarrow> nat \<Rightarrow> bool \<Rightarrow> nls_log \<Rightarrow> nls_log" where
  "logConfig name level fileSize fileNum callback G =
     (let num = (if fileNum < 1 then 20 else fileNum);
          G1 = G\<lparr>lg_callback := callback\<rparr> in
      if lg_isConfig G1 then G1
      else
        (let G2 = (case name of
                     Some s \<Rightarrow>
                       if 0 < fileSize then
                         G1\<lparr>lg_logFileName := c_str s @ ''.log'', lg_logLibeventFileName := c_str s @ ''_libevent.log'',
                           lg_priority := priority_of level, lg_fileSize := fileSize * 1024 * 1024 mod 18446744073709551616, lg_fileNum := num, lg_isStdout := False\<rparr>
                       else G1\<lparr>lg_isStdout := True\<rparr>
                   | None \<Rightarrow> G1\<lparr>lg_isStdout := True\<rparr>) in
         G2\<lparr>lg_logLevel := level, lg_isConfig := True\<rparr>))"

text \<open>\<open>%4d\<close>, and the time of a line.\<close>

definition spaced :: "nat \<Rightarrow> nat \<Rightarrow> string" where
  "spaced w n = replicate (w - length (dec n)) (CHR '' '') @ dec n"

definition log_time :: "calendar \<Rightarrow> string" where
  "log_time c = spaced 4 (ca_year c) @ ''-'' @ padded 2 (ca_mon c) @ ''-'' @ padded 2 (ca_mday c) @ '' ''
     @ padded 2 (ca_hour c) @ '':'' @ padded 2 (ca_min c) @ '':'' @ padded 2 (ca_sec c)"

definition print_common :: "calendar \<Rightarrow> string \<Rightarrow> string \<Rightarrow> log_output" where
  "print_common c level message =
     ToStdout (log_time c @ '' AliSpeechLib('' @ level @ ''): '' @ c_str message @ [char_of (10 :: nat)])"

definition print_callback :: "calendar \<Rightarrow> int \<Rightarrow> string \<Rightarrow> nls_log \<Rightarrow> log_output list" where
  "print_callback c level message G =
     (if lg_callback G
      then [ToCallback (fst (snprintf 128 (log_time c))) level (fst (snprintf 2560 (''[AliSpeechLib] '' @ c_str message)))]
      else [])"

text \<open>What the six functions share; \<open>threshold\<close> is the level from which on they write.\<close>

definition emit :: "string \<Rightarrow> string \<Rightarrow> int \<Rightarrow> int \<Rightarrow> calendar \<Rightarrow> string \<Rightarrow> nls_log \<Rightarrow> log_output list" where
  "emit prio name cb_level threshold c str_in G =
     (if threshold \<le> lg_logLevel G
      then (if \<not> lg_isStdout G then ToFile prio (c_str str_in) else print_common c name str_in) # print_callback c cb_level str_in G
      else [])"

text \<open>Of a message: its function, line and arguments, as they are printed; \<open>None\<close> is a null format.\<close>

record log_call =
  lc_self :: string
  lc_function :: string
  lc_line :: nat
  lc_formatted :: "string option"
  lc_time :: calendar

definition washed :: "log_call \<Rightarrow> string" where
  "washed m = wash (format_message (lc_self m) (lc_function m) (lc_line m) (the (lc_formatted m)))"

definition silent_log :: "log_call \<Rightarrow> nls_log \<Rightarrow> bool" where
  "silent_log m G \<longleftrightarrow> lc_formatted m = None \<or> \<not> lg_isConfig G"

definition logVerbose :: "log_call \<Rightarrow> nls_log \<Rightarrow> log_output list" where
  "logVerbose m G =
     (if silent_log m G then []
      else (if \<not> lg_isStdout G then ToFile ''DEBUG'' (c_str (washed m)) else print_common (lc_time m) ''VERBOSE'' (washed m))
        # print_callback (lc_time m) LogDebugLevel (washed m) G)"

definition logDebug :: "log_call \<Rightarrow> nls_log \<Rightarrow> log_output list" where
  "logDebug m G = (if silent_log m G then [] else emit ''DEBUG'' ''DEBUG'' LogDebugLevel 4 (lc_time m) (washed m) G)"

definition logInfo :: "log_call \<Rightarrow> nls_log \<Rightarrow> log_output list" where
  "logInfo m G = (if silent_log m G then [] else emit ''INFO'' ''INFO'' LogInfoLevel 3 (lc_time m) (washed m) G)"

definition logWarn :: "log_call \<Rightarrow> nls_log \<Rightarrow> log_output list" where
  "logWarn m G = (if silent_log m G then [] else emit ''WARN'' ''WARN'' LogWarningLevel 2 (lc_time m) (washed m) G)"

definition logError :: "log_call \<Rightarrow> nls_log \<Rightarrow> log_output list" where
  "logError m G = (if silent_log m G then [] else emit ''ERROR'' ''ERROR'' LogErrorLevel 1 (lc_time m) (washed m) G)"

definition logException :: "log_call \<Rightarrow> nls_log \<Rightarrow> log_output list" where
  "logException m G =
     (if silent_log m G then []
      else (if \<not> lg_isStdout G then ToFile ''FATAL'' (c_str (washed m)) else print_common (lc_time m) ''EXCEPTION'' (washed m))
        # print_callback (lc_time m) LogErrorLevel (washed m) G)"

section \<open>A format without arguments\<close>

text \<open>What \<open>printf\<close> writes for a format that is given no arguments; \<open>None\<close> when a directive would read one, or is cut off.\<close>

fun printf_plain :: "string \<Rightarrow> string option" where
  "printf_plain [] = Some []"
| "printf_plain (c # cs) =
     (if c \<noteq> CHR ''%'' then map_option ((#) c) (printf_plain cs)
      else (case cs of d # ds \<Rightarrow> if d = CHR ''%'' then map_option ((#) (CHR ''%'')) (printf_plain ds) else None | [] \<Rightarrow> None))"

lemma printf_plain_append: "CHR ''%'' \<notin> set p \<Longrightarrow> printf_plain (p @ s) = map_option ((@) p) (printf_plain s)"
  by (cases "printf_plain s"; induction p) auto

text \<open>A text without its last per cent sign, if it ends with one.\<close>

definition cut_percent :: "string \<Rightarrow> string" where
  "cut_percent s = (if s \<noteq> [] \<and> last s = CHR ''%'' then butlast s else s)"

lemma cut_percent_append: "r \<noteq> [] \<Longrightarrow> cut_percent (p @ r) = p @ cut_percent r"
  by (simp add: cut_percent_def butlast_append)

lemma wash_pieces_Nil: "pos1 \<le> length s \<Longrightarrow> wash_pieces s pos1 = [] \<longleftrightarrow> pos1 = length s"
  using str_find_char_split [of s "CHR ''%''" pos1] by (subst wash_pieces.simps) (auto split: option.splits)

lemma wash_from:
  "pos1 \<le> length s \<Longrightarrow> printf_plain (join_pieces (wash_pieces s pos1)) = Some (cut_percent (drop pos1 s))"
proof (induction s pos1 rule: wash_pieces.induct)
  case (1 s pos1)
  show ?case
  proof (cases "str_find s ''%'' pos1")
    case None
    note free = str_find_char_absent [OF None]
    then have "cut_percent (drop pos1 s) = drop pos1 s" by (metis cut_percent_def last_in_set)
    with None printf_plain_append [OF free, of "[]"] "1.prems" show ?thesis by (subst wash_pieces.simps) simp
  next
    case (Some pos2)
    define p where "p = substr s pos1 (pos2 - pos1)"
    from str_find_char_split [OF Some] have d: "drop pos1 s = p @ CHR ''%'' # drop (pos2 + 1) s" "CHR ''%'' \<notin> set p" "pos2 + 1 \<le> length s"
      by (simp_all add: p_def)
    from "1.IH" [OF Some d(3)] have IH: "printf_plain (join_pieces (wash_pieces s (pos2 + 1))) = Some (cut_percent (drop (pos2 + 1) s))" .
    have w: "wash_pieces s pos1 = p # wash_pieces s (pos2 + 1)" by (subst wash_pieces.simps) (simp add: Some p_def)
    show ?thesis
    proof (cases "wash_pieces s (pos2 + 1)")
      case Nil
      with wash_pieces_Nil [OF d(3)] have "drop (pos2 + 1) s = []" by simp
      with d w Nil printf_plain_append [OF d(2), of "[]"] show ?thesis by (simp add: cut_percent_def)
    next
      case (Cons q ps)
      with wash_pieces_Nil [OF d(3)] d(3) have "drop (pos2 + 1) s \<noteq> []" by auto
      then have "cut_percent (drop pos1 s) = p @ CHR ''%'' # cut_percent (drop (pos2 + 1) s)"
        using cut_percent_append [of "drop (pos2 + 1) s" "p @ ''%''"] d(1) by simp
      with IH Cons w show ?thesis by (simp add: printf_plain_append [OF d(2)])
    qed
  qed
qed

text \<open>Whatever a message holds, no directive is left in it when it is used as a format: what is written is the message, without
  a per cent sign at its end.\<close>

theorem washed_text_is_inert: "printf_plain (wash message) = Some (cut_percent (c_str message))"
  using wash_from [of 0 "c_str message"] by (simp add: wash_def)

section \<open>What is put out\<close>

text \<open>The formats given to log4cpp.\<close>

definition log_calls :: "(log_call \<Rightarrow> nls_log \<Rightarrow> log_output list) list" where
  "log_calls = [logVerbose, logDebug, logInfo, logWarn, logError, logException]"

lemma join_no_nul: "list_all (\<lambda>c. of_char c \<noteq> (0 :: nat)) (concat ps) \<Longrightarrow> list_all (\<lambda>c. of_char c \<noteq> (0 :: nat)) (join_pieces ps)"
  by (induction ps rule: join_pieces.induct) auto

lemma wash_pieces_concat: "pos1 \<le> length s \<Longrightarrow> set (concat (wash_pieces s pos1)) \<subseteq> set s"
proof (induction s pos1 rule: wash_pieces.induct)
  case (1 s pos1)
  show ?case
  proof (cases "str_find s ''%'' pos1")
    case None
    then show ?thesis by (subst wash_pieces.simps) (auto dest: in_set_dropD)
  next
    case (Some pos2)
    from str_find_char_split [OF Some] have "pos2 + 1 \<le> length s" by simp
    from "1.IH" [OF Some this] show ?thesis
      by (subst wash_pieces.simps) (auto simp: Some substr_def dest: in_set_dropD in_set_takeD)
  qed
qed

lemma c_str_wash [simp]: "c_str (wash s) = wash s"
proof -
  have "list_all (\<lambda>c. of_char c \<noteq> (0 :: nat)) (c_str s)" by (auto simp: c_str_def list_all_iff dest: set_takeWhileD)
  with wash_pieces_concat [of 0 "c_str s"] have "list_all (\<lambda>c. of_char c \<noteq> (0 :: nat)) (concat (wash_pieces (c_str s) 0))"
    unfolding list_all_iff by blast
  from c_str_id [OF join_no_nul [OF this]] show ?thesis by (simp add: wash_def)
qed

text \<open>C36. Every line log4cpp writes is the message, cut to the size of the arrays and without a per cent sign at its end; no line
  makes it read an argument it was not given.\<close>

theorem file_lines_are_the_messages:
  assumes "f \<in> set log_calls" and "ToFile prio s \<in> set (f m G)"
  shows "printf_plain s = Some (cut_percent (c_str (format_message (lc_self m) (lc_function m) (lc_line m) (the (lc_formatted m)))))"
proof -
  have "s = washed m"
    using assms by (auto simp: log_calls_def logVerbose_def logDebug_def logInfo_def logWarn_def logError_def logException_def
        emit_def print_common_def print_callback_def washed_def split: if_splits)
  then show ?thesis by (simp add: washed_def washed_text_is_inert)
qed

text \<open>The standard output and the callback get the doubled signs, since the text is no format there.\<close>

lemma printed_percent_doubled: "print_common c level (wash ''9%x'') = ToStdout (log_time c @ '' AliSpeechLib('' @ level @ ''): 9%%x'' @ [char_of (10 :: nat)])"
proof -
  have "wash ''9%x'' = ''9%%x''" by (simp add: wash_def c_str_def wash_pieces.simps [of "''9%x''"] str_find_def substr_def)
  then show ?thesis by (simp add: print_common_def c_str_def)
qed

text \<open>A message of a level that is not wanted is dropped; but not one of \<open>logVerbose\<close>, which asks for no level.\<close>

lemma levels:
  assumes "lg_isConfig G" and "lc_formatted m \<noteq> None"
  shows "logDebug m G = [] \<longleftrightarrow> lg_logLevel G < 4" and "logInfo m G = [] \<longleftrightarrow> lg_logLevel G < 3" and "logWarn m G = [] \<longleftrightarrow> lg_logLevel G < 2"
    and "logError m G = [] \<longleftrightarrow> lg_logLevel G < 1" and "logVerbose m G \<noteq> []" and "logException m G \<noteq> []"
  using assms by (auto simp: silent_log_def logDebug_def logInfo_def logWarn_def logError_def logVerbose_def logException_def emit_def)

text \<open>The first configuration stands: a later one changes the callback only. Before it nothing is put out.\<close>

lemma configured_once: "lg_isConfig G \<Longrightarrow> logConfig name level fileSize fileNum callback G = G\<lparr>lg_callback := callback\<rparr>"
  by (simp add: logConfig_def Let_def)

lemma silent_before_configuration: "f \<in> set log_calls \<Longrightarrow> f m NlsLog_new = []"
  by (auto simp: log_calls_def logVerbose_def logDebug_def logInfo_def logWarn_def logError_def logException_def silent_log_def NlsLog_new_def)

section \<open>Examples\<close>

definition log_example :: log_call where
  "log_example = \<lparr>lc_self = ''1'', lc_function = ''f'', lc_line = 7, lc_formatted = Some ''%n 50%'',
     lc_time = \<lparr>ca_year = 2024, ca_mon = 3, ca_mday = 7, ca_hour = 9, ca_min = 5, ca_sec = 0\<rparr>\<rparr>"

definition log_config_example :: nls_log where
  "log_config_example = logConfig (Some ''log'') 4 400 0 True NlsLog_new"

lemma file_lines_are_the_messages_witness:
  "\<exists>s. ToFile ''INFO'' s \<in> set (logInfo log_example log_config_example) \<and> printf_plain s = Some ''[ID:0x1][f:7]%n 50''"
proof -
  have "ToFile ''INFO'' (washed log_example) \<in> set (logInfo log_example log_config_example)"
    by (simp add: logInfo_def silent_log_def log_example_def log_config_example_def logConfig_def NlsLog_new_def emit_def washed_def)
  moreover from file_lines_are_the_messages [of logInfo, OF _ this] have "printf_plain (washed log_example) =
      Some (cut_percent (c_str (format_message ''1'' ''f'' 7 ''%n 50%'')))" by (simp add: log_calls_def log_example_def)
  moreover have "c_str (format_message ''1'' ''f'' 7 ''%n 50%'') = ''[ID:0x1][f:7]%n 50%''"
    by code_simp
  ultimately show ?thesis by (auto simp: cut_percent_def)
qed

end
