(* ===== verification/Spec2Isabelle.thy ===== *)
theory Spec2Isabelle
  imports EventNetWork Relayer TokenRequest Services NlsClient NlsEncoder TextUtils FileTrans NodeProcess SslConnect DnsThread
    ThreadEnd VipServer TokenHttp CurlHttp NlsLog
begin

text \<open>
  The relay reads a live stream, sends its audio to a cloud speech recogniser, keeps the stream in a delay line meanwhile,
  and replaces by silence what the recogniser heard of a list of words. The repository holds the relay (\<open>src/main.cpp\<close>,
  \<open>processor\<close>, \<open>censor\<close>, \<open>grpc\<close>) and the C++ SDK of the recogniser it is linked with (\<open>alibabacloud-nls-cpp-sdk/nlsCppSdk\<close>).
  The development models both, from the bytes on the socket to the packets written.

  \<^bold>\<open>The program.\<close> The main thread of the relay (\<open>Relayer::startProcess\<close>) reads packets, decodes audio for the recogniser and puts
  every packet into the delay line. The threads of the SDK, one event loop each, connect a request to the service, send
  commands and audio as WebSocket frames, and hand its answers to the listener of the request, whose callbacks search
  a finished sentence for listed words and mute the packets in the line. Shared state: the line (a mutex), the
  registry of requests (a mutex), the nodes (a mutex each).

  \<^bold>\<open>Theories and sources\<close>, in the order they build on each other:

  \<^item> \<open>Prelude\<close> (types, \<open>sscanf\<close>/\<open>strstr\<close>-like functions, the locale \<open>absorbing\<close>), \<open>StdMap\<close> (\<open>std::map\<close>, locale \<open>comparison\<close>),
    \<open>NlsGlobal\<close> (\<open>nlsGlobal.h\<close>), \<open>TextUtils\<close>, \<open>TextFormat\<close>
    (\<open>utils/text_utils.cpp\<close>), \<open>NlsLog\<close> (\<open>utils/nlog.cpp\<close>).
  \<^item> \<open>WsFrame\<close>, \<open>WsHttp\<close> (\<open>transport/webSocketTcp.cpp\<close>): frames, and the address and the upgrade to WebSocket.
  \<^item> \<open>NodeManager\<close> (\<open>transport/nodeManager.cpp\<close>): the registry, over a heap of request and node objects.
  \<^item> \<open>NlsEvent\<close> (\<open>framework/common/nlsEvent.cpp\<close>): events and the parser of the service's messages.
  \<^item> \<open>IpCache\<close>, \<open>ConnectTypes\<close>, \<open>ConnectEvents\<close>, \<open>ConnectSend\<close>, \<open>ConnectRecv\<close> (\<open>transport/connectNode.cpp\<close>): the state of a node,
    delivery of events with the classification of failures and the reconnection, the output buffers and the writing, the
    reading. \<open>SslConnect\<close> (\<open>transport/SSLconnect.cpp\<close>): the TLS connection of a node.
    \<open>DnsThread\<close>: the thread that resolves names with the functions of the system, as a step relation. \<open>NodeProcess\<close>: the record a
    node keeps of its work. \<open>WorkThread\<close> (\<open>event/workThread.cpp\<close>): the callbacks of the event loop, with the connecting half of
    \<open>connectNode.cpp\<close>. \<open>ThreadEnd\<close>: the destructor of an event thread. \<open>EventNetWork\<close> (\<open>transport/nlsEventNetWork.cpp\<close>, \<open>framework/item/iNlsRequest.cpp\<close>): the operations of a request.
  \<^item> \<open>RequestParam\<close>, \<open>RequestClasses\<close>, \<open>RequestCommands\<close> (\<open>framework/item/iNlsRequestParam.cpp\<close>, \<open>framework/feature\<close>): the
    parameters of the five services and the commands made of them. \<open>Listener\<close>, \<open>Transcriber\<close> (\<open>framework/feature/st\<close>),
    \<open>Services\<close> (\<open>framework/feature/sr\<close>, \<open>sy\<close>, \<open>da\<close>, \<open>fss\<close>): the request classes, their settings, callbacks and listeners. \<open>NlsClient\<close> (\<open>framework/common/nlsClient.cpp\<close>, \<open>nlsClientImpl.cpp\<close>): the object that makes
    and releases requests. \<open>VipServer\<close>: the address of the service from a vipserver, in a private cloud.
  \<^item> \<open>DataQueue\<close>, \<open>OggHeader\<close>, \<open>OggOpus\<close>, \<open>NlsEncoder\<close> (\<open>utils/thread_data.h\<close>, \<open>encoder\<close>): the queue of encoded bytes, the first two
    packets of an Opus stream, the Opus encoder and the encoder of a node.
  \<^item> \<open>Url\<close>, \<open>HttpMessage\<close>, \<open>TokenRequest\<close>, \<open>TokenHttp\<close>, \<open>CurlHttp\<close>, \<open>FileTrans\<close> (\<open>token/src\<close>): the signed requests, the access token and the
    transcription of files.
  \<^item> \<open>Censor\<close> (\<open>censor/dictionary.cpp\<close>, \<open>Asr::hitDict\<close>), \<open>Replacer\<close>, \<open>Delayer\<close>, \<open>Asr\<close>, \<open>Relayer\<close> (\<open>processor\<close>, \<open>grpc/biz_client.cpp\<close>,
    \<open>main.cpp\<close>): the relay. This theory joins it to the SDK.

  A class is a record with the prefix of its own, a member \<open>x_\<close>, \<open>_x\<close> or \<open>m_x\<close> its field \<open>x\<close>; an operation has the name it has in
  the source and takes and returns the record. \<open>None\<close> stands for undefined behaviour or an exception nobody catches,
  a negative number for an error code. Integers are \<open>int\<close> or \<open>nat\<close> where the source cannot overflow and words, or
  \<open>mod\<close>, where it can. libevent, OpenSSL, jsoncpp, libopus, libogg, curl, FFmpeg, gRPC, the clock and random numbers are
  parameters: records of functions (\<open>env\<close>, \<open>jsonlib\<close>, \<open>opus_lib\<close>, \<open>codec_lib\<close>, \<open>token_lib\<close>, \<open>speech_sdk\<close>), about which a theorem states what it needs.

  \<^bold>\<open>What is proved.\<close>

  \<^item> The delay line: in every reachable state of the two threads, packets are conserved in order and changed only by muting
    (\<open>Relayer.relay_conserves\<close>); a spoken listed word is silent in every packet still waiting (\<open>Asr.spoken_words_are_muted\<close>), and packets
    wait as long as the delay says (\<open>Delayer.still_waiting\<close>); the search finds exactly what a search from the left finds.
  \<^item> Memory: no sequence of operations of the registry or of the client follows a pointer to a deleted object.
  \<^item> A lost TLS connection is classified as one a reconnection repairs, and is (\<open>SslConnect.lost_connection_is_repaired\<close>); the report
    of a request says what was recorded (\<open>NodeProcess.report_of_record\<close>); the thread that resolves names can outlive its node, because
    it detaches itself and so is not waited for (\<open>DnsThread.deletion_relies_on_waiting\<close>); releasing the client with a live request waits for a mutex
    that is held by the thread itself (\<open>ThreadEnd.registered_request_blocks_release\<close>).
  \<^item> Texts: no log message is more than text when it is used as a format (\<open>NlsLog.file_lines_are_the_messages\<close>), time stamps sort as
    the times do, the canonical headers of a request depend neither on order nor on spelling.
  \<^item> A request: nothing after \<open>Close\<close>, nothing after a cancel, at most four hidden reconnections, refused operations change nothing.
  \<^item> Bytes: frames decode to what was packed, received frames and audio arrive once and in order however they are cut, sent
    bytes are conserved and buffers bounded, commands decode to their text.
  \<^item> Loops end: reading after a round for each byte and one more (\<open>ws_loop\<close>, fuel: length plus one), connecting after five calls
    (\<open>dnsProcess\<close>, fuel 5); the fuel is proved sufficient in both cases. Loops that need not end are partial functions whose
    \<open>None\<close> is not ending: \<open>page_loop\<close> of the encoder and \<open>result_loop\<close> of the file transcription, which ends exactly when
    the service gives a final answer.
  \<^item> Commands of a session name one task; the reconnection leaves the settings alone; the token request is signed so that a
    server verifies it, and its query decodes.
  \<^item> Encoding: the outputs of a stream are its pages in order (\<open>NlsEncoder.stream_in_order\<close>); the first frame is silence, and a stream
    shorter than a frame blocks the encoder for good (\<open>NlsEncoder.short_stream_blocks\<close>), as the code has it.
  \<^item> Callbacks: the listeners of the five services refine one table of callbacks (\<open>Services.listeners_refine_table\<close>).
  \<^item> Behaviour that a maintainer may not expect, stated as the code has it: the fifth failure starts two requests
    (\<open>fifth_failure_doubles\<close>), a dropped packet sets the time base (\<open>unsent_packet_sets_base\<close>), the end of the input is never
    sent (\<open>Relayer.tail_is_never_sent\<close>), and others.

  Locales: \<open>absorbing\<close> (a set of states no step leaves), \<open>comparison\<close> (the order of a \<open>std::map\<close>), \<open>node_status_store\<close> (what the
  event network needs of the registry), \<open>packet_muter\<close> (what the delay line needs of the replacer), \<open>command_contract\<close> (what a node
  needs of the parameters of a service), \<open>block_queue\<close> (what the encoder needs of its queue), \<open>listener\<close> (what a service's callbacks and
  listener owe the program); each is interpreted on the model of the code.

  \<^bold>\<open>Not modelled.\<close> The calls of the socket library and of OpenSSL themselves, thread creation and the waiting of one thread for another (their outcomes
  are arguments); destructors where they only free; the single-precision filter of \<open>encoder/lpc.cpp\<close>, which needs floating point; the demos,
  the binding for C sharp, generated code and vendored headers. The manifest lists each with its reason.
\<close>

section \<open>The relay on top of the SDK\<close>

text \<open>C8. One failure the SDK gives up on costs the relay two requests: the relay asks for reconnection, so that four failures
  in a row stay hidden; the fifth is delivered as \<open>TaskFailed\<close> and \<open>Close\<close>, and the relay answers each of the two
  with a new request, of which it keeps the last.\<close>

theorem fifth_failure_doubles:
  fixes live :: "'s \<Rightarrow> nat"
  assumes "open_node rp n" and "rp_enableReconnect rp" and "info \<noteq> []" and "code \<noteq> DefaultErrorCode" and "reconnect_code code"
    and "rc_state (cn_reconnection n) \<in> {NoReconnection, NewReconnectionStarting}" and "rc_reconnected_count (cn_reconnection n) = 4"
    and "\<forall>i. e_event_add E i = Success"
    and "cn_callbacks (handlerTaskFailedEvent E info code n) = cn_callbacks n @ events"
    and "\<forall>s. live (snd (sdk_createTranscriberRequest S s)) = live s + 1 \<and> fst (sdk_createTranscriberRequest S s) \<noteq> None"
    and "\<forall>s. live (sdk_init S s) = live s" and "\<forall>r c s. live (snd (sdk_start S r c s)) = live s"
  shows "handle_events S T mute index order events X = Some (Returns (restart_asr S T (restart_asr S T X)))
    \<and> live (ar_sdk (rl_asr (restart_asr S T (restart_asr S T X)))) = live (ar_sdk (rl_asr X)) + 2"
proof -
  from repairable_failure [OF assms(1-6) _ assms(8)] assms(7,9) obtain e1 e2 where
    e: "events = [e1, e2]" "ev_msgType e1 = TaskFailed" "ev_msgType e2 = Close"
    by (auto simp: Let_def)
  have h: "handle_events S T mute index order events X = Some (Returns (restart_asr S T (restart_asr S T X)))"
    using e by (simp add: transcriber_handlerFrame_def)
  from requests_grow [OF this assms(10-12)] e h show ?thesis by (simp add: restarts_def)
qed

text \<open>C24. While the SDK reconnects the relay loses audio without noticing and sets its time base to it: \<open>sendAudio\<close> of a
  request whose node is not running answers with the length of the data although nothing was taken, and the
  recogniser, which has just forgotten its base, takes the time of that packet as the time the recognition
  began.\<close>

theorem unsent_packet_sets_base:
  assumes "sdk_sendAudio S = (\<lambda>r data s. request_sendAudio E others data ENCODER_OPUS s)"
    and "\<not> running (as_node (ar_sdk A))" and "cn_workStatus (as_node (ar_sdk A)) \<noteq> NodeStarting" and "en_client (as_net (ar_sdk A))"
    and "as_hasNode (ar_sdk A)" and "rc_state (cn_reconnection (as_node (ar_sdk A))) \<noteq> NoReconnection"
    and "reliable L" and "\<forall>w n f. 0 < fst (swr_convert R w n f) \<and> fst (snd (swr_convert R w n f)) \<noteq> []"
    and "ready A" and "ar_first_audio_pts A = 0"
  shows "\<exists>A'. asr_sendAudio S T L R time pkt A = Some (Returns (0, A')) \<and> ar_sdk A' = ar_sdk A \<and> ar_first_audio_pts A' = pk_pts pkt"
proof -
  let ?A = "snd (checkToken T time A)"
  have sdk: "ar_sdk ?A = ar_sdk A" by (auto simp: checkToken_def generateToken_def split: prod.splits if_splits)
  from assms(7) obtain c1 frame c2 where c: "avcodec_send_packet L (ar_codec ?A) pkt = (0, c1)" "avcodec_receive_frame L c1 = (0, frame, c2)"
    unfolding reliable_def by meson
  obtain k data A2 where p: "pcmResample R frame (?A\<lparr>ar_codec := c2\<rparr>) = (k, data, A2)" by (metis prod_cases3)
  have data: "data \<noteq> [] \<and> \<not> k < 0 \<and> ar_sdk A2 = ar_sdk A"
  proof -
    obtain ret d w where s: "swr_convert R (ar_swr ?A) (int32 (av_rescale_up (swr_get_delay R (ar_swr ?A) 16000 + int (fr_nb_samples frame))
        16000 16000)) frame = (ret, d, w)" by (metis prod_cases3)
    with assms(8) have "0 < ret" "d \<noteq> []" by (metis fst_conv snd_conv)+
    with p s sdk show ?thesis by (auto simp: pcmResample_def Let_def split: if_splits)
  qed
  from assms(9) checkToken_keeps [of T time A] pcmResample_keeps [OF p] assms(10) obtain r where
    r: "ar_request A2 = Some r" "ar_decoder ?A" "ar_first_audio_pts A2 = 0" by (auto simp: ready_def)
  have "sdk_sendAudio S r data (ar_sdk A2) = (int (length data), ar_sdk A)"
    using assms(1) reconnecting_audio_dropped [OF assms(2-6), of data E others ENCODER_OPUS] data by simp
  with c p r data show ?thesis
    by (simp add: asr_sendAudio_def send_packet_loop.simps [of L pkt] receive_frame_loop.simps [of L pkt c1] Let_def)
qed

section \<open>Examples\<close>

definition failing_node :: conn_node where
  "failing_node = node_example\<lparr>cn_request := Some (request_example\<lparr>rp_enableReconnect := True\<rparr>),
     cn_reconnection := rc_init\<lparr>rc_reconnected_count := 4\<rparr>\<rparr>"

lemma failing_node_open: "open_node (request_example\<lparr>rp_enableReconnect := True\<rparr>) failing_node"
  "rc_state (cn_reconnection failing_node) \<in> {NoReconnection, NewReconnectionStarting}"
  "rc_reconnected_count (cn_reconnection failing_node) = 4"
  by (simp_all add: failing_node_def open_node_def node_example_def request_example_def rc_init_def)

lemma fifth_failure_doubles_witness:
  "\<exists>events. handle_events sdk_example token_example (replaceAudioToMute codec_always 1) 1 (\<lambda>D. D) events relay_example =
      Some (Returns (restart_asr sdk_example token_example (restart_asr sdk_example token_example relay_example)))
    \<and> ar_sdk (rl_asr (restart_asr sdk_example token_example (restart_asr sdk_example token_example relay_example))) =
      ar_sdk (rl_asr relay_example) + 2"
proof -
  have ok: "\<forall>i. e_event_add (env_example None) i = Success" "reconnect_code SysConnectFailed" "''x'' \<noteq> []"
    "SysConnectFailed \<noteq> DefaultErrorCode"
    by (simp_all add: env_example_def reconnect_code_def)
  from repairable_failure [OF failing_node_open(1) _ ok(3,4,2) failing_node_open(2) _ ok(1)] obtain e1 e2 where
    e: "cn_callbacks (handlerTaskFailedEvent (env_example None) ''x'' SysConnectFailed failing_node) = cn_callbacks failing_node @ [e1, e2]"
    by (auto simp: Let_def failing_node_open)
  show ?thesis
  proof (rule exI [of _ "[e1, e2]"], rule fifth_failure_doubles [OF failing_node_open(1) _ ok(3,4,2) failing_node_open(2,3) ok(1) e])
    show "rp_enableReconnect (request_example\<lparr>rp_enableReconnect := True\<rparr>)" by simp
  qed (simp_all add: sdk_example_def)
qed

definition reconnecting_example :: api_state where
  "reconnecting_example = map_node (\<lambda>n. n\<lparr>cn_workStatus := NodeClosed, cn_reconnection := rc_init\<lparr>rc_state := TriggerReconnection\<rparr>\<rparr>) api_example"

definition sdk_reconnecting :: "api_state speech_sdk" where
  "sdk_reconnecting = \<lparr>sdk_init = (\<lambda>s. s), sdk_createTranscriberRequest = (\<lambda>s. (Some 0, s)), sdk_start = (\<lambda>r c s. (0, s)),
     sdk_sendAudio = (\<lambda>r data s. request_sendAudio (env_example None) (\<lambda>_ n. n) data ENCODER_OPUS s)\<rparr>"

definition swr_loud :: "unit swr_lib" where
  "swr_loud = \<lparr>swr_get_delay = (\<lambda>w n. 0), swr_convert = (\<lambda>w n f. (1, [1, 2], w))\<rparr>"

definition asr_reconnecting :: "(byte list, unit, api_state) asr" where
  "asr_reconnecting = \<lparr>ar_appkey = [], ar_token = ''t'', ar_akId = [], ar_akSecret = [], ar_expireTime = 9, ar_decoder = True,
     ar_request = Some 0, ar_first_audio_pts = 0, ar_dict = [], ar_max_sentence_silence_ms = 200, ar_biz_client = True,
     ar_max_nb_samples = 0, ar_codec = [], ar_swr = (), ar_sdk = reconnecting_example\<rparr>"

lemma reconnecting_node: "as_node reconnecting_example =
    node_example\<lparr>cn_workStatus := NodeClosed, cn_reconnection := rc_init\<lparr>rc_state := TriggerReconnection\<rparr>\<rparr>"
  "en_client (as_net reconnecting_example)" "as_hasNode reconnecting_example"
  by (simp_all add: reconnecting_example_def map_node_def on_node_def as_node_def api_example_def thread_example_def
      initEventNetWork_def en_zero_def)

lemma unsent_packet_sets_base_witness:
  "\<exists>A'. asr_sendAudio sdk_reconnecting token_example codec_always swr_loud 0 (long_packet 7000) asr_reconnecting = Some (Returns (0, A'))
    \<and> ar_sdk A' = ar_sdk asr_reconnecting \<and> ar_first_audio_pts A' = pk_pts (long_packet 7000)"
  by (rule unsent_packet_sets_base [where E = "env_example None" and others = "\<lambda>_ n. n", OF _ _ _ _ _ _ reliable_example])
     (simp_all add: sdk_reconnecting_def asr_reconnecting_def reconnecting_node running_def ready_def swr_loud_def)

end
